(* ===== verification/Prelude.thy ===== *)
theory Prelude
  imports Main "HOL-Library.AList"
begin

text \<open>
  Shared vocabulary of the development.

  \<^item> Go's \<^verbatim>\<open>int64\<close> is modelled as \<open>int\<close> with the two's complement wrap-around written
    out: \<open>add64\<close>, \<open>sub64\<close>, \<open>mul64\<close>, \<open>quot64\<close> are the operators \<^verbatim>\<open>+ - * /\<close> of the code.
    \<open>in64\<close> is the range predicate; the collection \<open>int64_simps\<close> removes the wrap
    where the exact result is in range.
  \<^item> \<^verbatim>\<open>time.Time\<close> is the number of nanoseconds since the Unix epoch; \<open>zero_time\<close> is Go's
    zero value; \<open>time_sub\<close> is the saturating \<^verbatim>\<open>Time.Sub\<close>.
  \<^item> \<^verbatim>\<open>map[string]int64\<close> is a partial map read with \<open>getz\<close> (a missing key reads as 0).
  \<^item> A map that the code ranges over is an association list: its order is one of the
    iteration orders Go may choose.
  \<^item> \<open>show_int\<close> is the verb \<^verbatim>\<open>%d\<close>; \<open>trim_space\<close>, \<open>to_upper\<close>, \<open>to_lower\<close> are the functions of
    package strings on ASCII text.
  \<^item> \<open>keep_last\<close> is the truncation every bounded log of the program applies.
\<close>

section \<open>Machine integers\<close>

named_theorems int64_simps

definition i64 :: "int \<Rightarrow> int" where
  "i64 x = (x + 2 ^ 63) mod 2 ^ 64 - 2 ^ 63"

definition in64 :: "int \<Rightarrow> bool" where
  "in64 x \<longleftrightarrow> - (2 ^ 63) \<le> x \<and> x < 2 ^ 63"

definition add64 :: "int \<Rightarrow> int \<Rightarrow> int" where
  "add64 a b = i64 (a + b)"

definition sub64 :: "int \<Rightarrow> int \<Rightarrow> int" where
  "sub64 a b = i64 (a - b)"

definition mul64 :: "int \<Rightarrow> int \<Rightarrow> int" where
  "mul64 a b = i64 (a * b)"

definition quot64 :: "int \<Rightarrow> int \<Rightarrow> int" where
  "quot64 a b = i64 (sgn a * sgn b * (\<bar>a\<bar> div \<bar>b\<bar>))"

definition rem64 :: "int \<Rightarrow> int \<Rightarrow> int" where
  "rem64 a b = a - b * (sgn a * sgn b * (\<bar>a\<bar> div \<bar>b\<bar>))"

lemma i64_in64 [simp]: "in64 (i64 x)"
proof -
  have "0 \<le> (x + 2 ^ 63) mod 2 ^ 64" "(x + 2 ^ 63) mod 2 ^ 64 < 2 ^ 64"
    by simp_all
  then show ?thesis by (simp add: in64_def i64_def)
qed

lemma i64_id [simp]: "in64 x \<Longrightarrow> i64 x = x"
  by (simp add: in64_def i64_def)

lemma i64_idem [simp]: "i64 (i64 x) = i64 x"
  by simp

lemma in64_add64 [simp]: "in64 (add64 a b)" and in64_sub64 [simp]: "in64 (sub64 a b)"
  and in64_mul64 [simp]: "in64 (mul64 a b)" and in64_quot64 [simp]: "in64 (quot64 a b)"
  by (simp_all add: add64_def sub64_def mul64_def quot64_def)

lemma add64_exact [int64_simps]: "in64 (a + b) \<Longrightarrow> add64 a b = a + b"
  by (simp add: add64_def)

lemma sub64_exact [int64_simps]: "in64 (a - b) \<Longrightarrow> sub64 a b = a - b"
  by (simp add: sub64_def)

lemma mul64_exact [int64_simps]: "in64 (a * b) \<Longrightarrow> mul64 a b = a * b"
  by (simp add: mul64_def)

lemma quot64_exact [int64_simps]:
  "0 \<le> a \<Longrightarrow> 0 < b \<Longrightarrow> in64 a \<Longrightarrow> quot64 a b = a div b"
proof -
  assume a: "0 \<le> a" and b: "0 < b" and r: "in64 a"
  have "sgn a * sgn b * (\<bar>a\<bar> div \<bar>b\<bar>) = a div b"
    using a b by (cases "a = 0") simp_all
  moreover have "0 \<le> a div b" using a b by (simp add: pos_imp_zdiv_nonneg_iff)
  moreover have "a div b \<le> a"
    using a b by (metis div_by_1 zdiv_mono2 zero_less_one int_one_le_iff_zero_less)
  ultimately show ?thesis using r by (simp add: quot64_def in64_def)
qed

lemma sub64_range [int64_simps]: "0 \<le> b \<Longrightarrow> b \<le> a \<Longrightarrow> in64 a \<Longrightarrow> sub64 a b = a - b"
  by (simp add: sub64_def in64_def)

lemma add64_i64 [simp]: "add64 (i64 a) b = i64 (a + b)"
proof -
  have "(i64 a + b + 2 ^ 63) mod 2 ^ 64 = ((a + 2 ^ 63) mod 2 ^ 64 + b) mod 2 ^ 64"
    by (simp only: i64_def) (simp add: algebra_simps)
  also have "\<dots> = (a + b + 2 ^ 63) mod 2 ^ 64"
    by (simp only: mod_add_left_eq) (simp add: algebra_simps)
  finally show ?thesis by (simp only: add64_def i64_def [of "i64 a + b"] i64_def [of "a + b"])
qed

lemma in64_mono: "in64 b \<Longrightarrow> 0 \<le> a \<Longrightarrow> a \<le> b \<Longrightarrow> in64 a"
  by (simp add: in64_def)

lemma in64_0 [simp]: "in64 0" and in64_1 [simp]: "in64 1"
  by (simp_all add: in64_def)

lemma in64_diff_nonneg [intro]: "in64 a \<Longrightarrow> in64 b \<Longrightarrow> 0 \<le> a \<Longrightarrow> 0 \<le> b \<Longrightarrow> in64 (a - b)"
  by (simp add: in64_def)

definition min64 :: "int \<Rightarrow> int \<Rightarrow> int" where
  "min64 a b = (if a < b then a else b)"

definition max64 :: "int \<Rightarrow> int \<Rightarrow> int" where
  "max64 a b = (if a > b then a else b)"

lemma min64_min [simp]: "min64 a b = min a b"
  by (simp add: min64_def min_def)

lemma max64_max [simp]: "max64 a b = max a b"
  by (simp add: max64_def max_def)

section \<open>Time\<close>

type_synonym time = int
type_synonym duration = int

definition second :: duration where "second = 1000000000"
definition minute :: duration where "minute = 60 * second"
definition hour :: duration where "hour = 60 * minute"

definition zero_time :: time where "zero_time = - 62135596800 * second"

definition time_sub :: "time \<Rightarrow> time \<Rightarrow> duration" where
  "time_sub t u = max (- (2 ^ 63)) (min (2 ^ 63 - 1) (t - u))"

lemma time_sub_mono: "t \<le> t' \<Longrightarrow> time_sub t u \<le> time_sub t' u"
  unfolding time_sub_def by (intro max.mono min.mono order_refl) simp

lemma time_sub_le_iff: "0 \<le> d \<Longrightarrow> d < 2 ^ 63 - 1 \<Longrightarrow> time_sub t u \<le> d \<longleftrightarrow> t - u \<le> d"
  unfolding time_sub_def by (auto simp: max_def min_def)

lemma time_sub_pos_iff [simp]: "0 < time_sub t u \<longleftrightarrow> u < t"
  unfolding time_sub_def by (auto simp: max_def min_def)

section \<open>Maps with integer values\<close>

definition getz :: "('k \<rightharpoonup> int) \<Rightarrow> 'k \<Rightarrow> int" where
  "getz m k = (case m k of None \<Rightarrow> 0 | Some v \<Rightarrow> v)"

lemma getz_upd [simp]: "getz (m(k \<mapsto> v)) j = (if j = k then v else getz m j)"
  by (simp add: getz_def)

lemma getz_empty [simp]: "getz Map.empty k = 0"
  by (simp add: getz_def)

lemma set_update_alist:
  "distinct (map fst al) \<Longrightarrow> set (AList.update k v al) = insert (k, v) {x \<in> set al. fst x \<noteq> k}"
  by (induction al) (auto simp: image_iff)

section \<open>Bounded logs\<close>

definition keep_last :: "nat \<Rightarrow> 'a list \<Rightarrow> 'a list" where
  "keep_last n xs = (if length xs > n then drop (length xs - n) xs else xs)"

lemma keep_last_drop: "keep_last n xs = drop (length xs - n) xs"
  by (simp add: keep_last_def)

lemma length_keep_last [simp]: "length (keep_last n xs) = min n (length xs)"
  by (simp add: keep_last_drop min_def)

lemma keep_last_short [simp]: "length xs \<le> n \<Longrightarrow> keep_last n xs = xs"
  by (simp add: keep_last_def)

lemma keep_last_append: "keep_last n (keep_last n xs @ ys) = keep_last n (xs @ ys)"
  by (cases "length xs \<le> n") (simp_all add: keep_last_drop add.commute)

lemma set_keep_last: "set (keep_last n xs) \<subseteq> set xs"
  by (simp add: keep_last_drop set_drop_subset)

lemma keep_last_newest: "length ys \<le> n \<Longrightarrow> \<exists>zs. keep_last n (xs @ ys) = zs @ ys"
  by (simp add: keep_last_drop)

section \<open>Text\<close>

text \<open>
  \<open>show_nat\<close> and \<open>show_int\<close> are the decimal output of \<^verbatim>\<open>fmt.Sprintf("%d")\<close>. The functions of
  package strings are written for ASCII characters, which is what tickers, roles, actions
  and user names of the program are made of.
\<close>

fun show_nat :: "nat \<Rightarrow> string" where
  "show_nat n = (if n < 10 then [char_of (48 + n)] else show_nat (n div 10) @ [char_of (48 + n mod 10)])"

declare show_nat.simps [simp del]

definition show_int :: "int \<Rightarrow> string" where
  "show_int i = (if i < 0 then CHR ''-'' # show_nat (nat (- i)) else show_nat (nat i))"

definition is_digit :: "char \<Rightarrow> bool" where
  "is_digit c \<longleftrightarrow> 48 \<le> (of_char c :: nat) \<and> (of_char c :: nat) \<le> 57"

definition is_space :: "char \<Rightarrow> bool" where
  "is_space c \<longleftrightarrow> (of_char c :: nat) \<in> {9, 10, 11, 12, 13, 32}"

definition trim_space :: "string \<Rightarrow> string" where
  "trim_space s = rev (dropWhile is_space (rev (dropWhile is_space s)))"

definition upper_char :: "char \<Rightarrow> char" where
  "upper_char c = (let n = (of_char c :: nat) in if 97 \<le> n \<and> n \<le> 122 then char_of (n - 32) else c)"

definition lower_char :: "char \<Rightarrow> char" where
  "lower_char c = (let n = (of_char c :: nat) in if 65 \<le> n \<and> n \<le> 90 then char_of (n + 32) else c)"

definition to_upper :: "string \<Rightarrow> string" where
  "to_upper s = map upper_char s"

definition to_lower :: "string \<Rightarrow> string" where
  "to_lower s = map lower_char s"

text \<open>Reading the digits back: decimal output is injective.\<close>

definition digit_val :: "char \<Rightarrow> nat" where
  "digit_val c = of_char c - 48"

definition read_nat :: "string \<Rightarrow> nat" where
  "read_nat s = foldl (\<lambda>a c. 10 * a + digit_val c) 0 s"

lemma of_char_digit [simp]: "d < 10 \<Longrightarrow> (of_char (char_of (48 + d)) :: nat) = 48 + d"
  by simp

lemma read_nat_snoc: "read_nat (s @ [c]) = 10 * read_nat s + digit_val c"
  by (simp add: read_nat_def)

lemma read_show_nat [simp]: "read_nat (show_nat n) = n"
proof (induction n rule: show_nat.induct)
  case (1 n)
  show ?case
  proof (cases "n < 10")
    case True
    then show ?thesis
      by (subst show_nat.simps) (simp add: read_nat_def digit_val_def)
  next
    case False
    with 1 have ih: "read_nat (show_nat (n div 10)) = n div 10" by simp
    have "digit_val (char_of (48 + n mod 10)) = n mod 10"
      by (simp add: digit_val_def)
    with False ih show ?thesis
      by (subst show_nat.simps) (simp add: read_nat_snoc)
  qed
qed

lemma show_nat_digits: "\<forall>c \<in> set (show_nat n). is_digit c"
proof (induction n rule: show_nat.induct)
  case (1 n)
  show ?case
  proof (cases "n < 10")
    case True
    then show ?thesis by (subst show_nat.simps) (simp add: is_digit_def)
  next
    case False
    with 1 show ?thesis by (subst show_nat.simps) (auto simp: is_digit_def)
  qed
qed

lemma show_nat_nonempty [simp]: "show_nat n \<noteq> []"
  by (subst show_nat.simps) simp

lemma show_nat_inject [simp]: "show_nat m = show_nat n \<longleftrightarrow> m = n"
  by (metis read_show_nat)

lemma show_nat_no_minus: "CHR ''-'' \<notin> set (show_nat n)"
  using show_nat_digits [of n] by (auto simp: is_digit_def)

lemma show_int_inject [simp]: "show_int i = show_int j \<longleftrightarrow> i = j"
proof
  assume eq: "show_int i = show_int j"
  have no: "show_nat a \<noteq> CHR ''-'' # t" for a t
    using show_nat_no_minus [of a] by (metis list.set_intros(1))
  show "i = j"
    using eq by (auto simp: show_int_def no no [symmetric] split: if_splits)
qed simp

end
