(* ===== verification/OrderBook.thy ===== *)
theory OrderBook
  imports Prelude "HOL-Library.While_Combinator"
begin

text \<open>
  The limit order book of one ticker (\<^verbatim>\<open>internal/orderbook/orderbook.go\<close>).

  The book keeps, per side, a map from prices to the orders resting there in arrival order
  and a sorted list of the prices in use. \<open>Place\<close> runs the matching loop
  (\<open>while_option\<close>, so a loop that never stops is \<open>None\<close>) and then rests or drops what
  is left of the order; \<open>Cancel\<close> removes an order by its id; \<open>book_snapshot\<close> is the depth
  view. Orders are held by pointer in the code: the matching loop decrements the resting
  order through the pointer \<^verbatim>\<open>bestOpposingOrder\<close> returns, which \<open>write_best\<close> models as a write
  to the head of the best level.

  The clock is a parameter: \<open>clk i\<close> is the i-th reading of \<^verbatim>\<open>time.Now\<close> during the call.
  The string types \<^verbatim>\<open>Side\<close> and \<^verbatim>\<open>OrderType\<close> are datatypes whose last constructor stands for any
  string that is not one of the declared constants.
\<close>

section \<open>Data\<close>

datatype side = SideBuy | SideSell | SideOther string

datatype order_type = OrderTypeLimit | OrderTypeMarket | OrderTypeOther string

datatype order_status =
  OrderStatusUnset | OrderStatusOpen | OrderStatusPartial | OrderStatusFilled | OrderStatusCancelled

record order =
  o_id :: string
  o_request_id :: string
  o_player_id :: string
  o_player_role :: string
  o_symbol :: string
  o_side :: side
  o_type :: order_type
  o_price :: int
  o_quantity :: int
  o_remaining :: int
  o_status :: order_status
  o_created_at :: time

record level =
  lv_price :: int
  lv_quantity :: int
  lv_order_count :: nat

record trade =
  t_id :: string
  t_symbol :: string
  t_price :: int
  t_quantity :: int
  t_aggressor_side :: side
  t_buy_order_id :: string
  t_sell_order_id :: string
  t_buyer_id :: string
  t_seller_id :: string
  t_buyer_role :: string
  t_seller_role :: string
  t_executed_at :: time

record snapshot =
  sn_symbol :: string
  sn_last_trade_price :: int
  sn_sequence :: int
  sn_bids :: "level list"
  sn_asks :: "level list"
  sn_generated_at :: time

record placement =
  pr_order :: order
  pr_trades :: "trade list"
  pr_snapshot :: snapshot
  pr_resting :: "order option"
  pr_removed :: "string list"

record book =
  b_symbol :: string
  bids :: "int \<rightharpoonup> order list"
  asks :: "int \<rightharpoonup> order list"
  bid_prices :: "int list"
  ask_prices :: "int list"
  last_trade_price :: int
  sequence :: int

datatype book_error =
    SymbolRequired | PlayerIdRequired | OrderIdRequired | QuantityNotPositive
  | UnsupportedSide side | UnsupportedOrderType order_type | LimitPriceNotPositive
  | NoAsks | EmptyAskLevel | NoBids | EmptyBidLevel | MissingBidLevel | MissingAskLevel
  | OrderNotFound string

type_synonym levels = "int \<rightharpoonup> order list"

section \<open>Operations\<close>

definition new_book :: "string \<Rightarrow> int \<Rightarrow> book" where
  "new_book symbol last_price =
     \<lparr>b_symbol = symbol, bids = Map.empty, asks = Map.empty, bid_prices = [], ask_prices = [],
      last_trade_price = last_price, sequence = 0\<rparr>"

definition validate :: "order \<Rightarrow> book_error option" where
  "validate ord =
     (if o_symbol ord = [] then Some SymbolRequired
      else if o_player_id ord = [] then Some PlayerIdRequired
      else if o_id ord = [] then Some OrderIdRequired
      else if o_quantity ord \<le> 0 then Some QuantityNotPositive
      else if o_side ord \<noteq> SideBuy \<and> o_side ord \<noteq> SideSell then Some (UnsupportedSide (o_side ord))
      else if o_type ord \<noteq> OrderTypeLimit \<and> o_type ord \<noteq> OrderTypeMarket
        then Some (UnsupportedOrderType (o_type ord))
      else if o_type ord = OrderTypeLimit \<and> o_price ord \<le> 0 then Some LimitPriceNotPositive
      else None)"

text \<open>A read of a missing key of a Go map is the zero value, here the nil slice.\<close>

definition level_orders :: "levels \<Rightarrow> int \<Rightarrow> order list" where
  "level_orders m p = (case m p of None \<Rightarrow> [] | Some os \<Rightarrow> os)"

fun bestOpposingOrder :: "book \<Rightarrow> side \<Rightarrow> book_error + order" where
  "bestOpposingOrder b SideBuy =
     (case ask_prices b of [] \<Rightarrow> Inl NoAsks
      | p # _ \<Rightarrow> (case level_orders (asks b) p of [] \<Rightarrow> Inl EmptyAskLevel | q # _ \<Rightarrow> Inr q))"
| "bestOpposingOrder b SideSell =
     (case bid_prices b of [] \<Rightarrow> Inl NoBids
      | p # _ \<Rightarrow> (case level_orders (bids b) p of [] \<Rightarrow> Inl EmptyBidLevel | q # _ \<Rightarrow> Inr q))"
| "bestOpposingOrder b (SideOther s) = Inl (UnsupportedSide (SideOther s))"

fun write_best :: "book \<Rightarrow> side \<Rightarrow> order \<Rightarrow> book" where
  "write_best b SideBuy q =
     (case ask_prices b of [] \<Rightarrow> b
      | p # _ \<Rightarrow> b\<lparr>asks := (asks b)(p \<mapsto> q # tl (level_orders (asks b) p))\<rparr>)"
| "write_best b SideSell q =
     (case bid_prices b of [] \<Rightarrow> b
      | p # _ \<Rightarrow> b\<lparr>bids := (bids b)(p \<mapsto> q # tl (level_orders (bids b) p))\<rparr>)"
| "write_best b (SideOther s) q = b"

definition canCross :: "book \<Rightarrow> order \<Rightarrow> bool" where
  "canCross b ord =
     (case o_side ord of
        SideBuy \<Rightarrow> (case ask_prices b of [] \<Rightarrow> False
                    | best_ask # _ \<Rightarrow> o_type ord = OrderTypeMarket \<or> o_price ord \<ge> best_ask)
      | SideSell \<Rightarrow> (case bid_prices b of [] \<Rightarrow> False
                    | best_bid # _ \<Rightarrow> o_type ord = OrderTypeMarket \<or> o_price ord \<le> best_bid)
      | SideOther _ \<Rightarrow> False)"

definition insert_bid_price :: "int \<Rightarrow> int list \<Rightarrow> int list" where
  "insert_bid_price p ps = rev (sort (ps @ [p]))"

definition insert_ask_price :: "int \<Rightarrow> int list \<Rightarrow> int list" where
  "insert_ask_price p ps = sort (ps @ [p])"

definition addResting :: "order \<Rightarrow> book \<Rightarrow> book" where
  "addResting ord b =
     (if o_remaining ord \<le> 0 then b
      else (case o_side ord of
        SideBuy \<Rightarrow>
          b\<lparr>bid_prices := (if bids b (o_price ord) = None
                            then insert_bid_price (o_price ord) (bid_prices b) else bid_prices b),
            bids := (bids b)(o_price ord \<mapsto> level_orders (bids b) (o_price ord) @ [ord])\<rparr>
      | SideSell \<Rightarrow>
          b\<lparr>ask_prices := (if asks b (o_price ord) = None
                            then insert_ask_price (o_price ord) (ask_prices b) else ask_prices b),
            asks := (asks b)(o_price ord \<mapsto> level_orders (asks b) (o_price ord) @ [ord])\<rparr>
      | SideOther _ \<Rightarrow> b))"

definition removePrice :: "int list \<Rightarrow> int \<Rightarrow> int list" where
  "removePrice prices target = remove1 target prices"

fun removeHead :: "side \<Rightarrow> int \<Rightarrow> book \<Rightarrow> book_error + book" where
  "removeHead SideBuy p b =
     (case level_orders (bids b) p of [] \<Rightarrow> Inl MissingBidLevel
      | _ # [] \<Rightarrow> Inr (b\<lparr>bids := (bids b)(p := None), bid_prices := removePrice (bid_prices b) p\<rparr>)
      | _ # os \<Rightarrow> Inr (b\<lparr>bids := (bids b)(p \<mapsto> os)\<rparr>))"
| "removeHead SideSell p b =
     (case level_orders (asks b) p of [] \<Rightarrow> Inl MissingAskLevel
      | _ # [] \<Rightarrow> Inr (b\<lparr>asks := (asks b)(p := None), ask_prices := removePrice (ask_prices b) p\<rparr>)
      | _ # os \<Rightarrow> Inr (b\<lparr>asks := (asks b)(p \<mapsto> os)\<rparr>))"
| "removeHead (SideOther s) p b = Inl (UnsupportedSide (SideOther s))"

definition levelFromOrders :: "int \<Rightarrow> order list \<Rightarrow> level" where
  "levelFromOrders p os =
     \<lparr>lv_price = p, lv_quantity = foldl (\<lambda>acc ord. add64 acc (o_remaining ord)) 0 os,
      lv_order_count = length os\<rparr>"

definition book_snapshot :: "book \<Rightarrow> int \<Rightarrow> time \<Rightarrow> snapshot" where
  "book_snapshot b depth now =
     (let d = nat (if depth \<le> 0 then 10 else depth) in
      \<lparr>sn_symbol = b_symbol b, sn_last_trade_price = last_trade_price b, sn_sequence = sequence b,
       sn_bids = map (\<lambda>p. levelFromOrders p (level_orders (bids b) p)) (take d (bid_prices b)),
       sn_asks = map (\<lambda>p. levelFromOrders p (level_orders (asks b) p)) (take d (ask_prices b)),
       sn_generated_at = now\<rparr>)"

definition normalizeOrder :: "order \<Rightarrow> order" where
  "normalizeOrder ord =
     ord\<lparr>o_status :=
       (if o_remaining ord = 0 then OrderStatusFilled
        else if o_remaining ord < o_quantity ord then OrderStatusPartial
        else if o_type ord = OrderTypeMarket then OrderStatusCancelled
        else OrderStatusOpen)\<rparr>"

subsection \<open>Placing an order\<close>

text \<open>The price of one fill, and the trade record it leaves.\<close>

definition trade_price :: "book \<Rightarrow> order \<Rightarrow> order \<Rightarrow> int" where
  "trade_price b incoming resting =
     (let tp = (if o_type resting = OrderTypeMarket then last_trade_price b else o_price resting)
      in if tp = 0 then o_price incoming else tp)"

definition make_trade :: "order \<Rightarrow> order \<Rightarrow> int \<Rightarrow> int \<Rightarrow> nat \<Rightarrow> time \<Rightarrow> trade" where
  "make_trade incoming resting price qty n now =
     (let base = \<lparr>t_id = o_request_id incoming @ ''-'' @ show_int (int n + 1),
                  t_symbol = o_symbol incoming, t_price = price, t_quantity = qty,
                  t_aggressor_side = o_side incoming,
                  t_buy_order_id = [], t_sell_order_id = [], t_buyer_id = [], t_seller_id = [],
                  t_buyer_role = [], t_seller_role = [], t_executed_at = now\<rparr>
      in if o_side incoming = SideBuy
         then base\<lparr>t_buy_order_id := o_id incoming, t_sell_order_id := o_id resting,
                   t_buyer_id := o_player_id incoming, t_seller_id := o_player_id resting,
                   t_buyer_role := o_player_role incoming, t_seller_role := o_player_role resting\<rparr>
         else base\<lparr>t_buy_order_id := o_id resting, t_sell_order_id := o_id incoming,
                   t_buyer_id := o_player_id resting, t_seller_id := o_player_id incoming,
                   t_buyer_role := o_player_role resting, t_seller_role := o_player_role incoming\<rparr>)"

record place_state =
  ps_book :: book
  ps_order :: order
  ps_trades :: "trade list"
  ps_removed :: "string list"
  ps_error :: "book_error option"

definition place_cond :: "place_state \<Rightarrow> bool" where
  "place_cond s \<longleftrightarrow>
     ps_error s = None \<and> 0 < o_remaining (ps_order s) \<and> canCross (ps_book s) (ps_order s)"

definition place_step :: "(nat \<Rightarrow> time) \<Rightarrow> place_state \<Rightarrow> place_state" where
  "place_step clk s =
     (let b = ps_book s; ord = ps_order s in
      case bestOpposingOrder b (o_side ord) of
        Inl e \<Rightarrow> s\<lparr>ps_error := Some e\<rparr>
      | Inr resting \<Rightarrow>
          (let fill = min64 (o_remaining ord) (o_remaining resting);
               tp = trade_price b ord resting;
               tr = make_trade ord resting tp fill (length (ps_trades s)) (clk (Suc (length (ps_trades s))));
               ord' = ord\<lparr>o_remaining := sub64 (o_remaining ord) fill\<rparr>;
               resting' = resting\<lparr>o_remaining := sub64 (o_remaining resting) fill\<rparr>;
               b' = b\<lparr>last_trade_price := tp, sequence := add64 (sequence b) 1\<rparr>;
               s' = s\<lparr>ps_order := ord', ps_trades := ps_trades s @ [tr]\<rparr>
           in if o_remaining resting' = 0
              then (let b2 = write_best b' (o_side ord) (resting'\<lparr>o_status := OrderStatusFilled\<rparr>) in
                    case removeHead (o_side resting) (o_price resting) b2 of
                      Inl e \<Rightarrow> s'\<lparr>ps_book := b2, ps_error := Some e\<rparr>
                    | Inr b3 \<Rightarrow> s'\<lparr>ps_book := b3, ps_removed := ps_removed s @ [o_id resting]\<rparr>)
              else s'\<lparr>ps_book :=
                     write_best b' (o_side ord) (resting'\<lparr>o_status := OrderStatusPartial\<rparr>)\<rparr>))"

text \<open>What happens to the remainder after the loop: the status switch of \<^verbatim>\<open>Place\<close>.\<close>

definition settle_remainder :: "order \<Rightarrow> book \<Rightarrow> order \<times> order option \<times> book" where
  "settle_remainder ord b =
     (if o_remaining ord = 0 then (ord\<lparr>o_status := OrderStatusFilled\<rparr>, None, b)
      else if o_remaining ord < o_quantity ord then
        (if o_type ord = OrderTypeMarket then (ord\<lparr>o_status := OrderStatusPartial\<rparr>, None, b)
         else (let r = ord\<lparr>o_status := OrderStatusPartial\<rparr> in (r, Some r, addResting r b)))
      else
        (if o_type ord = OrderTypeMarket then (ord\<lparr>o_status := OrderStatusCancelled\<rparr>, None, b)
         else (let r = ord\<lparr>o_status := OrderStatusOpen\<rparr> in (r, Some r, addResting r b))))"

definition prepare_order :: "(nat \<Rightarrow> time) \<Rightarrow> order \<Rightarrow> order" where
  "prepare_order clk ord =
     (let o1 = (if o_created_at ord = zero_time then ord\<lparr>o_created_at := clk 0\<rparr> else ord)
      in if o_remaining o1 = 0 then o1\<lparr>o_remaining := o_quantity o1\<rparr> else o1)"

definition match_loop :: "(nat \<Rightarrow> time) \<Rightarrow> order \<Rightarrow> book \<Rightarrow> place_state option" where
  "match_loop clk ord b =
     while_option place_cond (place_step clk)
       \<lparr>ps_book = b, ps_order = ord, ps_trades = [], ps_removed = [], ps_error = None\<rparr>"

text \<open>
  \<open>Place clk ord b\<close>: \<open>None\<close> if the matching loop does not stop, otherwise the result (an error
  or the placement) together with the book as the call leaves it.
\<close>

definition Place :: "(nat \<Rightarrow> time) \<Rightarrow> order \<Rightarrow> book \<Rightarrow> ((book_error + placement) \<times> book) option" where
  "Place clk ord b =
     (case validate ord of
        Some e \<Rightarrow> Some (Inl e, b)
      | None \<Rightarrow>
          (case match_loop clk (prepare_order clk ord) b of
             None \<Rightarrow> None
           | Some s \<Rightarrow>
               (case ps_error s of
                  Some e \<Rightarrow> Some (Inl e, ps_book s)
                | None \<Rightarrow>
                    (case settle_remainder (ps_order s) (ps_book s) of
                       (ord', resting, b1) \<Rightarrow>
                         (let b2 = b1\<lparr>sequence := add64 (sequence b1) 1\<rparr> in
                          Some (Inr \<lparr>pr_order = normalizeOrder ord', pr_trades = ps_trades s,
                                     pr_snapshot = book_snapshot b2 10 (clk (Suc (Suc (length (ps_trades s))))),
                                     pr_resting = resting, pr_removed = ps_removed s\<rparr>, b2))))))"

subsection \<open>Cancelling an order\<close>

fun cancel_in_level :: "string \<Rightarrow> order list \<Rightarrow> (order \<times> order list) option" where
  "cancel_in_level oid [] = None"
| "cancel_in_level oid (q # qs) =
     (if o_id q \<noteq> oid
      then (case cancel_in_level oid qs of None \<Rightarrow> None | Some (c, rest) \<Rightarrow> Some (c, q # rest))
      else Some (q, qs))"

fun cancel_in_side :: "string \<Rightarrow> int list \<Rightarrow> int list \<Rightarrow> levels \<Rightarrow> (order \<times> int list \<times> levels) option" where
  "cancel_in_side oid [] prices m = None"
| "cancel_in_side oid (p # ps) prices m =
     (case cancel_in_level oid (level_orders m p) of
        None \<Rightarrow> cancel_in_side oid ps prices m
      | Some (c, rest) \<Rightarrow>
          Some (c\<lparr>o_status := OrderStatusCancelled\<rparr>,
                (if rest = [] then removePrice prices p else prices),
                (if rest = [] then m(p := None) else m(p \<mapsto> rest))))"

definition Cancel :: "string \<Rightarrow> time \<Rightarrow> book \<Rightarrow> (book_error + order \<times> snapshot) \<times> book" where
  "Cancel oid now b =
     (case cancel_in_side oid (bid_prices b) (bid_prices b) (bids b) of
        Some (c, ps, m) \<Rightarrow>
          (let b' = b\<lparr>bids := m, bid_prices := ps, sequence := add64 (sequence b) 1\<rparr>
           in (Inr (c, book_snapshot b' 10 now), b'))
      | None \<Rightarrow>
          (case cancel_in_side oid (ask_prices b) (ask_prices b) (asks b) of
             Some (c, ps, m) \<Rightarrow>
               (let b' = b\<lparr>asks := m, ask_prices := ps, sequence := add64 (sequence b) 1\<rparr>
                in (Inr (c, book_snapshot b' 10 now), b'))
           | None \<Rightarrow> (Inl (OrderNotFound oid), b)))"

end
