(* ===== verification/PriceLadder.thy ===== *)
theory PriceLadder
  imports OrderBook
begin

text \<open>
  One side of the book as an ordered ladder of price levels.

  The two sides of \<^verbatim>\<open>Book\<close> differ only in the direction of their price order, so what the
  matching code relies on is stated once, in the locale \<open>price_ladder\<close>: a strict total
  order on prices and an operation that adds a new price to a sorted price list. The bids
  interpret it with \<open>>\<close> and \<open>insert_bid_price\<close>, the asks with \<open><\<close> and \<open>insert_ask_price\<close>.
  \<open>queue\<close> flattens a ladder into its orders in price-time priority; the lemmas say what
  each update of the code does to that queue.
\<close>

definition queue :: "int list \<Rightarrow> levels \<Rightarrow> order list" where
  "queue ps m = concat (map (level_orders m) ps)"

definition ladder_ok ::
  "(int \<Rightarrow> int \<Rightarrow> bool) \<Rightarrow> (int \<Rightarrow> order \<Rightarrow> bool) \<Rightarrow> int list \<Rightarrow> levels \<Rightarrow> bool" where
  "ladder_ok before ok ps m \<longleftrightarrow>
     sorted_wrt before ps \<and> (\<forall>p. p \<notin> set ps \<longrightarrow> m p = None) \<and>
     (\<forall>p \<in> set ps. level_orders m p \<noteq> [] \<and> (\<forall>q \<in> set (level_orders m p). ok p q))"

text \<open>The abstract effect of resting an order: it goes behind every order that is at least as
  good as it is.\<close>

definition enqueue :: "(int \<Rightarrow> int \<Rightarrow> bool) \<Rightarrow> order \<Rightarrow> order list \<Rightarrow> order list" where
  "enqueue before ord qs =
     takeWhile (\<lambda>q. \<not> before (o_price ord) (o_price q)) qs @
     ord # dropWhile (\<lambda>q. \<not> before (o_price ord) (o_price q)) qs"

lemma level_orders_upd [simp]:
  "level_orders (m(p \<mapsto> os)) x = (if x = p then os else level_orders m x)"
  "level_orders (m(p := None)) x = (if x = p then [] else level_orders m x)"
  by (simp_all add: level_orders_def)

lemma queue_Nil [simp]: "queue [] m = []"
  by (simp add: queue_def)

lemma queue_Cons [simp]: "queue (p # ps) m = level_orders m p @ queue ps m"
  by (simp add: queue_def)

lemma queue_append [simp]: "queue (ps @ qs) m = queue ps m @ queue qs m"
  by (simp add: queue_def)

lemma queue_upd_other:
  "p \<notin> set ps \<Longrightarrow> queue ps (m(p := x)) = queue ps m"
  by (induction ps) (auto simp: level_orders_def)

lemma set_queue: "set (queue ps m) = (\<Union>p \<in> set ps. set (level_orders m p))"
  by (simp add: queue_def)

lemma queue_prices:
  assumes "\<And>x q. x \<in> set ps \<Longrightarrow> q \<in> set (level_orders m x) \<Longrightarrow> o_price q = x"
    and "\<And>x. x \<in> set ps \<Longrightarrow> R x"
  shows "\<forall>q \<in> set (queue ps m). R (o_price q)"
  using assms by (fastforce simp: set_queue)

lemma split_while:
  assumes "\<forall>x \<in> set xs. P x" and "\<forall>y \<in> set ys. \<not> P y"
  shows "takeWhile P (xs @ ys) = xs" and "dropWhile P (xs @ ys) = ys"
  using assms by (cases ys; simp)+

lemma cancel_in_level_append:
  "cancel_in_level oid (xs @ ys) =
     (case cancel_in_level oid xs of
        Some (c, r) \<Rightarrow> Some (c, r @ ys)
      | None \<Rightarrow> (case cancel_in_level oid ys of None \<Rightarrow> None | Some (c, r) \<Rightarrow> Some (c, xs @ r)))"
  by (induction xs) (auto split: option.splits prod.splits)

lemma cancel_in_level_Some:
  "cancel_in_level oid qs = Some (c, rest) \<Longrightarrow>
     \<exists>as bs. qs = as @ c # bs \<and> rest = as @ bs \<and> o_id c = oid \<and> (\<forall>a \<in> set as. o_id a \<noteq> oid)"
proof (induction qs arbitrary: rest)
  case (Cons q qs)
  show ?case
  proof (cases "o_id q = oid")
    case True
    with Cons.prems show ?thesis by (intro exI [of _ "[]"] exI [of _ qs]) auto
  next
    case False
    with Cons.prems obtain r where r: "cancel_in_level oid qs = Some (c, r)" "rest = q # r"
      by (auto split: option.splits)
    with Cons.IH obtain as bs where
      "qs = as @ c # bs" "r = as @ bs" "o_id c = oid" "\<forall>a \<in> set as. o_id a \<noteq> oid" by blast
    with False r show ?thesis by (intro exI [of _ "q # as"] exI [of _ bs]) auto
  qed
qed simp

lemma cancel_in_level_None: "cancel_in_level oid qs = None \<longleftrightarrow> (\<forall>q \<in> set qs. o_id q \<noteq> oid)"
  by (induction qs) (auto split: option.splits)

locale price_ladder =
  fixes before :: "int \<Rightarrow> int \<Rightarrow> bool"
    and insert_price :: "int \<Rightarrow> int list \<Rightarrow> int list"
  assumes irrefl: "\<not> before p p"
    and trans: "before p q \<Longrightarrow> before q r \<Longrightarrow> before p r"
    and total: "p \<noteq> q \<Longrightarrow> before p q \<or> before q p"
    and set_insert_price: "set (insert_price p ps) = insert p (set ps)"
    and sorted_insert_price:
      "sorted_wrt before ps \<Longrightarrow> p \<notin> set ps \<Longrightarrow> sorted_wrt before (insert_price p ps)"
begin

lemma asym: "before p q \<Longrightarrow> \<not> before q p"
  using trans irrefl by blast

lemma sorted_distinct: "sorted_wrt before ps \<Longrightarrow> distinct ps"
  by (induction ps) (auto simp: irrefl)

lemma sorted_unique:
  "sorted_wrt before xs \<Longrightarrow> sorted_wrt before ys \<Longrightarrow> set xs = set ys \<Longrightarrow> xs = ys"
proof (induction xs arbitrary: ys)
  case (Cons x xs)
  then obtain y ys' where ys: "ys = y # ys'" by (cases ys) auto
  have "x = y"
    using Cons.prems ys by (metis insert_iff irrefl list.simps(15) sorted_wrt.simps(2) trans)
  moreover have "x \<notin> set xs" "y \<notin> set ys'"
    using Cons.prems(1,2) ys by (auto simp: irrefl)
  ultimately show ?case
    using Cons ys by (metis insert_ident list.simps(15) sorted_wrt.simps(2))
qed simp

lemma insert_price_split:
  assumes "sorted_wrt before (as @ bs)" "p \<notin> set (as @ bs)"
    and "\<forall>a \<in> set as. before a p" "\<forall>b \<in> set bs. before p b"
  shows "insert_price p (as @ bs) = as @ p # bs"
proof (rule sorted_unique)
  show "sorted_wrt before (insert_price p (as @ bs))" using assms by (simp add: sorted_insert_price)
  show "sorted_wrt before (as @ p # bs)"
    using assms by (auto simp: sorted_wrt_append)
  show "set (insert_price p (as @ bs)) = set (as @ p # bs)" by (auto simp: set_insert_price)
qed

lemma split_at:
  assumes "sorted_wrt before ps"
  obtains as bs where "ps = as @ bs" "\<forall>a \<in> set as. before a p" "\<forall>b \<in> set bs. b = p \<or> before p b"
  using assms
proof (induction ps arbitrary: thesis)
  case Nil
  then show ?case by simp
next
  case (Cons x xs)
  show ?case
  proof (cases "before x p")
    case True
    from Cons.IH Cons.prems(2) obtain as bs where
      "xs = as @ bs" "\<forall>a \<in> set as. before a p" "\<forall>b \<in> set bs. b = p \<or> before p b" by auto
    with True show ?thesis by (intro Cons.prems(1) [of "x # as" bs]) auto
  next
    case False
    then have x: "x = p \<or> before p x" using total by blast
    with Cons.prems(2) have "\<forall>b \<in> set (x # xs). b = p \<or> before p b" by (auto intro: trans)
    then show ?thesis by (intro Cons.prems(1) [of "[]" "x # xs"]) auto
  qed
qed

lemma ladder_ok_distinct: "ladder_ok before ok ps m \<Longrightarrow> distinct ps"
  by (simp add: ladder_ok_def sorted_distinct)

lemma ladder_ok_level:
  "ladder_ok before ok ps m \<Longrightarrow> p \<in> set ps \<Longrightarrow> q \<in> set (level_orders m p) \<Longrightarrow> ok p q"
  by (simp add: ladder_ok_def)

lemma ladder_ok_upd:
  assumes "ladder_ok before ok ps m" "p \<in> set ps" "os \<noteq> []" "\<forall>q \<in> set os. ok p q"
  shows "ladder_ok before ok ps (m(p \<mapsto> os))"
  using assms by (auto simp: ladder_ok_def level_orders_def)

lemma write_head_ok:
  assumes lad: "ladder_ok before ok (p # ps) m" and lv: "level_orders m p = q # qs" and q': "ok p q'"
  shows "ladder_ok before ok (p # ps) (m(p \<mapsto> q' # qs))"
    and "queue (p # ps) (m(p \<mapsto> q' # qs)) = q' # qs @ queue ps m"
proof -
  have "\<forall>x \<in> set (q' # qs). ok p x" using ladder_ok_level [OF lad, of p] lv q' by simp
  then show "ladder_ok before ok (p # ps) (m(p \<mapsto> q' # qs))"
    by (intro ladder_ok_upd [OF lad]) simp_all
  show "queue (p # ps) (m(p \<mapsto> q' # qs)) = q' # qs @ queue ps m"
    using ladder_ok_distinct [OF lad] by (simp add: queue_upd_other del: fun_upd_apply)
qed

lemma pop_level_ok:
  assumes lad: "ladder_ok before ok (p # ps) m"
  shows "ladder_ok before ok ps (m(p := None))"
    and "queue ps (m(p := None)) = queue ps m"
proof -
  have p: "p \<notin> set ps" using ladder_ok_distinct [OF lad] by simp
  then show "queue ps (m(p := None)) = queue ps m" by (simp add: queue_upd_other)
  have "level_orders (m(p := None)) x = level_orders m x" if "x \<in> set ps" for x
    using that p by auto
  then show "ladder_ok before ok ps (m(p := None))"
    using lad by (simp add: ladder_ok_def)
qed

lemma pop_head_ok:
  assumes lad: "ladder_ok before ok (p # ps) m" and lv: "level_orders m p = q # r # rs"
  shows "ladder_ok before ok (p # ps) (m(p \<mapsto> r # rs))"
    and "queue (p # ps) (m(p \<mapsto> r # rs)) = r # rs @ queue ps m"
proof -
  have "\<forall>x \<in> set (r # rs). ok p x" using ladder_ok_level [OF lad, of p] lv by simp
  then show "ladder_ok before ok (p # ps) (m(p \<mapsto> r # rs))"
    by (intro ladder_ok_upd [OF lad]) simp_all
  show "queue (p # ps) (m(p \<mapsto> r # rs)) = r # rs @ queue ps m"
    using ladder_ok_distinct [OF lad] by (simp add: queue_upd_other del: fun_upd_apply)
qed

lemma queue_head_ok:
  assumes "ladder_ok before ok (p # ps) m"
  obtains q qs where "level_orders m p = q # qs" "ok p q" "queue (p # ps) m = q # qs @ queue ps m"
  using assms by (cases "level_orders m p") (auto simp: ladder_ok_def)

lemma ladder_ok_None_iff: "ladder_ok before ok ps m \<Longrightarrow> m p = None \<longleftrightarrow> p \<notin> set ps"
  by (auto simp: ladder_ok_def level_orders_def)

lemma add_resting_ok:
  assumes lad: "ladder_ok before ok ps m" and new: "ok p ord"
  shows "ladder_ok before ok (if m p = None then insert_price p ps else ps)
           (m(p \<mapsto> level_orders m p @ [ord]))"
proof (cases "m p = None")
  case True
  then have p: "p \<notin> set ps" using ladder_ok_None_iff [OF lad] by simp
  have lv: "level_orders m p = []" using True by (simp add: level_orders_def)
  have "level_orders (m(p \<mapsto> [ord])) x = level_orders m x" if "x \<in> set ps" for x
    using that p by auto
  then show ?thesis
    using lad new True p lv by (simp add: ladder_ok_def set_insert_price sorted_insert_price)
next
  case False
  then have p: "p \<in> set ps" using ladder_ok_None_iff [OF lad] by simp
  have "\<forall>q \<in> set (level_orders m p @ [ord]). ok p q" using ladder_ok_level [OF lad p] new by auto
  then have "ladder_ok before ok ps (m(p \<mapsto> level_orders m p @ [ord]))"
    by (intro ladder_ok_upd [OF lad p]) simp_all
  with False show ?thesis by (simp only: if_False)
qed

lemma enqueue_between:
  assumes price: "\<And>x q. x \<in> set (as @ bs) \<Longrightarrow> q \<in> set (level_orders m x) \<Longrightarrow> o_price q = x"
    and mid: "\<forall>q \<in> set mid. o_price q = p" and as: "\<forall>a \<in> set as. before a p" and bs: "\<forall>b \<in> set bs. before p b"
    and p: "o_price ord = p"
  shows "enqueue before ord (queue as m @ mid @ queue bs m) = queue as m @ mid @ ord # queue bs m"
proof -
  have "\<forall>q \<in> set (queue as m). \<not> before p (o_price q)"
    by (rule queue_prices) (use price as asym in auto)
  then have better: "\<forall>q \<in> set (queue as m @ mid). \<not> before p (o_price q)" using mid irrefl by auto
  have "\<forall>q \<in> set (queue bs m). before p (o_price q)"
    by (rule queue_prices) (use price bs in auto)
  then show ?thesis using split_while [of "queue as m @ mid" "\<lambda>q. \<not> before p (o_price q)" "queue bs m", OF better] p
    by (simp add: enqueue_def)
qed

lemma add_resting_queue:
  assumes lad: "ladder_ok before ok ps m" and pr: "\<And>p q. ok p q \<Longrightarrow> o_price q = p"
    and p: "o_price ord = p"
  shows "queue (if m p = None then insert_price p ps else ps) (m(p \<mapsto> level_orders m p @ [ord]))
           = enqueue before ord (queue ps m)"
proof -
  have sorted: "sorted_wrt before ps" and dm: "m p = None \<longleftrightarrow> p \<notin> set ps"
    using lad ladder_ok_None_iff [OF lad] by (simp_all add: ladder_ok_def)
  have price: "o_price q = x" if "x \<in> set ps" "q \<in> set (level_orders m x)" for x q
    using ladder_ok_level [OF lad that] pr by simp
  show ?thesis
  proof (cases "m p = None")
    case True
    obtain as bs where ps: "ps = as @ bs" "\<forall>a \<in> set as. before a p" "\<forall>b \<in> set bs. b = p \<or> before p b"
      using split_at [OF sorted] by blast
    have nin: "p \<notin> set (as @ bs)" and bs: "\<forall>b \<in> set bs. before p b" using True dm ps by auto
    have ins: "insert_price p ps = as @ p # bs"
      using insert_price_split [of as bs p] sorted nin ps bs by simp
    have lv: "level_orders m p = []" using True by (simp add: level_orders_def)
    show ?thesis
      using True nin lv enqueue_between [of as bs m "[]" p ord, OF price [unfolded ps(1)] _ ps(2) bs p]
      by (simp add: ins [unfolded ps(1)] ps(1) queue_upd_other)
  next
    case False
    then obtain as bs where ps: "ps = as @ p # bs" using dm split_list [of p ps] by auto
    have nin: "p \<notin> set as" "p \<notin> set bs" using sorted irrefl by (auto simp: ps sorted_wrt_append)
    have "enqueue before ord (queue as m @ level_orders m p @ queue bs m) = queue as m @ level_orders m p @ ord # queue bs m"
      by (rule enqueue_between [OF _ _ _ _ p]) (use sorted price ps in \<open>auto simp: sorted_wrt_append\<close>)
    moreover obtain os where "m p = Some os" using False by blast
    ultimately show ?thesis using nin by (simp add: ps queue_upd_other)
  qed
qed

lemma filter_queue:
  assumes "ladder_ok before ok ps m" "\<And>p q. ok p q \<Longrightarrow> o_price q = p" "p \<in> set ps"
  shows "filter (\<lambda>q. o_price q = p) (queue ps m) = level_orders m p"
proof -
  have "filter (\<lambda>q. o_price q = p) (queue xs m) = (if p \<in> set xs then level_orders m p else [])"
    if "distinct xs" "set xs \<subseteq> set ps" for xs
    using that
  proof (induction xs)
    case (Cons x xs)
    have "\<forall>q \<in> set (level_orders m x). o_price q = x"
      using ladder_ok_level [OF assms(1)] assms(2) Cons.prems(2) by auto
    then have "filter (\<lambda>q. o_price q = p) (level_orders m x) = (if x = p then level_orders m p else [])"
      by (auto simp: filter_id_conv filter_empty_conv)
    with Cons show ?case by auto
  qed simp
  then show ?thesis using ladder_ok_distinct [OF assms(1)] assms(3) by simp
qed

lemma cancel_in_side_ok:
  assumes "ladder_ok before ok (as @ ps) m"
  shows "case cancel_in_level oid (queue ps m) of
      None \<Rightarrow> cancel_in_side oid ps (as @ ps) m = None
    | Some (c, rest) \<Rightarrow> \<exists>ps' m'.
        cancel_in_side oid ps (as @ ps) m = Some (c\<lparr>o_status := OrderStatusCancelled\<rparr>, ps', m') \<and>
        ladder_ok before ok ps' m' \<and> queue ps' m' = queue as m @ rest \<and> set ps' \<subseteq> set (as @ ps)"
  using assms
proof (induction ps arbitrary: as)
  case (Cons p ps)
  have dist: "distinct (as @ p # ps)" using ladder_ok_distinct [OF Cons.prems] .
  show ?case
  proof (cases "cancel_in_level oid (level_orders m p)")
    case None
    show ?thesis
      using Cons.IH [of "as @ [p]"] Cons.prems None
      by (auto simp: cancel_in_level_append split: option.splits)
  next
    case (Some cr)
    then obtain c rest where cr: "cancel_in_level oid (level_orders m p) = Some (c, rest)"
      by (cases cr) auto
    have sub: "set rest \<subseteq> set (level_orders m p)" using cancel_in_level_Some [OF cr] by auto
    have q: "queue as (m(p := x)) = queue as m" "queue ps (m(p := x)) = queue ps m" for x
      using dist by (simp_all add: queue_upd_other)
    show ?thesis
    proof (cases "rest = []")
      case True
      have "remove1 p (as @ p # ps) = as @ ps" using dist by (simp add: remove1_append)
      moreover have "ladder_ok before ok (as @ ps) (m(p := None))"
        using Cons.prems dist
        by (auto simp: ladder_ok_def sorted_wrt_append level_orders_def)
      ultimately show ?thesis
        using True cr q by (simp add: cancel_in_level_append removePrice_def) auto
    next
      case False
      have "ladder_ok before ok (as @ p # ps) (m(p \<mapsto> rest))"
        using ladder_ok_upd [OF Cons.prems, of p rest] False sub ladder_ok_level [OF Cons.prems, of p] by auto
      then show ?thesis
        using False cr q by (simp add: cancel_in_level_append del: fun_upd_apply)
    qed
  qed
qed simp

end

interpretation bid_ladder: price_ladder "(>)" insert_bid_price
proof unfold_locales
  fix p :: int and ps :: "int list"
  show "set (insert_bid_price p ps) = insert p (set ps)" by (auto simp: insert_bid_price_def)
  assume s: "sorted_wrt (>) ps" and p: "p \<notin> set ps"
  have "distinct ps" using s by (induction ps) auto
  then have "distinct (sort (ps @ [p]))" using p by simp
  then have "sorted_wrt (<) (sort (ps @ [p]))" by (simp add: strict_sorted_iff)
  then show "sorted_wrt (>) (insert_bid_price p ps)"
    by (simp add: insert_bid_price_def sorted_wrt_rev)
qed auto

interpretation ask_ladder: price_ladder "(<)" insert_ask_price
proof unfold_locales
  fix p :: int and ps :: "int list"
  show "set (insert_ask_price p ps) = insert p (set ps)" by (auto simp: insert_ask_price_def)
  assume s: "sorted_wrt (<) ps" and p: "p \<notin> set ps"
  then have "distinct (sort (ps @ [p]))" using strict_sorted_iff [of ps] by simp
  then show "sorted_wrt (<) (insert_ask_price p ps)"
    by (simp add: insert_ask_price_def strict_sorted_iff)
qed auto

end
