(* ===== verification/Matching.thy ===== *)
theory Matching
  imports PriceLadder
begin

text \<open>
  Correctness of \<open>Place\<close> and \<open>Cancel\<close> against a specification over priority queues.

  \<open>book_wf\<close> is the representation invariant of the book and \<open>uncrossed\<close> says that the best
  bid is below the best ask. \<open>fill_queue\<close> is the abstract matching engine: it consumes the
  opposing orders from the front of their priority queue while they cross. The step lemma
  \<open>place_step_refines\<close> shows that one iteration of the code's loop is one step of
  \<open>fill_queue\<close>; termination, the refinement of \<open>Place\<close> and everything said of its trades
  follow from it.
\<close>

section \<open>Invariant\<close>

definition resting_ok :: "side \<Rightarrow> int \<Rightarrow> order \<Rightarrow> bool" where
  "resting_ok sd p q \<longleftrightarrow>
     o_side q = sd \<and> o_price q = p \<and> o_type q = OrderTypeLimit \<and> 0 < p \<and>
     0 < o_remaining q \<and> o_remaining q \<le> o_quantity q \<and> in64 (o_quantity q)"

definition book_wf :: "book \<Rightarrow> bool" where
  "book_wf b \<longleftrightarrow>
     ladder_ok (>) (resting_ok SideBuy) (bid_prices b) (bids b) \<and>
     ladder_ok (<) (resting_ok SideSell) (ask_prices b) (asks b) \<and>
     in64 (sequence b)"

definition uncrossed :: "book \<Rightarrow> bool" where
  "uncrossed b \<longleftrightarrow> (\<forall>p \<in> set (bid_prices b). \<forall>q \<in> set (ask_prices b). p < q)"

definition bid_queue :: "book \<Rightarrow> order list" where
  "bid_queue b = queue (bid_prices b) (bids b)"

definition ask_queue :: "book \<Rightarrow> order list" where
  "ask_queue b = queue (ask_prices b) (asks b)"

fun opp_queue :: "side \<Rightarrow> book \<Rightarrow> order list" where
  "opp_queue SideBuy b = ask_queue b"
| "opp_queue SideSell b = bid_queue b"
| "opp_queue (SideOther s) b = []"

fun own_queue :: "side \<Rightarrow> book \<Rightarrow> order list" where
  "own_queue SideBuy b = bid_queue b"
| "own_queue SideSell b = ask_queue b"
| "own_queue (SideOther s) b = []"

section \<open>Specification: matching against a priority queue\<close>

definition crosses :: "order \<Rightarrow> order \<Rightarrow> bool" where
  "crosses ord q \<longleftrightarrow>
     o_type ord = OrderTypeMarket \<or>
     (if o_side ord = SideBuy then o_price q \<le> o_price ord else o_price ord \<le> o_price q)"

definition partly :: "order \<Rightarrow> int \<Rightarrow> order" where
  "partly q f = q\<lparr>o_remaining := o_remaining q - f, o_status := OrderStatusPartial\<rparr>"

fun fill_queue :: "(order \<Rightarrow> bool) \<Rightarrow> int \<Rightarrow> order list \<Rightarrow> (order \<times> int) list \<times> order list \<times> int" where
  "fill_queue x r [] = ([], [], r)"
| "fill_queue x r (q # qs) =
     (if 0 < r \<and> x q
      then (if o_remaining q \<le> r
            then (case fill_queue x (r - o_remaining q) qs of (fs, qs', r') \<Rightarrow>
                    ((q, o_remaining q) # fs, qs', r'))
            else ([(q, r)], partly q r # qs, 0))
      else ([], q # qs, r))"

fun fill_trades :: "(nat \<Rightarrow> time) \<Rightarrow> order \<Rightarrow> nat \<Rightarrow> (order \<times> int) list \<Rightarrow> trade list" where
  "fill_trades clk ord n [] = []"
| "fill_trades clk ord n ((q, f) # fs) =
     make_trade ord q (o_price q) f n (clk (Suc n)) # fill_trades clk ord (Suc n) fs"

definition filled_ids :: "(order \<times> int) list \<Rightarrow> string list" where
  "filled_ids fs = map (\<lambda>(q, f). o_id q) (filter (\<lambda>(q, f). f = o_remaining q) fs)"

lemma fill_trades_append:
  "fill_trades clk ord n (xs @ ys) = fill_trades clk ord n xs @ fill_trades clk ord (n + length xs) ys"
  by (induction xs arbitrary: n) auto

lemma length_fill_trades [simp]: "length (fill_trades clk ord n fs) = length fs"
  by (induction fs arbitrary: n) auto

lemma filled_ids_append [simp]: "filled_ids (xs @ ys) = filled_ids xs @ filled_ids ys"
  by (simp add: filled_ids_def)

lemma make_trade_remaining [simp]:
  "make_trade (ord\<lparr>o_remaining := r\<rparr>) q p f n t = make_trade ord q p f n t"
  by (simp add: make_trade_def Let_def)

lemma crosses_remaining [simp]: "crosses (ord\<lparr>o_remaining := r\<rparr>) = crosses ord"
  by (rule ext) (simp add: crosses_def)

section \<open>One iteration of the matching loop\<close>

lemma canCross_opp:
  assumes wf: "book_wf b"
  shows "canCross b ord \<longleftrightarrow> (\<exists>q rest. opp_queue (o_side ord) b = q # rest \<and> crosses ord q)"
proof (cases "o_side ord")
  case SideBuy
  show ?thesis
  proof (cases "ask_prices b")
    case Nil
    then show ?thesis by (simp add: canCross_def SideBuy ask_queue_def)
  next
    case (Cons p ps)
    with wf obtain q qs where "level_orders (asks b) p = q # qs" "resting_ok SideSell p q"
      by (auto simp: book_wf_def elim: ask_ladder.queue_head_ok)
    then show ?thesis
      by (auto simp: canCross_def SideBuy ask_queue_def Cons crosses_def resting_ok_def)
  qed
next
  case SideSell
  show ?thesis
  proof (cases "bid_prices b")
    case Nil
    then show ?thesis by (simp add: canCross_def SideSell bid_queue_def)
  next
    case (Cons p ps)
    with wf obtain q qs where "level_orders (bids b) p = q # qs" "resting_ok SideBuy p q"
      by (auto simp: book_wf_def elim: bid_ladder.queue_head_ok)
    then show ?thesis
      by (auto simp: canCross_def SideSell bid_queue_def Cons crosses_def resting_ok_def)
  qed
qed (simp add: canCross_def)

lemma ladder_ok_queue:
  "ladder_ok before ok ps m \<Longrightarrow> q \<in> set (queue ps m) \<Longrightarrow> \<exists>p. p \<in> set ps \<and> ok p q"
  by (force simp: ladder_ok_def set_queue)

lemma opp_queue_resting:
  "book_wf b \<Longrightarrow> q \<in> set (opp_queue sd b) \<Longrightarrow>
     resting_ok (if sd = SideBuy then SideSell else SideBuy) (o_price q) q"
  by (cases sd) (auto simp: ask_queue_def bid_queue_def book_wf_def resting_ok_def dest!: ladder_ok_queue)

lemma opp_queue_ok:
  assumes wf: "book_wf b" and q: "q \<in> set (opp_queue sd b)"
  shows "0 < o_remaining q" "0 < o_price q" "in64 (o_remaining q)" "o_type q = OrderTypeLimit"
    "o_side q = (if sd = SideBuy then SideSell else SideBuy)"
  using opp_queue_resting [OF assms] by (auto simp: resting_ok_def in64_def)

text \<open>The book after the front order \<open>q\<close> of the opposing queue was hit for \<open>f\<close>.\<close>

definition hit_book :: "side \<Rightarrow> order \<Rightarrow> order list \<Rightarrow> int \<Rightarrow> book \<Rightarrow> book \<Rightarrow> bool" where
  "hit_book sd q rest f b b' \<longleftrightarrow>
     book_wf b' \<and>
     opp_queue sd b' = (if f = o_remaining q then rest else partly q f # rest) \<and>
     own_queue sd b' = own_queue sd b \<and>
     set (bid_prices b') \<subseteq> set (bid_prices b) \<and> set (ask_prices b') \<subseteq> set (ask_prices b) \<and>
     (sd = SideBuy \<longrightarrow> bid_prices b' = bid_prices b \<and> bids b' = bids b) \<and>
     (sd = SideSell \<longrightarrow> ask_prices b' = ask_prices b \<and> asks b' = asks b) \<and>
     last_trade_price b' = o_price q \<and> sequence b' = add64 (sequence b) 1 \<and> b_symbol b' = b_symbol b"

definition hit_state :: "(nat \<Rightarrow> time) \<Rightarrow> order \<Rightarrow> int \<Rightarrow> book \<Rightarrow> place_state \<Rightarrow> place_state" where
  "hit_state clk q f b' s =
     (let n = length (ps_trades s) in
      s\<lparr>ps_book := b', ps_order := (ps_order s)\<lparr>o_remaining := o_remaining (ps_order s) - f\<rparr>,
        ps_trades := ps_trades s @ [make_trade (ps_order s) q (o_price q) f n (clk (Suc n))],
        ps_removed := ps_removed s @ (if f = o_remaining q then [o_id q] else [])\<rparr>)"

lemma partly_ok:
  "resting_ok sd p q \<Longrightarrow> 0 < f \<Longrightarrow> f < o_remaining q \<Longrightarrow> resting_ok sd p (partly q f)"
  by (simp add: resting_ok_def partly_def)

text \<open>One side of the book after its front order \<open>q\<close> was hit for \<open>f\<close>: the order shrinks, leaves its level, or takes the
  level with it.\<close>

definition hit_ladder :: "order \<Rightarrow> int \<Rightarrow> int list \<Rightarrow> (int \<rightharpoonup> order list) \<Rightarrow> int list \<times> (int \<rightharpoonup> order list)" where
  "hit_ladder q f ps m =
     (let p = hd ps; qs = tl (level_orders m p)
      in if f < o_remaining q then (ps, m(p \<mapsto> partly q f # qs))
         else if qs = [] then (tl ps, m(p := None)) else (ps, m(p \<mapsto> qs)))"

context price_ladder
begin

lemma hit_ladder_ok:
  assumes lad: "ladder_ok before ok ps m" and q: "queue ps m = q # rest" and f: "f \<le> o_remaining q"
    and part: "\<And>p. ok p q \<Longrightarrow> f < o_remaining q \<Longrightarrow> ok p (partly q f)"
  obtains p ps1 qs ps' m' where "ps = p # ps1" "level_orders m p = q # qs" "ok p q" "hit_ladder q f ps m = (ps', m')"
    "ladder_ok before ok ps' m'" "queue ps' m' = (if f = o_remaining q then rest else partly q f # rest)" "set ps' \<subseteq> set ps"
proof -
  obtain p ps1 where ps: "ps = p # ps1" using q by (cases ps) simp_all
  note lad = lad [unfolded ps]
  obtain qs where lv: "level_orders m p = q # qs" and ok: "ok p q" and rest: "rest = qs @ queue ps1 m"
    by (rule queue_head_ok [OF lad]) (use q ps in auto)
  obtain ps' m' where h: "hit_ladder q f ps m = (ps', m')" by fastforce
  note hd = h [unfolded hit_ladder_def Let_def ps lv list.sel]
  have "ladder_ok before ok ps' m' \<and> queue ps' m' = (if f = o_remaining q then rest else partly q f # rest) \<and> set ps' \<subseteq> set ps"
  proof (cases "f < o_remaining q")
    case True
    then show ?thesis using write_head_ok [OF lad lv part [OF ok True]] hd by (auto simp: rest ps simp del: fun_upd_apply)
  next
    case False
    then show ?thesis using f rest pop_level_ok [OF lad] pop_head_ok [OF lad, of q "hd qs" "tl qs"] lv hd
      by (cases qs) (auto simp: ps simp del: fun_upd_apply)
  qed
  with that [OF ps lv ok h] show ?thesis by blast
qed

end

lemma hit_amounts:
  assumes "book_wf b" "opp_queue sd b = q # rest" "0 < r" "in64 r" "f = min r (o_remaining q)"
  shows "0 < f" "f \<le> o_remaining q" "sub64 r f = r - f" "sub64 (o_remaining q) f = o_remaining q - f"
  using opp_queue_ok [OF assms(1), of q sd] assms by (auto simp: int64_simps)

lemma place_step_buy:
  assumes wf: "book_wf (ps_book s)" and sd: "o_side (ps_order s) = SideBuy"
    and q: "opp_queue SideBuy (ps_book s) = q # rest"
    and f: "f = min (o_remaining (ps_order s)) (o_remaining q)"
    and r: "0 < o_remaining (ps_order s)" "in64 (o_remaining (ps_order s))"
  shows "\<exists>b'. place_step clk s = hit_state clk q f b' s \<and> hit_book SideBuy q rest f (ps_book s) b'"
proof -
  let ?b = "ps_book s"
  note a = hit_amounts [OF wf q r f]
  have "ladder_ok (<) (resting_ok SideSell) (ask_prices ?b) (asks ?b)" "queue (ask_prices ?b) (asks ?b) = q # rest"
    using wf q by (simp_all add: book_wf_def ask_queue_def)
  note hit = ask_ladder.hit_ladder_ok [OF this a(2) partly_ok [OF _ a(1)]]
  obtain p ps qs ps' m' where h: "ask_prices ?b = p # ps" "level_orders (asks ?b) p = q # qs" "resting_ok SideSell p q"
      "hit_ladder q f (ask_prices ?b) (asks ?b) = (ps', m')" "ladder_ok (<) (resting_ok SideSell) ps' m'"
      "queue ps' m' = (if f = o_remaining q then rest else partly q f # rest)" "set ps' \<subseteq> set (ask_prices ?b)"
    by (rule hit)
  let ?b' = "?b\<lparr>last_trade_price := p, sequence := add64 (sequence ?b) 1, asks := m', ask_prices := ps'\<rparr>"
  have "place_step clk s = hit_state clk q f ?b' s"
    using a h(1-4) f [symmetric]
    by (cases qs) (auto simp: place_step_def Let_def sd trade_price_def partly_def hit_state_def hit_ladder_def
        removePrice_def resting_ok_def simp del: fun_upd_apply)
  moreover have "hit_book SideBuy q rest f ?b ?b'"
    using h(3,5-7) wf by (simp add: hit_book_def book_wf_def ask_queue_def bid_queue_def resting_ok_def)
  ultimately show ?thesis by blast
qed

lemma place_step_sell:
  assumes wf: "book_wf (ps_book s)" and sd: "o_side (ps_order s) = SideSell"
    and q: "opp_queue SideSell (ps_book s) = q # rest"
    and f: "f = min (o_remaining (ps_order s)) (o_remaining q)"
    and r: "0 < o_remaining (ps_order s)" "in64 (o_remaining (ps_order s))"
  shows "\<exists>b'. place_step clk s = hit_state clk q f b' s \<and> hit_book SideSell q rest f (ps_book s) b'"
proof -
  let ?b = "ps_book s"
  note a = hit_amounts [OF wf q r f]
  have "ladder_ok (>) (resting_ok SideBuy) (bid_prices ?b) (bids ?b)" "queue (bid_prices ?b) (bids ?b) = q # rest"
    using wf q by (simp_all add: book_wf_def bid_queue_def)
  note hit = bid_ladder.hit_ladder_ok [OF this a(2) partly_ok [OF _ a(1)]]
  obtain p ps qs ps' m' where h: "bid_prices ?b = p # ps" "level_orders (bids ?b) p = q # qs" "resting_ok SideBuy p q"
      "hit_ladder q f (bid_prices ?b) (bids ?b) = (ps', m')" "ladder_ok (>) (resting_ok SideBuy) ps' m'"
      "queue ps' m' = (if f = o_remaining q then rest else partly q f # rest)" "set ps' \<subseteq> set (bid_prices ?b)"
    by (rule hit)
  let ?b' = "?b\<lparr>last_trade_price := p, sequence := add64 (sequence ?b) 1, bids := m', bid_prices := ps'\<rparr>"
  have "place_step clk s = hit_state clk q f ?b' s"
    using a h(1-4) f [symmetric]
    by (cases qs) (auto simp: place_step_def Let_def sd trade_price_def partly_def hit_state_def hit_ladder_def
        removePrice_def resting_ok_def simp del: fun_upd_apply)
  moreover have "hit_book SideSell q rest f ?b ?b'"
    using h(3,5-7) wf by (simp add: hit_book_def book_wf_def ask_queue_def bid_queue_def resting_ok_def)
  ultimately show ?thesis by blast
qed

lemma place_step_refines:
  assumes wf: "book_wf (ps_book s)" and sd: "o_side (ps_order s) = SideBuy \<or> o_side (ps_order s) = SideSell"
    and cond: "place_cond s" and r: "in64 (o_remaining (ps_order s))"
  obtains q rest f b' where
    "opp_queue (o_side (ps_order s)) (ps_book s) = q # rest" "crosses (ps_order s) q"
    "f = min (o_remaining (ps_order s)) (o_remaining q)" "0 < o_remaining q"
    "place_step clk s = hit_state clk q f b' s"
    "hit_book (o_side (ps_order s)) q rest f (ps_book s) b'"
proof -
  obtain q rest where q: "opp_queue (o_side (ps_order s)) (ps_book s) = q # rest"
      and x: "crosses (ps_order s) q"
    using cond canCross_opp [OF wf] by (auto simp: place_cond_def)
  have pos: "0 < o_remaining (ps_order s)" using cond by (simp add: place_cond_def)
  let ?f = "min (o_remaining (ps_order s)) (o_remaining q)"
  obtain b' where b': "place_step clk s = hit_state clk q ?f b' s"
      "hit_book (o_side (ps_order s)) q rest ?f (ps_book s) b'"
    using sd place_step_buy [OF wf _ _ refl pos r] place_step_sell [OF wf _ _ refl pos r] q by metis
  have "0 < o_remaining q" using opp_queue_ok [OF wf, of q "o_side (ps_order s)"] q by simp
  with that q x b' show ?thesis by blast
qed

section \<open>The loop\<close>

lemma fill_queue_stop:
  "\<not> (\<exists>q rest. qs = q # rest \<and> 0 < r \<and> x q) \<Longrightarrow> fill_queue x r qs = ([], qs, r)"
  by (cases qs) auto

lemma fill_queue_step:
  assumes "0 < r" "x q" "f = min r (o_remaining q)"
  shows "fill_queue x r (q # rest) =
     (case fill_queue x (r - f) (if f = o_remaining q then rest else partly q f # rest) of
        (fs, qs, r') \<Rightarrow> ((q, f) # fs, qs, r'))"
  using assms by (cases "o_remaining q \<le> r") (auto simp: min_def)

text \<open>The state after the orders in \<open>fs\<close> were hit: what is left to do is what the specification still does.\<close>

definition match_upto :: "(nat \<Rightarrow> time) \<Rightarrow> order \<Rightarrow> book \<Rightarrow> (order \<times> int) list \<Rightarrow> place_state \<Rightarrow> bool" where
  "match_upto clk ord b fs s \<longleftrightarrow>
     (let b' = ps_book s; r = o_remaining (ps_order s); sd = o_side ord in
        ps_error s = None \<and> book_wf b' \<and> ps_order s = ord\<lparr>o_remaining := r\<rparr> \<and> 0 \<le> r \<and> in64 r \<and>
        ps_trades s = fill_trades clk ord 0 fs \<and> ps_removed s = filled_ids fs \<and>
        (case fill_queue (crosses ord) r (opp_queue sd b') of (fs', qs, r') \<Rightarrow>
           fill_queue (crosses ord) (o_remaining ord) (opp_queue sd b) = (fs @ fs', qs, r')) \<and>
        own_queue sd b' = own_queue sd b \<and>
        set (bid_prices b') \<subseteq> set (bid_prices b) \<and> set (ask_prices b') \<subseteq> set (ask_prices b) \<and>
        last_trade_price b' = (if fs = [] then last_trade_price b else o_price (fst (last fs))) \<and>
        sequence b' = i64 (sequence b + int (length fs)) \<and> b_symbol b' = b_symbol b)"

lemma match_uptoD:
  assumes "match_upto clk ord b fs s"
  shows "ps_error s = None" "book_wf (ps_book s)" "0 \<le> o_remaining (ps_order s)" "in64 (o_remaining (ps_order s))"
    "ps_order s = ord\<lparr>o_remaining := o_remaining (ps_order s)\<rparr>"
    "ps_trades s = fill_trades clk ord 0 fs" "ps_removed s = filled_ids fs"
    "case fill_queue (crosses ord) (o_remaining (ps_order s)) (opp_queue (o_side ord) (ps_book s)) of (fs', qs, r') \<Rightarrow>
       fill_queue (crosses ord) (o_remaining ord) (opp_queue (o_side ord) b) = (fs @ fs', qs, r')"
    "own_queue (o_side ord) (ps_book s) = own_queue (o_side ord) b"
    "set (bid_prices (ps_book s)) \<subseteq> set (bid_prices b)" "set (ask_prices (ps_book s)) \<subseteq> set (ask_prices b)"
    "last_trade_price (ps_book s) = (if fs = [] then last_trade_price b else o_price (fst (last fs)))"
    "sequence (ps_book s) = i64 (sequence b + int (length fs))" "b_symbol (ps_book s) = b_symbol b"
  by (insert assms, unfold match_upto_def Let_def, (elim conjE, assumption)+)

definition match_inv :: "(nat \<Rightarrow> time) \<Rightarrow> order \<Rightarrow> book \<Rightarrow> place_state \<Rightarrow> bool" where
  "match_inv clk ord b s \<longleftrightarrow> (\<exists>fs. match_upto clk ord b fs s)"

lemma match_inv_init:
  assumes "book_wf b" "0 \<le> o_remaining ord" "in64 (o_remaining ord)"
  shows "match_inv clk ord b
    \<lparr>ps_book = b, ps_order = ord, ps_trades = [], ps_removed = [], ps_error = None\<rparr>"
  unfolding match_inv_def match_upto_def Let_def
  by (rule exI [of _ "[]"]) (use assms in \<open>auto simp: filled_ids_def book_wf_def split: prod.splits\<close>)

lemma match_upto_order:
  assumes "match_upto clk ord b fs s"
  shows "o_side (ps_order s) = o_side ord" "crosses (ps_order s) = crosses ord" "make_trade (ps_order s) = make_trade ord"
    "canCross b' (ps_order s) = canCross b' ord"
  by (subst match_uptoD(5) [OF assms], simp add: fun_eq_iff canCross_def split: side.splits list.splits)+

lemma match_inv_step:
  assumes inv: "match_inv clk ord b s" and cond: "place_cond s"
    and sd: "o_side ord = SideBuy \<or> o_side ord = SideSell"
  shows "match_inv clk ord b (place_step clk s)"
    and "length (opp_queue (o_side ord) (ps_book (place_step clk s))) +
           (if 0 < o_remaining (ps_order (place_step clk s)) then 1 else 0)
         < length (opp_queue (o_side ord) (ps_book s)) +
           (if 0 < o_remaining (ps_order s) then 1 else (0::nat))"
proof -
  let ?r = "o_remaining (ps_order s)" and ?sd = "o_side ord"
  obtain fs where M: "match_upto clk ord b fs s" using inv by (auto simp: match_inv_def)
  note I = match_uptoD [OF M] and side = match_upto_order(1) [OF M] and x = match_upto_order(2) [OF M] and mk = match_upto_order(3) [OF M]
  have pos: "0 < ?r" using cond by (simp add: place_cond_def)
  obtain q rest f b' where q: "opp_queue ?sd (ps_book s) = q # rest" "crosses ord q"
      "f = min ?r (o_remaining q)" "0 < o_remaining q"
      and st: "place_step clk s = hit_state clk q f b' s"
      and hit: "hit_book ?sd q rest f (ps_book s) b'"
    using place_step_refines [of s clk, OF I(2) _ cond I(4)] sd
    unfolding side x by metis
  have rem: "o_remaining (ps_order (hit_state clk q f b' s)) = ?r - f"
    and bk: "ps_book (hit_state clk q f b' s) = b'"
    by (simp_all add: hit_state_def Let_def)
  have f: "0 < f" "f \<le> ?r" "f \<le> o_remaining q" using q pos by auto
  have fq: "fill_queue (crosses ord) ?r (q # rest) =
      (case fill_queue (crosses ord) (?r - f) (opp_queue ?sd b') of (fs, qs, r') \<Rightarrow> ((q, f) # fs, qs, r'))"
    using fill_queue_step [of ?r "crosses ord" q f rest] pos q hit by (simp add: hit_book_def)
  have in64: "in64 (?r - f)" using in64_mono [OF I(4), of "?r - f"] f by simp
  have ordr: "ps_order (hit_state clk q f b' s) = ord\<lparr>o_remaining := ?r - f\<rparr>"
    by (subst I(5)) (simp add: hit_state_def Let_def I(5) [symmetric], subst I(5), simp)
  show "match_inv clk ord b (place_step clk s)"
    unfolding match_inv_def match_upto_def Let_def st rem bk
  proof (intro exI [of _ "fs @ [(q, f)]"] conjI)
    show "case fill_queue (crosses ord) (?r - f) (opp_queue ?sd b') of (fs', qs, r') \<Rightarrow>
        fill_queue (crosses ord) (o_remaining ord) (opp_queue ?sd b) = ((fs @ [(q, f)]) @ fs', qs, r')"
      using I(8) fq by (auto simp: q(1) split: prod.splits)
    show "ps_trades (hit_state clk q f b' s) = fill_trades clk ord 0 (fs @ [(q, f)])"
      by (simp add: hit_state_def Let_def I(6) fill_trades_append mk)
    show "ps_removed (hit_state clk q f b' s) = filled_ids (fs @ [(q, f)])"
      by (simp add: hit_state_def Let_def I(7) filled_ids_def)
  qed (use I hit in64 f ordr in
      \<open>auto simp: hit_book_def hit_state_def Let_def algebra_simps\<close>)
  show "length (opp_queue ?sd (ps_book (place_step clk s))) +
           (if 0 < o_remaining (ps_order (place_step clk s)) then 1 else 0)
         < length (opp_queue ?sd (ps_book s)) + (if 0 < ?r then 1 else (0::nat))"
    unfolding st rem bk using hit q f pos by (auto simp: hit_book_def min_def split: if_splits)
qed

lemma match_loop_refines:
  assumes wf: "book_wf b" and r: "0 \<le> o_remaining ord" "in64 (o_remaining ord)"
    and sd: "o_side ord = SideBuy \<or> o_side ord = SideSell"
    and fill: "fill_queue (crosses ord) (o_remaining ord) (opp_queue (o_side ord) b) = (fs, qs, r')"
  obtains s where "match_loop clk ord b = Some s" "ps_error s = None" "book_wf (ps_book s)"
    "ps_order s = ord\<lparr>o_remaining := r'\<rparr>" "0 \<le> r'" "in64 r'"
    "ps_trades s = fill_trades clk ord 0 fs" "ps_removed s = filled_ids fs"
    "opp_queue (o_side ord) (ps_book s) = qs" "own_queue (o_side ord) (ps_book s) = own_queue (o_side ord) b"
    "set (bid_prices (ps_book s)) \<subseteq> set (bid_prices b)"
    "set (ask_prices (ps_book s)) \<subseteq> set (ask_prices b)"
    "last_trade_price (ps_book s) = (if fs = [] then last_trade_price b else o_price (fst (last fs)))"
    "sequence (ps_book s) = i64 (sequence b + int (length fs))" "b_symbol (ps_book s) = b_symbol b"
    "r' = 0 \<or> \<not> canCross (ps_book s) ord"
proof -
  let ?m = "\<lambda>s. length (opp_queue (o_side ord) (ps_book s)) + (if 0 < o_remaining (ps_order s) then 1 else (0::nat))"
  note init = match_inv_init [OF wf r, of clk]
  obtain s where s: "match_loop clk ord b = Some s"
    using measure_while_option_Some [of "match_inv clk ord b" place_cond "place_step clk" ?m, OF _ init]
      match_inv_step [OF _ _ sd] unfolding match_loop_def by blast
  have stop: "\<not> place_cond s" using while_option_stop [OF s [unfolded match_loop_def]] .
  have "match_inv clk ord b s"
    using while_option_rule [where P = "match_inv clk ord b", OF _ s [unfolded match_loop_def] init]
      match_inv_step(1) [OF _ _ sd] by blast
  then obtain fs0 where M: "match_upto clk ord b fs0 s" by (auto simp: match_inv_def)
  note I = match_uptoD [OF M]
  have fin: "o_remaining (ps_order s) = 0 \<or> \<not> canCross (ps_book s) ord"
    using stop I(1,3) by (auto simp: place_cond_def match_upto_order(4) [OF M])
  then have "fill_queue (crosses ord) (o_remaining (ps_order s)) (opp_queue (o_side ord) (ps_book s))
       = ([], opp_queue (o_side ord) (ps_book s), o_remaining (ps_order s))"
    using canCross_opp [OF I(2), of ord] by (intro fill_queue_stop) auto
  then have "fs = fs0" "qs = opp_queue (o_side ord) (ps_book s)" "r' = o_remaining (ps_order s)"
    using I(8) fill by simp_all
  with that [OF s] I fin show ?thesis by simp
qed

section \<open>Resting the remainder\<close>

fun own_before :: "side \<Rightarrow> int \<Rightarrow> int \<Rightarrow> bool" where
  "own_before SideBuy p q \<longleftrightarrow> p > q"
| "own_before SideSell p q \<longleftrightarrow> p < q"
| "own_before (SideOther s) p q \<longleftrightarrow> False"

lemma own_before_eq: "own_before SideBuy = (>)" "own_before SideSell = (<)"
  by (auto intro!: ext)

lemma addResting_refines:
  assumes wf: "book_wf b" and ok: "resting_ok (o_side ord) (o_price ord) ord"
    and sd: "o_side ord = SideBuy \<or> o_side ord = SideSell"
  shows "book_wf (addResting ord b)"
    and "own_queue (o_side ord) (addResting ord b)
           = enqueue (own_before (o_side ord)) ord (own_queue (o_side ord) b)"
    and "opp_queue (o_side ord) (addResting ord b) = opp_queue (o_side ord) b"
    and "o_side ord = SideBuy \<Longrightarrow> ask_prices (addResting ord b) = ask_prices b \<and>
           set (bid_prices (addResting ord b)) = insert (o_price ord) (set (bid_prices b))"
    and "o_side ord = SideSell \<Longrightarrow> bid_prices (addResting ord b) = bid_prices b \<and>
           set (ask_prices (addResting ord b)) = insert (o_price ord) (set (ask_prices b))"
proof -
  have pos: "\<not> o_remaining ord \<le> 0" using ok by (simp add: resting_ok_def)
  have pr: "resting_ok SideBuy p q \<Longrightarrow> o_price q = p" "resting_ok SideSell p q \<Longrightarrow> o_price q = p"
    for p q by (simp_all add: resting_ok_def)
  have lad: "ladder_ok (>) (resting_ok SideBuy) (bid_prices b) (bids b)"
    "ladder_ok (<) (resting_ok SideSell) (ask_prices b) (asks b)"
    using wf by (simp_all add: book_wf_def)
  note facts = addResting_def pos bid_queue_def ask_queue_def own_before_eq book_wf_def
  have bid: "o_price ord \<in> set (bid_prices b) \<longleftrightarrow> bids b (o_price ord) \<noteq> None"
    using bid_ladder.ladder_ok_None_iff [OF lad(1)] by simp
  have ask: "o_price ord \<in> set (ask_prices b) \<longleftrightarrow> asks b (o_price ord) \<noteq> None"
    using ask_ladder.ladder_ok_None_iff [OF lad(2)] by simp
  show "book_wf (addResting ord b)"
    using sd bid_ladder.add_resting_ok [OF lad(1), of "o_price ord" ord] ask_ladder.add_resting_ok [OF lad(2), of "o_price ord" ord] ok wf
    by (auto simp: facts simp del: fun_upd_apply)
  show "own_queue (o_side ord) (addResting ord b)
           = enqueue (own_before (o_side ord)) ord (own_queue (o_side ord) b)"
    using sd bid_ladder.add_resting_queue [OF lad(1) pr(1) refl, of ord] ask_ladder.add_resting_queue [OF lad(2) pr(2) refl, of ord]
    by (auto simp: facts simp del: fun_upd_apply)
  show "opp_queue (o_side ord) (addResting ord b) = opp_queue (o_side ord) b"
    using sd by (auto simp: facts)
  show "o_side ord = SideBuy \<Longrightarrow> ask_prices (addResting ord b) = ask_prices b \<and>
           set (bid_prices (addResting ord b)) = insert (o_price ord) (set (bid_prices b))"
    using bid by (auto simp: facts bid_ladder.set_insert_price)
  show "o_side ord = SideSell \<Longrightarrow> bid_prices (addResting ord b) = bid_prices b \<and>
           set (ask_prices (addResting ord b)) = insert (o_price ord) (set (ask_prices b))"
    using ask by (auto simp: facts ask_ladder.set_insert_price)
qed

end
