(* ===== verification/BookProps.thy ===== *)
theory BookProps
  imports Matching
begin

text \<open>
  The specification of the book as a pair of priority queues, and the theorems about
  \<open>Place\<close>, \<open>Cancel\<close> and the books a server can reach with them.
\<close>

section \<open>Facts about the abstract matcher\<close>

lemma fill_queue_facts:
  assumes "fill_queue x r qs = (fs, qs', r')" "0 \<le> r" "\<forall>q \<in> set qs. 0 < o_remaining q"
  shows fill_queue_conserves: "sum_list (map snd fs) + r' = r"
    and fill_queue_left: "0 \<le> r'"
    and fill_queue_fills: "\<forall>(q, f) \<in> set fs. q \<in> set qs \<and> x q \<and> 0 < f \<and> f \<le> o_remaining q"
    and fill_queue_prefix: "map fst fs = take (length fs) qs"
    and fill_queue_full: "\<forall>(q, f) \<in> set (butlast fs). f = o_remaining q"
    and fill_queue_exhausts: "0 < r' \<longrightarrow> qs' = drop (length fs) qs \<and> (qs' = [] \<or> \<not> x (hd qs'))"
    and fill_queue_liquidity:
      "sum_list (map o_remaining qs) = sum_list (map o_remaining qs') + sum_list (map snd fs)"
  using assms
proof (induction x r qs arbitrary: fs r' rule: fill_queue.induct)
  case (2 x r q qs)
  { case 1 with 2 show ?case by (auto split: if_splits prod.splits)
  next case 2 with "2.IH" show ?case by (auto split: if_splits prod.splits)
  next case 3 with "2.IH" show ?case by (fastforce split: if_splits prod.splits)
  next case 4 with "2.IH" show ?case by (auto split: if_splits prod.splits)
  next case 5 with "2.IH" show ?case by (fastforce split: if_splits prod.splits)
  next case 6 with "2.IH" show ?case by (auto split: if_splits prod.splits)
  next case 7 with "2.IH" show ?case by (auto simp: partly_def split: if_splits prod.splits) }
qed auto

section \<open>The specification of Place\<close>

text \<open>
  A request: a new order has no remaining quantity yet, one that is re-entered has at most
  its quantity left.
\<close>

definition request_ok :: "order \<Rightarrow> bool" where
  "request_ok ord \<longleftrightarrow>
     validate ord = None \<and> 0 \<le> o_remaining ord \<and> o_remaining ord \<le> o_quantity ord \<and> in64 (o_quantity ord)"

definition outcome_status :: "order \<Rightarrow> int \<Rightarrow> order_status" where
  "outcome_status ord r =
     (if r = 0 then OrderStatusFilled
      else if r < o_quantity ord then OrderStatusPartial
      else if o_type ord = OrderTypeMarket then OrderStatusCancelled else OrderStatusOpen)"

definition outcome_order :: "order \<Rightarrow> int \<Rightarrow> order" where
  "outcome_order ord r = ord\<lparr>o_remaining := r, o_status := outcome_status ord r\<rparr>"

record place_result =
  fills :: "(order \<times> int) list"
  left :: int
  opposing_after :: "order list"
  own_after :: "order list"

text \<open>
  What \<open>Place\<close> promises: fill the order against the opposing queue, then, for a limit order
  with quantity left, queue it on its own side.
\<close>

definition place_spec :: "order \<Rightarrow> order list \<Rightarrow> order list \<Rightarrow> place_result" where
  "place_spec ord own opp =
     (case fill_queue (crosses ord) (o_remaining ord) opp of
        (fs, opp', r) \<Rightarrow>
          \<lparr>fills = fs, left = r, opposing_after = opp',
           own_after = (if 0 < r \<and> o_type ord = OrderTypeLimit
                        then enqueue (own_before (o_side ord)) (outcome_order ord r) own else own)\<rparr>)"

lemma outcome_order_simps [simp]:
  "o_side (outcome_order ord r) = o_side ord" "o_type (outcome_order ord r) = o_type ord"
  "o_price (outcome_order ord r) = o_price ord" "o_quantity (outcome_order ord r) = o_quantity ord"
  "o_remaining (outcome_order ord r) = r" "o_id (outcome_order ord r) = o_id ord"
  "o_status (outcome_order ord r) = outcome_status ord r"
  "o_player_id (outcome_order ord r) = o_player_id ord"
  "canCross b (outcome_order ord r) = canCross b ord"
  by (simp_all add: outcome_order_def canCross_def split: side.splits list.splits)

lemma prepare_order_simps [simp]:
  "o_side (prepare_order clk ord) = o_side ord" "o_type (prepare_order clk ord) = o_type ord"
  "o_price (prepare_order clk ord) = o_price ord" "o_quantity (prepare_order clk ord) = o_quantity ord"
  "o_id (prepare_order clk ord) = o_id ord" "o_symbol (prepare_order clk ord) = o_symbol ord"
  "o_player_id (prepare_order clk ord) = o_player_id ord"
  "o_request_id (prepare_order clk ord) = o_request_id ord"
  "o_remaining (prepare_order clk ord)
     = (if o_remaining ord = 0 then o_quantity ord else o_remaining ord)"
  by (simp_all add: prepare_order_def Let_def)

lemma request_ok_facts:
  assumes "request_ok ord"
  shows "o_side ord = SideBuy \<or> o_side ord = SideSell"
    and "o_type ord = OrderTypeLimit \<or> o_type ord = OrderTypeMarket"
    and "0 < o_quantity ord" and "o_type ord = OrderTypeLimit \<Longrightarrow> 0 < o_price ord"
    and "0 < o_remaining (prepare_order clk ord)"
    and "o_remaining (prepare_order clk ord) \<le> o_quantity ord"
    and "in64 (o_remaining (prepare_order clk ord))"
  using assms by (auto simp: request_ok_def validate_def in64_def split: if_splits)

lemma settle_remainder_outcome:
  assumes "0 \<le> r" "r \<le> o_quantity ord" "o_type ord = OrderTypeLimit \<or> o_type ord = OrderTypeMarket"
  shows "settle_remainder (ord\<lparr>o_remaining := r\<rparr>) b =
     (outcome_order ord r,
      (if 0 < r \<and> o_type ord = OrderTypeLimit then Some (outcome_order ord r) else None),
      (if 0 < r \<and> o_type ord = OrderTypeLimit then addResting (outcome_order ord r) b else b))"
  using assms by (auto simp: settle_remainder_def outcome_order_def outcome_status_def Let_def)

lemma normalizeOrder_outcome [simp]: "normalizeOrder (outcome_order ord r) = outcome_order ord r"
  by (simp add: normalizeOrder_def outcome_order_def outcome_status_def)

text \<open>Resting a limit order that no longer crosses keeps the book uncrossed.\<close>

lemma not_canCross_buy:
  "book_wf b \<Longrightarrow> o_side ord = SideBuy \<Longrightarrow> o_type ord = OrderTypeLimit \<Longrightarrow> \<not> canCross b ord \<Longrightarrow>
     q \<in> set (ask_prices b) \<Longrightarrow> o_price ord < q"
  by (cases "ask_prices b") (auto simp: canCross_def book_wf_def ladder_ok_def)

lemma not_canCross_sell:
  "book_wf b \<Longrightarrow> o_side ord = SideSell \<Longrightarrow> o_type ord = OrderTypeLimit \<Longrightarrow> \<not> canCross b ord \<Longrightarrow>
     q \<in> set (bid_prices b) \<Longrightarrow> q < o_price ord"
  by (cases "bid_prices b") (auto simp: canCross_def book_wf_def ladder_ok_def)

lemma addResting_uncrossed:
  assumes "book_wf b" "uncrossed b" "resting_ok (o_side ord) (o_price ord) ord" "\<not> canCross b ord"
    and "o_side ord = SideBuy \<or> o_side ord = SideSell"
  shows "uncrossed (addResting ord b)"
proof -
  have lim: "o_type ord = OrderTypeLimit" using assms(3) by (simp add: resting_ok_def)
  show ?thesis
    using assms(5)
  proof
    assume sd: "o_side ord = SideBuy"
    show ?thesis
      using addResting_refines(4) [OF assms(1,3,5) sd] assms(2) not_canCross_buy [OF assms(1) sd lim assms(4)]
      by (auto simp: uncrossed_def)
  next
    assume sd: "o_side ord = SideSell"
    show ?thesis
      using addResting_refines(5) [OF assms(1,3,5) sd] assms(2) not_canCross_sell [OF assms(1) sd lim assms(4)]
      by (auto simp: uncrossed_def)
  qed
qed

lemma addResting_frame [simp]:
  "last_trade_price (addResting ord b) = last_trade_price b" "sequence (addResting ord b) = sequence b"
  "b_symbol (addResting ord b) = b_symbol b"
  by (auto simp: addResting_def split: side.splits)

lemma seq_upd [simp]:
  "book_wf (b\<lparr>sequence := add64 n 1\<rparr>) \<longleftrightarrow> book_wf (b\<lparr>sequence := 0\<rparr>)"
  "opp_queue sd (b\<lparr>sequence := k\<rparr>) = opp_queue sd b" "own_queue sd (b\<lparr>sequence := k\<rparr>) = own_queue sd b"
  "uncrossed (b\<lparr>sequence := k\<rparr>) = uncrossed b"
  by (cases sd; simp add: book_wf_def ask_queue_def bid_queue_def uncrossed_def)+

lemma book_wf_seq0: "book_wf b \<Longrightarrow> book_wf (b\<lparr>sequence := 0\<rparr>)"
  by (simp add: book_wf_def)

lemma fill_queue_left_le:
  assumes fill: "fill_queue x r qs = (fs, qs', r')" and r: "0 < r" and pos: "\<forall>q \<in> set qs. 0 < o_remaining q"
  shows "r' \<le> r"
proof -
  have "0 \<le> sum_list (map snd fs)"
    using fill_queue_fills [OF fill _ pos] r by (intro sum_list_nonneg) auto
  then show ?thesis using fill_queue_conserves [OF fill _ pos] r by simp
qed

text \<open>Resting what is left of an order, if anything rests.\<close>

lemma rest_remainder:
  assumes wf: "book_wf b" and ok: "rest \<Longrightarrow> resting_ok (o_side ord) (o_price ord) ord"
    and sd: "o_side ord = sd" "sd = SideBuy \<or> sd = SideSell" and un: "u \<longrightarrow> uncrossed b" and stop: "rest \<Longrightarrow> \<not> canCross b ord"
    and b1: "b1 = (if rest then addResting ord b else b)"
  shows "book_wf b1" "opp_queue sd b1 = opp_queue sd b" "u \<longrightarrow> uncrossed b1"
    "own_queue sd b1 = (if rest then enqueue (own_before sd) ord (own_queue sd b) else own_queue sd b)"
  using addResting_refines(1-3) [OF wf ok] addResting_uncrossed [OF wf _ ok] wf sd un stop by (auto simp: b1)

lemma Place_spec:
  assumes wf: "book_wf b" and req: "request_ok ord"
    and spec: "sp = place_spec (prepare_order clk ord) (own_queue (o_side ord) b) (opp_queue (o_side ord) b)"
  obtains p b' where "Place clk ord b = Some (Inr p, b')" "book_wf b'" "uncrossed b \<longrightarrow> uncrossed b'"
    "opp_queue (o_side ord) b' = opposing_after sp" "own_queue (o_side ord) b' = own_after sp"
    "pr_trades p = fill_trades clk (prepare_order clk ord) 0 (fills sp)"
    "pr_removed p = filled_ids (fills sp)"
    "pr_order p = outcome_order (prepare_order clk ord) (left sp)"
    "pr_resting p = (if 0 < left sp \<and> o_type ord = OrderTypeLimit then Some (pr_order p) else None)"
    "last_trade_price b' = (if fills sp = [] then last_trade_price b else o_price (fst (last (fills sp))))"
    "sequence b' = i64 (sequence b + int (length (fills sp)) + 1)" "b_symbol b' = b_symbol b"
    "pr_snapshot p = book_snapshot b' 10 (clk (Suc (Suc (length (fills sp)))))"
proof -
  let ?o = "prepare_order clk ord"
  note rq = request_ok_facts [OF req]
  obtain fs qs r where fill: "fill_queue (crosses ?o) (o_remaining ?o) (opp_queue (o_side ?o) b) = (fs, qs, r)"
    by (metis prod_cases3)
  obtain s where S: "match_loop clk ?o b = Some s" "ps_error s = None" "book_wf (ps_book s)"
    "ps_order s = ?o\<lparr>o_remaining := r\<rparr>" "0 \<le> r" "in64 r"
    "ps_trades s = fill_trades clk ?o 0 fs" "ps_removed s = filled_ids fs"
    "opp_queue (o_side ?o) (ps_book s) = qs" "own_queue (o_side ?o) (ps_book s) = own_queue (o_side ?o) b"
    "set (bid_prices (ps_book s)) \<subseteq> set (bid_prices b)"
    "set (ask_prices (ps_book s)) \<subseteq> set (ask_prices b)"
    "last_trade_price (ps_book s) = (if fs = [] then last_trade_price b else o_price (fst (last fs)))"
    "sequence (ps_book s) = i64 (sequence b + int (length fs))" "b_symbol (ps_book s) = b_symbol b"
    "r = 0 \<or> \<not> canCross (ps_book s) ?o"
    by (rule match_loop_refines [OF wf _ rq(7) _ fill, of clk]) (use rq in \<open>auto simp: less_imp_le\<close>)
  let ?oo = "outcome_order ?o r"
  let ?rest = "0 < r \<and> o_type ord = OrderTypeLimit"
  let ?b1 = "if ?rest then addResting ?oo (ps_book s) else ps_book s"
  have rle: "r \<le> o_remaining ?o" using fill_queue_left_le [OF fill rq(5)] opp_queue_ok [OF wf] by blast
  have settle: "settle_remainder (ps_order s) (ps_book s) = (?oo, (if ?rest then Some ?oo else None), ?b1)"
    using settle_remainder_outcome [of r ?o "ps_book s"] S(4,5) rle rq(2,6) by simp
  have val: "validate ord = None" using req by (simp add: request_ok_def)
  have ok: "resting_ok (o_side ?oo) (o_price ?oo) ?oo" if ?rest
    using that rq rle req by (auto simp: resting_ok_def request_ok_def)
  have un: "uncrossed b \<longrightarrow> uncrossed (ps_book s)" using S(11,12) by (auto simp: uncrossed_def)
  have "o_side ?oo = o_side ord" "?rest \<Longrightarrow> \<not> canCross (ps_book s) ?oo" using S(16) by auto
  note b1 = rest_remainder [OF S(3) ok this(1) rq(1) un this(2) refl]
  have pl: "Place clk ord b = Some (Inr \<lparr>pr_order = ?oo, pr_trades = ps_trades s,
       pr_snapshot = book_snapshot (?b1\<lparr>sequence := add64 (sequence ?b1) 1\<rparr>) 10 (clk (Suc (Suc (length (ps_trades s))))),
       pr_resting = (if ?rest then Some ?oo else None), pr_removed = ps_removed s\<rparr>,
       ?b1\<lparr>sequence := add64 (sequence ?b1) 1\<rparr>)"
    by (simp add: Place_def val S(1,2) settle Let_def del: if_split)
  have sp: "sp = \<lparr>fills = fs, left = r, opposing_after = qs, own_after =
      (if ?rest then enqueue (own_before (o_side ord)) ?oo (own_queue (o_side ord) b) else own_queue (o_side ord) b)\<rparr>"
    using fill by (simp add: spec place_spec_def)
  show ?thesis
    by (rule that [OF pl]) (use b1 S sp in \<open>auto simp: book_wf_seq0\<close>)
qed

section \<open>The specification of Cancel\<close>

lemma Cancel_spec:
  assumes wf: "book_wf b"
  shows "case cancel_in_level oid (bid_queue b) of
      Some (c, rest) \<Rightarrow> \<exists>b'. Cancel oid now b = (Inr (c\<lparr>o_status := OrderStatusCancelled\<rparr>, book_snapshot b' 10 now), b') \<and>
         book_wf b' \<and> bid_queue b' = rest \<and> ask_queue b' = ask_queue b \<and> (uncrossed b \<longrightarrow> uncrossed b')
    | None \<Rightarrow>
        (case cancel_in_level oid (ask_queue b) of
           Some (c, rest) \<Rightarrow> \<exists>b'. Cancel oid now b = (Inr (c\<lparr>o_status := OrderStatusCancelled\<rparr>, book_snapshot b' 10 now), b') \<and>
             book_wf b' \<and> ask_queue b' = rest \<and> bid_queue b' = bid_queue b \<and> (uncrossed b \<longrightarrow> uncrossed b')
         | None \<Rightarrow> Cancel oid now b = (Inl (OrderNotFound oid), b))"
proof -
  have lad: "ladder_ok (>) (resting_ok SideBuy) ([] @ bid_prices b) (bids b)"
    "ladder_ok (<) (resting_ok SideSell) ([] @ ask_prices b) (asks b)"
    using wf by (simp_all add: book_wf_def)
  note side = bid_ladder.cancel_in_side_ok [OF lad(1), of oid] ask_ladder.cancel_in_side_ok [OF lad(2), of oid]
  show ?thesis
    using side wf
    by (auto simp: Cancel_def bid_queue_def ask_queue_def book_wf_def uncrossed_def Let_def
        split: option.splits)
qed

section \<open>Reachable books\<close>

text \<open>The books of a server: created empty, then changed by accepted and refused calls.\<close>

inductive reachable_book :: "book \<Rightarrow> bool" where
  reach_new: "reachable_book (new_book symbol price)"
| reach_place: "reachable_book b \<Longrightarrow> request_ok ord \<or> validate ord \<noteq> None \<Longrightarrow>
     Place clk ord b = Some (res, b') \<Longrightarrow> reachable_book b'"
| reach_cancel: "reachable_book b \<Longrightarrow> Cancel oid now b = (res, b') \<Longrightarrow> reachable_book b'"

lemma new_book_wf [simp]: "book_wf (new_book symbol price)" "uncrossed (new_book symbol price)"
  by (simp_all add: book_wf_def new_book_def ladder_ok_def uncrossed_def)

lemma Cancel_preserves:
  assumes "book_wf b" "uncrossed b" "Cancel oid now b = (res, b')"
  shows "book_wf b' \<and> uncrossed b'"
  using Cancel_spec [OF assms(1), of oid now] assms by (auto split: option.splits)

lemma Place_preserves:
  assumes "book_wf b" "uncrossed b" "request_ok ord \<or> validate ord \<noteq> None" "Place clk ord b = Some (res, b')"
  shows "book_wf b' \<and> uncrossed b'"
proof (cases "validate ord")
  case None
  with assms(3) have "request_ok ord" by simp
  from Place_spec [OF assms(1) this refl, of clk] assms(2,4) show ?thesis by auto
next
  case (Some e)
  with assms show ?thesis by (simp add: Place_def)
qed

text \<open>C5: Every book that can arise keeps its levels sorted, non-empty and consistent with
  the price lists, holds only open limit orders with a positive remainder on their own side,
  and is never crossed: each bid is below each ask.\<close>
theorem reachable_books_well_formed:
  "reachable_book b \<Longrightarrow> book_wf b \<and> uncrossed b"
  by (induction rule: reachable_book.induct) (auto dest: Cancel_preserves Place_preserves)

theorem reachable_books_well_formed_witness:
  "uncrossed (snd (Cancel ''z'' 3 (new_book ''ACME'' 50)))"
  using reachable_books_well_formed [OF reach_cancel [OF reach_new prod.collapse [symmetric]],
      of "''z''" 3 "''ACME''" 50] by simp

section \<open>Theorems about Place\<close>

text \<open>The resting order a trade was made against.\<close>

definition t_resting_id :: "trade \<Rightarrow> string" where
  "t_resting_id t = (if t_aggressor_side t = SideBuy then t_sell_order_id t else t_buy_order_id t)"

lemma make_trade_simps [simp]:
  "t_id (make_trade ord q p f n now) = o_request_id ord @ ''-'' @ show_int (int n + 1)"
  "t_price (make_trade ord q p f n now) = p" "t_quantity (make_trade ord q p f n now) = f"
  "t_aggressor_side (make_trade ord q p f n now) = o_side ord"
  "t_resting_id (make_trade ord q p f n now) = o_id q"
  by (simp_all add: make_trade_def Let_def t_resting_id_def)

lemma fill_trades_maps [simp]:
  "map t_quantity (fill_trades clk ord n fs) = map snd fs"
  "map t_price (fill_trades clk ord n fs) = map (\<lambda>(q, f). o_price q) fs"
  "map t_resting_id (fill_trades clk ord n fs) = map (\<lambda>(q, f). o_id q) fs"
  by (induction fs arbitrary: n) auto

lemma fill_trades_ids:
  "map t_id (fill_trades clk ord n fs) =
     map (\<lambda>k. o_request_id ord @ ''-'' @ show_int (int k + 1)) [n..<n + length fs]"
  by (induction fs arbitrary: n) (auto simp: upt_conv_Cons simp del: upt_Suc)

lemma fill_trades_eq_Nil [simp]: "fill_trades clk ord n fs = [] \<longleftrightarrow> fs = []"
  by (metis length_0_conv length_fill_trades)

lemma set_fill_trades_ex:
  "t \<in> set (fill_trades clk ord n fs) \<Longrightarrow>
     \<exists>a \<in> set fs. t_price t = o_price (fst a) \<and> t_quantity t = snd a \<and>
        t_aggressor_side t = o_side ord \<and> t_resting_id t = o_id (fst a)"
proof (induction fs arbitrary: n)
  case (Cons a fs)
  obtain q f where a: "a = (q, f)" by fastforce
  from Cons.prems a consider "t = make_trade ord q (o_price q) f n (clk (Suc n))"
    | "t \<in> set (fill_trades clk ord (Suc n) fs)" by auto
  then show ?case using Cons.IH [of "Suc n"] a by cases simp_all
qed simp

lemma set_fill_trades:
  assumes "t \<in> set (fill_trades clk ord n fs)"
  obtains q f where "(q, f) \<in> set fs" "t_price t = o_price q" "t_quantity t = f"
    "t_aggressor_side t = o_side ord" "t_resting_id t = o_id q"
  using set_fill_trades_ex [OF assms] by fastforce

lemma place_spec_fill:
  assumes wf: "book_wf b" and req: "request_ok ord"
    and sp: "sp = place_spec (prepare_order clk ord) own (opp_queue (o_side ord) b)"
  shows "fill_queue (crosses (prepare_order clk ord)) (o_remaining (prepare_order clk ord)) (opp_queue (o_side ord) b)
      = (fills sp, opposing_after sp, left sp)"
    and "0 \<le> o_remaining (prepare_order clk ord)"
    and "\<forall>q \<in> set (opp_queue (o_side ord) b). 0 < o_remaining q"
  using request_ok_facts(5) [OF req, of clk] opp_queue_ok(1) [OF wf] sp
  by (auto simp: place_spec_def less_imp_le split: prod.splits)

text \<open>A small book for the examples: two asks at 100 and one at 105, one bid at 90.\<close>

definition demo_order :: "string \<Rightarrow> string \<Rightarrow> side \<Rightarrow> order_type \<Rightarrow> int \<Rightarrow> int \<Rightarrow> order" where
  "demo_order oid player sd ty price qty =
     \<lparr>o_id = oid, o_request_id = oid, o_player_id = player, o_player_role = ''Buyer'', o_symbol = ''ACME'',
      o_side = sd, o_type = ty, o_price = price, o_quantity = qty, o_remaining = qty,
      o_status = OrderStatusOpen, o_created_at = 0\<rparr>"

definition demo_book :: book where
  "demo_book = \<lparr>b_symbol = ''ACME'',
     bids = [90 \<mapsto> [demo_order ''b1'' ''ann'' SideBuy OrderTypeLimit 90 5]],
     asks = [100 \<mapsto> [demo_order ''a1'' ''bob'' SideSell OrderTypeLimit 100 3,
                     demo_order ''a2'' ''cat'' SideSell OrderTypeLimit 100 4],
             105 \<mapsto> [demo_order ''a3'' ''bob'' SideSell OrderTypeLimit 105 2]],
     bid_prices = [90], ask_prices = [100, 105], last_trade_price = 95, sequence = 7\<rparr>"

definition demo_buy :: order where
  "demo_buy = demo_order ''x'' ''dan'' SideBuy OrderTypeLimit 100 9"

lemma demo_order_simps [simp]:
  "o_id (demo_order oid pl sd ty p n) = oid" "o_side (demo_order oid pl sd ty p n) = sd"
  "o_type (demo_order oid pl sd ty p n) = ty" "o_price (demo_order oid pl sd ty p n) = p"
  "o_quantity (demo_order oid pl sd ty p n) = n" "o_remaining (demo_order oid pl sd ty p n) = n"
  "o_player_id (demo_order oid pl sd ty p n) = pl" "o_symbol (demo_order oid pl sd ty p n) = ''ACME''"
  "o_request_id (demo_order oid pl sd ty p n) = oid"
  by (simp_all add: demo_order_def)

lemma demo_queues [simp]:
  "bid_queue demo_book = [demo_order ''b1'' ''ann'' SideBuy OrderTypeLimit 90 5]"
  "ask_queue demo_book = [demo_order ''a1'' ''bob'' SideSell OrderTypeLimit 100 3,
     demo_order ''a2'' ''cat'' SideSell OrderTypeLimit 100 4, demo_order ''a3'' ''bob'' SideSell OrderTypeLimit 105 2]"
  by (simp_all add: demo_book_def bid_queue_def ask_queue_def level_orders_def)

lemma demo_book_wf: "book_wf demo_book" "uncrossed demo_book"
  by (auto simp: book_wf_def ladder_ok_def demo_book_def resting_ok_def level_orders_def
      in64_def uncrossed_def)

lemma demo_request: "request_ok demo_buy" and demo_buy_side [simp]: "o_side demo_buy = SideBuy"
  by (simp_all add: request_ok_def validate_def demo_buy_def in64_def)

lemma demo_buy_simps [simp]: "o_id demo_buy = ''x''" "o_type demo_buy = OrderTypeLimit"
    "o_price demo_buy = 100" "o_quantity demo_buy = 9" "o_remaining demo_buy = 9" "validate demo_buy = None"
  by (simp_all add: demo_buy_def validate_def)

lemma demo_spec: "place_spec (prepare_order clk demo_buy) (own_queue SideBuy demo_book) (opp_queue SideBuy demo_book) =
  \<lparr>fills = [(demo_order ''a1'' ''bob'' SideSell OrderTypeLimit 100 3, 3),
            (demo_order ''a2'' ''cat'' SideSell OrderTypeLimit 100 4, 4)],
   left = 2, opposing_after = [demo_order ''a3'' ''bob'' SideSell OrderTypeLimit 105 2],
   own_after = [outcome_order (prepare_order clk demo_buy) 2, demo_order ''b1'' ''ann'' SideBuy OrderTypeLimit 90 5]\<rparr>"
  by (simp add: place_spec_def crosses_def enqueue_def)

lemma demo_place:
  obtains p b' where "Place clk demo_buy demo_book = Some (Inr p, b')"
  using Place_spec [OF demo_book_wf(1) demo_request refl, of clk] by blast

text \<open>C1: \<open>Place\<close> refines the specification over priority queues: on a well-formed book an accepted
  order is filled against the opposing queue front to back, the trades, the removed orders and
  the final status are those of the specification, and what is left of a limit order is queued
  behind every order of its own side that is at least as good.\<close>
theorem Place_refines_queues:
  assumes "book_wf b" and "request_ok ord"
  shows "\<exists>p b'. Place clk ord b = Some (Inr p, b') \<and>
     (let sd = o_side ord; o1 = prepare_order clk ord;
          sp = place_spec o1 (own_queue sd b) (opp_queue sd b) in
        opp_queue sd b' = opposing_after sp \<and> own_queue sd b' = own_after sp \<and>
        pr_trades p = fill_trades clk o1 0 (fills sp) \<and> pr_removed p = filled_ids (fills sp) \<and>
        pr_order p = outcome_order o1 (left sp))"
  using Place_spec [OF assms refl, of clk] by (metis (no_types, lifting))

theorem Place_refines_queues_witness:
  "\<exists>p b'. Place int demo_buy demo_book = Some (Inr p, b') \<and>
     map o_id (ask_queue b') = [''a3''] \<and> map o_id (bid_queue b') = [''x'', ''b1''] \<and>
     pr_removed p = [''a1'', ''a2''] \<and> o_remaining (pr_order p) = 2"
  using Place_refines_queues [OF demo_book_wf(1) demo_request, of int]
  unfolding Let_def demo_buy_side demo_spec by (auto simp: filled_ids_def)

lemma Place_facts:
  assumes "book_wf b" "request_ok ord" "Place clk ord b = Some (Inr p, b')"
  defines "o1 \<equiv> prepare_order clk ord"
  defines "sp \<equiv> place_spec o1 (own_queue (o_side ord) b) (opp_queue (o_side ord) b)"
  shows "fill_queue (crosses o1) (o_remaining o1) (opp_queue (o_side ord) b)
           = (fills sp, opposing_after sp, left sp)" "0 \<le> o_remaining o1"
    "\<forall>q \<in> set (opp_queue (o_side ord) b). 0 < o_remaining q"
    "opp_queue (o_side ord) b' = opposing_after sp" "own_queue (o_side ord) b' = own_after sp"
    "pr_trades p = fill_trades clk o1 0 (fills sp)"
    "pr_removed p = filled_ids (fills sp)" "pr_order p = outcome_order o1 (left sp)"
    "pr_resting p = (if 0 < left sp \<and> o_type ord = OrderTypeLimit then Some (pr_order p) else None)"
    "pr_snapshot p = book_snapshot b' 10 (clk (Suc (Suc (length (fills sp)))))" "book_wf b'"
    "last_trade_price b' = (if fills sp = [] then last_trade_price b else o_price (fst (last (fills sp))))"
proof -
  have sp: "sp = place_spec (prepare_order clk ord) (own_queue (o_side ord) b) (opp_queue (o_side ord) b)"
    by (simp add: sp_def o1_def)
  note fill = place_spec_fill [OF assms(1,2) sp]
  obtain p0 b0 where P: "Place clk ord b = Some (Inr p0, b0)" "book_wf b0"
    "opp_queue (o_side ord) b0 = opposing_after sp" "own_queue (o_side ord) b0 = own_after sp"
    "pr_trades p0 = fill_trades clk o1 0 (fills sp)" "pr_removed p0 = filled_ids (fills sp)"
    "pr_order p0 = outcome_order o1 (left sp)"
    "pr_resting p0 = (if 0 < left sp \<and> o_type ord = OrderTypeLimit then Some (pr_order p0) else None)"
    "last_trade_price b0 = (if fills sp = [] then last_trade_price b else o_price (fst (last (fills sp))))"
    "pr_snapshot p0 = book_snapshot b0 10 (clk (Suc (Suc (length (fills sp)))))"
    unfolding o1_def by (rule Place_spec [OF assms(1,2) sp])
  have eq: "p0 = p" "b0 = b'" using P(1) assms(3) by simp_all
  note all = fill [folded o1_def] P(2-) [unfolded eq]
  show "fill_queue (crosses o1) (o_remaining o1) (opp_queue (o_side ord) b)
           = (fills sp, opposing_after sp, left sp)" "0 \<le> o_remaining o1"
    "\<forall>q \<in> set (opp_queue (o_side ord) b). 0 < o_remaining q"
    "opp_queue (o_side ord) b' = opposing_after sp" "own_queue (o_side ord) b' = own_after sp"
    "pr_trades p = fill_trades clk o1 0 (fills sp)"
    "pr_removed p = filled_ids (fills sp)" "pr_order p = outcome_order o1 (left sp)"
    "pr_resting p = (if 0 < left sp \<and> o_type ord = OrderTypeLimit then Some (pr_order p) else None)"
    "pr_snapshot p = book_snapshot b' 10 (clk (Suc (Suc (length (fills sp)))))" "book_wf b'"
    "last_trade_price b' = (if fills sp = [] then last_trade_price b else o_price (fst (last (fills sp))))"
    by (fact all)+
qed

text \<open>C2: Quantity is conserved: what a placed order trades and what it has left add up to what it
  asked for, every trade moves a positive quantity, and the opposing side loses exactly the
  traded quantity.\<close>
theorem Place_conserves_quantity:
  assumes "book_wf b" and "request_ok ord" and "Place clk ord b = Some (Inr p, b')"
  shows "sum_list (map t_quantity (pr_trades p)) + o_remaining (pr_order p)
           = (if o_remaining ord = 0 then o_quantity ord else o_remaining ord) \<and>
     (\<forall>t \<in> set (pr_trades p). 0 < t_quantity t) \<and>
     sum_list (map o_remaining (opp_queue (o_side ord) b))
       = sum_list (map o_remaining (opp_queue (o_side ord) b')) + sum_list (map t_quantity (pr_trades p))"
proof -
  note F = Place_facts [OF assms]
  note G = fill_queue_facts [OF F(1-3)]
  show ?thesis using G(1,3,7) by (auto simp: F(4,6,8) elim!: set_fill_trades)
qed

theorem Place_conserves_quantity_witness:
  "\<exists>p b'. Place int demo_buy demo_book = Some (Inr p, b') \<and>
     sum_list (map t_quantity (pr_trades p)) + o_remaining (pr_order p) = 9"
  by (rule demo_place [of int]) (use Place_conserves_quantity [OF demo_book_wf(1) demo_request, of int] in auto)

text \<open>C3: Price-time priority: the trades of a placed order are made against the first orders of
  the opposing queue, in that order and at their prices; every one but the last is filled in
  full; the trade identifiers are distinct; and the last trade price is the price of the last
  trade.\<close>
theorem Place_price_time_priority:
  assumes "book_wf b" and "request_ok ord" and "Place clk ord b = Some (Inr p, b')"
  shows "let hit = take (length (pr_trades p)) (opp_queue (o_side ord) b) in
     map t_resting_id (pr_trades p) = map o_id hit \<and> map t_price (pr_trades p) = map o_price hit \<and>
     butlast (map t_quantity (pr_trades p)) = butlast (map o_remaining hit) \<and>
     distinct (map t_id (pr_trades p)) \<and>
     (pr_trades p = [] \<or> last_trade_price b' = last (map t_price (pr_trades p)))"
proof -
  note F = Place_facts [OF assms]
  note G = fill_queue_facts [OF F(1-3)]
  let ?fs = "fills (place_spec (prepare_order clk ord) (own_queue (o_side ord) b) (opp_queue (o_side ord) b))"
  have hit: "take (length (pr_trades p)) (opp_queue (o_side ord) b) = map fst ?fs"
    using G(4) by (simp add: F(6))
  have maps: "map t_resting_id (pr_trades p) = map o_id (map fst ?fs)"
    "map t_price (pr_trades p) = map o_price (map fst ?fs)" "map t_quantity (pr_trades p) = map snd ?fs"
    by (simp_all add: F(6) case_prod_unfold)
  have "butlast (map snd ?fs) = butlast (map o_remaining (map fst ?fs))"
    using G(5) by (simp add: map_butlast [symmetric] case_prod_unfold)
  moreover have "distinct (map t_id (pr_trades p))"
    by (auto simp: F(6) fill_trades_ids distinct_map inj_on_def)
  moreover have "pr_trades p = [] \<or> last_trade_price b' = last (map t_price (pr_trades p))"
    using F(12) by (cases ?fs rule: rev_cases) (simp_all add: maps(2), simp add: F(6))
  ultimately show ?thesis
    by (simp add: Let_def hit maps)
qed


theorem Place_price_time_priority_witness:
  "\<exists>p b'. Place int demo_buy demo_book = Some (Inr p, b') \<and>
     (let hit = take (length (pr_trades p)) (opp_queue SideBuy demo_book) in
        map t_price (pr_trades p) = map o_price hit \<and> distinct (map t_id (pr_trades p)))"
  by (rule demo_place [of int])
    (use Place_price_time_priority [OF demo_book_wf(1) demo_request, of int] in \<open>auto simp: Let_def\<close>)

text \<open>C4: A limit is honoured and a remainder is left for the right reason: a limit order never
  trades at a price worse than its own, an order stops with quantity left only when the best
  opposing order no longer crosses it, and only a limit order with quantity left is queued; a
  market order never rests.\<close>
theorem Place_honours_limit:
  assumes "book_wf b" and "request_ok ord" and "Place clk ord b = Some (Inr p, b')"
  shows "(\<forall>t \<in> set (pr_trades p). o_type ord = OrderTypeMarket \<or>
           (if o_side ord = SideBuy then t_price t \<le> o_price ord else o_price ord \<le> t_price t)) \<and>
     (o_remaining (pr_order p) = 0 \<or>
        (case opp_queue (o_side ord) b' of [] \<Rightarrow> True | q # _ \<Rightarrow> \<not> crosses ord q)) \<and>
     own_queue (o_side ord) b' =
       (if o_type ord = OrderTypeLimit \<and> 0 < o_remaining (pr_order p)
        then enqueue (own_before (o_side ord)) (pr_order p) (own_queue (o_side ord) b)
        else own_queue (o_side ord) b)"
proof -
  note F = Place_facts [OF assms]
  note G = fill_queue_facts [OF F(1-3)]
  let ?sp = "place_spec (prepare_order clk ord) (own_queue (o_side ord) b) (opp_queue (o_side ord) b)"
  have x: "crosses (prepare_order clk ord) = crosses ord" by (rule ext) (simp add: crosses_def)
  have "own_after ?sp = (if o_type ord = OrderTypeLimit \<and> 0 < left ?sp
      then enqueue (own_before (o_side ord)) (outcome_order (prepare_order clk ord) (left ?sp))
        (own_queue (o_side ord) b) else own_queue (o_side ord) b)"
    by (simp add: place_spec_def split: prod.splits)
  moreover have "left ?sp = 0 \<or> (case opposing_after ?sp of [] \<Rightarrow> True | q # _ \<Rightarrow> \<not> crosses ord q)"
    using G(2,6) by (cases "opposing_after ?sp") (auto simp: x)
  moreover have "\<forall>t \<in> set (pr_trades p). o_type ord = OrderTypeMarket \<or>
           (if o_side ord = SideBuy then t_price t \<le> o_price ord else o_price ord \<le> t_price t)"
    unfolding F(6) using G(3) by (auto simp: x crosses_def elim!: set_fill_trades)
  ultimately show ?thesis by (simp add: F(4,5,8))
qed

theorem Place_honours_limit_witness:
  "\<exists>p b'. Place int demo_buy demo_book = Some (Inr p, b') \<and>
     (\<forall>t \<in> set (pr_trades p). t_price t \<le> 100)"
  by (rule demo_place [of int])
    (use Place_honours_limit [OF demo_book_wf(1) demo_request, of int] in auto)

text \<open>\<open>Place\<close> always returns on a well-formed book, and it returns an error exactly when
  validation refuses the order, in which case the book is unchanged.\<close>
theorem Place_terminates:
  assumes "book_wf b" and "request_ok ord \<or> validate ord = Some e"
  shows "\<exists>res b'. Place clk ord b = Some (res, b') \<and>
     (validate ord = Some e \<longrightarrow> res = Inl e \<and> b' = b) \<and>
     (validate ord = None \<longrightarrow> (\<exists>p. res = Inr p))"
proof (cases "validate ord")
  case None
  with assms(2) have "request_ok ord" by simp
  from Place_spec [OF assms(1) this refl, of clk] None show ?thesis by (metis option.distinct(1))
qed (use assms in \<open>auto simp: Place_def request_ok_def\<close>)

theorem Place_terminates_witness:
  "\<exists>res b'. Place int demo_buy demo_book = Some (res, b') \<and> (\<exists>p. res = Inr p)"
  using Place_terminates [OF demo_book_wf(1) disjI1 [OF demo_request], of int undefined] by auto

section \<open>Theorems about Cancel and snapshots\<close>

text \<open>C12: \<open>Cancel\<close> removes the first order with the given identifier (bids before asks), in
  priority order, and nothing else: every other order keeps its place in its queue. It fails
  exactly when no resting order has the identifier, and then changes nothing.\<close>
theorem Cancel_removes_exactly:
  assumes "book_wf b"
  shows "case Cancel oid now b of
      (Inr (c, sn), b') \<Rightarrow> o_id c = oid \<and> o_status c = OrderStatusCancelled \<and> book_wf b' \<and>
         sn = book_snapshot b' 10 now \<and>
         (\<exists>as bs q. c = q\<lparr>o_status := OrderStatusCancelled\<rparr> \<and> oid \<notin> o_id ` set as \<and>
            (bid_queue b = as @ q # bs \<and> bid_queue b' = as @ bs \<and> ask_queue b' = ask_queue b \<or>
             ask_queue b = as @ q # bs \<and> ask_queue b' = as @ bs \<and> bid_queue b' = bid_queue b))
    | (Inl e, b') \<Rightarrow> e = OrderNotFound oid \<and> b' = b \<and> oid \<notin> o_id ` set (bid_queue b @ ask_queue b)"
proof (cases "cancel_in_level oid (bid_queue b)")
  case (Some cr)
  obtain c rest where cr: "cr = (c, rest)" by (cases cr)
  from cancel_in_level_Some [OF Some [unfolded cr]] obtain as bs where
    "bid_queue b = as @ c # bs" "rest = as @ bs" "o_id c = oid" "\<forall>a \<in> set as. o_id a \<noteq> oid" by blast
  with Some cr Cancel_spec [OF assms, of oid now] show ?thesis by fastforce
next
  case None
  show ?thesis
  proof (cases "cancel_in_level oid (ask_queue b)")
    case None2: None
    have "Cancel oid now b = (Inl (OrderNotFound oid), b)"
      using None None2 Cancel_spec [OF assms, of oid now] by simp
    then show ?thesis using None None2 by (auto simp: cancel_in_level_None)
  next
    case (Some cr)
    obtain c rest where cr: "cr = (c, rest)" by (cases cr)
    from cancel_in_level_Some [OF Some [unfolded cr]] obtain as bs where
      "ask_queue b = as @ c # bs" "rest = as @ bs" "o_id c = oid" "\<forall>a \<in> set as. o_id a \<noteq> oid" by blast
    with None Some cr Cancel_spec [OF assms, of oid now] show ?thesis by fastforce
  qed
qed

theorem Cancel_removes_exactly_witness:
  "case Cancel ''a2'' 9 demo_book of (Inr (c, sn), b') \<Rightarrow> o_id c = ''a2'' \<and> book_wf b' | (Inl e, b') \<Rightarrow> False"
proof -
  have "Cancel ''a2'' 9 demo_book \<noteq> (Inl (OrderNotFound ''a2''), demo_book)"
    by (simp add: Cancel_def demo_book_def level_orders_def Let_def)
  then show ?thesis
    using Cancel_removes_exactly [OF demo_book_wf(1), of "''a2''" 9] by (auto split: prod.splits sum.splits)
qed

text \<open>The depth view a side's queue determines at a price.\<close>

definition queue_level :: "order list \<Rightarrow> int \<Rightarrow> level" where
  "queue_level qs p =
     (let os = filter (\<lambda>q. o_price q = p) qs in
      \<lparr>lv_price = p, lv_quantity = i64 (sum_list (map o_remaining os)), lv_order_count = length os\<rparr>)"

lemma levelFromOrders_sum:
  "levelFromOrders p os = \<lparr>lv_price = p, lv_quantity = i64 (sum_list (map o_remaining os)), lv_order_count = length os\<rparr>"
proof -
  have "foldl (\<lambda>acc ord. add64 acc (o_remaining ord)) (i64 z) os = i64 (z + sum_list (map o_remaining os))" for z
    by (induction os arbitrary: z) (auto simp: algebra_simps)
  from this [of 0] show ?thesis by (simp add: levelFromOrders_def)
qed

text \<open>A snapshot shows, per side, the best prices in order (bids falling, asks rising), each
  with the number and the total remaining quantity of exactly the orders queued at that price;
  the default depth is ten.\<close>
theorem snapshot_aggregates_queues:
  assumes "book_wf b"
  shows "let sn = book_snapshot b depth now; d = nat (if depth \<le> 0 then 10 else depth) in
     (\<exists>bs. sorted_wrt (>) bs \<and> set bs = o_price ` set (bid_queue b) \<and>
        sn_bids sn = map (queue_level (bid_queue b)) (take d bs)) \<and>
     (\<exists>as. sorted_wrt (<) as \<and> set as = o_price ` set (ask_queue b) \<and>
        sn_asks sn = map (queue_level (ask_queue b)) (take d as))"
proof -
  have lad: "ladder_ok (>) (resting_ok SideBuy) (bid_prices b) (bids b)"
    "ladder_ok (<) (resting_ok SideSell) (ask_prices b) (asks b)"
    using assms by (simp_all add: book_wf_def)
  have pr: "resting_ok SideBuy p q \<Longrightarrow> o_price q = p" "resting_ok SideSell p q \<Longrightarrow> o_price q = p"
    for p q by (simp_all add: resting_ok_def)
  have prices: "set ps = o_price ` set (queue ps m)"
    if "ladder_ok before (resting_ok sd) ps m" for before sd ps m
  proof -
    have "o_price ` set (level_orders m p) = {p}" if "p \<in> set ps" for p
    proof -
      have "level_orders m p \<noteq> []" "\<forall>q \<in> set (level_orders m p). o_price q = p"
        using that \<open>ladder_ok before (resting_ok sd) ps m\<close> by (auto simp: ladder_ok_def resting_ok_def)
      then show ?thesis by (cases "level_orders m p") auto
    qed
    then show ?thesis by (simp add: set_queue image_UN)
  qed
  have lv: "levelFromOrders p (level_orders (bids b) p) = queue_level (bid_queue b) p"
      if "p \<in> set (bid_prices b)" for p
    using bid_ladder.filter_queue [OF lad(1) pr(1) that]
    by (simp add: queue_level_def bid_queue_def levelFromOrders_sum Let_def)
  have lv2: "levelFromOrders p (level_orders (asks b) p) = queue_level (ask_queue b) p"
      if "p \<in> set (ask_prices b)" for p
    using ask_ladder.filter_queue [OF lad(2) pr(2) that]
    by (simp add: queue_level_def ask_queue_def levelFromOrders_sum Let_def)
  let ?d = "nat (if depth \<le> 0 then 10 else depth)"
  have "sn_bids (book_snapshot b depth now) = map (queue_level (bid_queue b)) (take ?d (bid_prices b))"
    "sn_asks (book_snapshot b depth now) = map (queue_level (ask_queue b)) (take ?d (ask_prices b))"
    unfolding book_snapshot_def Let_def snapshot.select_convs
    by (intro map_cong refl lv lv2, erule in_set_takeD)+
  moreover have "sorted_wrt (>) (bid_prices b)" "sorted_wrt (<) (ask_prices b)"
    using lad by (simp_all add: ladder_ok_def)
  ultimately show ?thesis
    using prices [OF lad(1)] prices [OF lad(2)]
    unfolding Let_def bid_queue_def ask_queue_def by blast
qed

theorem snapshot_aggregates_queues_witness:
  "\<exists>as. sorted_wrt (<) as \<and> sn_asks (book_snapshot demo_book 0 5) = map (queue_level (ask_queue demo_book)) (take 10 as)"
  using snapshot_aggregates_queues [OF demo_book_wf(1), of 0 5] by (auto simp: Let_def)

end
