(* ===== verification/Float64.thy ===== *)
theory Float64
  imports Complex_Main Prelude
begin

text \<open>
  Go's \<^verbatim>\<open>float64\<close> as rational numbers with IEEE-754 rounding.

  \<open>rnd\<close> rounds to the nearest value with 53 significant bits (subnormals included), ties to
  even; each operator rounds its exact result, as IEEE-754 prescribes for \<^verbatim>\<open>+ - * /\<close>. The code
  modelled here divides only by non-zero values and stays far below \<open>2 ^ 1024\<close>, so infinities
  and NaN do not arise; a negative zero is not distinguished from zero. The compiler is
  taken not to fuse multiplications and additions.

  The one fact the price engine needs of rounding is \<open>rnd_mono\<close>.
\<close>

type_synonym f64 = rat

function bits :: "int \<Rightarrow> nat" where
  "bits n = (if n \<le> 0 then 0 else Suc (bits (n div 2)))"
  by auto
termination by (relation "measure nat") auto

declare bits.simps [simp del]

definition log2_floor :: "rat \<Rightarrow> int" where
  "log2_floor q =
     (case quotient_of q of (n, d) \<Rightarrow>
        (let e = int (bits n) - int (bits d) in if 2 powi e \<le> q then e else e - 1))"

definition round_even :: "rat \<Rightarrow> int" where
  "round_even x =
     (let f = \<lfloor>x\<rfloor>; r = x - of_int f in
      if r < 1 / 2 then f else if 1 / 2 < r then f + 1 else if even f then f else f + 1)"

definition quantum :: "rat \<Rightarrow> int" where
  "quantum q = max (log2_floor q - 52) (- 1074)"

definition rnd_pos :: "rat \<Rightarrow> f64" where
  "rnd_pos q = of_int (round_even (q / 2 powi quantum q)) * 2 powi quantum q"

definition rnd :: "rat \<Rightarrow> f64" where
  "rnd q = (if q = 0 then 0 else if 0 < q then rnd_pos q else - rnd_pos (- q))"

section \<open>Operators and conversions\<close>

definition fadd :: "f64 \<Rightarrow> f64 \<Rightarrow> f64" where "fadd a b = rnd (a + b)"
definition fsub :: "f64 \<Rightarrow> f64 \<Rightarrow> f64" where "fsub a b = rnd (a - b)"
definition fmul :: "f64 \<Rightarrow> f64 \<Rightarrow> f64" where "fmul a b = rnd (a * b)"
definition fdiv :: "f64 \<Rightarrow> f64 \<Rightarrow> f64" where "fdiv a b = rnd (a / b)"

text \<open>\<open>of_i64\<close> is the conversion \<^verbatim>\<open>float64(i)\<close>; \<open>to_i64\<close> is \<^verbatim>\<open>int64(f)\<close>, which truncates and gives
  the least integer out of range (amd64); \<open>go_round\<close> is \<^verbatim>\<open>math.Round\<close>.\<close>

definition of_i64 :: "int \<Rightarrow> f64" where "of_i64 i = rnd (of_int i)"

definition trunc :: "f64 \<Rightarrow> int" where
  "trunc x = (if 0 \<le> x then \<lfloor>x\<rfloor> else - \<lfloor>- x\<rfloor>)"

definition to_i64 :: "f64 \<Rightarrow> int" where
  "to_i64 x = (if in64 (trunc x) then trunc x else - (2 ^ 63))"

definition half_away :: "f64 \<Rightarrow> int" where
  "half_away x = (if 0 \<le> x then \<lfloor>x + 1 / 2\<rfloor> else - \<lfloor>- x + 1 / 2\<rfloor>)"

definition go_round :: "f64 \<Rightarrow> f64" where
  "go_round x = of_int (half_away x)"

definition seconds :: "duration \<Rightarrow> f64" where
  "seconds d = fadd (of_i64 (quot64 d second)) (fdiv (of_i64 (rem64 d second)) (rnd 1000000000))"

section \<open>Monotonicity of rounding\<close>

lemma bits_bounds: "0 < n \<Longrightarrow> 2 powi (int (bits n) - 1) \<le> (of_int n :: rat) \<and> (of_int n :: rat) < 2 powi int (bits n)"
proof (induction n rule: bits.induct)
  case (1 n)
  then have b: "bits n = Suc (bits (n div 2))" by (subst bits.simps) simp
  show ?case
  proof (cases "n = 1")
    case True
    then show ?thesis using b by (simp add: bits.simps)
  next
    case False
    with 1 have ih: "2 powi (int (bits (n div 2)) - 1) \<le> (of_int (n div 2) :: rat)"
      "(of_int (n div 2) :: rat) < 2 powi int (bits (n div 2))" by auto
    have pos: "bits (n div 2) \<noteq> 0" using False 1 by (subst bits.simps) auto
    then obtain k where k: "bits (n div 2) = Suc k" by (cases "bits (n div 2)") auto
    have "(2::rat) ^ k \<le> of_int (n div 2)" using ih(1) unfolding k by simp
    moreover have "(of_int (n div 2) :: rat) < 2 ^ Suc k" using ih(2) unfolding k power_int_of_nat .
    ultimately have "of_int (2 ^ k) \<le> (of_int (n div 2) :: rat)" "(of_int (n div 2) :: rat) < of_int (2 ^ Suc k)"
      by simp_all
    then have "2 ^ k \<le> n div 2" "n div 2 < 2 ^ Suc k" by (simp_all only: of_int_le_iff of_int_less_iff)
    then have "2 ^ Suc k \<le> n" "n < 2 ^ Suc (Suc k)" by auto
    then have "(of_int (2 ^ Suc k) :: rat) \<le> of_int n" "(of_int n :: rat) < of_int (2 ^ Suc (Suc k))"
      by (simp_all only: of_int_le_iff of_int_less_iff)
    moreover have "int (bits n) - 1 = int (Suc k)" by (simp add: b k)
    ultimately show ?thesis unfolding b k of_int_power of_int_numeral by (simp only: power_int_of_nat)
  qed
qed

lemma log2_floor:
  assumes "0 < q"
  shows "2 powi log2_floor q \<le> q" "q < 2 powi (log2_floor q + 1)"
proof -
  obtain n d where nd: "quotient_of q = (n, d)" by fastforce
  then have q: "q = of_int n / of_int d" and d: "0 < d" 
    by (simp_all add: quotient_of_div quotient_of_denom_pos)
  have n: "0 < n" using assms q d by (simp add: zero_less_divide_iff)
  let ?a = "int (bits n)" and ?b = "int (bits d)"
  note N = bits_bounds [OF n] and D = bits_bounds [OF d]
  have "q < 2 powi ?a / 2 powi (?b - 1)"
    unfolding q using N D n d by (intro frac_less) (auto simp: power_int_def)
  then have up: "q < 2 powi (?a - ?b + 1)" 
    by (simp add: power_int_diff power_int_add field_simps)
  have "2 powi (?a - 1) / 2 powi ?b \<le> q"
    unfolding q using N D n d by (intro frac_le) auto
  then have lo: "2 powi (?a - ?b - 1) \<le> q"
    by (simp add: power_int_diff power_int_add field_simps)
  show "2 powi log2_floor q \<le> q" "q < 2 powi (log2_floor q + 1)"
    using up lo by (auto simp: log2_floor_def nd Let_def)
qed

lemma log2_floor_mono:
  assumes "0 < p" "p \<le> q"
  shows "log2_floor p \<le> log2_floor q"
proof -
  have "(2::rat) powi log2_floor p < 2 powi (log2_floor q + 1)"
    using log2_floor(1) [OF assms(1)] log2_floor(2) [of q] assms by linarith
  moreover have "\<not> log2_floor q + 1 \<le> log2_floor p"
    using calculation power_int_increasing [of "log2_floor q + 1" "log2_floor p" "2::rat"] by auto
  ultimately show ?thesis by simp
qed

lemma round_even_of_int [simp]: "round_even (of_int i) = i"
  by (simp add: round_even_def Let_def)

lemma round_even_bounds: "of_int (round_even x) - 1 / 2 \<le> x" "x \<le> of_int (round_even x) + 1 / 2"
  unfolding round_even_def Let_def by (auto split: if_splits) linarith+

lemma round_even_mono:
  assumes "x \<le> y"
  shows "round_even x \<le> round_even y"
proof (cases "\<lfloor>x\<rfloor> = \<lfloor>y\<rfloor>")
  case True
  with assms show ?thesis by (auto simp: round_even_def Let_def)
next
  case False
  with floor_mono [OF assms] have "\<lfloor>x\<rfloor> + 1 \<le> \<lfloor>y\<rfloor>" by simp
  then show ?thesis by (auto simp: round_even_def Let_def)
qed

lemma powi_two_split: "k \<le> j \<Longrightarrow> (2::rat) powi j = of_int (2 ^ nat (j - k)) * 2 powi k"
proof -
  assume "k \<le> j"
  then have "j = int (nat (j - k)) + k" by simp
  then have "(2::rat) powi j = 2 powi int (nat (j - k)) * 2 powi k" by (metis power_int_add zero_neq_numeral)
  then show ?thesis unfolding power_int_of_nat by simp
qed

text \<open>Rounding at a fixed exponent.\<close>

definition rnd_at :: "int \<Rightarrow> rat \<Rightarrow> rat" where
  "rnd_at k q = of_int (round_even (q / 2 powi k)) * 2 powi k"

lemma powi_pos [simp]: "0 < (2::rat) powi k"
  by simp

lemma rnd_at_mono: "p \<le> q \<Longrightarrow> rnd_at k p \<le> rnd_at k q"
  unfolding rnd_at_def
  by (intro mult_right_mono) (auto intro!: round_even_mono divide_right_mono)

lemma rnd_at_powi:
  assumes "k \<le> j"
  shows "rnd_at k (2 powi j) = 2 powi j"
proof -
  have "(2::rat) powi j / 2 powi k = of_int (2 ^ nat (j - k))"
    by (subst powi_two_split [OF assms]) simp
  then show ?thesis
    unfolding rnd_at_def by (simp only: round_even_of_int powi_two_split [OF assms])
qed

lemma rnd_pos_at: "rnd_pos q = rnd_at (quantum q) q"
  by (simp add: rnd_pos_def rnd_at_def)

lemma rnd_pos_mono:
  assumes p: "0 < p" "p \<le> q"
  shows "rnd_pos p \<le> rnd_pos q"
proof (cases "quantum p = quantum q")
  case True
  then show ?thesis unfolding rnd_pos_at using rnd_at_mono [OF p(2)] by simp
next
  case False
  let ?e = "log2_floor p" and ?e' = "log2_floor q"
  from False log2_floor_mono [OF p] have kk: "quantum p < quantum q" "quantum q = ?e' - 52" "?e < ?e'"
    by (auto simp: quantum_def max_def split: if_splits)
  have "p \<le> 2 powi ?e'"
    using log2_floor(2) [OF p(1)] kk(3) power_int_increasing [of "?e + 1" ?e' "2::rat"] by simp
  then have "rnd_pos p \<le> 2 powi ?e'"
    unfolding rnd_pos_at using rnd_at_mono [of p "2 powi ?e'" "quantum p"] rnd_at_powi [of "quantum p" ?e'] kk
    by simp
  moreover have "2 powi ?e' \<le> rnd_pos q"
    unfolding rnd_pos_at
    using rnd_at_mono [OF log2_floor(1) [of q], of "quantum q"] rnd_at_powi [of "quantum q" ?e'] kk p by simp
  ultimately show ?thesis by simp
qed

lemma rnd_pos_nonneg: "0 < q \<Longrightarrow> 0 \<le> rnd_pos q"
  unfolding rnd_pos_def
  by (intro mult_nonneg_nonneg) (auto simp: round_even_def Let_def)

lemma rnd_mono: "p \<le> q \<Longrightarrow> rnd p \<le> rnd q"
  using rnd_pos_mono [of p q] rnd_pos_mono [of "- q" "- p"] rnd_pos_nonneg [of q] rnd_pos_nonneg [of "- p"]
  unfolding rnd_def by (cases "p > 0"; cases "q < 0") auto

lemma rnd_0 [simp]: "rnd 0 = 0"
  by (simp add: rnd_def)

lemma rnd_minus [simp]: "rnd (- q) = - rnd q"
  by (simp add: rnd_def)

lemma rnd_nonneg [simp]: "0 \<le> q \<Longrightarrow> 0 \<le> rnd q"
  using rnd_mono [of 0 q] by simp

lemma rnd_abs_le: "\<bar>q\<bar> \<le> c \<Longrightarrow> \<bar>rnd q\<bar> \<le> rnd c"
  using rnd_mono [of q c] rnd_mono [of "- c" q] by (simp add: abs_le_iff)

lemma half_away_mono:
  assumes "x \<le> y"
  shows "half_away x \<le> half_away y"
proof -
  have nn: "0 \<le> \<lfloor>z + 1 / 2\<rfloor>" if "0 \<le> z" for z :: rat using that by simp
  consider "0 \<le> x" "0 \<le> y" | "x < 0" "0 \<le> y" | "x < 0" "y < 0" using assms by linarith
  then show ?thesis
  proof cases
    case 1
    then show ?thesis using assms by (simp add: half_away_def floor_mono)
  next
    case 2
    then have "0 \<le> \<lfloor>- x + 1 / 2\<rfloor>" "0 \<le> \<lfloor>y + 1 / 2\<rfloor>" by (intro nn, simp)+
    moreover have "\<not> 0 \<le> x" using 2 by simp
    ultimately show ?thesis using 2(2) by (simp only: half_away_def if_True if_False simp_thms)
  next
    case 3
    then show ?thesis using assms floor_mono [of "- y + 1 / 2" "- x + 1 / 2"] by (simp add: half_away_def)
  qed
qed

lemma half_away_of_int [simp]: "half_away (of_int i) = i"
proof -
  have "\<lfloor>of_int j + (1 / 2 :: rat)\<rfloor> = j" for j by linarith
  from this [of i] this [of "- i"] show ?thesis by (simp add: half_away_def)
qed

lemma trunc_mono:
  assumes "x \<le> y"
  shows "trunc x \<le> trunc y"
proof -
  consider "0 \<le> x" "0 \<le> y" | "x < 0" "0 \<le> y" | "x < 0" "y < 0" using assms by linarith
  then show ?thesis
  proof cases
    case 1
    then show ?thesis using assms by (simp add: trunc_def floor_mono)
  next
    case 2
    then have "0 \<le> \<lfloor>- x\<rfloor>" "0 \<le> \<lfloor>y\<rfloor>" by simp_all
    moreover have "\<not> 0 \<le> x" using 2 by simp
    ultimately show ?thesis using 2(2) by (simp only: trunc_def if_True if_False simp_thms)
  next
    case 3
    then show ?thesis using assms floor_mono [of "- y" "- x"] by (simp add: trunc_def)
  qed
qed

lemma trunc_of_int [simp]: "trunc (of_int i) = i"
proof -
  have "\<lfloor>- (of_int i :: rat)\<rfloor> = - i" by (metis floor_of_int of_int_minus)
  then show ?thesis by (simp add: trunc_def)
qed

lemma to_i64_round [simp]: "in64 (half_away x) \<Longrightarrow> to_i64 (go_round x) = half_away x"
  by (simp add: to_i64_def go_round_def)

text \<open>Numbers of at most 53 significant bits are exact, so rounding twice is rounding once.\<close>

lemma rnd_pos_scaled:
  assumes "0 < m" "m < 2 ^ 53" "- 1074 \<le> e"
  shows "rnd_pos (of_int m * 2 powi e) = of_int m * 2 powi e"
proof -
  let ?q = "(of_int m :: rat) * 2 powi e"
  have pos: "0 < ?q" using assms(1) by simp
  have "(of_int m :: rat) < of_int (2 ^ 53)" using assms(2) by (simp only: of_int_less_iff)
  then have "?q < of_int (2 ^ 53) * 2 powi e" by (intro mult_strict_right_mono) simp_all
  also have "\<dots> = 2 powi (53 + e)" by (simp add: power_int_add)
  finally have lt: "?q < 2 powi (53 + e)" .
  have "log2_floor ?q \<le> 52 + e"
  proof (rule ccontr)
    assume "\<not> log2_floor ?q \<le> 52 + e"
    then have "(2::rat) powi (53 + e) \<le> 2 powi log2_floor ?q" by (intro power_int_increasing) auto
    with log2_floor(1) [OF pos] lt show False by linarith
  qed
  then have q: "quantum ?q \<le> e" using assms(3) by (simp add: quantum_def)
  have "?q = of_int m * (of_int (2 ^ nat (e - quantum ?q)) * 2 powi quantum ?q)"
    using powi_two_split [OF q] by simp
  then have "?q / 2 powi quantum ?q = of_int (m * 2 ^ nat (e - quantum ?q))"
    by (simp add: field_simps)
  then have "rnd_pos ?q = of_int (m * 2 ^ nat (e - quantum ?q)) * 2 powi quantum ?q"
    unfolding rnd_pos_def by (simp only: round_even_of_int)
  also have "\<dots> = ?q" using powi_two_split [OF q] by simp
  finally show ?thesis .
qed

lemma rnd_pos_of_int: "0 < i \<Longrightarrow> i < 2 ^ 53 \<Longrightarrow> rnd_pos (of_int i) = of_int i"
  using rnd_pos_scaled [of i 0] by simp

lemma rnd_pos_idem:
  assumes "0 < q"
  shows "rnd_pos (rnd_pos q) = rnd_pos q \<or> rnd_pos q = 0"
proof -
  define e m where "e = quantum q" and "m = round_even (q / 2 powi e)"
  have r: "rnd_pos q = of_int m * 2 powi e" by (simp add: rnd_pos_def e_def m_def)
  have e: "- 1074 \<le> e" "log2_floor q - 52 \<le> e" by (simp_all add: e_def quantum_def)
  have "(2::rat) powi (log2_floor q + 1) \<le> 2 powi (53 + e)" using e(2) by (intro power_int_increasing) auto
  with log2_floor(2) [OF assms] have "q < 2 powi (53 + e)" by linarith
  then have "q / 2 powi e < of_int (2 ^ 53)" by (simp add: power_int_add field_simps)
  then have "m \<le> 2 ^ 53" using round_even_mono [of "q / 2 powi e" "of_int (2 ^ 53)"] unfolding m_def round_even_of_int by simp
  moreover have "0 \<le> m" using round_even_mono [of 0 "q / 2 powi e"] assms round_even_of_int [of 0] by (simp add: m_def)
  ultimately consider "m = 0" | "0 < m" "m < 2 ^ 53" | "m = 2 ^ 53" by linarith
  then show ?thesis
  proof cases
    case 3
    then have "rnd_pos q = of_int (2 ^ 52) * 2 powi (e + 1)" by (simp add: r power_int_add)
    then show ?thesis using rnd_pos_scaled [of "2 ^ 52" "e + 1"] e(1) by simp
  qed (use rnd_pos_scaled [of m e] e(1) r in simp_all)
qed

lemma rnd_idem [simp]: "rnd (rnd q) = rnd q"
proof -
  have p: "rnd (rnd q) = rnd q" if "0 < q" for q
  proof -
    have "0 \<le> rnd_pos q" using rnd_nonneg [of q] that by (simp add: rnd_def)
    then show ?thesis using rnd_pos_idem [OF that] that by (auto simp: rnd_def)
  qed
  consider "q = 0" | "0 < q" | "0 < - q" by linarith
  then show ?thesis
  proof cases
    case 3
    then show ?thesis using p [of "- q"] by simp
  qed (use p in auto)
qed

lemma rnd_of_int [simp]: "\<bar>i\<bar> < 2 ^ 53 \<Longrightarrow> rnd (of_int i) = of_int i"
  using rnd_pos_of_int [of i] rnd_pos_of_int [of "- i"] by (auto simp: rnd_def)

lemma of_i64_exact [simp]: "\<bar>i\<bar> < 2 ^ 53 \<Longrightarrow> of_i64 i = of_int i"
  by (simp add: of_i64_def)

lemma rnd_1 [simp]: "rnd 1 = 1" and rnd_2 [simp]: "rnd 2 = 2"
  using rnd_of_int [of 1] rnd_of_int [of 2] by simp_all

lemma rnd_between: "of_int a \<le> x \<Longrightarrow> x \<le> of_int b \<Longrightarrow> \<bar>a\<bar> < 2 ^ 53 \<Longrightarrow> \<bar>b\<bar> < 2 ^ 53 \<Longrightarrow>
    of_int a \<le> rnd x \<and> rnd x \<le> of_int b"
  using rnd_mono [of "of_int a" x] rnd_mono [of x "of_int b"] by simp

end
