(* ===== verification/PriceEngine.thy ===== *)
theory PriceEngine
  imports Float64 OrderBook
begin

text \<open>
  The price engine (\<^verbatim>\<open>internal/exchange/price_engine.go\<close>, types of \<^verbatim>\<open>internal/exchange/types.go\<close>).

  Per ticker the engine keeps a price point, a fair value, trend, pressure and volatility, and
  the temporary effects of market events. \<open>Apply\<close> moves the price after an order, \<open>TriggerShock\<close>
  applies an event and \<open>Current\<close> lets the effects drift with time. Readings of the clock are
  the parameter \<open>now\<close>. The filter of \<^verbatim>\<open>pruneExpiredLocked\<close> reuses the backing array of the
  slice; every caller stores the pruned state, so no stale slice is read.
\<close>

section \<open>Data\<close>

record ticker =
  tk_symbol :: string
  tk_name :: string
  tk_sector :: string
  initial_price :: int
  tick_size :: int
  liquidity_units :: int
  whale_threshold :: int

record price_point =
  pp_symbol :: string
  previous_price :: int
  current_price :: int
  net_volume :: int
  buy_pressure :: int
  sell_pressure :: int
  whale_volume :: int
  whale_multiplier :: int
  move_bps :: int
  updated_at :: time

record temporaryEffect =
  ef_name :: string
  ef_bias :: f64
  ef_started_at :: time
  ef_expires_at :: time

record marketState =
  ms_price :: price_point
  fair_value :: f64
  trend :: f64
  pressure :: f64
  volatility :: f64
  effects :: "temporaryEffect list"

record price_engine =
  configs :: "string \<rightharpoonup> ticker"
  pe_state :: "string \<rightharpoonup> marketState"

datatype engine_error = UnknownTicker string

definition zero_ticker :: ticker where
  "zero_ticker = \<lparr>tk_symbol = [], tk_name = [], tk_sector = [], initial_price = 0, tick_size = 0,
     liquidity_units = 0, whale_threshold = 0\<rparr>"

definition zero_price_point :: price_point where
  "zero_price_point = \<lparr>pp_symbol = [], previous_price = 0, current_price = 0, net_volume = 0, buy_pressure = 0,
     sell_pressure = 0, whale_volume = 0, whale_multiplier = 0, move_bps = 0, updated_at = zero_time\<rparr>"

definition zero_market_state :: marketState where
  "zero_market_state = \<lparr>ms_price = zero_price_point, fair_value = 0, trend = 0, pressure = 0, volatility = 0,
     effects = []\<rparr>"

definition config_of :: "price_engine \<Rightarrow> string \<Rightarrow> ticker" where
  "config_of e s = (case configs e s of None \<Rightarrow> zero_ticker | Some c \<Rightarrow> c)"

definition state_of :: "price_engine \<Rightarrow> string \<Rightarrow> marketState" where
  "state_of e s = (case pe_state e s of None \<Rightarrow> zero_market_state | Some m \<Rightarrow> m)"

section \<open>Helpers\<close>

definition clampFloat :: "f64 \<Rightarrow> f64 \<Rightarrow> f64 \<Rightarrow> f64" where
  "clampFloat v lo hi = (if v < lo then lo else if v > hi then hi else v)"

definition abs64 :: "int \<Rightarrow> int" where
  "abs64 v = (if v < 0 then sub64 0 v else v)"

definition percentMove :: "f64 \<Rightarrow> f64 \<Rightarrow> f64" where
  "percentMove target current = (if current = 0 then 0 else fdiv (fsub target current) current)"

definition normalized :: "int \<Rightarrow> int \<Rightarrow> f64" where
  "normalized a b =
     (let total = of_i64 (add64 a b) in if total = 0 then 0 else fdiv (of_i64 (sub64 a b)) total)"

definition alignToTick :: "int \<Rightarrow> int \<Rightarrow> int" where
  "alignToTick price tick =
     (if tick \<le> 0 then price
      else if price < tick then tick
      else mul64 (quot64 price tick) tick)"

definition topDepth :: "level list \<Rightarrow> nat \<Rightarrow> int" where
  "topDepth levels n = foldl (\<lambda>t l. add64 t (lv_quantity l)) 0 (take n levels)"

definition bookMicroPrice :: "snapshot \<Rightarrow> int \<Rightarrow> f64" where
  "bookMicroPrice sn fallback =
     (case (sn_bids sn, sn_asks sn) of
        (bid # _, ask # _) \<Rightarrow>
          (let d = of_i64 (add64 (lv_quantity bid) (lv_quantity ask)) in
           if d = 0 then of_i64 fallback
           else fdiv (fadd (fmul (of_i64 (lv_price ask)) (of_i64 (lv_quantity bid)))
                           (fmul (of_i64 (lv_price bid)) (of_i64 (lv_quantity ask)))) d)
      | _ \<Rightarrow> of_i64 fallback)"

definition tradesVWAP :: "trade list \<Rightarrow> int \<Rightarrow> f64" where
  "tradesVWAP trades fallback =
     (let turnover = foldl (\<lambda>a t. add64 a (mul64 (t_price t) (t_quantity t))) 0 trades;
          volume = foldl (\<lambda>a t. add64 a (t_quantity t)) 0 trades
      in if volume = 0 then of_i64 fallback else fdiv (of_i64 turnover) (of_i64 volume))"

definition flow_step :: "int \<times> int \<times> int \<Rightarrow> trade \<Rightarrow> int \<times> int \<times> int" where
  "flow_step acc t =
     (case acc of (buy, sell, whale) \<Rightarrow>
       (let w1 = (if t_buyer_role t = ''Whale'' then add64 whale (t_quantity t) else whale);
            w2 = (if t_seller_role t = ''Whale'' then sub64 w1 (t_quantity t) else w1)
        in (if t_aggressor_side t = SideBuy then add64 buy (t_quantity t) else buy,
            if t_aggressor_side t = SideSell then add64 sell (t_quantity t) else sell, w2)))"

definition tradeFlows :: "trade list \<Rightarrow> int \<times> int \<times> int" where
  "tradeFlows trades = foldl flow_step (0, 0, 0) trades"

definition activeBias :: "marketState \<Rightarrow> time \<Rightarrow> f64" where
  "activeBias s now =
     clampFloat
       (foldl (\<lambda>bias e.
          let total = time_sub (ef_expires_at e) (ef_started_at e);
              remaining = time_sub (ef_expires_at e) now
          in if total \<le> 0 \<or> remaining \<le> 0 then bias
             else fadd bias (fmul (ef_bias e) (fdiv (seconds remaining) (seconds total)))) 0 (effects s))
       (rnd (- 45 / 100)) (rnd (45 / 100))"

definition pruneExpiredLocked :: "marketState \<Rightarrow> time \<Rightarrow> marketState" where
  "pruneExpiredLocked s now = s\<lparr>effects := filter (\<lambda>e. ef_expires_at e > now) (effects s)\<rparr>"

text \<open>\<^verbatim>\<open>alignToTick(int64(math.Round(float64(price)*(1.0+move))), tick)\<close>\<close>

definition moved_price :: "f64 \<Rightarrow> f64 \<Rightarrow> int \<Rightarrow> int" where
  "moved_price price move tick = alignToTick (to_i64 (go_round (fmul price (fadd 1 move)))) tick"

definition move_in_bps :: "f64 \<Rightarrow> int" where
  "move_in_bps move = to_i64 (go_round (fmul move 10000))"

section \<open>Operations\<close>

definition initial_state :: "ticker \<Rightarrow> time \<Rightarrow> marketState" where
  "initial_state t now = zero_market_state\<lparr>
     ms_price := zero_price_point\<lparr>pp_symbol := tk_symbol t, previous_price := initial_price t,
       current_price := initial_price t, updated_at := now\<rparr>,
     fair_value := of_i64 (initial_price t)\<rparr>"

definition NewPriceEngine :: "ticker list \<Rightarrow> time \<Rightarrow> price_engine" where
  "NewPriceEngine ts now =
     foldl (\<lambda>e t. e\<lparr>configs := (configs e)(tk_symbol t \<mapsto> t),
                    pe_state := (pe_state e)(tk_symbol t \<mapsto> initial_state t now)\<rparr>)
       \<lparr>configs = Map.empty, pe_state = Map.empty\<rparr> ts"

definition refreshStateLocked :: "ticker \<Rightarrow> marketState \<Rightarrow> string \<Rightarrow> time \<Rightarrow> marketState" where
  "refreshStateLocked cfg st symbol now =
     (let s = pruneExpiredLocked st now in
      if current_price (ms_price s) = 0 then
        (let s1 = s\<lparr>ms_price := zero_price_point\<lparr>pp_symbol := symbol, previous_price := initial_price cfg,
                                 current_price := initial_price cfg, updated_at := now\<rparr>\<rparr>
         in if fair_value s1 = 0 then s1\<lparr>fair_value := of_i64 (initial_price cfg)\<rparr> else s1)
      else
        (let elapsed = time_sub now (updated_at (ms_price s)) in
         if elapsed \<le> 0 then s
         else (let bias = activeBias s now in
           if bias = 0 then s
           else (let step = clampFloat (fmul bias (min (rnd (18 / 100)) (fdiv (seconds elapsed) 30)))
                              (rnd (- 12 / 1000)) (rnd (12 / 1000)) in
             if step = 0 then s
             else (let next = moved_price (of_i64 (current_price (ms_price s))) step (tick_size cfg) in
               if next = current_price (ms_price s) \<or> next \<le> 0 then s
               else s\<lparr>ms_price := \<lparr>pp_symbol = symbol, previous_price = current_price (ms_price s),
                        current_price = next, net_volume = 0, buy_pressure = 0, sell_pressure = 0,
                        whale_volume = 0, whale_multiplier = 10000, move_bps = move_in_bps step,
                        updated_at = now\<rparr>,
                      fair_value := max (of_i64 (tick_size cfg))
                        (fmul (fair_value s) (fadd 1 (fmul step (rnd (10 / 100)))))\<rparr>)))))"

text \<open>A state whose price is still zero is given the configured price before it is used.\<close>

definition primed :: "ticker \<Rightarrow> marketState \<Rightarrow> marketState" where
  "primed cfg s =
     (if current_price (ms_price s) = 0
      then s\<lparr>ms_price := (ms_price s)\<lparr>current_price := initial_price cfg, previous_price := initial_price cfg\<rparr>,
             fair_value := of_i64 (initial_price cfg)\<rparr>
      else s)"

definition at_least_tick :: "int \<Rightarrow> int \<Rightarrow> int" where
  "at_least_tick price tick = (if price \<le> 0 then tick else price)"

text \<open>
  The signals of \<^verbatim>\<open>Apply\<close>: the proposed move before it is clamped, the impulse of the whales,
  and the state with its smoothed quantities updated. \<open>cp\<close> is the price the move is relative to.
\<close>

definition reference_price :: "ticker \<Rightarrow> int \<Rightarrow> f64" where
  "reference_price cfg current =
     (if of_i64 current \<le> 0 then of_i64 (initial_price cfg) else of_i64 current)"

definition whale_impulse :: "ticker \<Rightarrow> int \<Rightarrow> f64" where
  "whale_impulse cfg whale =
     (if whale_threshold cfg > 0
      then fmul (fdiv (of_i64 whale) (of_i64 (whale_threshold cfg))) (rnd (35 / 100)) else 0)"

definition apply_signals ::
  "ticker \<Rightarrow> marketState \<Rightarrow> trade list \<Rightarrow> snapshot \<Rightarrow> time \<Rightarrow> f64 \<times> marketState" where
  "apply_signals cfg s trades sn now =
     (let current = current_price (ms_price s);
          (buy, sell, whale) = tradeFlows trades;
          depthImbalance = normalized (topDepth (sn_bids sn) 5) (topDepth (sn_asks sn) 5);
          flowImbalance = normalized buy sell;
          microPrice = bookMicroPrice sn current;
          tradeVWAP = tradesVWAP trades current;
          cp = reference_price cfg current;
          bias = activeBias s now;
          fv = fadd (fmul (fair_value s) (rnd (982 / 1000))) (fmul tradeVWAP (rnd (18 / 1000)));
          microDislocation = percentMove microPrice cp;
          meanReversion = fmul (percentMove fv cp) (rnd (18 / 100));
          instantImpact =
            fadd (fadd (fadd (fadd (fadd (fmul flowImbalance (rnd (14 / 1000)))
                                         (fmul depthImbalance (rnd (8 / 1000))))
                                   (fmul microDislocation (rnd (45 / 100))))
                             meanReversion)
                       (whale_impulse cfg whale))
                 (fmul bias (rnd (55 / 100)));
          pr = fadd (fmul (pressure s) (rnd (72 / 100))) (fmul instantImpact (rnd (28 / 100)));
          tr = fadd (fadd (fmul (trend s) (rnd (82 / 100))) (fmul flowImbalance (rnd (18 / 100))))
                    (fmul bias (rnd (10 / 100)));
          move = (if trades = []
            then fadd (fadd (fadd (fmul meanReversion (rnd (65 / 100))) (fmul microDislocation (rnd (20 / 100))))
                            (fmul pr (rnd (10 / 100))))
                      (fmul bias (rnd (35 / 100)))
            else fadd (fadd instantImpact (fmul pr (rnd (65 / 100)))) (fmul tr (rnd (25 / 100))));
          vol = fadd (fmul (volatility s) (rnd (90 / 100))) (fmul \<bar>move\<bar> (rnd (10 / 100)));
          regime = fadd 1 (min (rnd (135 / 100)) (fmul vol 18))
      in (fmul move regime, s\<lparr>fair_value := fv, trend := tr, pressure := pr, volatility := vol\<rparr>))"

definition apply_state :: "ticker \<Rightarrow> marketState \<Rightarrow> string \<Rightarrow> trade list \<Rightarrow> snapshot \<Rightarrow> time \<Rightarrow> marketState" where
  "apply_state cfg refreshed symbol trades sn now =
     (let s = primed cfg refreshed;
          current = current_price (ms_price s);
          (buy, sell, whale) = tradeFlows trades;
          (raw, s') = apply_signals cfg s trades sn now;
          move = clampFloat raw (rnd (- 35 / 1000)) (rnd (35 / 1000));
          next = at_least_tick (moved_price (reference_price cfg current) move (tick_size cfg)) (tick_size cfg)
      in s'\<lparr>ms_price := \<lparr>pp_symbol = symbol, previous_price = current, current_price = next,
              net_volume = sub64 buy sell, buy_pressure = buy, sell_pressure = sell,
              whale_volume = abs64 whale,
              whale_multiplier = to_i64 (fadd 10000 (min 12000 (fmul \<bar>whale_impulse cfg whale\<bar> 10000))),
              move_bps = move_in_bps move, updated_at = now\<rparr>\<rparr>)"

definition Apply ::
  "price_engine \<Rightarrow> string \<Rightarrow> trade list \<Rightarrow> snapshot \<Rightarrow> time \<Rightarrow> (engine_error + price_point) \<times> price_engine" where
  "Apply e symbol trades sn now =
     (case configs e symbol of
        None \<Rightarrow> (Inl (UnknownTicker symbol), e)
      | Some cfg \<Rightarrow>
          (let s = apply_state cfg (refreshStateLocked cfg (state_of e symbol) symbol now) symbol trades sn now
           in (Inr (ms_price s), e\<lparr>pe_state := (pe_state e)(symbol \<mapsto> s)\<rparr>)))"

definition shock_state :: "ticker \<Rightarrow> marketState \<Rightarrow> string \<Rightarrow> int \<Rightarrow> duration \<Rightarrow> time \<Rightarrow> marketState" where
  "shock_state cfg refreshed symbol pct dur t0 =
     (let s = primed cfg refreshed;
          shock = clampFloat (fdiv (of_i64 pct) 100) (rnd (- 35 / 100)) (rnd (35 / 100));
          next = at_least_tick (moved_price (of_i64 (current_price (ms_price s))) shock (tick_size cfg))
                   (tick_size cfg)
      in s\<lparr>effects := effects s @ [\<lparr>ef_name = symbol, ef_bias = fmul shock (rnd (60 / 100)),
                                     ef_started_at = t0, ef_expires_at = t0 + dur\<rparr>],
           fair_value := max (of_i64 (tick_size cfg))
             (fmul (fair_value s) (fadd 1 (fmul shock (rnd (55 / 100))))),
           trend := clampFloat (fadd (trend s) (fmul shock (rnd (35 / 100)))) (rnd (- 6 / 10)) (rnd (6 / 10)),
           pressure := clampFloat (fadd (pressure s) (fmul shock (rnd (45 / 100)))) (rnd (- 8 / 10)) (rnd (8 / 10)),
           volatility := clampFloat (fadd (volatility s) (fmul \<bar>shock\<bar> (rnd (25 / 100)))) 0 (rnd (3 / 2)),
           ms_price := \<lparr>pp_symbol = symbol, previous_price = current_price (ms_price s), current_price = next,
             net_volume = 0, buy_pressure = 0, sell_pressure = 0, whale_volume = 0, whale_multiplier = 10000,
             move_bps = move_in_bps shock, updated_at = t0\<rparr>\<rparr>)"

text \<open>The write to the last effect after pruning panics on an empty slice: \<open>None\<close>.\<close>

definition rename_last_effect :: "string \<Rightarrow> marketState \<Rightarrow> marketState option" where
  "rename_last_effect symbol s =
     (if effects s = [] then None
      else Some (s\<lparr>effects := butlast (effects s) @ [(last (effects s))\<lparr>ef_name := symbol\<rparr>]\<rparr>))"

definition TriggerShock ::
  "price_engine \<Rightarrow> string \<Rightarrow> int \<Rightarrow> duration \<Rightarrow> time \<Rightarrow> time \<Rightarrow>
     ((engine_error + price_point) \<times> price_engine) option" where
  "TriggerShock e symbol pct dur0 occurred now =
     (case configs e symbol of
        None \<Rightarrow> Some (Inl (UnknownTicker symbol), e)
      | Some cfg \<Rightarrow>
          (let t0 = (if occurred = zero_time then now else occurred);
               dur = (if dur0 \<le> 0 then 30 * second else dur0);
               s = shock_state cfg (refreshStateLocked cfg (state_of e symbol) symbol t0) symbol pct dur t0
           in case rename_last_effect symbol (pruneExpiredLocked s t0) of
                None \<Rightarrow> None
              | Some s' \<Rightarrow> Some (Inr (ms_price s'), e\<lparr>pe_state := (pe_state e)(symbol \<mapsto> s')\<rparr>)))"

definition Current :: "price_engine \<Rightarrow> string \<Rightarrow> time \<Rightarrow> (engine_error + price_point) \<times> price_engine" where
  "Current e symbol now =
     (case pe_state e symbol of
        None \<Rightarrow> (Inl (UnknownTicker symbol), e)
      | Some st \<Rightarrow>
          (let s = refreshStateLocked (config_of e symbol) st symbol now
           in (Inr (ms_price s), e\<lparr>pe_state := (pe_state e)(symbol \<mapsto> s)\<rparr>)))"

section \<open>Prices stay on the tick grid\<close>

lemma clampFloat_bounds: "lo \<le> hi \<Longrightarrow> lo \<le> clampFloat v lo hi \<and> clampFloat v lo hi \<le> hi"
  by (simp add: clampFloat_def)

lemma alignToTick_grid:
  assumes "0 < tick" "in64 price" "in64 tick"
  shows "tick \<le> alignToTick price tick \<and> tick dvd alignToTick price tick"
proof (cases "price < tick")
  case False
  have q: "quot64 price tick = price div tick" using False assms by (simp add: quot64_exact)
  have "price div tick * tick \<le> price" using div_mult_mod_eq [of price tick] pos_mod_sign [OF assms(1), of price] by linarith
  moreover have big: "tick \<le> price div tick * tick"
  proof -
    have "0 < price div tick" using False assms(1) pos_imp_zdiv_pos_iff [of tick price] by simp
    then have "1 * tick \<le> price div tick * tick" using assms(1) by (intro mult_right_mono) auto
    then show ?thesis by simp
  qed
  ultimately have "mul64 (price div tick) tick = price div tick * tick"
    using assms by (intro mul64_exact in64_mono [OF assms(2)]) simp_all
  with False assms big show ?thesis by (simp add: alignToTick_def q)
qed (use assms in \<open>simp add: alignToTick_def\<close>)

lemma in64_to_i64 [simp]: "in64 (to_i64 x)"
  by (simp add: to_i64_def) (simp add: in64_def)

definition on_grid :: "ticker \<Rightarrow> int \<Rightarrow> bool" where
  "on_grid cfg p \<longleftrightarrow> tick_size cfg \<le> p \<and> tick_size cfg dvd p"

definition ticker_ok :: "ticker \<Rightarrow> bool" where
  "ticker_ok cfg \<longleftrightarrow> 0 < tick_size cfg \<and> in64 (tick_size cfg) \<and> 0 < initial_price cfg"

lemma moved_price_grid:
  "ticker_ok cfg \<Longrightarrow> on_grid cfg (moved_price p m (tick_size cfg))"
  using alignToTick_grid [of "tick_size cfg"] by (simp add: moved_price_def on_grid_def ticker_ok_def)

lemma at_least_tick_grid: "ticker_ok cfg \<Longrightarrow> on_grid cfg p \<Longrightarrow> on_grid cfg (at_least_tick p (tick_size cfg))"
  by (auto simp: at_least_tick_def on_grid_def ticker_ok_def)

text \<open>A price moves by at most the clamped move, a unit of rounding and what aligning it to the grid
  takes off.\<close>

lemma move_factor:
  assumes "rnd (- 35 / 1000) \<le> m" "m \<le> rnd (35 / 1000)"
  shows "965 / 1000 - 1 / 2 ^ 50 \<le> fadd 1 m" "fadd 1 m \<le> 1035 / 1000 + 1 / 2 ^ 50"
proof -
  have l: "rnd (1 + rnd (- 35 / 1000)) \<le> fadd 1 m" and u: "fadd 1 m \<le> rnd (1 + rnd (35 / 1000))"
    unfolding fadd_def using assms by (intro rnd_mono; simp)+
  have "965 / 1000 - 1 / 2 ^ 50 \<le> rnd (1 + rnd (- 35 / 1000))" "rnd (1 + rnd (35 / 1000)) \<le> 1035 / 1000 + 1 / 2 ^ 50"
    by code_simp+
  then show "965 / 1000 - 1 / 2 ^ 50 \<le> fadd 1 m" "fadd 1 m \<le> 1035 / 1000 + 1 / 2 ^ 50" using l u by (blast intro: order_trans)+
qed

lemma round_between:
  assumes "of_int a \<le> x" "x \<le> of_int b" "\<bar>a\<bar> < 2 ^ 53" "\<bar>b\<bar> < 2 ^ 53"
  shows "a \<le> to_i64 (go_round (rnd x)) \<and> to_i64 (go_round (rnd x)) \<le> b"
proof -
  have "of_int a \<le> rnd x" "rnd x \<le> of_int b" using rnd_between [OF assms] by simp_all
  then have r: "a \<le> half_away (rnd x)" "half_away (rnd x) \<le> b"
    using half_away_mono [of "of_int a" "rnd x"] half_away_mono [of "rnd x" "of_int b"] by simp_all
  then have "in64 (half_away (rnd x))" using assms(3,4) by (auto simp: in64_def abs_less_iff)
  then show ?thesis using r by simp
qed

lemma alignToTick_near:
  assumes "0 < tick" "in64 r" "in64 tick"
  shows "if r < tick then alignToTick r tick = tick else r - tick < alignToTick r tick \<and> alignToTick r tick \<le> r"
proof (cases "r < tick")
  case False
  have q: "quot64 r tick = r div tick" using False assms by (simp add: quot64_exact)
  have d: "r - tick < r div tick * tick" "r div tick * tick \<le> r" "0 \<le> r div tick * tick"
    using div_mult_mod_eq [of r tick] pos_mod_bound [OF assms(1), of r] pos_mod_sign [OF assms(1), of r] False assms(1)
      pos_imp_zdiv_nonneg_iff [OF assms(1), of r] by (linarith, linarith, simp)
  have "mul64 (r div tick) tick = r div tick * tick"
    using d assms by (intro mul64_exact in64_mono [OF assms(2)]) simp_all
  then show ?thesis using False d assms by (simp add: alignToTick_def q)
qed (use assms in \<open>simp add: alignToTick_def\<close>)

lemma moved_price_near:
  assumes "rnd (- 35 / 1000) \<le> m" "m \<le> rnd (35 / 1000)" and c: "0 < c" "c < 2 ^ 48"
    and tick: "0 < tick" "in64 tick"
  shows "1000 * \<bar>moved_price (of_i64 c) m tick - c\<bar> \<le> 35 * c + 1000 * (tick + 1)"
proof -
  define x r where "x = of_int c * fadd 1 m" and "r = to_i64 (go_round (rnd x))"
  have f: "965 / 1000 - 1 / 2 ^ 50 \<le> fadd 1 m" "fadd 1 m \<le> 1035 / 1000 + 1 / 2 ^ 50" using move_factor [OF assms(1,2)] by auto
  have p: "moved_price (of_i64 c) m tick = alignToTick r tick"
    using c by (simp add: moved_price_def fmul_def x_def r_def)
  have c': "(0::rat) < of_int c" "(of_int c :: rat) < 2 ^ 48" using c by (simp, metis of_int_less_iff of_int_numeral of_int_power)
  have "of_int c * (965 / 1000 - 1 / 2 ^ 50) \<le> x" "x \<le> of_int c * (1035 / 1000 + 1 / 2 ^ 50)"
    unfolding x_def using f c' by (intro mult_left_mono; simp)+
  then have x: "of_int c * 965 / 1000 - 1 / 4 \<le> x" "x \<le> of_int c * 1035 / 1000 + 1 / 4"
    using c'(2) by (simp_all add: field_simps)
  have bd: "\<bar>\<lfloor>x\<rfloor>\<bar> < 2 ^ 53" "\<bar>\<lceil>x\<rceil>\<bar> < 2 ^ 53"
  proof -
    have "of_int (- 1) \<le> x" "x \<le> of_int (2 ^ 49)" using x c' by simp_all
    then have "- 1 \<le> \<lfloor>x\<rfloor>" "\<lceil>x\<rceil> \<le> 2 ^ 49" "\<lfloor>x\<rfloor> \<le> \<lceil>x\<rceil>" by (simp_all only: le_floor_iff ceiling_le_iff floor_le_ceiling)
    moreover obtain i j where "\<lfloor>x\<rfloor> = i" "\<lceil>x\<rceil> = j" by blast
    ultimately show "\<bar>\<lfloor>x\<rfloor>\<bar> < 2 ^ 53" "\<bar>\<lceil>x\<rceil>\<bar> < 2 ^ 53" by (simp_all del: ceiling_le_iff)
  qed
  have "\<lfloor>x\<rfloor> \<le> r \<and> r \<le> \<lceil>x\<rceil>" unfolding r_def by (rule round_between) (use bd in simp_all)
  then have "x - 1 < of_int r" "of_int r < x + 1" by linarith+
  then have "(of_int c :: rat) * 965 / 1000 - 5 / 4 < of_int r" "of_int r < (of_int c :: rat) * 1035 / 1000 + 5 / 4" using x by linarith+
  then have "of_int (965 * c - 1250) < (of_int (1000 * r) :: rat)" "(of_int (1000 * r) :: rat) < of_int (1035 * c + 1250)" by simp_all
  then have r: "965 * c - 1250 < 1000 * r" "1000 * r < 1035 * c + 1250" by (simp_all only: of_int_less_iff)
  have "in64 r" by (simp add: r_def)
  then consider "alignToTick r tick = tick" "r < tick" | "r - tick < alignToTick r tick" "alignToTick r tick \<le> r"
    using alignToTick_near [OF tick(1) _ tick(2), of r] by (auto split: if_splits)
  then have "1000 * (alignToTick r tick - c) \<le> 35 * c + 1000 * (tick + 1) \<and> 1000 * (c - alignToTick r tick) \<le> 35 * c + 1000 * (tick + 1)"
    using r c(1) tick(1) by cases (simp_all add: algebra_simps)
  then show ?thesis unfolding p by (simp add: abs_if)
qed

lemma move_in_bps_bounds:
  assumes "rnd (- c) \<le> m" "m \<le> rnd c" and up: "half_away (rnd (rnd c * 10000)) = k"
    and lo: "half_away (rnd (rnd (- c) * 10000)) = - k" and k: "k < 2 ^ 63" "0 \<le> k"
  shows "\<bar>move_in_bps m\<bar> \<le> k"
proof -
  have "half_away (rnd (m * 10000)) \<le> k" unfolding up [symmetric]
    by (intro half_away_mono rnd_mono mult_right_mono assms) simp
  moreover have "- k \<le> half_away (rnd (m * 10000))" unfolding lo [symmetric]
    by (intro half_away_mono rnd_mono mult_right_mono assms) simp
  moreover from calculation k have "in64 (half_away (rnd (m * 10000)))" by (simp add: in64_def)
  ultimately show ?thesis by (simp add: move_in_bps_def fmul_def abs_le_iff)
qed

lemma bps_apply: "\<bar>move_in_bps (clampFloat v (rnd (- 35 / 1000)) (rnd (35 / 1000)))\<bar> \<le> 350"
proof (rule move_in_bps_bounds [of "35 / 1000"])
  have "rnd (- 35 / 1000) \<le> rnd (35 / 1000)" by (intro rnd_mono) simp
  from clampFloat_bounds [OF this, of v]
  show "rnd (- (35 / 1000)) \<le> clampFloat v (rnd (- 35 / 1000)) (rnd (35 / 1000))"
    "clampFloat v (rnd (- 35 / 1000)) (rnd (35 / 1000)) \<le> rnd (35 / 1000)" by simp_all
qed (code_simp, code_simp, simp_all)

lemma bps_shock: "\<bar>move_in_bps (clampFloat v (rnd (- 35 / 100)) (rnd (35 / 100)))\<bar> \<le> 3500"
proof (rule move_in_bps_bounds [of "35 / 100"])
  have "rnd (- 35 / 100) \<le> rnd (35 / 100)" by (intro rnd_mono) simp
  from clampFloat_bounds [OF this, of v]
  show "rnd (- (35 / 100)) \<le> clampFloat v (rnd (- 35 / 100)) (rnd (35 / 100))"
    "clampFloat v (rnd (- 35 / 100)) (rnd (35 / 100)) \<le> rnd (35 / 100)" by simp_all
qed (code_simp, code_simp, simp_all)

lemma whale_bounds:
  assumes "0 \<le> w"
  shows "10000 \<le> to_i64 (fadd 10000 (min 12000 w)) \<and> to_i64 (fadd 10000 (min 12000 w)) \<le> 22000"
proof -
  have e: "rnd 10000 = of_int 10000" "rnd 22000 = of_int 22000" by code_simp+
  have "rnd 10000 \<le> fadd 10000 (min 12000 w)"
    unfolding fadd_def using assms by (intro rnd_mono) simp
  moreover have "fadd 10000 (min 12000 w) \<le> rnd 22000"
    unfolding fadd_def by (intro rnd_mono) simp
  ultimately have "10000 \<le> trunc (fadd 10000 (min 12000 w))" "trunc (fadd 10000 (min 12000 w)) \<le> 22000"
    unfolding e by (simp_all only: trunc_mono [of "of_int _", unfolded trunc_of_int] trunc_mono [of _ "of_int _", unfolded trunc_of_int])
  then show ?thesis by (simp add: to_i64_def in64_def)
qed

lemma tradeFlows_in64:
  "in64 (fst (tradeFlows ts)) \<and> in64 (fst (snd (tradeFlows ts))) \<and> in64 (snd (snd (tradeFlows ts)))"
proof -
  have "in64 a \<Longrightarrow> in64 b \<Longrightarrow> in64 c \<Longrightarrow> case foldl flow_step (a, b, c) ts of (x, y, z) \<Rightarrow> in64 x \<and> in64 y \<and> in64 z"
    for a b c
    by (induction ts arbitrary: a b c) (simp_all add: flow_step_def Let_def)
  from this [of 0 0 0] show ?thesis by (auto simp: tradeFlows_def split: prod.splits)
qed

definition price_ok :: "ticker \<Rightarrow> int \<Rightarrow> bool" where
  "price_ok cfg p \<longleftrightarrow> p = initial_price cfg \<or> on_grid cfg p"

lemma price_ok_pos: "ticker_ok cfg \<Longrightarrow> price_ok cfg p \<Longrightarrow> 0 < p"
  by (auto simp: price_ok_def on_grid_def ticker_ok_def)

lemma refresh_price_ok:
  assumes "ticker_ok cfg" "price_ok cfg (current_price (ms_price s))"
  shows "price_ok cfg (current_price (ms_price (refreshStateLocked cfg s symbol now)))"
  using assms moved_price_grid [OF assms(1)]
  by (auto simp: refreshStateLocked_def pruneExpiredLocked_def Let_def price_ok_def)

lemma primed_id: "ticker_ok cfg \<Longrightarrow> price_ok cfg (current_price (ms_price s)) \<Longrightarrow> primed cfg s = s"
  using price_ok_pos [of cfg "current_price (ms_price s)"] by (simp add: primed_def)

lemma apply_state_price:
  assumes "ticker_ok cfg"
  shows "let p = ms_price (apply_state cfg s symbol trades sn now) in
     on_grid cfg (current_price p) \<and> \<bar>move_bps p\<bar> \<le> 350 \<and>
     10000 \<le> whale_multiplier p \<and> whale_multiplier p \<le> 22000 \<and>
     previous_price p = current_price (ms_price (primed cfg s)) \<and> updated_at p = now \<and> pp_symbol p = symbol"
proof -
  obtain b sl w where tf: "tradeFlows trades = (b, sl, w)" by (metis prod_cases3)
  obtain raw s' where sg: "apply_signals cfg (primed cfg s) trades sn now = (raw, s')" by fastforce
  have m: "0 \<le> fmul \<bar>x\<bar> 10000" for x by (simp add: fmul_def)
  show ?thesis
    by (simp add: apply_state_def Let_def tf sg at_least_tick_grid moved_price_grid assms bps_apply [simplified] whale_bounds m)
qed

lemma apply_state_move:
  assumes "ticker_ok cfg" "price_ok cfg (current_price (ms_price s))" "current_price (ms_price s) < 2 ^ 48"
  shows "1000 * \<bar>current_price (ms_price (apply_state cfg s symbol trades sn now)) - current_price (ms_price s)\<bar>
     \<le> 35 * current_price (ms_price s) + 1000 * (tick_size cfg + 1)"
proof -
  let ?c = "current_price (ms_price s)"
  have c: "0 < ?c" "primed cfg s = s" using assms price_ok_pos primed_id by auto
  then have ref: "reference_price cfg ?c = of_i64 ?c" using assms(3) by (simp add: reference_price_def)
  obtain b sl w where tf: "tradeFlows trades = (b, sl, w)" by (metis prod_cases3)
  obtain raw s' where sg: "apply_signals cfg s trades sn now = (raw, s')" by fastforce
  let ?m = "clampFloat raw (rnd (- 35 / 1000)) (rnd (35 / 1000))"
  have "rnd (- 35 / 1000) \<le> rnd (35 / 1000)" by (intro rnd_mono) simp
  note m = clampFloat_bounds [OF this, of raw]
  have g: "at_least_tick (moved_price p x (tick_size cfg)) (tick_size cfg) = moved_price p x (tick_size cfg)" for p x
    using moved_price_grid [OF assms(1), of p x] assms(1) by (simp add: at_least_tick_def on_grid_def ticker_ok_def)
  have "current_price (ms_price (apply_state cfg s symbol trades sn now)) = moved_price (of_i64 ?c) ?m (tick_size cfg)"
    by (simp add: apply_state_def Let_def tf sg c(2) ref g)
  with moved_price_near [of ?m ?c "tick_size cfg"] m c(1) assms show ?thesis by (simp add: ticker_ok_def)
qed

lemma shock_state_price:
  assumes "ticker_ok cfg"
  shows "let s' = shock_state cfg s symbol pct dur t0; p = ms_price s' in
     on_grid cfg (current_price p) \<and> \<bar>move_bps p\<bar> \<le> 3500 \<and>
     previous_price p = current_price (ms_price (primed cfg s)) \<and> updated_at p = t0"
  by (simp add: shock_state_def Let_def at_least_tick_grid moved_price_grid assms bps_shock [simplified])

section \<open>Reachable engines\<close>

inductive reachable_engine :: "ticker list \<Rightarrow> price_engine \<Rightarrow> bool" for ts where
  engine_new: "reachable_engine ts (NewPriceEngine ts now)"
| engine_apply: "reachable_engine ts e \<Longrightarrow> reachable_engine ts (snd (Apply e symbol trades sn now))"
| engine_shock: "reachable_engine ts e \<Longrightarrow> TriggerShock e symbol pct dur occ now = Some (r, e') \<Longrightarrow>
     reachable_engine ts e'"
| engine_current: "reachable_engine ts e \<Longrightarrow> reachable_engine ts (snd (Current e symbol now))"

definition engine_inv :: "price_engine \<Rightarrow> bool" where
  "engine_inv e \<longleftrightarrow> dom (pe_state e) = dom (configs e) \<and>
     (\<forall>symbol cfg s. configs e symbol = Some cfg \<longrightarrow> pe_state e symbol = Some s \<longrightarrow>
        ticker_ok cfg \<longrightarrow> price_ok cfg (current_price (ms_price s)))"

lemma engine_inv_upd:
  assumes "engine_inv e" "configs e symbol = Some cfg"
    and "ticker_ok cfg \<Longrightarrow> price_ok cfg (current_price (ms_price s))"
  shows "engine_inv (e\<lparr>pe_state := (pe_state e)(symbol \<mapsto> s)\<rparr>)"
  using assms by (auto simp: engine_inv_def)

lemma NewPriceEngine_inv: "engine_inv (NewPriceEngine ts now)"
proof -
  have "engine_inv e \<Longrightarrow> engine_inv (foldl (\<lambda>e t. e\<lparr>configs := (configs e)(tk_symbol t \<mapsto> t),
      pe_state := (pe_state e)(tk_symbol t \<mapsto> initial_state t now)\<rparr>) e ts)" for e
  proof (induction ts arbitrary: e)
    case (Cons t ts)
    have "engine_inv (e\<lparr>configs := (configs e)(tk_symbol t \<mapsto> t),
        pe_state := (pe_state e)(tk_symbol t \<mapsto> initial_state t now)\<rparr>)"
      using Cons.prems by (auto simp: engine_inv_def initial_state_def price_ok_def)
    from Cons.IH [OF this] show ?case by (simp only: foldl_Cons)
  qed simp
  from this [of "\<lparr>configs = Map.empty, pe_state = Map.empty\<rparr>"] show ?thesis
    unfolding NewPriceEngine_def by (simp add: engine_inv_def [of "\<lparr>configs = Map.empty, pe_state = Map.empty\<rparr>"])
qed

lemma state_ok:
  "engine_inv e \<Longrightarrow> configs e symbol = Some cfg \<Longrightarrow> ticker_ok cfg \<Longrightarrow>
     price_ok cfg (current_price (ms_price (state_of e symbol)))"
  unfolding engine_inv_def state_of_def by (auto split: option.splits dest: domI)

lemma Apply_inv: "engine_inv e \<Longrightarrow> engine_inv (snd (Apply e symbol trades sn now))"
  using apply_state_price
  by (auto simp: Apply_def Let_def price_ok_def intro!: engine_inv_upd split: option.splits)

lemma TriggerShock_state:
  assumes "configs e symbol = Some cfg"
  defines "t0 occ now \<equiv> if occ = zero_time then now else occ"
  shows "\<exists>s. TriggerShock e symbol pct dur occ now = Some (Inr (ms_price s), e\<lparr>pe_state := (pe_state e)(symbol \<mapsto> s)\<rparr>) \<and>
     ms_price s = ms_price (shock_state cfg (refreshStateLocked cfg (state_of e symbol) symbol (t0 occ now)) symbol pct
       (if dur \<le> 0 then 30 * second else dur) (t0 occ now)) \<and> effects s \<noteq> [] \<and>
     (\<forall>f \<in> set (effects s). t0 occ now < ef_expires_at f)"
proof -
  let ?d = "if dur \<le> 0 then 30 * second else dur"
  let ?s = "shock_state cfg (refreshStateLocked cfg (state_of e symbol) symbol (t0 occ now)) symbol pct ?d (t0 occ now)"
  have d: "0 < ?d" by (simp add: second_def)
  have act: "\<exists>f. f \<in> set (effects ?s) \<and> t0 occ now < ef_expires_at f"
    using d by (auto simp: shock_state_def Let_def)
  let ?p = "pruneExpiredLocked ?s (t0 occ now)"
  let ?s' = "?p\<lparr>effects := butlast (effects ?p) @ [(last (effects ?p))\<lparr>ef_name := symbol\<rparr>]\<rparr>"
  have ne: "effects ?p \<noteq> []" using act by (auto simp: pruneExpiredLocked_def filter_empty_conv)
  have ex: "f \<in> set (effects ?p) \<Longrightarrow> t0 occ now < ef_expires_at f" for f
    by (simp add: pruneExpiredLocked_def)
  have ms: "ms_price ?s' = ms_price ?s" by (simp add: pruneExpiredLocked_def)
  have "TriggerShock e symbol pct dur occ now = Some (Inr (ms_price ?s'), e\<lparr>pe_state := (pe_state e)(symbol \<mapsto> ?s')\<rparr>)"
    unfolding TriggerShock_def assms(1) option.case Let_def t0_def [symmetric] rename_last_effect_def if_not_P [OF ne]
    by (rule refl)
  moreover have "\<forall>f \<in> set (effects ?s'). t0 occ now < ef_expires_at f"
    using ex last_in_set [OF ne] by (auto dest: in_set_butlastD)
  ultimately show ?thesis using ms by (intro exI [of _ ?s'] conjI) simp_all
qed

lemma TriggerShock_inv:
  assumes "engine_inv e" "TriggerShock e symbol pct dur occ now = Some (r, e')"
  shows "engine_inv e'"
proof (cases "configs e symbol")
  case (Some cfg)
  from TriggerShock_state [OF this, of pct dur occ now] assms(2) show ?thesis
    using shock_state_price by (auto simp: Let_def price_ok_def intro!: engine_inv_upd [OF assms(1) Some])
qed (use assms in \<open>simp add: TriggerShock_def\<close>)

lemma Current_inv: "engine_inv e \<Longrightarrow> engine_inv (snd (Current e symbol now))"
proof (cases "pe_state e symbol")
  case (Some st)
  assume inv: "engine_inv e"
  with Some obtain cfg where "configs e symbol = Some cfg" unfolding engine_inv_def by blast
  with inv Some state_ok [OF inv this] show ?thesis
    by (auto simp: Current_def Let_def config_of_def state_of_def intro!: engine_inv_upd refresh_price_ok)
qed (simp add: Current_def)

lemma reachable_engine_inv: "reachable_engine ts e \<Longrightarrow> engine_inv e"
  by (induction rule: reachable_engine.induct) (auto simp: NewPriceEngine_inv Apply_inv Current_inv dest: TriggerShock_inv)

section \<open>Theorems\<close>

text \<open>Every price the engine reports for a correctly configured ticker is positive: whatever
  trades, books, events and clock readings it has seen, the current price is the configured
  initial price or a multiple of the tick size that is at least one tick.\<close>
theorem engine_prices_on_grid:
  assumes "reachable_engine ts e" and "configs e symbol = Some cfg" and "ticker_ok cfg"
  shows "price_ok cfg (current_price (ms_price (state_of e symbol))) \<and>
     0 < current_price (ms_price (state_of e symbol)) \<and>
     (\<exists>p e'. Current e symbol now = (Inr p, e') \<and> 0 < current_price p)"
proof -
  note ok = state_ok [OF reachable_engine_inv [OF assms(1)] assms(2,3)]
  have st: "pe_state e symbol = Some (state_of e symbol)"
    using reachable_engine_inv [OF assms(1)] assms(2) unfolding engine_inv_def state_of_def
    by (auto split: option.splits)
  have cf: "config_of e symbol = cfg" using assms(2) by (simp add: config_of_def)
  from ok price_ok_pos [OF assms(3)] refresh_price_ok [OF assms(3) ok, of symbol now]
  show ?thesis by (simp add: Current_def st cf Let_def)
qed

definition demo_ticker :: ticker where
  "demo_ticker = \<lparr>tk_symbol = ''ACME'', tk_name = ''Acme'', tk_sector = ''Tools'', initial_price = 1000,
     tick_size = 5, liquidity_units = 10, whale_threshold = 500\<rparr>"

lemma demo_ticker_ok: "ticker_ok demo_ticker"
  by (simp add: ticker_ok_def demo_ticker_def in64_def)

lemma demo_engine: "configs (NewPriceEngine [demo_ticker] t) ''ACME'' = Some demo_ticker"
  by (simp add: NewPriceEngine_def demo_ticker_def)

theorem engine_prices_on_grid_witness:
  "0 < current_price (ms_price (state_of (NewPriceEngine [demo_ticker] 7) ''ACME''))"
  using engine_prices_on_grid [OF engine_new demo_engine demo_ticker_ok] by blast

text \<open>C37: \<open>Apply\<close> moves a known ticker from the price that \<open>Current\<close> reports at the same instant to
  a price on the tick grid, and the price itself, not only the move it reports, is bounded: it ends
  within 3.5 percent of the one before, a tick and a unit of rounding. The reported move is at most
  350 basis points and the whale multiplier between 1x and 2.2x; every other ticker is left alone,
  and an unknown ticker is an error that changes nothing. The price bound is for prices below
  \<open>2 ^ 48\<close>, above which a double no longer counts single units closely enough.\<close>
theorem Apply_bounded_move:
  assumes "reachable_engine ts e" and "\<And>cfg. configs e symbol = Some cfg \<Longrightarrow> ticker_ok cfg"
  shows "case Apply e symbol trades sn now of
      (Inl err, e') \<Rightarrow> err = UnknownTicker symbol \<and> e' = e \<and> configs e symbol = None
    | (Inr p, e') \<Rightarrow> \<exists>cfg q e1. configs e symbol = Some cfg \<and> Current e symbol now = (Inr q, e1) \<and>
        previous_price p = current_price q \<and> on_grid cfg (current_price p) \<and>
        (current_price q < 2 ^ 48 \<longrightarrow>
           1000 * \<bar>current_price p - current_price q\<bar> \<le> 35 * current_price q + 1000 * (tick_size cfg + 1)) \<and>
        \<bar>move_bps p\<bar> \<le> 350 \<and> 10000 \<le> whale_multiplier p \<and> whale_multiplier p \<le> 22000 \<and>
        updated_at p = now \<and> ms_price (state_of e' symbol) = p \<and>
        configs e' = configs e \<and> (\<forall>other. other \<noteq> symbol \<longrightarrow> pe_state e' other = pe_state e other)"
proof (cases "configs e symbol")
  case (Some cfg)
  let ?s = "refreshStateLocked cfg (state_of e symbol) symbol now"
  note inv = reachable_engine_inv [OF assms(1)] and ok = assms(2) [OF Some]
  have p: "price_ok cfg (current_price (ms_price ?s))" by (rule refresh_price_ok [OF ok state_ok [OF inv Some ok]])
  have "pe_state e symbol = Some (state_of e symbol)"
    using inv Some unfolding engine_inv_def state_of_def by (auto split: option.splits)
  then have "Current e symbol now = (Inr (ms_price ?s), e\<lparr>pe_state := (pe_state e)(symbol \<mapsto> ?s)\<rparr>)"
    using Some by (simp add: Current_def config_of_def Let_def)
  then show ?thesis
    using apply_state_price [OF ok, of ?s symbol trades sn now] apply_state_move [OF ok p, of symbol trades sn now]
      primed_id [OF ok p] by (simp add: Apply_def Let_def state_of_def Some)
qed (simp add: Apply_def)

theorem Apply_bounded_move_witness:
  "\<exists>p e'. Apply (NewPriceEngine [demo_ticker] 7) ''ACME'' [] (book_snapshot (new_book ''ACME'' 1000) 10 9) 9 = (Inr p, e') \<and>
     previous_price p = 1000 \<and> 959 \<le> current_price p \<and> current_price p \<le> 1041 \<and> \<bar>move_bps p\<bar> \<le> 350"
proof -
  let ?e = "NewPriceEngine [demo_ticker] 7"
  have c: "fst (Current ?e ''ACME'' 9) = Inr (zero_price_point\<lparr>pp_symbol := ''ACME'', previous_price := 1000,
      current_price := 1000, updated_at := 7\<rparr>)" by code_simp
  have "\<And>cfg. configs ?e ''ACME'' = Some cfg \<Longrightarrow> ticker_ok cfg" using demo_ticker_ok by (simp add: demo_engine)
  note r = Apply_bounded_move [where e = ?e and symbol = "''ACME''" and ts = "[demo_ticker]" and trades = "[]"
      and sn = "book_snapshot (new_book ''ACME'' 1000) 10 9" and now = 9, OF engine_new this]
  obtain res e' where a: "Apply ?e ''ACME'' [] (book_snapshot (new_book ''ACME'' 1000) 10 9) 9 = (res, e')" by fastforce
  show ?thesis
  proof (cases res)
    case (Inr p)
    have t: "tick_size demo_ticker = 5" by (simp add: demo_ticker_def)
    from r c have "previous_price p = 1000 \<and> 1000 * \<bar>current_price p - 1000\<bar> \<le> 41000 \<and> \<bar>move_bps p\<bar> \<le> 350"
      unfolding a Inr by (auto simp: demo_engine t)
    then show ?thesis unfolding a Inr by (auto simp: abs_le_iff)
  qed (use r in \<open>simp add: a demo_engine\<close>)
qed

text \<open>\<open>TriggerShock\<close> never panics: pruning keeps the effect it has just added. For a known
  ticker the price moves by at most 3500 basis points onto the tick grid, every effect kept is
  still active, and other tickers are unchanged.\<close>
theorem TriggerShock_total_bounded:
  assumes "\<And>cfg. configs e symbol = Some cfg \<Longrightarrow> ticker_ok cfg"
  shows "case TriggerShock e symbol pct dur occ now of
      None \<Rightarrow> False
    | Some (Inl err, e') \<Rightarrow> err = UnknownTicker symbol \<and> e' = e \<and> configs e symbol = None
    | Some (Inr p, e') \<Rightarrow> \<exists>cfg. configs e symbol = Some cfg \<and> on_grid cfg (current_price p) \<and> \<bar>move_bps p\<bar> \<le> 3500 \<and>
        ms_price (state_of e' symbol) = p \<and> effects (state_of e' symbol) \<noteq> [] \<and>
        (\<forall>f \<in> set (effects (state_of e' symbol)). (if occ = zero_time then now else occ) < ef_expires_at f) \<and>
        (\<forall>other. other \<noteq> symbol \<longrightarrow> pe_state e' other = pe_state e other)"
proof (cases "configs e symbol")
  case (Some cfg)
  show ?thesis
    using TriggerShock_state [OF Some, of pct dur occ now] Some
      shock_state_price [OF assms [OF Some]] by (auto simp: Let_def state_of_def)
qed (simp add: TriggerShock_def)

theorem TriggerShock_total_bounded_witness:
  "\<exists>p e'. TriggerShock (NewPriceEngine [demo_ticker] 7) ''ACME'' (- 50) 0 0 9 = Some (Inr p, e') \<and> \<bar>move_bps p\<bar> \<le> 3500"
  using TriggerShock_total_bounded [where e = "NewPriceEngine [demo_ticker] 7" and symbol = "''ACME''" and pct = "- 50"
      and dur = 0 and occ = 0 and now = 9] demo_ticker_ok
  unfolding demo_engine by (force split: option.splits prod.splits sum.splits)

lemma pruneExpired_idem [simp]:
  "pruneExpiredLocked (pruneExpiredLocked s now) now = pruneExpiredLocked s now"
  by (simp add: pruneExpiredLocked_def)

lemma refresh_pruned: "refreshStateLocked cfg (pruneExpiredLocked s now) symbol now = refreshStateLocked cfg s symbol now"
  by (simp add: refreshStateLocked_def)

lemma pruneExpired_id: "effects x = effects (pruneExpiredLocked s now) \<Longrightarrow> pruneExpiredLocked x now = x"
  by (simp add: pruneExpiredLocked_def)

lemma refresh_cases:
  "refreshStateLocked cfg s symbol now = pruneExpiredLocked s now \<or>
   effects (refreshStateLocked cfg s symbol now) = effects (pruneExpiredLocked s now) \<and>
   updated_at (ms_price (refreshStateLocked cfg s symbol now)) = now \<and>
   (current_price (ms_price (refreshStateLocked cfg s symbol now)) \<noteq> 0 \<or>
    current_price (ms_price (pruneExpiredLocked s now)) = 0 \<and> initial_price cfg = 0)"
  unfolding refreshStateLocked_def Let_def by (simp split: if_split)

lemma refresh_fresh:
  "pruneExpiredLocked x now = x \<Longrightarrow> updated_at (ms_price x) = now \<Longrightarrow> current_price (ms_price x) \<noteq> 0 \<Longrightarrow>
     refreshStateLocked cfg x symbol now = x"
  by (simp add: refreshStateLocked_def Let_def time_sub_def)

text \<open>Reading prices is idempotent at one instant: refreshing a state twice with the same clock
  reading gives what refreshing it once gives, so the drift of an effect is applied at most once
  per instant however often the price is read.\<close>
theorem refresh_idempotent:
  "refreshStateLocked cfg (refreshStateLocked cfg s symbol now) symbol now = refreshStateLocked cfg s symbol now"
proof (cases "refreshStateLocked cfg s symbol now = pruneExpiredLocked s now")
  case True
  then show ?thesis using refresh_pruned by metis
next
  case False
  let ?r = "refreshStateLocked cfg s symbol now"
  from False refresh_cases have r: "effects ?r = effects (pruneExpiredLocked s now)" "updated_at (ms_price ?r) = now"
    and c: "current_price (ms_price ?r) \<noteq> 0 \<or>
      current_price (ms_price (pruneExpiredLocked s now)) = 0 \<and> initial_price cfg = 0" by blast+
  show ?thesis
  proof (cases "current_price (ms_price ?r) = 0")
    case False
    then show ?thesis using refresh_fresh [OF pruneExpired_id [OF r(1)] r(2)] by simp
  next
    case True
    with c have z: "current_price (ms_price (pruneExpiredLocked s now)) = 0" "initial_price cfg = 0" by simp_all
    from z show ?thesis
      by (simp add: refreshStateLocked_def Let_def pruneExpiredLocked_def of_i64_def)
  qed
qed

end
