(* ===== verification/Stores.thy ===== *)
theory Stores
  imports Float64 OrderBook
begin

text \<open>
  The four JSON-file stores (\<^verbatim>\<open>internal/state/*.go\<close>) and the persistence step they share.

  A store is its in-memory data and the file it is saved to. \<open>persist\<close> is \<^verbatim>\<open>persistLocked\<close>:
  make the directory, write a temporary file, rename it over the store's file; the outcome of
  the system calls is the parameter \<open>io\<close>. A file is modelled by the value its JSON encodes.
  Go maps the code iterates over are association lists in one possible iteration order.
\<close>

section \<open>Files\<close>

datatype io_fault = MkdirFails | EncodeFails | WriteFails | RenameFails

datatype 'a stored = NoFile | EmptyFile | UndecodableFile | UnreadableFile | Content 'a

record 'a disk =
  main_file :: "'a stored"
  tmp_file :: "'a stored"

datatype store_error =
    CreateDirError | EncodeError | WriteTempError | ReplaceError | ReadError | DecodeError
  | PlayerNotFound string

definition persist :: "io_fault option \<Rightarrow> 'a \<Rightarrow> 'a disk \<Rightarrow> store_error option \<times> 'a disk" where
  "persist io content d =
     (case io of
        Some MkdirFails \<Rightarrow> (Some CreateDirError, d)
      | Some EncodeFails \<Rightarrow> (Some EncodeError, d)
      | Some WriteFails \<Rightarrow> (Some WriteTempError, d\<lparr>tmp_file := UndecodableFile\<rparr>)
      | Some RenameFails \<Rightarrow> (Some ReplaceError, d\<lparr>tmp_file := Content content\<rparr>)
      | None \<Rightarrow> (None, d\<lparr>main_file := Content content, tmp_file := NoFile\<rparr>))"

lemma persist_main:
  "main_file (snd (persist io c d)) = (if io = None then Content c else main_file d)"
  "fst (persist io c d) = None \<longleftrightarrow> io = None"
  by (simp_all add: persist_def split: option.splits io_fault.splits)

text \<open>\<^verbatim>\<open>jsonfile.Read\<close>: a missing file is reported as such, the rest of the failures as errors.\<close>

definition jsonfile_read :: "'a stored \<Rightarrow> store_error + 'a option" where
  "jsonfile_read f =
     (case f of NoFile \<Rightarrow> Inr None | Content c \<Rightarrow> Inr (Some c)
      | UnreadableFile \<Rightarrow> Inl ReadError | EmptyFile \<Rightarrow> Inl DecodeError | UndecodableFile \<Rightarrow> Inl DecodeError)"

section \<open>Trade store\<close>

record trade_record =
  tr_id :: string
  tr_symbol :: string
  tr_price :: int
  tr_quantity :: int
  tr_notional :: int
  tr_aggressor_side :: side
  tr_buy_order_id :: string
  tr_sell_order_id :: string
  tr_buyer_id :: string
  tr_buyer_username :: string
  tr_buyer_role :: string
  tr_seller_id :: string
  tr_seller_username :: string
  tr_seller_role :: string
  tr_executed_at :: time

record trade_query =
  tq_player_id :: string
  tq_symbol :: string
  tq_since :: time
  tq_until :: time
  tq_limit :: int

record trade_store =
  ts_max_records :: nat
  ts_trades :: "trade_record list"
  ts_disk :: "trade_record list disk"

definition LoadTradeStore :: "trade_record list disk \<Rightarrow> int \<Rightarrow> store_error + trade_store" where
  "LoadTradeStore d max_records =
     (let n = nat (if max_records \<le> 0 then 50000 else max_records) in
      case jsonfile_read (main_file d) of
        Inl e \<Rightarrow> Inl e
      | Inr None \<Rightarrow> Inr \<lparr>ts_max_records = n, ts_trades = [], ts_disk = d\<rparr>
      | Inr (Some ts) \<Rightarrow> Inr \<lparr>ts_max_records = n, ts_trades = ts, ts_disk = d\<rparr>)"

definition trade_persist :: "io_fault option \<Rightarrow> trade_store \<Rightarrow> store_error option \<times> trade_store" where
  "trade_persist io s =
     (case persist io (ts_trades s) (ts_disk s) of (e, d) \<Rightarrow> (e, s\<lparr>ts_disk := d\<rparr>))"

definition TradeStore_Append ::
  "io_fault option \<Rightarrow> trade_record list \<Rightarrow> trade_store \<Rightarrow> store_error option \<times> trade_store" where
  "TradeStore_Append io records s =
     (if records = [] then (None, s)
      else trade_persist io (s\<lparr>ts_trades := keep_last (ts_max_records s) (ts_trades s @ records)\<rparr>))"

definition trade_matches :: "trade_query \<Rightarrow> trade_record \<Rightarrow> bool" where
  "trade_matches q r \<longleftrightarrow>
     \<not> (tq_symbol q \<noteq> [] \<and> tr_symbol r \<noteq> tq_symbol q) \<and>
     \<not> (tq_player_id q \<noteq> [] \<and> tr_buyer_id r \<noteq> tq_player_id q \<and> tr_seller_id r \<noteq> tq_player_id q) \<and>
     \<not> (tq_since q \<noteq> zero_time \<and> tr_executed_at r < tq_since q) \<and>
     \<not> (tq_until q \<noteq> zero_time \<and> tr_executed_at r > tq_until q)"

text \<open>The scan of a log from its end: keep the matching records until the limit is reached.\<close>

fun scan_back :: "('a \<Rightarrow> bool) \<Rightarrow> nat \<Rightarrow> 'a list \<Rightarrow> 'a list \<Rightarrow> 'a list" where
  "scan_back p limit [] out = out"
| "scan_back p limit (x # xs) out =
     (if \<not> p x then scan_back p limit xs out
      else if length (out @ [x]) \<ge> limit then out @ [x]
      else scan_back p limit xs (out @ [x]))"

definition TradeStore_Query :: "trade_query \<Rightarrow> trade_store \<Rightarrow> trade_record list" where
  "TradeStore_Query q s =
     (let limit = nat (if tq_limit q \<le> 0 then 100 else tq_limit q)
      in scan_back (trade_matches q) limit (rev (ts_trades s)) [])"

definition TradeStore_All :: "trade_store \<Rightarrow> trade_record list" where
  "TradeStore_All s = ts_trades s"

section \<open>Chat store\<close>

record chat_message =
  cm_type :: string
  cm_channel :: string
  cm_player_id :: string
  cm_username :: string
  cm_role :: string
  cm_body :: string
  cm_recipient_id :: string
  cm_recipient_username :: string
  cm_sent_at :: time

record chat_query =
  cq_player_id :: string
  cq_channel :: string
  cq_limit :: int

record chat_store =
  cs_max_records :: nat
  cs_messages :: "chat_message list"
  cs_disk :: "chat_message list disk"

definition chat_persist :: "io_fault option \<Rightarrow> chat_store \<Rightarrow> store_error option \<times> chat_store" where
  "chat_persist io s =
     (case persist io (cs_messages s) (cs_disk s) of (e, d) \<Rightarrow> (e, s\<lparr>cs_disk := d\<rparr>))"

definition is_system_event :: "chat_message \<Rightarrow> bool" where
  "is_system_event m \<longleftrightarrow> cm_type m = ''system.event''"

definition LoadChatStore ::
  "io_fault option \<Rightarrow> chat_message list disk \<Rightarrow> int \<Rightarrow> store_error + chat_store" where
  "LoadChatStore io d max_records =
     (let n = nat (if max_records \<le> 0 then 5000 else max_records) in
      case jsonfile_read (main_file d) of
        Inl e \<Rightarrow> Inl e
      | Inr None \<Rightarrow> Inr \<lparr>cs_max_records = n, cs_messages = [], cs_disk = d\<rparr>
      | Inr (Some ms) \<Rightarrow>
          (let kept = filter (\<lambda>m. \<not> is_system_event m) ms;
               s = \<lparr>cs_max_records = n, cs_messages = kept, cs_disk = d\<rparr>
           in if length kept < length ms
              then (case chat_persist io s of (Some e, _) \<Rightarrow> Inl e | (None, s') \<Rightarrow> Inr s')
              else Inr s))"

definition stamped :: "time \<Rightarrow> chat_message \<Rightarrow> chat_message" where
  "stamped now m = (if cm_sent_at m = zero_time then m\<lparr>cm_sent_at := now\<rparr> else m)"

definition ChatStore_Append ::
  "io_fault option \<Rightarrow> time \<Rightarrow> chat_message \<Rightarrow> chat_store \<Rightarrow> store_error option \<times> chat_store" where
  "ChatStore_Append io now m s =
     chat_persist io (s\<lparr>cs_messages := keep_last (cs_max_records s) (cs_messages s @ [stamped now m])\<rparr>)"

definition chat_matches :: "chat_query \<Rightarrow> chat_message \<Rightarrow> bool" where
  "chat_matches q m \<longleftrightarrow>
     \<not> is_system_event m \<and>
     \<not> (cq_channel q \<noteq> [] \<and> cm_channel m \<noteq> cq_channel q) \<and>
     (cq_player_id q = [] \<or> cm_channel m = ''global'' \<or>
      cm_player_id m = cq_player_id q \<or> cm_recipient_id m = cq_player_id q)"

definition ChatStore_Query :: "chat_query \<Rightarrow> chat_store \<Rightarrow> chat_message list" where
  "ChatStore_Query q s =
     (let limit = nat (if cq_limit q \<le> 0 then 100 else cq_limit q)
      in rev (scan_back (chat_matches q) limit (rev (cs_messages s)) []))"

section \<open>Player store\<close>

record position_lot =
  lot_quantity :: int
  lot_price :: int
  lot_acquired_at :: time

record player =
  p_id :: string
  p_username :: string
  p_role :: string
  p_cash :: int
  p_reserved_cash :: int
  p_portfolio :: "string \<rightharpoonup> int"
  p_reserved_stocks :: "string \<rightharpoonup> int"
  p_lots :: "string \<rightharpoonup> position_lot list"
  p_created_at :: time
  p_last_login_at :: time

type_synonym players = "(string \<times> player) list"

record player_store =
  st_players :: players
  st_disk :: "players disk"

text \<open>A nil map reads like an empty one, so replacing nil maps changes nothing in the model.
  \<open>clonePlayer\<close> copies the maps: records of maps are values here.\<close>

definition clonePlayer :: "player \<Rightarrow> player" where
  "clonePlayer p = p"

definition LoadPlayerStore :: "players disk \<Rightarrow> store_error + player_store" where
  "LoadPlayerStore d =
     (case main_file d of
        NoFile \<Rightarrow> Inr \<lparr>st_players = [], st_disk = d\<rparr>
      | EmptyFile \<Rightarrow> Inr \<lparr>st_players = [], st_disk = d\<rparr>
      | UnreadableFile \<Rightarrow> Inl ReadError
      | UndecodableFile \<Rightarrow> Inl DecodeError
      | Content ps \<Rightarrow> Inr \<lparr>st_players = foldl (\<lambda>m (u, p). AList.update u p m) [] ps, st_disk = d\<rparr>)"

definition PlayerStore_Get :: "string \<Rightarrow> player_store \<Rightarrow> player option" where
  "PlayerStore_Get username s = map_option clonePlayer (map_of (st_players s) username)"

fun find_by_id :: "string \<Rightarrow> players \<Rightarrow> (string \<times> player) option" where
  "find_by_id pid [] = None"
| "find_by_id pid ((u, p) # ps) = (if p_id p = pid then Some (u, p) else find_by_id pid ps)"

definition PlayerStore_GetByPlayerID :: "string \<Rightarrow> player_store \<Rightarrow> player option" where
  "PlayerStore_GetByPlayerID pid s = map_option (\<lambda>(u, p). clonePlayer p) (find_by_id pid (st_players s))"

definition player_persist :: "io_fault option \<Rightarrow> player_store \<Rightarrow> store_error option \<times> player_store" where
  "player_persist io s =
     (case persist io (st_players s) (st_disk s) of (e, d) \<Rightarrow> (e, s\<lparr>st_disk := d\<rparr>))"

definition PlayerStore_Upsert ::
  "io_fault option \<Rightarrow> player \<Rightarrow> player_store \<Rightarrow> store_error option \<times> player_store" where
  "PlayerStore_Upsert io p s =
     player_persist io (s\<lparr>st_players := AList.update (p_username p) (clonePlayer p) (st_players s)\<rparr>)"

text \<open>\<open>upd\<close> is the callback: the changed player and whether it reports an error. On an error the
  entry is left as it is; the callbacks are taken not to write through the maps they were given
  before they fail.\<close>

definition PlayerStore_UpdateByPlayerID ::
  "io_fault option \<Rightarrow> string \<Rightarrow> (player \<Rightarrow> 'e + player) \<Rightarrow> player_store \<Rightarrow> (store_error + 'e + player) \<times> player_store" where
  "PlayerStore_UpdateByPlayerID io pid upd s =
     (case find_by_id pid (st_players s) of
        None \<Rightarrow> (Inl (PlayerNotFound pid), s)
      | Some (u, p) \<Rightarrow>
          (case upd p of
             Inl e \<Rightarrow> (Inr (Inl e), s)
           | Inr p' \<Rightarrow>
               (case player_persist io (s\<lparr>st_players := AList.update u (clonePlayer p') (st_players s)\<rparr>) of
                  (Some e, s') \<Rightarrow> (Inl e, s')
                | (None, s') \<Rightarrow> (Inr (Inr (clonePlayer p')), s'))))"

record role_stats =
  rs_buyers :: int
  rs_holders :: int
  rs_whales :: int

definition count_role :: "role_stats \<Rightarrow> string \<Rightarrow> role_stats" where
  "count_role st r =
     (if r = ''Buyer'' then st\<lparr>rs_buyers := rs_buyers st + 1\<rparr>
      else if r = ''Holder'' then st\<lparr>rs_holders := rs_holders st + 1\<rparr>
      else if r = ''Whale'' then st\<lparr>rs_whales := rs_whales st + 1\<rparr>
      else st)"

definition PlayerStore_RoleStats :: "player_store \<Rightarrow> role_stats" where
  "PlayerStore_RoleStats s =
     foldl (\<lambda>st (u, p). count_role st (p_role p)) \<lparr>rs_buyers = 0, rs_holders = 0, rs_whales = 0\<rparr> (st_players s)"

section \<open>Performance store\<close>

record equity_snapshot =
  es_player_id :: string
  es_username :: string
  es_role :: string
  es_cash :: int
  es_holdings_value :: int
  es_total_equity :: int
  es_captured_at :: time

record leaderboard_entry =
  le_rank :: int
  le_player_id :: string
  le_username :: string
  le_role :: string
  le_window_start :: time
  le_window_end :: time
  le_equity_then :: int
  le_equity_now :: int
  le_pnl :: int
  le_return_pct :: f64
  le_trade_count :: int
  le_buy_volume :: int
  le_sell_volume :: int
  le_turnover :: int
  le_last_updated_at :: time

record performance_store =
  pf_max_snapshots :: nat
  pf_snapshots :: "equity_snapshot list"
  pf_disk :: "equity_snapshot list disk"

definition LoadPerformanceStore :: "equity_snapshot list disk \<Rightarrow> int \<Rightarrow> store_error + performance_store" where
  "LoadPerformanceStore d max_snapshots =
     (let n = nat (if max_snapshots \<le> 0 then 100000 else max_snapshots) in
      case jsonfile_read (main_file d) of
        Inl e \<Rightarrow> Inl e
      | Inr None \<Rightarrow> Inr \<lparr>pf_max_snapshots = n, pf_snapshots = [], pf_disk = d\<rparr>
      | Inr (Some ss) \<Rightarrow> Inr \<lparr>pf_max_snapshots = n, pf_snapshots = ss, pf_disk = d\<rparr>)"

definition performance_persist :: "io_fault option \<Rightarrow> performance_store \<Rightarrow> store_error option \<times> performance_store" where
  "performance_persist io s =
     (case persist io (pf_snapshots s) (pf_disk s) of (e, d) \<Rightarrow> (e, s\<lparr>pf_disk := d\<rparr>))"

definition PerformanceStore_Append ::
  "io_fault option \<Rightarrow> equity_snapshot list \<Rightarrow> performance_store \<Rightarrow> store_error option \<times> performance_store" where
  "PerformanceStore_Append io records s =
     (if records = [] then (None, s)
      else performance_persist io
             (s\<lparr>pf_snapshots := keep_last (pf_max_snapshots s) (pf_snapshots s @ records)\<rparr>))"

subsection \<open>Leaderboard\<close>

record player_stats =
  baseline :: "equity_snapshot option"
  latest :: "equity_snapshot option"
  ps_trade_count :: int
  ps_buy_qty :: int
  ps_sell_qty :: int
  ps_turnover :: int

definition no_stats :: player_stats where
  "no_stats = \<lparr>baseline = None, latest = None, ps_trade_count = 0, ps_buy_qty = 0, ps_sell_qty = 0, ps_turnover = 0\<rparr>"

type_synonym stats_map = "(string \<times> player_stats) list"

definition stats_of :: "stats_map \<Rightarrow> string \<Rightarrow> player_stats" where
  "stats_of m pid = (case map_of m pid of None \<Rightarrow> no_stats | Some st \<Rightarrow> st)"

definition add_snapshot :: "time \<Rightarrow> player_stats \<Rightarrow> equity_snapshot \<Rightarrow> player_stats" where
  "add_snapshot window_start st sn =
     (let st1 = (if es_captured_at sn \<le> window_start
            then (case baseline st of
                    None \<Rightarrow> st\<lparr>baseline := Some sn\<rparr>
                  | Some b \<Rightarrow> if es_captured_at sn > es_captured_at b then st\<lparr>baseline := Some sn\<rparr> else st)
            else st);
          st2 = (if es_captured_at sn > window_start \<and> baseline st1 = None
                 then st1\<lparr>baseline := Some sn\<rparr> else st1)
      in case latest st2 of
           None \<Rightarrow> st2\<lparr>latest := Some sn\<rparr>
         | Some l \<Rightarrow> if es_captured_at sn > es_captured_at l then st2\<lparr>latest := Some sn\<rparr> else st2)"

definition stats_snapshot :: "time \<Rightarrow> stats_map \<Rightarrow> equity_snapshot \<Rightarrow> stats_map" where
  "stats_snapshot window_start m sn =
     AList.update (es_player_id sn) (add_snapshot window_start (stats_of m (es_player_id sn)) sn) m"

definition stats_trade :: "time \<Rightarrow> time \<Rightarrow> stats_map \<Rightarrow> trade_record \<Rightarrow> stats_map" where
  "stats_trade window_start now m t =
     (if tr_executed_at t < window_start \<or> tr_executed_at t > now then m
      else (let b = stats_of m (tr_buyer_id t);
                m1 = AList.update (tr_buyer_id t)
                       (b\<lparr>ps_trade_count := ps_trade_count b + 1, ps_buy_qty := add64 (ps_buy_qty b) (tr_quantity t),
                          ps_turnover := add64 (ps_turnover b) (tr_notional t)\<rparr>) m;
                s = stats_of m1 (tr_seller_id t)
            in AList.update (tr_seller_id t)
                 (s\<lparr>ps_trade_count := ps_trade_count s + 1, ps_sell_qty := add64 (ps_sell_qty s) (tr_quantity t),
                    ps_turnover := add64 (ps_turnover s) (tr_notional t)\<rparr>) m1))"

definition return_pct :: "int \<Rightarrow> int \<Rightarrow> f64" where
  "return_pct pnl base =
     (if base > 0 then fdiv (go_round (fmul (fdiv (of_i64 pnl) (of_i64 base)) 10000)) 100 else 0)"

definition make_entry :: "time \<Rightarrow> time \<Rightarrow> string \<Rightarrow> player_stats \<Rightarrow> leaderboard_entry option" where
  "make_entry window_start now pid st =
     (case (latest st, baseline st) of
        (Some l, Some b) \<Rightarrow>
          (let pnl = sub64 (es_total_equity l) (es_total_equity b) in
           Some \<lparr>le_rank = 0, le_player_id = pid, le_username = es_username l, le_role = es_role l,
                 le_window_start = window_start, le_window_end = now, le_equity_then = es_total_equity b,
                 le_equity_now = es_total_equity l, le_pnl = pnl, le_return_pct = return_pct pnl (es_total_equity b),
                 le_trade_count = ps_trade_count st, le_buy_volume = ps_buy_qty st,
                 le_sell_volume = ps_sell_qty st, le_turnover = ps_turnover st,
                 le_last_updated_at = es_captured_at l\<rparr>)
      | _ \<Rightarrow> None)"

text \<open>The comparison given to \<^verbatim>\<open>sort.Slice\<close>. The library sorts by it; which of two entries that compare
  equal comes first is not specified, and insertion sort is one such sort.\<close>

definition entry_less :: "leaderboard_entry \<Rightarrow> leaderboard_entry \<Rightarrow> bool" where
  "entry_less a b \<longleftrightarrow>
     (if le_pnl a = le_pnl b
      then (if le_return_pct a = le_return_pct b then le_turnover a > le_turnover b
            else le_return_pct a > le_return_pct b)
      else le_pnl a > le_pnl b)"

fun insert_sorted :: "('a \<Rightarrow> 'a \<Rightarrow> bool) \<Rightarrow> 'a \<Rightarrow> 'a list \<Rightarrow> 'a list" where
  "insert_sorted lt x [] = [x]"
| "insert_sorted lt x (y # ys) = (if lt y x then y # insert_sorted lt x ys else x # y # ys)"

definition sort_slice :: "('a \<Rightarrow> 'a \<Rightarrow> bool) \<Rightarrow> 'a list \<Rightarrow> 'a list" where
  "sort_slice lt xs = foldr (insert_sorted lt) xs []"

text \<open>\<open>ord\<close> arranges the statistics in the order the map is ranged over.\<close>

definition leaderboard_stats :: "time \<Rightarrow> time \<Rightarrow> equity_snapshot list \<Rightarrow> trade_record list \<Rightarrow> stats_map" where
  "leaderboard_stats window_start now snaps trades =
     foldl (stats_trade window_start now) (foldl (stats_snapshot window_start) [] snaps) trades"

definition Leaderboard ::
  "(stats_map \<Rightarrow> stats_map) \<Rightarrow> duration \<Rightarrow> time \<Rightarrow> trade_record list \<Rightarrow> int \<Rightarrow> performance_store \<Rightarrow> leaderboard_entry list" where
  "Leaderboard ord window0 now trades limit0 s =
     (let limit = nat (if limit0 \<le> 0 then 10 else limit0);
          window = (if window0 \<le> 0 then hour else window0);
          window_start = now - window;
          stats = leaderboard_stats window_start now (pf_snapshots s) trades;
          entries = List.map_filter (\<lambda>(pid, st). make_entry window_start now pid st) (ord stats);
          top = take limit (sort_slice entry_less entries)
      in map (\<lambda>(i, e). e\<lparr>le_rank := int i + 1\<rparr>) (enumerate 0 top))"

end
