(* ===== verification/StoreProps.thy ===== *)
theory StoreProps
  imports Stores
begin

text \<open>
  What the stores promise. The three logs (trades, chat, performance) share the contract
  \<open>bounded_log\<close>; saving is atomic whatever system call fails; queries that scan a log backwards
  return the newest matching records.
\<close>

section \<open>The contract of a bounded log\<close>

locale bounded_log =
  fixes append :: "'i \<Rightarrow> 'x \<Rightarrow> 's \<Rightarrow> store_error option \<times> 's"
    and items :: "'s \<Rightarrow> 'a list"
    and cap :: "'s \<Rightarrow> nat"
    and entries :: "'i \<Rightarrow> 'x \<Rightarrow> 'a list"
    and saved :: "'s \<Rightarrow> 'a list stored"
  assumes cap_append: "cap (snd (append i x s)) = cap s"
    and items_append: "entries i x \<noteq> [] \<Longrightarrow> items (snd (append i x s)) = keep_last (cap s) (items s @ entries i x)"
    and append_nothing: "entries i x = [] \<Longrightarrow> append i x s = (None, s)"
    and saved_append:
      "saved (snd (append i x s)) = Content (items (snd (append i x s))) \<or> saved (snd (append i x s)) = saved s"
    and append_ok: "entries i x \<noteq> [] \<Longrightarrow> fst (append i x s) = None \<Longrightarrow>
      saved (snd (append i x s)) = Content (items (snd (append i x s)))"
begin

definition run :: "('i \<times> 'x) list \<Rightarrow> 's \<Rightarrow> 's" where
  "run ops s = foldl (\<lambda>s (i, x). snd (append i x s)) s ops"

lemma run_simps [simp]: "run [] s = s" "run ((i, x) # ops) s = run ops (snd (append i x s))"
  by (simp_all add: run_def)

lemma cap_run [simp]: "cap (run ops s) = cap s"
  by (induction ops arbitrary: s) (auto simp: cap_append)

lemma items_append_any:
  "length (items s) \<le> cap s \<Longrightarrow> items (snd (append i x s)) = keep_last (cap s) (items s @ entries i x)"
  by (cases "entries i x = []") (simp_all add: items_append append_nothing)

text \<open>After any calls, failed or not, the log is the newest \<open>cap\<close> entries ever appended.\<close>

lemma items_run:
  assumes "length (items s) \<le> cap s"
  shows "items (run ops s) = keep_last (cap s) (items s @ concat (map (\<lambda>(i, x). entries i x) ops))"
  using assms
proof (induction ops arbitrary: s)
  case (Cons op ops)
  obtain i x where op: "op = (i, x)" by fastforce
  let ?s' = "snd (append i x s)"
  have it: "items ?s' = keep_last (cap s) (items s @ entries i x)" by (rule items_append_any [OF Cons.prems])
  have "length (items ?s') \<le> cap ?s'" by (simp add: it cap_append)
  from Cons.IH [OF this] show ?case by (simp add: op it cap_append keep_last_append)
qed simp

lemma run_bounded: "length (items s) \<le> cap s \<Longrightarrow> length (items (run ops s)) \<le> cap s"
  by (simp add: items_run)

text \<open>The file is always a complete earlier or current state of the log.\<close>

lemma saved_run:
  "saved (run ops s) = saved s \<or> (\<exists>k \<le> length ops. saved (run ops s) = Content (items (run (take k ops) s)))"
proof (induction ops rule: rev_induct)
  case (snoc op ops)
  obtain i x where op: "op = (i, x)" by fastforce
  have r: "run (ops @ [op]) s = snd (append i x (run ops s))" by (simp add: run_def op)
  show ?case
    using saved_append [of i x "run ops s"]
  proof
    assume "saved (snd (append i x (run ops s))) = Content (items (snd (append i x (run ops s))))"
    then show ?thesis unfolding r [symmetric] by (intro disjI2 exI [of _ "Suc (length ops)"]) simp
  next
    assume "saved (snd (append i x (run ops s))) = saved (run ops s)"
    with snoc.IH show ?thesis unfolding r
      by (auto intro: exI [of _ "k" for k] simp: le_Suc_eq)
  qed
qed simp

end

interpretation trade_log: bounded_log TradeStore_Append ts_trades ts_max_records "\<lambda>io rs. rs" "main_file \<circ> ts_disk"
  by unfold_locales
    (auto simp: TradeStore_Append_def trade_persist_def persist_def split: option.splits io_fault.splits)

interpretation performance_log: bounded_log PerformanceStore_Append pf_snapshots pf_max_snapshots "\<lambda>io rs. rs" "main_file \<circ> pf_disk"
  by unfold_locales
    (auto simp: PerformanceStore_Append_def performance_persist_def persist_def split: option.splits io_fault.splits)

interpretation chat_log: bounded_log "\<lambda>(io, now) m. ChatStore_Append io now m" cs_messages cs_max_records
    "\<lambda>(io, now) m. [stamped now m]" "main_file \<circ> cs_disk"
  by unfold_locales
    (auto simp: ChatStore_Append_def chat_persist_def persist_def split: option.splits io_fault.splits)

section \<open>Backward scans\<close>

lemma scan_back_eq:
  assumes "length out < limit"
  shows "scan_back p limit xs out = out @ take (limit - length out) (filter p xs)"
  using assms
proof (induction xs arbitrary: out)
  case (Cons x xs)
  show ?case
  proof (cases "p x \<and> \<not> length (out @ [x]) \<ge> limit")
    case True
    then have "limit - length out = Suc (limit - length (out @ [x]))" by (clarsimp, arith)
    then show ?thesis using True Cons.IH [of "out @ [x]"] by simp
  next
    case False
    then show ?thesis using Cons by (cases "p x") (auto simp: take_Cons' le_Suc_eq)
  qed
qed simp

lemma scan_back_take: "0 < limit \<Longrightarrow> scan_back p limit xs [] = take limit (filter p xs)"
  by (simp add: scan_back_eq)

section \<open>Theorems about the logs\<close>

text \<open>The trade log is a bounded log: after any sequence of appends, whatever saves failed, it
  holds the newest records ever appended up to its maximum, in order, and the file on disk is a
  complete state the log had after one of the calls (or is untouched).\<close>
theorem TradeStore_keeps_newest:
  assumes "length (ts_trades s) \<le> ts_max_records s"
  shows "let run = (\<lambda>ops. foldl (\<lambda>s (io, rs). snd (TradeStore_Append io rs s)) s ops) in
     ts_trades (run ops) = keep_last (ts_max_records s) (ts_trades s @ concat (map snd ops)) \<and>
     length (ts_trades (run ops)) \<le> ts_max_records s \<and>
     (main_file (ts_disk (run ops)) = main_file (ts_disk s) \<or>
      (\<exists>k \<le> length ops. main_file (ts_disk (run ops)) = Content (ts_trades (run (take k ops)))))"
proof -
  have "(\<lambda>(io, rs). rs) = (snd :: io_fault option \<times> trade_record list \<Rightarrow> _)" by auto
  then show ?thesis
    using trade_log.items_run [OF assms, of ops] trade_log.run_bounded [OF assms, of ops] trade_log.saved_run [of ops s]
    by (simp add: trade_log.run_def Let_def)
qed

definition demo_trade :: "string \<Rightarrow> int \<Rightarrow> time \<Rightarrow> trade_record" where
  "demo_trade i q t = \<lparr>tr_id = i, tr_symbol = ''ACME'', tr_price = 10, tr_quantity = q, tr_notional = 10 * q,
     tr_aggressor_side = SideBuy, tr_buy_order_id = ''b'', tr_sell_order_id = ''s'', tr_buyer_id = ''ann'',
     tr_buyer_username = ''ann'', tr_buyer_role = ''Buyer'', tr_seller_id = ''bob'', tr_seller_username = ''bob'',
     tr_seller_role = ''Holder'', tr_executed_at = t\<rparr>"

definition demo_store :: trade_store where
  "demo_store = \<lparr>ts_max_records = 2, ts_trades = [], ts_disk = \<lparr>main_file = NoFile, tmp_file = NoFile\<rparr>\<rparr>"

theorem TradeStore_keeps_newest_witness:
  "ts_trades (foldl (\<lambda>s (io, rs). snd (TradeStore_Append io rs s)) demo_store
      [(None, [demo_trade ''1'' 1 5, demo_trade ''2'' 1 6]), (Some WriteFails, [demo_trade ''3'' 1 7])])
    = [demo_trade ''2'' 1 6, demo_trade ''3'' 1 7]"
  using TradeStore_keeps_newest [of demo_store "[(None, [demo_trade ''1'' 1 5, demo_trade ''2'' 1 6]), (Some WriteFails, [demo_trade ''3'' 1 7])]"]
  by (simp add: demo_store_def Let_def keep_last_def)

text \<open>\<open>Query\<close> of the trade log returns exactly the newest matching trades, newest first, at most
  as many as the limit (100 when none is given).\<close>
theorem TradeStore_Query_newest:
  "TradeStore_Query q s =
     take (nat (if tq_limit q \<le> 0 then 100 else tq_limit q)) (filter (trade_matches q) (rev (ts_trades s)))"
  by (simp add: TradeStore_Query_def Let_def scan_back_take)

text \<open>The chat log is a bounded log, and a query returns in chronological order the newest
  messages that match; a player's query never shows a direct message between two others, nor a
  system event.\<close>
theorem ChatStore_Query_private:
  "ChatStore_Query q s =
     rev (take (nat (if cq_limit q \<le> 0 then 100 else cq_limit q)) (filter (chat_matches q) (rev (cs_messages s)))) \<and>
   (\<forall>m \<in> set (ChatStore_Query q s). m \<in> set (cs_messages s) \<and> cm_type m \<noteq> ''system.event'' \<and>
      (cq_channel q = [] \<or> cm_channel m = cq_channel q) \<and>
      (cq_player_id q = [] \<or> cm_channel m = ''global'' \<or> cm_player_id m = cq_player_id q \<or>
       cm_recipient_id m = cq_player_id q))"
proof -
  have eq: "ChatStore_Query q s =
     rev (take (nat (if cq_limit q \<le> 0 then 100 else cq_limit q)) (filter (chat_matches q) (rev (cs_messages s))))"
    by (simp add: ChatStore_Query_def Let_def scan_back_take)
  show ?thesis unfolding eq
    by (auto simp: chat_matches_def is_system_event_def dest!: in_set_takeD)
qed

definition demo_chat :: "string \<Rightarrow> string \<Rightarrow> string \<Rightarrow> chat_message" where
  "demo_chat ch from to' = \<lparr>cm_type = ''chat.direct'', cm_channel = ch, cm_player_id = from, cm_username = from,
     cm_role = ''Buyer'', cm_body = ''hi'', cm_recipient_id = to', cm_recipient_username = to', cm_sent_at = 5\<rparr>"

theorem ChatStore_Query_private_witness:
  "ChatStore_Query \<lparr>cq_player_id = ''eve'', cq_channel = [], cq_limit = 5\<rparr>
        \<lparr>cs_max_records = 5, cs_messages = [demo_chat ''direct'' ''ann'' ''bob''],
         cs_disk = \<lparr>main_file = NoFile, tmp_file = NoFile\<rparr>\<rparr> = []"
  using ChatStore_Query_private [of "\<lparr>cq_player_id = ''eve'', cq_channel = [], cq_limit = 5\<rparr>"
        "\<lparr>cs_max_records = 5, cs_messages = [demo_chat ''direct'' ''ann'' ''bob''],
         cs_disk = \<lparr>main_file = NoFile, tmp_file = NoFile\<rparr>\<rparr>"]
  by (simp add: demo_chat_def chat_matches_def is_system_event_def)

text \<open>A save round trip: whatever system call fails during an append, loading the store again
  gives either the trades saved before or the trades of memory, and the latter when the append
  reported no error.\<close>
theorem TradeStore_reload:
  assumes "main_file (ts_disk s) = Content old" and "TradeStore_Append io records s = (err, s')"
    and "records \<noteq> []"
  shows "\<exists>s''. LoadTradeStore (ts_disk s') n = Inr s'' \<and> (ts_trades s'' = old \<or> ts_trades s'' = ts_trades s') \<and>
     (err = None \<longrightarrow> ts_trades s'' = ts_trades s')"
  using assms trade_log.saved_append [of io records s] trade_log.append_ok [of records io s]
  by (auto simp: LoadTradeStore_def jsonfile_read_def Let_def)

theorem TradeStore_reload_witness:
  "\<exists>s''. LoadTradeStore (ts_disk (snd (TradeStore_Append None [demo_trade ''1'' 1 5]
       (demo_store\<lparr>ts_disk := \<lparr>main_file = Content [], tmp_file = NoFile\<rparr>\<rparr>)))) 2 = Inr s''"
  using TradeStore_reload [of "demo_store\<lparr>ts_disk := \<lparr>main_file = Content [], tmp_file = NoFile\<rparr>\<rparr>" "[]" None
      "[demo_trade ''1'' 1 5]", OF _ prod.collapse [symmetric]] by auto

section \<open>Theorems about players\<close>

lemma find_by_id_Some: "find_by_id pid ps = Some (u, p) \<Longrightarrow> (u, p) \<in> set ps \<and> p_id p = pid"
  by (induction ps) (auto split: if_splits)

lemma find_by_id_None: "find_by_id pid ps = None \<longleftrightarrow> (\<forall>x \<in> set ps. p_id (snd x) \<noteq> pid)"
  by (induction pid ps rule: find_by_id.induct) (simp_all split: if_split)

text \<open>Keys are user names, identifiers are not shared.\<close>

definition players_ok :: "players \<Rightarrow> bool" where
  "players_ok ps \<longleftrightarrow> distinct (map fst ps) \<and>
     (\<forall>x \<in> set ps. \<forall>y \<in> set ps. p_id (snd x) = p_id (snd y) \<longrightarrow> x = y) \<and>
     (\<forall>x \<in> set ps. p_username (snd x) = fst x)"

lemma find_by_id_iff:
  assumes "players_ok ps"
  shows "find_by_id pid ps = Some (u, p) \<longleftrightarrow> (u, p) \<in> set ps \<and> p_id p = pid"
proof
  assume r: "(u, p) \<in> set ps \<and> p_id p = pid"
  then obtain x where f: "find_by_id pid ps = Some x"
    using find_by_id_None [of pid ps] by (cases "find_by_id pid ps") auto
  then have "x \<in> set ps" "p_id (snd x) = pid" using find_by_id_Some [of pid ps "fst x" "snd x"] by simp_all
  with r assms have "x = (u, p)" unfolding players_ok_def by force
  with f show "find_by_id pid ps = Some (u, p)" by simp
qed (rule find_by_id_Some)

lemma update_players_ok:
  assumes "players_ok ps" and "\<forall>x \<in> set ps. fst x \<noteq> p_username p \<longrightarrow> p_id (snd x) \<noteq> p_id p"
  shows "players_ok (AList.update (p_username p) p ps)"
  using assms distinct_update [of ps "p_username p" p]
  unfolding players_ok_def by (auto simp: set_update_alist)

lemma Upsert_players: "st_players (snd (PlayerStore_Upsert io p s)) = AList.update (p_username p) p (st_players s)"
  by (simp add: PlayerStore_Upsert_def player_persist_def clonePlayer_def persist_def split: option.splits io_fault.splits)

text \<open>Upserting a player whose identifier no other user has keeps user names and identifiers
  unique; afterwards the player is found under both keys with the new contents, every other
  player is found unchanged, and when no error is reported the file holds the same players.\<close>
theorem PlayerStore_Upsert_lookup:
  assumes "players_ok (st_players s)" and "\<forall>x \<in> set (st_players s). fst x \<noteq> p_username p \<longrightarrow> p_id (snd x) \<noteq> p_id p"
    and "PlayerStore_Upsert io p s = (err, s')"
  shows "players_ok (st_players s') \<and> PlayerStore_Get (p_username p) s' = Some p \<and>
     PlayerStore_GetByPlayerID (p_id p) s' = Some p \<and>
     (\<forall>u. u \<noteq> p_username p \<longrightarrow> PlayerStore_Get u s' = PlayerStore_Get u s) \<and>
     (err = None \<longrightarrow> main_file (st_disk s') = Content (st_players s')) \<and>
     (err \<noteq> None \<longrightarrow> main_file (st_disk s') = main_file (st_disk s))"
proof -
  have st: "st_players s' = AList.update (p_username p) p (st_players s)"
    using Upsert_players [of io p s] assms(3) by simp
  have ok: "players_ok (st_players s')" unfolding st by (rule update_players_ok [OF assms(1,2)])
  have "distinct (map fst (st_players s))" using assms(1) by (simp add: players_ok_def)
  then have "(p_username p, p) \<in> set (st_players s')" unfolding st by (simp add: set_update_alist)
  then have "find_by_id (p_id p) (st_players s') = Some (p_username p, p)"
    using find_by_id_iff [OF ok, of "p_id p" "p_username p" p] by simp
  moreover have "(err = None \<longrightarrow> main_file (st_disk s') = Content (st_players s')) \<and>
     (err \<noteq> None \<longrightarrow> main_file (st_disk s') = main_file (st_disk s))"
    using assms(3) by (auto simp: PlayerStore_Upsert_def player_persist_def persist_def
        split: option.splits io_fault.splits)
  ultimately show ?thesis
    using ok st by (simp add: PlayerStore_Get_def PlayerStore_GetByPlayerID_def clonePlayer_def update_conv)
qed

definition demo_player :: "string \<Rightarrow> int \<Rightarrow> player" where
  "demo_player n cash = \<lparr>p_id = ''id-'' @ n, p_username = n, p_role = ''Buyer'', p_cash = cash, p_reserved_cash = 0,
     p_portfolio = Map.empty, p_reserved_stocks = Map.empty, p_lots = Map.empty, p_created_at = 1, p_last_login_at = 1\<rparr>"

theorem PlayerStore_Upsert_lookup_witness:
  "PlayerStore_GetByPlayerID ''id-ann'' (snd (PlayerStore_Upsert None (demo_player ''ann'' 9)
      \<lparr>st_players = [(''ann'', demo_player ''ann'' 5), (''bob'', demo_player ''bob'' 7)],
       st_disk = \<lparr>main_file = NoFile, tmp_file = NoFile\<rparr>\<rparr>)) = Some (demo_player ''ann'' 9)"
  using PlayerStore_Upsert_lookup [of "\<lparr>st_players = [(''ann'', demo_player ''ann'' 5), (''bob'', demo_player ''bob'' 7)],
       st_disk = \<lparr>main_file = NoFile, tmp_file = NoFile\<rparr>\<rparr>" "demo_player ''ann'' 9", OF _ _ prod.collapse [symmetric]]
  by (simp add: players_ok_def demo_player_def)

text \<open>The role statistics count the stored players of each role, whatever the order the map is
  ranged over.\<close>
theorem RoleStats_counts:
  "PlayerStore_RoleStats s =
     (let n = (\<lambda>r. int (length (filter (\<lambda>(u, p). p_role p = r) (st_players s))))
      in \<lparr>rs_buyers = n ''Buyer'', rs_holders = n ''Holder'', rs_whales = n ''Whale''\<rparr>)"
proof -
  have "foldl (\<lambda>st (u, p). count_role st (p_role p)) \<lparr>rs_buyers = a, rs_holders = b, rs_whales = c\<rparr> ps =
      (let n = (\<lambda>r. int (length (filter (\<lambda>(u, p). p_role p = r) ps)))
       in \<lparr>rs_buyers = a + n ''Buyer'', rs_holders = b + n ''Holder'', rs_whales = c + n ''Whale''\<rparr>)" for a b c ps
    by (induction ps arbitrary: a b c) (auto simp: count_role_def Let_def)
  from this [of 0 0 0 "st_players s"] show ?thesis by (simp add: PlayerStore_RoleStats_def Let_def)
qed

end
