(* ===== verification/LeaderboardProps.thy ===== *)
theory LeaderboardProps
  imports StoreProps "HOL-Library.Multiset"
begin

text \<open>
  Correctness of the leaderboard: the ranking is sorted, numbered and bounded, and each line
  compares the player's latest snapshot with a snapshot from the window's start.
\<close>

section \<open>Sorting\<close>

lemma mset_sort_slice [simp]: "mset (sort_slice lt xs) = mset xs"
proof -
  have "mset (insert_sorted lt x ys) = add_mset x (mset ys)" for x ys by (induction ys) auto
  then show ?thesis by (induction xs) (simp_all add: sort_slice_def)
qed

lemma set_sort_slice [simp]: "set (sort_slice lt xs) = set xs"
  using mset_eq_setD [OF mset_sort_slice] .

lemma sorted_sort_slice:
  assumes tr: "\<And>a b c. \<not> lt b a \<Longrightarrow> \<not> lt c b \<Longrightarrow> \<not> lt c a" and asym: "\<And>a b. lt a b \<Longrightarrow> \<not> lt b a"
  shows "sorted_wrt (\<lambda>a b. \<not> lt b a) (sort_slice lt xs)"
proof -
  have ins: "sorted_wrt (\<lambda>a b. \<not> lt b a) ys \<Longrightarrow> sorted_wrt (\<lambda>a b. \<not> lt b a) (insert_sorted lt x ys)" for x ys
  proof (induction ys)
    case (Cons y ys)
    have sub: "set (insert_sorted lt x ys) = insert x (set ys)" by (induction ys) auto
    show ?case
    proof (cases "lt y x")
      case True
      then show ?thesis using Cons asym by (auto simp: sub)
    next
      case False
      then have "\<not> lt z x" if "z \<in> set ys" for z using tr [of y x z] Cons.prems that by simp
      with False Cons.prems show ?thesis by auto
    qed
  qed simp
  show ?thesis by (induction xs) (simp_all add: sort_slice_def ins)
qed

lemma entry_less_trans: "\<not> entry_less b a \<Longrightarrow> \<not> entry_less c b \<Longrightarrow> \<not> entry_less c a"
  by (auto simp: entry_less_def split: if_splits)

lemma entry_less_asym: "entry_less a b \<Longrightarrow> \<not> entry_less b a"
  by (auto simp: entry_less_def split: if_splits)

section \<open>The statistics\<close>

lemma stats_of_update [simp]: "stats_of (AList.update k v m) j = (if j = k then v else stats_of m j)"
  by (simp add: stats_of_def update_conv)

definition latest_ok :: "equity_snapshot list \<Rightarrow> string \<Rightarrow> player_stats \<Rightarrow> bool" where
  "latest_ok snaps pid st \<longleftrightarrow>
     (case latest st of
        None \<Rightarrow> \<forall>sn \<in> set snaps. es_player_id sn \<noteq> pid
      | Some l \<Rightarrow> l \<in> set snaps \<and> es_player_id l = pid \<and>
          (\<forall>sn \<in> set snaps. es_player_id sn = pid \<longrightarrow> es_captured_at sn \<le> es_captured_at l))"

definition baseline_ok :: "time \<Rightarrow> equity_snapshot list \<Rightarrow> string \<Rightarrow> player_stats \<Rightarrow> bool" where
  "baseline_ok start snaps pid st \<longleftrightarrow>
     (case baseline st of
        None \<Rightarrow> \<forall>sn \<in> set snaps. es_player_id sn \<noteq> pid
      | Some b \<Rightarrow> b \<in> set snaps \<and> es_player_id b = pid \<and>
          (es_captured_at b \<le> start \<longrightarrow>
             (\<forall>sn \<in> set snaps. es_player_id sn = pid \<longrightarrow> es_captured_at sn \<le> start \<longrightarrow>
                es_captured_at sn \<le> es_captured_at b)))"

lemma latest_okD:
  assumes "latest_ok snaps pid st" "latest st = Some l"
  shows "l \<in> set snaps" "es_player_id l = pid"
    "\<And>sn. sn \<in> set snaps \<Longrightarrow> es_player_id sn = pid \<Longrightarrow> es_captured_at sn \<le> es_captured_at l"
  using assms by (simp_all add: latest_ok_def)

lemma baseline_okD:
  assumes "baseline_ok start snaps pid st" "baseline st = Some b"
  shows "b \<in> set snaps" "es_player_id b = pid"
    "\<And>sn. sn \<in> set snaps \<Longrightarrow> es_player_id sn = pid \<Longrightarrow> es_captured_at b \<le> start \<Longrightarrow>
       es_captured_at sn \<le> start \<Longrightarrow> es_captured_at sn \<le> es_captured_at b"
  using assms by (simp_all add: baseline_ok_def)

lemma latest_snapshot:
  "latest (add_snapshot start st sn) =
     (case latest st of None \<Rightarrow> Some sn
      | Some l \<Rightarrow> if es_captured_at sn > es_captured_at l then Some sn else Some l)"
  by (simp add: add_snapshot_def Let_def split: option.split)

lemma baseline_snapshot:
  "baseline (add_snapshot start st sn) =
     (case baseline st of None \<Rightarrow> Some sn
      | Some b \<Rightarrow> if es_captured_at sn \<le> start \<and> es_captured_at sn > es_captured_at b then Some sn else Some b)"
  by (simp add: add_snapshot_def Let_def split: option.split)

lemma stats_snapshot_at:
  "stats_of (stats_snapshot start m sn) pid =
     (if pid = es_player_id sn then add_snapshot start (stats_of m pid) sn else stats_of m pid)"
  by (auto simp: stats_snapshot_def)

lemma snapshots_ok:
  "latest_ok snaps pid (stats_of (foldl (stats_snapshot start) [] snaps) pid) \<and>
   baseline_ok start snaps pid (stats_of (foldl (stats_snapshot start) [] snaps) pid)"
proof (induction snaps rule: rev_induct)
  case Nil
  show ?case by (simp add: latest_ok_def baseline_ok_def stats_of_def no_stats_def)
next
  case (snoc sn snaps)
  let ?m = "foldl (stats_snapshot start) [] snaps"
  show ?case
  proof (cases "es_player_id sn = pid")
    case True
    have "latest_ok (snaps @ [sn]) pid (add_snapshot start (stats_of ?m pid) sn)"
      using snoc True unfolding latest_ok_def latest_snapshot by (fastforce split: option.splits if_splits)
    moreover have "baseline_ok start (snaps @ [sn]) pid (add_snapshot start (stats_of ?m pid) sn)"
      using snoc True unfolding baseline_ok_def baseline_snapshot by (fastforce split: option.splits if_splits)
    ultimately show ?thesis using True by (simp add: stats_snapshot_at)
  next
    case False
    then show ?thesis using snoc
      by (auto simp: stats_snapshot_at latest_ok_def baseline_ok_def split: option.splits)
  qed
qed

lemma stats_trade_snapshots [simp]:
  "latest (stats_of (foldl (stats_trade start now) m ts) pid) = latest (stats_of m pid) \<and>
   baseline (stats_of (foldl (stats_trade start now) m ts) pid) = baseline (stats_of m pid)"
  by (induction ts arbitrary: m) (auto simp: stats_trade_def Let_def)

lemma distinct_stats: "distinct (map fst (leaderboard_stats start now snaps trades))"
proof -
  have "distinct (map fst m) \<Longrightarrow> distinct (map fst (foldl (stats_snapshot start) m snaps))" for m
    by (induction snaps arbitrary: m) (auto simp: stats_snapshot_def distinct_update)
  moreover have "distinct (map fst m) \<Longrightarrow> distinct (map fst (foldl (stats_trade start now) m trades))" for m
    by (induction trades arbitrary: m) (auto simp: stats_trade_def Let_def distinct_update)
  ultimately show ?thesis by (simp add: leaderboard_stats_def)
qed

lemma leaderboard_stats_entry:
  assumes "(pid, st) \<in> set (leaderboard_stats start now snaps trades)"
  shows "latest_ok snaps pid st \<and> baseline_ok start snaps pid st"
proof -
  have "stats_of (leaderboard_stats start now snaps trades) pid = st"
    using assms distinct_stats [of start now snaps trades] by (simp add: stats_of_def)
  then show ?thesis
    using snapshots_ok [of snaps pid start] stats_trade_snapshots [of start now "foldl (stats_snapshot start) [] snaps" trades pid]
    unfolding leaderboard_stats_def latest_ok_def baseline_ok_def by auto
qed

text \<open>A line of the board rests on two snapshots of its player, the latest one and the base of the window.\<close>

lemma make_entry_line:
  assumes "(pid, st) \<in> set (leaderboard_stats start now snaps trades)" "make_entry start now pid st = Some e"
  shows "\<exists>b \<in> set snaps. \<exists>l \<in> set snaps. es_player_id b = le_player_id e \<and> es_player_id l = le_player_id e \<and>
      le_pnl e = sub64 (es_total_equity l) (es_total_equity b) \<and> le_equity_now e = es_total_equity l \<and>
      (\<forall>sn \<in> set snaps. es_player_id sn = le_player_id e \<longrightarrow>
         es_captured_at sn \<le> es_captured_at l \<and>
         (es_captured_at b \<le> le_window_start e \<longrightarrow> es_captured_at sn \<le> le_window_start e \<longrightarrow>
            es_captured_at sn \<le> es_captured_at b))"
proof -
  from assms(2) obtain l b where lb: "latest st = Some l" "baseline st = Some b"
    by (auto simp: make_entry_def split: option.splits)
  from assms(2) lb have e: "le_player_id e = pid" "le_window_start e = start"
    "le_pnl e = sub64 (es_total_equity l) (es_total_equity b)" "le_equity_now e = es_total_equity l"
    by (auto simp: make_entry_def Let_def)
  note L = latest_okD [OF conjunct1 [OF leaderboard_stats_entry [OF assms(1)]] lb(1)]
  note B = baseline_okD [OF conjunct2 [OF leaderboard_stats_entry [OF assms(1)]] lb(2)]
  show ?thesis
    by (rule bexI [OF bexI [OF _ L(1)] B(1)]) (use L(2,3) B(2,3) in \<open>simp add: e\<close>)
qed

text \<open>The entries with their ranks.\<close>

definition numbered :: "nat \<Rightarrow> leaderboard_entry list \<Rightarrow> leaderboard_entry list" where
  "numbered k es = map (\<lambda>(i, e). e\<lparr>le_rank := int i + 1\<rparr>) (enumerate k es)"

lemma numbered_Cons [simp]: "numbered k [] = []" "numbered k (e # es) = e\<lparr>le_rank := int k + 1\<rparr> # numbered (Suc k) es"
  by (simp_all add: numbered_def)

lemma numbered_mem: "e \<in> set (numbered k es) \<Longrightarrow> \<exists>i e0. e0 \<in> set es \<and> e = e0\<lparr>le_rank := int i + 1\<rparr>"
  by (induction es arbitrary: k) (auto, blast)

lemma numbered_ranks: "map le_rank (numbered k es) = map int [Suc k..<Suc k + length es]"
  by (induction es arbitrary: k) (auto simp: upt_conv_Cons simp del: upt_Suc)

lemma numbered_sorted:
  "sorted_wrt (\<lambda>a b. \<not> entry_less b a) es \<Longrightarrow> sorted_wrt (\<lambda>a b. \<not> entry_less b a) (numbered k es)"
  by (induction es arbitrary: k) (auto simp: entry_less_def dest!: numbered_mem)

section \<open>Theorem\<close>

text \<open>The leaderboard is sorted by profit, ties by return and turnover, its ranks are 1, 2, 3
  and so on, it is no longer than the limit (10 when none is given), and each line reports a
  player's latest snapshot against a snapshot of the same player that is the newest one not
  after the window's start whenever the line's base is that old.\<close>
theorem Leaderboard_ranks:
  assumes "\<And>m. set (ord m) = set m"
  shows "let es = Leaderboard ord window now trades limit s in
     sorted_wrt (\<lambda>a b. \<not> entry_less b a) es \<and> map le_rank es = map int [1..<length es + 1] \<and>
     length es \<le> nat (if limit \<le> 0 then 10 else limit) \<and>
     (\<forall>e \<in> set es. \<exists>b \<in> set (pf_snapshots s). \<exists>l \<in> set (pf_snapshots s).
        es_player_id b = le_player_id e \<and> es_player_id l = le_player_id e \<and>
        le_pnl e = sub64 (es_total_equity l) (es_total_equity b) \<and> le_equity_now e = es_total_equity l \<and>
        (\<forall>sn \<in> set (pf_snapshots s). es_player_id sn = le_player_id e \<longrightarrow>
           es_captured_at sn \<le> es_captured_at l \<and>
           (es_captured_at b \<le> le_window_start e \<longrightarrow> es_captured_at sn \<le> le_window_start e \<longrightarrow>
              es_captured_at sn \<le> es_captured_at b)))"
proof -
  let ?start = "now - (if window \<le> 0 then hour else window)"
  let ?n = "nat (if limit \<le> 0 then 10 else limit)"
  let ?stats = "leaderboard_stats ?start now (pf_snapshots s) trades"
  let ?all = "List.map_filter (\<lambda>(pid, st). make_entry ?start now pid st) (ord ?stats)"
  let ?top = "take ?n (sort_slice entry_less ?all)"
  have lb: "Leaderboard ord window now trades limit s = numbered 0 ?top"
    by (simp add: Leaderboard_def Let_def numbered_def)
  have srt: "sorted_wrt (\<lambda>a b. \<not> entry_less b a) ?top"
    by (rule sorted_wrt_take [OF sorted_sort_slice [OF entry_less_trans entry_less_asym]])
  have line: "\<exists>b \<in> set (pf_snapshots s). \<exists>l \<in> set (pf_snapshots s).
        es_player_id b = le_player_id e \<and> es_player_id l = le_player_id e \<and>
        le_pnl e = sub64 (es_total_equity l) (es_total_equity b) \<and> le_equity_now e = es_total_equity l \<and>
        (\<forall>sn \<in> set (pf_snapshots s). es_player_id sn = le_player_id e \<longrightarrow>
           es_captured_at sn \<le> es_captured_at l \<and>
           (es_captured_at b \<le> le_window_start e \<longrightarrow> es_captured_at sn \<le> le_window_start e \<longrightarrow>
              es_captured_at sn \<le> es_captured_at b))"
    if e: "e \<in> set (numbered 0 ?top)" for e
  proof -
    obtain i e0 where e0: "e0 \<in> set ?top" "e = e0\<lparr>le_rank := int i + 1\<rparr>" using numbered_mem [OF e] by blast
    then have "e0 \<in> set ?all" by (auto dest: in_set_takeD)
    then obtain pid st where "(pid, st) \<in> set ?stats" "make_entry ?start now pid st = Some e0"
      using assms by (auto simp: List.map_filter_def)
    from make_entry_line [OF this] show ?thesis by (simp add: e0(2))
  qed
  have "length (numbered 0 ?top) \<le> ?n" by (simp add: numbered_def)
  then show ?thesis
    unfolding lb Let_def using numbered_sorted [OF srt] numbered_ranks [of 0 ?top] line by (simp add: numbered_def ac_simps)
qed

definition demo_snap :: "string \<Rightarrow> int \<Rightarrow> time \<Rightarrow> equity_snapshot" where
  "demo_snap p eq t = \<lparr>es_player_id = p, es_username = p, es_role = ''Buyer'', es_cash = eq, es_holdings_value = 0,
     es_total_equity = eq, es_captured_at = t\<rparr>"

definition demo_performance :: performance_store where
  "demo_performance = \<lparr>pf_max_snapshots = 9, pf_snapshots = [demo_snap ''ann'' 100 1, demo_snap ''bob'' 100 1, demo_snap ''bob'' 150 9],
     pf_disk = \<lparr>main_file = NoFile, tmp_file = NoFile\<rparr>\<rparr>"

theorem Leaderboard_ranks_witness:
  "length (Leaderboard rev 5 10 [] 1 demo_performance) \<le> 1"
  using Leaderboard_ranks [of rev 5 10 "[]" 1 demo_performance] by (simp add: Let_def)

end
