(* ===== verification/Fanout.thy ===== *)
theory Fanout
  imports Prelude
begin

text \<open>
  Subscriber hubs: what the exchange, the chat, the charts and the private notifications share.

  A subscriber is a buffered channel; \<^verbatim>\<open>select { case ch <- m: default: }\<close> appends to the buffer
  when it is not full and drops the message otherwise, so publishing never blocks. The
  contract \<open>fanout\<close> says that of a service's own publish operation and derives what a
  subscriber sees.
\<close>

record 'm hub =
  next_sub_id :: nat
  subscribers :: "(nat \<times> 'm list) list"

definition empty_hub :: "'m hub" where
  "empty_hub = \<lparr>next_sub_id = 0, subscribers = []\<rparr>"

definition try_send :: "nat \<Rightarrow> 'm \<Rightarrow> 'm list \<Rightarrow> 'm list" where
  "try_send cap m q = (if length q < cap then q @ [m] else q)"

definition hub_subscribe :: "'m hub \<Rightarrow> nat \<times> 'm hub" where
  "hub_subscribe h =
     (next_sub_id h, \<lparr>next_sub_id = Suc (next_sub_id h),
                      subscribers = AList.update (next_sub_id h) [] (subscribers h)\<rparr>)"

definition hub_unsubscribe :: "nat \<Rightarrow> 'm hub \<Rightarrow> 'm hub" where
  "hub_unsubscribe i h = h\<lparr>subscribers := filter (\<lambda>(j, q). j \<noteq> i) (subscribers h)\<rparr>"

definition hub_publish :: "nat \<Rightarrow> 'm \<Rightarrow> 'm hub \<Rightarrow> 'm hub" where
  "hub_publish cap m h = h\<lparr>subscribers := map (\<lambda>(i, q). (i, try_send cap m q)) (subscribers h)\<rparr>"

text \<open>The receiving end of a channel.\<close>

definition hub_receive :: "nat \<Rightarrow> 'm hub \<Rightarrow> 'm option \<times> 'm hub" where
  "hub_receive i h =
     (case map_of (subscribers h) i of
        Some (m # q) \<Rightarrow> (Some m, h\<lparr>subscribers := map (\<lambda>(j, r). (j, if j = i then q else r)) (subscribers h)\<rparr>)
      | _ \<Rightarrow> (None, h))"

lemma length_try_send: "length q \<le> cap \<Longrightarrow> length (try_send cap m q) \<le> cap"
  by (simp add: try_send_def)

lemma foldl_try_send:
  "length q \<le> cap \<Longrightarrow> foldl (\<lambda>q m. try_send cap m q) q ms = q @ take (cap - length q) ms"
proof (induction ms arbitrary: q)
  case (Cons m ms)
  show ?case
  proof (cases "length q < cap")
    case True
    then have "cap - length q = Suc (cap - length (q @ [m]))" by simp
    with True Cons.IH [of "q @ [m]"] show ?thesis by (simp add: try_send_def)
  next
    case False
    with Cons.prems Cons.IH [of q] show ?thesis by (simp add: try_send_def)
  qed
qed simp

definition hub_ok :: "nat \<Rightarrow> 'm hub \<Rightarrow> bool" where
  "hub_ok cap h \<longleftrightarrow> distinct (map fst (subscribers h)) \<and>
     (\<forall>x \<in> set (subscribers h). fst x < next_sub_id h \<and> length (snd x) \<le> cap)"

lemma hub_ok_empty [simp]: "hub_ok cap empty_hub"
  by (simp add: hub_ok_def empty_hub_def)

lemma hub_ok_publish [simp]: "hub_ok cap h \<Longrightarrow> hub_ok cap (hub_publish cap m h)"
  by (auto simp: hub_ok_def hub_publish_def case_prod_unfold comp_def length_try_send)

lemma hub_ok_unsubscribe [simp]: "hub_ok cap h \<Longrightarrow> hub_ok cap (hub_unsubscribe i h)"
  by (auto simp: hub_ok_def hub_unsubscribe_def distinct_map inj_on_def)

lemma hub_ok_subscribe: "hub_ok cap h \<Longrightarrow> hub_subscribe h = (i, h') \<Longrightarrow> hub_ok cap h' \<and> map_of (subscribers h') i = Some []"
  by (auto simp: hub_ok_def hub_subscribe_def distinct_update update_conv set_update_alist less_Suc_eq; force)

text \<open>
  The contract of a service whose channels have capacity \<open>cap\<close>: one call of \<open>publish\<close> offers the
  message \<open>seen x\<close> to every subscriber.
\<close>

locale fanout =
  fixes publish :: "'x \<Rightarrow> 's \<Rightarrow> 's"
    and seen :: "'x \<Rightarrow> 'm"
    and queues :: "'s \<Rightarrow> (nat \<times> 'm list) list"
    and cap :: nat
  assumes queues_publish: "queues (publish x s) = map (\<lambda>(i, q). (i, try_send cap (seen x) q)) (queues s)"
begin

lemma publish_all:
  "queues (foldl (\<lambda>s x. publish x s) s xs) =
     map (\<lambda>(i, q). (i, foldl (\<lambda>q m. try_send cap m q) q (map seen xs))) (queues s)"
  by (induction xs arbitrary: s) (auto simp: queues_publish case_prod_unfold comp_def)

text \<open>A subscriber receives a prefix of what was published since it last read, in order; the
  newest messages are dropped when its buffer is full; and nobody waits for it.\<close>

lemma subscriber_sees:
  assumes "(i, q) \<in> set (queues s)" "length q \<le> cap"
  shows "(i, q @ take (cap - length q) (map seen xs)) \<in> set (queues (foldl (\<lambda>s x. publish x s) s xs))"
  using assms(1) foldl_try_send [OF assms(2), of "map seen xs"] unfolding publish_all by (force simp: image_iff)

lemma same_subscribers: "map fst (queues (foldl (\<lambda>s x. publish x s) s xs)) = map fst (queues s)"
  by (simp add: publish_all case_prod_unfold comp_def)

end

end
