(* ===== verification/Chat.thy ===== *)
theory Chat
  imports Stores Fanout
begin

text \<open>
  The chat service (\<^verbatim>\<open>internal/chat/chat_service.go\<close>).

  A broadcast is appended to the in-memory history, then to the store when there is one, then
  offered to every live subscriber. JSON payloads are the messages they encode. A broadcast
  whose context is done may stop at any subscriber: \<open>ctx_done\<close> says whether the context is
  done and \<open>pick i\<close> whether the \<open>i\<close>-th select prefers it over a ready channel.
\<close>

record chat_service =
  ch_hub :: "chat_message hub"
  ch_history :: "chat_message list"
  ch_history_limit :: nat
  ch_store :: "chat_store option"

datatype chat_error = ChatStoreFailed store_error | ContextDone

definition NewChatService :: "int \<Rightarrow> chat_store option \<Rightarrow> chat_service" where
  "NewChatService limit0 store =
     (let limit = nat (if limit0 \<le> 0 then 100 else limit0) in
      \<lparr>ch_hub = empty_hub,
       ch_history = (case store of None \<Rightarrow> []
         | Some st \<Rightarrow> ChatStore_Query \<lparr>cq_player_id = [], cq_channel = ''global'', cq_limit = int limit\<rparr> st),
       ch_history_limit = limit, ch_store = store\<rparr>)"

definition chat_SubscribeLive :: "chat_service \<Rightarrow> nat \<times> chat_service" where
  "chat_SubscribeLive s = (case hub_subscribe (ch_hub s) of (i, h) \<Rightarrow> (i, s\<lparr>ch_hub := h\<rparr>))"

definition chat_disconnect :: "nat \<Rightarrow> chat_service \<Rightarrow> chat_service" where
  "chat_disconnect i s = s\<lparr>ch_hub := hub_unsubscribe i (ch_hub s)\<rparr>"

definition chat_History :: "chat_service \<Rightarrow> chat_message list" where
  "chat_History s =
     (case ch_store s of
        None \<Rightarrow> ch_history s
      | Some st \<Rightarrow> ChatStore_Query \<lparr>cq_player_id = [], cq_channel = ''global'', cq_limit = int (ch_history_limit s)\<rparr> st)"

text \<open>\<open>Subscribe\<close> also starts a goroutine that feeds the history into the new channel.\<close>

definition chat_Subscribe :: "chat_service \<Rightarrow> (nat \<times> chat_message list) \<times> chat_service" where
  "chat_Subscribe s = (let h = chat_History s in case chat_SubscribeLive s of (i, s') \<Rightarrow> ((i, h), s'))"

definition chat_defaults :: "time \<Rightarrow> chat_message \<Rightarrow> chat_message" where
  "chat_defaults now m0 =
     (let m1 = (if cm_type m0 = [] then m0\<lparr>cm_type := ''chat.message''\<rparr> else m0);
          m2 = (if cm_channel m1 = [] then m1\<lparr>cm_channel := ''global''\<rparr> else m1)
      in if cm_sent_at m2 = zero_time then m2\<lparr>cm_sent_at := now\<rparr> else m2)"

fun chat_deliver ::
  "bool \<Rightarrow> (nat \<Rightarrow> bool) \<Rightarrow> chat_message \<Rightarrow> nat \<Rightarrow> (nat \<times> chat_message list) list \<Rightarrow>
     bool \<times> (nat \<times> chat_message list) list" where
  "chat_deliver ctx_done pick m k [] = (False, [])"
| "chat_deliver ctx_done pick m k ((i, q) # subs) =
     (if ctx_done \<and> (pick k \<or> length q \<ge> 32) then (True, (i, q) # subs)
      else (case chat_deliver ctx_done pick m (Suc k) subs of
              (stopped, subs') \<Rightarrow> (stopped, (i, try_send 32 m q) # subs')))"

definition chat_Broadcast ::
  "io_fault option \<Rightarrow> time \<Rightarrow> time \<Rightarrow> bool \<Rightarrow> (nat \<Rightarrow> bool) \<Rightarrow> chat_message \<Rightarrow> chat_service \<Rightarrow>
     (chat_error + chat_message) \<times> chat_service" where
  "chat_Broadcast io now now_store ctx_done pick m0 s =
     (let m = chat_defaults now m0;
          s1 = s\<lparr>ch_history := keep_last (ch_history_limit s) (ch_history s @ [m])\<rparr>;
          (err, s2) = (case ch_store s1 of
             None \<Rightarrow> (None, s1)
           | Some st \<Rightarrow> (case ChatStore_Append io now_store m st of (e, st') \<Rightarrow> (e, s1\<lparr>ch_store := Some st'\<rparr>)))
      in case err of
           Some e \<Rightarrow> (Inl (ChatStoreFailed e), s2)
         | None \<Rightarrow>
             (case chat_deliver ctx_done pick m 0 (subscribers (ch_hub s2)) of
                (stopped, subs) \<Rightarrow>
                  (let s3 = s2\<lparr>ch_hub := (ch_hub s2)\<lparr>subscribers := subs\<rparr>\<rparr>
                   in if stopped then (Inl ContextDone, s3) else (Inr m, s3))))"

lemma chat_deliver_open:
  "chat_deliver False pick m k subs = (False, map (\<lambda>(i, q). (i, try_send 32 m q)) subs)"
  by (induction subs arbitrary: k) auto

text \<open>One broadcast whose save succeeds and whose context stays open.\<close>

definition chat_post :: "time \<times> chat_message \<Rightarrow> chat_service \<Rightarrow> chat_service" where
  "chat_post x s = (case x of (now, m) \<Rightarrow> snd (chat_Broadcast None now now False (\<lambda>_. False) m s))"

interpretation chat_fanout: fanout chat_post "\<lambda>(now, m). chat_defaults now m" "\<lambda>s. subscribers (ch_hub s)" 32
  by unfold_locales
    (auto simp: chat_post_def chat_Broadcast_def Let_def chat_deliver_open ChatStore_Append_def chat_persist_def
      persist_def split: option.splits)

lemma chat_defaults_stamped [simp]: "cm_sent_at (chat_defaults now m) = zero_time \<longleftrightarrow> cm_sent_at m = zero_time \<and> now = zero_time"
  by (auto simp: chat_defaults_def Let_def)

lemma chat_post_history:
  "ch_history (chat_post x s) = keep_last (ch_history_limit s) (ch_history s @ [(\<lambda>(now, m). chat_defaults now m) x])"
  "ch_history_limit (chat_post x s) = ch_history_limit s"
  by (auto simp: chat_post_def chat_Broadcast_def Let_def chat_deliver_open split: option.splits prod.splits)

section \<open>Theorems\<close>

text \<open>Broadcasts reach every subscriber in order: after any number of broadcasts a subscriber that
  has not read has its earlier messages followed by the first new ones that fit its buffer of
  32, the set of subscribers is unchanged, and the in-memory history is the newest messages up
  to its limit.\<close>
theorem chat_Broadcast_delivers:
  assumes "(i, q) \<in> set (subscribers (ch_hub s))" and "length q \<le> 32"
    and "length (ch_history s) \<le> ch_history_limit s"
  shows "let s' = foldl (\<lambda>s x. chat_post x s) s xs; ms = map (\<lambda>(now, m). chat_defaults now m) xs in
     (i, q @ take (32 - length q) ms) \<in> set (subscribers (ch_hub s')) \<and>
     map fst (subscribers (ch_hub s')) = map fst (subscribers (ch_hub s)) \<and>
     ch_history s' = keep_last (ch_history_limit s) (ch_history s @ ms)"
proof -
  have "ch_history (foldl (\<lambda>s x. chat_post x s) s xs) = keep_last (ch_history_limit s) (ch_history s @ map (\<lambda>(now, m). chat_defaults now m) xs)"
    using assms(3)
  proof (induction xs arbitrary: s)
    case (Cons x xs)
    have "length (ch_history (chat_post x s)) \<le> ch_history_limit (chat_post x s)" by (simp add: chat_post_history)
    from Cons.IH [OF this] show ?case by (simp add: chat_post_history keep_last_append)
  qed simp
  then show ?thesis
    using chat_fanout.subscriber_sees [OF assms(1,2), where xs = xs] chat_fanout.same_subscribers [where xs = xs and s = s] by (simp add: Let_def)
qed

definition demo_service :: chat_service where
  "demo_service = \<lparr>ch_hub = \<lparr>next_sub_id = 1, subscribers = [(0, [])]\<rparr>, ch_history = [], ch_history_limit = 3, ch_store = None\<rparr>"

definition demo_message :: "string \<Rightarrow> chat_message" where
  "demo_message body = \<lparr>cm_type = [], cm_channel = [], cm_player_id = ''p'', cm_username = ''ann'', cm_role = ''Buyer'',
     cm_body = body, cm_recipient_id = [], cm_recipient_username = [], cm_sent_at = zero_time\<rparr>"

theorem chat_Broadcast_delivers_witness:
  "(0, [chat_defaults 5 (demo_message ''hi'')]) \<in> set (subscribers (ch_hub (chat_post (5, demo_message ''hi'') demo_service)))"
  using chat_Broadcast_delivers [of 0 "[]" demo_service "[(5, demo_message ''hi'')]"] by (simp add: demo_service_def Let_def)

text \<open>A broadcast that cannot be saved fails without being delivered to anyone, but it stays in the
  in-memory history; a broadcast that succeeds is saved as the newest message of the store.\<close>
theorem chat_Broadcast_save:
  assumes "ch_store s = Some st"
  shows "case chat_Broadcast io now now2 cancelled pick m0 s of
      (Inl (ChatStoreFailed e), s') \<Rightarrow> ch_hub s' = ch_hub s \<and>
        ch_history s' = keep_last (ch_history_limit s) (ch_history s @ [chat_defaults now m0]) \<and>
        (\<exists>st'. ch_store s' = Some st' \<and> main_file (cs_disk st') = main_file (cs_disk st))
    | (_, s') \<Rightarrow> \<exists>st'. ch_store s' = Some st' \<and>
        cs_messages st' = keep_last (cs_max_records st) (cs_messages st @ [stamped now2 (chat_defaults now m0)]) \<and>
        main_file (cs_disk st') = Content (cs_messages st')"
  using assms
  by (auto simp: chat_Broadcast_def Let_def ChatStore_Append_def chat_persist_def persist_def
      split: prod.splits option.splits io_fault.splits)

theorem chat_Broadcast_save_witness:
  "\<exists>s'. chat_Broadcast (Some WriteFails) 5 5 False (\<lambda>_. False) (demo_message ''hi'')
      (demo_service\<lparr>ch_store := Some \<lparr>cs_max_records = 2, cs_messages = [], cs_disk = \<lparr>main_file = NoFile, tmp_file = NoFile\<rparr>\<rparr>\<rparr>)
     = (Inl (ChatStoreFailed WriteTempError), s') \<and> subscribers (ch_hub s') = [(0, [])]"
  using chat_Broadcast_save [where s = "demo_service\<lparr>ch_store := Some \<lparr>cs_max_records = 2, cs_messages = [],
      cs_disk = \<lparr>main_file = NoFile, tmp_file = NoFile\<rparr>\<rparr>\<rparr>" and io = "Some WriteFails" and now = 5 and ?now2.0 = 5
      and cancelled = False and pick = "\<lambda>_. False" and ?m0.0 = "demo_message ''hi''"]
  by (simp add: chat_Broadcast_def Let_def ChatStore_Append_def chat_persist_def persist_def demo_service_def)

end
