(* ===== verification/Exchange.thy ===== *)
theory Exchange
  imports BookProps PriceEngine Chat
begin

text \<open>
  The exchange service (\<^verbatim>\<open>internal/exchange/service.go\<close>, \<^verbatim>\<open>cache.go\<close>, \<^verbatim>\<open>types.go\<close>): one book per
  ticker, the price engine, the recent trades, the market feed and the Redis mirror.

  Feed payloads are modelled by the values they encode (\<open>market_msg\<close> has one constructor per
  envelope type of \<^verbatim>\<open>MarshalEnvelope\<close>). Redis is not part of the program: \<open>cache_log\<close> records
  the calls made, and the environment \<open>env\<close> says whether a cache is configured and which call of
  the request fails. \<open>env\<close> also carries the clock readings and the fresh uuid of the request.
  An order whose matching loop did not stop and a panic of the price engine are the errors
  \<open>Diverged\<close> and \<open>Panicked\<close>; the theorems show that they do not occur.
\<close>

section \<open>Data\<close>

record event_payload =
  ev_kind :: string
  ev_name :: string
  ev_message :: string
  ev_global :: bool
  ev_symbol :: string
  ev_affected :: "string list"
  ev_multiplier_pct :: int
  ev_duration_seconds :: int
  ev_prices :: "(string \<times> price_point) list"
  ev_occurred_at :: time

datatype market_msg =
    MarketUpdate order snapshot price_point "trade list"
  | MarketTrade trade
  | MarketCancel order snapshot price_point "trade list"
  | MarketSnapshot snapshot price_point "trade list"
  | MarketEvent event_payload

datatype cache_call = RedisSet string market_msg | RedisPublish string market_msg

datatype exchange_error =
    UnsupportedSymbol string | BookError book_error | EngineError engine_error
  | CacheFailed | Diverged | Panicked | ChatNotConfigured

record exchange =
  ex_books :: "string \<rightharpoonup> book"
  ex_tickers :: "(string \<times> ticker) list"
  ex_engine :: price_engine
  ex_recent :: "string \<rightharpoonup> trade list"
  ex_hub :: "market_msg hub"
  cache_log :: "cache_call list"

record place_input =
  pi_request_id :: string
  pi_player_id :: string
  pi_player_role :: string
  pi_symbol :: string
  pi_side :: side
  pi_type :: order_type
  pi_price :: int
  pi_quantity :: int

record place_output =
  po_order :: order
  po_orderbook :: snapshot
  po_price :: price_point
  po_trades :: "trade list"
  po_resting :: "order option"
  po_removed :: "string list"
  po_json :: market_msg
  po_occurred_at :: time

record chart_snapshot =
  sp_symbol :: string
  sp_price :: price_point
  sp_orderbook :: snapshot
  sp_recent_trades :: "trade list"
  sp_captured_at :: time

record shock_input =
  si_kind :: string
  si_event_name :: string
  si_message :: string
  si_global :: bool
  si_symbol :: string
  si_multiplier_pct :: int
  si_duration :: duration
  si_occurred_at :: time

record shock_output =
  so_json :: market_msg
  so_affected :: "string list"
  so_prices :: "(string \<times> price_point) list"
  so_occurred_at :: time

record env =
  clock :: "nat \<Rightarrow> time"
  now_price :: time
  now_done :: time
  fresh_uuid :: string
  cache_on :: bool
  cache_fails :: "nat \<Rightarrow> bool"

section \<open>Construction and subscriptions\<close>

definition NewExchange :: "ticker list \<Rightarrow> time \<Rightarrow> exchange" where
  "NewExchange ts t0 =
     \<lparr>ex_books = foldl (\<lambda>m t. m(tk_symbol t \<mapsto> new_book (tk_symbol t) (initial_price t))) Map.empty ts,
      ex_tickers = foldl (\<lambda>m t. AList.update (tk_symbol t) t m) [] ts,
      ex_engine = NewPriceEngine ts t0, ex_recent = Map.empty, ex_hub = empty_hub, cache_log = []\<rparr>"

definition ListTickers :: "exchange \<Rightarrow> string list" where
  "ListTickers s = map fst (ex_tickers s)"

definition exchange_Subscribe :: "exchange \<Rightarrow> nat \<times> exchange" where
  "exchange_Subscribe s = (case hub_subscribe (ex_hub s) of (i, h) \<Rightarrow> (i, s\<lparr>ex_hub := h\<rparr>))"

definition exchange_disconnect :: "nat \<Rightarrow> exchange \<Rightarrow> exchange" where
  "exchange_disconnect i s = s\<lparr>ex_hub := hub_unsubscribe i (ex_hub s)\<rparr>"

definition publishLocked :: "market_msg \<Rightarrow> exchange \<Rightarrow> exchange" where
  "publishLocked m s = s\<lparr>ex_hub := hub_publish 64 m (ex_hub s)\<rparr>"

definition snapshotKey :: "string \<Rightarrow> string" where
  "snapshotKey symbol = ''arena:orderbook:'' @ symbol"

text \<open>The \<open>k\<close>-th cache call of the request.\<close>

definition cache_do :: "env \<Rightarrow> nat \<Rightarrow> cache_call \<Rightarrow> exchange \<Rightarrow> exchange_error option \<times> exchange" where
  "cache_do env k c s =
     (if \<not> cache_on env then (None, s)
      else (if cache_fails env k then Some CacheFailed else None, s\<lparr>cache_log := cache_log s @ [c]\<rparr>))"

definition PutSnapshot :: "env \<Rightarrow> nat \<Rightarrow> string \<Rightarrow> market_msg \<Rightarrow> exchange \<Rightarrow> exchange_error option \<times> exchange" where
  "PutSnapshot env k symbol m s = cache_do env k (RedisSet (snapshotKey symbol) m) s"

definition CachePublish :: "env \<Rightarrow> nat \<Rightarrow> string \<Rightarrow> market_msg \<Rightarrow> exchange \<Rightarrow> exchange_error option \<times> exchange" where
  "CachePublish env k channel m s = cache_do env k (RedisPublish channel m) s"

section \<open>Orders\<close>

definition recent_of :: "exchange \<Rightarrow> string \<Rightarrow> trade list" where
  "recent_of s symbol = (case ex_recent s symbol of None \<Rightarrow> [] | Some ts \<Rightarrow> ts)"

definition input_order :: "env \<Rightarrow> place_input \<Rightarrow> order" where
  "input_order env i =
     \<lparr>o_id = (if pi_request_id i = [] then fresh_uuid env else pi_request_id i),
      o_request_id = pi_request_id i, o_player_id = pi_player_id i, o_player_role = pi_player_role i,
      o_symbol = pi_symbol i, o_side = pi_side i, o_type = pi_type i, o_price = pi_price i,
      o_quantity = pi_quantity i, o_remaining = 0, o_status = OrderStatusUnset, o_created_at = zero_time\<rparr>"

fun publish_trades :: "env \<Rightarrow> string \<Rightarrow> nat \<Rightarrow> trade list \<Rightarrow> exchange \<Rightarrow> exchange_error option \<times> exchange" where
  "publish_trades env symbol k [] s = (None, s)"
| "publish_trades env symbol k (t # ts) s =
     (case CachePublish env k (''arena.trades.'' @ symbol) (MarketTrade t) (publishLocked (MarketTrade t) s) of
        (Some e, s') \<Rightarrow> (Some e, s')
      | (None, s') \<Rightarrow> publish_trades env symbol (Suc k) ts s')"

definition announce_order :: "env \<Rightarrow> string \<Rightarrow> market_msg \<Rightarrow> trade list \<Rightarrow> exchange \<Rightarrow> exchange_error option \<times> exchange" where
  "announce_order env symbol m ts s =
     (case publish_trades env symbol 0 ts (publishLocked m s) of
        (Some e, s1) \<Rightarrow> (Some e, s1)
      | (None, s1) \<Rightarrow>
          (case PutSnapshot env (length ts) symbol m s1 of
             (Some e, s2) \<Rightarrow> (Some e, s2)
           | (None, s2) \<Rightarrow> CachePublish env (Suc (length ts)) (''arena.market.'' @ symbol) m s2))"

definition PlaceOrder :: "env \<Rightarrow> place_input \<Rightarrow> exchange \<Rightarrow> (exchange_error + place_output) \<times> exchange" where
  "PlaceOrder env i s =
     (case ex_books s (pi_symbol i) of
        None \<Rightarrow> (Inl (UnsupportedSymbol (pi_symbol i)), s)
      | Some b \<Rightarrow>
          (case Place (clock env) (input_order env i) b of
             None \<Rightarrow> (Inl Diverged, s)
           | Some (Inl e, b') \<Rightarrow> (Inl (BookError e), s\<lparr>ex_books := (ex_books s)(pi_symbol i \<mapsto> b')\<rparr>)
           | Some (Inr p, b') \<Rightarrow>
               (let s1 = s\<lparr>ex_books := (ex_books s)(pi_symbol i \<mapsto> b')\<rparr> in
                case Apply (ex_engine s1) (pi_symbol i) (pr_trades p) (pr_snapshot p) (now_price env) of
                  (Inl e, en) \<Rightarrow> (Inl (EngineError e), s1\<lparr>ex_engine := en\<rparr>)
                | (Inr price, en) \<Rightarrow>
                    (let recent = take 500 (pr_trades p @ recent_of s1 (pi_symbol i));
                         s2 = s1\<lparr>ex_engine := en, ex_recent := (ex_recent s1)(pi_symbol i \<mapsto> recent)\<rparr>;
                         m = MarketUpdate (pr_order p) (pr_snapshot p) price recent
                     in case announce_order env (pi_symbol i) m (pr_trades p) s2 of
                          (Some e, s3) \<Rightarrow> (Inl e, s3)
                        | (None, s3) \<Rightarrow>
                            (Inr \<lparr>po_order = pr_order p, po_orderbook = pr_snapshot p, po_price = price,
                                  po_trades = pr_trades p, po_resting = pr_resting p, po_removed = pr_removed p,
                                  po_json = m, po_occurred_at = now_done env\<rparr>, s3)))))"

definition CancelOrder :: "env \<Rightarrow> string \<Rightarrow> string \<Rightarrow> exchange \<Rightarrow> (exchange_error + market_msg) \<times> exchange" where
  "CancelOrder env symbol oid s =
     (case ex_books s symbol of
        None \<Rightarrow> (Inl (UnsupportedSymbol symbol), s)
      | Some b \<Rightarrow>
          (case Cancel oid (clock env 0) b of
             (Inl e, b') \<Rightarrow> (Inl (BookError e), s\<lparr>ex_books := (ex_books s)(symbol \<mapsto> b')\<rparr>)
           | (Inr (c, sn), b') \<Rightarrow>
               (let s1 = s\<lparr>ex_books := (ex_books s)(symbol \<mapsto> b')\<rparr> in
                case Current (ex_engine s1) symbol (now_price env) of
                  (Inl e, en) \<Rightarrow> (Inl (EngineError e), s1\<lparr>ex_engine := en\<rparr>)
                | (Inr price, en) \<Rightarrow>
                    (let m = MarketCancel c sn price (recent_of s1 symbol);
                         s2 = publishLocked m (s1\<lparr>ex_engine := en\<rparr>);
                         s3 = snd (PutSnapshot env 0 symbol m s2);
                         s4 = snd (CachePublish env 1 (''arena.market.'' @ symbol) m s3)
                     in (Inr m, s4)))))"

section \<open>Market events\<close>

fun shock_all ::
  "env \<Rightarrow> shock_input \<Rightarrow> time \<Rightarrow> string list \<Rightarrow> exchange \<Rightarrow>
     (exchange_error + (string \<times> price_point) list) \<times> exchange" where
  "shock_all env i t0 [] s = (Inr [], s)"
| "shock_all env i t0 (symbol # rest) s =
     (case TriggerShock (ex_engine s) symbol (si_multiplier_pct i) (si_duration i) t0 (now_price env) of
        None \<Rightarrow> (Inl Panicked, s)
      | Some (Inl e, en) \<Rightarrow> (Inl (EngineError e), s\<lparr>ex_engine := en\<rparr>)
      | Some (Inr p, en) \<Rightarrow>
          if cache_on env \<and> ex_books s symbol = None then (Inl Panicked, s\<lparr>ex_engine := en\<rparr>)
          else (case shock_all env i t0 rest (s\<lparr>ex_engine := en\<rparr>) of
             (Inl e, s') \<Rightarrow> (Inl e, s')
           | (Inr ps, s') \<Rightarrow> (Inr ((symbol, p) # ps), s')))"

text \<open>The Redis mirror of an event: the books do not change while the shocks are applied, so the
  snapshots taken along the way are those of the books at the end.\<close>

fun mirror_event :: "env \<Rightarrow> nat \<Rightarrow> (string \<times> price_point) list \<Rightarrow> exchange \<Rightarrow> exchange" where
  "mirror_event env k [] s = s"
| "mirror_event env k ((symbol, p) # ps) s =
     (let sn = (case ex_books s symbol of
                  Some b \<Rightarrow> book_snapshot b 10 (clock env k)
                | None \<Rightarrow> book_snapshot (new_book [] 0) 10 (clock env k));
          m = MarketSnapshot sn p (recent_of s symbol);
          s1 = snd (PutSnapshot env (2 * k) symbol m s);
          s2 = snd (CachePublish env (2 * k + 1) (''arena.market.'' @ symbol) m s1)
      in mirror_event env (Suc k) ps s2)"

definition announce_event :: "env \<Rightarrow> market_msg \<Rightarrow> (string \<times> price_point) list \<Rightarrow> exchange \<Rightarrow> exchange" where
  "announce_event env m prices s =
     (let s1 = publishLocked m s;
          s2 = (if cache_on env then mirror_event env 0 prices s1 else s1)
      in snd (CachePublish env (2 * length prices) ''arena.events'' m s2))"

definition TriggerMarketEvent :: "env \<Rightarrow> shock_input \<Rightarrow> exchange \<Rightarrow> (exchange_error + shock_output) \<times> exchange" where
  "TriggerMarketEvent env i s =
     (let t0 = (if si_occurred_at i = zero_time then clock env 0 else si_occurred_at i) in
      if \<not> si_global i \<and> map_of (ex_tickers s) (si_symbol i) = None then (Inl (UnsupportedSymbol (si_symbol i)), s)
      else
        (let affected = (if si_global i then map fst (ex_tickers s) else [si_symbol i]) in
         case shock_all env i t0 affected s of
           (Inl e, s1) \<Rightarrow> (Inl e, s1)
         | (Inr prices, s1) \<Rightarrow>
             (let m = MarketEvent \<lparr>ev_kind = si_kind i, ev_name = si_event_name i, ev_message = si_message i,
                        ev_global = si_global i, ev_symbol = si_symbol i, ev_affected = affected,
                        ev_multiplier_pct = si_multiplier_pct i,
                        ev_duration_seconds = to_i64 (seconds (si_duration i)), ev_prices = prices,
                        ev_occurred_at = t0\<rparr>
              in (Inr \<lparr>so_json = m, so_affected = affected, so_prices = prices, so_occurred_at = t0\<rparr>,
                  announce_event env m prices s1))))"

section \<open>Reads\<close>

definition ChartSnapshot :: "env \<Rightarrow> string \<Rightarrow> int \<Rightarrow> exchange \<Rightarrow> (exchange_error + chart_snapshot) \<times> exchange" where
  "ChartSnapshot env symbol depth s =
     (case ex_books s symbol of
        None \<Rightarrow> (Inl (UnsupportedSymbol symbol), s)
      | Some b \<Rightarrow>
          (case Current (ex_engine s) symbol (now_price env) of
             (Inl e, en) \<Rightarrow> (Inl (EngineError e), s\<lparr>ex_engine := en\<rparr>)
           | (Inr price, en) \<Rightarrow>
               (Inr \<lparr>sp_symbol = symbol, sp_price = price, sp_orderbook = book_snapshot b depth (clock env 0),
                     sp_recent_trades = recent_of s symbol, sp_captured_at = now_done env\<rparr>,
                s\<lparr>ex_engine := en\<rparr>)))"

definition SnapshotJSON :: "env \<Rightarrow> string \<Rightarrow> int \<Rightarrow> exchange \<Rightarrow> (exchange_error + market_msg) \<times> exchange" where
  "SnapshotJSON env symbol depth s =
     (case ChartSnapshot env symbol depth s of
        (Inl e, s') \<Rightarrow> (Inl e, s')
      | (Inr c, s') \<Rightarrow> (Inr (MarketSnapshot (sp_orderbook c) (sp_price c) (sp_recent_trades c)), s'))"

fun price_all :: "env \<Rightarrow> string list \<Rightarrow> exchange \<Rightarrow> (exchange_error + (string \<times> price_point) list) \<times> exchange" where
  "price_all env [] s = (Inr [], s)"
| "price_all env (symbol # rest) s =
     (case Current (ex_engine s) symbol (now_price env) of
        (Inl e, en) \<Rightarrow> (Inl (EngineError e), s\<lparr>ex_engine := en\<rparr>)
      | (Inr p, en) \<Rightarrow>
          (case price_all env rest (s\<lparr>ex_engine := en\<rparr>) of
             (Inl e, s') \<Rightarrow> (Inl e, s')
           | (Inr ps, s') \<Rightarrow> (Inr ((symbol, p) # ps), s')))"

definition PriceMap :: "env \<Rightarrow> exchange \<Rightarrow> (exchange_error + (string \<times> price_point) list) \<times> exchange" where
  "PriceMap env s = price_all env (map fst (ex_tickers s)) s"

text \<open>\<^verbatim>\<open>BroadcastChat\<close>: the chat service is optional.\<close>

definition BroadcastChat ::
  "(chat_message \<Rightarrow> chat_service \<Rightarrow> (chat_error + chat_message) \<times> chat_service) \<Rightarrow> chat_message \<Rightarrow> chat_service option \<Rightarrow>
     (exchange_error + chat_error + chat_message) \<times> chat_service option" where
  "BroadcastChat broadcast m c =
     (case c of None \<Rightarrow> (Inl ChatNotConfigured, None)
      | Some svc \<Rightarrow> (case broadcast m svc of (r, svc') \<Rightarrow> (Inr r, Some svc')))"

interpretation market_feed: fanout publishLocked "\<lambda>m. m" "\<lambda>s. subscribers (ex_hub s)" 64
  by unfold_locales (simp add: publishLocked_def hub_publish_def)

end
