(* ===== verification/ExchangeProps.thy ===== *)
theory ExchangeProps
  imports Exchange
begin

text \<open>
  The invariant of the exchange, its preservation by every operation, and what a placed order,
  a cancellation and a market event change.
\<close>

section \<open>Invariant\<close>

definition exchange_inv :: "exchange \<Rightarrow> bool" where
  "exchange_inv s \<longleftrightarrow>
     (\<forall>symbol b. ex_books s symbol = Some b \<longrightarrow> book_wf b \<and> uncrossed b) \<and>
     dom (ex_books s) = fst ` set (ex_tickers s) \<and> dom (configs (ex_engine s)) = dom (ex_books s) \<and>
     engine_inv (ex_engine s) \<and> (\<forall>symbol. length (recent_of s symbol) \<le> 500) \<and> hub_ok 64 (ex_hub s)"

lemma exchange_inv_frame:
  assumes "ex_books s' = ex_books s" "ex_tickers s' = ex_tickers s" "ex_engine s' = ex_engine s"
    "ex_recent s' = ex_recent s" "hub_ok 64 (ex_hub s) \<Longrightarrow> hub_ok 64 (ex_hub s')"
  shows "exchange_inv s \<Longrightarrow> exchange_inv s'"
  using assms by (simp add: exchange_inv_def recent_of_def)

text \<open>Announcing changes only the feed and the cache log.\<close>

definition announced :: "exchange \<Rightarrow> exchange \<Rightarrow> bool" where
  "announced s s' \<longleftrightarrow>
     ex_books s' = ex_books s \<and> ex_tickers s' = ex_tickers s \<and> ex_engine s' = ex_engine s \<and>
     ex_recent s' = ex_recent s \<and> (hub_ok 64 (ex_hub s) \<longrightarrow> hub_ok 64 (ex_hub s'))"

lemma announced_refl [simp]: "announced s s"
  by (simp add: announced_def)

lemma announced_trans: "announced s s' \<Longrightarrow> announced s' s'' \<Longrightarrow> announced s s''"
  by (simp add: announced_def)

lemma announced_publish [simp]: "announced s (publishLocked m s)"
  by (simp add: announced_def publishLocked_def)

lemma announced_cache [simp]:
  "announced s (snd (cache_do env k c s))" "announced s (snd (PutSnapshot env k symbol m s))"
  "announced s (snd (CachePublish env k ch m s))"
  by (simp_all add: announced_def cache_do_def PutSnapshot_def CachePublish_def)

lemma announced_inv: "announced s s' \<Longrightarrow> exchange_inv s \<Longrightarrow> exchange_inv s'"
  by (rule exchange_inv_frame [of s' s]) (simp_all add: announced_def)

lemma announced_publish_trades: "announced s (snd (publish_trades env symbol k ts s))"
proof (induction ts arbitrary: k s)
  case (Cons t ts)
  let ?s1 = "publishLocked (MarketTrade t) s"
  obtain e s2 where c: "CachePublish env k (''arena.trades.'' @ symbol) (MarketTrade t) ?s1 = (e, s2)" by fastforce
  have "announced s s2"
    using announced_trans [OF announced_publish announced_cache(3)] c by (metis snd_conv)
  with c Cons.IH [of s2 "Suc k"] show ?case by (cases e) (auto intro: announced_trans)
qed simp

lemma announced_order: "announced s (snd (announce_order env symbol m ts s))"
proof -
  let ?s1 = "publishLocked m s"
  obtain e s2 where c: "publish_trades env symbol 0 ts ?s1 = (e, s2)" by fastforce
  have a2: "announced s s2"
    using announced_trans [OF announced_publish announced_publish_trades] c by (metis snd_conv)
  obtain e' s3 where d: "PutSnapshot env (length ts) symbol m s2 = (e', s3)" by fastforce
  have a3: "announced s s3" using announced_trans [OF a2 announced_cache(2)] d by (metis snd_conv)
  show ?thesis
    using a2 a3 announced_trans [OF a3 announced_cache(3)]
    by (cases e; cases e') (simp_all add: announce_order_def c d)
qed

lemma announced_mirror: "announced s (mirror_event env k ps s)"
proof (induction ps arbitrary: k s)
  case (Cons x ps)
  obtain symbol p where x: "x = (symbol, p)" by fastforce
  show ?case unfolding x mirror_event.simps Let_def
    by (rule announced_trans [OF announced_trans [OF announced_cache(2) announced_cache(3)] Cons.IH])
qed simp

lemma announced_event: "announced s (announce_event env m ps s)"
proof -
  have mir: "announced x (if c then mirror_event env 0 ps x else x)" for c x using announced_mirror by simp
  show ?thesis unfolding announce_event_def Let_def
    by (rule announced_trans [OF announced_trans [OF announced_publish mir] announced_cache(3)])
qed

lemma engine_step:
  assumes "exchange_inv s" "engine_inv en" "configs en = configs (ex_engine s)"
  shows "exchange_inv (s\<lparr>ex_engine := en\<rparr>)"
  using assms by (simp add: exchange_inv_def recent_of_def)

lemma books_step:
  assumes "exchange_inv s" "ex_books s symbol \<noteq> None" "book_wf b" "uncrossed b"
  shows "exchange_inv (s\<lparr>ex_books := (ex_books s)(symbol \<mapsto> b)\<rparr>)"
proof -
  have "insert symbol (dom (ex_books s)) = dom (ex_books s)" using assms(2) by auto
  then show ?thesis using assms by (auto simp: exchange_inv_def recent_of_def)
qed

lemma input_request:
  "in64 (pi_quantity i) \<Longrightarrow> request_ok (input_order env i) \<or> validate (input_order env i) \<noteq> None"
  by (auto simp: request_ok_def validate_def input_order_def split: if_splits)

lemma Apply_configs: "configs (snd (Apply e symbol ts sn t)) = configs e"
  by (simp add: Apply_def Let_def split: option.splits)

lemma Current_configs: "configs (snd (Current e symbol t)) = configs e"
  by (simp add: Current_def Let_def split: option.splits)

lemma Current_known:
  assumes "exchange_inv s" "ex_books s symbol \<noteq> None"
  shows "\<exists>p en. Current (ex_engine s) symbol t = (Inr p, en)"
proof -
  have "symbol \<in> dom (pe_state (ex_engine s))"
    using assms by (auto simp: exchange_inv_def engine_inv_def)
  then show ?thesis by (auto simp: Current_def Let_def)
qed

lemma Apply_known:
  assumes "exchange_inv s" "ex_books s symbol \<noteq> None"
  shows "\<exists>p en. Apply (ex_engine s) symbol ts sn t = (Inr p, en)"
proof -
  have "symbol \<in> dom (configs (ex_engine s))" using assms by (auto simp: exchange_inv_def)
  then show ?thesis by (auto simp: Apply_def Let_def)
qed

section \<open>Placing an order\<close>

text \<open>Only a cache that is switched on can make the announcement of an order fail.\<close>

lemma publish_trades_error:
  "fst (publish_trades env symbol k ts s) = None \<or> fst (publish_trades env symbol k ts s) = Some CacheFailed \<and> cache_on env"
  by (induction ts arbitrary: k s) (auto simp: CachePublish_def cache_do_def split: prod.splits option.splits)

lemma announce_order_error:
  "announce_order env symbol m ts s = (e, s') \<Longrightarrow> e = None \<or> e = Some CacheFailed \<and> cache_on env"
  using publish_trades_error [of env symbol 0 ts "publishLocked m s"]
  by (auto simp: announce_order_def PutSnapshot_def CachePublish_def cache_do_def split: prod.splits option.splits if_splits)

text \<open>What a call of \<open>PlaceOrder\<close> does, by cases.\<close>

lemma PlaceOrder_cases:
  assumes inv: "exchange_inv s" and q: "in64 (pi_quantity i)"
  obtains
    (unsupported) "ex_books s (pi_symbol i) = None"
      "PlaceOrder env i s = (Inl (UnsupportedSymbol (pi_symbol i)), s)"
  | (rejected) b e where "ex_books s (pi_symbol i) = Some b" "validate (input_order env i) = Some e"
      "PlaceOrder env i s = (Inl (BookError e), s)"
  | (executed) b b' p price en res s' where "ex_books s (pi_symbol i) = Some b" "request_ok (input_order env i)"
      "Place (clock env) (input_order env i) b = Some (Inr p, b')" "book_wf b'" "uncrossed b'"
      "Apply (ex_engine s) (pi_symbol i) (pr_trades p) (pr_snapshot p) (now_price env) = (Inr price, en)"
      "PlaceOrder env i s = (res, s')"
      "announced (s\<lparr>ex_books := (ex_books s)(pi_symbol i \<mapsto> b'), ex_engine := en,
          ex_recent := (ex_recent s)(pi_symbol i \<mapsto> take 500 (pr_trades p @ recent_of s (pi_symbol i)))\<rparr>) s'"
      "case res of Inl e \<Rightarrow> e = CacheFailed \<and> cache_on env
       | Inr out \<Rightarrow> po_order out = pr_order p \<and> po_trades out = pr_trades p \<and> po_resting out = pr_resting p \<and>
           po_removed out = pr_removed p \<and> po_price out = price \<and> po_orderbook out = pr_snapshot p"
proof (cases "ex_books s (pi_symbol i)")
  case None
  then show ?thesis by (intro unsupported) (simp_all add: PlaceOrder_def)
next
  case (Some b)
  then have wf: "book_wf b" "uncrossed b" using inv unfolding exchange_inv_def by blast+
  show ?thesis
  proof (cases "validate (input_order env i)")
    case (Some e)
    have "(ex_books s)(pi_symbol i \<mapsto> b) = ex_books s" using \<open>ex_books s (pi_symbol i) = Some b\<close> by auto
    then show ?thesis
      using Some \<open>ex_books s (pi_symbol i) = Some b\<close>
      by (intro rejected [of b e]) (simp_all add: PlaceOrder_def Place_def)
  next
    case None
    then have req: "request_ok (input_order env i)" using input_request [OF q, of env] by simp
    obtain p b' where p: "Place (clock env) (input_order env i) b = Some (Inr p, b')"
      by (rule Place_spec [OF wf(1) req refl])
    have wf': "book_wf b'" "uncrossed b'" using Place_preserves [OF wf _ p] req by blast+
    obtain price en where ap: "Apply (ex_engine s) (pi_symbol i) (pr_trades p) (pr_snapshot p) (now_price env) = (Inr price, en)"
      using Apply_known [OF inv] Some by blast
    let ?recent = "take 500 (pr_trades p @ recent_of s (pi_symbol i))"
    let ?s2 = "s\<lparr>ex_books := (ex_books s)(pi_symbol i \<mapsto> b'), ex_engine := en,
       ex_recent := (ex_recent s)(pi_symbol i \<mapsto> ?recent)\<rparr>"
    let ?m = "MarketUpdate (pr_order p) (pr_snapshot p) price ?recent"
    obtain e s3 where an: "announce_order env (pi_symbol i) ?m (pr_trades p) ?s2 = (e, s3)" by fastforce
    have ann: "announced ?s2 s3" using announced_order [of ?s2 env "pi_symbol i" ?m "pr_trades p"] an by simp
    note err = announce_order_error [OF an]
    have rec: "recent_of (s\<lparr>ex_books := bs\<rparr>) = recent_of s" for bs by (simp add: recent_of_def fun_eq_iff)
    let ?out = "\<lparr>po_order = pr_order p, po_orderbook = pr_snapshot p, po_price = price, po_trades = pr_trades p,
      po_resting = pr_resting p, po_removed = pr_removed p, po_json = ?m, po_occurred_at = now_done env\<rparr>"
    have po: "PlaceOrder env i s = (case e of None \<Rightarrow> Inr ?out | Some x \<Rightarrow> Inl x, s3)"
      using an by (simp add: PlaceOrder_def Some p Let_def ap rec split: option.splits)
    show ?thesis
      by (rule executed [OF Some req p wf' ap po ann]) (use err in \<open>auto split: option.splits\<close>)
  qed
qed

lemma PlaceOrder_inv:
  assumes inv: "exchange_inv s" and q: "in64 (pi_quantity i)"
  shows "exchange_inv (snd (PlaceOrder env i s))"
proof (cases rule: PlaceOrder_cases [OF inv q, of env, case_names unsupported rejected executed])
  case (executed b b' p price en res s')
  let ?s1 = "s\<lparr>ex_books := (ex_books s)(pi_symbol i \<mapsto> b')\<rparr>"
  have "exchange_inv ?s1" using books_step [OF inv] executed by simp
  moreover have "en = snd (Apply (ex_engine s) (pi_symbol i) (pr_trades p) (pr_snapshot p) (now_price env))"
    using executed(6) by simp
  then have "engine_inv en" "configs en = configs (ex_engine s)"
    using Apply_inv Apply_configs inv by (simp_all add: exchange_inv_def)
  ultimately have "exchange_inv (?s1\<lparr>ex_engine := en\<rparr>)" by (intro engine_step) simp_all
  then have "exchange_inv (?s1\<lparr>ex_engine := en, ex_recent := (ex_recent s)(pi_symbol i \<mapsto> take 500 (pr_trades p @ recent_of s (pi_symbol i)))\<rparr>)"
    by (auto simp: exchange_inv_def recent_of_def)
  with announced_inv [OF executed(8)] show ?thesis by (simp add: executed(7))
qed (use inv in simp_all)

lemma CancelOrder_inv:
  assumes inv: "exchange_inv s"
  shows "exchange_inv (snd (CancelOrder env symbol oid s))"
proof (cases "ex_books s symbol")
  case (Some b)
  then have wf: "book_wf b" "uncrossed b" using inv unfolding exchange_inv_def by blast+
  obtain r b' where c: "Cancel oid (clock env 0) b = (r, b')" by fastforce
  let ?s1 = "s\<lparr>ex_books := (ex_books s)(symbol \<mapsto> b')\<rparr>"
  have i1: "exchange_inv ?s1" using books_step [OF inv] Cancel_preserves [OF wf c] Some by simp
  obtain p en where cu: "Current (ex_engine s) symbol (now_price env) = (p, en)" by fastforce
  have en: "engine_inv en" "configs en = configs (ex_engine s)"
    using Current_inv [of "ex_engine s" symbol "now_price env"] Current_configs [of "ex_engine s" symbol "now_price env"] cu inv
    by (auto simp: exchange_inv_def)
  have i2: "exchange_inv (?s1\<lparr>ex_engine := en\<rparr>)" using engine_step [OF i1] en by simp
  have i3: "exchange_inv (snd (CachePublish env 1 ch m (snd (PutSnapshot env 0 symbol m (publishLocked m (?s1\<lparr>ex_engine := en\<rparr>))))))" for ch m
    by (rule announced_inv [OF announced_trans [OF announced_trans [OF announced_publish announced_cache(2)] announced_cache(3)] i2])
  show ?thesis
    using i1 i2 i3 by (cases r; cases p) (auto simp: CancelOrder_def Some c cu Let_def)
qed (use inv in \<open>simp add: CancelOrder_def\<close>)

lemma shock_all_inv:
  assumes "exchange_inv s" "set symbols \<subseteq> fst ` set (ex_tickers s)"
  shows "exchange_inv (snd (shock_all env i t0 symbols s)) \<and>
     (\<exists>ps. fst (shock_all env i t0 symbols s) = Inr ps \<and> map fst ps = symbols) \<and>
     ex_books (snd (shock_all env i t0 symbols s)) = ex_books s \<and>
     ex_recent (snd (shock_all env i t0 symbols s)) = ex_recent s \<and>
     ex_hub (snd (shock_all env i t0 symbols s)) = ex_hub s \<and>
     ex_tickers (snd (shock_all env i t0 symbols s)) = ex_tickers s"
  using assms
proof (induction symbols arbitrary: s)
  case (Cons symbol symbols)
  have bk: "ex_books s symbol \<noteq> None" using Cons.prems by (auto simp: exchange_inv_def)
  then have "symbol \<in> dom (configs (ex_engine s))" using Cons.prems(1) by (auto simp: exchange_inv_def)
  then obtain cfg where cfg: "configs (ex_engine s) symbol = Some cfg" by blast
  obtain m where t: "TriggerShock (ex_engine s) symbol (si_multiplier_pct i) (si_duration i) t0 (now_price env)
      = Some (Inr (ms_price m), (ex_engine s)\<lparr>pe_state := (pe_state (ex_engine s))(symbol \<mapsto> m)\<rparr>)"
    using TriggerShock_state [OF cfg] by blast
  let ?en = "(ex_engine s)\<lparr>pe_state := (pe_state (ex_engine s))(symbol \<mapsto> m)\<rparr>"
  have "exchange_inv (s\<lparr>ex_engine := ?en\<rparr>)"
    using TriggerShock_inv [OF _ t] Cons.prems(1) by (intro engine_step) (auto simp: exchange_inv_def)
  moreover have "set symbols \<subseteq> fst ` set (ex_tickers (s\<lparr>ex_engine := ?en\<rparr>))" using Cons.prems(2) by simp
  ultimately show ?case using Cons.IH bk by (force simp: t split: prod.splits sum.splits)
qed simp

lemma TriggerMarketEvent_ok:
  assumes inv: "exchange_inv s"
  shows "exchange_inv (snd (TriggerMarketEvent env i s)) \<and>
     ex_books (snd (TriggerMarketEvent env i s)) = ex_books s \<and>
     (case fst (TriggerMarketEvent env i s) of
        Inl e \<Rightarrow> \<not> si_global i \<and> e = UnsupportedSymbol (si_symbol i) \<and> si_symbol i \<notin> set (ListTickers s)
      | Inr out \<Rightarrow> so_affected out = (if si_global i then ListTickers s else [si_symbol i]) \<and>
          map fst (so_prices out) = so_affected out)"
proof (cases "\<not> si_global i \<and> map_of (ex_tickers s) (si_symbol i) = None")
  case True
  then show ?thesis using inv by (auto simp: TriggerMarketEvent_def ListTickers_def map_of_eq_None_iff)
next
  case False
  let ?t0 = "if si_occurred_at i = zero_time then clock env 0 else si_occurred_at i"
  let ?aff = "if si_global i then map fst (ex_tickers s) else [si_symbol i]"
  have sub: "set ?aff \<subseteq> fst ` set (ex_tickers s)"
    using False by (auto simp: map_of_eq_None_iff)
  from shock_all_inv [OF inv sub, of env i ?t0] obtain ps s1 where
    sh: "shock_all env i ?t0 ?aff s = (Inr ps, s1)" "exchange_inv s1" "map fst ps = ?aff" "ex_books s1 = ex_books s"
    by (metis prod.collapse fst_conv snd_conv)
  obtain out m where tm: "TriggerMarketEvent env i s = (Inr out, announce_event env m ps s1)"
    and out: "so_affected out = ?aff" "so_prices out = ps"
    using False sh(1) by (simp add: TriggerMarketEvent_def Let_def)
  have "exchange_inv (snd (TriggerMarketEvent env i s))"
    unfolding tm snd_conv by (rule announced_inv [OF announced_event sh(2)])
  moreover have "ex_books (snd (TriggerMarketEvent env i s)) = ex_books s"
    unfolding tm snd_conv using announced_event [of s1 env m ps] sh(4) by (simp only: announced_def)
  moreover have "case fst (TriggerMarketEvent env i s) of
        Inl e \<Rightarrow> \<not> si_global i \<and> e = UnsupportedSymbol (si_symbol i) \<and> si_symbol i \<notin> set (ListTickers s)
      | Inr out \<Rightarrow> so_affected out = (if si_global i then ListTickers s else [si_symbol i]) \<and>
          map fst (so_prices out) = so_affected out"
    unfolding tm fst_conv sum.case out ListTickers_def using sh(3) by simp
  ultimately show ?thesis by blast
qed

lemma ChartSnapshot_inv: "exchange_inv s \<Longrightarrow> exchange_inv (snd (ChartSnapshot env symbol depth s))"
proof -
  assume inv: "exchange_inv s"
  obtain p en where cu: "Current (ex_engine s) symbol (now_price env) = (p, en)" by fastforce
  have "engine_inv en" "configs en = configs (ex_engine s)"
    using Current_inv [of "ex_engine s" symbol "now_price env"] Current_configs [of "ex_engine s" symbol "now_price env"] cu inv
    by (auto simp: exchange_inv_def)
  with engine_step [OF inv] inv show ?thesis
    by (cases p) (auto simp: ChartSnapshot_def cu split: option.splits)
qed

lemma price_all_inv: "exchange_inv s \<Longrightarrow> exchange_inv (snd (price_all env symbols s))"
proof (induction symbols arbitrary: s)
  case (Cons symbol symbols)
  obtain p en where cu: "Current (ex_engine s) symbol (now_price env) = (p, en)" by fastforce
  have "engine_inv en" "configs en = configs (ex_engine s)"
    using Current_inv [of "ex_engine s" symbol "now_price env"] Current_configs [of "ex_engine s" symbol "now_price env"] cu Cons.prems
    by (auto simp: exchange_inv_def)
  with engine_step [OF Cons.prems] have i: "exchange_inv (s\<lparr>ex_engine := en\<rparr>)" by simp
  show ?case using i Cons.IH [OF i] by (cases p) (auto simp: cu split: prod.splits sum.splits)
qed simp

section \<open>Reachable exchanges\<close>

inductive reachable_exchange :: "exchange \<Rightarrow> bool" where
  ex_new: "reachable_exchange (NewExchange ts t0)"
| ex_place: "reachable_exchange s \<Longrightarrow> in64 (pi_quantity i) \<Longrightarrow> reachable_exchange (snd (PlaceOrder env i s))"
| ex_cancel: "reachable_exchange s \<Longrightarrow> reachable_exchange (snd (CancelOrder env symbol oid s))"
| ex_event: "reachable_exchange s \<Longrightarrow> reachable_exchange (snd (TriggerMarketEvent env shock s))"
| ex_chart: "reachable_exchange s \<Longrightarrow> reachable_exchange (snd (ChartSnapshot env symbol depth s))"
| ex_prices: "reachable_exchange s \<Longrightarrow> reachable_exchange (snd (PriceMap env s))"
| ex_subscribe: "reachable_exchange s \<Longrightarrow> reachable_exchange (snd (exchange_Subscribe s))"
| ex_disconnect: "reachable_exchange s \<Longrightarrow> reachable_exchange (exchange_disconnect i s)"

lemma NewExchange_dom:
  "dom (foldl (\<lambda>m t. m(tk_symbol t \<mapsto> new_book (tk_symbol t) (initial_price t))) m0 ts) = tk_symbol ` set ts \<union> dom m0"
proof (induction ts arbitrary: m0)
  case (Cons t ts)
  show ?case unfolding foldl_Cons Cons.IH by auto
qed simp

lemma NewExchange_ran:
  "ran m0 \<subseteq> {b. book_wf b \<and> uncrossed b} \<Longrightarrow>
   ran (foldl (\<lambda>m t. m(tk_symbol t \<mapsto> new_book (tk_symbol t) (initial_price t))) m0 ts) \<subseteq> {b. book_wf b \<and> uncrossed b}"
proof (induction ts arbitrary: m0)
  case (Cons t ts)
  show ?case unfolding foldl_Cons
    by (rule Cons.IH) (use Cons.prems in \<open>auto simp: ran_def\<close>)
qed simp

lemma NewExchange_tickers:
  "fst ` set (foldl (\<lambda>m t. AList.update (tk_symbol t) t m) al ts) = tk_symbol ` set ts \<union> fst ` set al"
  by (induction ts arbitrary: al) (auto simp: dom_update)

lemma NewPriceEngine_configs: "dom (configs (NewPriceEngine ts t0)) = tk_symbol ` set ts"
proof -
  have "dom (configs (foldl (\<lambda>e t. e\<lparr>configs := (configs e)(tk_symbol t \<mapsto> t),
      pe_state := (pe_state e)(tk_symbol t \<mapsto> initial_state t t0)\<rparr>) e ts)) = tk_symbol ` set ts \<union> dom (configs e)" for e
    by (induction ts arbitrary: e) auto
  from this [of "\<lparr>configs = Map.empty, pe_state = Map.empty\<rparr>"] show ?thesis
    unfolding NewPriceEngine_def price_engine.select_convs by simp
qed

lemma NewExchange_inv: "exchange_inv (NewExchange ts t0)"
proof -
  have "ran (ex_books (NewExchange ts t0)) \<subseteq> {b. book_wf b \<and> uncrossed b}"
    unfolding NewExchange_def exchange.select_convs by (rule NewExchange_ran) simp
  then have "\<forall>symbol b. ex_books (NewExchange ts t0) symbol = Some b \<longrightarrow> book_wf b \<and> uncrossed b"
    by (auto intro: ranI)
  moreover have "dom (ex_books (NewExchange ts t0)) = tk_symbol ` set ts"
    unfolding NewExchange_def exchange.select_convs NewExchange_dom by simp
  moreover have "fst ` set (ex_tickers (NewExchange ts t0)) = tk_symbol ` set ts"
    unfolding NewExchange_def exchange.select_convs NewExchange_tickers by simp
  moreover have "ex_engine (NewExchange ts t0) = NewPriceEngine ts t0" "ex_hub (NewExchange ts t0) = empty_hub"
    "recent_of (NewExchange ts t0) symbol = []" for symbol
    by (simp_all add: NewExchange_def recent_of_def)
  ultimately show ?thesis
    using NewPriceEngine_inv [of ts t0] by (simp add: exchange_inv_def NewPriceEngine_configs)
qed

lemma Subscribe_inv: "exchange_inv s \<Longrightarrow> exchange_inv (snd (exchange_Subscribe s))"
  unfolding exchange_inv_def exchange_Subscribe_def recent_of_def
  using hub_ok_subscribe [of 64 "ex_hub s" "fst (hub_subscribe (ex_hub s))" "snd (hub_subscribe (ex_hub s))"]
  by (auto split: prod.splits)

lemma disconnect_inv: "exchange_inv s \<Longrightarrow> exchange_inv (exchange_disconnect i s)"
  by (simp add: exchange_inv_def exchange_disconnect_def recent_of_def)

text \<open>In every reachable state of the exchange each ticker has a book and a price, every book is
  well formed and uncrossed, every price is on its grid, at most 500 recent trades are kept per
  ticker and no market feed buffer exceeds 64 messages.\<close>
theorem reachable_exchange_invariant:
  "reachable_exchange s \<Longrightarrow> exchange_inv s"
  by (induction rule: reachable_exchange.induct)
    (auto simp: NewExchange_inv PlaceOrder_inv CancelOrder_inv ChartSnapshot_inv price_all_inv PriceMap_def
      Subscribe_inv disconnect_inv dest: TriggerMarketEvent_ok)

theorem reachable_exchange_invariant_witness:
  "exchange_inv (snd (exchange_Subscribe (NewExchange [demo_ticker] 3)))"
  by (rule reachable_exchange_invariant [OF ex_subscribe [OF ex_new]])

text \<open>The result of a call and the books and trades it leaves.\<close>

lemma PlaceOrder_result:
  assumes "exchange_inv s" and "in64 (pi_quantity i)"
  shows "case PlaceOrder env i s of
      (Inr out, s') \<Rightarrow> \<exists>b p b'. ex_books s (pi_symbol i) = Some b \<and>
        Place (clock env) (input_order env i) b = Some (Inr p, b') \<and> ex_books s' = (ex_books s)(pi_symbol i \<mapsto> b') \<and>
        po_order out = pr_order p \<and> po_trades out = pr_trades p \<and> po_resting out = pr_resting p \<and>
        recent_of s' (pi_symbol i) = take 500 (pr_trades p @ recent_of s (pi_symbol i))
    | (Inl e, s') \<Rightarrow>
        (s' = s \<and> (e = UnsupportedSymbol (pi_symbol i) \<and> ex_books s (pi_symbol i) = None \<or>
                   (\<exists>be. e = BookError be \<and> validate (input_order env i) = Some be))) \<or>
        (e = CacheFailed \<and> cache_on env \<and> (\<exists>b p b'. ex_books s (pi_symbol i) = Some b \<and>
           Place (clock env) (input_order env i) b = Some (Inr p, b') \<and> ex_books s' = (ex_books s)(pi_symbol i \<mapsto> b')))"
proof (cases rule: PlaceOrder_cases [OF assms, of env, case_names unsupported rejected executed])
  case (executed b b' p price en res s')
  have "ex_books s' = (ex_books s)(pi_symbol i \<mapsto> b')"
    "recent_of s' (pi_symbol i) = take 500 (pr_trades p @ recent_of s (pi_symbol i))"
    using executed(8) by (simp_all add: announced_def recent_of_def)
  with executed(1,3,7,9) show ?thesis by (cases res) simp_all
qed simp_all

text \<open>C10: Placing an order on the exchange ends, never panics, and reports an unknown ticker or a refused
  order without changing anything. Otherwise the ticker's book executes the order as \<open>Place\<close> does,
  the newest 500 trades are remembered and no other book changes - also when the call reports
  an error, which then is a failed cache write after the order was executed.\<close>
theorem PlaceOrder_executes:
  assumes "exchange_inv s" and "in64 (pi_quantity i)"
  shows "case PlaceOrder env i s of
      (Inr out, s') \<Rightarrow> \<exists>b p b'. ex_books s (pi_symbol i) = Some b \<and>
        Place (clock env) (input_order env i) b = Some (Inr p, b') \<and> ex_books s' = (ex_books s)(pi_symbol i \<mapsto> b') \<and>
        po_order out = pr_order p \<and> po_trades out = pr_trades p \<and> po_resting out = pr_resting p \<and>
        recent_of s' (pi_symbol i) = take 500 (pr_trades p @ recent_of s (pi_symbol i))
    | (Inl e, s') \<Rightarrow>
        (s' = s \<and> (e = UnsupportedSymbol (pi_symbol i) \<and> ex_books s (pi_symbol i) = None \<or>
                   (\<exists>be. e = BookError be \<and> validate (input_order env i) = Some be))) \<or>
        (e = CacheFailed \<and> cache_on env \<and> (\<exists>b p b'. ex_books s (pi_symbol i) = Some b \<and>
           Place (clock env) (input_order env i) b = Some (Inr p, b') \<and> ex_books s' = (ex_books s)(pi_symbol i \<mapsto> b')))"
  by (rule PlaceOrder_result [OF assms])

definition demo_env :: env where
  "demo_env = \<lparr>clock = int, now_price = 5, now_done = 6, fresh_uuid = ''u'', cache_on = False, cache_fails = (\<lambda>_. False)\<rparr>"

definition demo_input :: place_input where
  "demo_input = \<lparr>pi_request_id = ''r1'', pi_player_id = ''ann'', pi_player_role = ''Buyer'', pi_symbol = ''ACME'',
     pi_side = SideBuy, pi_type = OrderTypeLimit, pi_price = 995, pi_quantity = 3\<rparr>"

lemma demo_exchange_book: "ex_books (NewExchange [demo_ticker] 3) ''ACME'' = Some (new_book ''ACME'' 1000)"
  by (simp add: NewExchange_def demo_ticker_def)

lemma demo_input_ok: "validate (input_order env demo_input) = None" "in64 (pi_quantity demo_input)"
  by (simp_all add: validate_def input_order_def demo_input_def in64_def)

theorem PlaceOrder_executes_witness:
  "\<exists>out s'. PlaceOrder demo_env demo_input (NewExchange [demo_ticker] 3) = (Inr out, s')"
proof -
  have "pi_symbol demo_input = ''ACME''" "\<not> cache_on demo_env" by (simp_all add: demo_input_def demo_env_def)
  with PlaceOrder_executes [where s = "NewExchange [demo_ticker] 3" and i = demo_input and env = demo_env, OF NewExchange_inv demo_input_ok(2)]
    demo_input_ok(1) [of demo_env] demo_exchange_book
  show ?thesis by (auto split: prod.splits sum.splits)
qed

lemma PlaceOrder_published:
  assumes "\<not> cache_on env" and "PlaceOrder env i s = (Inr out, s')"
  obtains s2 where "s' = foldl (\<lambda>s m. publishLocked m s) s2 (po_json out # map MarketTrade (po_trades out))"
    and "ex_hub s2 = ex_hub s"
proof -
  have pt: "publish_trades env symbol k ts x = (None, foldl (\<lambda>s m. publishLocked m s) x (map MarketTrade ts))" for symbol k ts x
    using assms(1) by (induction ts arbitrary: k x) (simp_all add: CachePublish_def cache_do_def)
  have an: "announce_order env symbol m ts x = (None, foldl (\<lambda>s m. publishLocked m s) x (m # map MarketTrade ts))" for symbol m ts x
    using assms(1) by (simp add: announce_order_def pt PutSnapshot_def CachePublish_def cache_do_def)
  show ?thesis
    using assms(2) that by (auto simp: PlaceOrder_def an Let_def split: option.splits prod.splits sum.splits)
qed

text \<open>An accepted order has been announced in full, with and without a cache.\<close>

lemma cache_hub: "PutSnapshot env k symbol m s = (e, s') \<Longrightarrow> ex_hub s' = ex_hub s"
  "CachePublish env k symbol m s = (e, s') \<Longrightarrow> ex_hub s' = ex_hub s"
  by (auto simp: PutSnapshot_def CachePublish_def cache_do_def split: if_splits)

lemma publish_trades_hub:
  "publish_trades env symbol k ts s = (None, s') \<Longrightarrow>
     ex_hub s' = foldl (\<lambda>h m. hub_publish 64 m h) (ex_hub s) (map MarketTrade ts)"
proof (induction ts arbitrary: k s)
  case (Cons t ts)
  then obtain s1 where "CachePublish env k (''arena.trades.'' @ symbol) (MarketTrade t) (publishLocked (MarketTrade t) s) = (None, s1)"
    "publish_trades env symbol (Suc k) ts s1 = (None, s')" by (auto split: prod.splits option.splits)
  then show ?case using Cons.IH cache_hub(2) by (fastforce simp: publishLocked_def)
qed simp

lemma PlaceOrder_hub:
  assumes "PlaceOrder env i s = (Inr out, s')"
  shows "ex_hub s' = foldl (\<lambda>h m. hub_publish 64 m h) (ex_hub s) (po_json out # map MarketTrade (po_trades out))"
proof -
  obtain m ts s2 where a: "announce_order env (pi_symbol i) m ts s2 = (None, s')" "ex_hub s2 = ex_hub s"
    "po_json out = m" "po_trades out = ts"
    using assms by (auto simp: PlaceOrder_def Let_def split: option.splits prod.splits sum.splits)
  obtain s3 s4 where "publish_trades env (pi_symbol i) 0 ts (publishLocked m s2) = (None, s3)"
    "PutSnapshot env (length ts) (pi_symbol i) m s3 = (None, s4)"
    "CachePublish env (Suc (length ts)) (''arena.market.'' @ pi_symbol i) m s4 = (None, s')"
    using a(1) by (auto simp: announce_order_def split: prod.splits option.splits)
  then show ?thesis using publish_trades_hub cache_hub a(2-4) by (fastforce simp: publishLocked_def)
qed

text \<open>Without a cache a feed subscriber sees an order as one update followed by its trades in the
  order they were made, cut only at the end of its buffer; earlier messages are kept, and an
  order never waits for a slow subscriber.\<close>
theorem PlaceOrder_feed_order:
  assumes "\<not> cache_on env" and "PlaceOrder env i s = (Inr out, s')"
    and "(sub, q) \<in> set (subscribers (ex_hub s))" and "length q \<le> 64"
  shows "(sub, q @ take (64 - length q) (po_json out # map MarketTrade (po_trades out))) \<in> set (subscribers (ex_hub s'))"
proof -
  obtain s2 where s': "s' = foldl (\<lambda>s m. publishLocked m s) s2 (po_json out # map MarketTrade (po_trades out))"
    and hub: "ex_hub s2 = ex_hub s"
    by (rule PlaceOrder_published [OF assms(1,2)])
  show ?thesis
    using market_feed.subscriber_sees [of sub q s2, where xs = "po_json out # map MarketTrade (po_trades out)"] assms(3,4)
    unfolding s' hub by simp
qed

lemma demo_place_ok:
  assumes "exchange_inv s" "ex_books s ''ACME'' \<noteq> None"
  shows "\<exists>out s'. PlaceOrder demo_env demo_input s = (Inr out, s')"
proof -
  have sy: "pi_symbol demo_input = ''ACME''" "\<not> cache_on demo_env" by (simp_all add: demo_input_def demo_env_def)
  show ?thesis
  proof (cases rule: PlaceOrder_cases [OF assms(1) demo_input_ok(2), of demo_env, case_names unsupported rejected executed])
    case (executed b b' p price en res s')
    then show ?thesis using sy by (cases res) auto
  qed (use sy assms(2) demo_input_ok(1) [of demo_env] in auto)
qed

theorem PlaceOrder_feed_order_witness:
  "\<exists>out s'. PlaceOrder demo_env demo_input (snd (exchange_Subscribe (NewExchange [demo_ticker] 3))) = (Inr out, s') \<and>
     (0, [] @ take 64 (po_json out # map MarketTrade (po_trades out))) \<in> set (subscribers (ex_hub s'))"
proof -
  let ?s = "snd (exchange_Subscribe (NewExchange [demo_ticker] 3))"
  have "ex_books ?s ''ACME'' \<noteq> None" using demo_exchange_book by (simp add: exchange_Subscribe_def split: prod.splits)
  then obtain out s' where p: "PlaceOrder demo_env demo_input ?s = (Inr out, s')"
    using demo_place_ok [OF Subscribe_inv [OF NewExchange_inv]] by blast
  moreover have "(0, []) \<in> set (subscribers (ex_hub ?s))"
    by (simp add: exchange_Subscribe_def hub_subscribe_def NewExchange_def empty_hub_def)
  ultimately show ?thesis
    using PlaceOrder_feed_order [OF _ p, of 0 "[]"] by (simp add: demo_env_def)
qed

text \<open>A cancellation removes exactly the first order with the identifier from the ticker's book, or
  reports an error and leaves every book as it was; other tickers' books never change.\<close>
theorem CancelOrder_removes:
  assumes "exchange_inv s" and "ex_books s symbol = Some b"
  shows "case CancelOrder env symbol oid s of
      (Inr m, s') \<Rightarrow> \<exists>c sn b' price. Cancel oid (clock env 0) b = (Inr (c, sn), b') \<and> o_id c = oid \<and>
        ex_books s' = (ex_books s)(symbol \<mapsto> b') \<and> m = MarketCancel c sn price (recent_of s symbol)
    | (Inl e, s') \<Rightarrow> s' = s \<and> e = BookError (OrderNotFound oid) \<and> oid \<notin> o_id ` set (bid_queue b @ ask_queue b)"
proof -
  have wf: "book_wf b" using assms unfolding exchange_inv_def by blast
  have upd: "(ex_books s)(symbol \<mapsto> b) = ex_books s" using assms(2) by auto
  obtain r b' where c: "Cancel oid (clock env 0) b = (r, b')" by fastforce
  show ?thesis
  proof (cases r)
    case (Inl e)
    have "cancel_in_level oid (bid_queue b) = None" "cancel_in_level oid (ask_queue b) = None"
      using Cancel_spec [OF wf, of oid "clock env 0"] c Inl by (auto split: option.splits prod.splits)
    with Cancel_spec [OF wf, of oid "clock env 0"] c Inl show ?thesis
      by (auto simp: CancelOrder_def assms(2) upd cancel_in_level_None)
  next
    case (Inr x)
    obtain q sn where x: "x = (q, sn)" by fastforce
    have "o_id q = oid"
      using Cancel_spec [OF wf, of oid "clock env 0"] c Inr x
      by (auto split: option.splits prod.splits dest!: cancel_in_level_Some)
    obtain p en where cu: "Current (ex_engine s) symbol (now_price env) = (Inr p, en)"
      using Current_known [OF assms(1), of symbol] assms(2) by blast
    let ?s1 = "s\<lparr>ex_books := (ex_books s)(symbol \<mapsto> b'), ex_engine := en\<rparr>"
    have "announced ?s1 (snd (CachePublish env 1 ch m (snd (PutSnapshot env 0 symbol m (publishLocked m ?s1)))))" for ch m
      by (rule announced_trans [OF announced_trans [OF announced_publish announced_cache(2)] announced_cache(3)])
    then have bk: "ex_books (snd (CachePublish env 1 ch m (snd (PutSnapshot env 0 symbol m (publishLocked m ?s1)))))
        = (ex_books s)(symbol \<mapsto> b')" for ch m by (simp add: announced_def)
    show ?thesis
      using \<open>o_id q = oid\<close> Inr x bk by (simp add: CancelOrder_def assms(2) c cu Let_def recent_of_def)
  qed
qed

theorem CancelOrder_removes_witness:
  "fst (CancelOrder demo_env ''ACME'' ''zz'' (NewExchange [demo_ticker] 3)) = Inl (BookError (OrderNotFound ''zz''))"
  using CancelOrder_removes [OF NewExchange_inv demo_exchange_book, where env = demo_env and oid = "''zz''"]
  by (auto split: prod.splits sum.splits) (simp_all add: Cancel_def new_book_def)

text \<open>A market event shocks every ticker when it is global and its own ticker otherwise, reports one
  price for each, fails only for an unknown ticker, never panics, and leaves every book alone.\<close>
theorem TriggerMarketEvent_affects:
  assumes "exchange_inv s"
  shows "exchange_inv (snd (TriggerMarketEvent env i s)) \<and> ex_books (snd (TriggerMarketEvent env i s)) = ex_books s \<and>
     (case fst (TriggerMarketEvent env i s) of
        Inl e \<Rightarrow> \<not> si_global i \<and> e = UnsupportedSymbol (si_symbol i) \<and> si_symbol i \<notin> set (ListTickers s)
      | Inr out \<Rightarrow> so_affected out = (if si_global i then ListTickers s else [si_symbol i]) \<and>
          map fst (so_prices out) = so_affected out)"
  by (rule TriggerMarketEvent_ok [OF assms])

theorem TriggerMarketEvent_affects_witness:
  "exchange_inv (snd (TriggerMarketEvent demo_env \<lparr>si_kind = ''crash'', si_event_name = ''x'', si_message = [], si_global = True,
     si_symbol = [], si_multiplier_pct = - 20, si_duration = second, si_occurred_at = 9\<rparr> (NewExchange [demo_ticker] 3)))"
  using TriggerMarketEvent_affects [OF NewExchange_inv] by blast

end
