(* ===== verification/Accounts.thy ===== *)
theory Accounts
  imports Stores Exchange
begin

text \<open>
  Accounting of the gameplay engine (\<^verbatim>\<open>internal/gameplay/engine.go\<close>): charges, position lots,
  reservations of cash and stock, the settlement of a trade and the bookkeeping of open orders.

  The code settles trades on copies of the players it has touched, held by pointer in a map from
  player identifiers: \<open>ac_touched\<close>. A write to a player is a write to that map, so a player who
  trades with themself is one entry. \<open>ac_incoming\<close> is the order being placed.
\<close>

section \<open>Charges\<close>

definition exchangeFeeBps :: int where "exchangeFeeBps = 10"
definition marketOrderSurchargeBps :: int where "marketOrderSurchargeBps = 15"
definition rapidFlipTaxBps :: int where "rapidFlipTaxBps = 35"
definition rapidFlipWindow :: duration where "rapidFlipWindow = 5 * minute"

definition bpsCharge :: "int \<Rightarrow> int \<Rightarrow> int" where
  "bpsCharge amount bps =
     (if amount \<le> 0 \<or> bps \<le> 0 then 0 else quot64 (add64 (mul64 amount bps) 9999) 10000)"

definition estimateExchangeFee :: "int \<Rightarrow> int" where
  "estimateExchangeFee notional = bpsCharge notional exchangeFeeBps"

definition estimateMarketSurcharge :: "int \<Rightarrow> int" where
  "estimateMarketSurcharge notional = bpsCharge notional marketOrderSurchargeBps"

definition estimateRapidFlipTax :: "int \<Rightarrow> int" where
  "estimateRapidFlipTax notional = bpsCharge notional rapidFlipTaxBps"

definition buyReservationTarget :: "int \<Rightarrow> int \<Rightarrow> order_type \<Rightarrow> int" where
  "buyReservationTarget price qty kind =
     (if price \<le> 0 \<or> qty \<le> 0 then 0
      else (let notional = mul64 price qty;
                debit = add64 notional (estimateExchangeFee notional)
            in if kind = OrderTypeMarket then add64 debit (estimateMarketSurcharge notional) else debit))"

section \<open>Position lots\<close>

definition lots_of :: "player \<Rightarrow> string \<Rightarrow> position_lot list" where
  "lots_of p symbol = (case p_lots p symbol of None \<Rightarrow> [] | Some ls \<Rightarrow> ls)"

definition addAcquiredLot :: "string \<Rightarrow> int \<Rightarrow> int \<Rightarrow> time \<Rightarrow> player \<Rightarrow> player" where
  "addAcquiredLot symbol qty price acquired p =
     (if qty \<le> 0 then p
      else p\<lparr>p_lots := (p_lots p)(symbol \<mapsto> lots_of p symbol @
               [\<lparr>lot_quantity = qty, lot_price = price, lot_acquired_at = acquired\<rparr>])\<rparr>)"

text \<open>The loop of \<^verbatim>\<open>consumeLotsForSale\<close>: the lots kept and the taxable quantity. The write index of the
  code never passes its read index.\<close>

fun consume_lots :: "time \<Rightarrow> int \<Rightarrow> int \<Rightarrow> position_lot list \<Rightarrow> position_lot list \<times> int" where
  "consume_lots now remaining taxable [] = ([], taxable)"
| "consume_lots now remaining taxable (l # ls) =
     (if remaining \<le> 0
      then (case consume_lots now remaining taxable ls of (kept, t) \<Rightarrow> (l # kept, t))
      else (let consume = min64 remaining (lot_quantity l);
                taxable' = (if time_sub now (lot_acquired_at l) \<le> rapidFlipWindow
                            then add64 taxable consume else taxable);
                l' = l\<lparr>lot_quantity := sub64 (lot_quantity l) consume\<rparr>
            in case consume_lots now (sub64 remaining consume) taxable' ls of
                 (kept, t) \<Rightarrow> (if lot_quantity l' > 0 then l' # kept else kept, t)))"

definition consumeLotsForSale :: "string \<Rightarrow> int \<Rightarrow> time \<Rightarrow> player \<Rightarrow> int \<times> player" where
  "consumeLotsForSale symbol qty now p =
     (if qty \<le> 0 \<or> lots_of p symbol = [] then (0, p)
      else (case consume_lots now qty 0 (lots_of p symbol) of
              (kept, taxable) \<Rightarrow>
                (taxable, p\<lparr>p_lots := (p_lots p)(symbol := (if kept = [] then None else Some kept))\<rparr>)))"

definition rapidFlipExposure :: "player \<Rightarrow> string \<Rightarrow> time \<Rightarrow> int" where
  "rapidFlipExposure p symbol now =
     foldl (\<lambda>q l. if time_sub now (lot_acquired_at l) \<le> rapidFlipWindow then add64 q (lot_quantity l) else q)
       0 (lots_of p symbol)"

section \<open>Reservations\<close>

record open_order =
  oo_order :: order
  oo_reserved_cash :: int
  oo_reserved_quantity :: int

datatype account_error =
    AccountPlayerNotFound string | InsufficientCash int int | InsufficientStock string int int
  | ReserveUnsupportedSide side | ReserveMarketError exchange_error

definition clamp0 :: "int \<Rightarrow> int" where
  "clamp0 x = (if x < 0 then 0 else x)"

definition stock :: "player \<Rightarrow> string \<Rightarrow> int" where "stock p s = getz (p_portfolio p) s"
definition reserved_stock :: "player \<Rightarrow> string \<Rightarrow> int" where "reserved_stock p s = getz (p_reserved_stocks p) s"

definition set_stock :: "string \<Rightarrow> int \<Rightarrow> player \<Rightarrow> player" where
  "set_stock s v p = p\<lparr>p_portfolio := (p_portfolio p)(s \<mapsto> v)\<rparr>"

definition set_reserved_stock :: "string \<Rightarrow> int \<Rightarrow> player \<Rightarrow> player" where
  "set_reserved_stock s v p = p\<lparr>p_reserved_stocks := (p_reserved_stocks p)(s \<mapsto> v)\<rparr>"

text \<open>\<open>market_price\<close> is what \<^verbatim>\<open>ChartSnapshot(symbol, 1)\<close> gives when the order has no price.\<close>

definition reserve_price :: "order_type \<Rightarrow> int \<Rightarrow> int" where
  "reserve_price kind price =
     (if kind = OrderTypeMarket then to_i64 (fmul (of_i64 price) (rnd (5 / 4))) else price)"

definition reserve_amount :: "order_type \<Rightarrow> int \<Rightarrow> int \<Rightarrow> int" where
  "reserve_amount kind price qty =
     (let notional = mul64 (reserve_price kind price) qty;
          r = add64 notional (estimateExchangeFee notional)
      in if kind = OrderTypeMarket then add64 r (estimateMarketSurcharge notional) else r)"

definition reserveForIncoming ::
  "(exchange_error + int) \<Rightarrow> player \<Rightarrow> string \<Rightarrow> side \<Rightarrow> order_type \<Rightarrow> int \<Rightarrow> int \<Rightarrow>
     account_error + (int \<times> int \<times> player)" where
  "reserveForIncoming market_price p symbol sd kind price qty =
     (case sd of
        SideBuy \<Rightarrow>
          (case (if price \<le> 0
                 then (case market_price of Inl e \<Rightarrow> Inl e | Inr cp \<Rightarrow> Inr (if cp \<le> 0 then 100 else cp))
                 else Inr price) of
             Inl e \<Rightarrow> Inl (ReserveMarketError e)
           | Inr rp \<Rightarrow>
               (let reserve = reserve_amount kind rp qty;
                    available = sub64 (p_cash p) (p_reserved_cash p)
                in if available < reserve then Inl (InsufficientCash reserve available)
                   else Inr (reserve, 0, p\<lparr>p_reserved_cash := add64 (p_reserved_cash p) reserve\<rparr>)))
      | SideSell \<Rightarrow>
          (let available = sub64 (stock p symbol) (reserved_stock p symbol) in
           if available < qty then Inl (InsufficientStock symbol qty available)
           else Inr (0, qty, set_reserved_stock symbol (add64 (reserved_stock p symbol) qty) p))
      | SideOther x \<Rightarrow> Inl (ReserveUnsupportedSide (SideOther x)))"

definition release_cash :: "int \<Rightarrow> player \<Rightarrow> player" where
  "release_cash amount p = p\<lparr>p_reserved_cash := clamp0 (sub64 (p_reserved_cash p) amount)\<rparr>"

definition release_stock :: "string \<Rightarrow> int \<Rightarrow> player \<Rightarrow> player" where
  "release_stock symbol qty p = set_reserved_stock symbol (clamp0 (sub64 (reserved_stock p symbol) qty)) p"

definition releaseIncomingReservation :: "string \<Rightarrow> side \<Rightarrow> int \<Rightarrow> int \<Rightarrow> player \<Rightarrow> player" where
  "releaseIncomingReservation symbol sd cash qty p =
     (case sd of SideBuy \<Rightarrow> release_cash cash p | SideSell \<Rightarrow> release_stock symbol qty p | SideOther _ \<Rightarrow> p)"

section \<open>Settlement\<close>

record accounts =
  ac_store :: player_store
  ac_touched :: "(string \<times> player) list"
  ac_orders :: "string \<rightharpoonup> open_order"
  ac_incoming :: open_order
  ac_touched_orders :: "string list"

definition getTouchedPlayer :: "string \<Rightarrow> accounts \<Rightarrow> (account_error + player) \<times> accounts" where
  "getTouchedPlayer pid a =
     (case map_of (ac_touched a) pid of
        Some p \<Rightarrow> (Inr p, a)
      | None \<Rightarrow>
          (case PlayerStore_GetByPlayerID pid (ac_store a) of
             None \<Rightarrow> (Inl (AccountPlayerNotFound pid), a)
           | Some p \<Rightarrow> (Inr p, a\<lparr>ac_touched := AList.update pid p (ac_touched a)\<rparr>)))"

text \<open>A write through the pointer of a touched player.\<close>

definition on_player :: "string \<Rightarrow> (player \<Rightarrow> player) \<Rightarrow> accounts \<Rightarrow> accounts" where
  "on_player pid f a =
     (case map_of (ac_touched a) pid of None \<Rightarrow> a
      | Some p \<Rightarrow> a\<lparr>ac_touched := AList.update pid (f p) (ac_touched a)\<rparr>)"

definition on_order :: "string \<Rightarrow> (open_order \<Rightarrow> open_order) \<Rightarrow> accounts \<Rightarrow> accounts" where
  "on_order oid f a =
     (case ac_orders a oid of None \<Rightarrow> a | Some oo \<Rightarrow> a\<lparr>ac_orders := (ac_orders a)(oid \<mapsto> f oo)\<rparr>)"

definition touch_order :: "string \<Rightarrow> accounts \<Rightarrow> accounts" where
  "touch_order oid a = a\<lparr>ac_touched_orders := List.insert oid (ac_touched_orders a)\<rparr>"

definition buyer_pays :: "trade \<Rightarrow> int \<Rightarrow> player \<Rightarrow> player" where
  "buyer_pays t debit p =
     addAcquiredLot (t_symbol t) (t_quantity t) (t_price t) (t_executed_at t)
       (set_stock (t_symbol t) (add64 (stock p (t_symbol t)) (t_quantity t))
         (p\<lparr>p_cash := sub64 (p_cash p) debit\<rparr>))"

definition spend_order_cash :: "int \<Rightarrow> open_order \<Rightarrow> open_order" where
  "spend_order_cash debit oo = oo\<lparr>oo_reserved_cash := clamp0 (sub64 (oo_reserved_cash oo) debit)\<rparr>"

definition spend_order_stock :: "int \<Rightarrow> open_order \<Rightarrow> open_order" where
  "spend_order_stock qty oo = oo\<lparr>oo_reserved_quantity := clamp0 (sub64 (oo_reserved_quantity oo) qty)\<rparr>"

definition fill_open :: "int \<Rightarrow> open_order \<Rightarrow> open_order" where
  "fill_open qty oo = oo\<lparr>oo_order := (oo_order oo)\<lparr>o_remaining := sub64 (o_remaining (oo_order oo)) qty\<rparr>\<rparr>"

definition settle_buyer :: "trade \<Rightarrow> string \<Rightarrow> int \<Rightarrow> accounts \<Rightarrow> accounts" where
  "settle_buyer t incoming_id debit a =
     (let a1 = on_player (t_buyer_id t) (buyer_pays t debit) a in
      if t_buy_order_id t = incoming_id
      then (let a2 = on_player (t_buyer_id t) (release_cash debit) a1
            in a2\<lparr>ac_incoming := spend_order_cash debit (ac_incoming a2)\<rparr>)
      else if ac_orders a1 (t_buy_order_id t) \<noteq> None
      then touch_order (t_buy_order_id t)
             (on_player (t_buyer_id t) (release_cash debit)
               (on_order (t_buy_order_id t) (spend_order_cash debit \<circ> fill_open (t_quantity t)) a1))
      else a1)"

definition seller_gets :: "trade \<Rightarrow> int \<Rightarrow> player \<Rightarrow> player" where
  "seller_gets t proceeds p =
     set_stock (t_symbol t) (clamp0 (sub64 (stock p (t_symbol t)) (t_quantity t)))
       (p\<lparr>p_cash := add64 (p_cash p) proceeds\<rparr>)"

definition settle_seller :: "trade \<Rightarrow> string \<Rightarrow> int \<Rightarrow> accounts \<Rightarrow> accounts" where
  "settle_seller t incoming_id proceeds a =
     (let a1 = on_player (t_seller_id t) (seller_gets t proceeds) a in
      if t_sell_order_id t = incoming_id
      then (let a2 = on_player (t_seller_id t) (release_stock (t_symbol t) (t_quantity t)) a1
            in a2\<lparr>ac_incoming := spend_order_stock (t_quantity t) (ac_incoming a2)\<rparr>)
      else if ac_orders a1 (t_sell_order_id t) \<noteq> None
      then touch_order (t_sell_order_id t)
             (on_player (t_seller_id t) (release_stock (t_symbol t) (t_quantity t))
               (on_order (t_sell_order_id t) (spend_order_stock (t_quantity t) \<circ> fill_open (t_quantity t)) a1))
      else a1)"

definition surcharge_for :: "string \<Rightarrow> string \<Rightarrow> open_order \<Rightarrow> int \<Rightarrow> int" where
  "surcharge_for oid incoming_id incoming cost =
     (if oid = incoming_id \<and> o_type (oo_order incoming) = OrderTypeMarket then estimateMarketSurcharge cost else 0)"

definition applyTrade :: "trade \<Rightarrow> string \<Rightarrow> accounts \<Rightarrow> account_error option \<times> accounts" where
  "applyTrade t incoming_id a =
     (let cost = mul64 (t_price t) (t_quantity t) in
      case getTouchedPlayer (t_buyer_id t) a of
        (Inl e, a1) \<Rightarrow> (Some e, a1)
      | (Inr _, a1) \<Rightarrow>
          (case getTouchedPlayer (t_seller_id t) a1 of
             (Inl e, a2) \<Rightarrow> (Some e, a2)
           | (Inr seller, a2) \<Rightarrow>
               (let fee = estimateExchangeFee cost;
                    buyerSurcharge = surcharge_for (t_buy_order_id t) incoming_id (ac_incoming a2) cost;
                    sellerSurcharge = surcharge_for (t_sell_order_id t) incoming_id (ac_incoming a2) cost;
                    (flip, seller') = consumeLotsForSale (t_symbol t) (t_quantity t) (t_executed_at t) seller;
                    tax = estimateRapidFlipTax (mul64 (t_price t) flip);
                    a3 = on_player (t_seller_id t) (\<lambda>_. seller') a2;
                    a4 = settle_buyer t incoming_id (add64 (add64 cost fee) buyerSurcharge) a3;
                    a5 = settle_seller t incoming_id (sub64 (sub64 (sub64 cost fee) sellerSurcharge) tax) a4
                in (None, a5))))"

section \<open>Open orders\<close>

definition finalizeRestingReservation :: "string \<Rightarrow> side \<Rightarrow> string \<Rightarrow> accounts \<Rightarrow> accounts" where
  "finalizeRestingReservation symbol sd pid a =
     (let oo = ac_incoming a in
      case sd of
        SideBuy \<Rightarrow>
          (let target = mul64 (o_price (oo_order oo)) (o_remaining (oo_order oo)) in
           if oo_reserved_cash oo > target
           then (on_player pid (release_cash (sub64 (oo_reserved_cash oo) target)) a)
                  \<lparr>ac_incoming := oo\<lparr>oo_reserved_cash := target\<rparr>\<rparr>
           else a)
      | SideSell \<Rightarrow>
          (let target = o_remaining (oo_order oo) in
           if oo_reserved_quantity oo > target
           then (on_player pid (release_stock symbol (sub64 (oo_reserved_quantity oo) target)) a)
                  \<lparr>ac_incoming := oo\<lparr>oo_reserved_quantity := target\<rparr>\<rparr>
           else a)
      | SideOther _ \<Rightarrow> a)"

definition cleanupOpenOrder :: "string \<Rightarrow> accounts \<Rightarrow> accounts" where
  "cleanupOpenOrder oid a =
     (case ac_orders a oid of
        None \<Rightarrow> a
      | Some oo \<Rightarrow>
          (let pid = o_player_id (oo_order oo);
               a2 = (case getTouchedPlayer pid a of
                       (Inl _, a1) \<Rightarrow> a1
                     | (Inr _, a1) \<Rightarrow>
                         (let b = (if oo_reserved_cash oo > 0 then on_player pid (release_cash (oo_reserved_cash oo)) a1 else a1)
                          in if oo_reserved_quantity oo > 0
                             then on_player pid (release_stock (o_symbol (oo_order oo)) (oo_reserved_quantity oo)) b
                             else b))
           in a2\<lparr>ac_orders := (ac_orders a2)(oid := None)\<rparr>))"

definition normalizeOpenOrder :: "string \<Rightarrow> accounts \<Rightarrow> accounts" where
  "normalizeOpenOrder oid a =
     (case ac_orders a oid of
        None \<Rightarrow> a
      | Some oo \<Rightarrow>
          (let pid = o_player_id (oo_order oo) in
           case getTouchedPlayer pid a of
             (Inl _, a1) \<Rightarrow> a1
           | (Inr _, a1) \<Rightarrow>
               (if o_remaining (oo_order oo) \<le> 0 then cleanupOpenOrder oid a1
                else if o_side (oo_order oo) = SideBuy
                then (let target = mul64 (o_price (oo_order oo)) (o_remaining (oo_order oo)) in
                      if oo_reserved_cash oo > target
                      then on_order oid (\<lambda>oo. oo\<lparr>oo_reserved_cash := target\<rparr>)
                             (on_player pid (release_cash (sub64 (oo_reserved_cash oo) target)) a1)
                      else a1)
                else (let target = o_remaining (oo_order oo) in
                      if oo_reserved_quantity oo > target
                      then on_order oid (\<lambda>oo. oo\<lparr>oo_reserved_quantity := target\<rparr>)
                             (on_player pid (release_stock (o_symbol (oo_order oo)) (sub64 (oo_reserved_quantity oo) target)) a1)
                      else a1))))"

end
