(* ===== verification/AccountProps.thy ===== *)
theory AccountProps
  imports Accounts StoreProps
begin

text \<open>
  Facts about charges, lots, reservations and settlement. The order of the theorems follows a
  trade: what is reserved, what the fill takes, what the lots record, what is released.
\<close>

section \<open>Charges round up\<close>

text \<open>A charge in basis points is the exact fraction of the amount rounded up to a whole unit, for
  every amount whose product with the rate fits in 64 bits; it is positive for a positive amount
  and grows with it.\<close>
theorem bpsCharge_rounds_up:
  assumes "0 < amount" and "0 < bps" and "amount * bps + 9999 < 2 ^ 63"
  shows "amount * bps \<le> 10000 * bpsCharge amount bps \<and> 10000 * bpsCharge amount bps < amount * bps + 10000 \<and>
     0 < bpsCharge amount bps"
proof -
  have pos: "0 < amount * bps" using assms(1,2) by simp
  have r: "in64 (amount * bps)" "in64 (amount * bps + 9999)" using pos assms(3) by (simp_all add: in64_def)
  have c: "bpsCharge amount bps = (amount * bps + 9999) div 10000"
    using assms(1,2) pos r by (simp add: bpsCharge_def int64_simps)
  show ?thesis unfolding c using pos by linarith
qed

theorem bpsCharge_rounds_up_witness: "12345 * 10 \<le> 10000 * bpsCharge 12345 10 \<and> 0 < bpsCharge 12345 10"
  using bpsCharge_rounds_up [of 12345 10] by simp

section \<open>Lots are consumed first in, first out\<close>

definition fresh :: "time \<Rightarrow> int \<times> time \<Rightarrow> bool" where
  "fresh now u \<longleftrightarrow> time_sub now (snd u) \<le> rapidFlipWindow"

text \<open>A lot as its single units, oldest lot first.\<close>

definition units :: "position_lot list \<Rightarrow> (int \<times> time) list" where
  "units ls = concat (map (\<lambda>l. replicate (nat (lot_quantity l)) (lot_price l, lot_acquired_at l)) ls)"

definition lots_ok :: "position_lot list \<Rightarrow> bool" where
  "lots_ok ls \<longleftrightarrow> (\<forall>l \<in> set ls. 0 < lot_quantity l) \<and> sum_list (map lot_quantity ls) < 2 ^ 63"

lemma consume_lots_nothing: "r \<le> 0 \<Longrightarrow> consume_lots now r t ls = (ls, t)"
  by (induction ls) auto

lemma lots_ok_Cons: "lots_ok (l # ls) \<Longrightarrow> lots_ok ls \<and> 0 < lot_quantity l \<and> lot_quantity l + sum_list (map lot_quantity ls) < 2 ^ 63 \<and>
    0 \<le> sum_list (map lot_quantity ls)"
  unfolding lots_ok_def by (auto intro!: sum_list_nonneg simp: less_imp_le)

text \<open>Taking \<open>r\<close> units takes \<open>min r\<close> of the first lot, and what is left to take from the other lots.\<close>

lemma units_take_lot:
  assumes "0 < lot_quantity l" "0 < r" and c: "c = min r (lot_quantity l)"
  shows "drop (nat r) (units (l # ls)) =
      units (if 0 < lot_quantity l - c then [l\<lparr>lot_quantity := lot_quantity l - c\<rparr>] else []) @ drop (nat (r - c)) (units ls)"
    and "int (length (filter f (take (nat r) (units (l # ls))))) =
      (if f (lot_price l, lot_acquired_at l) then c else 0) + int (length (filter f (take (nat (r - c)) (units ls))))"
proof -
  have "nat r = nat c + nat (r - c)" using assms by (simp add: nat_add_distrib [symmetric])
  moreover have "r - c = 0 \<or> c = lot_quantity l" using c by auto
  ultimately show "drop (nat r) (units (l # ls)) =
      units (if 0 < lot_quantity l - c then [l\<lparr>lot_quantity := lot_quantity l - c\<rparr>] else []) @ drop (nat (r - c)) (units ls)"
    and "int (length (filter f (take (nat r) (units (l # ls))))) =
      (if f (lot_price l, lot_acquired_at l) then c else 0) + int (length (filter f (take (nat (r - c)) (units ls))))"
    using assms by (auto simp: units_def filter_replicate nat_diff_distrib min_def)
qed

lemma consume_lots_units:
  assumes "lots_ok ls" "0 \<le> r" "0 \<le> t" "t + sum_list (map lot_quantity ls) < 2 ^ 63" "r < 2 ^ 63"
    and "consume_lots now r t ls = (kept, t')"
  shows "units kept = drop (nat r) (units ls) \<and> t' = t + int (length (filter (fresh now) (take (nat r) (units ls)))) \<and>
     (\<forall>l \<in> set kept. 0 < lot_quantity l)"
  using assms
proof (induction ls arbitrary: r t kept t')
  case (Cons l ls)
  note ok = lots_ok_Cons [OF Cons.prems(1)]
  show ?case
  proof (cases "r \<le> 0")
    case True
    with Cons.prems have "r = 0" by simp
    then show ?thesis using Cons.prems consume_lots_nothing [of 0 now t ls] ok by (auto simp: lots_ok_def)
  next
    case False
    let ?c = "min r (lot_quantity l)" and ?u = "(lot_price l, lot_acquired_at l)"
    let ?t = "if time_sub now (lot_acquired_at l) \<le> rapidFlipWindow then add64 t ?c else t"
    have c: "0 < ?c" "?c \<le> r" "?c \<le> lot_quantity l" using False ok by auto
    have t: "?t = t + (if fresh now ?u then ?c else 0)"
    proof -
      have "t + (lot_quantity l + sum_list (map lot_quantity ls)) < 2 ^ 63" using Cons.prems(4) by simp
      then have "t + lot_quantity l < 2 ^ 63" using ok by linarith
      then have "in64 (t + ?c)" using c Cons.prems(3) unfolding in64_def by linarith
      then show ?thesis by (simp add: fresh_def int64_simps)
    qed
    have subs: "sub64 r ?c = r - ?c" "sub64 (lot_quantity l) ?c = lot_quantity l - ?c"
      using c Cons.prems(5) ok by (auto intro!: sub64_range simp: in64_def)
    obtain k t1 where rec: "consume_lots now (r - ?c) ?t ls = (k, t1)" by fastforce
    have ih: "units k = drop (nat (r - ?c)) (units ls) \<and>
        t1 = ?t + int (length (filter (fresh now) (take (nat (r - ?c)) (units ls)))) \<and> (\<forall>l \<in> set k. 0 < lot_quantity l)"
      by (rule Cons.IH [OF _ _ _ _ _ rec]) (use ok c t Cons.prems in auto)
    have res: "kept = (if lot_quantity l - ?c > 0 then l\<lparr>lot_quantity := lot_quantity l - ?c\<rparr> # k else k)" "t' = t1"
      using Cons.prems(6) False rec subs by (auto simp: Let_def split: if_splits)
    have un: "units (l # ls) = units [l] @ units ls" for l ls by (simp add: units_def)
    have pos: "0 < lot_quantity l" "0 < r" using ok False by simp_all
    show ?thesis
      unfolding units_take_lot [OF pos refl] res(2) conjunct1 [OF conjunct2 [OF ih]] t
      using ih ok un [of "l\<lparr>lot_quantity := lot_quantity l - ?c\<rparr>" k] by (auto simp: res(1) units_def)
  qed
qed (simp add: units_def)

lemma consumeLots_fifo:
  assumes "lots_ok (lots_of p symbol)" and "0 \<le> qty" and "qty < 2 ^ 63"
    and "consumeLotsForSale symbol qty now p = (taxable, p')"
  shows "units (lots_of p' symbol) = drop (nat qty) (units (lots_of p symbol)) \<and>
     taxable = int (length (filter (fresh now) (take (nat qty) (units (lots_of p symbol))))) \<and>
     lots_ok (lots_of p' symbol) \<and> (\<forall>s. s \<noteq> symbol \<longrightarrow> lots_of p' s = lots_of p s) \<and> p_cash p' = p_cash p"
proof (cases "qty \<le> 0 \<or> lots_of p symbol = []")
  case True
  then show ?thesis using assms by (auto simp: consumeLotsForSale_def units_def)
next
  case False
  obtain kept t where c: "consume_lots now qty 0 (lots_of p symbol) = (kept, t)" by fastforce
  have U: "units kept = drop (nat qty) (units (lots_of p symbol)) \<and>
      t = 0 + int (length (filter (fresh now) (take (nat qty) (units (lots_of p symbol))))) \<and> (\<forall>l \<in> set kept. 0 < lot_quantity l)"
    by (rule consume_lots_units [OF assms(1,2) _ _ assms(3) c]) (use assms(1) in \<open>auto simp: lots_ok_def\<close>)
  have len: "int (length (units ls)) = sum_list (map lot_quantity ls)" if "\<forall>l \<in> set ls. 0 < lot_quantity l" for ls
    using that by (induction ls) (auto simp: units_def)
  have "lots_ok kept"
    using len [of kept] len [of "lots_of p symbol"] U assms(1) by (auto simp: lots_ok_def)
  with U c False assms(4) show ?thesis by (auto simp: consumeLotsForSale_def lots_of_def)
qed

text \<open>Selling consumes a position first in, first out: the units left are the units held without
  the oldest ones sold, and the taxable quantity is the number of sold units acquired within the
  rapid-flip window.\<close>
theorem consumeLotsForSale_fifo:
  assumes "lots_ok (lots_of p symbol)" and "0 \<le> qty" and "qty < 2 ^ 63"
    and "consumeLotsForSale symbol qty now p = (taxable, p')"
  shows "units (lots_of p' symbol) = drop (nat qty) (units (lots_of p symbol)) \<and>
     taxable = int (length (filter (fresh now) (take (nat qty) (units (lots_of p symbol))))) \<and>
     lots_ok (lots_of p' symbol) \<and> (\<forall>s. s \<noteq> symbol \<longrightarrow> lots_of p' s = lots_of p s) \<and> p_cash p' = p_cash p"
  using assms by (rule consumeLots_fifo)

definition demo_holder :: player where
  "demo_holder = (demo_player ''bob'' 50)\<lparr>p_lots := [''ACME'' \<mapsto> [\<lparr>lot_quantity = 3, lot_price = 10, lot_acquired_at = 0\<rparr>,
     \<lparr>lot_quantity = 4, lot_price = 11, lot_acquired_at = 600 * second\<rparr>]]\<rparr>"

theorem consumeLotsForSale_fifo_witness:
  "fst (consumeLotsForSale ''ACME'' 5 (700 * second) demo_holder) = 2"
  using consumeLotsForSale_fifo [of demo_holder "''ACME''" 5 "700 * second", OF _ _ _ prod.collapse [symmetric]]
  by (simp add: demo_holder_def demo_player_def lots_of_def lots_ok_def units_def numeral_eq_Suc fresh_def
      rapidFlipWindow_def minute_def second_def time_sub_def)

section \<open>Settlement moves cash and stock\<close>

text \<open>The player the settlement works on: the touched copy, or the stored one.\<close>

definition view_player :: "accounts \<Rightarrow> string \<Rightarrow> player option" where
  "view_player a pid =
     (case map_of (ac_touched a) pid of Some p \<Rightarrow> Some p | None \<Rightarrow> PlayerStore_GetByPlayerID pid (ac_store a))"

definition is_touched :: "accounts \<Rightarrow> string \<Rightarrow> bool" where
  "is_touched a pid \<longleftrightarrow> map_of (ac_touched a) pid \<noteq> None"

lemma getTouchedPlayer_view:
  assumes "view_player a pid = Some p"
  shows "\<exists>a1. getTouchedPlayer pid a = (Inr p, a1) \<and> view_player a1 = view_player a \<and> is_touched a1 pid \<and>
     (\<forall>q. is_touched a q \<longrightarrow> is_touched a1 q) \<and> ac_orders a1 = ac_orders a \<and> ac_incoming a1 = ac_incoming a"
  using assms
  by (auto simp: view_player_def getTouchedPlayer_def is_touched_def fun_eq_iff update_conv' split: option.splits)

lemma view_on_player:
  "is_touched a pid \<Longrightarrow> view_player (on_player pid f a) = (view_player a)(pid := map_option f (view_player a pid))"
  by (auto simp: view_player_def on_player_def is_touched_def fun_eq_iff update_conv' split: option.splits)

lemma touched_on_player [simp]: "is_touched (on_player pid f a) q = is_touched a q"
  by (auto simp: on_player_def is_touched_def update_conv' split: option.splits)

lemma on_player_rest [simp]:
  "ac_orders (on_player pid f a) = ac_orders a" "ac_incoming (on_player pid f a) = ac_incoming a"
  by (simp_all add: on_player_def split: option.splits)

lemma view_updates [simp]:
  "view_player (a\<lparr>ac_incoming := oo\<rparr>) = view_player a" "view_player (touch_order oid a) = view_player a"
  "view_player (on_order oid g a) = view_player a"
  "is_touched (a\<lparr>ac_incoming := oo\<rparr>) = is_touched a" "is_touched (touch_order oid a) = is_touched a"
  "is_touched (on_order oid g a) = is_touched a"
  by (simp_all add: view_player_def touch_order_def on_order_def is_touched_def fun_eq_iff split: option.splits)

definition released_cash :: "accounts \<Rightarrow> string \<Rightarrow> string \<Rightarrow> int \<Rightarrow> player \<Rightarrow> player" where
  "released_cash a oid incoming_id amount =
     (if oid = incoming_id \<or> ac_orders a oid \<noteq> None then release_cash amount else id)"

definition released_stock :: "accounts \<Rightarrow> string \<Rightarrow> string \<Rightarrow> string \<Rightarrow> int \<Rightarrow> player \<Rightarrow> player" where
  "released_stock a oid incoming_id symbol qty =
     (if oid = incoming_id \<or> ac_orders a oid \<noteq> None then release_stock symbol qty else id)"

lemma view_settle_buyer:
  assumes "is_touched a (t_buyer_id t)"
  shows "view_player (settle_buyer t inc debit a) = (view_player a)(t_buyer_id t :=
       map_option (released_cash a (t_buy_order_id t) inc debit \<circ> buyer_pays t debit) (view_player a (t_buyer_id t)))"
  using assms
  by (auto simp: settle_buyer_def released_cash_def view_on_player Let_def option.map_comp map_option.identity)

lemma view_settle_seller:
  assumes "is_touched a (t_seller_id t)"
  shows "view_player (settle_seller t inc proceeds a) = (view_player a)(t_seller_id t :=
       map_option (released_stock a (t_sell_order_id t) inc (t_symbol t) (t_quantity t) \<circ> seller_gets t proceeds)
         (view_player a (t_seller_id t)))"
  using assms
  by (auto simp: settle_seller_def released_stock_def view_on_player Let_def option.map_comp map_option.identity)

lemma touched_settle_buyer [simp]: "is_touched (settle_buyer t inc debit a) q = is_touched a q"
  by (simp add: settle_buyer_def Let_def)

lemma cash_stock_released [simp]:
  "p_cash (released_cash a oid inc x p) = p_cash p" "stock (released_cash a oid inc x p) s = stock p s"
  "p_cash (released_stock a oid inc sy q p) = p_cash p" "stock (released_stock a oid inc sy q p) s = stock p s"
  by (simp_all add: released_cash_def released_stock_def release_cash_def release_stock_def set_reserved_stock_def
      stock_def getz_def)

lemma cash_stock_buyer_pays [simp]:
  "p_cash (buyer_pays t d p) = sub64 (p_cash p) d"
  "stock (buyer_pays t d p) s = (if s = t_symbol t then add64 (stock p s) (t_quantity t) else stock p s)"
  by (simp_all add: buyer_pays_def addAcquiredLot_def set_stock_def stock_def getz_def)

lemma cash_stock_seller_gets [simp]:
  "p_cash (seller_gets t x p) = add64 (p_cash p) x"
  "stock (seller_gets t x p) s = (if s = t_symbol t then clamp0 (sub64 (stock p s) (t_quantity t)) else stock p s)"
  by (simp_all add: seller_gets_def set_stock_def stock_def getz_def)

lemma consumeLots_cash [simp]:
  "consumeLotsForSale s q now p = (x, p') \<Longrightarrow> p_cash p' = p_cash p \<and> stock p' sy = stock p sy \<and> 
     reserved_stock p' sy = reserved_stock p sy \<and> p_reserved_cash p' = p_reserved_cash p"
  by (auto simp: consumeLotsForSale_def stock_def reserved_stock_def split: if_splits prod.splits)

text \<open>What the exchange keeps of a trade that \<open>applyTrade\<close> settles.\<close>

definition flip_tax :: "trade \<Rightarrow> player \<Rightarrow> int" where
  "flip_tax t seller = estimateRapidFlipTax (mul64 (t_price t)
     (fst (consumeLotsForSale (t_symbol t) (t_quantity t) (t_executed_at t) seller)))"

lemma surcharge_same: "ac_incoming a' = ac_incoming a \<Longrightarrow> 
   surcharge_for oid inc (ac_incoming a') c = surcharge_for oid inc (ac_incoming a) c"
  by simp

lemma applyTrade_views:
  assumes b: "view_player a (t_buyer_id t) = Some pb" and s: "view_player a (t_seller_id t) = Some ps"
    and ne: "t_buyer_id t \<noteq> t_seller_id t"
    and cost: "cost = mul64 (t_price t) (t_quantity t)" and fee: "fee = estimateExchangeFee cost"
  shows "\<exists>a' pb' ps'. applyTrade t inc a = (None, a') \<and>
     view_player a' = (view_player a)(t_buyer_id t \<mapsto> pb', t_seller_id t \<mapsto> ps') \<and>
     p_cash pb' = sub64 (p_cash pb) (add64 (add64 cost fee) (surcharge_for (t_buy_order_id t) inc (ac_incoming a) cost)) \<and>
     p_cash ps' = add64 (p_cash ps) (sub64 (sub64 (sub64 cost fee)
         (surcharge_for (t_sell_order_id t) inc (ac_incoming a) cost)) (flip_tax t ps)) \<and>
     (\<forall>sy. stock pb' sy = (if sy = t_symbol t then add64 (stock pb sy) (t_quantity t) else stock pb sy) \<and>
           stock ps' sy = (if sy = t_symbol t then clamp0 (sub64 (stock ps sy) (t_quantity t)) else stock ps sy))"
proof -
  obtain a1 where a1: "getTouchedPlayer (t_buyer_id t) a = (Inr pb, a1)" "view_player a1 = view_player a"
      "is_touched a1 (t_buyer_id t)" "ac_incoming a1 = ac_incoming a"
    using getTouchedPlayer_view [OF b] by blast
  have s1: "view_player a1 (t_seller_id t) = Some ps" using s a1 by simp
  obtain a2 where a2: "getTouchedPlayer (t_seller_id t) a1 = (Inr ps, a2)" "view_player a2 = view_player a1"
      "is_touched a2 (t_seller_id t)" "is_touched a2 (t_buyer_id t)" "ac_incoming a2 = ac_incoming a1"
    using getTouchedPlayer_view [OF s1] a1(3) by blast
  obtain flip ps1 where c: "consumeLotsForSale (t_symbol t) (t_quantity t) (t_executed_at t) ps = (flip, ps1)" by fastforce
  have tax: "estimateRapidFlipTax (mul64 (t_price t) flip) = flip_tax t ps" by (simp add: flip_tax_def c)
  let ?a3 = "on_player (t_seller_id t) (\<lambda>_. ps1) a2"
  let ?d = "add64 (add64 cost fee) (surcharge_for (t_buy_order_id t) inc (ac_incoming a) cost)"
  let ?x = "sub64 (sub64 (sub64 cost fee) (surcharge_for (t_sell_order_id t) inc (ac_incoming a) cost)) (flip_tax t ps)"
  let ?a4 = "settle_buyer t inc ?d ?a3"
  let ?a5 = "settle_seller t inc ?x ?a4"
  have run: "applyTrade t inc a = (None, ?a5)"
    by (simp add: applyTrade_def a1 a2 c Let_def cost [symmetric] fee [symmetric] tax)
  let ?pb' = "released_cash ?a3 (t_buy_order_id t) inc ?d (buyer_pays t ?d pb)"
  let ?ps' = "released_stock ?a4 (t_sell_order_id t) inc (t_symbol t) (t_quantity t) (seller_gets t ?x ps1)"
  have v: "view_player ?a5 = (view_player a)(t_buyer_id t \<mapsto> ?pb', t_seller_id t \<mapsto> ?ps')"
    using a1 a2 b s ne by (simp add: view_settle_buyer view_settle_seller view_on_player fun_upd_twist)
  show ?thesis
    by (rule exI [of _ ?a5], rule exI [of _ ?pb'], rule exI [of _ ?ps']) (simp add: run v consumeLots_cash [OF c])
qed

lemma bpsCharge_bounds:
  assumes "0 \<le> c" "c < 2 ^ 48" "0 \<le> bps" "bps \<le> 10000"
  shows "0 \<le> bpsCharge c bps \<and> bpsCharge c bps \<le> c"
proof (cases "c = 0 \<or> bps = 0")
  case False
  define x where "x = c * bps"
  have x: "x \<le> c * 10000" "0 \<le> x" using assms by (auto simp: x_def intro: mult_left_mono)
  then have "in64 x" "in64 (x + 9999)" using assms(2) by (simp_all add: in64_def)
  then have "bpsCharge c bps = (x + 9999) div 10000"
    using False assms(1,3) x by (auto simp: bpsCharge_def x_def int64_simps)
  with x show ?thesis by linarith
qed (use assms in \<open>auto simp: bpsCharge_def\<close>)

lemma charges_bounds:
  assumes "0 \<le> c" "c < 2 ^ 48"
  shows "0 \<le> estimateExchangeFee c" "estimateExchangeFee c \<le> c" "0 \<le> surcharge_for oid inc oo c" "surcharge_for oid inc oo c \<le> c"
    "0 \<le> estimateRapidFlipTax c" "estimateRapidFlipTax c \<le> c"
  using bpsCharge_bounds [OF assms] assms
  by (simp_all add: estimateExchangeFee_def surcharge_for_def estimateMarketSurcharge_def estimateRapidFlipTax_def
      exchangeFeeBps_def marketOrderSurchargeBps_def rapidFlipTaxBps_def)

lemma flip_tax_bounds:
  assumes "lots_ok (lots_of ps (t_symbol t))" "0 < t_price t" "0 < t_quantity t" "t_price t * t_quantity t < 2 ^ 48"
  shows "0 \<le> flip_tax t ps \<and> flip_tax t ps \<le> t_price t * t_quantity t"
proof -
  obtain flip ps1 where c: "consumeLotsForSale (t_symbol t) (t_quantity t) (t_executed_at t) ps = (flip, ps1)" by fastforce
  have "t_quantity t * 1 \<le> t_quantity t * t_price t" using assms by (intro mult_left_mono) auto
  then have q: "t_quantity t < 2 ^ 63" using assms(4) by (simp add: mult.commute)
  have f: "flip = int (length (filter (fresh (t_executed_at t)) (take (nat (t_quantity t)) (units (lots_of ps (t_symbol t))))))"
    using consumeLots_fifo [OF assms(1) _ q c] assms(3) by simp
  have "length (filter (fresh (t_executed_at t)) (take (nat (t_quantity t)) (units (lots_of ps (t_symbol t))))) \<le> nat (t_quantity t)"
    by (rule order_trans [OF length_filter_le]) simp
  then have "0 \<le> flip" "flip \<le> t_quantity t" using f assms(3) by linarith+
  then have m: "0 \<le> t_price t * flip" "t_price t * flip \<le> t_price t * t_quantity t"
    using assms(2) by (auto intro: mult_left_mono)
  then have "mul64 (t_price t) flip = t_price t * flip" using assms(4) by (intro mul64_exact) (simp add: in64_def)
  then show ?thesis using charges_bounds(5,6) [of "t_price t * flip"] m assms(4) by (simp add: flip_tax_def c)
qed

text \<open>Settlement conserves: a trade between two players takes from their cash together exactly
  the exchange's charges (the fee on both sides, the surcharge of a market order, the flip tax) and
  moves the traded stock from the seller to the buyer; every other player is as before. The bounds
  exclude wrap-around only.\<close>
theorem applyTrade_conserves:
  assumes "view_player a (t_buyer_id t) = Some pb" and "view_player a (t_seller_id t) = Some ps"
    and "t_buyer_id t \<noteq> t_seller_id t"
    and "cost = t_price t * t_quantity t" and "0 < t_price t" and "0 < t_quantity t" and "cost < 2 ^ 48"
    and "lots_ok (lots_of ps (t_symbol t))"
    and "t_quantity t \<le> stock ps (t_symbol t)" and "stock ps (t_symbol t) < 2 ^ 62"
    and "0 \<le> stock pb (t_symbol t)" and "stock pb (t_symbol t) < 2 ^ 62"
    and "\<bar>p_cash pb\<bar> < 2 ^ 62" and "\<bar>p_cash ps\<bar> < 2 ^ 62"
  shows "\<exists>a' pb' ps'. applyTrade t inc a = (None, a') \<and>
     view_player a' = (view_player a)(t_buyer_id t \<mapsto> pb', t_seller_id t \<mapsto> ps') \<and>
     p_cash pb' + p_cash ps' + (2 * estimateExchangeFee cost + surcharge_for (t_buy_order_id t) inc (ac_incoming a) cost +
        surcharge_for (t_sell_order_id t) inc (ac_incoming a) cost + flip_tax t ps) = p_cash pb + p_cash ps \<and>
     (\<forall>sy. stock pb' sy = stock pb sy + (if sy = t_symbol t then t_quantity t else 0) \<and>
           stock ps' sy = stock ps sy - (if sy = t_symbol t then t_quantity t else 0))"
proof -
  let ?fee = "estimateExchangeFee cost" and ?sb = "surcharge_for (t_buy_order_id t) inc (ac_incoming a) cost"
    and ?ss = "surcharge_for (t_sell_order_id t) inc (ac_incoming a) cost" and ?tax = "flip_tax t ps"
  have c0: "0 \<le> cost" using assms(4-6) by simp
  have q: "t_quantity t < 2 ^ 48"
  proof -
    have "t_quantity t * 1 \<le> t_quantity t * t_price t" using assms(5,6) by (intro mult_left_mono) auto
    then show ?thesis using assms(4,7) by (simp add: mult.commute)
  qed
  note ch = charges_bounds [OF c0 assms(7)]
  have tax: "0 \<le> ?tax" "?tax \<le> cost" using flip_tax_bounds [OF assms(8,5,6)] assms(4,7) by auto
  have c: "cost = mul64 (t_price t) (t_quantity t)" using assms(4,7) c0 by (simp add: int64_simps in64_def)
  obtain a' pb' ps' where r: "applyTrade t inc a = (None, a')"
     "view_player a' = (view_player a)(t_buyer_id t \<mapsto> pb', t_seller_id t \<mapsto> ps')"
     "p_cash pb' = sub64 (p_cash pb) (add64 (add64 cost ?fee) ?sb)"
     "p_cash ps' = add64 (p_cash ps) (sub64 (sub64 (sub64 cost ?fee) ?ss) ?tax)"
     "\<forall>sy. stock pb' sy = (if sy = t_symbol t then add64 (stock pb sy) (t_quantity t) else stock pb sy) \<and>
           stock ps' sy = (if sy = t_symbol t then clamp0 (sub64 (stock ps sy) (t_quantity t)) else stock ps sy)"
    using applyTrade_views [OF assms(1-3) c refl] by blast
  have i: "in64 (cost + ?fee)" "in64 (cost + ?fee + ?sb)" "in64 (p_cash pb - (cost + ?fee + ?sb))"
    "in64 (cost - ?fee)" "in64 (cost - ?fee - ?ss)" "in64 (cost - ?fee - ?ss - ?tax)"
    "in64 (p_cash ps + (cost - ?fee - ?ss - ?tax))"
    using ch(1-2) ch(3,4) [of "t_buy_order_id t" inc "ac_incoming a"] ch(3,4) [of "t_sell_order_id t" inc "ac_incoming a"]
      tax c0 assms(7,13,14) by (simp_all add: in64_def abs_less_iff)
  have pb: "p_cash pb' = p_cash pb - (cost + ?fee + ?sb)" using i by (simp add: r int64_simps)
  have ps: "p_cash ps' = p_cash ps + (cost - ?fee - ?ss - ?tax)" using i by (simp add: r int64_simps)
  have j: "in64 (stock pb (t_symbol t) + t_quantity t)" "in64 (stock ps (t_symbol t) - t_quantity t)"
    using assms(6,9-12) q by (simp_all add: in64_def abs_less_iff)
  have st: "\<forall>sy. stock pb' sy = stock pb sy + (if sy = t_symbol t then t_quantity t else 0) \<and>
           stock ps' sy = stock ps sy - (if sy = t_symbol t then t_quantity t else 0)"
    using assms(9) r(5) j by (simp add: clamp0_def int64_simps)
  show ?thesis using r(1,2) pb ps st by (intro exI conjI) auto
qed

definition demo_trade :: trade where
  "demo_trade = \<lparr>t_id = ''t1'', t_symbol = ''ACME'', t_price = 100, t_quantity = 2, t_aggressor_side = SideBuy,
     t_buy_order_id = ''b'', t_sell_order_id = ''s'', t_buyer_id = ''id-ann'', t_seller_id = ''id-bob'',
     t_buyer_role = ''Buyer'', t_seller_role = ''Holder'', t_executed_at = 700 * second\<rparr>"

definition demo_open :: "string \<Rightarrow> string \<Rightarrow> side \<Rightarrow> int \<Rightarrow> int \<Rightarrow> int \<Rightarrow> open_order" where
  "demo_open oid pid sd price qty cash = \<lparr>oo_order = \<lparr>o_id = oid, o_request_id = oid, o_player_id = pid, o_player_role = ''Buyer'',
     o_symbol = ''ACME'', o_side = sd, o_type = OrderTypeLimit, o_price = price, o_quantity = qty, o_remaining = qty,
     o_status = OrderStatusOpen, o_created_at = 1\<rparr>, oo_reserved_cash = cash, oo_reserved_quantity = 0\<rparr>"

definition demo_accounts :: "int \<Rightarrow> accounts" where
  "demo_accounts cash =
     \<lparr>ac_store = \<lparr>st_players = [(''ann'', (demo_player ''ann'' cash)\<lparr>p_reserved_cash := min cash 203\<rparr>),
        (''bob'', set_stock ''ACME'' 7 demo_holder)], st_disk = \<lparr>main_file = NoFile, tmp_file = NoFile\<rparr>\<rparr>,
      ac_touched = [], ac_orders = Map.empty, ac_incoming = demo_open ''b'' ''id-ann'' SideBuy 100 2 (min cash 203), ac_touched_orders = []\<rparr>"

theorem applyTrade_conserves_witness:
  "\<exists>a' pb' ps'. applyTrade demo_trade ''b'' (demo_accounts 1000) = (None, a') \<and>
     view_player a' ''id-ann'' = Some pb' \<and> view_player a' ''id-bob'' = Some ps' \<and> p_cash pb' + p_cash ps' < 1050"
proof -
  have v: "view_player (demo_accounts 1000) ''id-ann'' = Some ((demo_player ''ann'' 1000)\<lparr>p_reserved_cash := 203\<rparr>)"
    "view_player (demo_accounts 1000) ''id-bob'' = Some (set_stock ''ACME'' 7 demo_holder)"
    by (simp_all add: view_player_def demo_accounts_def PlayerStore_GetByPlayerID_def clonePlayer_def demo_player_def
        demo_holder_def set_stock_def)
  have "\<exists>a' pb' ps'. applyTrade demo_trade ''b'' (demo_accounts 1000) = (None, a') \<and>
     view_player a' = (view_player (demo_accounts 1000))(t_buyer_id demo_trade \<mapsto> pb', t_seller_id demo_trade \<mapsto> ps') \<and>
     p_cash pb' + p_cash ps' + (2 * estimateExchangeFee 200 + surcharge_for (t_buy_order_id demo_trade) ''b'' (ac_incoming (demo_accounts 1000)) 200 +
        surcharge_for (t_sell_order_id demo_trade) ''b'' (ac_incoming (demo_accounts 1000)) 200 +
        flip_tax demo_trade (set_stock ''ACME'' 7 demo_holder)) =
        p_cash ((demo_player ''ann'' 1000)\<lparr>p_reserved_cash := 203\<rparr>) + p_cash (set_stock ''ACME'' 7 demo_holder) \<and>
     (\<forall>sy. stock pb' sy = stock ((demo_player ''ann'' 1000)\<lparr>p_reserved_cash := 203\<rparr>) sy + (if sy = t_symbol demo_trade then t_quantity demo_trade else 0) \<and>
           stock ps' sy = stock (set_stock ''ACME'' 7 demo_holder) sy - (if sy = t_symbol demo_trade then t_quantity demo_trade else 0))"
    by (rule applyTrade_conserves)
      (use v in \<open>simp_all add: demo_trade_def lots_ok_def lots_of_def demo_holder_def demo_player_def set_stock_def stock_def getz_def\<close>)
  then obtain a' pb' ps' where r: "applyTrade demo_trade ''b'' (demo_accounts 1000) = (None, a')"
     "view_player a' = (view_player (demo_accounts 1000))(t_buyer_id demo_trade \<mapsto> pb', t_seller_id demo_trade \<mapsto> ps')"
     "p_cash pb' + p_cash ps' + (2 * estimateExchangeFee 200 + surcharge_for (t_buy_order_id demo_trade) ''b'' (ac_incoming (demo_accounts 1000)) 200 +
        surcharge_for (t_sell_order_id demo_trade) ''b'' (ac_incoming (demo_accounts 1000)) 200 +
        flip_tax demo_trade (set_stock ''ACME'' 7 demo_holder)) =
        p_cash ((demo_player ''ann'' 1000)\<lparr>p_reserved_cash := 203\<rparr>) + p_cash (set_stock ''ACME'' 7 demo_holder)"
    by blast
  have "0 \<le> flip_tax demo_trade (set_stock ''ACME'' 7 demo_holder)"
    by (rule conjunct1 [OF flip_tax_bounds])
      (simp_all add: demo_trade_def lots_ok_def lots_of_def demo_holder_def demo_player_def set_stock_def)
  then have "p_cash pb' + p_cash ps' < 1050"
    using r(3) charges_bounds(3) [of 200 "t_buy_order_id demo_trade" "''b''" "ac_incoming (demo_accounts 1000)"]
      charges_bounds(3) [of 200 "t_sell_order_id demo_trade" "''b''" "ac_incoming (demo_accounts 1000)"]
    by (simp add: demo_player_def demo_holder_def set_stock_def estimateExchangeFee_def bpsCharge_def exchangeFeeBps_def int64_simps in64_def)
  then show ?thesis using r(1,2) by (auto simp: demo_trade_def)
qed

section \<open>Reservations\<close>

definition funds_ok :: "player \<Rightarrow> bool" where
  "funds_ok p \<longleftrightarrow> 0 \<le> p_reserved_cash p \<and> p_reserved_cash p \<le> p_cash p \<and> p_cash p < 2 ^ 62 \<and>
     (\<forall>s. 0 \<le> reserved_stock p s \<and> reserved_stock p s \<le> stock p s \<and> stock p s < 2 ^ 62)"

lemma set_reserved_stock_simps [simp]:
  "reserved_stock (set_reserved_stock s v p) s' = (if s' = s then v else reserved_stock p s')"
  "stock (set_reserved_stock s v p) s' = stock p s'" "p_cash (set_reserved_stock s v p) = p_cash p"
  "p_reserved_cash (set_reserved_stock s v p) = p_reserved_cash p"
  by (simp_all add: set_reserved_stock_def reserved_stock_def stock_def getz_def)

lemma p_reserved_cash_update_simps [simp]:
  "reserved_stock (p\<lparr>p_reserved_cash := v\<rparr>) s = reserved_stock p s" "stock (p\<lparr>p_reserved_cash := v\<rparr>) s = stock p s"
  by (simp_all add: reserved_stock_def stock_def)

lemma reserveForIncoming_frame:
  assumes "funds_ok p" and "0 \<le> qty" and "reserveForIncoming mp p symbol sd kind price qty = Inr (cash, held, p')"
    and "0 \<le> cash"
  shows "funds_ok p' \<and> p_cash p' = p_cash p \<and> p_reserved_cash p' = p_reserved_cash p + cash \<and>
     (\<forall>s. stock p' s = stock p s \<and> reserved_stock p' s = reserved_stock p s + (if s = symbol then held else 0)) \<and>
     (sd = SideBuy \<and> held = 0 \<or> sd = SideSell \<and> cash = 0 \<and> held = qty)"
proof (cases sd)
  case SideBuy
  have av: "sub64 (p_cash p) (p_reserved_cash p) = p_cash p - p_reserved_cash p"
    using assms(1) by (intro sub64_range) (auto simp: funds_ok_def in64_def)
  have r: "cash \<le> p_cash p - p_reserved_cash p" "held = 0" "p' = p\<lparr>p_reserved_cash := add64 (p_reserved_cash p) cash\<rparr>"
    using assms(3) SideBuy by (auto simp: reserveForIncoming_def Let_def av split: sum.splits if_splits)
  have "add64 (p_reserved_cash p) cash = p_reserved_cash p + cash"
    using r(1) assms(1,4) by (intro add64_exact) (auto simp: funds_ok_def in64_def)
  then show ?thesis using r assms(1,4) SideBuy by (auto simp: funds_ok_def)
next
  case SideSell
  have fs: "0 \<le> reserved_stock p symbol" "reserved_stock p symbol \<le> stock p symbol" "stock p symbol < 2 ^ 62"
    using assms(1) by (simp_all add: funds_ok_def)
  have av: "sub64 (stock p symbol) (reserved_stock p symbol) = stock p symbol - reserved_stock p symbol"
    using fs by (intro sub64_range) (simp_all add: in64_def)
  have r: "qty \<le> stock p symbol - reserved_stock p symbol" "cash = 0" "held = qty"
     "p' = set_reserved_stock symbol (add64 (reserved_stock p symbol) qty) p"
    using assms(3) SideSell by (auto simp: reserveForIncoming_def Let_def av split: if_splits)
  have f: "reserved_stock p symbol \<ge> 0" "stock p symbol < 2 ^ 62" using assms(1) by (simp_all add: funds_ok_def)
  have "add64 (reserved_stock p symbol) qty = reserved_stock p symbol + qty"
    using r(1) f assms(2) by (intro add64_exact) (simp add: in64_def)
  then show ?thesis using r assms(1,2) SideSell by (auto simp: funds_ok_def)
next
  case SideOther
  then show ?thesis using assms(3) by (simp add: reserveForIncoming_def)
qed

lemma bpsCharge_exact:
  assumes "0 \<le> c" "c < 2 ^ 48" "0 < bps" "bps \<le> 10000"
  shows "bpsCharge c bps = (c * bps + 9999) div 10000"
proof (cases "c = 0")
  case False
  define u where "u = c * bps"
  have "0 < u" "u \<le> c * 10000" using False assms by (auto simp: u_def intro: mult_left_mono)
  then have "in64 u" "in64 (u + 9999)" using assms(2) by (simp_all add: in64_def)
  then show ?thesis using False assms by (simp add: bpsCharge_def u_def int64_simps)
qed (simp add: bpsCharge_def)

lemma charges_exact:
  assumes "0 \<le> c" "c < 2 ^ 48"
  shows "estimateExchangeFee c = (c * 10 + 9999) div 10000" "estimateMarketSurcharge c = (c * 15 + 9999) div 10000"
  using bpsCharge_exact [OF assms] by (simp_all add: estimateExchangeFee_def estimateMarketSurcharge_def exchangeFeeBps_def marketOrderSurchargeBps_def)

lemma reserve_amount_exact:
  assumes "n = reserve_price kind rp * qty" "0 \<le> n" "n < 2 ^ 48"
  shows "reserve_amount kind rp qty =
     n + (n * 10 + 9999) div 10000 + (if kind = OrderTypeMarket then (n * 15 + 9999) div 10000 else 0)"
proof -
  have m: "mul64 (reserve_price kind rp) qty = n" using assms by (simp add: int64_simps in64_def)
  have k: "0 \<le> (n * k + 9999) div 10000" "(n * k + 9999) div 10000 \<le> n + 1" if "0 \<le> k" "k \<le> 15" for k
  proof -
    have "n * k \<le> n * 15" "0 \<le> n * k" using that assms by (simp_all add: mult_left_mono)
    then show "0 \<le> (n * k + 9999) div 10000" "(n * k + 9999) div 10000 \<le> n + 1" using assms(2) by linarith+
  qed
  show ?thesis using k [of 10] k [of 15] assms(2,3)
    by (simp add: reserve_amount_def m charges_exact Let_def int64_simps in64_def)
qed

lemma reserve_amount_in64: "in64 (reserve_amount kind rp qty)"
  by (simp add: reserve_amount_def Let_def)

text \<open>What a reservation is asked to price a buy at.\<close>

lemma reserveForIncoming_buy:
  assumes "funds_ok p" "reserveForIncoming mp p symbol SideBuy kind price qty = Inr (cash, held, p')"
  obtains rp where "(if 0 < price then Inr price else map_sum id (\<lambda>cp. if 0 < cp then cp else 100) mp) = Inr rp"
    "cash = reserve_amount kind rp qty" "held = 0" "cash \<le> p_cash p - p_reserved_cash p"
    "p' = p\<lparr>p_reserved_cash := p_reserved_cash p + cash\<rparr>"
proof -
  have av: "sub64 (p_cash p) (p_reserved_cash p) = p_cash p - p_reserved_cash p"
    using assms(1) by (intro sub64_range) (auto simp: funds_ok_def in64_def)
  obtain rp where rp: "(if 0 < price then Inr price else map_sum id (\<lambda>cp. if 0 < cp then cp else 100) mp) = Inr rp"
      "cash = reserve_amount kind rp qty" "held = 0" "cash \<le> p_cash p - p_reserved_cash p"
      "p' = p\<lparr>p_reserved_cash := add64 (p_reserved_cash p) cash\<rparr>"
    using assms(2) by (auto simp: reserveForIncoming_def Let_def av split: sum.splits if_splits)
  moreover have "add64 (p_reserved_cash p) cash = p_reserved_cash p + cash"
    using rp(2,4) assms(1) reserve_amount_in64 [of kind rp qty] by (intro add64_exact) (auto simp: funds_ok_def in64_def)
  ultimately show ?thesis using that by simp
qed



lemma bpsCharge_mono:
  assumes "0 \<le> x" "x \<le> y" "y < 2 ^ 48" "0 \<le> bps" "bps \<le> 10000"
  shows "bpsCharge x bps \<le> bpsCharge y bps"
proof (cases "0 < x \<and> 0 < bps")
  case True
  define u v where "u = x * bps" and "v = y * bps"
  have uv: "0 < u" "u \<le> v" "v \<le> y * 10000"
    using True assms by (auto simp: u_def v_def intro: mult_left_mono mult_right_mono)
  then have r: "in64 u" "in64 (u + 9999)" "in64 v" "in64 (v + 9999)" using assms(3) by (simp_all add: in64_def)
  have "bpsCharge x bps = (u + 9999) div 10000" "bpsCharge y bps = (v + 9999) div 10000"
    using True assms r uv by (auto simp: bpsCharge_def u_def v_def int64_simps)
  then show ?thesis using uv by (simp add: zdiv_mono1)
next
  case False
  then show ?thesis using bpsCharge_bounds [of y bps] assms by (auto simp: bpsCharge_def)
qed

text \<open>The reservation of a limit buy covers its execution in one trade: the debit of any single fill,
  at the limit or better and of at most the ordered quantity, is within the reserved amount.\<close>
theorem limit_reservation_covers_fill:
  assumes "0 < fp" and "fp \<le> price" and "0 < fq" and "fq \<le> qty" and "price * qty < 2 ^ 48"
    and "c = mul64 fp fq"
  shows "add64 (add64 c (estimateExchangeFee c)) 0 \<le> reserve_amount OrderTypeLimit price qty"
proof -
  have m: "0 < fp * fq" "fp * fq \<le> price * qty" using assms by (auto intro: mult_mono)
  have c: "c = fp * fq" "mul64 price qty = price * qty"
    using m assms(5,6) by (simp_all add: int64_simps in64_def)
  have fee: "estimateExchangeFee (fp * fq) \<le> estimateExchangeFee (price * qty)"
    using bpsCharge_mono [of "fp * fq" "price * qty" 10] m assms(5) by (simp add: estimateExchangeFee_def exchangeFeeBps_def)
  have b: "0 \<le> estimateExchangeFee (fp * fq)" "estimateExchangeFee (price * qty) \<le> price * qty"
    using charges_bounds [of "fp * fq"] charges_bounds [of "price * qty"] m assms(5) by auto
  have r: "in64 (fp * fq + estimateExchangeFee (fp * fq))" "in64 (price * qty + estimateExchangeFee (price * qty))"
    using m fee b assms(5) by (simp_all add: in64_def)
  then show ?thesis using m(2) fee by (simp add: reserve_amount_def reserve_price_def c int64_simps Let_def)
qed

theorem limit_reservation_covers_fill_witness:
  "add64 (add64 (mul64 90 3) (estimateExchangeFee (mul64 90 3))) 0 \<le> reserve_amount OrderTypeLimit 100 5"
  by (rule limit_reservation_covers_fill [of 90 100 3 5]) simp_all

text \<open>Cleaning up an open order gives back what it still held: the order is gone, its player's reserved
  cash and stock fall by exactly the amounts the order held, and no other player changes.\<close>
theorem cleanupOpenOrder_releases:
  assumes "ac_orders a oid = Some oo" and "view_player a (o_player_id (oo_order oo)) = Some p" and "funds_ok p"
    and "0 \<le> oo_reserved_cash oo" and "oo_reserved_cash oo \<le> p_reserved_cash p"
    and "0 \<le> oo_reserved_quantity oo" and "oo_reserved_quantity oo \<le> reserved_stock p (o_symbol (oo_order oo))"
  shows "\<exists>p'. view_player (cleanupOpenOrder oid a) = (view_player a)(o_player_id (oo_order oo) \<mapsto> p') \<and>
     ac_orders (cleanupOpenOrder oid a) = (ac_orders a)(oid := None) \<and> funds_ok p' \<and> p_cash p' = p_cash p \<and>
     p_reserved_cash p' = p_reserved_cash p - oo_reserved_cash oo \<and>
     (\<forall>s. stock p' s = stock p s \<and> reserved_stock p' s =
        reserved_stock p s - (if s = o_symbol (oo_order oo) then oo_reserved_quantity oo else 0))"
proof -
  let ?pid = "o_player_id (oo_order oo)" and ?s = "o_symbol (oo_order oo)"
  obtain a1 where a1: "getTouchedPlayer ?pid a = (Inr p, a1)" "view_player a1 = view_player a" "is_touched a1 ?pid"
      "ac_orders a1 = ac_orders a"
    using getTouchedPlayer_view [OF assms(2)] by blast
  let ?b = "if oo_reserved_cash oo > 0 then on_player ?pid (release_cash (oo_reserved_cash oo)) a1 else a1"
  let ?c = "if oo_reserved_quantity oo > 0 then on_player ?pid (release_stock ?s (oo_reserved_quantity oo)) ?b else ?b"
  let ?p1 = "if oo_reserved_cash oo > 0 then release_cash (oo_reserved_cash oo) p else p"
  let ?p2 = "if oo_reserved_quantity oo > 0 then release_stock ?s (oo_reserved_quantity oo) ?p1 else ?p1"
  have run: "cleanupOpenOrder oid a = ?c\<lparr>ac_orders := (ac_orders ?c)(oid := None)\<rparr>"
    using assms(1) a1(1) by (simp add: cleanupOpenOrder_def Let_def)
  have vb: "view_player ?b = (view_player a)(?pid \<mapsto> ?p1)" "is_touched ?b ?pid"
    using a1 assms(2) by (auto simp: view_on_player fun_upd_idem_iff)
  have vc: "view_player ?c = (view_player a)(?pid \<mapsto> ?p2)"
    using vb by (auto simp: view_on_player)
  have vo: "view_player (x\<lparr>ac_orders := m\<rparr>) = view_player x" for x m by (simp add: view_player_def fun_eq_iff split: option.split)
  have f: "0 \<le> p_reserved_cash p" "p_reserved_cash p \<le> p_cash p" "p_cash p < 2 ^ 62"
    "0 \<le> reserved_stock p ?s" "reserved_stock p ?s \<le> stock p ?s" "stock p ?s < 2 ^ 62"
    using assms(3) by (simp_all add: funds_ok_def)
  have e: "sub64 (p_reserved_cash p) (oo_reserved_cash oo) = p_reserved_cash p - oo_reserved_cash oo"
    "sub64 (reserved_stock p ?s) (oo_reserved_quantity oo) = reserved_stock p ?s - oo_reserved_quantity oo"
    using f assms(4-7) by (intro sub64_range; simp add: in64_def)+
  have p2: "p_cash ?p2 = p_cash p" "p_reserved_cash ?p2 = p_reserved_cash p - oo_reserved_cash oo"
    "stock ?p2 s = stock p s" "reserved_stock ?p2 s = reserved_stock p s - (if s = ?s then oo_reserved_quantity oo else 0)" for s
    using assms(4-7) e by (auto simp: release_cash_def release_stock_def clamp0_def)
  have "0 \<le> reserved_stock ?p2 s \<and> reserved_stock ?p2 s \<le> stock ?p2 s \<and> stock ?p2 s < 2 ^ 62" for s
  proof -
    have "0 \<le> reserved_stock p s" "reserved_stock p s \<le> stock p s" "stock p s < 2 ^ 62"
      using assms(3) unfolding funds_ok_def by blast+
    then show ?thesis using assms(6,7) unfolding p2 by (cases "s = ?s") simp_all
  qed
  then have "funds_ok ?p2" using assms(4,5) f(1-3) by (simp add: funds_ok_def p2 del: if_split)
  moreover have "ac_orders ?c = ac_orders a" using a1(4) by simp
  ultimately show ?thesis unfolding run vo using vc p2 by (intro exI [of _ ?p2]) simp
qed

theorem cleanupOpenOrder_releases_witness:
  "map_option p_reserved_cash (view_player (cleanupOpenOrder ''b''
     ((demo_accounts 1000)\<lparr>ac_orders := [''b'' \<mapsto> demo_open ''b'' ''id-ann'' SideBuy 100 2 200]\<rparr>)) ''id-ann'') = Some 3"
proof -
  let ?a = "(demo_accounts 1000)\<lparr>ac_orders := [''b'' \<mapsto> demo_open ''b'' ''id-ann'' SideBuy 100 2 200]\<rparr>"
  let ?p = "(demo_player ''ann'' 1000)\<lparr>p_reserved_cash := 203\<rparr>"
  have "ac_orders ?a ''b'' = Some (demo_open ''b'' ''id-ann'' SideBuy 100 2 200)" by simp
  moreover have "view_player ?a (o_player_id (oo_order (demo_open ''b'' ''id-ann'' SideBuy 100 2 200))) = Some ?p"
    by (simp add: view_player_def demo_accounts_def PlayerStore_GetByPlayerID_def clonePlayer_def demo_player_def demo_open_def)
  moreover have "funds_ok ?p" by (simp add: funds_ok_def demo_player_def reserved_stock_def stock_def getz_def)
  ultimately show ?thesis
    using cleanupOpenOrder_releases [of ?a "''b''" "demo_open ''b'' ''id-ann'' SideBuy 100 2 200" ?p]
    by (auto simp: demo_open_def demo_player_def reserved_stock_def getz_def)
qed

end
