(* ===== verification/Rand.thy ===== *)
theory Rand
  imports Float64
begin

text \<open>
  The pseudo-random generator the program shares behind a mutex (\<^verbatim>\<open>math/rand\<close>): a source whose
  draws are arbitrary and the number of draws made. \<open>rng_ok\<close> is what the package documents of
  them. \<^verbatim>\<open>Intn\<close> panics on a bound that is not positive: \<open>None\<close>.
\<close>

record rng =
  float_draw :: "nat \<Rightarrow> f64"
  int_draw :: "nat \<Rightarrow> int \<Rightarrow> int"
  draws :: nat

definition rng_ok :: "rng \<Rightarrow> bool" where
  "rng_ok r \<longleftrightarrow> (\<forall>k. 0 \<le> float_draw r k \<and> float_draw r k < 1) \<and> (\<forall>k n. 0 < n \<longrightarrow> 0 \<le> int_draw r k n \<and> int_draw r k n < n)"

definition rand_Float64 :: "rng \<Rightarrow> f64 \<times> rng" where
  "rand_Float64 r = (float_draw r (draws r), r\<lparr>draws := Suc (draws r)\<rparr>)"

definition rand_Intn :: "int \<Rightarrow> rng \<Rightarrow> (int \<times> rng) option" where
  "rand_Intn n r = (if n \<le> 0 then None else Some (int_draw r (draws r) n, r\<lparr>draws := Suc (draws r)\<rparr>))"

definition random_between :: "int \<Rightarrow> int \<Rightarrow> rng \<Rightarrow> (int \<times> rng) option" where
  "random_between lo hi r =
     (if lo \<ge> hi then Some (lo, r)
      else (case rand_Intn (add64 (sub64 hi lo) 1) r of None \<Rightarrow> None | Some (k, r') \<Rightarrow> Some (add64 lo k, r')))"

lemma rand_Float64_ok: "rng_ok r \<Longrightarrow> rand_Float64 r = (x, r') \<Longrightarrow> rng_ok r' \<and> 0 \<le> x \<and> x < 1"
  by (auto simp: rand_Float64_def rng_ok_def)

lemma rand_Intn_ok: "rng_ok r \<Longrightarrow> rand_Intn n r = Some (k, r') \<Longrightarrow> rng_ok r' \<and> 0 \<le> k \<and> k < n"
  by (auto simp: rand_Intn_def rng_ok_def split: if_splits)

lemma rand_Intn_total: "0 < n \<Longrightarrow> \<exists>k r'. rand_Intn n r = Some (k, r')"
  by (simp add: rand_Intn_def)

lemma random_between_ok:
  assumes "rng_ok r" "in64 lo" "in64 hi" "hi - lo < 2 ^ 63 - 1"
  shows "\<exists>k r'. random_between lo hi r = Some (k, r') \<and> rng_ok r' \<and> lo \<le> k \<and> (lo \<le> hi \<longrightarrow> k \<le> hi)"
proof (cases "lo \<ge> hi")
  case False
  then have n: "add64 (sub64 hi lo) 1 = hi - lo + 1"
    using assms(2-4) by (simp add: int64_simps in64_def)
  obtain k r' where d: "rand_Intn (hi - lo + 1) r = Some (k, r')" using rand_Intn_total [of "hi - lo + 1" r] False by auto
  then have k: "rng_ok r'" "0 \<le> k" "k < hi - lo + 1" using rand_Intn_ok [OF assms(1)] by blast+
  then have "add64 lo k = lo + k" using assms(2,3) by (intro add64_exact) (auto simp: in64_def)
  then show ?thesis using False d k by (simp add: random_between_def n)
qed (use assms(1) in \<open>auto simp: random_between_def\<close>)

definition demo_rng :: rng where
  "demo_rng = \<lparr>float_draw = (\<lambda>_. 1 / 2), int_draw = (\<lambda>k n. int k mod n), draws = 0\<rparr>"

lemma demo_rng_ok: "rng_ok demo_rng"
  by (simp add: rng_ok_def demo_rng_def)

end
