(* ===== verification/Roles.thy ===== *)
theory Roles
  imports Rand Stores "HOL-Library.List_Lexorder" "HOL-Library.Char_ord"
begin

text \<open>
  The allocator that gives a new player a role, cash and holdings
  (\<^verbatim>\<open>internal/roles/role_assignment.go\<close>). Strings are compared as Go compares them, byte by byte
  (the library's lexicographic order on lists of characters).
\<close>

section \<open>Data\<close>

datatype role = RoleBuyer | RoleHolder | RoleWhale

definition role_name :: "role \<Rightarrow> string" where
  "role_name r = (case r of RoleBuyer \<Rightarrow> ''Buyer'' | RoleHolder \<Rightarrow> ''Holder'' | RoleWhale \<Rightarrow> ''Whale'')"

record profile =
  pf_cash :: int
  pf_base_holdings :: "string \<rightharpoonup> int"
  pf_variance_pct :: int
  pf_whale_influence :: int

record role_config =
  cfg_buyer :: profile
  cfg_holder :: profile
  cfg_whale :: profile

record assignment =
  as_role :: role
  as_cash :: int
  as_holdings :: "string \<rightharpoonup> int"

record allocator =
  al_config :: role_config
  al_rng :: rng

section \<open>Choosing a role\<close>

definition whale_ratio :: "role_stats \<Rightarrow> f64" where
  "whale_ratio st =
     (let n = add64 (add64 (rs_buyers st) (rs_holders st)) (rs_whales st)
      in if n > 0 then fdiv (of_i64 (rs_whales st)) (of_i64 n) else 0)"

definition pick_balanced :: "role_stats \<Rightarrow> rng \<Rightarrow> role \<times> rng" where
  "pick_balanced st r =
     (let d = sub64 (rs_buyers st) (rs_holders st) in
      if d \<ge> 2 then (RoleHolder, r)
      else if d \<le> - 2 then (RoleBuyer, r)
      else (case rand_Intn 2 r of
              None \<Rightarrow> (RoleHolder, r)
            | Some (k, r') \<Rightarrow> (if k = 0 then RoleBuyer else RoleHolder, r')))"

definition pickRole :: "role_stats \<Rightarrow> rng \<Rightarrow> role \<times> rng" where
  "pickRole st r =
     (if whale_ratio st < rnd (1 / 10)
      then (case rand_Float64 r of (x, r') \<Rightarrow> if x < rnd (1 / 10) then (RoleWhale, r') else pick_balanced st r')
      else pick_balanced st r)"

definition profileFor :: "role_config \<Rightarrow> role \<Rightarrow> profile" where
  "profileFor c r = (case r of RoleBuyer \<Rightarrow> cfg_buyer c | RoleHolder \<Rightarrow> cfg_holder c | RoleWhale \<Rightarrow> cfg_whale c)"

section \<open>Budget and holdings\<close>

definition spread_value :: "int \<Rightarrow> int \<Rightarrow> f64 \<Rightarrow> f64" where
  "spread_value base variance x =
     (let spread = fmul (of_i64 base) (fdiv (of_i64 variance) 100);
          v = fadd (of_i64 base) (fmul (fsub (fmul x 2) 1) spread)
      in if v < 0 then 0 else v)"

definition randomizedBudget :: "int \<Rightarrow> int \<Rightarrow> rng \<Rightarrow> int \<times> rng" where
  "randomizedBudget base variance r =
     (if base \<le> 0 then (0, r)
      else (case rand_Float64 r of (x, r') \<Rightarrow> (to_i64 (go_round (spread_value base variance x)), r')))"

definition holdingBase :: "profile \<Rightarrow> string \<Rightarrow> int" where
  "holdingBase pf symbol =
     (if getz (pf_base_holdings pf) symbol > 0 then getz (pf_base_holdings pf) symbol
      else getz (pf_base_holdings pf) ''*'')"

definition holding_weight :: "profile \<Rightarrow> string \<Rightarrow> f64 \<Rightarrow> f64" where
  "holding_weight pf symbol x =
     (let base = of_i64 (max64 1 (holdingBase pf symbol));
          jitter = fadd 1 (fmul (fsub (fmul x 2) 1) (max (rnd (8 / 100)) (fdiv (of_i64 (pf_variance_pct pf)) 200)))
      in fmul base jitter)"

text \<open>The loop over the sorted symbols: the weight of each and their sum.\<close>

fun draw_weights :: "profile \<Rightarrow> string list \<Rightarrow> (string \<rightharpoonup> f64) \<times> f64 \<Rightarrow> rng \<Rightarrow> ((string \<rightharpoonup> f64) \<times> f64) \<times> rng" where
  "draw_weights pf [] acc r = (acc, r)"
| "draw_weights pf (s # ss) (w, total_weight) r =
     (case rand_Float64 r of
        (x, r') \<Rightarrow> (let v = holding_weight pf s x in draw_weights pf ss (w(s \<mapsto> v), fadd total_weight v) r'))"

fun share_out :: "(string \<Rightarrow> int) \<Rightarrow> string list \<Rightarrow> int \<Rightarrow> (string \<rightharpoonup> int) \<Rightarrow> (string \<rightharpoonup> int)" where
  "share_out share [] remaining m = m"
| "share_out share [s] remaining m = m(s \<mapsto> max64 0 remaining)"
| "share_out share (s # ss) remaining m =
     (let q = (if share s < 0 then 0 else share s)
      in share_out share ss (sub64 remaining q) (m(s \<mapsto> q)))"

definition share_of :: "(string \<rightharpoonup> f64) \<Rightarrow> f64 \<Rightarrow> int \<Rightarrow> string \<Rightarrow> int" where
  "share_of w weight_sum target s =
     to_i64 (go_round (fmul (fdiv (case w s of None \<Rightarrow> 0 | Some v \<Rightarrow> v) weight_sum) (of_i64 target)))"

definition base_total :: "profile \<Rightarrow> string list \<Rightarrow> int" where
  "base_total pf ss = foldl (\<lambda>n s. add64 n (holdingBase pf s)) 0 ss"

definition holdings_target :: "profile \<Rightarrow> string list \<Rightarrow> rng \<Rightarrow> int \<times> rng" where
  "holdings_target pf ss r =
     (case randomizedBudget (base_total pf ss) (max64 4 (quot64 (pf_variance_pct pf) 2)) r of
        (n, r') \<Rightarrow> (if n \<le> 0 then base_total pf ss else n, r'))"

definition randomizedHoldings :: "profile \<Rightarrow> string list \<Rightarrow> rng \<Rightarrow> (string \<rightharpoonup> int) \<times> rng" where
  "randomizedHoldings pf symbols r =
     (let ss = sort symbols in
      if symbols = [] \<or> base_total pf ss \<le> 0 then (Map.empty, r)
      else (case holdings_target pf ss r of
              (target, r1) \<Rightarrow>
                (case draw_weights pf ss (Map.empty, 0) r1 of
                   ((w, weight_sum), r2) \<Rightarrow>
                     (share_out (share_of w (if weight_sum = 0 then 1 else weight_sum) target) ss target Map.empty, r2))))"

definition Assign :: "role_stats \<Rightarrow> string list \<Rightarrow> allocator \<Rightarrow> assignment \<times> allocator" where
  "Assign st symbols a =
     (case pickRole st (al_rng a) of
        (ro, r1) \<Rightarrow>
          (let pf = profileFor (al_config a) ro in
           case randomizedBudget (pf_cash pf) (pf_variance_pct pf) r1 of
             (cash, r2) \<Rightarrow>
               (case randomizedHoldings pf symbols r2 of
                  (holdings, r3) \<Rightarrow> (\<lparr>as_role = ro, as_cash = cash, as_holdings = holdings\<rparr>, a\<lparr>al_rng := r3\<rparr>))))"

end
