(* ===== verification/RoleProps.thy ===== *)
theory RoleProps
  imports Roles
begin

text \<open>
  Facts about the allocator: buyers and holders stay in balance and whales rare, whatever the
  generator draws; budgets and holdings are never negative.
\<close>

section \<open>Balance of the roles\<close>

text \<open>The counts after any number of assignments, each made on the counts so far.\<close>

inductive assigned :: "role_stats \<Rightarrow> bool" where
  assigned_none: "assigned \<lparr>rs_buyers = 0, rs_holders = 0, rs_whales = 0\<rparr>"
| assigned_next: "assigned st \<Longrightarrow> rng_ok r \<Longrightarrow> pickRole st r = (ro, r') \<Longrightarrow> assigned (count_role st (role_name ro))"

definition balanced :: "role_stats \<Rightarrow> bool" where
  "balanced st \<longleftrightarrow> 0 \<le> rs_buyers st \<and> 0 \<le> rs_holders st \<and> 0 \<le> rs_whales st \<and>
     \<bar>rs_buyers st - rs_holders st\<bar> \<le> 2 \<and>
     10 * rs_whales st \<le> rs_buyers st + rs_holders st + rs_whales st + 9"

definition small_stats :: "role_stats \<Rightarrow> bool" where
  "small_stats st \<longleftrightarrow> rs_buyers st + rs_holders st + rs_whales st < 2 ^ 50"

lemma pick_balanced_cases:
  assumes "rng_ok r" "balanced st" "small_stats st" "pick_balanced st r = (ro, r')"
  shows "rng_ok r' \<and> ro \<noteq> RoleWhale \<and> (rs_buyers st - rs_holders st = 2 \<longrightarrow> ro = RoleHolder) \<and>
     (rs_holders st - rs_buyers st = 2 \<longrightarrow> ro = RoleBuyer)"
proof -
  have "sub64 (rs_buyers st) (rs_holders st) = rs_buyers st - rs_holders st"
    using assms(2,3) by (intro sub64_exact) (auto simp: balanced_def small_stats_def in64_def)
  then show ?thesis
    using assms rand_Intn_ok [OF assms(1), of 2]
    by (auto simp: pick_balanced_def Let_def balanced_def split: if_splits option.splits prod.splits)
qed

lemma whale_ratio_small:
  assumes "balanced st" "small_stats st" "whale_ratio st < rnd (1 / 10)"
  shows "10 * rs_whales st \<le> rs_buyers st + rs_holders st + rs_whales st"
proof (rule ccontr)
  assume "\<not> ?thesis"
  then have gt: "rs_buyers st + rs_holders st + rs_whales st < 10 * rs_whales st" by simp
  let ?n = "rs_buyers st + rs_holders st + rs_whales st"
  have nn: "0 \<le> rs_buyers st" "0 \<le> rs_holders st" "0 \<le> rs_whales st" "?n < 2 ^ 50"
    using assms(1,2) by (auto simp: balanced_def small_stats_def)
  then have n: "add64 (add64 (rs_buyers st) (rs_holders st)) (rs_whales st) = ?n" by (simp add: int64_simps in64_def)
  have pos: "0 < ?n" using gt nn by linarith
  have "(1::rat) / 10 \<le> of_int (rs_whales st) / of_int ?n"
  proof -
    have "(of_int ?n :: rat) \<le> of_int (10 * rs_whales st)" using gt by (simp only: of_int_le_iff)
    then show ?thesis using pos by (simp add: field_simps)
  qed
  then have "rnd (1 / 10) \<le> rnd (of_int (rs_whales st) / of_int ?n)" by (rule rnd_mono)
  also have "\<dots> = whale_ratio st"
    using nn pos by (simp add: whale_ratio_def n fdiv_def del: of_int_add)
  finally show False using assms(3) by simp
qed

lemma pickRole_balanced:
  assumes "balanced st" "small_stats st" "rng_ok r" "pickRole st r = (ro, r')"
  shows "balanced (count_role st (role_name ro))"
proof (cases "ro = RoleWhale")
  case True
  then have "whale_ratio st < rnd (1 / 10)"
    using assms(4) pick_balanced_cases [OF assms(3,1,2)]
    by (auto simp: pickRole_def split: if_splits)
  then show ?thesis
    using whale_ratio_small [OF assms(1,2)] assms(1) True by (auto simp: balanced_def role_name_def count_role_def)
next
  case False
  obtain s s' where "rng_ok s" "pick_balanced st s = (ro, s')"
    using assms(3,4) False rand_Float64_ok [OF assms(3)] by (auto simp: pickRole_def split: if_splits prod.splits)
  from pick_balanced_cases [OF this(1) assms(1,2) this(2)] show ?thesis
    using assms(1) False by (cases ro) (auto simp: balanced_def role_name_def count_role_def)
qed

lemma small_count: "0 \<le> rs_buyers st \<Longrightarrow> small_stats (count_role st (role_name ro)) \<Longrightarrow> small_stats st"
  by (cases ro) (auto simp: small_stats_def role_name_def count_role_def)

text \<open>C40: However many players join, the counts of buyers and holders never differ by more than two and
  at most every tenth player (and one more) is a whale.\<close>
theorem pickRole_keeps_balance:
  assumes "assigned st" and "rs_buyers st + rs_holders st + rs_whales st < 2 ^ 50"
  shows "\<bar>rs_buyers st - rs_holders st\<bar> \<le> 2 \<and> 10 * rs_whales st \<le> rs_buyers st + rs_holders st + rs_whales st + 9"
proof -
  have "small_stats st \<longrightarrow> balanced st" using assms(1)
  proof (induction rule: assigned.induct)
    case assigned_none
    then show ?case by (simp add: balanced_def)
  next
    case (assigned_next st r ro r')
    have "small_stats (count_role st (role_name ro)) \<Longrightarrow> small_stats st"
      by (cases ro) (auto simp: small_stats_def role_name_def count_role_def)
    then show ?case using assigned_next pickRole_balanced by blast
  qed
  then show ?thesis using assms(2) by (simp add: small_stats_def balanced_def)
qed

theorem pickRole_keeps_balance_witness:
  "assigned \<lparr>rs_buyers = 0, rs_holders = 1, rs_whales = 0\<rparr> \<and>
   \<bar>rs_buyers \<lparr>rs_buyers = 0, rs_holders = 1, rs_whales = 0\<rparr> - 1\<bar> \<le> 2"
proof -
  have "fst (pickRole \<lparr>rs_buyers = 0, rs_holders = 0, rs_whales = 0\<rparr> demo_rng) = RoleHolder" by code_simp
  then obtain r' where "pickRole \<lparr>rs_buyers = 0, rs_holders = 0, rs_whales = 0\<rparr> demo_rng = (RoleHolder, r')"
    by (metis prod.collapse)
  from assigned_next [OF assigned_none demo_rng_ok this]
  have a: "assigned \<lparr>rs_buyers = 0, rs_holders = 1, rs_whales = 0\<rparr>" by (simp add: count_role_def role_name_def)
  show ?thesis using a pickRole_keeps_balance [OF a] by simp
qed

section \<open>Budgets and holdings\<close>

lemma spread_value_bounds:
  assumes "0 < base" "base < 2 ^ 50" "0 \<le> variance" "variance \<le> 100" "0 \<le> x" "x < 1"
  shows "0 \<le> spread_value base variance x \<and> spread_value base variance x \<le> of_int (2 * base)"
proof -
  have b: "of_i64 base = of_int base" "of_i64 variance = of_int variance" using assms(1-4) by simp_all
  have "0 \<le> fmul x 2 \<and> fmul x 2 \<le> 2" using rnd_between [of 0 "x * 2" 2] assms(5,6) by (simp add: fmul_def)
  then have u: "- 1 \<le> fsub (fmul x 2) 1 \<and> fsub (fmul x 2) 1 \<le> 1"
    using rnd_between [of "- 1" "fmul x 2 - 1" 1] by (simp add: fsub_def)
  have v: "0 \<le> fdiv (of_int variance) 100 \<and> fdiv (of_int variance) 100 \<le> 1"
    using rnd_between [of 0 "of_int variance / 100" 1] assms(3,4) by (simp add: fdiv_def)
  have bb: "0 < (of_int base :: rat)" using assms(1) by simp
  have "of_int base * fdiv (of_int variance) 100 \<le> of_int base * 1" using bb v by (intro mult_left_mono) auto
  moreover have "0 \<le> of_int base * fdiv (of_int variance) 100" using bb v by simp
  ultimately have s: "0 \<le> fmul (of_int base) (fdiv (of_int variance) 100) \<and> fmul (of_int base) (fdiv (of_int variance) 100) \<le> of_int base"
    using rnd_between [of 0 "of_int base * fdiv (of_int variance) 100" base] assms(1,2) by (simp add: fmul_def)
  let ?s = "fmul (of_int base) (fdiv (of_int variance) 100)" and ?u = "fsub (fmul x 2) 1"
  have "\<bar>?u * ?s\<bar> \<le> 1 * of_int base" unfolding abs_mult using u s by (intro mult_mono) auto
  then have w: "- of_int base \<le> fmul ?u ?s \<and> fmul ?u ?s \<le> of_int base"
    using rnd_between [of "- base" "?u * ?s" base] assms(1,2) by (simp add: fmul_def abs_le_iff)
  then have "0 \<le> fadd (of_int base) (fmul ?u ?s) \<and> fadd (of_int base) (fmul ?u ?s) \<le> of_int (2 * base)"
    using rnd_between [of 0 "of_int base + fmul ?u ?s" "2 * base"] assms(1,2) by (simp add: fadd_def)
  then show ?thesis by (simp add: spread_value_def b Let_def)
qed

lemma randomizedBudget_bounds:
  assumes "rng_ok r" "base < 2 ^ 50" "0 \<le> variance" "variance \<le> 100" "randomizedBudget base variance r = (n, r')"
  shows "rng_ok r' \<and> 0 \<le> n \<and> n \<le> max 0 (2 * base)"
proof (cases "base \<le> 0")
  case False
  obtain x r1 where x: "rand_Float64 r = (x, r1)" by fastforce
  have ok: "rng_ok r1" "0 \<le> x" "x < 1" using rand_Float64_ok [OF assms(1) x] by auto
  let ?v = "spread_value base variance x"
  have v: "0 \<le> ?v" "?v \<le> of_int (2 * base)"
    using spread_value_bounds [of base variance x] False assms(2-4) ok by auto
  have "half_away 0 \<le> half_away ?v" "half_away ?v \<le> 2 * base"
    using half_away_mono [OF v(1)] half_away_mono [OF v(2)] by (simp_all only: half_away_of_int)
  moreover have "half_away 0 = 0" using half_away_of_int [of 0] by simp
  ultimately have h: "0 \<le> half_away ?v" "half_away ?v \<le> 2 * base" by simp_all
  then have "to_i64 (go_round ?v) = half_away ?v" using assms(2) by (intro to_i64_round) (simp add: in64_def)
  then show ?thesis using assms(5) False x ok h by (auto simp: randomizedBudget_def)
qed (use assms in \<open>auto simp: randomizedBudget_def\<close>)

lemma share_out_ok:
  assumes "\<forall>s. 0 \<le> getz m s"
  shows "(\<forall>s. 0 \<le> getz (share_out share ss remaining m) s) \<and> dom (share_out share ss remaining m) = dom m \<union> set ss"
  using assms by (induction share ss remaining m rule: share_out.induct) (auto simp: Let_def)

lemma draw_weights_ok: "rng_ok r \<Longrightarrow> draw_weights pf ss acc r = (x, r') \<Longrightarrow> rng_ok r'"
proof (induction ss arbitrary: acc r)
  case (Cons s ss)
  then show ?case using rand_Float64_ok [OF Cons.prems(1)] by (cases acc) (auto simp: Let_def split: prod.splits)
qed simp

text \<open>A new player gets the profile of the role drawn: cash between nothing and twice the profile's,
  never negative, and a holding that is not negative of every listed ticker or none at all.\<close>
theorem Assign_grants:
  assumes "rng_ok (al_rng a)" and "pf = profileFor (al_config a) (as_role g)"
    and "pf_cash pf < 2 ^ 50" and "0 \<le> pf_variance_pct pf" and "pf_variance_pct pf \<le> 100"
    and "Assign st symbols a = (g, a')"
  shows "0 \<le> as_cash g \<and> as_cash g \<le> max 0 (2 * pf_cash pf) \<and> (\<forall>s. 0 \<le> getz (as_holdings g) s) \<and>
     (dom (as_holdings g) = set symbols \<or> as_holdings g = Map.empty)"
proof -
  obtain ro r1 where ro: "pickRole st (al_rng a) = (ro, r1)" by fastforce
  obtain cash r2 where cash: "randomizedBudget (pf_cash (profileFor (al_config a) ro)) (pf_variance_pct (profileFor (al_config a) ro)) r1 = (cash, r2)"
    by fastforce
  obtain h r3 where h: "randomizedHoldings (profileFor (al_config a) ro) symbols r2 = (h, r3)" by fastforce
  have g: "g = \<lparr>as_role = ro, as_cash = cash, as_holdings = h\<rparr>"
    using assms(6) by (simp add: Assign_def ro cash h Let_def)
  have "rng_ok r1" using ro assms(1) rand_Float64_ok [OF assms(1)] rand_Intn_ok
    by (auto simp: pickRole_def pick_balanced_def Let_def split: if_splits prod.splits option.splits)
  then have c: "0 \<le> cash \<and> cash \<le> max 0 (2 * pf_cash pf)"
    using randomizedBudget_bounds [OF _ _ _ _ cash] assms(2-5) by (simp add: g)
  have "(\<forall>s. 0 \<le> getz h s) \<and> (dom h = set symbols \<or> h = Map.empty)"
  proof -
    have "h = Map.empty \<or> (\<exists>f t. h = share_out f (sort symbols) t Map.empty)"
      using h by (auto simp: randomizedHoldings_def Let_def split: if_splits prod.splits)
    then show ?thesis using share_out_ok [of Map.empty _ "sort symbols"] by fastforce
  qed
  with c show ?thesis by (simp add: g)
qed

definition demo_allocator :: allocator where
  "demo_allocator = (let pf = \<lparr>pf_cash = 1000, pf_base_holdings = [''*'' \<mapsto> 10], pf_variance_pct = 20, pf_whale_influence = 0\<rparr>
     in \<lparr>al_config = \<lparr>cfg_buyer = pf, cfg_holder = pf, cfg_whale = pf\<rparr>, al_rng = demo_rng\<rparr>)"

theorem Assign_grants_witness:
  "0 \<le> as_cash (fst (Assign \<lparr>rs_buyers = 3, rs_holders = 1, rs_whales = 0\<rparr> [''B'', ''A''] demo_allocator))"
  using Assign_grants [of demo_allocator _ "fst (Assign \<lparr>rs_buyers = 3, rs_holders = 1, rs_whales = 0\<rparr> [''B'', ''A''] demo_allocator)",
      OF _ refl _ _ _ prod.collapse [symmetric]] demo_rng_ok
  by (simp add: demo_allocator_def profileFor_def Let_def split: role.splits)

end
