(* ===== verification/Scan.thy ===== *)
theory Scan
  imports Rand "HOL-Library.Sublist"
begin

text \<open>
  What the program uses of \<^verbatim>\<open>fmt.Sscanf\<close>, \<^verbatim>\<open>regexp\<close> and \<^verbatim>\<open>strings.NewReplacer\<close>, on ASCII text, and the two
  readers of multiplier ranges built on them: \<^verbatim>\<open>ParseRange\<close> of
  \<^verbatim>\<open>internal/marketevents/engine.go\<close> and \<^verbatim>\<open>parseRange\<close> of \<^verbatim>\<open>internal/intel/engine.go\<close>.
\<close>

section \<open>Scanning numbers\<close>

definition newline :: char where "newline = CHR 0x0A"

definition skip_space :: "string \<Rightarrow> string" where
  "skip_space s = dropWhile (\<lambda>c. is_space c \<and> c \<noteq> newline) s"

definition scan_digits :: "int \<Rightarrow> string \<Rightarrow> (int \<times> string) option" where
  "scan_digits sign s =
     (let ds = takeWhile is_digit s; v = sign * int (read_nat ds) in
      if ds = [] \<or> \<not> in64 v then None else Some (v, dropWhile is_digit s))"

text \<open>The verb \<^verbatim>\<open>%d\<close>: the number and the input left.\<close>

definition scan_int :: "string \<Rightarrow> (int \<times> string) option" where
  "scan_int s =
     (case skip_space s of
        [] \<Rightarrow> None
      | c # rest \<Rightarrow>
          (if c = newline then None
           else if c = CHR ''-'' then scan_digits (- 1) rest
           else if c = CHR ''+'' then scan_digits 1 rest
           else scan_digits 1 (c # rest)))"

text \<open>The formats \<^verbatim>\<open>"%d %d"\<close> and \<^verbatim>\<open>"%d-%d"\<close>. Input left over is not an error.\<close>

definition scan_two :: "string \<Rightarrow> (int \<times> int) option" where
  "scan_two s =
     (case scan_int s of None \<Rightarrow> None
      | Some (a, rest) \<Rightarrow> (case scan_int rest of None \<Rightarrow> None | Some (b, _) \<Rightarrow> Some (a, b)))"

definition scan_dash :: "string \<Rightarrow> (int \<times> int) option" where
  "scan_dash s =
     (case scan_int s of
        Some (a, c # rest) \<Rightarrow>
          (if c = CHR ''-'' then (case scan_int rest of None \<Rightarrow> None | Some (b, _) \<Rightarrow> Some (a, b)) else None)
      | _ \<Rightarrow> None)"

text \<open>The regular expression \<^verbatim>\<open>^(-?\d+)-(-?\d+)$\<close>.\<close>

definition split_number :: "string \<Rightarrow> string \<times> string" where
  "split_number s =
     (case s of
        c # rest \<Rightarrow> (if c = CHR ''-'' then (c # takeWhile is_digit rest, dropWhile is_digit rest)
                     else (takeWhile is_digit s, dropWhile is_digit s))
      | [] \<Rightarrow> ([], []))"

definition is_number :: "string \<Rightarrow> bool" where
  "is_number s \<longleftrightarrow> s \<noteq> [] \<and> s \<noteq> ''-''"

definition match_range :: "string \<Rightarrow> (string \<times> string) option" where
  "match_range s =
     (case split_number s of
        (a, c # rest) \<Rightarrow>
          (if c = CHR ''-'' \<and> is_number a
           then (case split_number rest of (b, t) \<Rightarrow> if is_number b \<and> t = [] then Some (a, b) else None)
           else None)
      | (a, []) \<Rightarrow> None)"

section \<open>Multiplier ranges\<close>

record range_pct =
  rg_min :: int
  rg_max :: int

definition ordered_range :: "int \<Rightarrow> int \<Rightarrow> range_pct" where
  "ordered_range a b = (if a > b then \<lparr>rg_min = b, rg_max = a\<rparr> else \<lparr>rg_min = a, rg_max = b\<rparr>)"

definition ParseRange :: "string \<Rightarrow> range_pct option" where
  "ParseRange s =
     (let v = trim_space s in
      case match_range v of
        Some (a, b) \<Rightarrow>
          (case scan_two (a @ '' '' @ b) of None \<Rightarrow> None | Some (x, y) \<Rightarrow> Some (ordered_range x y))
      | None \<Rightarrow>
          (case scan_int v of None \<Rightarrow> None | Some (x, _) \<Rightarrow> Some \<lparr>rg_min = x, rg_max = x\<rparr>))"

text \<open>The loop over the dashes of the text in the reader of the intel engine; \<open>left\<close> is what is before the
  position reached.\<close>

fun split_at_dash :: "string \<Rightarrow> string \<Rightarrow> range_pct option" where
  "split_at_dash left [] = None"
| "split_at_dash left (c # rest) =
     (if c \<noteq> CHR ''-'' \<or> trim_space left = [] \<or> trim_space rest = [] then split_at_dash (left @ [c]) rest
      else (case (scan_int left, scan_int rest) of
              (Some (a, _), Some (b, _)) \<Rightarrow> Some (ordered_range a b)
            | _ \<Rightarrow> split_at_dash (left @ [c]) rest))"

definition intel_parseRange :: "string \<Rightarrow> range_pct option" where
  "intel_parseRange s =
     (let v = trim_space s in
      if v = [] then Some \<lparr>rg_min = 0, rg_max = 0\<rparr>
      else (case scan_dash v of
              Some (a, b) \<Rightarrow> Some (ordered_range a b)
            | None \<Rightarrow>
                (case (if length (filter (\<lambda>c. c = CHR ''-'') v) \<ge> 2 then split_at_dash [hd v] (tl v) else None) of
                   Some r \<Rightarrow> Some r
                 | None \<Rightarrow> (case scan_int v of None \<Rightarrow> None | Some (x, _) \<Rightarrow> Some \<lparr>rg_min = x, rg_max = x\<rparr>))))"

section \<open>Templates\<close>

definition strip :: "string \<Rightarrow> string \<Rightarrow> string option" where
  "strip p s = (if prefix p s then Some (drop (length p) s) else None)"

text \<open>A \<^verbatim>\<open>strings.Replacer\<close>: at every position the first pair whose old text is there is replaced, and the
  scan goes on behind it. A pair with an empty old text is not used here.\<close>

fun first_match :: "(string \<times> string) list \<Rightarrow> string \<Rightarrow> (string \<times> string) option" where
  "first_match [] s = None"
| "first_match ((old, new) # ps) s =
     (if old \<noteq> [] \<and> prefix old s then Some (new, drop (length old) s) else first_match ps s)"

lemma first_match_shorter: "first_match ps s = Some (new, rest) \<Longrightarrow> length rest < length s"
  by (induction ps s rule: first_match.induct)
    (auto split: if_splits dest: prefix_length_le, metis diff_less length_greater_0_conv order_less_le_trans prefix_length_le)

function replace_all :: "(string \<times> string) list \<Rightarrow> string \<Rightarrow> string" where
  "replace_all ps s =
     (case first_match ps s of
        Some (new, rest) \<Rightarrow> new @ replace_all ps rest
      | None \<Rightarrow> (case s of [] \<Rightarrow> [] | c # rest \<Rightarrow> c # replace_all ps rest))"
  by pat_completeness auto
termination by (relation "measure (length \<circ> snd)") (auto dest: first_match_shorter)

declare replace_all.simps [simp del]

definition renderTemplate :: "string \<Rightarrow> string \<Rightarrow> int \<Rightarrow> string" where
  "renderTemplate template symbol multiplier =
     replace_all [(''<ticker>'', symbol), (''<TICKER>'', symbol), (''<multiplier>'', show_int multiplier)] template"

end
