(* ===== verification/ScanProps.thy ===== *)
theory ScanProps
  imports Scan
begin

text \<open>
  Reading back what \<^verbatim>\<open>%d\<close> prints, and the two readers of multiplier ranges compared: they agree on
  every printed range, and differ only on texts that are not of the documented form.
\<close>

section \<open>Numbers\<close>

lemma takeWhile_digits: "(\<forall>c \<in> set ds. is_digit c) \<Longrightarrow> (case rest of [] \<Rightarrow> True | c # _ \<Rightarrow> \<not> is_digit c) \<Longrightarrow>
    takeWhile is_digit (ds @ rest) = ds \<and> dropWhile is_digit (ds @ rest) = rest"
  by (cases rest) simp_all

lemma scan_digits_show:
  assumes "case rest of [] \<Rightarrow> True | c # _ \<Rightarrow> \<not> is_digit c" "in64 (sign * int n)"
  shows "scan_digits sign (show_nat n @ rest) = Some (sign * int n, rest)"
  using takeWhile_digits [OF show_nat_digits assms(1), of n] assms(2) by (simp add: scan_digits_def Let_def)

lemma digit_not_space: "is_digit c \<Longrightarrow> \<not> is_space c \<and> c \<noteq> newline \<and> c \<noteq> CHR ''-'' \<and> c \<noteq> CHR ''+''"
  by (auto simp: is_digit_def is_space_def newline_def)

lemma show_nat_Cons: "\<exists>c t. show_nat n = c # t \<and> is_digit c"
  using show_nat_digits [of n] by (cases "show_nat n") auto

lemma minus_char: "\<not> is_space CHR ''-''" "CHR ''-'' \<noteq> newline" "\<not> is_digit CHR ''-''"
  by (simp_all add: is_space_def newline_def is_digit_def)

lemma scan_int_show:
  assumes "case rest of [] \<Rightarrow> True | c # _ \<Rightarrow> \<not> is_digit c" "in64 i"
  shows "scan_int (show_int i @ rest) = Some (i, rest)"
proof (cases "i < 0")
  case True
  then have "scan_digits (- 1) (show_nat (nat (- i)) @ rest) = Some (- 1 * int (nat (- i)), rest)"
    using assms by (intro scan_digits_show) auto
  then show ?thesis using True minus_char by (simp add: show_int_def scan_int_def skip_space_def)
next
  case False
  obtain c t where c: "show_nat (nat i) = c # t" "is_digit c" using show_nat_Cons by blast
  have "scan_digits 1 (show_nat (nat i) @ rest) = Some (1 * int (nat i), rest)"
    using assms False by (intro scan_digits_show) auto
  then show ?thesis using False c digit_not_space [OF c(2)] by (simp add: show_int_def scan_int_def skip_space_def)
qed

lemma scan_int_space: "scan_int (CHR '' '' # s) = scan_int s"
  by (simp add: scan_int_def skip_space_def is_space_def newline_def)

lemma show_int_ends: "\<exists>c t. show_int i = c # t \<and> \<not> is_space c" "\<exists>c t. show_int i = t @ [c] \<and> \<not> is_space c"
proof -
  have d: "\<forall>c \<in> set (show_int i). is_digit c \<or> c = CHR ''-''"
    using show_nat_digits by (auto simp: show_int_def)
  then have s: "\<forall>c \<in> set (show_int i). \<not> is_space c" using digit_not_space minus_char by blast
  have ne: "show_int i \<noteq> []" by (simp add: show_int_def)
  show "\<exists>c t. show_int i = c # t \<and> \<not> is_space c" using ne s by (cases "show_int i") auto
  show "\<exists>c t. show_int i = t @ [c] \<and> \<not> is_space c" using ne s by (cases "show_int i" rule: rev_cases) auto
qed

lemma trim_space_id: "\<not> is_space c \<Longrightarrow> \<not> is_space d \<Longrightarrow> trim_space (c # t @ [d]) = c # t @ [d]"
  by (simp add: trim_space_def)

lemma trim_space_single: "\<not> is_space c \<Longrightarrow> trim_space [c] = [c]"
  by (simp add: trim_space_def)

section \<open>Ranges\<close>

definition show_range :: "int \<Rightarrow> int \<Rightarrow> string" where
  "show_range a b = show_int a @ CHR ''-'' # show_int b"

lemma trim_show_range: "trim_space (show_range a b) = show_range a b"
proof -
  obtain c t where a: "show_int a = c # t" "\<not> is_space c" using show_int_ends(1) by blast
  obtain d u where b: "show_int b = u @ [d]" "\<not> is_space d" using show_int_ends(2) by blast
  show ?thesis using trim_space_id [OF a(2) b(2), of "t @ CHR ''-'' # u"] by (simp add: show_range_def a b)
qed

lemma split_number_show:
  assumes "case rest of [] \<Rightarrow> True | c # _ \<Rightarrow> \<not> is_digit c"
  shows "split_number (show_int i @ rest) = (show_int i, rest)"
proof (cases "i < 0")
  case True
  then show ?thesis using takeWhile_digits [OF show_nat_digits assms] by (simp add: show_int_def split_number_def)
next
  case False
  obtain c t where c: "show_nat (nat i) = c # t" "is_digit c" using show_nat_Cons by blast
  then show ?thesis using False takeWhile_digits [OF show_nat_digits assms, of "nat i"] digit_not_space [OF c(2)]
    by (simp add: show_int_def split_number_def)
qed

lemma is_number_show [simp]: "is_number (show_int i)"
proof (cases "i < 0")
  case False
  obtain c t where "show_nat (nat i) = c # t" "is_digit c" using show_nat_Cons by blast
  then show ?thesis using False digit_not_space by (auto simp: is_number_def show_int_def)
qed (simp add: is_number_def show_int_def)

lemma match_show_range: "match_range (show_range a b) = Some (show_int a, show_int b)"
  using split_number_show [of "CHR ''-'' # show_int b" a] split_number_show [of "[]" b] minus_char
  by (simp add: match_range_def show_range_def)

text \<open>A round trip: the range reader of the market events gives back, in order, the two bounds any
  range is printed with, negative ones included, and the reader of the intel engine reads the
  same range.\<close>
theorem ParseRange_roundtrip:
  assumes "in64 a" and "in64 b"
  shows "ParseRange (show_range a b) = Some \<lparr>rg_min = min a b, rg_max = max a b\<rparr> \<and>
     intel_parseRange (show_range a b) = ParseRange (show_range a b)"
proof -
  have o: "ordered_range a b = \<lparr>rg_min = min a b, rg_max = max a b\<rparr>" by (simp add: ordered_range_def min_def max_def)
  have "scan_two (show_int a @ '' '' @ show_int b) = Some (a, b)"
    using scan_int_show [of "'' '' @ show_int b" a] scan_int_show [of "[]" b] assms
    by (simp add: scan_two_def scan_int_space is_digit_def)
  then have p: "ParseRange (show_range a b) = Some (ordered_range a b)"
    by (simp add: ParseRange_def trim_show_range match_show_range)
  have "scan_dash (show_range a b) = Some (a, b)"
    using scan_int_show [of "CHR ''-'' # show_int b" a] scan_int_show [of "[]" b] assms minus_char
    by (simp add: scan_dash_def show_range_def)
  then have "intel_parseRange (show_range a b) = Some (ordered_range a b)"
    by (simp add: intel_parseRange_def trim_show_range) (simp add: show_range_def)
  with p o show ?thesis by simp
qed

theorem ParseRange_roundtrip_witness:
  "ParseRange (show_range 20 (- 35)) = Some \<lparr>rg_min = - 35, rg_max = 20\<rparr>"
  using ParseRange_roundtrip [of 20 "- 35"] by (simp add: in64_def)

text \<open>A range written with spaces is not refused: both readers take its first number for both bounds.
  An empty text is refused by one reader and the range from 0 to 0 for the other.\<close>
theorem ParseRange_lenient:
  "ParseRange ''5 - 10'' = Some \<lparr>rg_min = 5, rg_max = 5\<rparr> \<and> intel_parseRange ''5 - 10'' = Some \<lparr>rg_min = 5, rg_max = 5\<rparr> \<and>
   ParseRange [] = None \<and> intel_parseRange [] = Some \<lparr>rg_min = 0, rg_max = 0\<rparr>"
  by code_simp

lemma ParseRange_in64: "ParseRange s = Some g \<Longrightarrow> in64 (rg_min g) \<and> in64 (rg_max g) \<and> rg_min g \<le> rg_max g"
proof -
  have d: "scan_digits sg t = Some (v, u) \<Longrightarrow> in64 v" for sg t v u
    by (auto simp: scan_digits_def Let_def split: if_splits)
  have i: "scan_int t = Some (v, u) \<Longrightarrow> in64 v" for t v u
    by (auto simp: scan_int_def d split: list.splits if_splits)
  show "ParseRange s = Some g \<Longrightarrow> in64 (rg_min g) \<and> in64 (rg_max g) \<and> rg_min g \<le> rg_max g"
    by (auto simp: ParseRange_def scan_two_def ordered_range_def Let_def i split: option.splits prod.splits if_splits)
qed

end
