(* ===== verification/MarketEvents.thy ===== *)
theory MarketEvents
  imports Scan Exchange
begin

text \<open>
  The planner of random market events (\<^verbatim>\<open>internal/marketevents/engine.go\<close>): one event is planned ahead,
  and a step of the polling loop plans it, or fires it once its time has come and plans the next.

  \<open>tickers\<close> is what \<^verbatim>\<open>ListTickers\<close> returns during the call. The result of a planning operation is \<open>None\<close>
  where the code panics (a bound of \<^verbatim>\<open>Intn\<close> that is not positive).
\<close>

section \<open>Data\<close>

record event_definition =
  ed_name :: string
  ed_message :: string
  ed_chance :: f64
  ed_market_multiplier :: string
  ed_duration_seconds :: int
  ed_global :: bool

record prepared_event =
  pv_def :: event_definition
  pv_multiplier :: range_pct

record planned_event =
  pl_id :: string
  pl_kind :: string
  pl_event_name :: string
  pl_message :: string
  pl_global :: bool
  pl_symbol :: string
  pl_multiplier_pct :: int
  pl_duration :: duration
  pl_duration_seconds :: int
  pl_scheduled_at :: time

record events_engine =
  me_interval :: duration
  me_rng :: rng
  me_defs :: "prepared_event list"
  me_planned :: "planned_event option"
  me_next_seq :: int

datatype events_error = EventNameRequired | EventBadRange string string

section \<open>Construction\<close>

fun prepare_events :: "event_definition list \<Rightarrow> events_error + prepared_event list" where
  "prepare_events [] = Inr []"
| "prepare_events (d # ds) =
     (if ed_name d = [] then Inl EventNameRequired
      else (let d' = (if ed_duration_seconds d \<le> 0 then d\<lparr>ed_duration_seconds := 30\<rparr> else d) in
            case ParseRange (ed_market_multiplier d') of
              None \<Rightarrow> Inl (EventBadRange (ed_name d') (ed_market_multiplier d'))
            | Some g \<Rightarrow>
                (case prepare_events ds of
                   Inl e \<Rightarrow> Inl e
                 | Inr ps \<Rightarrow> Inr (\<lparr>pv_def = d', pv_multiplier = g\<rparr> # ps))))"

definition NewEventsEngine :: "duration \<Rightarrow> event_definition list \<Rightarrow> rng \<Rightarrow> events_error + events_engine" where
  "NewEventsEngine interval ds r =
     (case prepare_events ds of
        Inl e \<Rightarrow> Inl e
      | Inr ps \<Rightarrow>
          Inr \<lparr>me_interval = (if interval \<le> 0 then 30 * second else interval), me_rng = r, me_defs = ps,
               me_planned = None, me_next_seq = 0\<rparr>)"

definition PeekNext :: "events_engine \<Rightarrow> planned_event option" where
  "PeekNext e = me_planned e"

definition poll_period :: "events_engine \<Rightarrow> duration" where
  "poll_period e = (let p = quot64 (me_interval e) 4 in if p \<le> 0 \<or> p > second then second else p)"

section \<open>Planning\<close>

definition chance_total :: "prepared_event list \<Rightarrow> f64" where
  "chance_total ds = foldl (\<lambda>t d. if ed_chance (pv_def d) > 0 then fadd t (ed_chance (pv_def d)) else t) 0 ds"

fun roll_definition :: "f64 \<Rightarrow> f64 \<Rightarrow> prepared_event list \<Rightarrow> prepared_event option" where
  "roll_definition roll cumulative [] = None"
| "roll_definition roll cumulative (d # ds) =
     (if ed_chance (pv_def d) \<le> 0 then roll_definition roll cumulative ds
      else (let c = fadd cumulative (ed_chance (pv_def d))
            in if roll \<le> c then Some d else roll_definition roll c ds))"

definition chooseDefinitionLocked :: "events_engine \<Rightarrow> prepared_event option \<times> events_engine" where
  "chooseDefinitionLocked e =
     (if chance_total (me_defs e) \<le> 0 then (None, e)
      else (case rand_Float64 (me_rng e) of
              (x, r) \<Rightarrow>
                ((case roll_definition (fmul x (chance_total (me_defs e))) 0 (me_defs e) of
                    None \<Rightarrow> Some (last (me_defs e))
                  | Some d \<Rightarrow> Some d), e\<lparr>me_rng := r\<rparr>)))"

definition pick_symbol :: "string list \<Rightarrow> bool \<Rightarrow> rng \<Rightarrow> (string \<times> rng) option" where
  "pick_symbol tickers global r =
     (if global then Some ([], r)
      else (case rand_Intn (int (length tickers)) r of
              None \<Rightarrow> None
            | Some (k, r') \<Rightarrow> Some (tickers ! nat k, r')))"

definition make_plan :: "events_engine \<Rightarrow> prepared_event \<Rightarrow> string \<Rightarrow> int \<Rightarrow> time \<Rightarrow> planned_event" where
  "make_plan e d symbol m now =
     (let name = renderTemplate (ed_name (pv_def d)) symbol m;
          message = renderTemplate (ed_message (pv_def d)) symbol m
      in \<lparr>pl_id = ''random-event-'' @ show_int (me_next_seq e), pl_kind = ''random_event'', pl_event_name = name,
          pl_message = (if trim_space message = [] then name else message), pl_global = ed_global (pv_def d),
          pl_symbol = symbol, pl_multiplier_pct = m, pl_duration = mul64 (ed_duration_seconds (pv_def d)) second,
          pl_duration_seconds = ed_duration_seconds (pv_def d), pl_scheduled_at = now + me_interval e\<rparr>)"

definition planLocked :: "string list \<Rightarrow> time \<Rightarrow> events_engine \<Rightarrow> (planned_event option \<times> events_engine) option" where
  "planLocked tickers now e =
     (case chooseDefinitionLocked e of
        (None, e1) \<Rightarrow> Some (None, e1)
      | (Some d, e1) \<Rightarrow>
          (if tickers = [] then Some (None, e1)
           else (case pick_symbol tickers (ed_global (pv_def d)) (me_rng e1) of
                   None \<Rightarrow> None
                 | Some (symbol, r2) \<Rightarrow>
                     (case random_between (rg_min (pv_multiplier d)) (rg_max (pv_multiplier d)) r2 of
                        None \<Rightarrow> None
                      | Some (m, r3) \<Rightarrow>
                          (let e2 = e1\<lparr>me_rng := r3, me_next_seq := add64 (me_next_seq e1) 1\<rparr>
                           in Some (Some (make_plan e2 d symbol m now), e2))))))"

section \<open>A step of the loop\<close>

text \<open>\<open>adopt\<close> plans an event and remembers it; the result is what was planned, if anything.\<close>

definition adopt :: "string list \<Rightarrow> time \<Rightarrow> events_engine \<Rightarrow> (planned_event list \<times> events_engine) option" where
  "adopt tickers now e =
     (case planLocked tickers now e of
        None \<Rightarrow> None
      | Some (None, e') \<Rightarrow> Some ([], e')
      | Some (Some p, e') \<Rightarrow> Some ([p], e'\<lparr>me_planned := Some p\<rparr>))"

definition events_due :: "time \<Rightarrow> events_engine \<Rightarrow> bool" where
  "events_due now e = (case me_planned e of None \<Rightarrow> False | Some p \<Rightarrow> now \<ge> pl_scheduled_at p)"

text \<open>What a step decides under the lock: the events planned, which go to the scheduler in this order, and
  then the event to fire.\<close>

definition events_step ::
  "string list \<Rightarrow> time \<Rightarrow> events_engine \<Rightarrow> ((planned_event list \<times> planned_event option) \<times> events_engine) option" where
  "events_step tickers now e =
     (case (if me_planned e = None then adopt tickers now e else Some ([], e)) of
        None \<Rightarrow> None
      | Some (ps, e1) \<Rightarrow>
          (if events_due now e1
           then (case adopt tickers now (e1\<lparr>me_planned := None\<rparr>) of
                   None \<Rightarrow> None
                 | Some (qs, e2) \<Rightarrow> Some ((ps @ qs, me_planned e1), e2))
           else Some ((ps, None), e1)))"

definition fire_input :: "planned_event \<Rightarrow> shock_input" where
  "fire_input p =
     \<lparr>si_kind = pl_kind p, si_event_name = pl_event_name p, si_message = pl_message p, si_global = pl_global p,
      si_symbol = pl_symbol p, si_multiplier_pct = pl_multiplier_pct p, si_duration = pl_duration p,
      si_occurred_at = pl_scheduled_at p\<rparr>"

definition fire :: "env \<Rightarrow> planned_event \<Rightarrow> exchange \<Rightarrow> exchange" where
  "fire env p x = snd (TriggerMarketEvent env (fire_input p) x)"

end
