(* ===== verification/MarketEventProps.thy ===== *)
theory MarketEventProps
  imports MarketEvents ScanProps
begin

text \<open>
  The planner as a state machine: what a planned event is made of, and that the loop always has the
  next event planned and fires each exactly when it is due.
\<close>

section \<open>The definition drawn\<close>

definition likely :: "prepared_event \<Rightarrow> bool" where
  "likely d \<longleftrightarrow> 0 < ed_chance (pv_def d)"

abbreviation add_chance :: "f64 \<Rightarrow> prepared_event \<Rightarrow> f64" where
  "add_chance \<equiv> (\<lambda>t d. if ed_chance (pv_def d) > 0 then fadd t (ed_chance (pv_def d)) else t)"

lemma unlikely_total: "\<forall>d \<in> set ds. \<not> likely d \<Longrightarrow> foldl add_chance c ds = c"
  by (induction ds arbitrary: c) (auto simp: likely_def)

lemma roll_definition_Some: "roll_definition x c ds = Some d \<Longrightarrow> d \<in> set ds \<and> likely d"
  by (induction x c ds rule: roll_definition.induct) (auto simp: likely_def Let_def split: if_splits)

lemma roll_definition_total:
  "x \<le> foldl add_chance c ds \<Longrightarrow> \<exists>d \<in> set ds. likely d \<Longrightarrow> roll_definition x c ds \<noteq> None"
proof (induction ds arbitrary: c)
  case (Cons d ds)
  show ?case
  proof (cases "likely d")
    case True
    show ?thesis
    proof (cases "\<exists>d \<in> set ds. likely d")
      case True
      then show ?thesis using Cons \<open>likely d\<close> by (auto simp: likely_def Let_def)
    next
      case False
      then have "foldl add_chance (add_chance c d) ds = add_chance c d" by (intro unlikely_total) simp
      then show ?thesis using Cons.prems(1) \<open>likely d\<close> by (auto simp: likely_def Let_def)
    qed
  next
    case False
    then show ?thesis using Cons by (auto simp: likely_def)
  qed
qed simp

lemma rounded_total: "foldl add_chance c ds = c \<or> (\<exists>q. foldl add_chance c ds = rnd q)"
proof (induction ds arbitrary: c)
  case (Cons d ds)
  show ?case using Cons [of "add_chance c d"] by (auto simp: fadd_def split: if_splits)
qed simp

lemma rnd_chance_total: "rnd (chance_total ds) = chance_total ds"
  using rounded_total [of 0 ds] by (auto simp: chance_total_def)

lemma chooseDefinition_likely:
  assumes "rng_ok (me_rng e)" "chooseDefinitionLocked e = (Some d, e')"
  shows "d \<in> set (me_defs e) \<and> likely d"
proof -
  let ?t = "chance_total (me_defs e)"
  have t: "0 < ?t" using assms(2) by (auto simp: chooseDefinitionLocked_def split: if_splits)
  obtain x r where x: "rand_Float64 (me_rng e) = (x, r)" by fastforce
  have "0 \<le> x" "x < 1" using rand_Float64_ok [OF assms(1) x] by auto
  then have "x * ?t \<le> ?t" using t by (simp add: mult_le_cancel_right1)
  then have le: "fmul x ?t \<le> ?t" using rnd_mono [of "x * ?t" ?t] by (simp add: fmul_def rnd_chance_total)
  have "\<exists>d \<in> set (me_defs e). likely d"
    using t unlikely_total [of "me_defs e" 0] by (auto simp: chance_total_def)
  then obtain d' where "roll_definition (fmul x ?t) 0 (me_defs e) = Some d'"
    using roll_definition_total [of "fmul x ?t" 0 "me_defs e"] le by (auto simp: chance_total_def)
  then show ?thesis using assms(2) x t roll_definition_Some by (auto simp: chooseDefinitionLocked_def)
qed

lemma chooseDefinition_state:
  "chooseDefinitionLocked e = (od, e') \<Longrightarrow> \<exists>r. e' = e\<lparr>me_rng := r\<rparr> \<and> (rng_ok (me_rng e) \<longrightarrow> rng_ok r) \<and>
     (od = None \<longleftrightarrow> chance_total (me_defs e) \<le> 0)"
proof -
  assume c: "chooseDefinitionLocked e = (od, e')"
  obtain x r where x: "rand_Float64 (me_rng e) = (x, r)" by fastforce
  show ?thesis
  proof (cases "chance_total (me_defs e) \<le> 0")
    case True
    then show ?thesis using c by (intro exI [of _ "me_rng e"]) (auto simp: chooseDefinitionLocked_def)
  next
    case False
    then show ?thesis using c x rand_Float64_ok [of "me_rng e"]
      by (intro exI [of _ r], cases "roll_definition (fmul x (chance_total (me_defs e))) 0 (me_defs e)")
        (auto simp: chooseDefinitionLocked_def, metis)
  qed
qed

section \<open>The planned event\<close>

definition plan_ok :: "string list \<Rightarrow> events_engine \<Rightarrow> planned_event \<Rightarrow> bool" where
  "plan_ok tickers e p \<longleftrightarrow> (\<exists>d \<in> set (me_defs e). likely d \<and>
     rg_min (pv_multiplier d) \<le> pl_multiplier_pct p \<and> pl_multiplier_pct p \<le> rg_max (pv_multiplier d) \<and>
     pl_global p = ed_global (pv_def d) \<and> pl_duration_seconds p = ed_duration_seconds (pv_def d)) \<and>
     (if pl_global p then pl_symbol p = [] else pl_symbol p \<in> set tickers)"

text \<open>What construction guarantees of the definitions.\<close>

definition defs_ok :: "prepared_event list \<Rightarrow> bool" where
  "defs_ok ds \<longleftrightarrow> (\<forall>d \<in> set ds. in64 (rg_min (pv_multiplier d)) \<and> in64 (rg_max (pv_multiplier d)) \<and>
     rg_min (pv_multiplier d) \<le> rg_max (pv_multiplier d) \<and> 0 < ed_duration_seconds (pv_def d) \<and> ed_name (pv_def d) \<noteq> [])"

definition narrow :: "prepared_event list \<Rightarrow> bool" where
  "narrow ds \<longleftrightarrow> (\<forall>d \<in> set ds. rg_max (pv_multiplier d) - rg_min (pv_multiplier d) < 2 ^ 63 - 1)"

lemma prepare_events_ok: "prepare_events ds = Inr ps \<Longrightarrow> defs_ok ps"
proof (induction ds arbitrary: ps rule: prepare_events.induct)
  case (2 d ds)
  then show ?case using ParseRange_in64 by (auto simp: defs_ok_def Let_def split: if_splits option.splits sum.splits)
qed (simp add: defs_ok_def)

lemma pick_symbol_ok:
  assumes "rng_ok r" "tickers \<noteq> []"
  shows "\<exists>s r'. pick_symbol tickers g r = Some (s, r') \<and> rng_ok r' \<and> (if g then s = [] else s \<in> set tickers)"
proof (cases g)
  case False
  obtain k r' where k: "rand_Intn (int (length tickers)) r = Some (k, r')"
    using rand_Intn_total [of "int (length tickers)" r] assms(2) by auto
  then have "rng_ok r'" "0 \<le> k" "k < int (length tickers)" using rand_Intn_ok [OF assms(1)] by blast+
  then show ?thesis using False k by (auto simp: pick_symbol_def nth_mem nat_less_iff)
qed (simp add: pick_symbol_def assms(1))

lemma planLocked_ok:
  assumes "defs_ok (me_defs e)" "narrow (me_defs e)" "rng_ok (me_rng e)"
  shows "\<exists>op e'. planLocked tickers now e = Some (op, e') \<and> rng_ok (me_rng e') \<and> me_defs e' = me_defs e \<and>
     me_interval e' = me_interval e \<and> me_planned e' = me_planned e \<and>
     (case op of
        None \<Rightarrow> (tickers = [] \<or> chance_total (me_defs e) \<le> 0) \<and> me_next_seq e' = me_next_seq e
      | Some p \<Rightarrow> tickers \<noteq> [] \<and> 0 < chance_total (me_defs e) \<and> plan_ok tickers e p \<and> pl_scheduled_at p = now + me_interval e \<and>
          me_next_seq e' = add64 (me_next_seq e) 1 \<and> pl_id p = ''random-event-'' @ show_int (me_next_seq e'))"
proof -
  obtain od e1 where c: "chooseDefinitionLocked e = (od, e1)" by fastforce
  obtain r where r: "e1 = e\<lparr>me_rng := r\<rparr>" "rng_ok r" "od = None \<longleftrightarrow> chance_total (me_defs e) \<le> 0"
    using chooseDefinition_state [OF c] assms(3) by blast
  show ?thesis
  proof (cases "od = None \<or> tickers = []")
    case True
    then show ?thesis using c r by (cases od) (auto simp: planLocked_def)
  next
    case False
    then obtain d where od: "od = Some d" by auto
    have d: "d \<in> set (me_defs e)" "likely d" using chooseDefinition_likely [OF assms(3)] c od by auto
    obtain s r2 where s: "pick_symbol tickers (ed_global (pv_def d)) r = Some (s, r2)" "rng_ok r2"
        "if ed_global (pv_def d) then s = [] else s \<in> set tickers"
      using pick_symbol_ok [OF r(2)] False by blast
    let ?g = "pv_multiplier d"
    have g: "in64 (rg_min ?g)" "in64 (rg_max ?g)" "rg_min ?g \<le> rg_max ?g" "rg_max ?g - rg_min ?g < 2 ^ 63 - 1"
      using assms(1,2) d(1) by (auto simp: defs_ok_def narrow_def)
    obtain m r3 where m: "random_between (rg_min ?g) (rg_max ?g) r2 = Some (m, r3)" "rng_ok r3" "rg_min ?g \<le> m" "m \<le> rg_max ?g"
      using random_between_ok [OF s(2) g(1,2,4)] g(3) by blast
    have "plan_ok tickers e (make_plan (e1\<lparr>me_rng := r3, me_next_seq := add64 (me_next_seq e1) 1\<rparr>) d s m now)"
      using d s(3) m by (auto simp: plan_ok_def make_plan_def Let_def)
    then show ?thesis using c od False r s m by (simp add: planLocked_def Let_def make_plan_def)
  qed
qed

section \<open>Reachable planners\<close>

definition can_plan :: "string list \<Rightarrow> events_engine \<Rightarrow> bool" where
  "can_plan tickers e \<longleftrightarrow> tickers \<noteq> [] \<and> 0 < chance_total (me_defs e)"

definition events_inv :: "string list \<Rightarrow> events_engine \<Rightarrow> bool" where
  "events_inv tickers e \<longleftrightarrow> defs_ok (me_defs e) \<and> narrow (me_defs e) \<and> rng_ok (me_rng e) \<and> 0 < me_interval e \<and>
     (case me_planned e of None \<Rightarrow> True
      | Some p \<Rightarrow> plan_ok tickers e p \<and> pl_id p = ''random-event-'' @ show_int (me_next_seq e))"

lemma adopt_ok:
  assumes "events_inv tickers e" "me_planned e = None"
  shows "\<exists>ps e'. adopt tickers now e = Some (ps, e') \<and> events_inv tickers e' \<and> me_defs e' = me_defs e \<and>
     me_interval e' = me_interval e \<and>
     (if can_plan tickers e
      then \<exists>p. ps = [p] \<and> me_planned e' = Some p \<and> pl_scheduled_at p = now + me_interval e \<and>
             me_next_seq e' = add64 (me_next_seq e) 1
      else ps = [] \<and> me_planned e' = None)"
proof -
  from assms(1) have i: "defs_ok (me_defs e)" "narrow (me_defs e)" "rng_ok (me_rng e)" by (simp_all add: events_inv_def)
  obtain op e1 where p: "planLocked tickers now e = Some (op, e1)" "rng_ok (me_rng e1)" "me_defs e1 = me_defs e"
     "me_interval e1 = me_interval e" "me_planned e1 = me_planned e"
     "case op of
        None \<Rightarrow> (tickers = [] \<or> chance_total (me_defs e) \<le> 0) \<and> me_next_seq e1 = me_next_seq e
      | Some p \<Rightarrow> tickers \<noteq> [] \<and> 0 < chance_total (me_defs e) \<and> plan_ok tickers e p \<and> pl_scheduled_at p = now + me_interval e \<and>
          me_next_seq e1 = add64 (me_next_seq e) 1 \<and> pl_id p = ''random-event-'' @ show_int (me_next_seq e1)"
    using planLocked_ok [OF i] by blast
  show ?thesis
  proof (cases op)
    case None
    then show ?thesis using p assms by (auto simp: adopt_def events_inv_def can_plan_def)
  next
    case (Some q)
    then have "plan_ok tickers (e1\<lparr>me_planned := Some q\<rparr>) q" using p by (simp add: plan_ok_def)
    then show ?thesis using Some p assms(1) by (simp add: adopt_def events_inv_def can_plan_def)
  qed
qed

definition plan_list :: "planned_event option \<Rightarrow> planned_event list" where
  "plan_list po = (case po of None \<Rightarrow> [] | Some p \<Rightarrow> [p])"

lemma plan_list_simps [simp]: "plan_list None = []" "plan_list (Some p) = [p]"
  by (simp_all add: plan_list_def)

lemma events_step_ok:
  assumes "events_inv tickers e"
  defines "fired now \<equiv> (case me_planned e of None \<Rightarrow> None | Some p \<Rightarrow> if pl_scheduled_at p \<le> now then Some p else None)"
  shows "\<exists>ps e'. events_step tickers now e = Some ((ps, fired now), e') \<and> events_inv tickers e' \<and>
     me_defs e' = me_defs e \<and> me_interval e' = me_interval e \<and>
     plan_list (me_planned e) @ ps = plan_list (fired now) @ plan_list (me_planned e') \<and>
     (if me_planned e \<noteq> None \<and> fired now = None then e' = e
      else if can_plan tickers e
      then \<exists>q. ps = [q] \<and> pl_scheduled_at q = now + me_interval e \<and> me_next_seq e' = add64 (me_next_seq e) 1
      else ps = [])"
proof (cases "me_planned e")
  case None
  obtain ps e1 where a: "adopt tickers now e = Some (ps, e1)" "events_inv tickers e1" "me_defs e1 = me_defs e"
     "me_interval e1 = me_interval e"
     "if can_plan tickers e
      then \<exists>p. ps = [p] \<and> me_planned e1 = Some p \<and> pl_scheduled_at p = now + me_interval e \<and>
             me_next_seq e1 = add64 (me_next_seq e) 1
      else ps = [] \<and> me_planned e1 = None"
    using adopt_ok [OF assms(1) None] by blast
  have "0 < me_interval e" using assms(1) by (simp add: events_inv_def)
  then have "\<not> events_due now e1" using a(5) by (auto simp: events_due_def split: if_splits)
  then show ?thesis using None a by (auto simp: events_step_def fired_def split: if_splits)
next
  case (Some p)
  show ?thesis
  proof (cases "now < pl_scheduled_at p")
    case True
    then show ?thesis using Some assms(1) by (simp add: events_step_def events_due_def fired_def)
  next
    case False
    let ?e0 = "e\<lparr>me_planned := None\<rparr>"
    have i: "events_inv tickers ?e0" using assms(1) by (simp add: events_inv_def)
    have n: "me_planned ?e0 = None" by simp
    obtain ps e1 where a: "adopt tickers now ?e0 = Some (ps, e1)" "events_inv tickers e1" "me_defs e1 = me_defs e"
       "me_interval e1 = me_interval e"
       "if can_plan tickers e
        then \<exists>p. ps = [p] \<and> me_planned e1 = Some p \<and> pl_scheduled_at p = now + me_interval e \<and>
               me_next_seq e1 = add64 (me_next_seq e) 1
        else ps = [] \<and> me_planned e1 = None"
      using adopt_ok [OF i n, of now] by (auto simp: can_plan_def split: if_splits)
    then show ?thesis using Some False by (auto simp: events_step_def events_due_def fired_def split: if_splits)
  qed
qed

text \<open>C34: The loop never stalls, never fires early or twice, and announces every event before it fires. A step
  does not panic and keeps the invariant: the event planned has the multiplier range, scope and duration of a
  definition with a positive chance, and a listed ticker unless it is global. It fires exactly the
  event that was planned before and whose time has come. While an event is planned and not due it changes
  nothing; otherwise, if anything can be planned, it plans one event a full interval ahead under the next
  number and hands exactly that one to the scheduler: the plan left over and what is handed out are together the event
  fired and the plan kept, so that what fires is always what was handed out before.\<close>
theorem events_step_live:
  assumes "events_inv tickers e"
    and "fired = (case me_planned e of None \<Rightarrow> None | Some p \<Rightarrow> if pl_scheduled_at p \<le> now then Some p else None)"
  shows "\<exists>ps e'. events_step tickers now e = Some ((ps, fired), e') \<and> events_inv tickers e' \<and>
     me_defs e' = me_defs e \<and> me_interval e' = me_interval e \<and>
     plan_list (me_planned e) @ ps = plan_list fired @ plan_list (me_planned e') \<and>
     (if me_planned e \<noteq> None \<and> fired = None then e' = e
      else if can_plan tickers e
      then \<exists>q. ps = [q] \<and> me_planned e' = Some q \<and> pl_scheduled_at q = now + me_interval e \<and>
             me_next_seq e' = add64 (me_next_seq e) 1
      else ps = [] \<and> me_planned e' = None)"
proof -
  obtain ps e' where st: "events_step tickers now e = Some ((ps, fired), e')" "events_inv tickers e'" "me_defs e' = me_defs e"
    "me_interval e' = me_interval e" "plan_list (me_planned e) @ ps = plan_list fired @ plan_list (me_planned e')"
    "if me_planned e \<noteq> None \<and> fired = None then e' = e
     else if can_plan tickers e
     then \<exists>q. ps = [q] \<and> pl_scheduled_at q = now + me_interval e \<and> me_next_seq e' = add64 (me_next_seq e) 1
     else ps = []"
    using events_step_ok [OF assms(1), of now] unfolding assms(2) by blast
  have "plan_list (me_planned e') = ps" if "\<not> (me_planned e \<noteq> None \<and> fired = None)"
    using st(5) that assms(2) by (cases "me_planned e") (auto split: if_splits)
  then show ?thesis using st by (cases "me_planned e'") (auto split: if_splits)
qed

text \<open>A run of the loop over the readings of its ticker.\<close>

fun events_run :: "string list \<Rightarrow> time list \<Rightarrow> events_engine \<Rightarrow> ((planned_event list \<times> planned_event list) \<times> events_engine) option" where
  "events_run tickers [] e = Some (([], []), e)"
| "events_run tickers (now # later) e =
     (case events_step tickers now e of
        None \<Rightarrow> None
      | Some ((ps, fired), e') \<Rightarrow>
          map_option (\<lambda>((announced, fin), e''). ((ps @ announced, plan_list fired @ fin), e'')) (events_run tickers later e'))"

text \<open>Over any run the events handed to the scheduler are, in order and each once, the events fired and the one
  still planned: nothing fires unannounced.\<close>
theorem events_run_announced:
  assumes "events_inv tickers e"
  shows "\<exists>announced fin e'. events_run tickers nows e = Some ((announced, fin), e') \<and>
     plan_list (me_planned e) @ announced = fin @ plan_list (me_planned e')"
  using assms
proof (induction nows arbitrary: e)
  case (Cons now later)
  obtain ps fired e1 where st: "events_step tickers now e = Some ((ps, fired), e1)" "events_inv tickers e1"
    "plan_list (me_planned e) @ ps = plan_list fired @ plan_list (me_planned e1)"
    using events_step_ok [OF Cons.prems, of now] by blast
  obtain announced fin e' where "events_run tickers later e1 = Some ((announced, fin), e')"
    "plan_list (me_planned e1) @ announced = fin @ plan_list (me_planned e')"
    using Cons.IH [OF st(2)] by blast
  then show ?case using st by (simp add: append_assoc [symmetric] del: append_assoc) (simp add: append_assoc)
qed simp

definition demo_event :: event_definition where
  "demo_event = \<lparr>ed_name = ''Crash'', ed_message = ''<ticker> falls <multiplier>%'', ed_chance = 5, ed_market_multiplier = ''-20--5'',
     ed_duration_seconds = 0, ed_global = False\<rparr>"

definition demo_events :: events_engine where
  "demo_events = \<lparr>me_interval = 30 * second, me_rng = demo_rng,
     me_defs = [\<lparr>pv_def = demo_event\<lparr>ed_duration_seconds := 30\<rparr>, pv_multiplier = \<lparr>rg_min = - 20, rg_max = - 5\<rparr>\<rparr>],
     me_planned = None, me_next_seq = 0\<rparr>"

lemma demo_events_new: "NewEventsEngine 0 [demo_event] demo_rng = Inr demo_events"
proof -
  have "ParseRange ''-20--5'' = Some \<lparr>rg_min = - 20, rg_max = - 5\<rparr>" by code_simp
  then show ?thesis by (simp add: NewEventsEngine_def demo_event_def demo_events_def)
qed

lemma demo_events_inv: "events_inv [''ACME''] demo_events"
  using demo_rng_ok by (simp add: events_inv_def demo_events_def defs_ok_def narrow_def in64_def second_def demo_event_def)

theorem events_run_announced_witness:
  "\<exists>announced fin e'. events_run [''ACME''] [7, 8] demo_events = Some ((announced, fin), e') \<and> announced = fin @ plan_list (me_planned e')"
  using events_run_announced [OF demo_events_inv, of "[7, 8]"] by (simp add: demo_events_def)

theorem events_step_live_witness:
  "\<exists>e1 ps q e2. fst (the (events_step [''ACME''] 7 demo_events)) = ([q], None) \<and> snd (the (events_step [''ACME''] 7 demo_events)) = e1 \<and>
     events_step [''ACME''] (pl_scheduled_at q) e1 = Some (([ps], Some q), e2) \<and> me_planned e2 = Some ps"
proof -
  let ?T = "[''ACME'']"
  have plans: "can_plan ?T demo_events"
    by (simp add: can_plan_def chance_total_def demo_events_def demo_event_def fadd_def rnd_of_int [of 5, simplified])
  obtain q e1 where one: "events_step ?T 7 demo_events = Some (([q], None), e1)" "events_inv ?T e1" "me_defs e1 = me_defs demo_events"
    "me_planned e1 = Some q"
    using events_step_live [OF demo_events_inv, of None 7] plans by (auto simp: demo_events_def)
  have "can_plan ?T e1" using plans one(3) by (simp add: can_plan_def)
  then obtain p e2 where "events_step ?T (pl_scheduled_at q) e1 = Some (([p], Some q), e2)" "me_planned e2 = Some p"
    using events_step_live [OF one(2), of "Some q" "pl_scheduled_at q"] one(4) by auto
  then show ?thesis using one(1) by simp
qed

end
