(* ===== verification/Intel.thy ===== *)
theory Intel
  imports MarketEvents "HOL-Library.List_Lexorder" "HOL-Library.Char_ord"
begin

text \<open>
  The intel engine (\<^verbatim>\<open>internal/intel/engine.go\<close>): rumours and fake news that move the market, paid reports,
  and insider access, which shows the next random event to its buyers ahead of time.

  JSON payloads are kept as values (\<open>intel_payload\<close>). A notification is the player and the payload given
  to \<^verbatim>\<open>Notifier.NotifyPlayer\<close>; an operation returns those it makes, and the composition with the gameplay
  engine says what they do there. The goroutine that waits for the preview time is the operation
  \<open>preview_timer\<close>. A set of players is a list without repetition.
\<close>

section \<open>Data\<close>

datatype intel_kind = KindRumor | KindFakeNews | KindInsider | KindPaidAnalysis | KindOther string

record intel_definition =
  id_id :: string
  id_kind :: intel_kind
  id_name :: string
  id_description :: string
  id_message :: string
  id_private_message :: string
  id_chance :: f64
  id_price :: int
  id_market_multiplier :: string
  id_duration_seconds :: int
  id_lead_time_seconds :: int
  id_global :: bool
  id_ticker :: string

record prepared_intel =
  pi_def :: intel_definition
  pi_multiplier :: range_pct

record catalog_item =
  ci_id :: string
  ci_kind :: intel_kind
  ci_name :: string
  ci_description :: string
  ci_price :: int

record insider_preview =
  ip_definition :: intel_definition
  ip_message :: string
  ip_event :: planned_event
  ip_previewed_at :: time

record analytics_report =
  ar_definition :: intel_definition
  ar_message :: string
  ar_symbol :: string
  ar_bias :: string
  ar_current_price :: int
  ar_last_move_bps :: int
  ar_recent_trade_count :: nat
  ar_orderbook :: snapshot
  ar_generated_at :: time

datatype intel_payload =
    ArmedForFuture intel_definition time
  | ArmedForScheduled intel_definition planned_event time time
  | InsiderPreview insider_preview
  | AnalyticsReport analytics_report

record buy_result =
  br_cost :: int
  br_payload :: intel_payload

datatype intel_error =
    IntelNotFound string | IntelNotPurchasable string | IntelNotDirect string
  | AlreadyArmedFuture | AlreadyArmedScheduled | NoTickersConfigured | IntelMarketError exchange_error
  | IntelIdRequired | IntelBadRange string string

record scheduled_random_event =
  se_event :: planned_event
  se_buyers :: "string list"
  se_preview_sent :: bool

record intel_engine =
  ie_interval :: duration
  ie_rng :: rng
  ie_defs :: "string \<rightharpoonup> prepared_intel"
  ie_ordered :: "prepared_intel list"
  ie_pending_buyers :: "string list"
  ie_next :: "scheduled_random_event option"

section \<open>Construction\<close>

definition intel_defaults :: "intel_definition \<Rightarrow> intel_definition" where
  "intel_defaults d =
     (let d1 = (if id_lead_time_seconds d \<le> 0 \<and> id_kind d = KindInsider then d\<lparr>id_lead_time_seconds := 30\<rparr> else d)
      in if id_duration_seconds d1 \<le> 0 then d1\<lparr>id_duration_seconds := 45\<rparr> else d1)"

definition prepare_intel :: "intel_definition \<Rightarrow> intel_error + prepared_intel" where
  "prepare_intel d =
     (if id_id d = [] \<or> id_name d = [] then Inl IntelIdRequired
      else (let d' = intel_defaults d in
            if id_kind d' \<in> {KindRumor, KindFakeNews, KindPaidAnalysis}
            then (case intel_parseRange (id_market_multiplier d') of
                    None \<Rightarrow> Inl (IntelBadRange (id_id d') (id_market_multiplier d'))
                  | Some g \<Rightarrow> Inr \<lparr>pi_def = d', pi_multiplier = g\<rparr>)
            else Inr \<lparr>pi_def = d', pi_multiplier = \<lparr>rg_min = 0, rg_max = 0\<rparr>\<rparr>))"

fun prepare_feeds :: "intel_definition list \<Rightarrow> intel_error + prepared_intel list" where
  "prepare_feeds [] = Inr []"
| "prepare_feeds (d # ds) =
     (case prepare_intel d of
        Inl e \<Rightarrow> Inl e
      | Inr p \<Rightarrow> (case prepare_feeds ds of Inl e \<Rightarrow> Inl e | Inr ps \<Rightarrow> Inr (p # ps)))"

definition NewIntelEngine :: "duration \<Rightarrow> intel_definition list \<Rightarrow> rng \<Rightarrow> intel_error + intel_engine" where
  "NewIntelEngine interval ds r =
     (case prepare_feeds ds of
        Inl e \<Rightarrow> Inl e
      | Inr ps \<Rightarrow>
          Inr \<lparr>ie_interval = (if interval \<le> 0 then 12 * second else interval), ie_rng = r,
               ie_defs = foldl (\<lambda>m p. m(id_id (pi_def p) \<mapsto> p)) Map.empty ps,
               ie_ordered = sort_key (\<lambda>p. id_id (pi_def p)) ps, ie_pending_buyers = [], ie_next = None\<rparr>)"

section \<open>Catalogue\<close>

definition purchasable :: "intel_kind \<Rightarrow> bool" where
  "purchasable k \<longleftrightarrow> k = KindInsider \<or> k = KindPaidAnalysis"

definition catalog_entry :: "intel_definition \<Rightarrow> catalog_item" where
  "catalog_entry d =
     \<lparr>ci_id = id_id d, ci_kind = id_kind d, ci_name = id_name d, ci_description = id_description d, ci_price = id_price d\<rparr>"

definition intel_Catalog :: "intel_engine \<Rightarrow> catalog_item list" where
  "intel_Catalog e = map (\<lambda>p. catalog_entry (pi_def p)) (filter (\<lambda>p. purchasable (id_kind (pi_def p))) (ie_ordered e))"

definition Quote :: "string \<Rightarrow> intel_engine \<Rightarrow> intel_error + catalog_item" where
  "Quote i e =
     (case ie_defs e i of
        None \<Rightarrow> Inl (IntelNotFound i)
      | Some p \<Rightarrow> (if purchasable (id_kind (pi_def p)) then Inr (catalog_entry (pi_def p)) else Inl (IntelNotPurchasable i)))"

section \<open>Insider access\<close>

definition lead_time :: "intel_definition \<Rightarrow> duration" where
  "lead_time d = mul64 (id_lead_time_seconds d) second"

definition buildInsiderPreview :: "intel_definition \<Rightarrow> planned_event \<Rightarrow> time \<Rightarrow> intel_payload" where
  "buildInsiderPreview d ev now =
     (let t = trim_space (id_private_message d);
          m = (if t = [] then ''The next random market event is locked in. Position before the public tape reacts.'' else t)
      in InsiderPreview \<lparr>ip_definition = d, ip_message = renderTemplate m (pl_symbol ev) (pl_multiplier_pct ev),
                         ip_event = ev, ip_previewed_at = now\<rparr>)"

text \<open>\<^verbatim>\<open>buyInsiderLocked\<close>: the response and, if the preview goes out at once, the payload to dispatch.\<close>

definition drop_past_event :: "time \<Rightarrow> intel_engine \<Rightarrow> intel_engine" where
  "drop_past_event now e =
     (case ie_next e of
        None \<Rightarrow> e
      | Some s \<Rightarrow> (if now \<ge> pl_scheduled_at (se_event s) then e\<lparr>ie_next := None\<rparr> else e))"

definition buyInsiderLocked ::
  "time \<Rightarrow> string \<Rightarrow> intel_definition \<Rightarrow> intel_engine \<Rightarrow>
     (intel_error + intel_payload \<times> intel_payload option) \<times> intel_engine" where
  "buyInsiderLocked now player d e0 =
     (let e = drop_past_event now e0 in
      case ie_next e of
        None \<Rightarrow>
          (if player \<in> set (ie_pending_buyers e) then (Inl AlreadyArmedFuture, e)
           else (Inr (ArmedForFuture d now, None), e\<lparr>ie_pending_buyers := List.insert player (ie_pending_buyers e)\<rparr>))
      | Some s \<Rightarrow>
          (if player \<in> set (se_buyers s) then (Inl AlreadyArmedScheduled, e)
           else (let previewAt = pl_scheduled_at (se_event s) - lead_time d;
                     e' = e\<lparr>ie_next := Some (s\<lparr>se_buyers := List.insert player (se_buyers s)\<rparr>)\<rparr>
                 in if previewAt > now then (Inr (ArmedForScheduled d (se_event s) previewAt now, None), e')
                    else (let p = buildInsiderPreview d (se_event s) now in (Inr (p, Some p), e')))))"

definition insiderDefinitionLocked :: "intel_engine \<Rightarrow> intel_definition option" where
  "insiderDefinitionLocked e =
     map_option pi_def (find (\<lambda>p. id_kind (pi_def p) = KindInsider) (ie_ordered e))"

definition previewAt :: "string \<Rightarrow> intel_engine \<Rightarrow> time option" where
  "previewAt eid e =
     (case (insiderDefinitionLocked e, ie_next e) of
        (Some d, Some s) \<Rightarrow> (if pl_id (se_event s) = eid then Some (pl_scheduled_at (se_event s) - lead_time d) else None)
      | _ \<Rightarrow> None)"

definition buyerIDs :: "string list \<Rightarrow> string list" where
  "buyerIDs ps = sort ps"

text \<open>The payload and its recipients; \<open>None\<close> is the empty payload.\<close>

definition prepareScheduledPreview ::
  "string \<Rightarrow> time \<Rightarrow> intel_engine \<Rightarrow> (intel_payload \<times> string list) option \<times> intel_engine" where
  "prepareScheduledPreview eid now e =
     (case (insiderDefinitionLocked e, ie_next e) of
        (Some d, Some s) \<Rightarrow>
          (if pl_id (se_event s) \<noteq> eid \<or> se_preview_sent s \<or> pl_scheduled_at (se_event s) - lead_time d > now then (None, e)
           else (let e' = e\<lparr>ie_next := Some (s\<lparr>se_preview_sent := True\<rparr>)\<rparr>
                 in if se_buyers s = [] then (None, e')
                    else (Some (buildInsiderPreview d (se_event s) now, buyerIDs (se_buyers s)), e')))
      | _ \<Rightarrow> (None, e))"

definition dispatchPreview :: "(intel_payload \<times> string list) option \<Rightarrow> (string \<times> intel_payload) list" where
  "dispatchPreview r = (case r of None \<Rightarrow> [] | Some (p, players) \<Rightarrow> map (\<lambda>q. (q, p)) players)"

definition ScheduleNextRandomEvent ::
  "time \<Rightarrow> planned_event \<Rightarrow> intel_engine \<Rightarrow> (string \<times> intel_payload) list \<times> intel_engine" where
  "ScheduleNextRandomEvent now ev e =
     (if insiderDefinitionLocked e = None then ([], e)
      else (case prepareScheduledPreview (pl_id ev) now
                  (e\<lparr>ie_pending_buyers := [],
                     ie_next := Some \<lparr>se_event = ev, se_buyers = ie_pending_buyers e, se_preview_sent = False\<rparr>\<rparr>) of
              (r, e') \<Rightarrow> (dispatchPreview r, e')))"

text \<open>The goroutine of \<^verbatim>\<open>maybeDispatchScheduledPreview\<close> after its timer.\<close>

definition preview_timer :: "string \<Rightarrow> time \<Rightarrow> intel_engine \<Rightarrow> (string \<times> intel_payload) list \<times> intel_engine" where
  "preview_timer eid now e = (case prepareScheduledPreview eid now e of (r, e') \<Rightarrow> (dispatchPreview r, e'))"

section \<open>Reports\<close>

definition report_bias :: "range_pct \<Rightarrow> string \<times> int" where
  "report_bias g =
     (if rg_min g \<noteq> 0 \<or> rg_max g \<noteq> 0
      then (let avg = quot64 (add64 (rg_min g) (rg_max g)) 2
            in (if avg > 0 then ''bullish'' else if avg < 0 then ''bearish'' else ''mixed'', avg))
      else (''mixed'', 0))"

definition report_symbol :: "string list \<Rightarrow> intel_definition \<Rightarrow> rng \<Rightarrow> (string \<times> rng) option" where
  "report_symbol tickers d r =
     (let symbol = to_upper (trim_space (id_ticker d)) in
      case (if \<not> id_global d \<and> symbol = [] then map_option (\<lambda>(k, r'). (tickers ! nat k, r')) (rand_Intn (int (length tickers)) r)
            else Some (symbol, r)) of
        None \<Rightarrow> None
      | Some (s, r') \<Rightarrow> Some (if s = [] then hd tickers else s, r'))"

definition buildAnalyticsPayload ::
  "env \<Rightarrow> time \<Rightarrow> prepared_intel \<Rightarrow> intel_engine \<Rightarrow> exchange \<Rightarrow> (intel_error + intel_payload) \<times> intel_engine \<times> exchange" where
  "buildAnalyticsPayload env now p e x =
     (case (ListTickers x, report_symbol (ListTickers x) (pi_def p) (ie_rng e)) of
        (_ # _, Some (symbol, r)) \<Rightarrow>
          (case ChartSnapshot env symbol 5 x of
             (Inl err, x') \<Rightarrow> (Inl (IntelMarketError err), e\<lparr>ie_rng := r\<rparr>, x')
           | (Inr snap, x') \<Rightarrow>
               (case report_bias (pi_multiplier p) of
                  (bias, avg) \<Rightarrow>
                    (Inr (AnalyticsReport
                       \<lparr>ar_definition = pi_def p, ar_message = renderTemplate (id_message (pi_def p)) symbol avg,
                        ar_symbol = symbol, ar_bias = bias, ar_current_price = current_price (sp_price snap),
                        ar_last_move_bps = move_bps (sp_price snap), ar_recent_trade_count = length (sp_recent_trades snap),
                        ar_orderbook = sp_orderbook snap, ar_generated_at = now\<rparr>), e\<lparr>ie_rng := r\<rparr>, x')))
      | _ \<Rightarrow> (Inl NoTickersConfigured, e, x))"

text \<open>\<^verbatim>\<open>Buy\<close>: the result and the notifications made after the lock is released.\<close>

definition Buy ::
  "env \<Rightarrow> time \<Rightarrow> string \<Rightarrow> string \<Rightarrow> intel_engine \<Rightarrow> exchange \<Rightarrow>
     (intel_error + buy_result) \<times> (string \<times> intel_payload) list \<times> intel_engine \<times> exchange" where
  "Buy env now player i e x =
     (case ie_defs e i of
        None \<Rightarrow> (Inl (IntelNotFound i), [], e, x)
      | Some p \<Rightarrow>
          (if id_kind (pi_def p) = KindInsider
           then (case buyInsiderLocked now player (pi_def p) e of
                   (Inl err, e') \<Rightarrow> (Inl err, [], e', x)
                 | (Inr (response, dispatch), e') \<Rightarrow>
                     (Inr \<lparr>br_cost = id_price (pi_def p), br_payload = response\<rparr>,
                      (case dispatch of None \<Rightarrow> [] | Some q \<Rightarrow> [(player, q)]), e', x))
           else if id_kind (pi_def p) \<noteq> KindPaidAnalysis then (Inl (IntelNotDirect i), [], e, x)
           else (case buildAnalyticsPayload env now p e x of
                   (Inl err, e', x') \<Rightarrow> (Inl err, [], e', x')
                 | (Inr payload, e', x') \<Rightarrow> (Inr \<lparr>br_cost = id_price (pi_def p), br_payload = payload\<rparr>, [], e', x'))))"

section \<open>Rumours\<close>

definition shouldTrigger :: "f64 \<Rightarrow> rng \<Rightarrow> bool \<times> rng" where
  "shouldTrigger chance r =
     (if chance \<le> 0 then (False, r)
      else if chance \<ge> 100 then (True, r)
      else (case rand_Float64 r of (x, r') \<Rightarrow> (fmul x 100 < chance, r')))"

definition rumor_kind :: "intel_kind \<Rightarrow> string" where
  "rumor_kind k = (case k of KindRumor \<Rightarrow> ''rumor'' | KindFakeNews \<Rightarrow> ''fake_news'' | KindInsider \<Rightarrow> ''insider''
     | KindPaidAnalysis \<Rightarrow> ''paid_analytics'' | KindOther s \<Rightarrow> s)"

text \<open>\<^verbatim>\<open>prepareTrigger\<close>: outer \<open>None\<close> is a panic of \<^verbatim>\<open>Intn\<close>, inner \<open>None\<close> the trigger that is not ok.\<close>

definition prepareTrigger ::
  "time \<Rightarrow> string list \<Rightarrow> prepared_intel \<Rightarrow> rng \<Rightarrow> (shock_input option \<times> rng) option" where
  "prepareTrigger now tickers p r =
     (if tickers = [] then Some (None, r)
      else (let d = pi_def p; symbol = to_upper (trim_space (id_ticker d)) in
            case (if \<not> id_global d \<and> symbol = [] then map_option (\<lambda>(k, r'). (tickers ! nat k, r')) (rand_Intn (int (length tickers)) r)
                  else Some (symbol, r)) of
              None \<Rightarrow> None
            | Some (s, r1) \<Rightarrow>
                (case random_between (rg_min (pi_multiplier p)) (rg_max (pi_multiplier p)) r1 of
                   None \<Rightarrow> None
                 | Some (m, r2) \<Rightarrow>
                     Some (Some \<lparr>si_kind = rumor_kind (id_kind d), si_event_name = renderTemplate (id_name d) s m,
                                 si_message = renderTemplate (id_message d) s m, si_global = id_global d, si_symbol = s,
                                 si_multiplier_pct = m, si_duration = mul64 (id_duration_seconds d) second,
                                 si_occurred_at = now\<rparr>, r2))))"

fun rumor_tick :: "env \<Rightarrow> time \<Rightarrow> prepared_intel list \<Rightarrow> rng \<times> exchange \<Rightarrow> (rng \<times> exchange) option" where
  "rumor_tick env now [] (r, x) = Some (r, x)"
| "rumor_tick env now (p # ps) (r, x) =
     (if id_kind (pi_def p) \<notin> {KindRumor, KindFakeNews} then rumor_tick env now ps (r, x)
      else (case shouldTrigger (id_chance (pi_def p)) r of
              (False, r1) \<Rightarrow> rumor_tick env now ps (r1, x)
            | (True, r1) \<Rightarrow>
                (case prepareTrigger now (ListTickers x) p r1 of
                   None \<Rightarrow> None
                 | Some (None, r2) \<Rightarrow> rumor_tick env now ps (r2, x)
                 | Some (Some i, r2) \<Rightarrow> rumor_tick env now ps (r2, snd (TriggerMarketEvent env i x)))))"

definition intel_tick :: "env \<Rightarrow> time \<Rightarrow> intel_engine \<Rightarrow> exchange \<Rightarrow> (intel_engine \<times> exchange) option" where
  "intel_tick env now e x =
     map_option (\<lambda>(r, x'). (e\<lparr>ie_rng := r\<rparr>, x')) (rumor_tick env now (ie_ordered e) (ie_rng e, x))"

end
