(* ===== verification/IntelProps.thy ===== *)
theory IntelProps
  imports Intel MarketEventProps ExchangeProps
begin

text \<open>
  The insider flow as a step relation: events are scheduled, players buy access, timers fire. With one
  lead time nobody who was armed misses the preview and nobody sees it early; with two, a buyer
  can pay for a preview that never comes.
\<close>

section \<open>The run of the insider flow\<close>

record insider_run =
  ir_engine :: intel_engine
  ir_now :: time
  ir_shown :: "(string \<times> intel_payload) list"

definition one_lead :: "duration \<Rightarrow> intel_engine \<Rightarrow> bool" where
  "one_lead l e \<longleftrightarrow>
     (\<forall>p \<in> set (ie_ordered e). id_kind (pi_def p) = KindInsider \<longrightarrow> lead_time (pi_def p) = l) \<and>
     (\<forall>i p. ie_defs e i = Some p \<longrightarrow> id_kind (pi_def p) = KindInsider \<longrightarrow> lead_time (pi_def p) = l)"

text \<open>\<open>evs\<close> are the events that may be scheduled. Time does not run backwards; a timer may fire late, or for an
  event that is gone.\<close>

inductive insider_step :: "planned_event set \<Rightarrow> insider_run \<Rightarrow> insider_run \<Rightarrow> bool" for evs where
  step_buy:
    "ie_defs (ir_engine s) i = Some p \<Longrightarrow> id_kind (pi_def p) = KindInsider \<Longrightarrow> ir_now s \<le> now \<Longrightarrow>
     Buy env now player i (ir_engine s) x = (r, shown, e', x') \<Longrightarrow>
     insider_step evs s \<lparr>ir_engine = e', ir_now = now, ir_shown = ir_shown s @ shown\<rparr>"
| step_schedule:
    "ev \<in> evs \<Longrightarrow> ir_now s \<le> now \<Longrightarrow> ScheduleNextRandomEvent now ev (ir_engine s) = (shown, e') \<Longrightarrow>
     insider_step evs s \<lparr>ir_engine = e', ir_now = now, ir_shown = ir_shown s @ shown\<rparr>"
| step_timer:
    "ir_now s \<le> now \<Longrightarrow> preview_timer eid now (ir_engine s) = (shown, e') \<Longrightarrow>
     insider_step evs s \<lparr>ir_engine = e', ir_now = now, ir_shown = ir_shown s @ shown\<rparr>"

definition insider_start :: "intel_engine \<Rightarrow> time \<Rightarrow> insider_run" where
  "insider_start e t = \<lparr>ir_engine = e\<lparr>ie_pending_buyers := [], ie_next := None\<rparr>, ir_now = t, ir_shown = []\<rparr>"

text \<open>A player was shown the preview of an event.\<close>

definition was_shown :: "insider_run \<Rightarrow> string \<Rightarrow> planned_event \<Rightarrow> bool" where
  "was_shown s player ev \<longleftrightarrow> (\<exists>ip. (player, InsiderPreview ip) \<in> set (ir_shown s) \<and> ip_event ip = ev)"

definition previews_timely :: "duration \<Rightarrow> time \<Rightarrow> (string \<times> intel_payload) list \<Rightarrow> bool" where
  "previews_timely l t qs \<longleftrightarrow> (\<forall>q \<in> set qs. \<forall>ip. snd q = InsiderPreview ip \<longrightarrow>
     pl_scheduled_at (ip_event ip) - l \<le> ip_previewed_at ip \<and> ip_previewed_at ip \<le> t)"

definition insider_inv :: "duration \<Rightarrow> insider_run \<Rightarrow> bool" where
  "insider_inv l s \<longleftrightarrow> one_lead l (ir_engine s) \<and> previews_timely l (ir_now s) (ir_shown s) \<and>
     (case ie_next (ir_engine s) of None \<Rightarrow> True
      | Some se \<Rightarrow> se_preview_sent se \<longrightarrow>
          pl_scheduled_at (se_event se) - l \<le> ir_now s \<and> (\<forall>b \<in> set (se_buyers se). was_shown s b (se_event se)))"

lemma previews_timely_append: "previews_timely l t (xs @ ys) \<longleftrightarrow> previews_timely l t xs \<and> previews_timely l t ys"
  by (auto simp: previews_timely_def)

lemma previews_timely_later: "previews_timely l t qs \<Longrightarrow> t \<le> t' \<Longrightarrow> previews_timely l t' qs"
  by (force simp: previews_timely_def)

lemma insiderDefinition_lead: "one_lead l e \<Longrightarrow> insiderDefinitionLocked e = Some d \<Longrightarrow> lead_time d = l"
  by (auto simp: one_lead_def insiderDefinitionLocked_def find_Some_iff)

lemma one_lead_next: "one_lead l (e\<lparr>ie_next := n\<rparr>) = one_lead l e" "one_lead l (e\<lparr>ie_pending_buyers := b\<rparr>) = one_lead l e"
  by (simp_all add: one_lead_def)

lemma insiderDefinition_frame [simp]:
  "insiderDefinitionLocked (e\<lparr>ie_next := n\<rparr>) = insiderDefinitionLocked e"
  "insiderDefinitionLocked (e\<lparr>ie_pending_buyers := b\<rparr>) = insiderDefinitionLocked e"
  by (simp_all add: insiderDefinitionLocked_def)

lemma preview_payload: "buildInsiderPreview d ev now = InsiderPreview ip \<Longrightarrow> ip_event ip = ev \<and> ip_previewed_at ip = now"
  by (auto simp: buildInsiderPreview_def Let_def)

lemma preview_ex: "\<exists>ip. buildInsiderPreview d ev now = InsiderPreview ip"
  by (simp add: buildInsiderPreview_def Let_def)

lemma prepare_inv:
  assumes l: "one_lead l e" and p: "prepareScheduledPreview eid now e = (r, e')"
    and sent: "\<forall>se. ie_next e = Some se \<longrightarrow> se_preview_sent se \<longrightarrow>
      pl_scheduled_at (se_event se) - l \<le> t \<and> (\<forall>b \<in> set (se_buyers se). was_shown s b (se_event se))" and "t \<le> now"
    and s': "ir_shown s' = ir_shown s @ dispatchPreview r"
  shows "one_lead l e' \<and> previews_timely l now (dispatchPreview r) \<and>
     (\<forall>se. ie_next e' = Some se \<longrightarrow> se_preview_sent se \<longrightarrow>
      pl_scheduled_at (se_event se) - l \<le> now \<and> (\<forall>b \<in> set (se_buyers se). was_shown s' b (se_event se)))"
proof -
  have mono: "was_shown s b ev \<Longrightarrow> was_shown s' b ev" for b ev using s' by (auto simp: was_shown_def)
  show ?thesis
  proof (cases "\<exists>d se. insiderDefinitionLocked e = Some d \<and> ie_next e = Some se \<and> pl_id (se_event se) = eid \<and>
      \<not> se_preview_sent se \<and> pl_scheduled_at (se_event se) - lead_time d \<le> now")
    case True
    then obtain d se where d: "insiderDefinitionLocked e = Some d" "ie_next e = Some se" "pl_id (se_event se) = eid"
      "\<not> se_preview_sent se" "pl_scheduled_at (se_event se) - lead_time d \<le> now" by blast
    have ld: "lead_time d = l" by (rule insiderDefinition_lead [OF l d(1)])
    have e': "e' = e\<lparr>ie_next := Some (se\<lparr>se_preview_sent := True\<rparr>)\<rparr>"
      and r: "r = (if se_buyers se = [] then None else Some (buildInsiderPreview d (se_event se) now, buyerIDs (se_buyers se)))"
      using p d by (auto simp: prepareScheduledPreview_def Let_def split: if_splits)
    obtain ip where ip: "buildInsiderPreview d (se_event se) now = InsiderPreview ip" using preview_ex by blast
    have "\<forall>b \<in> set (se_buyers se). (b, InsiderPreview ip) \<in> set (dispatchPreview r)"
      by (auto simp: r dispatchPreview_def ip buyerIDs_def)
    then have "\<forall>b \<in> set (se_buyers se). was_shown s' b (se_event se)"
      using preview_payload [OF ip] s' by (auto simp: was_shown_def)
    moreover have "previews_timely l now (dispatchPreview r)"
      using d(5) preview_payload [OF ip] by (auto simp: previews_timely_def r dispatchPreview_def ip ld split: if_splits)
    ultimately show ?thesis using l d(5) by (simp add: e' one_lead_next ld)
  next
    case False
    then have "e' = e \<and> r = None"
      using p by (auto simp: prepareScheduledPreview_def Let_def split: option.splits if_splits)
    then show ?thesis using l sent mono \<open>t \<le> now\<close> by (force simp: dispatchPreview_def previews_timely_def)
  qed
qed

lemma buyInsider_inv:
  assumes l: "one_lead l e" "lead_time d = l" and b: "buyInsiderLocked now player d e = (r, e')"
    and sent: "\<forall>se. ie_next e = Some se \<longrightarrow> se_preview_sent se \<longrightarrow>
      pl_scheduled_at (se_event se) - l \<le> t \<and> (\<forall>b \<in> set (se_buyers se). was_shown s b (se_event se))" and "t \<le> now"
    and shown: "shown = (case r of Inr (x, Some q) \<Rightarrow> [(player, q)] | _ \<Rightarrow> [])"
    and s': "ir_shown s' = ir_shown s @ shown"
  shows "one_lead l e' \<and> previews_timely l now shown \<and>
     (\<forall>se. ie_next e' = Some se \<longrightarrow> se_preview_sent se \<longrightarrow>
      pl_scheduled_at (se_event se) - l \<le> now \<and> (\<forall>b \<in> set (se_buyers se). was_shown s' b (se_event se)))"
proof -
  have mono: "was_shown s b ev \<Longrightarrow> was_shown s' b ev" for b ev using s' by (auto simp: was_shown_def)
  let ?e = "drop_past_event now e"
  have ol: "one_lead l ?e" using l(1) by (auto simp: drop_past_event_def one_lead_next split: option.split)
  have sent': "\<forall>se. ie_next ?e = Some se \<longrightarrow> se_preview_sent se \<longrightarrow>
      pl_scheduled_at (se_event se) - l \<le> now \<and> (\<forall>b \<in> set (se_buyers se). was_shown s' b (se_event se))"
    using sent mono \<open>t \<le> now\<close> by (force simp: drop_past_event_def split: option.splits if_splits)
  show ?thesis
  proof (cases "\<exists>se. ie_next ?e = Some se \<and> player \<notin> set (se_buyers se)")
    case False
    then show ?thesis using b shown ol sent'
      by (auto simp: buyInsiderLocked_def Let_def one_lead_next previews_timely_def split: option.splits if_splits)
  next
    case True
    then obtain se where se: "ie_next ?e = Some se" "player \<notin> set (se_buyers se)" by blast
    have e': "e' = ?e\<lparr>ie_next := Some (se\<lparr>se_buyers := List.insert player (se_buyers se)\<rparr>)\<rparr>"
      using b se by (auto simp: buyInsiderLocked_def Let_def split: if_splits)
    obtain ip where ip: "buildInsiderPreview d (se_event se) now = InsiderPreview ip" using preview_ex by blast
    have sh: "shown = (if pl_scheduled_at (se_event se) - l > now then [] else [(player, InsiderPreview ip)])"
      using b se shown l(2) ip by (auto simp: buyInsiderLocked_def Let_def split: if_splits)
    have "previews_timely l now shown" using preview_payload [OF ip] by (auto simp: sh previews_timely_def)
    moreover have "was_shown s' player (se_event se)" if "\<not> pl_scheduled_at (se_event se) - l > now"
      using that preview_payload [OF ip] s' by (auto simp: sh was_shown_def)
    ultimately show ?thesis using ol sent' se by (auto simp: e' one_lead_next)
  qed
qed

lemma insider_inv_iff:
  "insider_inv l s \<longleftrightarrow> one_lead l (ir_engine s) \<and> previews_timely l (ir_now s) (ir_shown s) \<and>
     (\<forall>se. ie_next (ir_engine s) = Some se \<longrightarrow> se_preview_sent se \<longrightarrow>
          pl_scheduled_at (se_event se) - l \<le> ir_now s \<and> (\<forall>b \<in> set (se_buyers se). was_shown s b (se_event se)))"
  by (auto simp: insider_inv_def split: option.splits)

lemma insider_step_inv: "insider_step evs s s' \<Longrightarrow> insider_inv l s \<Longrightarrow> insider_inv l s'"
proof (induction rule: insider_step.induct)
  case (step_buy s i p now env player x r shown e' x')
  note now = \<open>ir_now s \<le> now\<close>
  have lead: "lead_time (pi_def p) = l" using step_buy by (auto simp: insider_inv_iff one_lead_def)
  obtain r1 where b: "buyInsiderLocked now player (pi_def p) (ir_engine s) = (r1, e')"
      "shown = (case r1 of Inr (x, Some q) \<Rightarrow> [(player, q)] | _ \<Rightarrow> [])"
    using step_buy(1,2,4) by (auto simp: Buy_def split: prod.splits sum.splits option.splits)
  show ?case
    using buyInsider_inv [OF _ lead b(1) _ step_buy(3) b(2), where s = s and s' = "\<lparr>ir_engine = e', ir_now = now, ir_shown = ir_shown s @ shown\<rparr>"]
      step_buy(5) by (simp add: insider_inv_iff previews_timely_append previews_timely_later [OF _ now])
next
  case (step_schedule ev s now shown e')
  note now = \<open>ir_now s \<le> now\<close>
  show ?case
  proof (cases "insiderDefinitionLocked (ir_engine s) = None")
    case True
    then show ?thesis using step_schedule
      by (auto simp: ScheduleNextRandomEvent_def insider_inv_iff was_shown_def intro: previews_timely_later)
  next
    case False
    let ?e = "(ir_engine s)\<lparr>ie_pending_buyers := [],
                     ie_next := Some \<lparr>se_event = ev, se_buyers = ie_pending_buyers (ir_engine s), se_preview_sent = False\<rparr>\<rparr>"
    obtain r where r: "prepareScheduledPreview (pl_id ev) now ?e = (r, e')" "shown = dispatchPreview r"
      using step_schedule(3) False by (auto simp: ScheduleNextRandomEvent_def split: prod.splits)
    have "one_lead l ?e" using step_schedule(4) by (simp add: insider_inv_iff one_lead_next)
    from prepare_inv [OF this r(1) _ now, where s = s and s' = "\<lparr>ir_engine = e', ir_now = now, ir_shown = ir_shown s @ shown\<rparr>"]
    show ?thesis using step_schedule(4) r(2) by (simp add: insider_inv_iff previews_timely_append previews_timely_later [OF _ now])
  qed
next
  case (step_timer s now eid shown e')
  note now = \<open>ir_now s \<le> now\<close>
  obtain r where r: "prepareScheduledPreview eid now (ir_engine s) = (r, e')" "shown = dispatchPreview r"
    using step_timer(2) by (auto simp: preview_timer_def split: prod.splits)
  show ?case
    using prepare_inv [OF _ r(1) _ step_timer(1), where l = l and s = s and s' = "\<lparr>ir_engine = e', ir_now = now, ir_shown = ir_shown s @ shown\<rparr>"]
      step_timer(3) r(2) by (simp add: insider_inv_iff previews_timely_append previews_timely_later [OF _ now])
qed

lemma insider_run_inv: "(insider_step evs)\<^sup>*\<^sup>* s s' \<Longrightarrow> insider_inv l s \<Longrightarrow> insider_inv l s'"
  by (induction rule: rtranclp_induct) (auto dest: insider_step_inv)

lemma insider_start_inv: "one_lead l e \<Longrightarrow> insider_inv l (insider_start e t)"
  by (simp add: insider_inv_def insider_start_def one_lead_def previews_timely_def)


section \<open>A preview that is lost\<close>

text \<open>The preview of the event has been sent before the player joined its buyers.\<close>

definition too_late :: "string \<Rightarrow> planned_event \<Rightarrow> insider_run \<Rightarrow> bool" where
  "too_late player ev s \<longleftrightarrow> \<not> was_shown s player ev \<and>
     (\<forall>se. ie_next (ir_engine s) = Some se \<longrightarrow> se_event se = ev \<longrightarrow> se_preview_sent se \<and> player \<in> set (se_buyers se))"

lemma dispatched_event:
  "prepareScheduledPreview eid now e = (r, e') \<Longrightarrow> (b, InsiderPreview ip) \<in> set (dispatchPreview r) \<Longrightarrow>
     \<exists>se. ie_next e = Some se \<and> \<not> se_preview_sent se \<and> ip_event ip = se_event se"
  by (auto simp: prepareScheduledPreview_def dispatchPreview_def Let_def dest!: preview_payload split: option.splits if_splits)

lemma prepare_keeps:
  "prepareScheduledPreview eid now e = (r, e') \<Longrightarrow> ie_next e' = Some se' \<Longrightarrow>
     \<exists>se. ie_next e = Some se \<and> se_event se' = se_event se \<and> se_buyers se' = se_buyers se \<and> (se_preview_sent se \<longrightarrow> se_preview_sent se')"
  by (auto simp: prepareScheduledPreview_def Let_def split: option.splits if_splits)

lemma too_late_prepared:
  assumes "too_late player ev s" "prepareScheduledPreview eid now (ir_engine s) = (r, e')"
  shows "too_late player ev \<lparr>ir_engine = e', ir_now = now, ir_shown = ir_shown s @ dispatchPreview r\<rparr>"
  using assms dispatched_event [OF assms(2)] prepare_keeps [OF assms(2)]
  by (fastforce simp: too_late_def was_shown_def)

lemma too_late_step:
  "insider_step evs s s' \<Longrightarrow> ev \<notin> evs \<Longrightarrow> too_late player ev s \<Longrightarrow> too_late player ev s'"
proof (induction rule: insider_step.induct)
  case (step_buy s i p now env b x r shown e' x')
  let ?e = "drop_past_event now (ir_engine s)"
  obtain r1 where r1: "buyInsiderLocked now b (pi_def p) (ir_engine s) = (r1, e')"
      "shown = (case r1 of Inr (x, Some q) \<Rightarrow> [(b, q)] | _ \<Rightarrow> [])"
    using step_buy(1,2,4) by (auto simp: Buy_def split: prod.splits sum.splits option.splits)
  have drop: "ie_next ?e = Some se \<Longrightarrow> ie_next (ir_engine s) = Some se" for se
    by (auto simp: drop_past_event_def split: option.splits if_splits)
  have next_: "\<exists>se. ie_next ?e = Some se \<and> se_event se' = se_event se \<and> se_preview_sent se' = se_preview_sent se \<and>
      set (se_buyers se) \<subseteq> set (se_buyers se')" if "ie_next e' = Some se'" for se'
    using that r1(1) by (auto simp: buyInsiderLocked_def Let_def split: option.splits if_splits)
  have sh: "\<exists>se. ie_next ?e = Some se \<and> b \<notin> set (se_buyers se) \<and> ip_event ip = se_event se \<and> c = b"
    if "(c, InsiderPreview ip) \<in> set shown" for c ip
    using that r1 by (auto simp: buyInsiderLocked_def Let_def dest!: preview_payload split: option.splits if_splits)
  show ?case using step_buy(6) next_ sh drop by (fastforce simp: too_late_def was_shown_def)
next
  case (step_schedule e1 s now shown e')
  show ?case
  proof (cases "insiderDefinitionLocked (ir_engine s) = None")
    case True
    then show ?thesis using step_schedule by (auto simp: ScheduleNextRandomEvent_def too_late_def was_shown_def)
  next
    case False
    let ?e = "(ir_engine s)\<lparr>ie_pending_buyers := [],
                     ie_next := Some \<lparr>se_event = e1, se_buyers = ie_pending_buyers (ir_engine s), se_preview_sent = False\<rparr>\<rparr>"
    obtain r where r: "prepareScheduledPreview (pl_id e1) now ?e = (r, e')" "shown = dispatchPreview r"
      using step_schedule(3) False by (auto simp: ScheduleNextRandomEvent_def split: prod.splits)
    have "too_late player ev (s\<lparr>ir_engine := ?e\<rparr>)" using step_schedule(1,4,5) by (auto simp: too_late_def was_shown_def)
    from too_late_prepared [OF this, of "pl_id e1" now r e'] r show ?thesis by simp
  qed
next
  case (step_timer s now eid shown e')
  then show ?case using too_late_prepared [of player ev s eid now] by (auto simp: preview_timer_def split: prod.splits)
qed

lemma too_late_run: "(insider_step evs)\<^sup>*\<^sup>* s s' \<Longrightarrow> ev \<notin> evs \<Longrightarrow> too_late player ev s \<Longrightarrow> too_late player ev s'"
  by (induction rule: rtranclp_induct) (auto dest: too_late_step)

definition demo_insider :: "string \<Rightarrow> int \<Rightarrow> intel_definition" where
  "demo_insider i lead = \<lparr>id_id = i, id_kind = KindInsider, id_name = ''tip'', id_description = [], id_message = [],
     id_private_message = [], id_chance = 0, id_price = 50, id_market_multiplier = [], id_duration_seconds = 45,
     id_lead_time_seconds = lead, id_global = True, id_ticker = []\<rparr>"

definition demo_intel :: "intel_definition list \<Rightarrow> intel_engine" where
  "demo_intel ds = (case NewIntelEngine 0 ds demo_rng of Inr e \<Rightarrow> e | Inl _ \<Rightarrow> undefined)"

definition demo_plan :: planned_event where
  "demo_plan = \<lparr>pl_id = ''random-event-1'', pl_kind = ''random_event'', pl_event_name = ''Crash'', pl_message = ''Crash'', pl_global = True,
     pl_symbol = [], pl_multiplier_pct = - 10, pl_duration = 30 * second, pl_duration_seconds = 30, pl_scheduled_at = 100 * second\<rparr>"

lemma demo_intel_simps:
  "ie_ordered (demo_intel [demo_insider ''a'' m]) = [\<lparr>pi_def = intel_defaults (demo_insider ''a'' m), pi_multiplier = \<lparr>rg_min = 0, rg_max = 0\<rparr>\<rparr>]"
  "ie_defs (demo_intel [demo_insider ''a'' m]) =
     [''a'' \<mapsto> \<lparr>pi_def = intel_defaults (demo_insider ''a'' m), pi_multiplier = \<lparr>rg_min = 0, rg_max = 0\<rparr>\<rparr>]"
  by (simp_all add: demo_intel_def NewIntelEngine_def prepare_intel_def demo_insider_def intel_defaults_def)

lemma demo_lead:
  "0 < m \<Longrightarrow> m < 1000 \<Longrightarrow> lead_time (intel_defaults (demo_insider i m)) = m * second"
  by (simp add: lead_time_def intel_defaults_def demo_insider_def second_def int64_simps in64_def)

lemma demo_kind [simp]: "id_kind (intel_defaults (demo_insider i m)) = KindInsider"
  by (simp add: intel_defaults_def demo_insider_def)

lemma demo_next [simp]: "pl_scheduled_at demo_plan = 100 * second"
  by (simp add: demo_plan_def)


text \<open>C33: With insider offers of different lead times a buyer pays for nothing. Once the preview of the
  scheduled event has gone out, a player who buys an offer whose own preview time is still to come
  is accepted, charged the price and told that time, but in no later run, in which other events may be scheduled,
  timers fire and players buy, is that player ever shown the preview.\<close>
theorem mixed_leads_lose_preview:
  assumes "ie_defs e i = Some p" and "id_kind (pi_def p) = KindInsider" and "0 \<le> lead_time (pi_def p)"
    and "ie_next e = Some se" and "se_preview_sent se" and "player \<notin> set (se_buyers se)"
    and "now < pl_scheduled_at (se_event se) - lead_time (pi_def p)"
    and "\<forall>ip. (player, InsiderPreview ip) \<in> set before \<longrightarrow> ip_event ip \<noteq> se_event se"
  shows "\<exists>e'. Buy env now player i e x =
       (Inr \<lparr>br_cost = id_price (pi_def p), br_payload = ArmedForScheduled (pi_def p) (se_event se)
          (pl_scheduled_at (se_event se) - lead_time (pi_def p)) now\<rparr>, [], e', x) \<and>
     (\<forall>s. (insider_step (- {se_event se}))\<^sup>*\<^sup>* \<lparr>ir_engine = e', ir_now = now, ir_shown = before\<rparr> s \<longrightarrow>
        (\<forall>ip. (player, InsiderPreview ip) \<in> set (ir_shown s) \<longrightarrow> ip_event ip \<noteq> se_event se))"
proof -
  let ?e = "e\<lparr>ie_next := Some (se\<lparr>se_buyers := List.insert player (se_buyers se)\<rparr>)\<rparr>"
  have "\<not> pl_scheduled_at (se_event se) \<le> now" using assms(3,7) by simp
  then have buy: "Buy env now player i e x =
       (Inr \<lparr>br_cost = id_price (pi_def p), br_payload = ArmedForScheduled (pi_def p) (se_event se)
          (pl_scheduled_at (se_event se) - lead_time (pi_def p)) now\<rparr>, [], ?e, x)"
    using assms by (simp add: Buy_def buyInsiderLocked_def drop_past_event_def Let_def)
  have "too_late player (se_event se) \<lparr>ir_engine = ?e, ir_now = now, ir_shown = before\<rparr>"
    using assms(5,8) by (auto simp: too_late_def was_shown_def)
  then have "\<not> was_shown s player (se_event se)"
    if "(insider_step (- {se_event se}))\<^sup>*\<^sup>* \<lparr>ir_engine = ?e, ir_now = now, ir_shown = before\<rparr> s" for s
    using too_late_run [OF that, of "se_event se" player] by (simp add: too_late_def)
  then show ?thesis unfolding was_shown_def by (intro exI [of _ ?e] conjI buy) blast
qed

lemma demo_two_simps:
  "ie_ordered (demo_intel [demo_insider ''a'' 30, demo_insider ''b'' 10]) =
     [\<lparr>pi_def = intel_defaults (demo_insider ''a'' 30), pi_multiplier = \<lparr>rg_min = 0, rg_max = 0\<rparr>\<rparr>,
      \<lparr>pi_def = intel_defaults (demo_insider ''b'' 10), pi_multiplier = \<lparr>rg_min = 0, rg_max = 0\<rparr>\<rparr>]"
  "ie_defs (demo_intel [demo_insider ''a'' 30, demo_insider ''b'' 10]) ''b'' =
     Some \<lparr>pi_def = intel_defaults (demo_insider ''b'' 10), pi_multiplier = \<lparr>rg_min = 0, rg_max = 0\<rparr>\<rparr>"
  by (simp_all add: demo_intel_def NewIntelEngine_def prepare_intel_def demo_insider_def intel_defaults_def)

theorem mixed_leads_lose_preview_witness:
  "\<exists>e1 e2 shown e3. preview_timer (pl_id demo_plan) (70 * second)
       (snd (ScheduleNextRandomEvent 0 demo_plan (demo_intel [demo_insider ''a'' 30, demo_insider ''b'' 10]))) = ([], e1) \<and>
     fst (Buy demo_env (75 * second) ''ann'' ''b'' e1 (NewExchange [] 0)) =
       Inr \<lparr>br_cost = 50, br_payload = ArmedForScheduled (intel_defaults (demo_insider ''b'' 10)) demo_plan (90 * second) (75 * second)\<rparr> \<and>
     preview_timer (pl_id demo_plan) (90 * second) e2 = (shown, e3) \<and> fst (snd (snd (Buy demo_env (75 * second) ''ann'' ''b'' e1 (NewExchange [] 0)))) = e2 \<and>
     filter (\<lambda>(b, q). b = ''ann'' \<and> (case q of InsiderPreview ip \<Rightarrow> ip_event ip = demo_plan | _ \<Rightarrow> False)) shown = []"
proof -
  let ?e0 = "demo_intel [demo_insider ''a'' 30, demo_insider ''b'' 10]" and ?d = "intel_defaults (demo_insider ''b'' 10)"
  let ?se = "\<lparr>se_event = demo_plan, se_buyers = [], se_preview_sent = True\<rparr>"
  let ?e1 = "?e0\<lparr>ie_pending_buyers := [], ie_next := Some ?se\<rparr>"
  note lead = demo_lead [of 30 "''a''", simplified] demo_lead [of 10 "''b''", simplified]
  have pend: "ie_pending_buyers ?e0 = []" by (simp add: demo_intel_def NewIntelEngine_def prepare_intel_def demo_insider_def intel_defaults_def)
  have def1: "insiderDefinitionLocked ?e0 = Some (intel_defaults (demo_insider ''a'' 30))"
    by (simp add: insiderDefinitionLocked_def demo_two_simps)
  have sent: "preview_timer (pl_id demo_plan) (70 * second) (snd (ScheduleNextRandomEvent 0 demo_plan ?e0)) = ([], ?e1)"
    using def1 lead pend
    by (simp add: ScheduleNextRandomEvent_def preview_timer_def prepareScheduledPreview_def dispatchPreview_def second_def)
  have "ie_defs ?e1 ''b'' = Some \<lparr>pi_def = ?d, pi_multiplier = \<lparr>rg_min = 0, rg_max = 0\<rparr>\<rparr>" by (simp add: demo_two_simps)
  from mixed_leads_lose_preview [OF this, of ?se "''ann''" "75 * second" "[]" demo_env "NewExchange [] 0"]
  obtain e2 where b: "Buy demo_env (75 * second) ''ann'' ''b'' ?e1 (NewExchange [] 0) =
      (Inr \<lparr>br_cost = id_price ?d, br_payload = ArmedForScheduled ?d demo_plan (90 * second) (75 * second)\<rparr>, [], e2, NewExchange [] 0)"
    and never: "\<forall>s. (insider_step (- {demo_plan}))\<^sup>*\<^sup>* \<lparr>ir_engine = e2, ir_now = 75 * second, ir_shown = []\<rparr> s \<longrightarrow>
        (\<forall>ip. (''ann'', InsiderPreview ip) \<in> set (ir_shown s) \<longrightarrow> ip_event ip \<noteq> demo_plan)"
    using lead by (auto simp: second_def)
  obtain shown e3 where t: "preview_timer (pl_id demo_plan) (90 * second) e2 = (shown, e3)" by fastforce
  then have "insider_step (- {demo_plan}) \<lparr>ir_engine = e2, ir_now = 75 * second, ir_shown = []\<rparr>
      \<lparr>ir_engine = e3, ir_now = 90 * second, ir_shown = shown\<rparr>"
    using step_timer [of "\<lparr>ir_engine = e2, ir_now = 75 * second, ir_shown = []\<rparr>" "90 * second" _ shown e3] by (simp add: second_def)
  then have "(insider_step (- {demo_plan}))\<^sup>*\<^sup>* \<lparr>ir_engine = e2, ir_now = 75 * second, ir_shown = []\<rparr>
      \<lparr>ir_engine = e3, ir_now = 90 * second, ir_shown = shown\<rparr>"
    by (rule r_into_rtranclp)
  with never have n: "(''ann'', InsiderPreview ip) \<in> set shown \<Longrightarrow> ip_event ip \<noteq> demo_plan" for ip by fastforce
  have f: "filter (\<lambda>(b, q). b = ''ann'' \<and> (case q of InsiderPreview ip \<Rightarrow> ip_event ip = demo_plan | _ \<Rightarrow> False)) shown = []"
  proof -
    have "\<not> (case q of InsiderPreview ip \<Rightarrow> ip_event ip = demo_plan | _ \<Rightarrow> False)" if "(''ann'', q) \<in> set shown" for q
      using n that by (cases q) auto
    then show ?thesis by (auto simp: filter_empty_conv)
  qed
  have "id_price ?d = 50" by (simp add: intel_defaults_def demo_insider_def)
  note facts = sent b t f this
  show ?thesis
    by (rule exI [of _ ?e1], rule exI [of _ e2], rule exI [of _ shown], rule exI [of _ e3]) (simp add: facts)
qed

end
