(* ===== verification/Gameplay.thy ===== *)
theory Gameplay
  imports Accounts Roles Intel Chat
begin

text \<open>
  The state of the gameplay engine and its services (\<^verbatim>\<open>internal/gameplay/engine.go\<close>,
  \<^verbatim>\<open>stats_support.go\<close>, \<^verbatim>\<open>intel_support.go\<close>): players and their private feeds, bootstrap tokens,
  portfolio snapshots and the records of performance.

  A request runs in a \<open>call\<close>, which fixes what it reads from outside: \<open>c_env k\<close> is the environment of its
  \<open>k\<close>-th call of the exchange, \<open>c_now k\<close> its \<open>k\<close>-th reading of the clock, \<open>c_io k\<close> the fault of its \<open>k\<close>-th
  write to disk, \<open>c_uuid\<close> a fresh identifier, and the orders in which it ranges over maps. The chat store
  of the engine is the one the chat service holds: the program gives both the same pointer.
\<close>

section \<open>State\<close>

record bootstrap_grant =
  bg_player_id :: string
  bg_username :: string
  bg_expires_at :: time

datatype private_payload = PrivateChat chat_message | PrivateIntel intel_payload

record game =
  g_players :: player_store
  g_trades :: "trade_store option"
  g_performance :: "performance_store option"
  g_chat :: chat_service
  g_allocator :: allocator
  g_market :: exchange
  g_intel :: "intel_engine option"
  g_symbols :: "string list"
  g_open :: "string \<rightharpoonup> open_order"
  g_private_subs :: "string \<rightharpoonup> (nat \<times> private_payload list) list"
  g_private_history :: "string \<rightharpoonup> private_payload list"
  g_next_private_id :: nat
  g_tokens :: "(string \<times> bootstrap_grant) list"

record call =
  c_env :: "nat \<Rightarrow> env"
  c_now :: "nat \<Rightarrow> time"
  c_io :: "nat \<Rightarrow> io_fault option"
  c_uuid :: "nat \<Rightarrow> string"
  c_order_range :: "string list \<Rightarrow> string list"
  c_player_range :: "string list \<Rightarrow> string list"
  c_stats_range :: "stats_map \<Rightarrow> stats_map"
  c_ctx_done :: bool
  c_select :: "nat \<Rightarrow> bool"

datatype game_error =
    PlayerUnknown string | BadPayload | SymbolAndQuantityRequired | AccountFailed account_error
  | StoreFailed store_error | MarketFailed exchange_error | OrderUnknown string | OrderOfAnother string
  | ChatBodyRequired | RecipientRequired | ChatFailed chat_error | NoMarkets | TradeHistoryOff | LeaderboardOff
  | TokenRequired | TokenInvalid | TokenExpired | UnsupportedAction string | IntelOff
  | IntelFailed intel_error | IntelInsufficientCash int int

definition privateHistoryLimit :: nat where "privateHistoryLimit = 64"
definition bootstrapTokenTTL :: duration where "bootstrapTokenTTL = 2 * minute"

definition NewGame ::
  "player_store \<Rightarrow> trade_store option \<Rightarrow> performance_store option \<Rightarrow> allocator \<Rightarrow> exchange \<Rightarrow> chat_service \<Rightarrow> game" where
  "NewGame players trades performance allocator market chat =
     \<lparr>g_players = players, g_trades = trades, g_performance = performance, g_chat = chat, g_allocator = allocator,
      g_market = market, g_intel = None, g_symbols = sort (ListTickers market), g_open = Map.empty,
      g_private_subs = Map.empty, g_private_history = Map.empty, g_next_private_id = 0, g_tokens = []\<rparr>"

definition SetIntelEngine :: "intel_engine \<Rightarrow> game \<Rightarrow> game" where
  "SetIntelEngine e g = g\<lparr>g_intel := Some e\<rparr>"

section \<open>Players\<close>

definition requirePlayer :: "string \<Rightarrow> game \<Rightarrow> game_error + player" where
  "requirePlayer pid g =
     (case PlayerStore_GetByPlayerID pid (g_players g) of None \<Rightarrow> Inl (PlayerUnknown pid) | Some p \<Rightarrow> Inr p)"

definition resolvePlayerRef :: "string \<Rightarrow> game \<Rightarrow> game_error + player" where
  "resolvePlayerRef ref g =
     (if ref = [] then Inl RecipientRequired
      else (case PlayerStore_GetByPlayerID ref (g_players g) of
              Some p \<Rightarrow> Inr p
            | None \<Rightarrow> (case PlayerStore_Get ref (g_players g) of
                         Some p \<Rightarrow> Inr p
                       | None \<Rightarrow> Inl (PlayerUnknown ref))))"

definition upsert :: "io_fault option \<Rightarrow> player \<Rightarrow> game \<Rightarrow> store_error option \<times> game" where
  "upsert io p g = (case PlayerStore_Upsert io p (g_players g) of (e, st) \<Rightarrow> (e, g\<lparr>g_players := st\<rparr>))"

section \<open>Private feeds\<close>

definition private_queues :: "string \<Rightarrow> game \<Rightarrow> (nat \<times> private_payload list) list" where
  "private_queues pid g = (case g_private_subs g pid of None \<Rightarrow> [] | Some qs \<Rightarrow> qs)"

definition private_log :: "string \<Rightarrow> game \<Rightarrow> private_payload list" where
  "private_log pid g = (case g_private_history g pid of None \<Rightarrow> [] | Some h \<Rightarrow> h)"

definition SubscribePrivate :: "string \<Rightarrow> game \<Rightarrow> nat \<times> game" where
  "SubscribePrivate pid g =
     (let i = g_next_private_id g
      in (i, g\<lparr>g_next_private_id := Suc i,
               g_private_subs := (g_private_subs g)(pid \<mapsto> AList.update i [] (private_queues pid g))\<rparr>))"

definition private_disconnect :: "string \<Rightarrow> nat \<Rightarrow> game \<Rightarrow> game" where
  "private_disconnect pid i g =
     (case g_private_subs g pid of
        None \<Rightarrow> g
      | Some qs \<Rightarrow>
          (let rest = filter (\<lambda>(j, q). j \<noteq> i) qs
           in g\<lparr>g_private_subs := (g_private_subs g)(pid := (if rest = [] then None else Some rest))\<rparr>))"

definition notifyPlayerLocked :: "string \<Rightarrow> private_payload \<Rightarrow> game \<Rightarrow> game" where
  "notifyPlayerLocked pid m g =
     g\<lparr>g_private_history := (g_private_history g)(pid \<mapsto> keep_last privateHistoryLimit (private_log pid g @ [m])),
       g_private_subs := (case g_private_subs g pid of
           None \<Rightarrow> g_private_subs g
         | Some qs \<Rightarrow> (g_private_subs g)(pid \<mapsto> map (\<lambda>(i, q). (i, try_send 32 m q)) qs))\<rparr>"

definition NotifyPlayer :: "string \<Rightarrow> private_payload \<Rightarrow> game \<Rightarrow> game" where
  "NotifyPlayer = notifyPlayerLocked"

definition privateHistorySnapshot :: "string \<Rightarrow> game \<Rightarrow> private_payload list" where
  "privateHistorySnapshot pid g =
     keep_last privateHistoryLimit
       ((case ch_store (g_chat g) of
           None \<Rightarrow> []
         | Some st \<Rightarrow>
             map PrivateChat (filter (\<lambda>m. cm_channel m \<noteq> ''global'')
               (ChatStore_Query \<lparr>cq_player_id = pid, cq_channel = [], cq_limit = int privateHistoryLimit\<rparr> st)))
        @ private_log pid g)"

interpretation private_feed: fanout "notifyPlayerLocked pid" "\<lambda>m. m" "private_queues pid" 32 for pid
  by unfold_locales (simp add: notifyPlayerLocked_def private_queues_def split: option.splits)

section \<open>Bootstrap tokens\<close>

definition issueBootstrapToken :: "time \<Rightarrow> string \<Rightarrow> player \<Rightarrow> game \<Rightarrow> (string \<times> time) \<times> game" where
  "issueBootstrapToken now token p g =
     (let expires = now + bootstrapTokenTTL;
          alive = filter (\<lambda>(t, gr). bg_expires_at gr > now) (g_tokens g)
      in ((token, expires),
          g\<lparr>g_tokens := AList.update token
              \<lparr>bg_player_id = p_id p, bg_username = p_username p, bg_expires_at = expires\<rparr> alive\<rparr>))"

definition consumeBootstrapToken :: "time \<Rightarrow> string \<Rightarrow> game \<Rightarrow> (game_error + bootstrap_grant) \<times> game" where
  "consumeBootstrapToken now token0 g =
     (let token = trim_space token0 in
      if token = [] then (Inl TokenRequired, g)
      else (case map_of (g_tokens g) token of
              None \<Rightarrow> (Inl TokenInvalid, g)
            | Some gr \<Rightarrow>
                (let g' = g\<lparr>g_tokens := AList.delete token (g_tokens g)\<rparr>
                 in (if bg_expires_at gr > now then Inr gr else Inl TokenExpired, g'))))"

section \<open>Snapshots\<close>

record trade_rules =
  ru_exchange_fee_bps :: int
  ru_market_order_surcharge_bps :: int
  ru_rapid_flip_tax_bps :: int
  ru_rapid_flip_window_seconds :: int

definition tradingRulesSnapshot :: trade_rules where
  "tradingRulesSnapshot =
     \<lparr>ru_exchange_fee_bps = exchangeFeeBps, ru_market_order_surcharge_bps = marketOrderSurchargeBps,
      ru_rapid_flip_tax_bps = rapidFlipTaxBps, ru_rapid_flip_window_seconds = quot64 rapidFlipWindow second\<rparr>"

record portfolio_snapshot =
  po_player_id :: string
  po_username :: string
  po_role :: string
  po_cash :: int
  po_reserved_cash :: int
  po_available_cash :: int
  po_portfolio :: "string \<rightharpoonup> int"
  po_reserved_stocks :: "string \<rightharpoonup> int"
  po_available_stock :: "string \<rightharpoonup> int"
  po_fresh_stock :: "string \<rightharpoonup> int"
  po_rules :: trade_rules
  po_updated_at :: time

definition snapshotPlayer :: "time \<Rightarrow> player \<Rightarrow> game \<Rightarrow> portfolio_snapshot" where
  "snapshotPlayer now p g =
     \<lparr>po_player_id = p_id p, po_username = p_username p, po_role = p_role p, po_cash = p_cash p,
      po_reserved_cash = p_reserved_cash p, po_available_cash = sub64 (p_cash p) (p_reserved_cash p),
      po_portfolio = p_portfolio p, po_reserved_stocks = p_reserved_stocks p,
      po_available_stock = foldl (\<lambda>m s. m(s \<mapsto> sub64 (stock p s) (reserved_stock p s))) Map.empty (g_symbols g),
      po_fresh_stock =
        foldl (\<lambda>m s. m(s \<mapsto> max64 0 (sub64 (rapidFlipExposure p s now) (reserved_stock p s)))) Map.empty (g_symbols g),
      po_rules = tradingRulesSnapshot, po_updated_at = now\<rparr>"

definition holdings_value :: "(string \<times> price_point) list \<Rightarrow> string list \<Rightarrow> player \<Rightarrow> int" where
  "holdings_value prices symbols p =
     foldl (\<lambda>v s. add64 v (mul64 (stock p s) (case map_of prices s of None \<Rightarrow> 0 | Some pp \<Rightarrow> current_price pp))) 0 symbols"

definition equity_of :: "(string \<times> price_point) list \<Rightarrow> string list \<Rightarrow> time \<Rightarrow> player \<Rightarrow> equity_snapshot" where
  "equity_of prices symbols now p =
     (let v = holdings_value prices symbols p
      in \<lparr>es_player_id = p_id p, es_username = p_username p, es_role = p_role p, es_cash = p_cash p,
          es_holdings_value = v, es_total_equity = add64 (p_cash p) v, es_captured_at = now\<rparr>)"

text \<open>The players are those of a map from identifiers, listed by identifier.\<close>

definition buildPerformanceSnapshots ::
  "env \<Rightarrow> time \<Rightarrow> (string \<times> player) list \<Rightarrow> game \<Rightarrow> (game_error + equity_snapshot list) \<times> game" where
  "buildPerformanceSnapshots env now players g =
     (case PriceMap env (g_market g) of
        (Inl e, x) \<Rightarrow> (Inl (MarketFailed e), g\<lparr>g_market := x\<rparr>)
      | (Inr prices, x) \<Rightarrow>
          (Inr (map (\<lambda>pid. equity_of prices (g_symbols g) now (the (map_of players pid))) (sort (map fst players))),
           g\<lparr>g_market := x\<rparr>))"

definition record_snapshots ::
  "env \<Rightarrow> time \<Rightarrow> io_fault option \<Rightarrow> (string \<times> player) list \<Rightarrow> game \<Rightarrow> game_error option \<times> game" where
  "record_snapshots env now io players g =
     (case g_performance g of
        None \<Rightarrow> (None, g)
      | Some _ \<Rightarrow>
          (case buildPerformanceSnapshots env now players g of
             (Inl e, g1) \<Rightarrow> (Some e, g1)
           | (Inr snaps, g1) \<Rightarrow>
               (case PerformanceStore_Append io snaps (the (g_performance g1)) of
                  (e, st) \<Rightarrow> (map_option StoreFailed e, g1\<lparr>g_performance := Some st\<rparr>))))"

definition recordPlayerSnapshot :: "env \<Rightarrow> time \<Rightarrow> io_fault option \<Rightarrow> player \<Rightarrow> game \<Rightarrow> game_error option \<times> game" where
  "recordPlayerSnapshot env now io p g = record_snapshots env now io [(p_id p, p)] g"

definition recordPerformanceSnapshots ::
  "env \<Rightarrow> time \<Rightarrow> io_fault option \<Rightarrow> (string \<times> player) list \<Rightarrow> game \<Rightarrow> game_error option \<times> game" where
  "recordPerformanceSnapshots env now io players g =
     (if players = [] then (None, g) else record_snapshots env now io players g)"

section \<open>Logging in\<close>

record ensured_player =
  en_player :: player
  en_created :: bool
  en_token :: string
  en_token_expires_at :: time

definition new_player :: "call \<Rightarrow> string \<Rightarrow> assignment \<Rightarrow> player" where
  "new_player c username a =
     \<lparr>p_id = c_uuid c 0, p_username = username, p_role = role_name (as_role a), p_cash = as_cash a, p_reserved_cash = 0,
      p_portfolio = as_holdings a, p_reserved_stocks = Map.empty, p_lots = Map.empty, p_created_at = c_now c 0,
      p_last_login_at = c_now c 1\<rparr>"

definition admit :: "call \<Rightarrow> player \<Rightarrow> bool \<Rightarrow> game \<Rightarrow> (game_error + ensured_player) \<times> game" where
  "admit c p created g =
     (case upsert (c_io c 0) p g of
        (Some e, g1) \<Rightarrow> (Inl (StoreFailed e), g1)
      | (None, g1) \<Rightarrow>
          (case issueBootstrapToken (c_now c 2) (c_uuid c 1) p g1 of
             ((token, expires), g2) \<Rightarrow>
               (case recordPlayerSnapshot (c_env c 0) (c_now c 3) (c_io c 1) p g2 of
                  (Some e, g3) \<Rightarrow> (Inl e, g3)
                | (None, g3) \<Rightarrow>
                    (Inr \<lparr>en_player = p, en_created = created, en_token = token, en_token_expires_at = expires\<rparr>, g3))))"

definition EnsurePlayer :: "call \<Rightarrow> string \<Rightarrow> game \<Rightarrow> (game_error + ensured_player) \<times> game" where
  "EnsurePlayer c username g =
     (case PlayerStore_Get username (g_players g) of
        Some p \<Rightarrow> admit c (p\<lparr>p_last_login_at := c_now c 0\<rparr>) False g
      | None \<Rightarrow>
          (case Assign (PlayerStore_RoleStats (g_players g)) (g_symbols g) (g_allocator g) of
             (a, al) \<Rightarrow> admit c (new_player c username a) True (g\<lparr>g_allocator := al\<rparr>)))"

end
