(* ===== verification/Actions.thy ===== *)
theory Actions
  imports Gameplay
begin

text \<open>
  The actions of the gameplay engine: \<^verbatim>\<open>ExecuteAction\<close> and its handlers in
  \<^verbatim>\<open>internal/gameplay/engine.go\<close>, \<^verbatim>\<open>stats_support.go\<close> and \<^verbatim>\<open>intel_support.go\<close>.

  A request's payload is what decoding it into each handler's struct gives; \<open>None\<close> is a decoding error.
  JSON replies are values of \<open>reply\<close>. \<^verbatim>\<open>ExecuteAction\<close> holds the engine's mutex, so a handler that asks for
  it again never returns: the result \<open>None\<close>.
\<close>

section \<open>Requests and replies\<close>

record place_payload =
  pp_order_symbol :: string
  pp_order_side :: string
  pp_order_type :: string
  pp_order_price :: int
  pp_order_quantity :: int

record payload =
  pd_empty :: bool
  pd_place :: "place_payload option"
  pd_cancel :: "(string \<times> string) option"
  pd_chat :: "(string \<times> string) option"
  pd_symbol :: string
  pd_token :: "string option"
  pd_history :: "(string \<times> string \<times> int \<times> int) option"
  pd_leaderboard :: "(int \<times> int) option"
  pd_intel_id :: "string option"

record action_request =
  rq_request_id :: string
  rq_player_id :: string
  rq_action_id :: string
  rq_payload :: payload

datatype reply =
    PlaceOrderReply market_msg portfolio_snapshot
  | CancelOrderReply market_msg portfolio_snapshot
  | PortfolioReply portfolio_snapshot
  | ChatReply chat_message
  | MarketReply market_msg
  | CatalogReply "string list" trade_rules
  | TokenReply string string string
  | TradeHistoryReply "trade_record list"
  | LeaderboardReply int time "leaderboard_entry list"
  | IntelCatalogReply "catalog_item list"
  | IntelBuyReply catalog_item int portfolio_snapshot intel_payload

section \<open>Placing an order\<close>

definition parse_side :: "string \<Rightarrow> side" where
  "parse_side s =
     (let l = to_lower s in if l = ''buy'' then SideBuy else if l = ''sell'' then SideSell else SideOther l)"

definition parse_type :: "string \<Rightarrow> order_type" where
  "parse_type s =
     (let l = to_lower s in
      if l = [] \<or> l = ''limit'' then OrderTypeLimit else if l = ''market'' then OrderTypeMarket else OrderTypeOther l)"

fun apply_trades :: "trade list \<Rightarrow> string \<Rightarrow> accounts \<Rightarrow> account_error option \<times> accounts" where
  "apply_trades [] oid a = (None, a)"
| "apply_trades (t # ts) oid a =
     (case applyTrade t oid a of (Some e, a') \<Rightarrow> (Some e, a') | (None, a') \<Rightarrow> apply_trades ts oid a')"

text \<open>What happens to the incoming order after its trades: it rests with the reservation it still needs, or
  what is left of its reservation is released.\<close>

definition settle_incoming :: "place_output \<Rightarrow> string \<Rightarrow> side \<Rightarrow> string \<Rightarrow> accounts \<Rightarrow> accounts" where
  "settle_incoming out symbol sd pid a =
     (case po_resting out of
        Some r \<Rightarrow>
          (let a1 = finalizeRestingReservation symbol sd pid (a\<lparr>ac_incoming := (ac_incoming a)\<lparr>oo_order := r\<rparr>\<rparr>)
           in touch_order (o_id r) (a1\<lparr>ac_orders := (ac_orders a1)(o_id r \<mapsto> ac_incoming a1)\<rparr>))
      | None \<Rightarrow>
          on_player pid (releaseIncomingReservation symbol sd (oo_reserved_cash (ac_incoming a)) (oo_reserved_quantity (ac_incoming a))) a)"

definition tidy_orders :: "(string list \<Rightarrow> string list) \<Rightarrow> string list \<Rightarrow> accounts \<Rightarrow> accounts" where
  "tidy_orders rg removed a =
     (let b = foldl (\<lambda>a oid. cleanupOpenOrder oid a) a removed
      in foldl (\<lambda>a oid. normalizeOpenOrder oid a) b (rg (ac_touched_orders b)))"

fun upsert_all :: "(nat \<Rightarrow> io_fault option) \<Rightarrow> nat \<Rightarrow> player list \<Rightarrow> game \<Rightarrow> store_error option \<times> game" where
  "upsert_all io k [] g = (None, g)"
| "upsert_all io k (p # ps) g =
     (case upsert (io k) p g of (Some e, g') \<Rightarrow> (Some e, g') | (None, g') \<Rightarrow> upsert_all io (Suc k) ps g')"

definition username_or_empty :: "player option \<Rightarrow> string" where
  "username_or_empty p = (case p of None \<Rightarrow> [] | Some q \<Rightarrow> p_username q)"

definition record_of_trade :: "(string \<times> player) list \<Rightarrow> trade \<Rightarrow> trade_record" where
  "record_of_trade players t =
     \<lparr>tr_id = t_id t, tr_symbol = t_symbol t, tr_price = t_price t, tr_quantity = t_quantity t,
      tr_notional = mul64 (t_price t) (t_quantity t), tr_aggressor_side = t_aggressor_side t,
      tr_buy_order_id = t_buy_order_id t, tr_sell_order_id = t_sell_order_id t, tr_buyer_id = t_buyer_id t,
      tr_buyer_username = username_or_empty (map_of players (t_buyer_id t)), tr_buyer_role = t_buyer_role t,
      tr_seller_id = t_seller_id t, tr_seller_username = username_or_empty (map_of players (t_seller_id t)),
      tr_seller_role = t_seller_role t, tr_executed_at = t_executed_at t\<rparr>"

definition persistTradeEffects ::
  "env \<Rightarrow> time \<Rightarrow> io_fault option \<Rightarrow> io_fault option \<Rightarrow> (string \<times> player) list \<Rightarrow> trade list \<Rightarrow> game \<Rightarrow> game_error option \<times> game" where
  "persistTradeEffects env now io1 io2 players trades g =
     (if trades = [] then (None, g)
      else (case (case g_trades g of
                    None \<Rightarrow> (None, g)
                  | Some ts \<Rightarrow> (case TradeStore_Append io1 (map (record_of_trade players) trades) ts of
                                (e, ts') \<Rightarrow> (e, g\<lparr>g_trades := Some ts'\<rparr>))) of
              (Some e, g1) \<Rightarrow> (Some (StoreFailed e), g1)
            | (None, g1) \<Rightarrow> recordPerformanceSnapshots env now io2 players g1))"

text \<open>\<open>ranged\<close> lists the entries of the touched players in the order the map is ranged over.\<close>

definition ranged :: "(string list \<Rightarrow> string list) \<Rightarrow> (string \<times> player) list \<Rightarrow> player list" where
  "ranged rg ps = map (\<lambda>pid. the (map_of ps pid)) (rg (map fst ps))"

definition settle_order :: "call \<Rightarrow> place_output \<Rightarrow> string \<Rightarrow> side \<Rightarrow> player \<Rightarrow> int \<Rightarrow> int \<Rightarrow> game \<Rightarrow> (game_error + reply) \<times> game" where
  "settle_order c out symbol sd p cash qty g =
     (let a0 = \<lparr>ac_store = g_players g, ac_touched = [(p_id p, p)], ac_orders = g_open g,
                ac_incoming = \<lparr>oo_order = po_order out, oo_reserved_cash = cash, oo_reserved_quantity = qty\<rparr>,
                ac_touched_orders = []\<rparr>
      in case apply_trades (po_trades out) (o_id (po_order out)) a0 of
           (Some e, a1) \<Rightarrow> (Inl (AccountFailed e), g\<lparr>g_open := ac_orders a1\<rparr>)
         | (None, a1) \<Rightarrow>
             (let a2 = tidy_orders (c_order_range c) (po_removed out) (settle_incoming out symbol sd (p_id p) a1);
                  g1 = g\<lparr>g_open := ac_orders a2\<rparr>
              in case upsert_all (c_io c) 1 (ranged (c_player_range c) (ac_touched a2)) g1 of
                   (Some e, g2) \<Rightarrow> (Inl (StoreFailed e), g2)
                 | (None, g2) \<Rightarrow>
                     (let n = Suc (length (ac_touched a2)) in
                      case persistTradeEffects (c_env c 2) (c_now c 0) (c_io c n) (c_io c (Suc n)) (ac_touched a2) (po_trades out) g2 of
                        (Some e, g3) \<Rightarrow> (Inl e, g3)
                      | (None, g3) \<Rightarrow>
                          (Inr (PlaceOrderReply (po_json out) (snapshotPlayer (c_now c 1) (the (map_of (ac_touched a2) (p_id p))) g3)), g3))))"

definition market_price :: "env \<Rightarrow> string \<Rightarrow> game \<Rightarrow> (exchange_error + int) \<times> game" where
  "market_price env symbol g =
     (case ChartSnapshot env symbol 1 (g_market g) of
        (Inl e, x) \<Rightarrow> (Inl e, g\<lparr>g_market := x\<rparr>)
      | (Inr s, x) \<Rightarrow> (Inr (current_price (sp_price s)), g\<lparr>g_market := x\<rparr>))"

text \<open>Reserving reads the market price only for a buy without a price.\<close>

definition reserve ::
  "env \<Rightarrow> player \<Rightarrow> string \<Rightarrow> side \<Rightarrow> order_type \<Rightarrow> int \<Rightarrow> int \<Rightarrow> game \<Rightarrow> (account_error + int \<times> int \<times> player) \<times> game" where
  "reserve env p symbol sd kind price qty g =
     (if sd = SideBuy \<and> price \<le> 0
      then (case market_price env symbol g of (mp, g') \<Rightarrow> (reserveForIncoming mp p symbol sd kind price qty, g'))
      else (reserveForIncoming (Inr 0) p symbol sd kind price qty, g))"

definition place_request :: "action_request \<Rightarrow> player \<Rightarrow> string \<Rightarrow> place_payload \<Rightarrow> place_input" where
  "place_request rq p symbol pl =
     \<lparr>pi_request_id = rq_request_id rq, pi_player_id = p_id p, pi_player_role = p_role p, pi_symbol = symbol,
      pi_side = parse_side (pp_order_side pl), pi_type = parse_type (pp_order_type pl), pi_price = pp_order_price pl,
      pi_quantity = pp_order_quantity pl\<rparr>"

definition handlePlaceOrder :: "call \<Rightarrow> action_request \<Rightarrow> game \<Rightarrow> (game_error + reply) \<times> game" where
  "handlePlaceOrder c rq g =
     (case requirePlayer (rq_player_id rq) g of
        Inl e \<Rightarrow> (Inl e, g)
      | Inr p \<Rightarrow>
          (case pd_place (rq_payload rq) of
             None \<Rightarrow> (Inl BadPayload, g)
           | Some pl \<Rightarrow>
               (let symbol = to_upper (trim_space (pp_order_symbol pl)); qty = pp_order_quantity pl;
                    sd = parse_side (pp_order_side pl); kind = parse_type (pp_order_type pl) in
                if symbol = [] \<or> qty \<le> 0 then (Inl SymbolAndQuantityRequired, g)
                else (case reserve (c_env c 0) p symbol sd kind (pp_order_price pl) qty g of
                        (Inl e, g1) \<Rightarrow> (Inl (AccountFailed e), g1)
                      | (Inr (cash, held, p'), g1) \<Rightarrow>
                          (case upsert (c_io c 0) p' g1 of
                             (Some e, g2) \<Rightarrow> (Inl (StoreFailed e), g2)
                           | (None, g2) \<Rightarrow>
                               (case PlaceOrder (c_env c 1) (place_request rq p' symbol pl) (g_market g2) of
                                  (Inl e, x) \<Rightarrow>
                                    (Inl (MarketFailed e),
                                     snd (upsert (c_io c 1) (releaseIncomingReservation symbol sd cash held p') (g2\<lparr>g_market := x\<rparr>)))
                                | (Inr out, x) \<Rightarrow>
                                    settle_order c out symbol sd p' cash held (g2\<lparr>g_market := x\<rparr>)))))))"

section \<open>Cancelling\<close>

definition cleanup_for :: "string \<Rightarrow> open_order \<Rightarrow> player \<Rightarrow> game \<Rightarrow> player \<times> game" where
  "cleanup_for oid oo p g =
     (let a = cleanupOpenOrder oid
                \<lparr>ac_store = g_players g, ac_touched = [(p_id p, p)], ac_orders = g_open g, ac_incoming = oo, ac_touched_orders = []\<rparr>
      in (the (map_of (ac_touched a) (p_id p)), g\<lparr>g_open := ac_orders a\<rparr>))"

definition handleCancelOrder :: "call \<Rightarrow> action_request \<Rightarrow> game \<Rightarrow> (game_error + reply) \<times> game" where
  "handleCancelOrder c rq g =
     (case requirePlayer (rq_player_id rq) g of
        Inl e \<Rightarrow> (Inl e, g)
      | Inr p \<Rightarrow>
          (case pd_cancel (rq_payload rq) of
             None \<Rightarrow> (Inl BadPayload, g)
           | Some (symbol0, oid) \<Rightarrow>
               (case g_open g oid of
                  None \<Rightarrow> (Inl (OrderUnknown oid), g)
                | Some oo \<Rightarrow>
                    (if o_player_id (oo_order oo) \<noteq> p_id p then (Inl (OrderOfAnother oid), g)
                     else (let s = to_upper (trim_space symbol0); symbol = (if s = [] then o_symbol (oo_order oo) else s) in
                           case CancelOrder (c_env c 0) symbol oid (g_market g) of
                             (Inl e, x) \<Rightarrow> (Inl (MarketFailed e), g\<lparr>g_market := x\<rparr>)
                           | (Inr m, x) \<Rightarrow>
                               (case cleanup_for oid oo p (g\<lparr>g_market := x\<rparr>) of
                                  (p', g1) \<Rightarrow>
                                    (case upsert (c_io c 0) p' g1 of
                                       (Some e, g2) \<Rightarrow> (Inl (StoreFailed e), g2)
                                     | (None, g2) \<Rightarrow> (Inr (CancelOrderReply m (snapshotPlayer (c_now c 0) p' g2)), g2))))))))"

section \<open>Chat\<close>

definition chat_from :: "string \<Rightarrow> string \<Rightarrow> player \<Rightarrow> string \<Rightarrow> string \<Rightarrow> string \<Rightarrow> time \<Rightarrow> chat_message" where
  "chat_from kind channel p body rid rname now =
     \<lparr>cm_type = kind, cm_channel = channel, cm_player_id = p_id p, cm_username = p_username p, cm_role = p_role p,
      cm_body = body, cm_recipient_id = rid, cm_recipient_username = rname, cm_sent_at = now\<rparr>"

definition store_chat :: "io_fault option \<Rightarrow> time \<Rightarrow> chat_message \<Rightarrow> game \<Rightarrow> store_error option \<times> game" where
  "store_chat io now m g =
     (case ch_store (g_chat g) of
        None \<Rightarrow> (None, g)
      | Some st \<Rightarrow> (case ChatStore_Append io now m st of
                     (e, st') \<Rightarrow> (e, g\<lparr>g_chat := (g_chat g)\<lparr>ch_store := Some st'\<rparr>\<rparr>)))"

definition SendChat :: "call \<Rightarrow> string \<Rightarrow> string \<Rightarrow> string \<Rightarrow> game \<Rightarrow> (game_error + chat_message) \<times> game" where
  "SendChat c pid body0 to0 g =
     (case requirePlayer pid g of
        Inl e \<Rightarrow> (Inl e, g)
      | Inr p \<Rightarrow>
          (let body = trim_space body0; to' = trim_space to0 in
           if body = [] then (Inl ChatBodyRequired, g)
           else if to' = []
           then (case chat_Broadcast (c_io c 0) (c_now c 1) (c_now c 2) (c_ctx_done c) (c_select c)
                        (chat_from ''chat.message'' ''global'' p body [] [] (c_now c 0)) (g_chat g) of
                   (Inl e, s) \<Rightarrow> (Inl (ChatFailed e), g\<lparr>g_chat := s\<rparr>)
                 | (Inr m, s) \<Rightarrow> (Inr m, g\<lparr>g_chat := s\<rparr>))
           else (case resolvePlayerRef to' g of
                   Inl e \<Rightarrow> (Inl e, g)
                 | Inr r \<Rightarrow>
                     (let m = chat_from ''chat.direct'' ''direct'' p body (p_id r) (p_username r) (c_now c 0) in
                      case store_chat (c_io c 0) (c_now c 1) m g of
                        (Some e, g1) \<Rightarrow> (Inl (StoreFailed e), g1)
                      | (None, g1) \<Rightarrow>
                          (Inr m, notifyPlayerLocked (p_id p) (PrivateChat m)
                             (if p_id r \<noteq> p_id p then notifyPlayerLocked (p_id r) (PrivateChat m) g1 else g1))))))"

definition handleSendChat :: "call \<Rightarrow> action_request \<Rightarrow> game \<Rightarrow> (game_error + reply) \<times> game" where
  "handleSendChat c rq g =
     (case pd_chat (rq_payload rq) of
        None \<Rightarrow> (Inl BadPayload, g)
      | Some (body, to') \<Rightarrow>
          (case SendChat c (rq_player_id rq) body to' g of
             (Inl e, g') \<Rightarrow> (Inl e, g') | (Inr m, g') \<Rightarrow> (Inr (ChatReply m), g')))"

section \<open>Market data\<close>

definition handleMarketSnapshot :: "call \<Rightarrow> action_request \<Rightarrow> game \<Rightarrow> (game_error + reply) \<times> game" where
  "handleMarketSnapshot c rq g =
     (let s = to_upper (trim_space (pd_symbol (rq_payload rq))) in
      if s = [] \<and> g_symbols g = [] then (Inl NoMarkets, g)
      else (case SnapshotJSON (c_env c 0) (if s = [] then hd (g_symbols g) else s) 10 (g_market g) of
              (Inl e, x) \<Rightarrow> (Inl (MarketFailed e), g\<lparr>g_market := x\<rparr>)
            | (Inr m, x) \<Rightarrow> (Inr (MarketReply m), g\<lparr>g_market := x\<rparr>)))"

definition handleMarketCatalog :: "game \<Rightarrow> reply" where
  "handleMarketCatalog g = CatalogReply (g_symbols g) tradingRulesSnapshot"

section \<open>Tokens, history, leaderboard\<close>

definition handleBootstrapExchange :: "call \<Rightarrow> action_request \<Rightarrow> game \<Rightarrow> (game_error + reply) \<times> game" where
  "handleBootstrapExchange c rq g =
     (case pd_token (rq_payload rq) of
        None \<Rightarrow> (Inl BadPayload, g)
      | Some token \<Rightarrow>
          (case consumeBootstrapToken (c_now c 0) token g of
             (Inl e, g1) \<Rightarrow> (Inl e, g1)
           | (Inr gr, g1) \<Rightarrow>
               (case requirePlayer (bg_player_id gr) g1 of
                  Inl e \<Rightarrow> (Inl e, g1)
                | Inr p \<Rightarrow> (Inr (TokenReply (p_id p) (p_username p) (p_role p)), g1))))"

definition history_query :: "time \<Rightarrow> string \<times> string \<times> int \<times> int \<Rightarrow> trade_query" where
  "history_query now f =
     (case f of (pid, symbol, since, limit) \<Rightarrow>
        \<lparr>tq_player_id = trim_space pid, tq_symbol = to_upper (trim_space symbol),
         tq_since = (if since > 0 then now + mul64 (i64 (- since)) second else zero_time), tq_until = zero_time, tq_limit = limit\<rparr>)"

definition handleTradeHistory :: "call \<Rightarrow> action_request \<Rightarrow> game \<Rightarrow> game_error + reply" where
  "handleTradeHistory c rq g =
     (case g_trades g of
        None \<Rightarrow> Inl TradeHistoryOff
      | Some ts \<Rightarrow>
          (case (if pd_empty (rq_payload rq) then Some ([], [], 0, 0) else pd_history (rq_payload rq)) of
             None \<Rightarrow> Inl BadPayload
           | Some f \<Rightarrow> Inr (TradeHistoryReply (TradeStore_Query (history_query (c_now c 0) f) ts))))"

definition handleLeaderboard :: "call \<Rightarrow> action_request \<Rightarrow> game \<Rightarrow> game_error + reply" where
  "handleLeaderboard c rq g =
     (case (g_performance g, g_trades g) of
        (Some pf, Some ts) \<Rightarrow>
          (case (if pd_empty (rq_payload rq) then Some (0, 0) else pd_leaderboard (rq_payload rq)) of
             None \<Rightarrow> Inl BadPayload
           | Some (window0, limit0) \<Rightarrow>
               (let window = (if window0 \<le> 0 then 3600 else window0); limit = (if limit0 \<le> 0 then 10 else limit0)
                in Inr (LeaderboardReply window (c_now c 0)
                     (Leaderboard (c_stats_range c) (mul64 window second) (c_now c 0) (TradeStore_All ts) limit pf))))
      | _ \<Rightarrow> Inl LeaderboardOff)"

section \<open>Intel\<close>

definition handleIntelCatalog :: "game \<Rightarrow> game_error + reply" where
  "handleIntelCatalog g =
     (case g_intel g of None \<Rightarrow> Inl IntelOff | Some e \<Rightarrow> Inr (IntelCatalogReply (intel_Catalog e)))"

text \<open>The intel engine calls \<^verbatim>\<open>NotifyPlayer\<close>, which locks the engine's mutex, while the handler holds it: with a
  preview to show the call never returns.\<close>

definition finish_intel_buy ::
  "call \<Rightarrow> player \<Rightarrow> catalog_item \<Rightarrow> (intel_error + buy_result) \<Rightarrow> game \<Rightarrow> (game_error + reply) \<times> game" where
  "finish_intel_buy c p quote r g =
     (case r of
        Inl e \<Rightarrow> (Inl (IntelFailed e), snd (upsert (c_io c 1) (p\<lparr>p_cash := add64 (p_cash p) (ci_price quote)\<rparr>) g))
      | Inr b \<Rightarrow>
          (case recordPlayerSnapshot (c_env c 1) (c_now c 1) (c_io c 1) p g of
             (Some e, g') \<Rightarrow> (Inl e, g')
           | (None, g') \<Rightarrow> (Inr (IntelBuyReply quote (br_cost b) (snapshotPlayer (c_now c 2) p g') (br_payload b)), g')))"

definition handleIntelBuy :: "call \<Rightarrow> action_request \<Rightarrow> game \<Rightarrow> ((game_error + reply) \<times> game) option" where
  "handleIntelBuy c rq g =
     (case g_intel g of
        None \<Rightarrow> Some (Inl IntelOff, g)
      | Some e \<Rightarrow>
          (case requirePlayer (rq_player_id rq) g of
             Inl err \<Rightarrow> Some (Inl err, g)
           | Inr p \<Rightarrow>
               (case pd_intel_id (rq_payload rq) of
                  None \<Rightarrow> Some (Inl BadPayload, g)
                | Some i \<Rightarrow>
                    (case Quote i e of
                       Inl err \<Rightarrow> Some (Inl (IntelFailed err), g)
                     | Inr quote \<Rightarrow>
                         (let available = sub64 (p_cash p) (p_reserved_cash p) in
                          if available < ci_price quote then Some (Inl (IntelInsufficientCash (ci_price quote) available), g)
                          else (let p' = p\<lparr>p_cash := sub64 (p_cash p) (ci_price quote)\<rparr> in
                                case upsert (c_io c 0) p' g of
                                  (Some err, g1) \<Rightarrow> Some (Inl (StoreFailed err), g1)
                                | (None, g1) \<Rightarrow>
                                    (case Buy (c_env c 0) (c_now c 0) (p_id p') i e (g_market g1) of
                                       (r, notifications, e', x) \<Rightarrow>
                                         (if notifications \<noteq> [] then None
                                          else Some (finish_intel_buy c p' quote r (g1\<lparr>g_intel := Some e', g_market := x\<rparr>)))))))))) "

section \<open>Dispatch\<close>

definition action_of :: "string \<Rightarrow> string" where
  "action_of a =
     (if a \<in> {''place_order'', ''exchange.place_order''} then ''place_order''
      else if a \<in> {''cancel_order'', ''exchange.cancel_order''} then ''cancel_order''
      else if a \<in> {''portfolio.get'', ''player.portfolio'', ''portfolio''} then ''portfolio''
      else if a \<in> {''chat.send'', ''send_chat_message''} then ''chat.send''
      else if a \<in> {''market.catalog'', ''market.list''} then ''market.catalog''
      else if a \<in> {''trade.history'', ''trades.history''} then ''trade.history''
      else if a \<in> {''stats.leaderboard'', ''leaderboard''} then ''stats.leaderboard''
      else if a \<in> {''intel.catalog'', ''intel.list''} then ''intel.catalog''
      else a)"

definition portfolio_action :: "call \<Rightarrow> string \<Rightarrow> game \<Rightarrow> game_error + reply" where
  "portfolio_action c pid g =
     (case requirePlayer pid g of Inl e \<Rightarrow> Inl e | Inr p \<Rightarrow> Inr (PortfolioReply (snapshotPlayer (c_now c 0) p g)))"

definition ExecuteAction :: "call \<Rightarrow> action_request \<Rightarrow> game \<Rightarrow> ((game_error + reply) \<times> game) option" where
  "ExecuteAction c rq g =
     (let a = action_of (rq_action_id rq) in
      if a = ''place_order'' then Some (handlePlaceOrder c rq g)
      else if a = ''cancel_order'' then Some (handleCancelOrder c rq g)
      else if a = ''portfolio'' then Some (portfolio_action c (rq_player_id rq) g, g)
      else if a = ''chat.send'' then Some (handleSendChat c rq g)
      else if a = ''market.snapshot'' then Some (handleMarketSnapshot c rq g)
      else if a = ''market.catalog'' then Some (Inr (handleMarketCatalog g), g)
      else if a = ''bootstrap.exchange_token'' then Some (handleBootstrapExchange c rq g)
      else if a = ''trade.history'' then Some (handleTradeHistory c rq g, g)
      else if a = ''stats.leaderboard'' then Some (handleLeaderboard c rq g, g)
      else if a = ''intel.catalog'' then Some (handleIntelCatalog g, g)
      else if a = ''intel.buy'' then handleIntelBuy c rq g
      else Some (Inl (UnsupportedAction (rq_action_id rq)), g))"

text \<open>The other entry points, which lock the mutex themselves.\<close>

definition PortfolioJSON :: "call \<Rightarrow> string \<Rightarrow> game \<Rightarrow> game_error + reply" where
  "PortfolioJSON = portfolio_action"

definition MarketSnapshotJSON :: "call \<Rightarrow> string \<Rightarrow> int \<Rightarrow> game \<Rightarrow> (exchange_error + market_msg) \<times> game" where
  "MarketSnapshotJSON c symbol depth g =
     (case SnapshotJSON (c_env c 0) symbol depth (g_market g) of (r, x) \<Rightarrow> (r, g\<lparr>g_market := x\<rparr>))"

end
