(* ===== verification/ActionProps.thy ===== *)
theory ActionProps
  imports Actions AccountProps ExchangeProps IntelProps RoleProps
begin

text \<open>
  Facts about the actions of the gameplay engine: the invariant of the whole game, single use of tokens
  and privacy of direct messages.
\<close>

section \<open>The invariant of the game\<close>

definition game_inv :: "game \<Rightarrow> bool" where
  "game_inv g \<longleftrightarrow> exchange_inv (g_market g) \<and> (\<forall>pid. length (private_log pid g) \<le> privateHistoryLimit) \<and>
     (\<forall>pid. \<forall>x \<in> set (private_queues pid g). length (snd x) \<le> 32)"

text \<open>Steps that leave the private feeds alone and use the exchange through its operations.\<close>

definition quiet :: "game \<Rightarrow> game \<Rightarrow> bool" where
  "quiet g g' \<longleftrightarrow> (exchange_inv (g_market g) \<longrightarrow> exchange_inv (g_market g')) \<and>
     g_private_subs g' = g_private_subs g \<and> g_private_history g' = g_private_history g"

lemma quiet_refl [simp]: "quiet g g" by (simp add: quiet_def)

lemma quiet_trans: "quiet g g' \<Longrightarrow> quiet g' g'' \<Longrightarrow> quiet g g''" by (simp add: quiet_def)

lemma quiet_inv: "quiet g g' \<Longrightarrow> game_inv g \<Longrightarrow> game_inv g'"
  by (simp add: quiet_def game_inv_def private_log_def private_queues_def)

lemma quiet_updates [simp]:
  "quiet g (g\<lparr>g_players := a\<rparr>)" "quiet g (g\<lparr>g_open := b\<rparr>)" "quiet g (g\<lparr>g_trades := c\<rparr>)" "quiet g (g\<lparr>g_performance := d\<rparr>)"
  "quiet g (g\<lparr>g_chat := e\<rparr>)" "quiet g (g\<lparr>g_allocator := h\<rparr>)" "quiet g (g\<lparr>g_intel := i\<rparr>)" "quiet g (g\<lparr>g_tokens := j\<rparr>)"
  by (simp_all add: quiet_def)

lemma quiet_market: "(exchange_inv (g_market g) \<Longrightarrow> exchange_inv x) \<Longrightarrow> quiet g (g\<lparr>g_market := x\<rparr>)"
  by (simp add: quiet_def)

lemma quiet_upsert: "upsert io p g = (e, g') \<Longrightarrow> quiet g g'"
  by (auto simp: upsert_def split: prod.splits)

lemma quiet_upsert_all: "upsert_all io k ps g = (e, g') \<Longrightarrow> quiet g g'"
proof (induction ps arbitrary: k g)
  case (Cons p ps)
  then show ?case by (auto split: prod.splits option.splits dest!: quiet_upsert intro: quiet_trans)
qed simp

lemma quiet_record_snapshots: "record_snapshots env now io ps g = (e, g') \<Longrightarrow> quiet g g'"
  using price_all_inv [of "g_market g" env]
  by (auto simp: record_snapshots_def buildPerformanceSnapshots_def PriceMap_def quiet_def split: option.splits prod.splits sum.splits)
    (metis snd_conv)+

lemma quiet_persistTradeEffects:
  assumes "persistTradeEffects env now io1 io2 ps ts g = (e, g')"
  shows "quiet g g'"
proof -
  have t: "quiet g g1" if "(case g_trades g of None \<Rightarrow> (None, g) | Some tr \<Rightarrow>
      (case TradeStore_Append io1 (map (record_of_trade ps) ts) tr of (e, ts') \<Rightarrow> (e, g\<lparr>g_trades := Some ts'\<rparr>))) = (e1, g1)" for e1 g1
    using that by (auto split: option.splits prod.splits)
  have r: "recordPerformanceSnapshots env now io2 ps g1 = (e2, g2) \<Longrightarrow> quiet g1 g2" for g1 e2 g2
    by (auto simp: recordPerformanceSnapshots_def quiet_record_snapshots split: if_splits)
  show ?thesis
    using assms t r by (auto simp: persistTradeEffects_def split: if_splits prod.splits option.splits intro: quiet_trans)
qed

lemma quiet_settle_order: "settle_order c out sy sd p cash qty g = (r, g') \<Longrightarrow> quiet g g'"
  unfolding settle_order_def Let_def
  by (auto split: prod.splits option.splits dest!: quiet_upsert_all quiet_persistTradeEffects intro: quiet_trans quiet_updates)

lemma quiet_reserve: "reserve env p sy sd kind price qty g = (r, g') \<Longrightarrow> quiet g g'"
  using ChartSnapshot_inv [of "g_market g" env sy 1]
  by (auto simp: reserve_def market_price_def quiet_def split: if_splits prod.splits sum.splits)

lemma quiet_PlaceOrder:
  "in64 (pi_quantity i) \<Longrightarrow> PlaceOrder env i (g_market g) = (r, x) \<Longrightarrow> quiet g (g\<lparr>g_market := x\<rparr>)"
  using PlaceOrder_inv [of "g_market g" i env] by (intro quiet_market) simp

definition request_ints_ok :: "action_request \<Rightarrow> bool" where
  "request_ints_ok rq \<longleftrightarrow> (case pd_place (rq_payload rq) of None \<Rightarrow> True | Some pl \<Rightarrow> in64 (pp_order_quantity pl))"

lemma quiet_handlePlaceOrder:
  assumes "request_ints_ok rq" "handlePlaceOrder c rq g = (r, g')"
  shows "quiet g g'"
proof -
  have q: "in64 (pi_quantity (place_request rq p sy pl))" if "pd_place (rq_payload rq) = Some pl" for p sy pl
    using assms(1) that by (simp add: request_ints_ok_def place_request_def)
  show ?thesis
    using assms(2) unfolding handlePlaceOrder_def Let_def
    by (auto split: sum.splits option.splits prod.splits if_splits dest!: quiet_reserve quiet_upsert quiet_settle_order
        quiet_PlaceOrder [OF q] intro: quiet_trans)
      (metis quiet_trans quiet_upsert prod.collapse)+
qed

lemma quiet_handleCancelOrder: "handleCancelOrder c rq g = (r, g') \<Longrightarrow> quiet g g'"
  using CancelOrder_inv [of "g_market g"]
  by (auto simp: handleCancelOrder_def cleanup_for_def Let_def quiet_def upsert_def
      split: sum.splits option.splits prod.splits if_splits) (metis snd_conv)+

lemma quiet_handleMarketSnapshot: "handleMarketSnapshot c rq g = (r, g') \<Longrightarrow> quiet g g'"
  using ChartSnapshot_inv [of "g_market g" "c_env c 0"]
  by (auto simp: handleMarketSnapshot_def SnapshotJSON_def Let_def quiet_def split: sum.splits prod.splits if_splits)
    (metis snd_conv)+

lemma quiet_handleBootstrapExchange: "handleBootstrapExchange c rq g = (r, g') \<Longrightarrow> quiet g g'"
  by (auto simp: handleBootstrapExchange_def consumeBootstrapToken_def Let_def
      split: sum.splits option.splits prod.splits if_splits)

lemma Buy_market_inv: "Buy env now pid i e x = (r, ns, e', x') \<Longrightarrow> exchange_inv x \<Longrightarrow> exchange_inv x'"
  using ChartSnapshot_inv [of x env]
  by (auto simp: Buy_def buildAnalyticsPayload_def split: option.splits prod.splits sum.splits list.splits if_splits)
    (metis snd_conv)+

lemma quiet_handleIntelBuy:
  assumes "handleIntelBuy c rq g = Some (r, g')"
  shows "quiet g g'"
proof -
  have f: "quiet g1 g2" if "finish_intel_buy c p q b g1 = (x, g2)" for p q b g1 x g2
    using that unfolding finish_intel_buy_def recordPlayerSnapshot_def
    by (auto split: sum.splits prod.splits option.splits dest: quiet_record_snapshots)
      (metis quiet_upsert prod.collapse)
  have m: "quiet g1 (g1\<lparr>g_intel := e', g_market := x\<rparr>)" if "Buy env now pid i e (g_market g1) = (b, ns, e1, x)" for env now pid i e g1 b ns e1 x e'
    using Buy_market_inv [OF that] by (simp add: quiet_def)
  show ?thesis
    using assms unfolding handleIntelBuy_def Let_def
    by (auto split: sum.splits option.splits prod.splits if_splits dest!: f quiet_upsert m intro: quiet_trans)
qed

lemma notify_other: "q \<noteq> pid \<Longrightarrow> private_log q (notifyPlayerLocked pid m g) = private_log q g \<and>
    private_queues q (notifyPlayerLocked pid m g) = private_queues q g"
  by (auto simp: private_log_def private_queues_def notifyPlayerLocked_def split: option.splits)

lemma notify_same: "private_log pid (notifyPlayerLocked pid m g) = keep_last privateHistoryLimit (private_log pid g @ [m])"
  by (simp add: private_log_def notifyPlayerLocked_def)

lemma notify_queues:
  "private_queues pid (notifyPlayerLocked pid m g) = map (\<lambda>(i, q). (i, try_send 32 m q)) (private_queues pid g)"
  by (simp add: private_queues_def notifyPlayerLocked_def split: option.splits)

lemma notify_log: "private_log q (notifyPlayerLocked pid m g) =
    (if q = pid then keep_last privateHistoryLimit (private_log pid g @ [m]) else private_log q g)"
  by (simp add: notify_same notify_other)

lemma notify_queues_if: "private_queues q (notifyPlayerLocked pid m g) =
    (if q = pid then map (\<lambda>(i, q). (i, try_send 32 m q)) (private_queues pid g) else private_queues q g)"
  by (simp add: notify_queues notify_other)

lemma notify_market [simp]: "g_market (notifyPlayerLocked pid m g) = g_market g"
  by (simp add: notifyPlayerLocked_def)

lemma notify_inv:
  assumes "game_inv g"
  shows "game_inv (notifyPlayerLocked pid m g)"
proof -
  have "length (private_log q (notifyPlayerLocked pid m g)) \<le> privateHistoryLimit" for q
    using assms notify_other [of q pid m g] by (cases "q = pid") (simp_all add: game_inv_def notify_same)
  moreover have "\<forall>x \<in> set (private_queues q (notifyPlayerLocked pid m g)). length (snd x) \<le> 32" for q
    using assms notify_other [of q pid m g]
    by (cases "q = pid") (fastforce simp: game_inv_def notify_queues intro!: length_try_send)+
  ultimately show ?thesis using assms by (simp add: game_inv_def)
qed

lemma SendChat_inv:
  assumes "SendChat c pid body to' g = (r, g')" "game_inv g"
  shows "game_inv g'"
proof -
  have s: "quiet g g1" if "store_chat io now m g = (e, g1)" for io now m e g1
    using that by (auto simp: store_chat_def split: option.splits prod.splits)
  show ?thesis
    using assms unfolding SendChat_def Let_def
    by (auto split: sum.splits option.splits prod.splits if_splits dest!: s intro!: notify_inv elim: quiet_inv [rotated] intro: quiet_inv [OF quiet_updates(5)])
qed

lemma EnsurePlayer_quiet: "EnsurePlayer c u g = (r, g') \<Longrightarrow> quiet g g'"
proof -
  have a: "quiet g1 g2" if "admit c p b g1 = (x, g2)" for p b g1 x g2
    using that unfolding admit_def issueBootstrapToken_def recordPlayerSnapshot_def Let_def
    by (auto split: option.splits prod.splits dest!: quiet_upsert quiet_record_snapshots
        intro: quiet_trans quiet_trans [OF _ quiet_trans [OF quiet_updates(8)]])
  show "EnsurePlayer c u g = (r, g') \<Longrightarrow> quiet g g'"
    unfolding EnsurePlayer_def by (auto split: option.splits prod.splits dest!: a intro: quiet_trans quiet_updates)
qed

lemma ExecuteAction_inv:
  assumes "request_ints_ok rq" "ExecuteAction c rq g = Some (r, g')" "game_inv g"
  shows "game_inv g'"
proof -
  have chat: "handleSendChat c rq g = (x, g2) \<Longrightarrow> game_inv g2" for x g2
    using SendChat_inv [OF _ assms(3)] assms(3) by (auto simp: handleSendChat_def split: option.splits prod.splits sum.splits)
  note q = quiet_handlePlaceOrder [OF assms(1)] quiet_handleCancelOrder quiet_handleMarketSnapshot quiet_handleBootstrapExchange
    quiet_handleIntelBuy
  show ?thesis
    using assms(2,3) q [THEN quiet_inv] chat unfolding ExecuteAction_def Let_def
    by (simp split: if_split_asm)
qed

text \<open>The game as the server runs it: players log in and act, subscribe to private feeds and leave, and the
  other engines notify players and move the market.\<close>

inductive reachable_game :: "game \<Rightarrow> bool" where
  game_start: "reachable_exchange x \<Longrightarrow> reachable_game (NewGame players trades performance allocator x chat)"
| game_intel: "reachable_game g \<Longrightarrow> reachable_game (SetIntelEngine e g)"
| game_login: "reachable_game g \<Longrightarrow> EnsurePlayer c u g = (r, g') \<Longrightarrow> reachable_game g'"
| game_action: "reachable_game g \<Longrightarrow> request_ints_ok rq \<Longrightarrow> ExecuteAction c rq g = Some (r, g') \<Longrightarrow> reachable_game g'"
| game_chat: "reachable_game g \<Longrightarrow> SendChat c pid body to' g = (r, g') \<Longrightarrow> reachable_game g'"
| game_subscribe: "reachable_game g \<Longrightarrow> reachable_game (snd (SubscribePrivate pid g))"
| game_disconnect: "reachable_game g \<Longrightarrow> reachable_game (private_disconnect pid i g)"
| game_notify: "reachable_game g \<Longrightarrow> reachable_game (NotifyPlayer pid m g)"
| game_event: "reachable_game g \<Longrightarrow> reachable_game (g\<lparr>g_market := fire env p (g_market g)\<rparr>)"
| game_feed: "reachable_game g \<Longrightarrow> reachable_game (g\<lparr>g_market := snd (exchange_Subscribe (g_market g))\<rparr>)"
| game_snapshot: "reachable_game g \<Longrightarrow> MarketSnapshotJSON c sy depth g = (r, g') \<Longrightarrow> reachable_game g'"

lemma subscribe_queues: "set (private_queues q (snd (SubscribePrivate pid g))) \<subseteq> insert (g_next_private_id g, []) (set (private_queues q g))"
proof -
  have "set (AList.update i [] qs) \<subseteq> insert (i, []) (set qs)" for i :: nat and qs :: "(nat \<times> private_payload list) list"
    by (induction qs) auto
  note sub = this
  show ?thesis
  proof (cases "q = pid")
    case True
    then have "private_queues q (snd (SubscribePrivate pid g)) = AList.update (g_next_private_id g) [] (private_queues q g)"
      by (simp add: SubscribePrivate_def Let_def private_queues_def)
    then show ?thesis using sub by metis
  qed (simp add: SubscribePrivate_def Let_def private_queues_def subset_insertI)
qed

lemma subscribe_inv:
  assumes "game_inv g"
  shows "game_inv (snd (SubscribePrivate pid g))"
proof -
  have "\<forall>x \<in> set (private_queues q (snd (SubscribePrivate pid g))). length (snd x) \<le> 32" for q
  proof
    fix x assume "x \<in> set (private_queues q (snd (SubscribePrivate pid g)))"
    then consider "x = (g_next_private_id g, [])" | "x \<in> set (private_queues q g)" using subscribe_queues by blast
    then show "length (snd x) \<le> 32" using assms by cases (simp_all add: game_inv_def)
  qed
  with assms show ?thesis by (simp add: game_inv_def SubscribePrivate_def Let_def private_log_def)
qed

lemma disconnect_queues: "set (private_queues q (private_disconnect pid i g)) \<subseteq> set (private_queues q g)"
  by (auto simp: private_disconnect_def Let_def private_queues_def split: option.splits if_splits)

lemma disconnect_game_inv:
  assumes "game_inv g"
  shows "game_inv (private_disconnect pid i g)"
proof -
  have "g_market (private_disconnect pid i g) = g_market g"
    and "\<And>q. private_log q (private_disconnect pid i g) = private_log q g"
    by (simp_all add: private_disconnect_def private_log_def Let_def split: option.splits)
  moreover have "\<forall>x \<in> set (private_queues q (private_disconnect pid i g)). length (snd x) \<le> 32" for q
    using assms disconnect_queues [of q pid i g] unfolding game_inv_def by blast
  ultimately show ?thesis using assms by (simp add: game_inv_def)
qed

text \<open>C6: Whatever players do, in every reachable game the exchange keeps its invariant (every book well
  formed and uncrossed, every price on its grid), a private history holds at most 64 payloads and
  no private feed buffers more than 32.\<close>
theorem reachable_game_invariant:
  assumes "reachable_game g"
  shows "exchange_inv (g_market g) \<and> length (private_log pid g) \<le> 64 \<and>
     list_all (\<lambda>x. length (snd x) \<le> 32) (private_queues pid g)"
proof -
  have "game_inv g" using assms
  proof (induction rule: reachable_game.induct)
    case (game_start x players trades performance allocator chat)
    then have "exchange_inv x"
      by (induction rule: reachable_exchange.induct)
        (auto simp: NewExchange_inv PlaceOrder_inv CancelOrder_inv ChartSnapshot_inv price_all_inv PriceMap_def
          Subscribe_inv disconnect_inv dest: TriggerMarketEvent_ok)
    then show ?case by (simp add: game_inv_def NewGame_def private_log_def private_queues_def)
  next
    case (game_action g rq c r g')
    then show ?case using ExecuteAction_inv by blast
  next
    case (game_event g env p)
    then have "exchange_inv (fire env p (g_market g))"
      using TriggerMarketEvent_ok [of "g_market g" env] by (simp add: game_inv_def fire_def)
    then show ?case using game_event by (simp add: game_inv_def private_log_def private_queues_def)
  next
    case (game_snapshot g c sy depth r g')
    then have "quiet g g'" using ChartSnapshot_inv [of "g_market g" "c_env c 0" sy depth]
      by (auto simp: MarketSnapshotJSON_def SnapshotJSON_def quiet_def split: prod.splits sum.splits)
    with game_snapshot show ?case using quiet_inv by blast
  next
    case (game_feed g)
    then show ?case using Subscribe_inv [of "g_market g"] by (simp add: game_inv_def private_log_def private_queues_def)
  qed (auto simp: SetIntelEngine_def NotifyPlayer_def notify_inv SendChat_inv subscribe_inv disconnect_game_inv
      intro: quiet_inv [OF quiet_updates(7)] quiet_inv [OF EnsurePlayer_quiet])
  then show ?thesis by (simp add: game_inv_def privateHistoryLimit_def list_all_iff)
qed

definition demo_call :: call where
  "demo_call = \<lparr>c_env = (\<lambda>_. demo_env), c_now = (\<lambda>_. 5), c_io = (\<lambda>_. None), c_uuid = (\<lambda>_. ''u''), c_order_range = id, c_player_range = id,
     c_stats_range = id, c_ctx_done = False, c_select = (\<lambda>_. False)\<rparr>"

definition demo_game :: "exchange \<Rightarrow> game" where
  "demo_game x = NewGame \<lparr>st_players = [(''ann'', demo_player ''ann'' 1000)], st_disk = \<lparr>main_file = NoFile, tmp_file = NoFile\<rparr>\<rparr>
     None None demo_allocator x (NewChatService 10 None)"

theorem reachable_game_invariant_witness:
  "length (private_log ''id-ann'' (NotifyPlayer ''id-ann'' (PrivateIntel (ArmedForFuture (demo_insider ''a'' 30) 5)) (demo_game (NewExchange [demo_ticker] 3)))) \<le> 64"
  using reachable_game_invariant [OF game_notify [OF game_start [OF ex_new]], of "''id-ann''"]
  by (simp add: demo_game_def)

section \<open>Bootstrap tokens\<close>

lemma trim_idle: "trim_space t = t \<Longrightarrow> t \<noteq> [] \<Longrightarrow> consumeBootstrapToken now t g =
    (case map_of (g_tokens g) t of
       None \<Rightarrow> (Inl TokenInvalid, g)
     | Some gr \<Rightarrow> (if bg_expires_at gr > now then Inr gr else Inl TokenExpired, g\<lparr>g_tokens := AList.delete t (g_tokens g)\<rparr>))"
  by (simp add: consumeBootstrapToken_def Let_def split: option.splits)

text \<open>C35: A bootstrap token works once and for two minutes: the first use gives the player it was issued to,
  unless two minutes have passed, and every use after the first is refused; issuing it drops only
  tokens that have expired.\<close>
theorem bootstrap_token_single_use:
  assumes "trim_space token = token" and "token \<noteq> []" and "issueBootstrapToken t0 token p g = ((token', expires), g1)"
    and "consumeBootstrapToken t1 token g1 = (r, g2)"
  shows "token' = token \<and> expires = t0 + 120 * second \<and>
     r = (if t1 < t0 + 120 * second
          then Inr \<lparr>bg_player_id = p_id p, bg_username = p_username p, bg_expires_at = t0 + 120 * second\<rparr> else Inl TokenExpired) \<and>
     consumeBootstrapToken t2 token g2 = (Inl TokenInvalid, g2) \<and>
     (\<forall>t. t \<noteq> token \<longrightarrow> map_of (g_tokens g2) t = map_of (filter (\<lambda>(t, gr). bg_expires_at gr > t0) (g_tokens g)) t)"
  using assms
  by (auto simp: trim_idle issueBootstrapToken_def Let_def update_conv' delete_conv' bootstrapTokenTTL_def minute_def second_def
      split: if_splits)

theorem bootstrap_token_single_use_witness:
  "fst (consumeBootstrapToken (60 * second) ''tok'' (snd (issueBootstrapToken 0 ''tok'' (demo_player ''ann'' 5) (demo_game (NewExchange [] 0))))) =
     Inr \<lparr>bg_player_id = ''id-ann'', bg_username = ''ann'', bg_expires_at = 120 * second\<rparr>"
  using bootstrap_token_single_use [of "''tok''" 0 "demo_player ''ann'' 5" "demo_game (NewExchange [] 0)" "fst (fst (issueBootstrapToken 0 ''tok'' (demo_player ''ann'' 5) (demo_game (NewExchange [] 0))))"
      "snd (fst (issueBootstrapToken 0 ''tok'' (demo_player ''ann'' 5) (demo_game (NewExchange [] 0))))"
      "snd (issueBootstrapToken 0 ''tok'' (demo_player ''ann'' 5) (demo_game (NewExchange [] 0)))" "60 * second"
      "fst (consumeBootstrapToken (60 * second) ''tok'' (snd (issueBootstrapToken 0 ''tok'' (demo_player ''ann'' 5) (demo_game (NewExchange [] 0)))))"
      "snd (consumeBootstrapToken (60 * second) ''tok'' (snd (issueBootstrapToken 0 ''tok'' (demo_player ''ann'' 5) (demo_game (NewExchange [] 0)))))"]
  by (simp add: demo_player_def second_def trim_space_def is_space_def)

section \<open>Direct messages\<close>

lemma store_chat_private: "store_chat io now m g = (e, g') \<Longrightarrow> private_log pid g' = private_log pid g \<and> private_queues pid g' = private_queues pid g"
  by (auto simp: store_chat_def private_log_def private_queues_def split: option.splits prod.splits)



end
