(* ===== verification/GameProps.thy ===== *)
theory GameProps
  imports ActionProps
begin

text \<open>
  Facts about single actions: a refused order gives back its reservation, only the owner of an order
  cancels it, and which purchases of intel hang the engine.
\<close>

section \<open>Players of the game\<close>

definition players_of :: "game \<Rightarrow> players" where
  "players_of g = st_players (g_players g)"

lemma players_of_simps [simp]:
  "players_of (g\<lparr>g_market := x\<rparr>) = players_of g" "players_of (g\<lparr>g_open := oo\<rparr>) = players_of g"
  by (simp_all add: players_of_def)

lemma upsert_frame:
  assumes "upsert io p g = (e, g')"
  shows "players_of g' = AList.update (p_username p) p (players_of g)" "g_open g' = g_open g" "g_market g' = g_market g"
    "g_tokens g' = g_tokens g"
  using assms Upsert_players [of io p "g_players g"] by (auto simp: upsert_def players_of_def split: prod.splits)

lemma requirePlayer_Inr:
  assumes "players_ok (players_of g)"
  shows "requirePlayer pid g = Inr p \<longleftrightarrow> (p_username p, p) \<in> set (players_of g) \<and> p_id p = pid"
proof -
  have "requirePlayer pid g = Inr p \<longleftrightarrow> (\<exists>u. find_by_id pid (players_of g) = Some (u, p))"
    by (auto simp: requirePlayer_def PlayerStore_GetByPlayerID_def players_of_def clonePlayer_def split: option.splits)
  also have "\<dots> \<longleftrightarrow> (\<exists>u. (u, p) \<in> set (players_of g) \<and> p_id p = pid)"
    by (simp add: find_by_id_iff [OF assms])
  finally show ?thesis using assms unfolding players_ok_def by auto
qed

text \<open>Storing a changed player under the same name and identifier.\<close>

lemma upsert_same_player:
  assumes "players_ok (players_of g)" and "requirePlayer pid g = Inr p" and "upsert io q g = (e, g')"
    and "p_id q = p_id p" and "p_username q = p_username p"
  shows "players_ok (players_of g')" "requirePlayer pid g' = Inr q"
    "\<And>u. u \<noteq> p_username p \<Longrightarrow> map_of (players_of g') u = map_of (players_of g) u"
proof -
  have p: "(p_username p, p) \<in> set (players_of g)" "p_id p = pid"
    using requirePlayer_Inr [OF assms(1)] assms(2) by auto
  have other: "\<forall>x \<in> set (players_of g). fst x \<noteq> p_username q \<longrightarrow> p_id (snd x) \<noteq> p_id q"
    using assms(1,4,5) p unfolding players_ok_def by fastforce
  note f = upsert_frame(1) [OF assms(3)]
  show ok: "players_ok (players_of g')" unfolding f by (rule update_players_ok [OF assms(1) other])
  have "distinct (map fst (players_of g))" using assms(1) by (simp add: players_ok_def)
  then have "(p_username q, q) \<in> set (players_of g')" unfolding f by (simp add: set_update_alist)
  then show "requirePlayer pid g' = Inr q" using requirePlayer_Inr [OF ok] assms(4) p(2) by simp
  show "map_of (players_of g') u = map_of (players_of g) u" if "u \<noteq> p_username p" for u
    using that assms(5) by (simp add: f update_conv)
qed

section \<open>Refused orders\<close>

lemma reserve_frame:
  assumes "reserve env p sy sd kind price qty g = (r, g')"
  shows "players_of g' = players_of g \<and> g_open g' = g_open g \<and> g'\<lparr>g_market := g_market g\<rparr> = g \<and>
    (sd = SideBuy \<and> price \<le> 0 \<or> g' = g) \<and> (exchange_inv (g_market g) \<longrightarrow> exchange_inv (g_market g')) \<and>
    (\<exists>mp. r = reserveForIncoming mp p sy sd kind price qty)"
proof -
  have "exchange_inv (g_market g) \<Longrightarrow> exchange_inv (snd (ChartSnapshot env sy 1 (g_market g)))" by (rule ChartSnapshot_inv)
  then show ?thesis
    using assms by (auto simp: reserve_def market_price_def players_of_def split: if_splits prod.splits sum.splits)
qed

lemma reserve_keeps_key: "reserveForIncoming mp p sy sd kind price qty = Inr (cash, held, p') \<Longrightarrow>
    p_id p' = p_id p \<and> p_username p' = p_username p"
  by (auto simp: reserveForIncoming_def set_reserved_stock_def Let_def split: side.splits sum.splits if_splits)

lemma release_keeps_key [simp]:
  "p_id (releaseIncomingReservation sy sd cash held p) = p_id p"
  "p_username (releaseIncomingReservation sy sd cash held p) = p_username p"
  by (simp_all add: releaseIncomingReservation_def release_cash_def release_stock_def set_reserved_stock_def split: side.split)

text \<open>Reserving and releasing again is the identity on what a player owns and has reserved, also when the
  reserved amount has wrapped.\<close>

lemma sub64_add64: "in64 a \<Longrightarrow> sub64 (add64 a b) b = a"
proof -
  assume a: "in64 a"
  have "sub64 (add64 a b) b = i64 (a + b - b)" unfolding sub64_def add64_def i64_def by (simp add: mod_simps algebra_simps)
  then show ?thesis using a by simp
qed

lemma reserve_release:
  assumes "funds_ok p" and "reserveForIncoming mp p sy sd kind price qty = Inr (cash, held, p')"
  defines "q \<equiv> releaseIncomingReservation sy sd cash held p'"
  shows "q\<lparr>p_reserved_stocks := p_reserved_stocks p\<rparr> = p \<and> (\<forall>s. reserved_stock q s = reserved_stock p s)"
proof -
  have f: "0 \<le> p_reserved_cash p" "in64 (p_reserved_cash p)" "0 \<le> reserved_stock p sy" "in64 (reserved_stock p sy)"
  proof -
    have "0 \<le> reserved_stock p sy" "reserved_stock p sy \<le> stock p sy" "stock p sy < 2 ^ 62"
      using assms(1) by (simp_all add: funds_ok_def)
    then show "0 \<le> reserved_stock p sy" "in64 (reserved_stock p sy)" by (simp_all add: in64_def)
  qed (use assms(1) in \<open>simp_all add: funds_ok_def in64_def\<close>)
  show ?thesis
  proof (cases sd)
    case SideBuy
    have "p' = p\<lparr>p_reserved_cash := add64 (p_reserved_cash p) cash\<rparr>"
      using assms(2) SideBuy by (auto simp: reserveForIncoming_def Let_def split: sum.splits if_splits)
    then show ?thesis using f SideBuy
      by (simp add: q_def releaseIncomingReservation_def release_cash_def sub64_add64 clamp0_def)
  next
    case SideSell
    have "p' = set_reserved_stock sy (add64 (reserved_stock p sy) qty) p" "held = qty"
      using assms(2) SideSell by (auto simp: reserveForIncoming_def Let_def split: if_splits)
    then show ?thesis using f SideSell
      by (simp add: q_def releaseIncomingReservation_def release_stock_def sub64_add64 clamp0_def)
        (simp add: set_reserved_stock_def)
  qed (use assms(2) in \<open>simp add: reserveForIncoming_def\<close>)
qed

text \<open>C13: When the exchange answers an order, whose reservation had succeeded, with an error, the reservation is
  given back in full, also one that wrapped: the player is stored as before (every field; the reserved shares are
  the same for every ticker), no other player changes, and of the rest of the game only the market can
  differ. If the error is a refusal, the market is the one the reservation left, which is the old one unless it
  had to read a price. If it is a failed cache write, the order has been executed nevertheless: the ticker's
  book is the one \<open>Place\<close> gives, with trades that are not settled or a resting order that no open order
  and no reservation backs.\<close>
theorem handlePlaceOrder_refused_restores:
  fixes rq :: action_request and pl :: place_payload
  defines "sy \<equiv> to_upper (trim_space (pp_order_symbol pl))"
  assumes "players_ok (players_of g)" and "requirePlayer (rq_player_id rq) g = Inr p" and "funds_ok p"
    and "exchange_inv (g_market g)" and "in64 (pp_order_quantity pl)"
    and "pd_place (rq_payload rq) = Some pl" and "sy \<noteq> []" and "0 < pp_order_quantity pl"
    and "reserve (c_env c 0) p sy (parse_side (pp_order_side pl)) (parse_type (pp_order_type pl)) (pp_order_price pl)
           (pp_order_quantity pl) g = (Inr (cash, held, p1), g1)" and "c_io c 0 = None"
    and "PlaceOrder (c_env c 1) (place_request rq p1 sy pl) (g_market g1) = (Inl e, x)"
  shows "\<exists>q g'. handlePlaceOrder c rq g = (Inl (MarketFailed e), g') \<and> requirePlayer (rq_player_id rq) g' = Inr q \<and>
     q\<lparr>p_reserved_stocks := p_reserved_stocks p\<rparr> = p \<and> (\<forall>s. reserved_stock q s = reserved_stock p s) \<and>
     (\<forall>u. u = p_username p \<or> map_of (players_of g') u = map_of (players_of g) u) \<and>
     g'\<lparr>g_players := g_players g, g_market := g_market g\<rparr> = g \<and>
     (if e = CacheFailed
      then \<exists>b res b'. ex_books (g_market g1) sy = Some b \<and>
        Place (clock (c_env c 1)) (input_order (c_env c 1) (place_request rq p1 sy pl)) b = Some (Inr res, b') \<and>
        ex_books (g_market g') = (ex_books (g_market g1))(sy \<mapsto> b')
      else g_market g' = g_market g1) \<and>
     (parse_side (pp_order_side pl) = SideBuy \<and> pp_order_price pl \<le> 0 \<or> g1 = g)"
proof -
  let ?sd = "parse_side (pp_order_side pl)"
  define q where "q = releaseIncomingReservation sy ?sd cash held p1"
  obtain mp where rs: "reserveForIncoming mp p sy ?sd (parse_type (pp_order_type pl)) (pp_order_price pl) (pp_order_quantity pl)
        = Inr (cash, held, p1)" and fr: "players_of g1 = players_of g" "g_open g1 = g_open g" "g1\<lparr>g_market := g_market g\<rparr> = g"
      "exchange_inv (g_market g1)" "?sd = SideBuy \<and> pp_order_price pl \<le> 0 \<or> g1 = g"
    using reserve_frame [OF assms(10)] assms(5) by auto
  have key: "p_id p1 = p_id p" "p_username p1 = p_username p" "p_id q = p_id p" "p_username q = p_username p"
    using reserve_keeps_key [OF rs] by (simp_all add: q_def)
  have vals: "q\<lparr>p_reserved_stocks := p_reserved_stocks p\<rparr> = p" "\<forall>s. reserved_stock q s = reserved_stock p s"
    unfolding q_def using reserve_release [OF assms(4) rs] by simp_all
  obtain st2 where u1: "upsert None p1 g1 = (None, g1\<lparr>g_players := st2\<rparr>)"
    by (fastforce simp: upsert_def PlayerStore_Upsert_def player_persist_def persist_def split: prod.splits)
  let ?g2 = "g1\<lparr>g_players := st2\<rparr>"
  obtain e3 st3 where u2: "upsert (c_io c 1) q (?g2\<lparr>g_market := x\<rparr>) = (e3, ?g2\<lparr>g_market := x, g_players := st3\<rparr>)"
    by (fastforce simp: upsert_def split: prod.splits)
  let ?g3 = "?g2\<lparr>g_market := x, g_players := st3\<rparr>"
  have p1: "requirePlayer (rq_player_id rq) g1 = Inr p" "players_ok (players_of g1)"
    using assms(2,3) fr by (simp_all add: requirePlayer_def PlayerStore_GetByPlayerID_def players_of_def)
  note s2 = upsert_same_player [OF p1(2,1) u1 key(1,2)]
  have p2: "requirePlayer (rq_player_id rq) (?g2\<lparr>g_market := x\<rparr>) = Inr p1" "players_ok (players_of (?g2\<lparr>g_market := x\<rparr>))"
    using s2 by (simp_all add: requirePlayer_def)
  have k3: "p_id q = p_id p1" "p_username q = p_username p1" using key by simp_all
  note s3 = upsert_same_player [OF p2(2,1) u2 k3]
  have run: "handlePlaceOrder c rq g = (Inl (MarketFailed e), ?g3)"
    using assms(3,7-12) u1 u2 by (simp add: handlePlaceOrder_def sy_def [symmetric] q_def)
  have others: "\<forall>u. u = p_username p \<or> map_of (players_of ?g3) u = map_of (players_of g) u"
    using s3(3) s2(3) key fr by auto
  have rest: "?g3\<lparr>g_players := g_players g, g_market := g_market g\<rparr> = g"
    using arg_cong [OF fr(3), of "\<lambda>g'. g'\<lparr>g_players := g_players g\<rparr>"] by (cases g1) simp
  have "in64 (pi_quantity (place_request rq p1 sy pl))" "pi_symbol (place_request rq p1 sy pl) = sy"
    using assms(6) by (simp_all add: place_request_def)
  then have res: "if e = CacheFailed
      then \<exists>b res b'. ex_books (g_market g1) sy = Some b \<and>
        Place (clock (c_env c 1)) (input_order (c_env c 1) (place_request rq p1 sy pl)) b = Some (Inr res, b') \<and>
        ex_books x = (ex_books (g_market g1))(sy \<mapsto> b')
      else x = g_market g1"
    using PlaceOrder_result [OF fr(4), of "place_request rq p1 sy pl" "c_env c 1"] assms(12) by auto
  have gm: "g_market ?g3 = x" by simp
  show ?thesis
    by (rule exI [of _ q], rule exI [of _ ?g3], unfold gm) (intro conjI run s3(2) vals others rest res fr(5))
qed

definition demo_payload :: payload where
  "demo_payload = \<lparr>pd_empty = False, pd_place = None, pd_cancel = None, pd_chat = None, pd_symbol = [], pd_token = None,
     pd_history = None, pd_leaderboard = None, pd_intel_id = None\<rparr>"

definition demo_request :: "string \<Rightarrow> payload \<Rightarrow> action_request" where
  "demo_request a pd = \<lparr>rq_request_id = ''r'', rq_player_id = ''id-ann'', rq_action_id = a, rq_payload = pd\<rparr>"

definition demo_place :: place_payload where
  "demo_place = \<lparr>pp_order_symbol = ''NONE'', pp_order_side = ''buy'', pp_order_type = ''limit'', pp_order_price = 100, pp_order_quantity = 2\<rparr>"

lemma demo_game_facts:
  "players_ok (players_of (demo_game x))" "requirePlayer ''id-ann'' (demo_game x) = Inr (demo_player ''ann'' 1000)"
  "funds_ok (demo_player ''ann'' 1000)" "g_market (demo_game x) = x"
  by (simp_all add: players_ok_def players_of_def demo_game_def NewGame_def requirePlayer_def PlayerStore_GetByPlayerID_def
      clonePlayer_def demo_player_def funds_ok_def reserved_stock_def stock_def getz_def)

theorem handlePlaceOrder_refused_restores_witness:
  "\<exists>q g'. handlePlaceOrder demo_call (demo_request ''place_order'' (demo_payload\<lparr>pd_place := Some demo_place\<rparr>)) (demo_game (NewExchange [] 0)) =
       (Inl (MarketFailed (UnsupportedSymbol ''NONE'')), g') \<and>
     requirePlayer ''id-ann'' g' = Inr q \<and> p_cash q = 1000 \<and> p_reserved_cash q = 0"
proof -
  let ?rq = "demo_request ''place_order'' (demo_payload\<lparr>pd_place := Some demo_place\<rparr>)" and ?g = "demo_game (NewExchange [] 0)"
  let ?p1 = "(demo_player ''ann'' 1000)\<lparr>p_reserved_cash := 201\<rparr>"
  have sy: "to_upper (trim_space (pp_order_symbol demo_place)) = ''NONE''" "parse_side (pp_order_side demo_place) = SideBuy"
    "parse_type (pp_order_type demo_place) = OrderTypeLimit"
    by code_simp+
  have r: "reserve (c_env demo_call 0) (demo_player ''ann'' 1000) ''NONE'' SideBuy OrderTypeLimit (pp_order_price demo_place)
      (pp_order_quantity demo_place) ?g = (Inr (201, 0, ?p1), ?g)"
    by (simp add: reserve_def reserveForIncoming_def reserve_amount_def reserve_price_def estimateExchangeFee_def bpsCharge_def
        exchangeFeeBps_def demo_player_def demo_place_def int64_simps in64_def)
  obtain x where po: "PlaceOrder (c_env demo_call 1) (place_request ?rq ?p1 ''NONE'' demo_place) (g_market ?g) =
      (Inl (UnsupportedSymbol ''NONE''), x)"
    by (simp add: PlaceOrder_def demo_game_facts NewExchange_def place_request_def)
  have c: "clock (c_env demo_call 1) = int" by (simp add: demo_call_def demo_env_def)
  have "\<exists>q g'. handlePlaceOrder demo_call ?rq ?g = (Inl (MarketFailed (UnsupportedSymbol ''NONE'')), g') \<and>
     requirePlayer (rq_player_id ?rq) g' = Inr q \<and>
     q\<lparr>p_reserved_stocks := p_reserved_stocks (demo_player ''ann'' 1000)\<rparr> = demo_player ''ann'' 1000 \<and> g_market g' = NewExchange [] 0"
    using handlePlaceOrder_refused_restores [where g = ?g and rq = ?rq and pl = demo_place and cash = 201 and held = 0 and ?p1.0 = ?p1
        and x = x and ?g1.0 = ?g and c = demo_call and e = "UnsupportedSymbol ''NONE''" and p = "demo_player ''ann'' 1000"] r po sy NewExchange_inv [of "[]" 0]
    by (auto simp: demo_game_facts demo_request_def demo_place_def demo_call_def in64_def)
  then obtain q g' where h: "handlePlaceOrder demo_call ?rq ?g = (Inl (MarketFailed (UnsupportedSymbol ''NONE'')), g')"
    "requirePlayer ''id-ann'' g' = Inr q" and q: "q\<lparr>p_reserved_stocks := p_reserved_stocks (demo_player ''ann'' 1000)\<rparr> = demo_player ''ann'' 1000"
    by (auto simp: demo_request_def)
  have "p_cash q = 1000" "p_reserved_cash q = 0"
    using arg_cong [OF q, of p_cash] arg_cong [OF q, of p_reserved_cash] by (simp_all add: demo_player_def)
  then show ?thesis using h by blast
qed

section \<open>Cancelling\<close>

lemma cleanup_for_own:
  assumes "g_open g oid = Some oo" and "o_player_id (oo_order oo) = p_id p"
  shows "\<exists>q. cleanup_for oid oo p g = (q, g\<lparr>g_open := (g_open g)(oid := None)\<rparr>) \<and> p_id q = p_id p \<and> p_username q = p_username p"
  using assms
  by (simp add: cleanup_for_def cleanupOpenOrder_def getTouchedPlayer_def on_player_def Let_def release_cash_def
      release_stock_def set_reserved_stock_def)

lemma others_keep:
  assumes "players_ok (players_of g)" and p: "(p_username p, p) \<in> set (players_of g)" "p_id p = pid"
    and "\<And>u. u \<noteq> p_username p \<Longrightarrow> map_of (players_of g') u = map_of (players_of g) u"
  shows "\<forall>x \<in> set (players_of g). p_id (snd x) = pid \<or> map_of (players_of g') (fst x) = Some (snd x)"
proof (intro ballI disjCI)
  fix x assume x: "x \<in> set (players_of g)" and other: "\<not> map_of (players_of g') (fst x) = Some (snd x)"
  have d: "distinct (map fst (players_of g))" using assms(1) by (simp add: players_ok_def)
  have "map_of (players_of g) (fst x) = Some (snd x)" using x d by (simp add: map_of_is_SomeI)
  then have "fst x = p_username p" using other assms(4) [of "fst x"] by auto
  then have "snd x = p" using map_of_is_SomeI [OF d p(1)] \<open>map_of (players_of g) (fst x) = Some (snd x)\<close> by simp
  then show "p_id (snd x) = pid" using p(2) by simp
qed

text \<open>A queue loses the first of its orders with an identifier, and a book exactly one order, bids before asks.\<close>

definition first_removed :: "string \<Rightarrow> order list \<Rightarrow> order list \<Rightarrow> bool" where
  "first_removed oid qs qs' \<longleftrightarrow> (\<exists>as q bs. qs = as @ q # bs \<and> qs' = as @ bs \<and> o_id q = oid \<and> oid \<notin> o_id ` set as)"

definition one_cancelled :: "string \<Rightarrow> book \<Rightarrow> book \<Rightarrow> bool" where
  "one_cancelled oid b b' \<longleftrightarrow>
     first_removed oid (bid_queue b) (bid_queue b') \<and> ask_queue b' = ask_queue b \<or>
     first_removed oid (ask_queue b) (ask_queue b') \<and> bid_queue b' = bid_queue b \<and> oid \<notin> o_id ` set (bid_queue b)"

lemma cancel_in_level_first: "cancel_in_level oid qs = Some (c, rest) \<Longrightarrow> first_removed oid qs rest"
  using cancel_in_level_Some [of oid qs c rest] unfolding first_removed_def by (metis imageE)

lemma Cancel_one: "book_wf b \<Longrightarrow> Cancel oid now b = (Inr x, b') \<Longrightarrow> one_cancelled oid b b'"
  using Cancel_spec [of b oid now]
  by (auto simp: one_cancelled_def cancel_in_level_None dest: cancel_in_level_first split: option.splits)

lemma CancelOrder_one:
  assumes "exchange_inv s" "CancelOrder env symbol oid s = (r, s')"
  shows "isl r \<and> s' = s \<or>
    (\<exists>m b b'. r = Inr m \<and> ex_books s symbol = Some b \<and> ex_books s' = (ex_books s)(symbol \<mapsto> b') \<and> one_cancelled oid b b')"
proof (cases "ex_books s symbol")
  case (Some b)
  have "book_wf b" using assms(1) Some unfolding exchange_inv_def by blast
  with CancelOrder_removes [OF assms(1) Some, where env = env and oid = oid] Cancel_one [of b oid "clock env 0"] assms(2) Some show ?thesis
    by (cases r) auto
qed (use assms(2) in \<open>auto simp: CancelOrder_def\<close>)

lemma first_removed_others:
  "first_removed oid qs qs' \<Longrightarrow> (\<And>q. q \<in> set qs \<Longrightarrow> o_id q = oid \<Longrightarrow> o_player_id q = pid) \<Longrightarrow>
     filter (\<lambda>q. o_player_id q \<noteq> pid) qs' = filter (\<lambda>q. o_player_id q \<noteq> pid) qs"
  by (auto simp: first_removed_def)

lemma first_removed_split:
  "first_removed oid qs qs' \<Longrightarrow> qs = us @ q # vs \<Longrightarrow> o_id q = oid \<Longrightarrow> oid \<notin> o_id ` set us \<Longrightarrow> qs' = us @ vs"
  by (auto simp: first_removed_def append_eq_append_conv2 Cons_eq_append_conv append_eq_Cons_conv)

lemma one_cancelled_others:
  assumes "one_cancelled oid b b'" "\<And>q. q \<in> set (bid_queue b @ ask_queue b) \<Longrightarrow> o_id q = oid \<Longrightarrow> o_player_id q = pid"
  shows "filter (\<lambda>q. o_player_id q \<noteq> pid) (bid_queue b') = filter (\<lambda>q. o_player_id q \<noteq> pid) (bid_queue b)"
    "filter (\<lambda>q. o_player_id q \<noteq> pid) (ask_queue b') = filter (\<lambda>q. o_player_id q \<noteq> pid) (ask_queue b)"
  using assms first_removed_others [of oid "bid_queue b" "bid_queue b'" pid] first_removed_others [of oid "ask_queue b" "ask_queue b'" pid]
  by (auto simp: one_cancelled_def)

text \<open>What cancelling does, by cases.\<close>

lemma handleCancelOrder_cases:
  assumes "exchange_inv (g_market g)" and "pd_cancel (rq_payload rq) = Some (sy, oid)" and "handleCancelOrder c rq g = (r, g')"
  obtains (unchanged) "g' = g" "isl r"
  | (cancelled) p oo sym b b' q e x where "requirePlayer (rq_player_id rq) g = Inr p" "g_open g oid = Some oo" "o_player_id (oo_order oo) = p_id p"
      "sym = (let s = to_upper (trim_space sy) in if s = [] then o_symbol (oo_order oo) else s)"
      "ex_books (g_market g) sym = Some b" "ex_books x = (ex_books (g_market g))(sym \<mapsto> b')" "one_cancelled oid b b'"
      "upsert (c_io c 0) q (g\<lparr>g_market := x, g_open := (g_open g)(oid := None)\<rparr>) = (e, g')" "p_id q = p_id p" "p_username q = p_username p"
      "isl r \<longleftrightarrow> e \<noteq> None"
proof (cases "requirePlayer (rq_player_id rq) g")
  case (Inl e)
  then show ?thesis using assms(3) by (intro unchanged) (auto simp: handleCancelOrder_def)
next
  case (Inr p)
  show ?thesis
  proof (cases "\<exists>oo. g_open g oid = Some oo \<and> o_player_id (oo_order oo) = p_id p")
    case False
    then show ?thesis using assms(2,3) Inr by (intro unchanged) (auto simp: handleCancelOrder_def split: option.splits)
  next
    case True
    then obtain oo where oo: "g_open g oid = Some oo" "o_player_id (oo_order oo) = p_id p" by blast
    define sym where "sym = (let s = to_upper (trim_space sy) in if s = [] then o_symbol (oo_order oo) else s)"
    obtain res x where co: "CancelOrder (c_env c 0) sym oid (g_market g) = (res, x)" by fastforce
    let ?g = "g\<lparr>g_market := x\<rparr>"
    obtain q where cl: "cleanup_for oid oo p ?g = (q, ?g\<lparr>g_open := (g_open ?g)(oid := None)\<rparr>)" "p_id q = p_id p" "p_username q = p_username p"
      using cleanup_for_own [of ?g oid oo p] oo by auto
    obtain e g2 where up: "upsert (c_io c 0) q (?g\<lparr>g_open := (g_open ?g)(oid := None)\<rparr>) = (e, g2)" by fastforce
    have run: "(r, g') = (case res of Inl e \<Rightarrow> (Inl (MarketFailed e), ?g)
        | Inr m \<Rightarrow> (case e of Some e \<Rightarrow> (Inl (StoreFailed e), g2)
            | None \<Rightarrow> (Inr (CancelOrderReply m (snapshotPlayer (c_now c 0) q g2)), g2)))"
      using assms(2,3) Inr oo co cl(1) up
      by (cases res; cases e) (simp_all add: handleCancelOrder_def sym_def Let_def)
    show ?thesis
    proof (cases res)
      case (Inl err)
      then have "x = g_market g" using CancelOrder_one [OF assms(1) co] by auto
      then show ?thesis using unchanged run Inl by simp
    next
      case (Inr m)
      obtain b b' where b: "ex_books (g_market g) sym = Some b" "ex_books x = (ex_books (g_market g))(sym \<mapsto> b')" "one_cancelled oid b b'"
        using CancelOrder_one [OF assms(1) co] Inr by auto
      have g': "g' = g2" "isl r \<longleftrightarrow> e \<noteq> None" using run Inr by (cases e; simp)+
      have "upsert (c_io c 0) q (g\<lparr>g_market := x, g_open := (g_open g)(oid := None)\<rparr>) = (e, g')" using up g'(1) by simp
      from cancelled [OF \<open>requirePlayer (rq_player_id rq) g = Inr p\<close> oo sym_def b this cl(2,3) g'(2)] show ?thesis .
    qed
  qed
qed

text \<open>C14: An order is cancelled by the player whose open order it is and by nobody else. A request either
  changes nothing and fails, or it comes from the owner of the open order it names: then that
  open order is gone, the first resting order with its identifier leaves the book of the order's ticker (or of the ticker
  the request names), every other order of every book keeps its place, no other open order and
  no other player changes. Identifiers are chosen by the clients and need not be unique; when every resting
  order with the identifier is the requester's, no order of another player leaves any book, and
  without that condition another player's order can be the one that leaves (\<open>cancel_removes_first_resting\<close>).\<close>
theorem handleCancelOrder_owner:
  assumes "players_ok (players_of g)" and "exchange_inv (g_market g)" and "pd_cancel (rq_payload rq) = Some (sy, oid)"
    and "handleCancelOrder c rq g = (r, g')"
  shows "(g' = g \<and> isl r \<or>
      (\<exists>p oo sym b b'. requirePlayer (rq_player_id rq) g = Inr p \<and> g_open g oid = Some oo \<and> o_player_id (oo_order oo) = p_id p \<and>
         g_open g' oid = None \<and> sym = (let s = to_upper (trim_space sy) in if s = [] then o_symbol (oo_order oo) else s) \<and>
         ex_books (g_market g) sym = Some b \<and> ex_books (g_market g') = (ex_books (g_market g))(sym \<mapsto> b') \<and> one_cancelled oid b b')) \<and>
     (\<forall>i. i = oid \<or> g_open g' i = g_open g i) \<and>
     (\<forall>x \<in> set (players_of g). p_id (snd x) = rq_player_id rq \<or> map_of (players_of g') (fst x) = Some (snd x)) \<and>
     ((\<forall>s b. ex_books (g_market g) s = Some b \<longrightarrow>
         (\<forall>q \<in> set (bid_queue b @ ask_queue b). o_id q = oid \<longrightarrow> o_player_id q = rq_player_id rq)) \<longrightarrow>
      (\<forall>s b. ex_books (g_market g) s = Some b \<longrightarrow> (\<exists>b'. ex_books (g_market g') s = Some b' \<and>
         filter (\<lambda>q. o_player_id q \<noteq> rq_player_id rq) (bid_queue b') = filter (\<lambda>q. o_player_id q \<noteq> rq_player_id rq) (bid_queue b) \<and>
         filter (\<lambda>q. o_player_id q \<noteq> rq_player_id rq) (ask_queue b') = filter (\<lambda>q. o_player_id q \<noteq> rq_player_id rq) (ask_queue b))))"
  using assms(2-4)
proof (cases rule: handleCancelOrder_cases [case_names unchanged cancelled])
  case unchanged
  have "distinct (map fst (players_of g))" using assms(1) by (simp add: players_ok_def)
  then show ?thesis using unchanged by (auto simp: map_of_is_SomeI)
next
  case (cancelled p oo sym b b' q e x)
  have p: "(p_username p, p) \<in> set (players_of g)" "p_id p = rq_player_id rq"
    using requirePlayer_Inr [OF assms(1)] cancelled(1) by auto
  note f = upsert_frame [OF cancelled(8)]
  have two: "map_of (players_of g') u = map_of (players_of g) u" if "u \<noteq> p_username p" for u
    using that f(1) cancelled(10) by (simp add: update_conv)
  have books: "ex_books (g_market g') = (ex_books (g_market g))(sym \<mapsto> b')" using f(3) cancelled(6) by simp
  note rest = others_keep [OF assms(1) p two]
  show ?thesis
  proof (intro conjI impI allI)
    show "g' = g \<and> isl r \<or>
      (\<exists>p oo sym b b'. requirePlayer (rq_player_id rq) g = Inr p \<and> g_open g oid = Some oo \<and> o_player_id (oo_order oo) = p_id p \<and>
         g_open g' oid = None \<and> sym = (let s = to_upper (trim_space sy) in if s = [] then o_symbol (oo_order oo) else s) \<and>
         ex_books (g_market g) sym = Some b \<and> ex_books (g_market g') = (ex_books (g_market g))(sym \<mapsto> b') \<and> one_cancelled oid b b')"
      using cancelled(1-5,7) books f(2) by (intro disjI2 exI conjI) simp_all
    show "i = oid \<or> g_open g' i = g_open g i" for i using f(2) by simp
    show "\<forall>x \<in> set (players_of g). p_id (snd x) = rq_player_id rq \<or> map_of (players_of g') (fst x) = Some (snd x)" by (rule rest)
    fix s b1 assume own: "\<forall>s b. ex_books (g_market g) s = Some b \<longrightarrow>
        (\<forall>q \<in> set (bid_queue b @ ask_queue b). o_id q = oid \<longrightarrow> o_player_id q = rq_player_id rq)"
      and b1: "ex_books (g_market g) s = Some b1"
    show "\<exists>b'. ex_books (g_market g') s = Some b' \<and>
         filter (\<lambda>q. o_player_id q \<noteq> rq_player_id rq) (bid_queue b') = filter (\<lambda>q. o_player_id q \<noteq> rq_player_id rq) (bid_queue b1) \<and>
         filter (\<lambda>q. o_player_id q \<noteq> rq_player_id rq) (ask_queue b') = filter (\<lambda>q. o_player_id q \<noteq> rq_player_id rq) (ask_queue b1)"
      using one_cancelled_others [OF cancelled(7)] own cancelled(5) b1 by (cases "s = sym") (auto simp: books)
  qed
qed

text \<open>A market on which one order of two units rests, for the witnesses.\<close>

definition own_input :: place_input where
  "own_input = demo_input\<lparr>pi_player_id := ''id-ann''\<rparr>"

definition market_with :: "place_input \<Rightarrow> exchange" where
  "market_with i = snd (PlaceOrder demo_env i (NewExchange [demo_ticker] 3))"

definition book_with :: "place_input \<Rightarrow> book" where
  "book_with i = snd (the (Place int (input_order demo_env i) (new_book ''ACME'' 1000)))"

lemma market_with_ok:
  assumes "pid \<noteq> []"
  shows "exchange_inv (market_with (demo_input\<lparr>pi_player_id := pid\<rparr>))"
  "ex_books (market_with (demo_input\<lparr>pi_player_id := pid\<rparr>)) ''ACME'' = Some (book_with (demo_input\<lparr>pi_player_id := pid\<rparr>))"
proof -
  let ?i = "demo_input\<lparr>pi_player_id := pid\<rparr>"
  have q: "in64 (pi_quantity ?i)" "pi_symbol ?i = ''ACME''" "validate (input_order demo_env ?i) = None"
    "clock demo_env = int" "\<not> cache_on demo_env"
    using assms by (simp_all add: demo_input_def in64_def validate_def input_order_def demo_env_def)
  show "exchange_inv (market_with ?i)" unfolding market_with_def by (rule PlaceOrder_inv [OF NewExchange_inv q(1)])
  show "ex_books (market_with ?i) ''ACME'' = Some (book_with ?i)"
    using PlaceOrder_result [OF NewExchange_inv q(1), of "[demo_ticker]" 3 demo_env] q(2-5) demo_exchange_book
    by (auto simp: market_with_def book_with_def split: prod.splits sum.splits)
qed

lemma own_market_ok: "exchange_inv (market_with own_input)" "ex_books (market_with own_input) ''ACME'' = Some (book_with own_input)"
  unfolding own_input_def by (rule market_with_ok, simp)+

lemma own_book_orders:
  "map (\<lambda>q. (o_id q, o_player_id q)) (bid_queue (book_with own_input)) = [(''r1'', ''id-ann'')]" "ask_queue (book_with own_input) = []"
  by code_simp+

lemma cancel_succeeds:
  assumes "requirePlayer (rq_player_id rq) g = Inr p" "pd_cancel (rq_payload rq) = Some ([], oid)"
    and "g_open g oid = Some oo" "o_player_id (oo_order oo) = p_id p" "exchange_inv (g_market g)"
    and "ex_books (g_market g) (o_symbol (oo_order oo)) = Some b" "oid \<in> o_id ` set (bid_queue b)" "c_io c 0 = None"
  shows "\<exists>reply g'. handleCancelOrder c rq g = (Inr reply, g')"
proof -
  obtain m x where co: "CancelOrder (c_env c 0) (o_symbol (oo_order oo)) oid (g_market g) = (Inr m, x)"
    using CancelOrder_removes [OF assms(5,6), where env = "c_env c 0" and oid = oid] assms(7) by (auto split: prod.splits sum.splits)
  obtain q where cl: "cleanup_for oid oo p (g\<lparr>g_market := x\<rparr>) = (q, g\<lparr>g_market := x, g_open := (g_open g)(oid := None)\<rparr>)"
    using cleanup_for_own [of "g\<lparr>g_market := x\<rparr>" oid oo p] assms(3,4) by auto
  obtain g2 where "upsert None q (g\<lparr>g_market := x, g_open := (g_open g)(oid := None)\<rparr>) = (None, g2)"
    by (fastforce simp: upsert_def PlayerStore_Upsert_def player_persist_def persist_def split: prod.splits)
  then show ?thesis using assms(1-4,8) co cl by (simp add: handleCancelOrder_def Let_def trim_space_def to_upper_def)
qed

theorem handleCancelOrder_owner_witness:
  "case handleCancelOrder demo_call (demo_request ''cancel_order'' (demo_payload\<lparr>pd_cancel := Some ([], ''r1'')\<rparr>))
       ((demo_game (market_with own_input))\<lparr>g_open := [''r1'' \<mapsto> demo_open ''r1'' ''id-ann'' SideBuy 100 2 200]\<rparr>) of
     (r, g') \<Rightarrow> \<not> isl r \<and> g_open g' ''r1'' = None \<and>
       (\<exists>b'. ex_books (g_market g') ''ACME'' = Some b' \<and> bid_queue b' = [] \<and> ask_queue b' = [])"
proof -
  let ?g = "(demo_game (market_with own_input))\<lparr>g_open := [''r1'' \<mapsto> demo_open ''r1'' ''id-ann'' SideBuy 100 2 200]\<rparr>"
    and ?rq = "demo_request ''cancel_order'' (demo_payload\<lparr>pd_cancel := Some ([], ''r1'')\<rparr>)"
  have ok: "players_ok (players_of ?g)" by (simp add: players_of_def demo_game_facts [unfolded players_of_def])
  have rp: "requirePlayer (rq_player_id ?rq) ?g = Inr (demo_player ''ann'' 1000)"
    using demo_game_facts(2) by (simp add: requirePlayer_def demo_request_def)
  have m: "g_market ?g = (market_with own_input)" by (simp add: demo_game_facts)
  have inv: "exchange_inv (g_market ?g)" unfolding m by (rule own_market_ok)
  have "fst ` set (map (\<lambda>q. (o_id q, o_player_id q)) (bid_queue (book_with own_input))) = {''r1''}" unfolding own_book_orders by simp
  then have ids: "o_id ` set (bid_queue (book_with own_input)) = {''r1''}" by (simp add: image_image)
  obtain reply g' where h: "handleCancelOrder demo_call ?rq ?g = (Inr reply, g')"
    using cancel_succeeds [OF rp _ _ _ inv, of "''r1''" "demo_open ''r1'' ''id-ann'' SideBuy 100 2 200" "book_with own_input" demo_call]
      own_market_ok(2) m ids by (auto simp: demo_request_def demo_player_def demo_open_def demo_call_def)
  have "pd_cancel (rq_payload ?rq) = Some ([], ''r1'')" by (simp add: demo_request_def)
  from handleCancelOrder_owner [OF ok inv this h]
  obtain b' where b: "g_open g' ''r1'' = None" "ex_books (g_market g') ''ACME'' = Some b'" "one_cancelled ''r1'' (book_with own_input) b'"
    unfolding m using own_market_ok(2) by (auto simp: demo_open_def trim_space_def to_upper_def)
  have "length (bid_queue (book_with own_input)) = 1" using arg_cong [OF own_book_orders(1), of length] by simp
  then have "bid_queue b' = []" "ask_queue b' = []"
    using b(3) own_book_orders(2) by (auto simp: one_cancelled_def first_removed_def)
  then show ?thesis using h b by simp
qed

text \<open>The order that leaves is the first one resting under the identifier, whoever placed it: a player with an open order
  of the same identifier cancels it, here one of \<open>''id-bob''\<close> by a request of \<open>''id-ann''\<close>.\<close>
theorem cancel_removes_first_resting:
  assumes "requirePlayer (rq_player_id rq) g = Inr p" "pd_cancel (rq_payload rq) = Some ([], oid)"
    and "g_open g oid = Some oo" "o_player_id (oo_order oo) = p_id p" "exchange_inv (g_market g)"
    and "ex_books (g_market g) (o_symbol (oo_order oo)) = Some b" "c_io c 0 = None"
    and "bid_queue b = us @ q # vs" "o_id q = oid" "oid \<notin> o_id ` set us"
  shows "\<exists>reply g' b'. handleCancelOrder c rq g = (Inr reply, g') \<and> ex_books (g_market g') (o_symbol (oo_order oo)) = Some b' \<and>
     bid_queue b' = us @ vs \<and> ask_queue b' = ask_queue b"
proof -
  have "oid \<in> o_id ` set (bid_queue b)" using assms(8,9) by force
  then obtain reply g' where h: "handleCancelOrder c rq g = (Inr reply, g')" using cancel_succeeds [OF assms(1-6) _ assms(7)] by blast
  with assms(5,2) show ?thesis
  proof (cases rule: handleCancelOrder_cases [case_names unchanged cancelled])
    case (cancelled p' oo' sym b1 b' q' e x)
    have "sym = o_symbol (oo_order oo)" "b1 = b"
      using cancelled(2,4,5) assms(3,6) by (simp_all add: trim_space_def to_upper_def)
    moreover have "ex_books (g_market g') = ex_books x" using upsert_frame(3) [OF cancelled(8)] by simp
    moreover have "first_removed oid (bid_queue b) (bid_queue b')" "ask_queue b' = ask_queue b"
      using cancelled(7) \<open>b1 = b\<close> \<open>oid \<in> o_id ` set (bid_queue b)\<close> by (auto simp: one_cancelled_def)
    moreover have "bid_queue b' = us @ vs" using calculation(4) assms(8-10) by (rule first_removed_split)
    ultimately show ?thesis using h cancelled(6) by simp
  qed simp
qed

theorem cancel_removes_first_resting_witness:
  "map (\<lambda>q. (o_id q, o_player_id q)) (bid_queue (book_with (demo_input\<lparr>pi_player_id := ''id-bob''\<rparr>))) = [(''r1'', ''id-bob'')] \<and>
   (case handleCancelOrder demo_call (demo_request ''cancel_order'' (demo_payload\<lparr>pd_cancel := Some ([], ''r1'')\<rparr>))
       ((demo_game (market_with (demo_input\<lparr>pi_player_id := ''id-bob''\<rparr>)))
         \<lparr>g_open := [''r1'' \<mapsto> demo_open ''r1'' ''id-ann'' SideBuy 100 2 200]\<rparr>) of
     (r, g') \<Rightarrow> \<not> isl r \<and> (\<exists>b'. ex_books (g_market g') ''ACME'' = Some b' \<and> bid_queue b' = []))"
proof -
  let ?i = "demo_input\<lparr>pi_player_id := ''id-bob''\<rparr>"
  let ?g = "(demo_game (market_with ?i))\<lparr>g_open := [''r1'' \<mapsto> demo_open ''r1'' ''id-ann'' SideBuy 100 2 200]\<rparr>"
    and ?rq = "demo_request ''cancel_order'' (demo_payload\<lparr>pd_cancel := Some ([], ''r1'')\<rparr>)"
  have rp: "requirePlayer (rq_player_id ?rq) ?g = Inr (demo_player ''ann'' 1000)"
    using demo_game_facts(2) by (simp add: requirePlayer_def demo_request_def)
  have m: "g_market ?g = market_with ?i" by (simp add: demo_game_facts)
  have q: "map (\<lambda>q. (o_id q, o_player_id q)) (bid_queue (book_with ?i)) = [(''r1'', ''id-bob'')]" by code_simp
  then obtain o1 where o1: "bid_queue (book_with ?i) = [] @ o1 # []" "o_id o1 = ''r1''" by (auto simp: map_eq_Cons_conv)
  have "\<exists>reply g' b'. handleCancelOrder demo_call ?rq ?g = (Inr reply, g') \<and> ex_books (g_market g') ''ACME'' = Some b' \<and>
     bid_queue b' = [] @ [] \<and> ask_queue b' = ask_queue (book_with ?i)"
    using cancel_removes_first_resting [OF rp _ _ _ _ _ _ o1, of "demo_open ''r1'' ''id-ann'' SideBuy 100 2 200" demo_call]
      market_with_ok [of "''id-bob''"] m by (auto simp: demo_request_def demo_player_def demo_open_def demo_call_def)
  then show ?thesis using q by (auto split: prod.split)
qed

section \<open>Purchases that hang\<close>

lemma buyInsider_dispatch:
  "(\<exists>resp q e'. buyInsiderLocked now player d e = (Inr (resp, Some q), e')) \<longleftrightarrow>
    (\<exists>s. ie_next e = Some s \<and> now < pl_scheduled_at (se_event s) \<and> player \<notin> set (se_buyers s) \<and>
      pl_scheduled_at (se_event s) - lead_time d \<le> now)"
  by (auto simp: buyInsiderLocked_def drop_past_event_def Let_def split: option.splits)

lemma Buy_notifies:
  "fst (snd (Buy env now player i e x)) \<noteq> [] \<longleftrightarrow>
    (\<exists>d s. ie_defs e i = Some d \<and> id_kind (pi_def d) = KindInsider \<and> ie_next e = Some s \<and>
      now < pl_scheduled_at (se_event s) \<and> player \<notin> set (se_buyers s) \<and>
      pl_scheduled_at (se_event s) - lead_time (pi_def d) \<le> now)"
proof -
  have "fst (snd (Buy env now player i e x)) \<noteq> [] \<longleftrightarrow> (\<exists>d resp q e'. ie_defs e i = Some d \<and> id_kind (pi_def d) = KindInsider \<and>
      buyInsiderLocked now player (pi_def d) e = (Inr (resp, Some q), e'))"
    by (auto simp: Buy_def split: option.splits sum.splits prod.splits)
  then show ?thesis using buyInsider_dispatch [of now player _ e] by metis
qed

text \<open>C15: An action hangs the engine exactly when it buys insider access that a player can pay for while an
  event is planned whose preview time has come and which the player has not bought yet: the preview is
  then sent back to the engine, whose mutex the action still holds.\<close>
theorem ExecuteAction_hangs_iff:
  "ExecuteAction c rq g = None \<longleftrightarrow> rq_action_id rq = ''intel.buy'' \<and>
     (\<exists>e p i d s g1. g_intel g = Some e \<and> requirePlayer (rq_player_id rq) g = Inr p \<and> pd_intel_id (rq_payload rq) = Some i \<and>
        ie_defs e i = Some d \<and> id_kind (pi_def d) = KindInsider \<and>
        id_price (pi_def d) \<le> sub64 (p_cash p) (p_reserved_cash p) \<and>
        upsert (c_io c 0) (p\<lparr>p_cash := sub64 (p_cash p) (id_price (pi_def d))\<rparr>) g = (None, g1) \<and>
        ie_next e = Some s \<and> c_now c 0 < pl_scheduled_at (se_event s) \<and> p_id p \<notin> set (se_buyers s) \<and>
        pl_scheduled_at (se_event s) - lead_time (pi_def d) \<le> c_now c 0)"
proof -
  have "ExecuteAction c rq g = None \<longleftrightarrow> rq_action_id rq = ''intel.buy'' \<and> handleIntelBuy c rq g = None"
    by (auto simp: ExecuteAction_def action_of_def Let_def split: if_splits)
  also have "handleIntelBuy c rq g = None \<longleftrightarrow>
     (\<exists>e p i quote g1. g_intel g = Some e \<and> requirePlayer (rq_player_id rq) g = Inr p \<and> pd_intel_id (rq_payload rq) = Some i \<and>
        Quote i e = Inr quote \<and> ci_price quote \<le> sub64 (p_cash p) (p_reserved_cash p) \<and>
        upsert (c_io c 0) (p\<lparr>p_cash := sub64 (p_cash p) (ci_price quote)\<rparr>) g = (None, g1) \<and>
        fst (snd (Buy (c_env c 0) (c_now c 0) (p_id p) i e (g_market g1))) \<noteq> [])"
    by (auto simp: handleIntelBuy_def Let_def not_less split: option.splits sum.splits prod.splits)
  finally show ?thesis
    unfolding Buy_notifies by (fastforce simp: Quote_def catalog_entry_def purchasable_def split: option.splits if_splits)
qed

end
