(* ===== verification/Charts.thy ===== *)
theory Charts
  imports Exchange
begin

text \<open>
  The chart engine (\<^verbatim>\<open>internal/charting/engine.go\<close>): per ticker a bounded history of prices, and ticks
  for the subscribers with the changes, the volatility and the volume-weighted price of the last minutes.

  A channel is its buffer and whether it is closed; a send on a closed channel panics, the result
  \<open>None\<close>. An emission captures the history and the subscribers under the lock and sends outside it, so
  the two halves are separate operations. Floating-point numbers are those of \<open>Float64\<close>; \<^verbatim>\<open>math.Sqrt\<close> is the
  correctly rounded square root.
\<close>

section \<open>Numbers\<close>

definition round_to :: "nat \<Rightarrow> f64 \<Rightarrow> f64" where
  "round_to precision v = fdiv (go_round (fmul v (10 ^ precision))) (10 ^ precision)"

definition priceToFloat :: "int \<Rightarrow> f64" where
  "priceToFloat price = round_to 4 (fdiv (of_i64 price) 100)"

text \<open>The integer square root, and the root of a float: at least 56 bits of it and a sticky bit, rounded.\<close>

function isqrt :: "int \<Rightarrow> int" where
  "isqrt n = (if n \<le> 0 then 0 else let r = 2 * isqrt (n div 4) in if (r + 1) * (r + 1) \<le> n then r + 1 else r)"
  by auto
termination by (relation "measure nat") auto

declare isqrt.simps [simp del]

definition fsqrt :: "f64 \<Rightarrow> f64" where
  "fsqrt x =
     (if x \<le> 0 then 0
      else (let k = nat (56 - log2_floor x div 2); y = x * 4 ^ k; n = isqrt \<lfloor>y\<rfloor> in
            rnd ((of_int (2 * n) + (if of_int (n * n) = y then 0 else 1)) / 2 ^ Suc k)))"

section \<open>Data\<close>

record chart_point =
  cp_at :: time
  cp_price :: f64
  cp_volume :: int

record chart_level =
  cl_price :: f64
  cl_qty :: int

record history_point =
  hp_ts :: int
  hp_price :: f64
  hp_volume :: int

record chart_tick =
  ct_ticker :: string
  ct_timestamp :: time
  ct_current_price :: f64
  ct_volume_1m :: int
  ct_change_1m_pct :: f64
  ct_change_5m_pct :: f64
  ct_change_15m_pct :: f64
  ct_volatility_5m :: f64
  ct_vwap_5m :: f64
  ct_bids :: "chart_level list"
  ct_asks :: "chart_level list"
  ct_history :: "history_point list"

record chart_request =
  cr_player_id :: string
  cr_ticker :: string
  cr_history_limit :: int
  cr_depth :: int

record chart_engine =
  ce_tick_interval :: duration
  ce_history_limit :: int
  ce_orderbook_depth :: int
  ce_histories :: "string \<rightharpoonup> chart_point list"
  ce_subscribers :: "string \<rightharpoonup> (nat \<times> chart_request) list"
  ce_next_id :: nat
  ce_channels :: "nat \<rightharpoonup> chart_tick list \<times> bool"

datatype chart_error = TickerRequired | UnsupportedTicker string

section \<open>Statistics\<close>

definition tradeVolumeSince :: "trade list \<Rightarrow> time \<Rightarrow> int" where
  "tradeVolumeSince trades cutoff =
     foldl (\<lambda>v t. if t_executed_at t < cutoff then v else add64 v (t_quantity t)) 0 trades"

definition base_price :: "chart_point list \<Rightarrow> time \<Rightarrow> f64" where
  "base_price history cutoff =
     (case find (\<lambda>p. \<not> cp_at p < cutoff) history of None \<Rightarrow> cp_price (hd history) | Some p \<Rightarrow> cp_price p)"

definition changePct :: "chart_point list \<Rightarrow> time \<Rightarrow> f64" where
  "changePct history cutoff =
     (if history = [] then 0
      else (let current = cp_price (last history); base = base_price history cutoff in
            if base = 0 then 0 else round_to 4 (fmul (fdiv (fsub current base) base) 100)))"

fun price_returns :: "f64 list \<Rightarrow> f64 list" where
  "price_returns (a # b # s) = (if a = 0 then price_returns (b # s) else fdiv (fsub b a) a # price_returns (b # s))"
| "price_returns s = []"

definition fmean :: "f64 list \<Rightarrow> f64" where
  "fmean xs = fdiv (foldl fadd 0 xs) (of_i64 (int (length xs)))"

definition volatility :: "chart_point list \<Rightarrow> time \<Rightarrow> f64" where
  "volatility history cutoff =
     (let series = map cp_price (filter (\<lambda>p. \<not> cp_at p < cutoff) history) in
      if length series < 2 then 0
      else (let returns = price_returns series in
            if returns = [] then 0
            else (let mean = fmean returns;
                      variance = fmean (map (\<lambda>v. fmul (fsub v mean) (fsub v mean)) returns)
                  in round_to 6 (fsqrt variance))))"

definition vwap_sums :: "trade list \<Rightarrow> time \<Rightarrow> int \<times> int" where
  "vwap_sums trades cutoff =
     foldl (\<lambda>(v, w) t. if t_executed_at t < cutoff then (v, w)
                       else (add64 v (t_quantity t), add64 w (mul64 (t_price t) (t_quantity t)))) (0, 0) trades"

definition vwap :: "trade list \<Rightarrow> time \<Rightarrow> int \<Rightarrow> f64" where
  "vwap trades cutoff fallback =
     (case vwap_sums trades cutoff of
        (volume, turnover) \<Rightarrow>
          (if volume = 0 then priceToFloat fallback
           else round_to 4 (fdiv (fdiv (of_i64 turnover) (of_i64 volume)) 100)))"

definition projectLevels :: "level list \<Rightarrow> int \<Rightarrow> chart_level list" where
  "projectLevels levels depth =
     map (\<lambda>l. \<lparr>cl_price = priceToFloat (lv_price l), cl_qty = lv_quantity l\<rparr>) (take (nat depth) levels)"

definition trimmed_history :: "chart_point list \<Rightarrow> int \<Rightarrow> chart_point list" where
  "trimmed_history history limit0 =
     (let limit = (if limit0 \<le> 0 \<or> limit0 > int (length history) then length history else nat limit0)
      in if limit > 0 then drop (length history - limit) history else history)"

definition buildTick :: "chart_snapshot \<Rightarrow> chart_point list \<Rightarrow> time \<Rightarrow> int \<Rightarrow> int \<Rightarrow> chart_tick" where
  "buildTick s history now depth0 limit =
     (let depth = (if depth0 \<le> 0 then 10 else depth0); trades = sp_recent_trades s in
      \<lparr>ct_ticker = sp_symbol s, ct_timestamp = now, ct_current_price = priceToFloat (current_price (sp_price s)),
       ct_volume_1m = tradeVolumeSince trades (now - minute), ct_change_1m_pct = changePct history (now - minute),
       ct_change_5m_pct = changePct history (now - 5 * minute), ct_change_15m_pct = changePct history (now - 15 * minute),
       ct_volatility_5m = volatility history (now - 5 * minute),
       ct_vwap_5m = vwap trades (now - 5 * minute) (current_price (sp_price s)),
       ct_bids = projectLevels (sn_bids (sp_orderbook s)) depth, ct_asks = projectLevels (sn_asks (sp_orderbook s)) depth,
       ct_history = map (\<lambda>p. \<lparr>hp_ts = cp_at p div 1000000, hp_price = cp_price p, hp_volume = cp_volume p\<rparr>)
                      (trimmed_history history limit)\<rparr>)"

section \<open>The engine\<close>

definition NewChartEngine :: "duration \<Rightarrow> int \<Rightarrow> int \<Rightarrow> exchange \<Rightarrow> chart_engine" where
  "NewChartEngine interval limit depth x =
     \<lparr>ce_tick_interval = (if interval \<le> 0 then 3 * second else interval),
      ce_history_limit = (if limit \<le> 0 then 240 else limit),
      ce_orderbook_depth = (if depth \<le> 0 then 10 else depth),
      ce_histories = (\<lambda>s. if s \<in> set (ListTickers x) then Some [] else None),
      ce_subscribers = Map.empty, ce_next_id = 0, ce_channels = Map.empty\<rparr>"

definition subs_of :: "string \<Rightarrow> chart_engine \<Rightarrow> (nat \<times> chart_request) list" where
  "subs_of ticker e = (case ce_subscribers e ticker of None \<Rightarrow> [] | Some l \<Rightarrow> l)"

definition chart_defaults :: "chart_engine \<Rightarrow> chart_request \<Rightarrow> chart_request" where
  "chart_defaults e r =
     r\<lparr>cr_history_limit := (if cr_history_limit r \<le> 0 then ce_history_limit e else cr_history_limit r),
       cr_depth := (if cr_depth r \<le> 0 then ce_orderbook_depth e else cr_depth r)\<rparr>"

definition chart_Subscribe :: "chart_request \<Rightarrow> chart_engine \<Rightarrow> (chart_error + nat) \<times> chart_engine" where
  "chart_Subscribe r0 e =
     (if cr_ticker r0 = [] then (Inl TickerRequired, e)
      else if ce_histories e (cr_ticker r0) = None then (Inl (UnsupportedTicker (cr_ticker r0)), e)
      else (let r = chart_defaults e r0; i = ce_next_id e; t = cr_ticker r in
            (Inr i, e\<lparr>ce_next_id := Suc i, ce_channels := (ce_channels e)(i \<mapsto> ([], False)),
                      ce_subscribers := (ce_subscribers e)(t \<mapsto> AList.update i r (subs_of t e))\<rparr>)))"

definition close_channel :: "nat \<Rightarrow> chart_engine \<Rightarrow> chart_engine" where
  "close_channel i e =
     e\<lparr>ce_channels := (case ce_channels e i of None \<Rightarrow> ce_channels e | Some (q, _) \<Rightarrow> (ce_channels e)(i \<mapsto> (q, True)))\<rparr>"

definition chart_disconnect :: "string \<Rightarrow> nat \<Rightarrow> chart_engine \<Rightarrow> chart_engine" where
  "chart_disconnect ticker i e =
     close_channel i (e\<lparr>ce_subscribers := (ce_subscribers e)(ticker := map_option (AList.delete i) (ce_subscribers e ticker))\<rparr>)"

section \<open>Emitting a tick\<close>

definition emit_capture ::
  "time \<Rightarrow> chart_snapshot \<Rightarrow> string \<Rightarrow> chart_engine \<Rightarrow> ((chart_point list \<times> (nat \<times> chart_request) list) \<times> chart_engine) option" where
  "emit_capture now s ticker e =
     (case ce_histories e ticker of
        None \<Rightarrow> None
      | Some h \<Rightarrow>
          (let p = \<lparr>cp_at = now, cp_price = priceToFloat (current_price (sp_price s)),
                     cp_volume = tradeVolumeSince (sp_recent_trades s) (now - ce_tick_interval e)\<rparr>;
               h' = keep_last (nat (ce_history_limit e)) (h @ [p])
           in Some ((h', subs_of ticker e), e\<lparr>ce_histories := (ce_histories e)(ticker \<mapsto> h')\<rparr>)))"

definition chart_send :: "nat \<Rightarrow> chart_tick \<Rightarrow> chart_engine \<Rightarrow> chart_engine option" where
  "chart_send i m e =
     (case ce_channels e i of
        Some (q, False) \<Rightarrow> Some (e\<lparr>ce_channels := (ce_channels e)(i \<mapsto> (try_send 16 m q, False))\<rparr>)
      | _ \<Rightarrow> None)"

text \<open>\<open>stopped k\<close> says that the \<open>k\<close>-th select takes the branch of the finished context.\<close>

fun deliver_ticks ::
  "(nat \<Rightarrow> bool) \<Rightarrow> nat \<Rightarrow> chart_snapshot \<Rightarrow> chart_point list \<Rightarrow> time \<Rightarrow> (nat \<times> chart_request) list \<Rightarrow> chart_engine \<Rightarrow> chart_engine option" where
  "deliver_ticks stopped k s h now [] e = Some e"
| "deliver_ticks stopped k s h now ((i, r) # subs) e =
     (if stopped k then Some e
      else (case chart_send i (buildTick s h now (cr_depth r) (cr_history_limit r)) e of
              None \<Rightarrow> None
            | Some e' \<Rightarrow> deliver_ticks stopped (Suc k) s h now subs e'))"

definition emitTick :: "env \<Rightarrow> time \<Rightarrow> (nat \<Rightarrow> bool) \<Rightarrow> string \<Rightarrow> chart_engine \<Rightarrow> exchange \<Rightarrow> (chart_engine \<times> exchange) option" where
  "emitTick env now stopped ticker e x =
     (case ChartSnapshot env ticker (ce_orderbook_depth e) x of
        (Inl _, x') \<Rightarrow> Some (e, x')
      | (Inr s, x') \<Rightarrow>
          (case emit_capture now s ticker e of
             None \<Rightarrow> None
           | Some ((h, subs), e') \<Rightarrow> map_option (\<lambda>e''. (e'', x')) (deliver_ticks stopped 0 s h now subs e')))"

end
