(* ===== verification/ChartProps.thy ===== *)
theory ChartProps
  imports Charts ExchangeProps
begin

text \<open>
  Facts about the chart engine: the volume-weighted price lies between the prices traded, every
  subscriber gets its tick, the bounds kept, and the panic of an emission that meets a disconnection.
\<close>

section \<open>Rounding\<close>

lemma fdiv_mono: "0 < c \<Longrightarrow> x \<le> y \<Longrightarrow> fdiv x c \<le> fdiv y c"
  by (simp add: fdiv_def rnd_mono divide_right_mono)

lemma round_to_mono: "x \<le> y \<Longrightarrow> round_to p x \<le> round_to p y"
  unfolding round_to_def go_round_def
  by (intro fdiv_mono) (simp_all add: half_away_mono fmul_def rnd_mono mult_right_mono)

text \<open>The integer square root.\<close>

lemma isqrt_correct: "0 \<le> n \<Longrightarrow> 0 \<le> isqrt n \<and> isqrt n * isqrt n \<le> n \<and> n < (isqrt n + 1) * (isqrt n + 1)"
proof (induction n rule: isqrt.induct)
  case (1 n)
  show ?case
  proof (cases "n \<le> 0")
    case True
    then have "isqrt n = 0" by (simp add: isqrt.simps [of n])
    then show ?thesis using 1 True by simp
  next
    case False
    define q where "q = isqrt (n div 4)"
    have q: "0 \<le> q" "q * q \<le> n div 4" "n div 4 < (q + 1) * (q + 1)"
      using 1 False by (simp_all add: q_def)
    have s: "isqrt n = (if (2 * q + 1) * (2 * q + 1) \<le> n then 2 * q + 1 else 2 * q)"
      using False by (simp add: isqrt.simps [of n] q_def Let_def)
    have "(2 * q) * (2 * q) \<le> n" "n < (2 * q + 2) * (2 * q + 2)"
      using q(2,3) by (simp_all add: algebra_simps)
    then show ?thesis using q(1) unfolding s by (auto simp: algebra_simps)
  qed
qed

section \<open>The volume-weighted price\<close>

lemma vwap_sums_exact:
  assumes "\<forall>t \<in> set ts. 0 \<le> t_quantity t \<and> 0 \<le> t_price t"
    and "v + (\<Sum>t\<leftarrow>filter (\<lambda>t. \<not> t_executed_at t < c) ts. t_quantity t) < 2 ^ 53"
    and "w + (\<Sum>t\<leftarrow>filter (\<lambda>t. \<not> t_executed_at t < c) ts. t_price t * t_quantity t) < 2 ^ 53"
    and "0 \<le> v" "0 \<le> w"
  shows "foldl (\<lambda>(v, w) t. if t_executed_at t < c then (v, w)
                       else (add64 v (t_quantity t), add64 w (mul64 (t_price t) (t_quantity t)))) (v, w) ts =
     (v + (\<Sum>t\<leftarrow>filter (\<lambda>t. \<not> t_executed_at t < c) ts. t_quantity t),
      w + (\<Sum>t\<leftarrow>filter (\<lambda>t. \<not> t_executed_at t < c) ts. t_price t * t_quantity t))"
  using assms
proof (induction ts arbitrary: v w)
  case (Cons t ts)
  have nn: "0 \<le> (\<Sum>t\<leftarrow>filter (\<lambda>t. \<not> t_executed_at t < c) ts. t_quantity t)"
    "0 \<le> (\<Sum>t\<leftarrow>filter (\<lambda>t. \<not> t_executed_at t < c) ts. t_price t * t_quantity t)"
    using Cons.prems(1) by (auto intro!: sum_list_nonneg)
  show ?case
  proof (cases "t_executed_at t < c")
    case True
    then show ?thesis using Cons by simp
  next
    case False
    have t: "0 \<le> t_quantity t" "0 \<le> t_price t * t_quantity t" using Cons.prems(1) by simp_all
    have e: "mul64 (t_price t) (t_quantity t) = t_price t * t_quantity t"
      "add64 v (t_quantity t) = v + t_quantity t" "add64 w (t_price t * t_quantity t) = w + t_price t * t_quantity t"
      using Cons.prems(2-5) False nn t by (simp_all add: mul64_def add64_def in64_def)
    show ?thesis
      using Cons.IH [of "v + t_quantity t" "w + t_price t * t_quantity t"] Cons.prems False t e by (simp add: add.assoc)
  qed
qed simp

lemma weighted_bounds:
  assumes "\<forall>t \<in> set ts. lo \<le> t_price t \<and> t_price t \<le> hi \<and> 0 \<le> t_quantity t"
  shows "lo * (\<Sum>t\<leftarrow>ts. t_quantity t) \<le> (\<Sum>t\<leftarrow>ts. t_price t * t_quantity t) \<and>
    (\<Sum>t\<leftarrow>ts. t_price t * t_quantity t) \<le> hi * (\<Sum>t\<leftarrow>ts. t_quantity t)"
  using assms
proof (induction ts)
  case (Cons t ts)
  have "lo * t_quantity t \<le> t_price t * t_quantity t" "t_price t * t_quantity t \<le> hi * t_quantity t"
    using Cons.prems by (simp_all add: mult_right_mono)
  then show ?case using Cons by (simp add: distrib_left)
qed simp

text \<open>The volume-weighted price of a chart tick lies between the lowest and the highest price of the
  trades it covers, as the chart prints prices, when something was traded and the sums fit 53 bits.\<close>
theorem vwap_between:
  defines "recent \<equiv> \<lambda>c. filter (\<lambda>t. \<not> t_executed_at t < c)"
  assumes "\<forall>t \<in> set ts. 0 \<le> t_quantity t \<and> 0 \<le> t_price t"
    and "\<forall>t \<in> set (recent c ts). lo \<le> t_price t \<and> t_price t \<le> hi"
    and "0 \<le> lo" and "hi < 2 ^ 53" and "0 < (\<Sum>t\<leftarrow>recent c ts. t_quantity t)"
    and "(\<Sum>t\<leftarrow>recent c ts. t_quantity t) < 2 ^ 53" and "(\<Sum>t\<leftarrow>recent c ts. t_price t * t_quantity t) < 2 ^ 53"
  shows "priceToFloat lo \<le> vwap ts c fallback \<and> vwap ts c fallback \<le> priceToFloat hi"
proof -
  let ?v = "\<Sum>t\<leftarrow>recent c ts. t_quantity t" and ?w = "\<Sum>t\<leftarrow>recent c ts. t_price t * t_quantity t"
  have sums: "vwap_sums ts c = (?v, ?w)"
    using vwap_sums_exact [of ts 0 c 0] assms(2,7,8) by (simp add: vwap_sums_def recent_def)
  have b: "lo * ?v \<le> ?w" "?w \<le> hi * ?v"
    using weighted_bounds [of "recent c ts" lo hi] assms(2,3) by (auto simp: recent_def)
  have "0 \<le> ?w" using b(1) assms(4,6) by (meson mult_nonneg_nonneg order.strict_implies_order order_trans)
  then have ex: "of_i64 ?v = of_int ?v" "of_i64 ?w = of_int ?w" using assms(6-8) by simp_all
  have lh: "lo \<le> hi"
  proof (rule ccontr)
    assume "\<not> lo \<le> hi"
    then have "hi * ?v < lo * ?v" using assms(6) by simp
    then show False using b by linarith
  qed
  have "(of_int lo :: rat) * of_int ?v \<le> of_int ?w" "(of_int ?w :: rat) \<le> of_int hi * of_int ?v"
    using b by (metis of_int_le_iff of_int_mult)+
  then have q: "of_int lo \<le> (of_int ?w :: rat) / of_int ?v" "(of_int ?w :: rat) / of_int ?v \<le> of_int hi"
    using assms(6) by (simp_all add: pos_le_divide_eq pos_divide_le_eq)
  have r: "of_int lo \<le> fdiv (of_int ?w) (of_int ?v)" "fdiv (of_int ?w) (of_int ?v) \<le> of_int hi"
    unfolding fdiv_def using rnd_between [OF q] assms(4,5) lh by simp_all
  have i: "of_i64 lo = of_int lo" "of_i64 hi = of_int hi" using assms(4,5) lh by simp_all
  have "vwap ts c fallback = round_to 4 (fdiv (fdiv (of_int ?w) (of_int ?v)) 100)"
    using assms(6) by (simp add: vwap_def sums ex)
  then show ?thesis using r unfolding priceToFloat_def i by (simp add: round_to_mono fdiv_mono)
qed

definition chart_trade :: "int \<Rightarrow> int \<Rightarrow> time \<Rightarrow> trade" where
  "chart_trade price qty tm = \<lparr>t_id = ''t'', t_symbol = ''ACME'', t_price = price, t_quantity = qty, t_aggressor_side = SideBuy,
     t_buy_order_id = ''b'', t_sell_order_id = ''s'', t_buyer_id = ''B'', t_seller_id = ''S'', t_buyer_role = ''Buyer'',
     t_seller_role = ''Holder'', t_executed_at = tm\<rparr>"

theorem vwap_between_witness:
  "priceToFloat 990 \<le> vwap [chart_trade 990 3 7, chart_trade 1010 1 8] 5 0"
  by (rule conjunct1 [OF vwap_between [where hi = 1010]]) (simp_all add: chart_trade_def)

section \<open>The invariant of the engine\<close>

definition open_room :: "chart_engine \<Rightarrow> nat \<Rightarrow> bool" where
  "open_room e i \<longleftrightarrow> (case ce_channels e i of Some (q, False) \<Rightarrow> length q \<le> 16 | _ \<Rightarrow> False)"

definition charts_inv :: "string set \<Rightarrow> chart_engine \<Rightarrow> bool" where
  "charts_inv ts e \<longleftrightarrow> dom (ce_histories e) = ts \<and> 0 < ce_history_limit e \<and>
     (\<forall>t h. ce_histories e t = Some h \<longrightarrow> length h \<le> nat (ce_history_limit e)) \<and>
     (\<forall>i. ce_channels e i \<noteq> None \<longrightarrow> i < ce_next_id e) \<and>
     (\<forall>t. distinct (map fst (subs_of t e)) \<and>
        (\<forall>x \<in> set (subs_of t e). open_room e (fst x) \<and> cr_ticker (snd x) = t \<and> 0 < cr_history_limit (snd x))) \<and>
     (\<forall>t u. \<forall>x \<in> set (subs_of t e). \<forall>y \<in> set (subs_of u e). fst x = fst y \<longrightarrow> x = y)"

lemma charts_invI:
  assumes "dom (ce_histories e) = ts" "0 < ce_history_limit e"
    "\<And>t h. ce_histories e t = Some h \<Longrightarrow> length h \<le> nat (ce_history_limit e)"
    "\<And>i. ce_channels e i \<noteq> None \<Longrightarrow> i < ce_next_id e" "\<And>t. distinct (map fst (subs_of t e))"
    "\<And>t x. x \<in> set (subs_of t e) \<Longrightarrow> open_room e (fst x) \<and> cr_ticker (snd x) = t \<and> 0 < cr_history_limit (snd x)"
    "\<And>t u x y. x \<in> set (subs_of t e) \<Longrightarrow> y \<in> set (subs_of u e) \<Longrightarrow> fst x = fst y \<Longrightarrow> x = y"
  shows "charts_inv ts e"
  unfolding charts_inv_def using assms by simp

lemma charts_invD:
  assumes "charts_inv ts e"
  shows "dom (ce_histories e) = ts" "0 < ce_history_limit e"
    "\<And>t h. ce_histories e t = Some h \<Longrightarrow> length h \<le> nat (ce_history_limit e)"
    "\<And>i. ce_channels e i \<noteq> None \<Longrightarrow> i < ce_next_id e" "\<And>t. distinct (map fst (subs_of t e))"
    "\<And>t x. x \<in> set (subs_of t e) \<Longrightarrow> open_room e (fst x) \<and> cr_ticker (snd x) = t \<and> 0 < cr_history_limit (snd x)"
    "\<And>t u x y. x \<in> set (subs_of t e) \<Longrightarrow> y \<in> set (subs_of u e) \<Longrightarrow> fst x = fst y \<Longrightarrow> x = y"
    "\<And>t. t \<in> ts \<Longrightarrow> \<exists>h. ce_histories e t = Some h"
  using assms unfolding charts_inv_def by blast+

lemma open_room_below: "charts_inv ts e \<Longrightarrow> open_room e i \<Longrightarrow> i < ce_next_id e"
  unfolding charts_inv_def open_room_def by (auto split: option.splits)

lemma subs_below: "charts_inv ts e \<Longrightarrow> x \<in> set (subs_of t e) \<Longrightarrow> fst x < ce_next_id e"
proof -
  assume inv: "charts_inv ts e" and x: "x \<in> set (subs_of t e)"
  then have "open_room e (fst x)" unfolding charts_inv_def by blast
  then show ?thesis by (rule open_room_below [OF inv])
qed

lemma NewChartEngine_inv: "charts_inv (set (ListTickers x)) (NewChartEngine interval limit depth x)"
  by (auto simp: charts_inv_def NewChartEngine_def subs_of_def dom_def split: if_splits)

lemma open_room_send: "open_room e i \<Longrightarrow> chart_send j m e = Some e' \<Longrightarrow> open_room e' i"
  by (cases "i = j") (auto simp: open_room_def chart_send_def length_try_send split: option.splits prod.splits bool.splits)

lemma chart_send_frame: "chart_send j m e = Some e' \<Longrightarrow>
    subs_of t e' = subs_of t e \<and> ce_histories e' = ce_histories e \<and> ce_history_limit e' = ce_history_limit e \<and>
    ce_next_id e' = ce_next_id e \<and> (\<forall>i. i \<noteq> j \<longrightarrow> ce_channels e' i = ce_channels e i) \<and> dom (ce_channels e') = dom (ce_channels e)"
  by (auto simp: chart_send_def subs_of_def dom_def split: option.splits prod.splits bool.splits if_splits)

lemma chart_send_inv: "charts_inv ts e \<Longrightarrow> chart_send j m e = Some e' \<Longrightarrow> charts_inv ts e'"
  using chart_send_frame [of j m e e'] open_room_send [of e _ j m e']
  unfolding charts_inv_def by (simp add: dom_def set_eq_iff)

lemma chart_send_ex: "open_room e i \<Longrightarrow> \<exists>q. ce_channels e i = Some (q, False) \<and>
    chart_send i m e = Some (e\<lparr>ce_channels := (ce_channels e)(i \<mapsto> (try_send 16 m q, False))\<rparr>)"
  by (auto simp: open_room_def chart_send_def split: option.splits prod.splits bool.splits)

lemma deliver_ticks_inv:
  assumes "charts_inv ts e" and "\<forall>x \<in> set subs. open_room e (fst x)"
  shows "\<exists>e'. deliver_ticks stopped k s h now subs e = Some e' \<and> charts_inv ts e' \<and> ce_histories e' = ce_histories e"
  using assms
proof (induction subs arbitrary: k e)
  case (Cons x subs)
  obtain i r where x: "x = (i, r)" by fastforce
  let ?m = "buildTick s h now (cr_depth r) (cr_history_limit r)"
  obtain e1 where e1: "chart_send i ?m e = Some e1" using chart_send_ex [of e i] Cons.prems(2) x by fastforce
  have "charts_inv ts e1" "\<forall>x \<in> set subs. open_room e1 (fst x)" "ce_histories e1 = ce_histories e"
    using chart_send_inv [OF Cons.prems(1) e1] open_room_send [OF _ e1] chart_send_frame [OF e1] Cons.prems(2) by simp_all
  with Cons.IH [of e1 "Suc k"] show ?case using e1 x Cons.prems(1) by simp
qed simp

lemma capture_inv:
  assumes "charts_inv ts e" and "ticker \<in> ts"
  shows "\<exists>h' e'. emit_capture now s ticker e = Some ((h', subs_of ticker e), e') \<and> charts_inv ts e' \<and>
     (\<forall>t. subs_of t e' = subs_of t e) \<and> ce_channels e' = ce_channels e \<and> ce_histories e' ticker = Some h' \<and>
     h' = keep_last (nat (ce_history_limit e)) (the (ce_histories e ticker) @
        [\<lparr>cp_at = now, cp_price = priceToFloat (current_price (sp_price s)),
          cp_volume = tradeVolumeSince (sp_recent_trades s) (now - ce_tick_interval e)\<rparr>])"
proof -
  obtain h where h: "ce_histories e ticker = Some h" using assms by (auto simp: charts_inv_def)
  let ?p = "\<lparr>cp_at = now, cp_price = priceToFloat (current_price (sp_price s)),
          cp_volume = tradeVolumeSince (sp_recent_trades s) (now - ce_tick_interval e)\<rparr>"
  let ?e = "e\<lparr>ce_histories := (ce_histories e)(ticker \<mapsto> keep_last (nat (ce_history_limit e)) (h @ [?p]))\<rparr>"
  have s: "subs_of t ?e = subs_of t e" "open_room ?e i = open_room e i" for t i by (simp_all add: subs_of_def open_room_def)
  have "charts_inv ts ?e"
    using assms unfolding charts_inv_def s by (auto simp: insert_absorb)
  then show ?thesis using h s by (simp add: emit_capture_def Let_def)
qed

lemma emitTick_inv:
  assumes "charts_inv ts e" and "ticker \<in> ts"
  shows "\<exists>e'. emitTick env now stopped ticker e x = Some (e', snd (ChartSnapshot env ticker (ce_orderbook_depth e) x)) \<and> charts_inv ts e'"
proof (cases "ChartSnapshot env ticker (ce_orderbook_depth e) x")
  case (Pair r x')
  show ?thesis
  proof (cases r)
    case (Inl err)
    then show ?thesis using assms Pair by (simp add: emitTick_def)
  next
    case (Inr s)
    obtain h' e1 where c: "emit_capture now s ticker e = Some ((h', subs_of ticker e), e1)" "charts_inv ts e1"
        "subs_of ticker e1 = subs_of ticker e"
      using capture_inv [OF assms] by metis
    have "\<forall>y \<in> set (subs_of ticker e). open_room e1 (fst y)" using c(2,3) unfolding charts_inv_def by metis
    then obtain e2 where "deliver_ticks stopped 0 s h' now (subs_of ticker e) e1 = Some e2" "charts_inv ts e2"
      using deliver_ticks_inv [OF c(2)] by blast
    then show ?thesis using Pair Inr c(1) by (simp add: emitTick_def)
  qed
qed

lemma Subscribe_charts_inv:
  assumes "charts_inv ts e"
  shows "charts_inv ts (snd (chart_Subscribe r e))"
proof (cases "cr_ticker r = [] \<or> ce_histories e (cr_ticker r) = None")
  case True
  then show ?thesis using assms by (auto simp: chart_Subscribe_def)
next
  case False
  let ?i = "ce_next_id e" and ?r = "chart_defaults e r"
  define e' where "e' = snd (chart_Subscribe r e)"
  obtain h where "ce_histories e (cr_ticker r) = Some h" "cr_ticker r \<noteq> []" using False by auto
  then have e': "e' = e\<lparr>ce_next_id := Suc ?i, ce_channels := (ce_channels e)(?i \<mapsto> ([], False)),
       ce_subscribers := (ce_subscribers e)(cr_ticker ?r \<mapsto> AList.update ?i ?r (subs_of (cr_ticker ?r) e))\<rparr>"
    by (simp add: e'_def chart_Subscribe_def chart_defaults_def Let_def)
  have d: "distinct (map fst (subs_of t e))" for t using assms by (simp add: charts_inv_def)
  have below: "x \<in> set (subs_of t e) \<Longrightarrow> fst x < ?i" for x t by (rule subs_below [OF assms])
  have sub: "subs_of t e' = (if t = cr_ticker ?r then AList.update ?i ?r (subs_of t e) else subs_of t e)" for t
    by (simp add: e' subs_of_def)
  have mem: "x \<in> set (subs_of t e') \<longleftrightarrow> (t = cr_ticker ?r \<and> x = (?i, ?r)) \<or> x \<in> set (subs_of t e)" for x t
    using below [of x t] by (auto simp: sub set_update_alist d)
  have room: "open_room e' i \<longleftrightarrow> i = ?i \<or> open_room e i" for i by (simp add: e' open_room_def)
  have "0 < cr_history_limit ?r" using assms by (simp add: chart_defaults_def charts_inv_def)
  moreover have "distinct (map fst (subs_of t e'))" for t by (simp add: sub d distinct_update)
  moreover have "ce_channels e' i \<noteq> None \<Longrightarrow> i < Suc ?i" for i
    using assms by (auto simp: e' charts_inv_def less_Suc_eq split: if_splits)
  moreover have "fst x = fst y \<Longrightarrow> x = y" if "x \<in> set (subs_of t e')" "y \<in> set (subs_of u e')" for x y t u
    using that assms below unfolding mem charts_inv_def by (metis fst_conv less_irrefl)
  moreover have "open_room e' (fst x) \<and> cr_ticker (snd x) = t \<and> 0 < cr_history_limit (snd x)" if "x \<in> set (subs_of t e')" for t x
    using that charts_invD(6) [OF assms, of x t] \<open>0 < cr_history_limit ?r\<close> unfolding mem room by auto
  ultimately have "charts_inv ts e'"
    using charts_invD(1-3) [OF assms] by (intro charts_invI) (auto simp: e')
  then show ?thesis by (simp add: e'_def)
qed

lemma disconnect_charts_inv:
  assumes "charts_inv ts e" and "(i, r) \<in> set (subs_of ticker e)"
  shows "charts_inv ts (chart_disconnect ticker i e)"
proof -
  let ?e = "chart_disconnect ticker i e"
  have sub: "subs_of t ?e = (if t = ticker then AList.delete i (subs_of t e) else subs_of t e)" for t
    by (simp add: chart_disconnect_def close_channel_def subs_of_def split: option.split)
  have mem: "x \<in> set (subs_of t ?e) \<longleftrightarrow> x \<in> set (subs_of t e) \<and> fst x \<noteq> i" for x t
  proof (cases "t = ticker")
    case True
    then show ?thesis by (auto simp: sub AList.delete_eq)
  next
    case False
    have "fst x \<noteq> i" if "x \<in> set (subs_of t e)"
    proof
      assume "fst x = i"
      then have "x = (i, r)" using charts_invD(7) [OF assms(1) that assms(2)] by simp
      then show False
        using charts_invD(6) [OF assms(1) that] charts_invD(6) [OF assms(1) assms(2)] False by simp
    qed
    then show ?thesis using False by (auto simp: sub)
  qed
  have room: "j \<noteq> i \<Longrightarrow> open_room ?e j = open_room e j" for j
    by (simp add: chart_disconnect_def close_channel_def open_room_def split: option.split)
  have rest: "ce_histories ?e = ce_histories e" "ce_history_limit ?e = ce_history_limit e" "ce_next_id ?e = ce_next_id e"
    "dom (ce_channels ?e) = dom (ce_channels e)"
    by (auto simp: chart_disconnect_def close_channel_def dom_def split: option.split)
  have dd: "distinct (map fst (subs_of t ?e))" for t
    using assms(1) by (simp add: sub charts_inv_def distinct_delete)
  have ch: "ce_channels ?e j \<noteq> None \<longleftrightarrow> ce_channels e j \<noteq> None" for j using rest(4) by (metis domIff)
  note D = charts_invD [OF assms(1)]
  show ?thesis
  proof (rule charts_invI)
    show "open_room ?e (fst x) \<and> cr_ticker (snd x) = t \<and> 0 < cr_history_limit (snd x)" if "x \<in> set (subs_of t ?e)" for t x
      using that D(6) [of x t] unfolding mem by (simp add: room)
    show "x = y" if "x \<in> set (subs_of t ?e)" "y \<in> set (subs_of u ?e)" "fst x = fst y" for t u x y
      using that D(7) unfolding mem by blast
    show "j < ce_next_id ?e" if "ce_channels ?e j \<noteq> None" for j
      using that D(4) [of j] unfolding ch rest by simp
  qed (use D(1-3) dd in \<open>simp_all add: rest(1-3)\<close>)
qed

text \<open>The chart engine as the server runs it; between its operations the exchange may change in any way
  that keeps its tickers, and emissions and disconnections do not overlap.\<close>

inductive charts_run :: "chart_engine \<Rightarrow> exchange \<Rightarrow> bool" where
  charts_start: "charts_run (NewChartEngine interval limit depth x) x"
| charts_subscribe: "charts_run e x \<Longrightarrow> charts_run (snd (chart_Subscribe r e)) x"
| charts_disconnect: "charts_run e x \<Longrightarrow> (i, r) \<in> set (subs_of ticker e) \<Longrightarrow> charts_run (chart_disconnect ticker i e) x"
| charts_emit: "charts_run e x \<Longrightarrow> emitTick env now stopped ticker e x = Some (e', x') \<Longrightarrow> ticker \<in> set (ListTickers x) \<Longrightarrow>
    set (ListTickers x') = set (ListTickers x) \<Longrightarrow> charts_run e' x'"
| charts_market: "charts_run e x \<Longrightarrow> set (ListTickers x') = set (ListTickers x) \<Longrightarrow> charts_run e x'"

lemma charts_run_inv: "charts_run e x \<Longrightarrow> charts_inv (set (ListTickers x)) e"
proof (induction rule: charts_run.induct)
  case (charts_emit e x env now stopped ticker e' x')
  then show ?case using emitTick_inv [of "set (ListTickers x)" e ticker env now stopped x] by auto
qed (simp_all add: NewChartEngine_inv Subscribe_charts_inv disconnect_charts_inv)

section \<open>Delivery\<close>

lemma deliver_ticks_exact:
  assumes "\<forall>x \<in> set subs. open_room e (fst x)" and "distinct (map fst subs)"
    and "deliver_ticks (\<lambda>_. False) k s h now subs e = Some e'"
  shows "(\<forall>(i, r) \<in> set subs. \<exists>q. ce_channels e i = Some (q, False) \<and>
      ce_channels e' i = Some (try_send 16 (buildTick s h now (cr_depth r) (cr_history_limit r)) q, False)) \<and>
    (\<forall>i. i \<notin> fst ` set subs \<longrightarrow> ce_channels e' i = ce_channels e i)"
  using assms
proof (induction subs arbitrary: k e)
  case (Cons x subs)
  obtain i r where x: "x = (i, r)" by fastforce
  let ?m = "buildTick s h now (cr_depth r) (cr_history_limit r)"
  obtain q where q: "ce_channels e i = Some (q, False)"
      "chart_send i ?m e = Some (e\<lparr>ce_channels := (ce_channels e)(i \<mapsto> (try_send 16 ?m q, False))\<rparr>)"
    using chart_send_ex [of e i ?m] Cons.prems(1) x by auto
  let ?e1 = "e\<lparr>ce_channels := (ce_channels e)(i \<mapsto> (try_send 16 ?m q, False))\<rparr>"
  have new: "i \<notin> fst ` set subs" using Cons.prems(2) x by simp
  have IH: "(\<forall>(j, r) \<in> set subs. \<exists>q. ce_channels ?e1 j = Some (q, False) \<and>
      ce_channels e' j = Some (try_send 16 (buildTick s h now (cr_depth r) (cr_history_limit r)) q, False)) \<and>
    (\<forall>j. j \<notin> fst ` set subs \<longrightarrow> ce_channels e' j = ce_channels ?e1 j)"
    using Cons.IH [of ?e1 "Suc k"] Cons.prems open_room_send [OF _ q(2)] q(2) x by auto
  have "\<exists>q. ce_channels e j = Some (q, False) \<and>
      ce_channels e' j = Some (try_send 16 (buildTick s h now (cr_depth w) (cr_history_limit w)) q, False)"
    if "(j, w) \<in> set (x # subs)" for j w
  proof (cases "(j, w) = x")
    case True
    then show ?thesis using IH new q x by simp
  next
    case False
    then have w: "(j, w) \<in> set subs" "j \<noteq> i" using that new by (auto simp: rev_image_eqI)
    show ?thesis using bspec [OF conjunct1 [OF IH] w(1)] w(2) by simp
  qed
  moreover have "ce_channels e' j = ce_channels e j" if "j \<notin> fst ` set (x # subs)" for j
    using IH that x by simp
  ultimately show ?case by blast
qed simp

text \<open>In every reachable chart engine an emission never panics; it adds one point to the ticker's history,
  dropping the oldest beyond the limit, and offers every subscriber of the ticker exactly one tick
  built from that history with its own depth and length; no other channel and no other history
  changes, and no channel ever holds more than 16 ticks.\<close>
theorem emitTick_delivers:
  assumes "charts_run e x" and "ticker \<in> set (ListTickers x)"
    and "ChartSnapshot env ticker (ce_orderbook_depth e) x = (Inr s, x')"
  shows "\<exists>e' h p. emitTick env now (\<lambda>_. False) ticker e x = Some (e', x') \<and> ce_histories e ticker = Some h \<and>
     cp_at p = now \<and> cp_price p = priceToFloat (current_price (sp_price s)) \<and>
     ce_histories e' = (ce_histories e)(ticker \<mapsto> keep_last (nat (ce_history_limit e)) (h @ [p])) \<and>
     list_all (\<lambda>(i, r). \<exists>q. length q \<le> 16 \<and> ce_channels e i = Some (q, False) \<and> ce_channels e' i =
        Some (try_send 16 (buildTick s (keep_last (nat (ce_history_limit e)) (h @ [p])) now (cr_depth r) (cr_history_limit r)) q, False))
       (subs_of ticker e) \<and>
     (\<forall>i. i \<in> fst ` set (subs_of ticker e) \<or> ce_channels e' i = ce_channels e i)"
proof -
  let ?ts = "set (ListTickers x)"
  have inv: "charts_inv ?ts e" by (rule charts_run_inv [OF assms(1)])
  obtain h where h: "ce_histories e ticker = Some h" using charts_invD(8) [OF inv assms(2)] by blast
  let ?p = "\<lparr>cp_at = now, cp_price = priceToFloat (current_price (sp_price s)),
          cp_volume = tradeVolumeSince (sp_recent_trades s) (now - ce_tick_interval e)\<rparr>"
  let ?h = "keep_last (nat (ce_history_limit e)) (h @ [?p])"
  let ?e1 = "e\<lparr>ce_histories := (ce_histories e)(ticker \<mapsto> ?h)\<rparr>"
  have cap: "emit_capture now s ticker e = Some ((?h, subs_of ticker e), ?e1)" using h by (simp add: emit_capture_def Let_def)
  have inv1: "charts_inv ?ts ?e1" using capture_inv [OF inv assms(2), of now s] cap by auto
  have room: "\<forall>y \<in> set (subs_of ticker e). open_room ?e1 (fst y)" "\<forall>y \<in> set (subs_of ticker e). open_room e (fst y)"
    using inv by (auto simp: charts_inv_def open_room_def)
  have dist: "distinct (map fst (subs_of ticker e))" using inv by (simp add: charts_inv_def)
  obtain e2 where d: "deliver_ticks (\<lambda>_. False) 0 s ?h now (subs_of ticker e) ?e1 = Some e2" "ce_histories e2 = ce_histories ?e1"
    using deliver_ticks_inv [OF inv1 room(1)] by blast
  note ex = deliver_ticks_exact [OF room(1) dist d(1)]
  have "list_all (\<lambda>(i, r). \<exists>q. length q \<le> 16 \<and> ce_channels e i = Some (q, False) \<and> ce_channels e2 i =
        Some (try_send 16 (buildTick s ?h now (cr_depth r) (cr_history_limit r)) q, False)) (subs_of ticker e)"
    unfolding list_all_iff
  proof (intro ballI, clarify)
    fix i r assume m: "(i, r) \<in> set (subs_of ticker e)"
    obtain q where q: "ce_channels ?e1 i = Some (q, False)"
        "ce_channels e2 i = Some (try_send 16 (buildTick s ?h now (cr_depth r) (cr_history_limit r)) q, False)"
      using bspec [OF conjunct1 [OF ex] m] by auto
    have "length q \<le> 16" using bspec [OF room(1) m] q(1) by (simp add: open_room_def)
    then show "\<exists>q. length q \<le> 16 \<and> ce_channels e i = Some (q, False) \<and> ce_channels e2 i =
        Some (try_send 16 (buildTick s ?h now (cr_depth r) (cr_history_limit r)) q, False)"
      using q by auto
  qed
  moreover have "\<forall>i. i \<in> fst ` set (subs_of ticker e) \<or> ce_channels e2 i = ce_channels e i" using ex by auto
  moreover have "emitTick env now (\<lambda>_. False) ticker e x = Some (e2, x')"
    by (simp add: emitTick_def assms(3) cap d(1))
  moreover have "ce_histories e2 = (ce_histories e)(ticker \<mapsto> ?h)" using d(2) by simp
  moreover have "cp_at ?p = now" "cp_price ?p = priceToFloat (current_price (sp_price s))" by simp_all
  ultimately show ?thesis using h
    by (intro exI [of _ e2] exI [of _ h] exI [of _ ?p] conjI)
qed

definition demo_market :: exchange where "demo_market = NewExchange [demo_ticker] 3"

definition demo_charts :: chart_engine where
  "demo_charts = snd (chart_Subscribe \<lparr>cr_player_id = ''ann'', cr_ticker = ''ACME'', cr_history_limit = 2, cr_depth = 5\<rparr>
     (NewChartEngine 0 0 0 demo_market))"

lemma demo_charts_facts:
  "charts_run demo_charts demo_market" "''ACME'' \<in> set (ListTickers demo_market)"
  "subs_of ''ACME'' demo_charts = [(0, \<lparr>cr_player_id = ''ann'', cr_ticker = ''ACME'', cr_history_limit = 2, cr_depth = 5\<rparr>)]"
  "ce_histories demo_charts ''ACME'' = Some []" "ce_history_limit demo_charts = 240"
proof -
  have t: "ListTickers demo_market = [''ACME'']"
    by (simp add: ListTickers_def demo_market_def NewExchange_def demo_ticker_def)
  then show "''ACME'' \<in> set (ListTickers demo_market)" by simp
  show "charts_run demo_charts demo_market" unfolding demo_charts_def by (intro charts_subscribe charts_start)
  show "subs_of ''ACME'' demo_charts = [(0, \<lparr>cr_player_id = ''ann'', cr_ticker = ''ACME'', cr_history_limit = 2, cr_depth = 5\<rparr>)]"
    "ce_histories demo_charts ''ACME'' = Some []" "ce_history_limit demo_charts = 240"
    by (simp_all add: demo_charts_def chart_Subscribe_def NewChartEngine_def subs_of_def chart_defaults_def t Let_def)
qed

lemma demo_snapshot: "\<exists>s x'. ChartSnapshot env ''ACME'' depth demo_market = (Inr s, x')"
proof -
  have "exchange_inv demo_market" by (simp add: demo_market_def NewExchange_inv)
  moreover have "ex_books demo_market ''ACME'' = Some (new_book ''ACME'' 1000)"
    by (simp add: demo_market_def demo_exchange_book)
  ultimately show ?thesis
    using Current_known [of demo_market "''ACME''" "now_price env"] by (auto simp: ChartSnapshot_def)
qed

theorem emitTick_delivers_witness:
  "\<exists>e' x' p. emitTick demo_env 7 (\<lambda>_. False) ''ACME'' demo_charts demo_market = Some (e', x') \<and> cp_at p = 7 \<and>
     ce_histories e' ''ACME'' = Some [p]"
proof -
  obtain s x' where "ChartSnapshot demo_env ''ACME'' (ce_orderbook_depth demo_charts) demo_market = (Inr s, x')"
    using demo_snapshot by blast
  from emitTick_delivers [OF demo_charts_facts(1,2) this, of 7] show ?thesis
    using demo_charts_facts(4,5) by auto
qed

section \<open>Emissions that meet a disconnection\<close>

lemma deliver_closed:
  assumes "ce_channels e i = Some (q, True)" and "i \<in> fst ` set subs"
  shows "deliver_ticks (\<lambda>_. False) k s h now subs e = None"
  using assms
proof (induction subs arbitrary: k e)
  case (Cons x subs)
  obtain j r where x: "x = (j, r)" by fastforce
  show ?case
  proof (cases "chart_send j (buildTick s h now (cr_depth r) (cr_history_limit r)) e")
    case None
    then show ?thesis using x by simp
  next
    case (Some e1)
    then have "j \<noteq> i" using Cons.prems(1) by (auto simp: chart_send_def)
    then have "ce_channels e1 i = Some (q, True)" using chart_send_frame [OF Some] Cons.prems(1) by simp
    then show ?thesis using Cons.IH [of e1 "Suc k"] Cons.prems(2) \<open>j \<noteq> i\<close> Some x by auto
  qed
qed simp

text \<open>C20: An emission that has captured its subscribers and finds one disconnected before it sends panics: it
  sends on the channel that the disconnection has closed, which takes the whole server down.\<close>
theorem emitTick_disconnect_panics:
  assumes "charts_run e x" and "(i, r) \<in> set (subs_of ticker e)"
    and "emit_capture now s ticker e = Some ((h, subs), e1)"
  shows "deliver_ticks (\<lambda>_. False) 0 s h now subs (chart_disconnect ticker i e1) = None"
proof -
  have inv: "charts_inv (set (ListTickers x)) e" by (rule charts_run_inv [OF assms(1)])
  have cap: "subs = subs_of ticker e" "ce_channels e1 = ce_channels e"
    using assms(3) by (auto simp: emit_capture_def Let_def split: option.splits)
  obtain q where "ce_channels e i = Some (q, False)"
    using inv assms(2) unfolding charts_inv_def open_room_def by (fastforce split: option.splits prod.splits bool.splits)
  then have "ce_channels (chart_disconnect ticker i e1) i = Some (q, True)"
    using cap by (simp add: chart_disconnect_def close_channel_def)
  then show ?thesis using deliver_closed assms(2) cap by (metis fst_conv image_eqI)
qed

theorem emitTick_disconnect_panics_witness:
  "\<exists>s h subs e1. emit_capture 7 s ''ACME'' demo_charts = Some ((h, subs), e1) \<and>
     deliver_ticks (\<lambda>_. False) 0 s h 7 subs (chart_disconnect ''ACME'' 0 e1) = None"
proof -
  obtain s :: chart_snapshot where "s = s" by blast
  obtain h subs e1 where c: "emit_capture 7 s ''ACME'' demo_charts = Some ((h, subs), e1)"
    using demo_charts_facts(4) by (simp add: emit_capture_def Let_def)
  have "(0, \<lparr>cr_player_id = ''ann'', cr_ticker = ''ACME'', cr_history_limit = 2, cr_depth = 5\<rparr>) \<in> set (subs_of ''ACME'' demo_charts)"
    by (simp add: demo_charts_facts(3))
  from emitTick_disconnect_panics [OF demo_charts_facts(1) this c] c show ?thesis by blast
qed

end
