(* ===== verification/Streams.thy ===== *)
theory Streams
  imports Actions Charts
begin

text \<open>
  The gRPC service (\<^verbatim>\<open>internal/grpcapi/service.go\<close>) and the feeds of the gameplay engine it reads: the
  unary calls, and each stream as a state machine whose events are the branches of its \<^verbatim>\<open>select\<close>.

  Payloads are values, \<open>body\<close>, instead of their JSON text. \<open>ok\<close> says which sends of the transport
  succeed. A stream that has returned has a result: \<open>Finished\<close> without an error, \<open>Failed\<close> with one.
\<close>

section \<open>The service\<close>

datatype body =
    MarketBody market_msg | ChatBody chat_message | PrivateBody private_payload | PortfolioBody portfolio_snapshot

record envelope =
  el_topic :: string
  el_body :: body
  el_sequence :: int

record service =
  sv_game :: game
  sv_charts :: "chart_engine option"
  sv_sequence :: int

definition nextSequence :: "service \<Rightarrow> int \<times> service" where
  "nextSequence s = (let n = add64 (sv_sequence s) 1 in (n, s\<lparr>sv_sequence := n\<rparr>))"

definition make_envelope :: "string \<Rightarrow> body \<Rightarrow> service \<Rightarrow> envelope \<times> service" where
  "make_envelope topic b s =
     (case nextSequence s of (n, s') \<Rightarrow> (\<lparr>el_topic = topic, el_body = b, el_sequence = n\<rparr>, s'))"

section \<open>Feeds of the gameplay engine\<close>

definition MarketFeed :: "game \<Rightarrow> nat \<times> game" where
  "MarketFeed g = (case exchange_Subscribe (g_market g) of (i, x) \<Rightarrow> (i, g\<lparr>g_market := x\<rparr>))"

definition ChatFeed :: "game \<Rightarrow> nat \<times> game" where
  "ChatFeed g = (case chat_SubscribeLive (g_chat g) of (i, s) \<Rightarrow> (i, g\<lparr>g_chat := s\<rparr>))"

definition ChatHistory :: "game \<Rightarrow> chat_message list" where
  "ChatHistory g = chat_History (g_chat g)"

datatype subscribe_error = ChartsOff | ChartFailed chart_error

definition SubscribeChart ::
  "string \<Rightarrow> string \<Rightarrow> int \<Rightarrow> int \<Rightarrow> service \<Rightarrow> (subscribe_error + nat) \<times> service" where
  "SubscribeChart pid ticker limit depth s =
     (case sv_charts s of
        None \<Rightarrow> (Inl ChartsOff, s)
      | Some e \<Rightarrow>
          (case chart_Subscribe \<lparr>cr_player_id = pid, cr_ticker = ticker, cr_history_limit = limit, cr_depth = depth\<rparr> e of
             (Inl err, e') \<Rightarrow> (Inl (ChartFailed err), s\<lparr>sv_charts := Some e'\<rparr>)
           | (Inr i, e') \<Rightarrow> (Inr i, s\<lparr>sv_charts := Some e'\<rparr>)))"

text \<open>Receiving from a private feed.\<close>

definition private_receive :: "string \<Rightarrow> nat \<Rightarrow> game \<Rightarrow> private_payload option \<times> game" where
  "private_receive pid i g =
     (case map_of (private_queues pid g) i of
        Some (m # q) \<Rightarrow>
          (Some m, g\<lparr>g_private_subs := (g_private_subs g)(pid \<mapsto> map (\<lambda>(j, r). (j, if j = i then q else r)) (private_queues pid g))\<rparr>)
      | _ \<Rightarrow> (None, g))"

section \<open>Unary calls\<close>

record action_response =
  ar_request_id :: string
  ar_action_id :: string
  ar_status :: string
  ar_response :: "game_error + reply"

text \<open>\<open>None\<close> is a call that never returns.\<close>

definition rpc_ExecuteAction :: "call \<Rightarrow> time \<Rightarrow> action_request \<Rightarrow> service \<Rightarrow> (action_response \<times> service) option" where
  "rpc_ExecuteAction c now rq s =
     (let rid = (if rq_request_id rq = [] then ''req-'' @ show_int now else rq_request_id rq) in
      case ExecuteAction c (rq\<lparr>rq_request_id := rid\<rparr>) (sv_game s) of
        None \<Rightarrow> None
      | Some (r, g) \<Rightarrow>
          Some (\<lparr>ar_request_id = rid, ar_action_id = rq_action_id rq, ar_status = (if isl r then ''error'' else ''ok''),
                 ar_response = r\<rparr>, s\<lparr>sv_game := g\<rparr>))"

definition rpc_EnsurePlayer :: "call \<Rightarrow> string \<Rightarrow> service \<Rightarrow> (game_error + ensured_player) \<times> service" where
  "rpc_EnsurePlayer c username s = (case EnsurePlayer c username (sv_game s) of (r, g) \<Rightarrow> (r, s\<lparr>sv_game := g\<rparr>))"

definition rpc_SendChat :: "call \<Rightarrow> string \<Rightarrow> string option \<Rightarrow> service \<Rightarrow> (game_error + envelope) \<times> service" where
  "rpc_SendChat c pid body s =
     (case body of
        None \<Rightarrow> (Inl BadPayload, s)
      | Some b \<Rightarrow>
          (case SendChat c pid b [] (sv_game s) of
             (Inl e, g) \<Rightarrow> (Inl e, s\<lparr>sv_game := g\<rparr>)
           | (Inr m, g) \<Rightarrow> (case make_envelope ''chat'' (ChatBody m) (s\<lparr>sv_game := g\<rparr>) of (e, s') \<Rightarrow> (Inr e, s'))))"

section \<open>The filter of market payloads\<close>

text \<open>The keys \<^verbatim>\<open>symbol\<close> and \<^verbatim>\<open>affected_symbols\<close> at the top of a payload; only trades and events have them.\<close>

definition payload_symbol :: "market_msg \<Rightarrow> string option" where
  "payload_symbol m = (case m of MarketTrade t \<Rightarrow> Some (t_symbol t) | MarketEvent e \<Rightarrow> Some (ev_symbol e) | _ \<Rightarrow> None)"

definition payload_affected :: "market_msg \<Rightarrow> string list option" where
  "payload_affected m = (case m of MarketEvent e \<Rightarrow> Some (ev_affected e) | _ \<Rightarrow> None)"

definition matchesSymbols :: "market_msg \<Rightarrow> string list \<Rightarrow> bool" where
  "matchesSymbols m symbols =
     (if symbols = [] then True
      else (case payload_symbol m of
              Some sy \<Rightarrow>
                (if sy \<noteq> [] then sy \<in> set symbols
                 else (case payload_affected m of None \<Rightarrow> True | Some l \<Rightarrow> list_ex (\<lambda>x. x \<in> set symbols) l))
            | None \<Rightarrow> (case payload_affected m of None \<Rightarrow> True | Some l \<Rightarrow> list_ex (\<lambda>x. x \<in> set symbols) l)))"

section \<open>The market stream\<close>

record market_stream_request =
  mr_player_id :: string
  mr_symbols :: "string list"
  mr_include_portfolio :: bool
  mr_include_chat :: bool

datatype stream_result = Finished | Failed

record market_stream =
  ms_player_id :: string
  ms_private :: "(string \<times> nat) option"
  ms_symbols :: "string list"
  ms_portfolio :: bool
  ms_chat :: bool
  ms_market_feed :: nat
  ms_chat_feed :: nat
  ms_sent :: "envelope list"
  ms_result :: "stream_result option"

definition open_market_stream :: "service \<Rightarrow> market_stream \<times> service" where
  "open_market_stream s =
     (case MarketFeed (sv_game s) of
        (i, g1) \<Rightarrow>
          (case ChatFeed g1 of
             (j, g2) \<Rightarrow>
               (\<lparr>ms_player_id = [], ms_private = None, ms_symbols = [], ms_portfolio = False, ms_chat = False,
                 ms_market_feed = i, ms_chat_feed = j, ms_sent = [], ms_result = None\<rparr>, s\<lparr>sv_game := g2\<rparr>)))"

text \<open>One send: the envelope is made, which uses up a sequence number, and a failure ends the stream.\<close>

definition stream_send :: "(envelope \<Rightarrow> bool) \<Rightarrow> string \<Rightarrow> body \<Rightarrow> market_stream \<times> service \<Rightarrow> market_stream \<times> service" where
  "stream_send ok topic b ms =
     (case ms of (m, s) \<Rightarrow>
       (if ms_result m \<noteq> None then (m, s)
        else (case make_envelope topic b s of
                (e, s') \<Rightarrow>
                  (if ok e then (m\<lparr>ms_sent := ms_sent m @ [e]\<rparr>, s') else (m\<lparr>ms_result := Some Failed\<rparr>, s')))))"

text \<open>The snapshots are read one by one, between the sends; an unknown ticker is skipped.\<close>

fun send_snapshots ::
  "(envelope \<Rightarrow> bool) \<Rightarrow> call \<Rightarrow> string list \<Rightarrow> market_stream \<times> service \<Rightarrow> market_stream \<times> service" where
  "send_snapshots ok c [] ms = ms"
| "send_snapshots ok c (sy # sys) (m, s) =
     (if ms_result m \<noteq> None then (m, s)
      else (case MarketSnapshotJSON c sy 10 (sv_game s) of
              (Inl _, g) \<Rightarrow> send_snapshots ok c sys (m, s\<lparr>sv_game := g\<rparr>)
            | (Inr p, g) \<Rightarrow> send_snapshots ok c sys (stream_send ok ''market'' (MarketBody p) (m, s\<lparr>sv_game := g\<rparr>))))"

definition sendInitialMarketState ::
  "(envelope \<Rightarrow> bool) \<Rightarrow> call \<Rightarrow> string list \<Rightarrow> market_stream \<times> service \<Rightarrow> market_stream \<times> service" where
  "sendInitialMarketState ok c symbols ms =
     (case send_snapshots ok c symbols ms of
        (m, s) \<Rightarrow>
          (if ms_result m \<noteq> None \<or> \<not> ms_portfolio m \<or> ms_player_id m = [] then (m, s)
           else (case PortfolioJSON c (ms_player_id m) (sv_game s) of
                   Inr (PortfolioReply p) \<Rightarrow> stream_send ok ''portfolio'' (PortfolioBody p) (m, s)
                 | _ \<Rightarrow> (m, s))))"

definition sendInitialChatState :: "(envelope \<Rightarrow> bool) \<Rightarrow> market_stream \<times> service \<Rightarrow> market_stream \<times> service" where
  "sendInitialChatState ok ms =
     (case ms of (m, s) \<Rightarrow>
       (let ms1 = foldl (\<lambda>a p. stream_send ok ''chat'' (ChatBody p) a) ms (ChatHistory (sv_game s)) in
        if ms_player_id m = [] \<or> ms_result (fst ms1) \<noteq> None then ms1
        else foldl (\<lambda>a p. stream_send ok ''private'' (PrivateBody p) a) ms1
               (privateHistorySnapshot (ms_player_id m) (sv_game (snd ms1)))))"

datatype stream_event =
    ContextEnds | ReceiveEnds bool | RequestArrives market_stream_request | MarketReady | ChatReady | PrivateReady | TimerFires

definition attach_private :: "market_stream_request \<Rightarrow> market_stream \<times> service \<Rightarrow> market_stream \<times> service" where
  "attach_private r ms =
     (case ms of (m, s) \<Rightarrow>
       (if mr_player_id r \<noteq> [] \<and> ms_private m = None
        then (case SubscribePrivate (mr_player_id r) (sv_game s) of
                (i, g) \<Rightarrow> (m\<lparr>ms_private := Some (mr_player_id r, i)\<rparr>, s\<lparr>sv_game := g\<rparr>))
        else (m, s)))"

text \<open>\<open>rg\<close> is the order in which the map of symbols is ranged over.\<close>

definition handle_request ::
  "(envelope \<Rightarrow> bool) \<Rightarrow> call \<Rightarrow> (string list \<Rightarrow> string list) \<Rightarrow> market_stream_request \<Rightarrow> market_stream \<times> service \<Rightarrow> market_stream \<times> service" where
  "handle_request ok c rg r ms =
     (case ms of (m, s) \<Rightarrow>
       (let m1 = m\<lparr>ms_player_id := mr_player_id r, ms_portfolio := mr_include_portfolio r, ms_chat := mr_include_chat r\<rparr>;
            ms2 = (if mr_include_chat r then sendInitialChatState ok (m1, s) else (m1, s))
        in if ms_result (fst ms2) \<noteq> None then ms2
           else (case attach_private r ms2 of
                   (m3, s3) \<Rightarrow>
                     (let symbols = remdups (mr_symbols r)
                      in sendInitialMarketState ok c (rg symbols) (m3\<lparr>ms_symbols := symbols\<rparr>, s3)))))"

fun stream_step ::
  "(envelope \<Rightarrow> bool) \<Rightarrow> call \<Rightarrow> (string list \<Rightarrow> string list) \<Rightarrow> stream_event \<Rightarrow> market_stream \<times> service \<Rightarrow> market_stream \<times> service" where
  "stream_step ok c rg ContextEnds (m, s) = (m\<lparr>ms_result := Some Failed\<rparr>, s)"
| "stream_step ok c rg (ReceiveEnds clean) (m, s) = (m\<lparr>ms_result := Some (if clean then Finished else Failed)\<rparr>, s)"
| "stream_step ok c rg (RequestArrives r) ms = handle_request ok c rg r ms"
| "stream_step ok c rg MarketReady (m, s) =
     (let g = sv_game s in
      case hub_receive (ms_market_feed m) (ex_hub (g_market g)) of
        (None, _) \<Rightarrow> (m, s)
      | (Some p, h) \<Rightarrow>
          (let s' = s\<lparr>sv_game := g\<lparr>g_market := (g_market g)\<lparr>ex_hub := h\<rparr>\<rparr>\<rparr> in
           if matchesSymbols p (ms_symbols m) then stream_send ok ''market'' (MarketBody p) (m, s') else (m, s')))"
| "stream_step ok c rg ChatReady (m, s) =
     (let g = sv_game s in
      case hub_receive (ms_chat_feed m) (ch_hub (g_chat g)) of
        (None, _) \<Rightarrow> (m, s)
      | (Some p, h) \<Rightarrow>
          (let s' = s\<lparr>sv_game := g\<lparr>g_chat := (g_chat g)\<lparr>ch_hub := h\<rparr>\<rparr>\<rparr> in
           if ms_chat m then stream_send ok ''chat'' (ChatBody p) (m, s') else (m, s')))"
| "stream_step ok c rg PrivateReady (m, s) =
     (case ms_private m of
        None \<Rightarrow> (m, s)
      | Some (pid, i) \<Rightarrow>
          (case private_receive pid i (sv_game s) of
             (None, _) \<Rightarrow> (m, s)
           | (Some p, g) \<Rightarrow> stream_send ok ''private'' (PrivateBody p) (m, s\<lparr>sv_game := g\<rparr>)))"
| "stream_step ok c rg TimerFires (m, s) = sendInitialMarketState ok c (rg (ms_symbols m)) (m, s)"

section \<open>The chart stream\<close>

record chart_message =
  cg_ticker :: string
  cg_tick :: chart_tick
  cg_sequence :: int

record chart_stream =
  cs_sources :: "nat list"
  cs_out :: "chart_tick list"
  cs_sent :: "chart_message list"
  cs_result :: "stream_result option"

datatype chart_event =
    ChartContextEnds | ChartReceiveEnds bool | ChartRequestArrives string string int int | ForwardReady nat | OutReady

text \<open>A forwarder takes a tick from its channel when the channel \<^verbatim>\<open>out\<close>, of 64 places, has room.\<close>

definition forward :: "nat \<Rightarrow> chart_stream \<times> service \<Rightarrow> chart_stream \<times> service" where
  "forward i ms =
     (case ms of (m, s) \<Rightarrow>
       (case sv_charts s of
          None \<Rightarrow> (m, s)
        | Some e \<Rightarrow>
            (case ce_channels e i of
               Some (t # q, shut) \<Rightarrow>
                 (if i \<in> set (cs_sources m) \<and> length (cs_out m) < 64
                  then (m\<lparr>cs_out := cs_out m @ [t]\<rparr>, s\<lparr>sv_charts := Some (e\<lparr>ce_channels := (ce_channels e)(i \<mapsto> (q, shut))\<rparr>)\<rparr>)
                  else (m, s))
             | _ \<Rightarrow> (m, s))))"

fun chart_step :: "(chart_message \<Rightarrow> bool) \<Rightarrow> chart_event \<Rightarrow> chart_stream \<times> service \<Rightarrow> chart_stream \<times> service" where
  "chart_step ok ChartContextEnds (m, s) = (m\<lparr>cs_result := Some Failed\<rparr>, s)"
| "chart_step ok (ChartReceiveEnds clean) (m, s) = (m\<lparr>cs_result := Some (if clean then Finished else Failed)\<rparr>, s)"
| "chart_step ok (ChartRequestArrives pid ticker limit depth) (m, s) =
     (case SubscribeChart pid ticker limit depth s of
        (Inl _, s') \<Rightarrow> (m\<lparr>cs_result := Some Failed\<rparr>, s')
      | (Inr i, s') \<Rightarrow> (m\<lparr>cs_sources := cs_sources m @ [i]\<rparr>, s'))"
| "chart_step ok (ForwardReady i) ms = forward i ms"
| "chart_step ok OutReady (m, s) =
     (case cs_out m of
        [] \<Rightarrow> (m, s)
      | t # q \<Rightarrow>
          (case nextSequence s of
             (n, s') \<Rightarrow>
               (let e = \<lparr>cg_ticker = ct_ticker t, cg_tick = t, cg_sequence = n\<rparr>; m' = m\<lparr>cs_out := q\<rparr>
                in if ok e then (m'\<lparr>cs_sent := cs_sent m' @ [e]\<rparr>, s') else (m'\<lparr>cs_result := Some Failed\<rparr>, s'))))"

section \<open>The chat stream\<close>

record chat_stream =
  ts_feed :: nat
  ts_sent :: "envelope list"
  ts_result :: "stream_result option"

datatype chat_stream_event = ChatContextEnds | ChatFeedReady

definition open_chat_stream :: "service \<Rightarrow> chat_stream \<times> service" where
  "open_chat_stream s =
     (case ChatFeed (sv_game s) of
        (i, g) \<Rightarrow> (\<lparr>ts_feed = i, ts_sent = [], ts_result = None\<rparr>, s\<lparr>sv_game := g\<rparr>))"

fun StreamChat_step :: "(envelope \<Rightarrow> bool) \<Rightarrow> chat_stream_event \<Rightarrow> chat_stream \<times> service \<Rightarrow> chat_stream \<times> service" where
  "StreamChat_step ok ChatContextEnds (m, s) = (m\<lparr>ts_result := Some Failed\<rparr>, s)"
| "StreamChat_step ok ChatFeedReady (m, s) =
     (let g = sv_game s in
      case hub_receive (ts_feed m) (ch_hub (g_chat g)) of
        (None, _) \<Rightarrow> (m, s)
      | (Some p, h) \<Rightarrow>
          (case make_envelope ''chat'' (ChatBody p) (s\<lparr>sv_game := g\<lparr>g_chat := (g_chat g)\<lparr>ch_hub := h\<rparr>\<rparr>\<rparr>) of
             (e, s') \<Rightarrow>
               (if ok e then (m\<lparr>ts_sent := ts_sent m @ [e]\<rparr>, s') else (m\<lparr>ts_result := Some Failed\<rparr>, s'))))"

end
