(* ===== verification/StreamProps.thy ===== *)
theory StreamProps
  imports Streams GameProps
begin

text \<open>
  Facts about the gRPC streams: the numbers of the envelopes over any interleaving of streams, what a
  request is answered with, what a stream forwards from the market feed, and whose private feed it reads.
\<close>

section \<open>Sequence numbers of one stream\<close>

text \<open>Between two states of a stream: what it sent, numbered from the counter on; a failed send uses up a number.\<close>

definition numbered :: "int \<Rightarrow> nat \<Rightarrow> int list" where
  "numbered c n = map (\<lambda>i. i64 (c + int (Suc i))) [0..<n]"

definition issues :: "int list \<times> bool \<times> int \<Rightarrow> int list \<times> bool \<times> int \<Rightarrow> bool" where
  "issues x y =
     (case (x, y) of ((ns, stop, c), (ns', stop', c')) \<Rightarrow>
        (if stop then stop' \<and> ns' = ns \<and> c' = c
         else (in64 c \<longrightarrow> in64 c') \<and> (\<exists>n k. ns' = ns @ numbered c n \<and> i64 c' = i64 (c + int (n + k)) \<and> k \<le> (if stop' then 1 else 0))))"

lemma length_numbered [simp]: "length (numbered c n) = n"
  by (simp add: numbered_def)

lemma i64_shift: "i64 a = i64 b \<Longrightarrow> i64 (a + x) = i64 (b + x)"
  using add64_i64 [of a x] add64_i64 [of b x] by metis

lemma numbered_append:
  assumes "i64 c' = i64 (c + int n)"
  shows "numbered c n @ numbered c' k = numbered c (n + k)"
proof (rule nth_equalityI)
  fix i
  assume i: "i < length (numbered c n @ numbered c' k)"
  show "(numbered c n @ numbered c' k) ! i = numbered c (n + k) ! i"
  proof (cases "i < n")
    case True
    then show ?thesis using i by (simp add: numbered_def nth_append)
  next
    case False
    then have j: "i - n < k" "c + int n + int (Suc (i - n)) = c + int (Suc i)" using i by auto
    have "i64 (c' + int (Suc (i - n))) = i64 (c + int (Suc i))" using i64_shift [OF assms, of "int (Suc (i - n))"] j(2) by simp
    then show ?thesis using False i j(1) by (simp add: numbered_def nth_append del: of_nat_Suc)
  qed
qed simp

lemma issuesI:
  "ns' = ns @ numbered c n \<Longrightarrow> i64 c' = i64 (c + int (n + k)) \<Longrightarrow> k \<le> (if stop then 1 else 0) \<Longrightarrow> (in64 c \<Longrightarrow> in64 c') \<Longrightarrow>
    issues (ns, False, c) (ns', stop, c')"
  unfolding issues_def by (simp only: prod.case if_False) blast

lemma issues_refl: "issues x x"
  by (cases x) (auto simp: issues_def numbered_def intro!: exI [of _ 0])

lemma issues_trans:
  assumes "issues x y" and "issues y z"
  shows "issues x z"
proof -
  obtain a p c b q d e r f where xyz: "x = (a, p, c)" "y = (b, q, d)" "z = (e, r, f)" by (metis prod_cases3)
  show ?thesis
  proof (cases "p \<or> q")
    case True
    then show ?thesis using assms by (auto simp: issues_def xyz)
  next
    case False
    obtain n where n: "b = a @ numbered c n" "i64 d = i64 (c + int n)" "in64 c \<Longrightarrow> in64 d"
      using assms(1) False by (auto simp: issues_def xyz)
    obtain m k where m: "e = b @ numbered d m" "i64 f = i64 (d + int (m + k))" "k \<le> (if r then 1 else 0)" "in64 d \<Longrightarrow> in64 f"
      using assms(2) False by (auto simp: issues_def xyz)
    have "i64 f = i64 (c + int (n + m + k))"
      using i64_shift [OF n(2), of "int (m + k)"] m(2) by (simp add: algebra_simps)
    moreover have "e = a @ numbered c (n + m)" using n(1) m(1) numbered_append [OF n(2), of m] by simp
    ultimately show ?thesis using False m(3,4) n(3) issuesI [of e a c "n + m" f k r] by (simp add: xyz)
  qed
qed

lemma issues_no_send: "issues (ns, False, c) (ns, stop, c)"
  by (rule issuesI [of _ _ _ 0 _ 0]) (simp_all add: numbered_def)

lemma issues_one: "issues (ns, False, c) (ns @ [i64 (c + 1)], False, i64 (c + 1))"
  by (rule issuesI [of _ _ _ 1 _ 0]) (simp_all add: numbered_def)

lemma issues_lost: "issues (ns, False, c) (ns, True, i64 (c + 1))"
  by (rule issuesI [of _ _ _ 0 _ 1]) (simp_all add: numbered_def)

section \<open>What the streams of the service number\<close>

definition market_view :: "market_stream \<times> service \<Rightarrow> int list \<times> bool \<times> int" where
  "market_view ms = (map el_sequence (ms_sent (fst ms)), ms_result (fst ms) \<noteq> None, sv_sequence (snd ms))"

definition chart_view :: "chart_stream \<times> service \<Rightarrow> int list \<times> bool \<times> int" where
  "chart_view ms = (map cg_sequence (cs_sent (fst ms)), cs_result (fst ms) \<noteq> None, sv_sequence (snd ms))"

definition chat_view :: "chat_stream \<times> service \<Rightarrow> int list \<times> bool \<times> int" where
  "chat_view ms = (map el_sequence (ts_sent (fst ms)), ts_result (fst ms) \<noteq> None, sv_sequence (snd ms))"

lemmas view_defs = market_view_def chart_view_def chat_view_def

lemma market_view_frame [simp]:
  "market_view (m, s\<lparr>sv_game := g\<rparr>) = market_view (m, s)"
  "market_view (m\<lparr>ms_private := p\<rparr>, s) = market_view (m, s)"
  "market_view (m\<lparr>ms_symbols := y\<rparr>, s) = market_view (m, s)"
  "market_view (m\<lparr>ms_player_id := u, ms_portfolio := b, ms_chat := d\<rparr>, s) = market_view (m, s)"
  by (simp_all add: market_view_def)

lemma stream_send_issues: "issues (market_view ms) (market_view (stream_send ok topic b ms))"
  by (cases ms)
    (auto simp: stream_send_def make_envelope_def nextSequence_def Let_def market_view_def add64_def issues_refl
        issues_one issues_lost)

lemma sends_issue: "issues (market_view ms) (market_view (foldl (\<lambda>a p. stream_send ok topic (f p) a) ms ps))"
proof (induction ps arbitrary: ms)
  case (Cons p ps)
  show ?case using issues_trans [OF stream_send_issues [of ms ok topic "f p"] Cons.IH [of "stream_send ok topic (f p) ms"]] by simp
qed (simp add: issues_refl)

lemma snapshots_issue: "issues (market_view ms) (market_view (send_snapshots ok c sys ms))"
proof (induction ok c sys ms rule: send_snapshots.induct)
  case (2 ok c sy sys m s)
  show ?case
  proof (cases "ms_result m \<noteq> None")
    case True
    then show ?thesis by (simp add: issues_refl)
  next
    case run: False
    obtain r g where sn: "MarketSnapshotJSON c sy 10 (sv_game s) = (r, g)" by fastforce
    show ?thesis
    proof (cases r)
      case (Inl e)
      then show ?thesis using 2(1) [OF run sn [symmetric] Inl] run sn by simp
    next
      case (Inr p)
      then show ?thesis
        using issues_trans [OF stream_send_issues 2(2) [OF run sn [symmetric] Inr]] run sn by simp
    qed
  qed
qed (simp add: issues_refl)

lemma initial_market_issues: "issues (market_view ms) (market_view (sendInitialMarketState ok c sys ms))"
proof -
  obtain m s where sn: "send_snapshots ok c sys ms = (m, s)" by fastforce
  have "issues (market_view (m, s)) (market_view (sendInitialMarketState ok c sys ms))"
    by (auto simp: sendInitialMarketState_def sn issues_refl stream_send_issues split: sum.split reply.split)
  with snapshots_issue [of ms ok c sys] show ?thesis by (auto simp: sn intro: issues_trans)
qed

lemma initial_chat_issues: "issues (market_view ms) (market_view (sendInitialChatState ok ms))"
  using issues_trans [OF sends_issue sends_issue]
  by (auto simp: sendInitialChatState_def Let_def sends_issue split: prod.split)

lemma handle_request_issues: "issues (market_view ms) (market_view (handle_request ok c rg r ms))"
proof (cases ms)
  case (Pair m s)
  let ?m1 = "m\<lparr>ms_player_id := mr_player_id r, ms_portfolio := mr_include_portfolio r, ms_chat := mr_include_chat r\<rparr>"
  let ?ms2 = "if mr_include_chat r then sendInitialChatState ok (?m1, s) else (?m1, s)"
  obtain m2 s2 where ms2: "?ms2 = (m2, s2)" by fastforce
  have "issues (market_view (?m1, s)) (market_view ?ms2)"
    by (cases "mr_include_chat r") (simp_all only: if_True if_False issues_refl initial_chat_issues)
  then have one: "issues (market_view ms) (market_view (m2, s2))" by (simp add: Pair ms2)
  obtain m3 s3 where ms3: "attach_private r (m2, s2) = (m3, s3)" by fastforce
  have "market_view (m3, s3) = market_view (m2, s2)"
    using ms3 by (auto simp: attach_private_def market_view_def split: if_splits prod.splits)
  then have "issues (market_view (m2, s2)) (market_view (handle_request ok c rg r ms))"
    using initial_market_issues [of "(m3\<lparr>ms_symbols := y\<rparr>, s3)" ok c "rg y" for y] issues_refl
    by (simp add: handle_request_def Pair ms2 ms3 Let_def)
  then show ?thesis by (rule issues_trans [OF one])
qed

lemma stream_step_issues: "issues (market_view (m, s)) (market_view (stream_step ok c rg e (m, s)))"
proof -
  have skip: "issues (market_view (m, s)) (market_view (m', s'))" if "market_view (m', s') = market_view (m, s)" for m' s'
    using that issues_refl by simp
  have stop: "issues (market_view (m, s)) (market_view (m\<lparr>ms_result := Some x\<rparr>, s))" for x
    by (cases "ms_result m") (simp_all add: market_view_def issues_no_send issues_refl)
  show ?thesis
    using stream_send_issues handle_request_issues initial_market_issues
    by (cases e) (auto simp: Let_def stop skip issues_refl stream_send_issues [of "(m, s\<lparr>sv_game := g\<rparr>)" for g, simplified]
        split: option.split prod.split)
qed

lemma chart_step_issues:
  assumes "cs_result m = None"
  shows "issues (chart_view (m, s)) (chart_view (chart_step ok e (m, s)))"
proof (cases e)
  case (ChartRequestArrives p t l d)
  have "sv_sequence (snd (SubscribeChart p t l d s)) = sv_sequence s"
    by (auto simp: SubscribeChart_def split: option.split sum.split prod.split)
  then show ?thesis using assms ChartRequestArrives
    by (auto simp: chart_view_def issues_no_send issues_refl split: sum.split prod.split)
next
  case (ForwardReady i)
  then show ?thesis
    by (auto simp: forward_def chart_view_def issues_refl split: option.split list.split)
qed (use assms in \<open>auto simp: chart_view_def issues_no_send issues_refl issues_one issues_lost nextSequence_def Let_def add64_def
    split: list.split\<close>)

lemma chat_step_issues:
  assumes "ts_result m = None"
  shows "issues (chat_view (m, s)) (chat_view (StreamChat_step ok e (m, s)))"
  using assms
  by (cases e) (auto simp: chat_view_def issues_no_send issues_refl issues_one issues_lost nextSequence_def make_envelope_def
      Let_def add64_def split: option.split prod.split)

section \<open>All streams together\<close>

record rpc_system =
  rs_service :: service
  rs_market :: "market_stream list"
  rs_chart :: "chart_stream list"
  rs_chat :: "chat_stream list"
  rs_replies :: "envelope list"

text \<open>
  A stream takes a step only while it runs. \<open>Background\<close> stands for everything that leaves the counter
  alone: the other calls, the timers of the market events and of the intel engine, the chart loop.
\<close>

datatype rpc_event =
    OpenMarket | OpenChart | OpenChat
  | MarketStep nat stream_event | ChartStep nat chart_event | ChatStep nat chat_stream_event
  | CallSendChat string "string option"
  | Background "game \<Rightarrow> game" "chart_engine option \<Rightarrow> chart_engine option"

definition with_service :: "service \<Rightarrow> rpc_system \<Rightarrow> rpc_system" where
  "with_service s y = y\<lparr>rs_service := s\<rparr>"

fun rpc_step ::
  "(envelope \<Rightarrow> bool) \<Rightarrow> (chart_message \<Rightarrow> bool) \<Rightarrow> call \<Rightarrow> (string list \<Rightarrow> string list) \<Rightarrow> rpc_event \<Rightarrow> rpc_system \<Rightarrow> rpc_system" where
  "rpc_step ok okc c rg OpenMarket y =
     (case open_market_stream (rs_service y) of (m, s) \<Rightarrow> y\<lparr>rs_service := s, rs_market := rs_market y @ [m]\<rparr>)"
| "rpc_step ok okc c rg OpenChart y =
     y\<lparr>rs_chart := rs_chart y @ [\<lparr>cs_sources = [], cs_out = [], cs_sent = [], cs_result = None\<rparr>]\<rparr>"
| "rpc_step ok okc c rg OpenChat y =
     (case open_chat_stream (rs_service y) of (m, s) \<Rightarrow> y\<lparr>rs_service := s, rs_chat := rs_chat y @ [m]\<rparr>)"
| "rpc_step ok okc c rg (MarketStep i e) y =
     (if i < length (rs_market y) \<and> ms_result (rs_market y ! i) = None
      then (case stream_step ok c rg e (rs_market y ! i, rs_service y) of
              (m, s) \<Rightarrow> y\<lparr>rs_service := s, rs_market := (rs_market y)[i := m]\<rparr>)
      else y)"
| "rpc_step ok okc c rg (ChartStep i e) y =
     (if i < length (rs_chart y) \<and> cs_result (rs_chart y ! i) = None
      then (case chart_step okc e (rs_chart y ! i, rs_service y) of
              (m, s) \<Rightarrow> y\<lparr>rs_service := s, rs_chart := (rs_chart y)[i := m]\<rparr>)
      else y)"
| "rpc_step ok okc c rg (ChatStep i e) y =
     (if i < length (rs_chat y) \<and> ts_result (rs_chat y ! i) = None
      then (case StreamChat_step ok e (rs_chat y ! i, rs_service y) of
              (m, s) \<Rightarrow> y\<lparr>rs_service := s, rs_chat := (rs_chat y)[i := m]\<rparr>)
      else y)"
| "rpc_step ok okc c rg (CallSendChat pid body) y =
     (case rpc_SendChat c pid body (rs_service y) of
        (Inl _, s) \<Rightarrow> y\<lparr>rs_service := s\<rparr>
      | (Inr e, s) \<Rightarrow> y\<lparr>rs_service := s, rs_replies := rs_replies y @ [e]\<rparr>)"
| "rpc_step ok okc c rg (Background f h) y =
     y\<lparr>rs_service := (rs_service y)\<lparr>sv_game := f (sv_game (rs_service y)), sv_charts := h (sv_charts (rs_service y))\<rparr>\<rparr>"

definition rpc_start :: "game \<Rightarrow> chart_engine option \<Rightarrow> rpc_system" where
  "rpc_start g ce = \<lparr>rs_service = \<lparr>sv_game = g, sv_charts = ce, sv_sequence = 0\<rparr>, rs_market = [], rs_chart = [], rs_chat = [], rs_replies = []\<rparr>"

text \<open>The numbers each party has received, one list per stream and one for the callers of \<^verbatim>\<open>SendChat\<close>.\<close>

abbreviation market_got :: "market_stream \<Rightarrow> int list \<times> bool" where
  "market_got m \<equiv> (map el_sequence (ms_sent m), ms_result m \<noteq> None)"

abbreviation chart_got :: "chart_stream \<Rightarrow> int list \<times> bool" where
  "chart_got m \<equiv> (map cg_sequence (cs_sent m), cs_result m \<noteq> None)"

abbreviation chat_got :: "chat_stream \<Rightarrow> int list \<times> bool" where
  "chat_got m \<equiv> (map el_sequence (ts_sent m), ts_result m \<noteq> None)"

definition received :: "rpc_system \<Rightarrow> (int list \<times> bool) list" where
  "received y = map market_got (rs_market y) @ map chart_got (rs_chart y) @ map chat_got (rs_chat y)
     @ [(map el_sequence (rs_replies y), False)]"

text \<open>Numbers handed out: each entry is a party, its numbers and whether it has stopped.\<close>

definition used :: "(int list \<times> bool) list \<Rightarrow> int" where
  "used xs = (\<Sum>(ns, stop) \<leftarrow> xs. int (length ns) + (if stop then 1 else 0))"

definition numbers_ok :: "(int list \<times> bool) list \<Rightarrow> int \<Rightarrow> bool" where
  "numbers_ok xs c \<longleftrightarrow> 0 \<le> c \<and> c \<le> used xs \<and> distinct (concat (map fst xs)) \<and>
     (\<forall>n \<in> set (concat (map fst xs)). 0 < n \<and> n \<le> c) \<and> (\<forall>x \<in> set xs. sorted_wrt (<) (fst x))"

lemma used_simps [simp]: "used (as @ bs) = used as + used bs" "used ((ns, b) # bs) = int (length ns) + (if b then 1 else 0) + used bs"
  "used [] = 0"
  by (simp_all add: used_def)

lemma used_nonneg: "0 \<le> used xs"
  by (auto simp: used_def intro!: sum_list_nonneg)

lemma numbers_ok_new: "numbers_ok (as @ bs) c \<Longrightarrow> numbers_ok (as @ ([], False) # bs) c"
  by (auto simp: numbers_ok_def)

lemma numbers_ok_issue:
  assumes ok: "numbers_ok (as @ (ns, False) # bs) c" and iss: "issues (ns, False, c) (ns', stop, c')"
    and c: "in64 c" and small: "used (as @ (ns', stop) # bs) < 2 ^ 63"
  shows "numbers_ok (as @ (ns', stop) # bs) c' \<and> in64 c'"
proof -
  obtain n k where nk: "ns' = ns @ numbered c n" "i64 c' = i64 (c + int (n + k))" "k \<le> (if stop then 1 else 0)" "in64 c'"
    using iss c by (auto simp: issues_def)
  have c0: "0 \<le> c" "c \<le> used as + int (length ns) + used bs" using ok by (simp_all add: numbers_ok_def)
  then have top: "c + int n + int k \<le> used (as @ (ns', stop) # bs)" using nk(1,3) by (cases stop) simp_all
  then have "in64 (c + int (n + k))" using c0(1) small by (simp add: in64_def)
  then have c': "c' = c + int n + int k" using nk(2,4) by simp
  have "i64 (c + int (Suc i)) = c + int (Suc i)" if "i < n" for i
    by (rule i64_id) (use that c0(1) top small in \<open>simp add: in64_def\<close>)
  then have new: "numbered c n = map (\<lambda>i. c + int (Suc i)) [0..<n]" by (simp add: numbered_def del: of_nat_Suc)
  have fresh: "\<forall>x \<in> set (numbered c n). c < x \<and> x \<le> c'" "distinct (numbered c n)" "sorted_wrt (<) (numbered c n)"
    unfolding new c' by (auto simp: distinct_map inj_on_def sorted_wrt_map intro: sorted_wrt_mono_rel [OF _ sorted_wrt_upt])
  define A B N where "A = concat (map fst as)" and "B = concat (map fst bs)" and "N = numbered c n"
  note defs = A_def [symmetric] B_def [symmetric] N_def [symmetric]
  have old: "\<forall>x \<in> set A \<union> set ns \<union> set B. 0 < x \<and> x \<le> c" "distinct (A @ ns @ B)"
    "\<forall>x \<in> set (as @ (ns, False) # bs). sorted_wrt (<) (fst x)"
    using ok unfolding numbers_ok_def by (simp_all add: defs ball_Un)
  note fresh = fresh [folded N_def]
  have apart: "set A \<inter> set N = {}" "set ns \<inter> set N = {}" "set B \<inter> set N = {}"
    using old(1) fresh(1) by (meson UnCI disjoint_iff not_le)+
  have "distinct (A @ (ns @ N) @ B)" using old(2) fresh(2) apart by auto
  moreover have "\<forall>x \<in> set ns. \<forall>y \<in> set N. x < y" using old(1) fresh(1) by (meson UnCI le_less_trans)
  then have "sorted_wrt (<) (ns @ N)" using old(3) fresh(3) by (simp add: sorted_wrt_append)
  then have "\<forall>x \<in> set (as @ (ns', stop) # bs). sorted_wrt (<) (fst x)" using old(3) by (auto simp: nk(1) defs)
  moreover have "0 < x \<and> x \<le> c'" if "x \<in> set A \<union> set ns \<union> set B \<union> set N" for x
  proof (cases "x \<in> set N")
    case True
    then show ?thesis using fresh(1) c0(1) by fastforce
  next
    case False
    then have "0 < x" "x \<le> c" using that old(1) by blast+
    then show ?thesis using c' by simp
  qed
  ultimately show ?thesis
    using c0(1) top nk(4) c' unfolding numbers_ok_def by (simp add: nk(1) defs ball_Un)
qed

text \<open>A step of the service: nothing, a new party, or numbers for one party.\<close>

inductive progress :: "(int list \<times> bool) list \<Rightarrow> int \<Rightarrow> (int list \<times> bool) list \<Rightarrow> int \<Rightarrow> bool" where
  progress_refl: "progress xs c xs c"
| progress_party: "progress (as @ bs) c (as @ ([], False) # bs) c"
| progress_issue: "issues (ns, False, c) (ns', stop, c') \<Longrightarrow> progress (as @ (ns, False) # bs) c (as @ (ns', stop) # bs) c'"

lemma progress_numbers:
  assumes "progress xs c xs' c'" and "numbers_ok xs c \<and> in64 c" and "used xs' < 2 ^ 63"
  shows "numbers_ok xs' c' \<and> in64 c'"
  using assms
proof cases
  case (progress_issue ns ns' stop as bs)
  then show ?thesis using numbers_ok_issue [of as ns bs c ns' stop c'] assms(2,3) by simp
qed (simp_all add: numbers_ok_new)

lemma progress_mono: "progress xs c xs' c' \<Longrightarrow> used xs \<le> used xs'"
  by (induction rule: progress.induct) (auto simp: issues_def)

lemma progress_in:
  assumes "progress xs c xs' c'"
  shows "progress (ls @ xs @ rs) c (ls @ xs' @ rs) c'"
  using assms
proof cases
  case (progress_party as bs)
  then show ?thesis using progress.progress_party [of "ls @ as" "bs @ rs" c] by simp
next
  case (progress_issue ns ns' stop as bs)
  then show ?thesis using progress.progress_issue [of ns c ns' stop c' "ls @ as" "bs @ rs"] by simp
qed (simp add: progress_refl)

lemma progress_new: "progress xs c (xs @ [([], False)]) c"
  using progress_party [of xs "[]" c] by simp

lemma progress_at:
  assumes "i < length ms" and "f (ms ! i) = (ns, False)" and "issues (ns, False, c) (ns', stop, c')" and "f m = (ns', stop)"
  shows "progress (map f ms) c (map f (ms[i := m])) c'"
proof -
  have "ms = take i ms @ ms ! i # drop (Suc i) ms" by (rule id_take_nth_drop [OF assms(1)])
  then have "map f ms = map f (take i ms) @ (ns, False) # map f (drop (Suc i) ms)"
    using assms(2) by (metis list.simps(9) map_append)
  moreover have "map f (ms[i := m]) = map f (take i ms) @ (ns', stop) # map f (drop (Suc i) ms)"
    using assms(1,4) by (simp add: upd_conv_take_nth_drop)
  ultimately show ?thesis using progress_issue [OF assms(3)] by simp
qed

lemmas progress_first = progress_in [of _ _ _ _ "[]", simplified]
lemmas progress_last = progress_in [of _ _ _ _ _ "[]", simplified]

lemma market_step_progress:
  "progress (received y) (sv_sequence (rs_service y)) (received (rpc_step ok okc c rg (MarketStep i ev) y))
     (sv_sequence (rs_service (rpc_step ok okc c rg (MarketStep i ev) y)))"
proof (cases "i < length (rs_market y) \<and> ms_result (rs_market y ! i) = None")
  case True
  obtain m s where ms: "stream_step ok c rg ev (rs_market y ! i, rs_service y) = (m, s)" by fastforce
  have "issues (map el_sequence (ms_sent (rs_market y ! i)), False, sv_sequence (rs_service y))
      (map el_sequence (ms_sent m), ms_result m \<noteq> None, sv_sequence s)"
    using stream_step_issues [of "rs_market y ! i" "rs_service y" ok c rg ev] True by (simp add: ms market_view_def)
  from progress_in [OF progress_at [where f = market_got and ms = "rs_market y" and m = m and i = i, OF _ _ this], of "[]"]
  show ?thesis using True by (simp add: ms received_def)
next
  case False
  then show ?thesis by (simp only: rpc_step.simps if_False progress_refl)
qed

lemma chart_step_progress:
  "progress (received y) (sv_sequence (rs_service y)) (received (rpc_step ok okc c rg (ChartStep i ev) y))
     (sv_sequence (rs_service (rpc_step ok okc c rg (ChartStep i ev) y)))"
proof (cases "i < length (rs_chart y) \<and> cs_result (rs_chart y ! i) = None")
  case True
  obtain m s where ms: "chart_step okc ev (rs_chart y ! i, rs_service y) = (m, s)" by fastforce
  have "issues (map cg_sequence (cs_sent (rs_chart y ! i)), False, sv_sequence (rs_service y))
      (map cg_sequence (cs_sent m), cs_result m \<noteq> None, sv_sequence s)"
    using chart_step_issues [of "rs_chart y ! i" "rs_service y" okc ev] True by (simp add: ms chart_view_def)
  from progress_in [OF progress_at [where f = chart_got and ms = "rs_chart y" and m = m and i = i, OF _ _ this], of "map market_got (rs_market y)"]
  show ?thesis using True by (simp add: ms received_def)
next
  case False
  then show ?thesis by (simp only: rpc_step.simps if_False progress_refl)
qed

lemma chat_step_progress:
  "progress (received y) (sv_sequence (rs_service y)) (received (rpc_step ok okc c rg (ChatStep i ev) y))
     (sv_sequence (rs_service (rpc_step ok okc c rg (ChatStep i ev) y)))"
proof (cases "i < length (rs_chat y) \<and> ts_result (rs_chat y ! i) = None")
  case True
  obtain m s where ms: "StreamChat_step ok ev (rs_chat y ! i, rs_service y) = (m, s)" by fastforce
  have "issues (map el_sequence (ts_sent (rs_chat y ! i)), False, sv_sequence (rs_service y))
      (map el_sequence (ts_sent m), ts_result m \<noteq> None, sv_sequence s)"
    using chat_step_issues [of "rs_chat y ! i" "rs_service y" ok ev] True by (simp add: ms chat_view_def)
  from progress_in [OF progress_at [where f = chat_got and ms = "rs_chat y" and m = m and i = i, OF _ _ this], of "map market_got (rs_market y) @ map chart_got (rs_chart y)"]
  show ?thesis using True by (simp add: ms received_def)
next
  case False
  then show ?thesis by (simp only: rpc_step.simps if_False progress_refl)
qed

lemma rpc_step_progress:
  "progress (received y) (sv_sequence (rs_service y)) (received (rpc_step ok okc c rg e y))
     (sv_sequence (rs_service (rpc_step ok okc c rg e y)))"
proof (cases e)
  case OpenMarket
  then show ?thesis
    using progress_first [OF progress_new [of "map market_got (rs_market y)"]]
    by (simp add: received_def open_market_stream_def split: prod.split)
next
  case OpenChart
  then show ?thesis using progress_in [OF progress_new [of "map chart_got (rs_chart y)"]] by (simp add: received_def)
next
  case OpenChat
  then show ?thesis
    using progress_in [OF progress_new [of "map chat_got (rs_chat y)"], of "map market_got (rs_market y) @ map chart_got (rs_chart y)"]
    by (simp add: received_def open_chat_stream_def split: prod.split)
next
  case (CallSendChat pid body)
  let ?s = "sv_sequence (rs_service y)"
  have one: "progress [(ns, False)] ?s [(ns @ [add64 ?s 1], False)] (add64 ?s 1)" for ns
    using progress_issue [OF issues_one [of ns ?s], of "[]" "[]"] by (simp add: add64_def)
  show ?thesis
    using progress_last [OF one, of "map market_got (rs_market y) @ map chart_got (rs_chart y) @ map chat_got (rs_chat y)"] progress_refl
    by (auto simp: CallSendChat rpc_SendChat_def received_def make_envelope_def nextSequence_def Let_def
        split: option.split sum.split prod.split)
next
  case (Background f h)
  then show ?thesis by (simp add: progress_refl received_def)
qed (simp_all only: market_step_progress chart_step_progress chat_step_progress)

lemma rpc_run_numbers:
  assumes "used (received (foldl (\<lambda>y e. rpc_step ok okc c rg e y) (rpc_start g ce) es)) < 2 ^ 63"
  shows "numbers_ok (received (foldl (\<lambda>y e. rpc_step ok okc c rg e y) (rpc_start g ce) es))
      (sv_sequence (rs_service (foldl (\<lambda>y e. rpc_step ok okc c rg e y) (rpc_start g ce) es))) \<and>
    in64 (sv_sequence (rs_service (foldl (\<lambda>y e. rpc_step ok okc c rg e y) (rpc_start g ce) es)))"
  using assms
proof (induction es rule: rev_induct)
  case Nil
  then show ?case by (simp add: rpc_start_def received_def numbers_ok_def)
next
  case (snoc e es)
  then show ?case
    using progress_numbers [OF rpc_step_progress] progress_mono [OF rpc_step_progress, of "foldl (\<lambda>y e. rpc_step ok okc c rg e y) (rpc_start g ce) es" ok okc c rg e]
    by simp
qed

text \<open>C18: over any interleaving of market, chart and chat streams, calls and background activity, no two
  envelopes the service delivers have the same sequence number, and every stream sees its numbers increase,
  as long as fewer than 2^63 envelopes have been made.\<close>

theorem sequence_numbers_unique:
  assumes "y = foldl (\<lambda>y e. rpc_step ok okc c rg e y) (rpc_start g ce) es" and "used (received y) < 2 ^ 63"
  shows "distinct (concat (map fst (received y))) \<and> (\<forall>(ns, stop) \<in> set (received y). sorted_wrt (<) ns) \<and>
    (\<forall>n \<in> set (concat (map fst (received y))). 0 < n \<and> n \<le> sv_sequence (rs_service y))"
  using rpc_run_numbers [of ok okc c rg g ce es] assms unfolding numbers_ok_def by auto

definition demo_private_game :: game where
  "demo_private_game = (demo_game (NewExchange [] 0))\<lparr>g_private_history :=
     [''id-ann'' \<mapsto> [PrivateIntel (ArmedForFuture (demo_insider ''a'' 30) 5), PrivateIntel (ArmedForFuture (demo_insider ''b'' 30) 6)]]\<rparr>"

definition demo_market_request :: "string \<Rightarrow> market_stream_request" where
  "demo_market_request pid = \<lparr>mr_player_id = pid, mr_symbols = [], mr_include_portfolio = False, mr_include_chat = True\<rparr>"

definition demo_run :: rpc_system where
  "demo_run = foldl (\<lambda>y e. rpc_step (\<lambda>_. True) (\<lambda>_. True) demo_call id e y) (rpc_start demo_private_game None)
     [OpenMarket, OpenMarket, MarketStep 1 (RequestArrives (demo_market_request ''id-ann''))]"

lemmas stream_defs = handle_request_def demo_market_request_def sendInitialChatState_def ChatHistory_def chat_History_def
  demo_private_game_def demo_game_def NewGame_def NewChatService_def privateHistorySnapshot_def private_log_def keep_last_def
  privateHistoryLimit_def stream_send_def make_envelope_def nextSequence_def attach_private_def SubscribePrivate_def
  sendInitialMarketState_def add64_def i64_def Let_def

lemma demo_run_received: "received demo_run = [([], False), ([1, 2], False), ([], False)]"
  by (simp add: demo_run_def received_def rpc_start_def open_market_stream_def MarketFeed_def ChatFeed_def
      exchange_Subscribe_def chat_SubscribeLive_def hub_subscribe_def stream_defs split: prod.split)

theorem sequence_numbers_unique_witness:
  "received demo_run = [([], False), ([1, 2], False), ([], False)] \<and> distinct (concat (map fst (received demo_run)))"
  using sequence_numbers_unique [OF demo_run_def] by (simp add: demo_run_received)

section \<open>What a stream forwards\<close>

lemma stream_send_ok:
  "ms_result m = None \<Longrightarrow> stream_send (\<lambda>_. True) topic b (m, s) =
    (m\<lparr>ms_sent := ms_sent m @ [\<lparr>el_topic = topic, el_body = b, el_sequence = add64 (sv_sequence s) 1\<rparr>]\<rparr>,
     s\<lparr>sv_sequence := add64 (sv_sequence s) 1\<rparr>)"
  by (simp add: stream_send_def make_envelope_def nextSequence_def Let_def)

definition feed_of :: "market_stream \<times> service \<Rightarrow> market_msg list option" where
  "feed_of ms = map_of (subscribers (ex_hub (g_market (sv_game (snd ms))))) (ms_market_feed (fst ms))"

lemma map_of_upd_queue: "map_of (map (\<lambda>(j, r). (j, if j = i then q else r)) xs) i = map_option (\<lambda>_. q) (map_of xs i)"
  by (induction xs) auto

text \<open>One message of the feed.\<close>

lemma market_ready:
  assumes "feed_of (m, s) = Some (p # q)" and "ms_result m = None"
  shows "\<exists>m' s'. stream_step (\<lambda>_. True) c rg MarketReady (m, s) = (m', s') \<and> feed_of (m', s') = Some q \<and> ms_result m' = None \<and>
    ms_symbols m' = ms_symbols m \<and>
    map el_body (ms_sent m') = map el_body (ms_sent m) @ (if matchesSymbols p (ms_symbols m) then [MarketBody p] else [])"
  using assms by (auto simp: feed_of_def hub_receive_def Let_def stream_send_ok map_of_upd_queue)

lemma market_drain:
  assumes "feed_of (m, s) = Some (ps @ q)" and "ms_result m = None"
  shows "\<exists>m' s'. foldl (\<lambda>y e. stream_step (\<lambda>_. True) c rg e y) (m, s) (replicate (length ps) MarketReady) = (m', s') \<and>
    feed_of (m', s') = Some q \<and>
    map el_body (ms_sent m') = map el_body (ms_sent m) @ map MarketBody (filter (\<lambda>p. matchesSymbols p (ms_symbols m)) ps)"
  using assms
proof (induction ps arbitrary: m s)
  case (Cons p ps)
  obtain m1 s1 where one: "stream_step (\<lambda>_. True) c rg MarketReady (m, s) = (m1, s1)" "feed_of (m1, s1) = Some (ps @ q)"
      "ms_result m1 = None" "ms_symbols m1 = ms_symbols m"
      "map el_body (ms_sent m1) = map el_body (ms_sent m) @ (if matchesSymbols p (ms_symbols m) then [MarketBody p] else [])"
    using market_ready [of m s p "ps @ q"] Cons.prems by auto
  show ?case
    using Cons.IH [OF one(2,3)]
    by (cases "matchesSymbols p (ms_symbols m)") (simp_all add: one(1,4,5) del: stream_step.simps)
qed simp

lemma map_of_map_snd: "map_of (map (\<lambda>(i, q). (i, f q)) xs) i = map_option f (map_of xs i)"
  by (induction xs) auto

lemma feed_of_published:
  "feed_of (m, s\<lparr>sv_game := g\<lparr>g_market := foldl (\<lambda>s m. publishLocked m s) x ms\<rparr>\<rparr>) =
     map_option (\<lambda>q. foldl (\<lambda>q m. try_send 64 m q) q ms) (map_of (subscribers (ex_hub x)) (ms_market_feed m))"
  using market_feed.publish_all [of x ms] by (simp add: feed_of_def map_of_map_snd)

text \<open>What the filter lets through, for the messages of an order.\<close>

definition asked_for :: "string list \<Rightarrow> market_msg \<Rightarrow> bool" where
  "asked_for sys p = (case p of MarketTrade t \<Rightarrow> sys = [] \<or> t_symbol t = [] \<or> t_symbol t \<in> set sys | _ \<Rightarrow> True)"

lemma matches_order_messages:
  assumes "p \<in> set (MarketUpdate o' b' p' ts' # map MarketTrade ts)"
  shows "matchesSymbols p sys \<longleftrightarrow> asked_for sys p"
  using assms by (auto simp: matchesSymbols_def payload_symbol_def payload_affected_def asked_for_def)

lemma PlaceOrder_json: "PlaceOrder env i s = (Inr out, s') \<Longrightarrow> \<exists>o' b' p' ts'. po_json out = MarketUpdate o' b' p' ts'"
  by (auto simp: PlaceOrder_def Let_def split: option.splits prod.splits sum.splits)

lemma hub_published:
  "ex_hub (foldl (\<lambda>s m. publishLocked m s) s ms) = foldl (\<lambda>h m. hub_publish 64 m h) (ex_hub s) ms"
  by (induction ms arbitrary: s) (simp_all add: publishLocked_def)

text \<open>C17: An order accepted by the exchange, with a cache or without, reaches every market stream that has caught
  up with its feed. The stream forwards the order's update, whatever tickers it asked for, and then the
  order's trades in the order they were made, leaving out exactly the trades of tickers it did
  not ask for (none when it asked for no ticker in particular); of the update and the trades the first 64 are in the feed, as many as it holds.\<close>
theorem order_reaches_stream:
  assumes "PlaceOrder env i (g_market (sv_game s)) = (Inr out, x)"
    and "feed_of (m, s) = Some []" and "ms_result m = None"
    and "ps = take 64 (po_json out # map MarketTrade (po_trades out))"
  shows "map el_body (ms_sent (fst (foldl (\<lambda>y e. stream_step (\<lambda>_. True) c rg e y)
      (m, s\<lparr>sv_game := (sv_game s)\<lparr>g_market := x\<rparr>\<rparr>) (replicate (length ps) MarketReady)))) =
    map el_body (ms_sent m) @ map MarketBody (po_json out #
      filter (\<lambda>p. case p of MarketTrade t \<Rightarrow> ms_symbols m = [] \<or> t_symbol t = [] \<or> t_symbol t \<in> set (ms_symbols m) | _ \<Rightarrow> True) (tl ps))"
proof -
  let ?ms = "po_json out # map MarketTrade (po_trades out)" and ?s = "s\<lparr>sv_game := (sv_game s)\<lparr>g_market := x\<rparr>\<rparr>"
    and ?x = "foldl (\<lambda>s m. publishLocked m s) (g_market (sv_game s)) (po_json out # map MarketTrade (po_trades out))"
  have "ex_hub x = ex_hub ?x" unfolding PlaceOrder_hub [OF assms(1)] hub_published ..
  then have "feed_of (m, ?s) = feed_of (m, s\<lparr>sv_game := (sv_game s)\<lparr>g_market := ?x\<rparr>\<rparr>)" by (simp add: feed_of_def del: foldl_Cons)
  also have "\<dots> = Some (ps @ [])"
    using assms(2) foldl_try_send [of "[]" 64 ?ms] unfolding feed_of_published assms(4) by (simp add: feed_of_def)
  finally have "map el_body (ms_sent (fst (foldl (\<lambda>y e. stream_step (\<lambda>_. True) c rg e y) (m, ?s) (replicate (length ps) MarketReady)))) =
      map el_body (ms_sent m) @ map MarketBody (filter (\<lambda>p. matchesSymbols p (ms_symbols m)) ps)"
    using market_drain [of m ?s ps "[]" c rg] assms(3) by auto
  moreover obtain o' b' p' ts' where u: "po_json out = MarketUpdate o' b' p' ts'" using PlaceOrder_json [OF assms(1)] by blast
  then have "filter (\<lambda>p. matchesSymbols p (ms_symbols m)) ps = filter (asked_for (ms_symbols m)) ps"
    using matches_order_messages [of _ o' b' p' ts' "po_trades out" "ms_symbols m"] in_set_takeD [of _ 64 ?ms]
    unfolding assms(4) by (intro filter_cong) (simp_all only: simp_thms)
  moreover have "filter (asked_for (ms_symbols m)) ps = po_json out # filter (asked_for (ms_symbols m)) (tl ps)"
    unfolding assms(4) by (simp add: u asked_for_def)
  ultimately show ?thesis by (simp add: asked_for_def [abs_def])
qed

definition demo_stream :: "market_stream \<times> service" where
  "demo_stream = open_market_stream \<lparr>sv_game = demo_game (NewExchange [demo_ticker] 3), sv_charts = None, sv_sequence = 0\<rparr>"

lemma demo_stream_opened:
  "g_market (sv_game (snd demo_stream)) = snd (exchange_Subscribe (NewExchange [demo_ticker] 3))"
  "feed_of demo_stream = Some []" "ms_result (fst demo_stream) = None" "ms_sent (fst demo_stream) = []" "ms_symbols (fst demo_stream) = []"
  by (simp_all add: demo_stream_def open_market_stream_def MarketFeed_def ChatFeed_def exchange_Subscribe_def chat_SubscribeLive_def
      hub_subscribe_def demo_game_def NewGame_def NewExchange_def NewChatService_def empty_hub_def feed_of_def)

theorem order_reaches_stream_witness:
  "\<exists>out x. PlaceOrder demo_env demo_input (g_market (sv_game (snd demo_stream))) = (Inr out, x) \<and>
    map el_body (ms_sent (fst (foldl (\<lambda>y e. stream_step (\<lambda>_. True) demo_call id e y)
      (fst demo_stream, (snd demo_stream)\<lparr>sv_game := (sv_game (snd demo_stream))\<lparr>g_market := x\<rparr>\<rparr>)
      (replicate (length (take 64 (po_json out # map MarketTrade (po_trades out)))) MarketReady)))) =
      map MarketBody (take 64 (po_json out # map MarketTrade (po_trades out)))"
proof -
  have "ex_books (snd (exchange_Subscribe (NewExchange [demo_ticker] 3))) ''ACME'' \<noteq> None"
    using demo_exchange_book by (simp add: exchange_Subscribe_def split: prod.splits)
  then obtain out x where p: "PlaceOrder demo_env demo_input (g_market (sv_game (snd demo_stream))) = (Inr out, x)"
    using demo_place_ok [OF Subscribe_inv [OF NewExchange_inv]] demo_stream_opened(1) by metis
  have "filter (\<lambda>p. case p of MarketTrade t \<Rightarrow> True | _ \<Rightarrow> True) ps = ps" for ps by (rule filter_True) (simp split: market_msg.split)
  then show ?thesis
    using p order_reaches_stream [OF p, of "fst demo_stream" _ demo_call id] demo_stream_opened by simp
qed

section \<open>Whose private feed a stream reads\<close>

lemma sends_keep:
  "ms_private (fst (foldl (\<lambda>a p. stream_send ok topic (f p) a) ms ps)) = ms_private (fst ms)"
  "ms_private (fst (stream_send ok topic b ms)) = ms_private (fst ms)"
proof -
  show one: "ms_private (fst (stream_send ok topic b ms)) = ms_private (fst ms)" for topic b ms
    by (auto simp: stream_send_def split: prod.splits)
  show "ms_private (fst (foldl (\<lambda>a p. stream_send ok topic (f p) a) ms ps)) = ms_private (fst ms)"
    by (induction ps arbitrary: ms) (simp_all add: one)
qed

lemma snapshots_keep: "ms_private (fst (send_snapshots ok c sys ms)) = ms_private (fst ms)"
  by (induction ok c sys ms rule: send_snapshots.induct) (auto simp: sends_keep split: prod.splits sum.splits)

lemma initial_keep:
  "ms_private (fst (sendInitialMarketState ok c sys ms)) = ms_private (fst ms)"
  "ms_private (fst (sendInitialChatState ok ms)) = ms_private (fst ms)"
  using snapshots_keep [of ok c sys ms]
  by (auto simp: sendInitialMarketState_def sendInitialChatState_def Let_def sends_keep split: prod.splits sum.splits reply.splits)

lemma handle_request_cases:
  obtains m2 s2 where "ms_private m2 = ms_private (fst ms)"
    and "handle_request ok c rg r ms = (if ms_result m2 \<noteq> None then (m2, s2)
      else (case attach_private r (m2, s2) of
        (m3, s3) \<Rightarrow> sendInitialMarketState ok c (rg (remdups (mr_symbols r))) (m3\<lparr>ms_symbols := remdups (mr_symbols r)\<rparr>, s3)))"
proof -
  obtain m s where ms: "ms = (m, s)" by fastforce
  let ?m1 = "m\<lparr>ms_player_id := mr_player_id r, ms_portfolio := mr_include_portfolio r, ms_chat := mr_include_chat r\<rparr>"
  obtain m2 s2 where ms2: "(if mr_include_chat r then sendInitialChatState ok (?m1, s) else (?m1, s)) = (m2, s2)" by fastforce
  have "ms_private m2 = ms_private m"
    using initial_keep(2) [of ok "(?m1, s)"] ms2 by (cases "mr_include_chat r") auto
  then show ?thesis using that [of m2 s2] by (simp add: handle_request_def ms ms2 Let_def)
qed

lemma handle_request_private:
  assumes "ms_private (fst ms) = Some x"
  shows "ms_private (fst (handle_request ok c rg r ms)) = Some x"
proof -
  obtain m2 s2 where h: "ms_private m2 = ms_private (fst ms)"
    "handle_request ok c rg r ms = (if ms_result m2 \<noteq> None then (m2, s2)
      else (case attach_private r (m2, s2) of
        (m3, s3) \<Rightarrow> sendInitialMarketState ok c (rg (remdups (mr_symbols r))) (m3\<lparr>ms_symbols := remdups (mr_symbols r)\<rparr>, s3)))"
    by (rule handle_request_cases)
  then show ?thesis using assms by (simp add: attach_private_def initial_keep)
qed

lemma handle_request_first:
  assumes "ms_private (fst ms) = None" and "mr_player_id r \<noteq> []" and "ms_result (fst (handle_request ok c rg r ms)) = None"
  shows "\<exists>i. ms_private (fst (handle_request ok c rg r ms)) = Some (mr_player_id r, i)"
proof -
  obtain m2 s2 where h: "ms_private m2 = ms_private (fst ms)"
    "handle_request ok c rg r ms = (if ms_result m2 \<noteq> None then (m2, s2)
      else (case attach_private r (m2, s2) of
        (m3, s3) \<Rightarrow> sendInitialMarketState ok c (rg (remdups (mr_symbols r))) (m3\<lparr>ms_symbols := remdups (mr_symbols r)\<rparr>, s3)))"
    by (rule handle_request_cases)
  then show ?thesis using assms by (auto simp: attach_private_def initial_keep split: prod.splits if_splits)
qed

lemma stream_step_private:
  assumes "ms_private (fst ms) = Some x"
  shows "ms_private (fst (stream_step ok c rg e ms)) = Some x"
  using assms
  by (cases ms; cases e) (auto simp: Let_def sends_keep initial_keep handle_request_private split: option.splits prod.splits)

lemma stream_run_private:
  "ms_private (fst ms) = Some x \<Longrightarrow> ms_private (fst (foldl (\<lambda>y e. stream_step ok c rg e y) ms es)) = Some x"
  by (induction es arbitrary: ms) (simp_all add: stream_step_private)

text \<open>C19: a market stream keeps reading the private feed of the first player it named: whatever requests follow,
  with whatever player identifier, it goes on delivering the first player's private messages.\<close>

theorem private_feed_sticks:
  assumes "ms_private (fst ms) = None" and "mr_player_id r = pid" and "pid \<noteq> []"
    and "ms_result (fst (handle_request (\<lambda>_. True) c rg r ms)) = None"
    and "(m, s) = foldl (\<lambda>y e. stream_step (\<lambda>_. True) c rg e y) (handle_request (\<lambda>_. True) c rg r ms) es"
  shows "\<exists>i. ms_private m = Some (pid, i) \<and>
    (\<forall>p q. ms_result m = None \<and> map_of (private_queues pid (sv_game s)) i = Some (p # q) \<longrightarrow>
      (\<exists>e. ms_sent (fst (stream_step (\<lambda>_. True) c rg PrivateReady (m, s))) = ms_sent m @ [e] \<and>
        el_topic e = ''private'' \<and> el_body e = PrivateBody p))"
proof -
  obtain i where i: "ms_private (fst (handle_request (\<lambda>_. True) c rg r ms)) = Some (pid, i)"
    using handle_request_first [OF assms(1) _ assms(4)] assms(2,3) by auto
  have "ms_private m = Some (pid, i)" using stream_run_private [OF i, of "\<lambda>_. True" c rg es] assms(5) by (metis fst_conv)
  then show ?thesis by (auto simp: private_receive_def stream_send_ok)
qed

definition sticky_stream :: "market_stream \<times> service" where
  "sticky_stream = open_market_stream \<lparr>sv_game = demo_private_game, sv_charts = None, sv_sequence = 0\<rparr>"

theorem private_feed_sticks_witness:
  "\<exists>i. ms_private (fst (foldl (\<lambda>y e. stream_step (\<lambda>_. True) demo_call id e y)
      (handle_request (\<lambda>_. True) demo_call id (demo_market_request ''id-ann'') sticky_stream)
      [RequestArrives (demo_market_request ''id-bob'')])) = Some (''id-ann'', i)"
proof -
  have "ms_private (fst sticky_stream) = None" by (simp add: sticky_stream_def open_market_stream_def split: prod.split)
  moreover have "ms_result (fst (handle_request (\<lambda>_. True) demo_call id (demo_market_request ''id-ann'') sticky_stream)) = None"
    by (simp add: sticky_stream_def open_market_stream_def MarketFeed_def ChatFeed_def stream_defs
        exchange_Subscribe_def chat_SubscribeLive_def hub_subscribe_def split: prod.split)
  ultimately show ?thesis
    using private_feed_sticks [of sticky_stream "demo_market_request ''id-ann''" "''id-ann''" demo_call id
      "fst (foldl (\<lambda>y e. stream_step (\<lambda>_. True) demo_call id e y) (handle_request (\<lambda>_. True) demo_call id (demo_market_request ''id-ann'') sticky_stream)
        [RequestArrives (demo_market_request ''id-bob'')])"
      "snd (foldl (\<lambda>y e. stream_step (\<lambda>_. True) demo_call id e y) (handle_request (\<lambda>_. True) demo_call id (demo_market_request ''id-ann'') sticky_stream)
        [RequestArrives (demo_market_request ''id-bob'')])" "[RequestArrives (demo_market_request ''id-bob'')]"]
    by (auto simp: demo_market_request_def)
qed

end
