(* ===== verification/ClientState.thy ===== *)
theory ClientState
  imports Streams Scan
begin

text \<open>
  The terminal client (\<^verbatim>\<open>cmd/game-client\<close>): numbers as text, the state of the user interface, the viewport of
  the chart, the order ticket and its cost estimate.

  Go's \<^verbatim>\<open>int\<close> counts list elements, key strokes and screen cells here and is an unbounded integer. Text is
  ASCII. A status line is a value of \<open>ui_status\<close>; its text and the frame are in \<open>ClientDraw\<close>.
\<close>

section \<open>Numbers as text\<close>

text \<open>The verb \<^verbatim>\<open>%.2f\<close>: the exact value rounded to two decimals, ties to even.\<close>

definition show_cents :: "nat \<Rightarrow> string" where
  "show_cents c = show_nat (c div 100) @ CHR ''.'' # [char_of (48 + c div 10 mod 10), char_of (48 + c mod 10)]"

definition show_fixed2 :: "f64 \<Rightarrow> string" where
  "show_fixed2 x = (if x < 0 then ''-'' else []) @ show_cents (nat (round_even (\<bar>x\<bar> * 100)))"

text \<open>The verb \<^verbatim>\<open>%f\<close> of \<^verbatim>\<open>fmt.Sscanf\<close> on digits, a sign and dots; input left over is not an error. A number out of
  the range of \<^verbatim>\<open>float64\<close> is not modelled.\<close>

definition scan_unsigned_float :: "rat \<Rightarrow> string \<Rightarrow> f64 option" where
  "scan_unsigned_float sign s =
     (let ds = takeWhile is_digit s; rest = dropWhile is_digit s;
          fs = (case rest of [] \<Rightarrow> [] | c # t \<Rightarrow> (if c = CHR ''.'' then takeWhile is_digit t else []))
      in if ds = [] \<and> fs = [] then None
         else Some (rnd (sign * (of_nat (read_nat (ds @ fs)) / 10 ^ length fs))))"

definition scan_float :: "string \<Rightarrow> f64 option" where
  "scan_float s =
     (case skip_space s of
        [] \<Rightarrow> None
      | c # rest \<Rightarrow>
          (if c = CHR ''-'' then scan_unsigned_float (- 1) rest
           else if c = CHR ''+'' then scan_unsigned_float 1 rest
           else scan_unsigned_float 1 (c # rest)))"

definition parseWholeUnits :: "string \<Rightarrow> int option" where
  "parseWholeUnits raw = (let v = trim_space raw in if v = [] then None else map_option fst (scan_int v))"

definition parseMoneyToCents :: "string \<Rightarrow> int option" where
  "parseMoneyToCents raw =
     (let v = trim_space (map (\<lambda>c. if c = CHR '','' then CHR ''.'' else c) raw) in
      if v = [] then None
      else (case scan_float v of None \<Rightarrow> None | Some amount \<Rightarrow> Some (to_i64 (go_round (fmul amount 100)))))"

definition moneyValue :: "int \<Rightarrow> f64" where
  "moneyValue raw = fdiv (go_round (fmul (fdiv (of_i64 raw) 100) 100)) 100"

definition chargeBps :: "int \<Rightarrow> int \<Rightarrow> int" where
  "chargeBps amount bps =
     (if amount \<le> 0 \<or> bps \<le> 0 then 0 else quot64 (add64 (mul64 amount bps) 9999) 10000)"

section \<open>State\<close>

record order_ticket =
  ot_active :: bool
  ot_side :: string
  ot_order_type :: string
  ot_price :: string
  ot_quantity :: string
  ot_field :: int

definition no_ticket :: order_ticket where
  "no_ticket = \<lparr>ot_active = False, ot_side = [], ot_order_type = [], ot_price = [], ot_quantity = [], ot_field = 0\<rparr>"

record ticker_rect =
  tr_symbol :: string
  tr_x1 :: int
  tr_y1 :: int
  tr_x2 :: int
  tr_y2 :: int

definition no_rect :: ticker_rect where
  "no_rect = \<lparr>tr_symbol = [], tr_x1 = 0, tr_y1 = 0, tr_x2 = 0, tr_y2 = 0\<rparr>"

record orderbook_rect =
  or_side :: string
  or_price :: f64
  or_quantity :: int
  or_x1 :: int
  or_y1 :: int
  or_x2 :: int
  or_y2 :: int

record chat_name_rect =
  nr_player_id :: string
  nr_username :: string
  nr_x1 :: int
  nr_y1 :: int
  nr_x2 :: int
  nr_y2 :: int

record chat_entry = chat_message +
  ln_topic :: string

record event_banner =
  bn_text :: string
  bn_started_at :: time
  bn_expires_at :: time

datatype ui_error = QuantityInvalid | PriceInvalid | MessageEmpty | DirectBodyEmpty | ActionFailed string | StreamFailed string

datatype ui_status =
    StConnecting | StText string | StSelected string | StSelectedByMouse string | StTimeframe string | StViewportReset
  | StTicketClosed | StTicketReady string | StBookTicketReady string int f64 | StSubmitting string
  | StLoadingCatalog | StBuyingInsider f64 | StRulesLoaded | StPortfolioRefreshed f64 | StInsiderReady f64 | StCatalogLoaded
  | StOrderAccepted | StInsiderArmedBefore time | StInsiderArmedNext f64 | StPreviewDelivered | StIntelPurchased f64
  | StActionCompleted | StLiveTick string time | StMarketEvent string | StPreviewReceived | StError ui_error
  | StChatClosed | StChatFocused | StSendingDirect string | StSendingChat
  | StFocusFor string | StPreparedDirect string string | StCopiedDirect string

record ui =
  ui_symbols :: "string list"
  ui_player_id :: string
  ui_username :: string
  ui_selected :: int
  ui_status :: ui_status
  ui_ticks :: "string \<rightharpoonup> chart_tick"
  ui_ticker_rects :: "ticker_rect list"
  ui_orderbook_rects :: "orderbook_rect list"
  ui_portfolio :: "portfolio_snapshot option"
  ui_rules :: trade_rules
  ui_ticket :: order_ticket
  ui_zoom :: int
  ui_offset :: int
  ui_plot_width :: int
  ui_timeframe :: int
  ui_chat_rect :: ticker_rect
  ui_chat_name_rects :: "chat_name_rect list"
  ui_chat_lines :: "chat_entry list"
  ui_chat_input :: string
  ui_chat_scroll :: int
  ui_chat_focus :: bool
  ui_offer :: "catalog_item option"
  ui_insider_rect :: ticker_rect
  ui_banner :: "event_banner option"

definition timeframePresets :: "(string \<times> duration) list" where
  "timeframePresets = [(''1m'', minute), (''5m'', 5 * minute), (''15m'', 15 * minute), (''30m'', 30 * minute),
     (''1h'', 60 * minute), (''all'', 0)]"

definition currentSymbol :: "string list \<Rightarrow> int \<Rightarrow> string" where
  "currentSymbol symbols selected =
     (if symbols = [] then []
      else if selected < 0 \<or> selected \<ge> int (length symbols) then hd symbols
      else symbols ! nat selected)"

fun index_from :: "int \<Rightarrow> string list \<Rightarrow> string \<Rightarrow> int" where
  "index_from i [] target = - 1"
| "index_from i (s # ss) target = (if s = target then i else index_from (i + 1) ss target)"

definition indexOfSymbol :: "string list \<Rightarrow> string \<Rightarrow> int" where
  "indexOfSymbol symbols target = index_from 0 symbols target"

definition current :: "ui \<Rightarrow> string" where
  "current u = currentSymbol (ui_symbols u) (ui_selected u)"

definition current_history :: "ui \<Rightarrow> history_point list" where
  "current_history u = (case ui_ticks u (current u) of None \<Rightarrow> [] | Some t \<Rightarrow> ct_history t)"

definition preset_duration :: "ui \<Rightarrow> duration" where
  "preset_duration u = snd (timeframePresets ! nat (ui_timeframe u))"

section \<open>The viewport of the chart\<close>

definition clampInt :: "int \<Rightarrow> int \<Rightarrow> int \<Rightarrow> int" where
  "clampInt value low high = (if value < low then low else if value > high then high else value)"

text \<open>\<^verbatim>\<open>math.Pow\<close> for an integer exponent: squaring, on mantissas whose scaling by powers of two is exact.\<close>

function pow_loop :: "nat \<Rightarrow> f64 \<Rightarrow> f64 \<Rightarrow> f64" where
  "pow_loop i x a = (if i = 0 then a else pow_loop (i div 2) (fmul x x) (if odd i then fmul a x else a))"
  by auto
termination by (relation "measure fst") auto

declare pow_loop.simps [simp del]

definition chartZoomFactor :: "int \<Rightarrow> f64" where
  "chartZoomFactor zoom =
     (let a = pow_loop (nat \<bar>zoom\<bar>) (rnd (16 / 10)) 1 in if zoom < 0 then fdiv 1 a else a)"

definition computeVisiblePoints :: "int \<Rightarrow> int \<Rightarrow> int \<Rightarrow> int" where
  "computeVisiblePoints total_points plotWidth zoom =
     (if total_points \<le> 0 then 0
      else (let baseVisible = clampInt (max 12 (plotWidth - 2)) 8 total_points;
                scale0 = chartZoomFactor zoom;
                scale = (if scale0 \<le> 0 then 1 else scale0);
                count0 = to_i64 (go_round (fdiv (of_i64 baseVisible) scale));
                count1 = (if count0 < 8 then 8 else count0);
                count2 = (if count1 < 2 then 2 else count1)
            in if count2 > total_points then total_points else count2))"

definition effectiveChartPlotWidth :: "ui \<Rightarrow> int" where
  "effectiveChartPlotWidth u = (if ui_plot_width u > 0 then ui_plot_width u else 96)"

text \<open>The place of the first point that is not before the cutoff, or 0.\<close>

fun first_from :: "nat \<Rightarrow> (history_point \<Rightarrow> bool) \<Rightarrow> history_point list \<Rightarrow> nat" where
  "first_from i P [] = 0"
| "first_from i P (p # ps) = (if P p then i else first_from (Suc i) P ps)"

definition timeframeHistoryWithStart :: "history_point list \<Rightarrow> duration \<Rightarrow> history_point list \<times> nat" where
  "timeframeHistoryWithStart history d =
     (if history = [] \<or> d \<le> 0 then (history, 0)
      else (let cutoff = hp_ts (last history) * 1000000 - d;
                start = first_from 0 (\<lambda>p. \<not> hp_ts p * 1000000 < cutoff) history
            in (drop start history, start)))"

definition timeframeHistory :: "history_point list \<Rightarrow> duration \<Rightarrow> history_point list" where
  "timeframeHistory history d = fst (timeframeHistoryWithStart history d)"

text \<open>A slice expression \<^verbatim>\<open>a[i:j]\<close> panics out of bounds, the result \<open>None\<close>.\<close>

definition slice :: "'a list \<Rightarrow> int \<Rightarrow> int \<Rightarrow> 'a list option" where
  "slice xs i j = (if 0 \<le> i \<and> i \<le> j \<and> j \<le> int (length xs) then Some (take (nat (j - i)) (drop (nat i) xs)) else None)"

definition chartViewport ::
  "history_point list \<Rightarrow> int \<Rightarrow> int \<Rightarrow> int \<Rightarrow> duration \<Rightarrow> (history_point list \<times> int \<times> int) option" where
  "chartViewport history plotWidth zoom offset0 d =
     (if history = [] then Some ([], 0, 0)
      else (case timeframeHistoryWithStart history d of
              (base, baseStart) \<Rightarrow>
                (if base = [] then Some (history, 0, int (length history))
                 else (let n = int (length base);
                           visible = computeVisiblePoints n (plotWidth + 1) zoom;
                           maxOffset = max 0 (n - visible);
                           offset1 = (if offset0 < 0 then 0 else offset0);
                           offset2 = (if offset1 > maxOffset then maxOffset else offset1);
                           stop = n - offset2;
                           start = max 0 (stop - visible)
                       in map_option (\<lambda>xs. (xs, int baseStart + start, int baseStart + stop)) (slice base start stop)))))"

definition clampViewport :: "ui \<Rightarrow> ui" where
  "clampViewport u =
     (if current_history u = [] then u\<lparr>ui_offset := 0\<rparr>
      else (let base = timeframeHistory (current_history u) (preset_duration u);
                visible = computeVisiblePoints (int (length base)) (effectiveChartPlotWidth u) (ui_zoom u);
                maxOffset = max 0 (int (length base) - visible);
                offset1 = (if ui_offset u < 0 then 0 else ui_offset u)
            in u\<lparr>ui_offset := (if offset1 > maxOffset then maxOffset else offset1)\<rparr>))"

definition moveSelection :: "int \<Rightarrow> ui \<Rightarrow> ui" where
  "moveSelection delta u =
     (if ui_symbols u = [] then u
      else (let n = int (length (ui_symbols u));
                u1 = clampViewport (u\<lparr>ui_selected := rem64 (ui_selected u + delta + n) n, ui_offset := 0\<rparr>)
            in u1\<lparr>ui_status := StSelected (current u1)\<rparr>))"

definition zoomChart :: "int \<Rightarrow> ui \<Rightarrow> ui" where
  "zoomChart delta u =
     (let base = timeframeHistory (current_history u) (preset_duration u); n = int (length base) in
      if base = [] then u\<lparr>ui_zoom := 0, ui_offset := 0\<rparr>
      else (let plotWidth = effectiveChartPlotWidth u;
                oldVisible = computeVisiblePoints n plotWidth (ui_zoom u);
                oldOffset = clampInt (ui_offset u) 0 (max 0 (n - oldVisible));
                oldEnd = n - oldOffset;
                oldStart = max 0 (oldEnd - oldVisible);
                oldCenter = oldStart + quot64 oldVisible 2;
                zoom0 = ui_zoom u + delta;
                zoom1 = (if zoom0 < - 6 then - 6 else zoom0);
                zoom2 = (if zoom1 > 12 then 12 else zoom1);
                newVisible = computeVisiblePoints n plotWidth zoom2;
                newStart = clampInt (oldCenter - quot64 newVisible 2) 0 (max 0 (n - newVisible))
            in clampViewport (u\<lparr>ui_zoom := zoom2, ui_offset := n - (newStart + newVisible)\<rparr>)))"

definition panChart :: "int \<Rightarrow> ui \<Rightarrow> ui" where
  "panChart delta u = (if delta = 0 then u else clampViewport (u\<lparr>ui_offset := ui_offset u + delta\<rparr>))"

definition shiftTimeframe :: "int \<Rightarrow> ui \<Rightarrow> ui" where
  "shiftTimeframe delta u =
     (let n = int (length timeframePresets);
          u1 = clampViewport (u\<lparr>ui_timeframe := rem64 (ui_timeframe u + delta + n) n, ui_offset := 0\<rparr>)
      in u1\<lparr>ui_status := StTimeframe (fst (timeframePresets ! nat (ui_timeframe u1)))\<rparr>)"

definition resetViewport :: "ui \<Rightarrow> ui" where
  "resetViewport u = u\<lparr>ui_zoom := 0, ui_offset := 0, ui_status := StViewportReset\<rparr>"

definition panStep :: "ui \<Rightarrow> int" where
  "panStep u =
     (let base = timeframeHistory (current_history u) (preset_duration u)
      in max 1 (quot64 (computeVisiblePoints (int (length base)) (effectiveChartPlotWidth u) (ui_zoom u)) 8))"

text \<open>At most \<open>target\<close> points of a history, evenly spaced.\<close>

definition sampleHistory :: "history_point list \<Rightarrow> int \<Rightarrow> history_point list" where
  "sampleHistory history target =
     (if target \<le> 0 \<or> int (length history) \<le> target then history
      else map (\<lambda>i. history ! nat (quot64 (int i * (int (length history) - 1)) (max 1 (target - 1)))) [0..<nat target])"

definition mapValueToRow :: "f64 \<Rightarrow> f64 \<Rightarrow> f64 \<Rightarrow> int \<Rightarrow> int \<Rightarrow> int" where
  "mapValueToRow value minValue maxValue y1 y2 =
     (let rangeSize = fsub maxValue minValue in
      if rangeSize \<le> 0 then quot64 (y1 + y2) 2
      else (let normal = fdiv (fsub value minValue) rangeSize;
                row = y2 - to_i64 (go_round (fmul normal (of_i64 (y2 - y1))))
            in if row < y1 then y1 else if row > y2 then y2 else row))"

section \<open>The order ticket\<close>

definition openTicket :: "string \<Rightarrow> ui \<Rightarrow> ui" where
  "openTicket side u =
     (let price = (case ui_ticks u (current u) of
                     Some t \<Rightarrow> (if ct_current_price t > 0 then show_fixed2 (ct_current_price t) else ''0.00'')
                   | None \<Rightarrow> ''0.00'')
      in u\<lparr>ui_ticket := \<lparr>ot_active = True, ot_side = side, ot_order_type = ''limit'', ot_price = price,
                          ot_quantity = ''1'', ot_field = 1\<rparr>,
           ui_status := StTicketReady (to_upper side)\<rparr>)"

definition openBookTicket :: "string \<Rightarrow> f64 \<Rightarrow> int \<Rightarrow> ui \<Rightarrow> ui" where
  "openBookTicket side price qty0 u =
     (let qty = (if qty0 \<le> 0 then 1 else qty0)
      in u\<lparr>ui_ticket := \<lparr>ot_active = True, ot_side = side, ot_order_type = ''limit'', ot_price = show_fixed2 price,
                          ot_quantity = show_int qty, ot_field = 2\<rparr>,
           ui_status := StBookTicketReady (to_upper side) qty price\<rparr>)"

definition buildOrderPayload :: "ui \<Rightarrow> ui_error + int \<times> int" where
  "buildOrderPayload u =
     (case parseWholeUnits (ot_quantity (ui_ticket u)) of
        None \<Rightarrow> Inl QuantityInvalid
      | Some qty \<Rightarrow>
          (if qty \<le> 0 then Inl QuantityInvalid
           else if ot_order_type (ui_ticket u) = ''market'' then Inr (0, qty)
           else (case parseMoneyToCents (ot_price (ui_ticket u)) of
                   None \<Rightarrow> Inl PriceInvalid
                 | Some price \<Rightarrow> (if price \<le> 0 then Inl PriceInvalid else Inr (price, qty)))))"

record cost_estimate =
  est_notional :: int
  est_exchange_fee :: int
  est_market_order_surcharge :: int
  est_rapid_flip_tax :: int
  est_total :: int

definition no_estimate :: cost_estimate where
  "no_estimate = \<lparr>est_notional = 0, est_exchange_fee = 0, est_market_order_surcharge = 0, est_rapid_flip_tax = 0, est_total = 0\<rparr>"

definition estimate_price :: "order_ticket \<Rightarrow> f64 \<Rightarrow> int" where
  "estimate_price k price_now =
     (let p = to_i64 (go_round (fmul price_now 100)) in
      if ot_order_type k = ''limit''
      then (case parseMoneyToCents (ot_price k) of None \<Rightarrow> p | Some q \<Rightarrow> (if q > 0 then q else p))
      else p)"

definition estimateTicketCost :: "ui \<Rightarrow> string \<Rightarrow> f64 \<Rightarrow> cost_estimate" where
  "estimateTicketCost u symbol price_now =
     (let k = ui_ticket u; ru = ui_rules u in
      case parseWholeUnits (ot_quantity k) of
        None \<Rightarrow> no_estimate
      | Some qty \<Rightarrow>
          (let price = estimate_price k price_now in
           if qty \<le> 0 \<or> price \<le> 0 then no_estimate
           else (let notional = mul64 price qty;
                     fee = chargeBps notional (ru_exchange_fee_bps ru);
                     surcharge = (if ot_order_type k = ''market'' then chargeBps notional (ru_market_order_surcharge_bps ru) else 0)
                 in if ot_side k = ''sell''
                    then (let fresh = (case ui_portfolio u of None \<Rightarrow> 0
                                       | Some p \<Rightarrow> (case po_fresh_stock p symbol of None \<Rightarrow> 0 | Some n \<Rightarrow> n));
                              tax = chargeBps (mul64 price (min64 qty fresh)) (ru_rapid_flip_tax_bps ru)
                          in \<lparr>est_notional = notional, est_exchange_fee = fee, est_market_order_surcharge = surcharge,
                              est_rapid_flip_tax = tax, est_total = sub64 (sub64 (sub64 notional fee) surcharge) tax\<rparr>)
                    else \<lparr>est_notional = notional, est_exchange_fee = fee, est_market_order_surcharge = surcharge,
                          est_rapid_flip_tax = 0, est_total = add64 (add64 notional fee) surcharge\<rparr>)))"

section \<open>Symbols\<close>

definition normalize_all :: "string list \<Rightarrow> string list" where
  "normalize_all parts =
     foldl (\<lambda>out p. let s = to_upper (trim_space p) in if s = [] \<or> s \<in> set out then out else out @ [s]) [] parts"

text \<open>\<^verbatim>\<open>strings.Split(raw, ",")\<close>.\<close>

fun split_commas :: "string \<Rightarrow> string \<Rightarrow> string list" where
  "split_commas part [] = [part]"
| "split_commas part (c # s) = (if c = CHR '','' then part # split_commas [] s else split_commas (part @ [c]) s)"

definition normalizeSymbols :: "string \<Rightarrow> string list \<Rightarrow> string list" where
  "normalizeSymbols raw fallback =
     (let out = normalize_all (split_commas [] raw) in if out = [] \<and> fallback \<noteq> [] then sort (normalize_all fallback) else out)"

definition mergeFallback :: "string list \<Rightarrow> string list \<Rightarrow> string list" where
  "mergeFallback primary secondary = primary @ secondary"

end
