(* ===== verification/Client.thy ===== *)
theory Client
  imports ClientState
begin

text \<open>
  What the terminal client does with keys, the mouse, the replies to its actions and the messages of its streams.

  An operation returns the state and its effects: actions run in the background, and messages posted to the
  channel the loop itself reads.
\<close>

section \<open>Actions\<close>

definition blank_payload :: payload where
  "blank_payload = \<lparr>pd_empty = False, pd_place = None, pd_cancel = None, pd_chat = None, pd_symbol = [], pd_token = None,
     pd_history = None, pd_leaderboard = None, pd_intel_id = None\<rparr>"

datatype ui_effect = RunAction string payload | PostError ui_error

definition submitOrderAsync :: "ui \<Rightarrow> ui \<times> ui_effect list" where
  "submitOrderAsync u =
     (case buildOrderPayload u of
        Inl e \<Rightarrow> (u, [PostError e])
      | Inr (price, qty) \<Rightarrow>
          (let k = ui_ticket u;
               pl = \<lparr>pp_order_symbol = current u, pp_order_side = ot_side k, pp_order_type = ot_order_type k,
                     pp_order_price = price, pp_order_quantity = qty\<rparr>
           in (u\<lparr>ui_status := StSubmitting (ot_side k), ui_ticket := no_ticket\<rparr>,
               [RunAction ''place_order'' (blank_payload\<lparr>pd_place := Some pl\<rparr>)])))"

definition requestPortfolioAsync :: ui_effect where
  "requestPortfolioAsync = RunAction ''portfolio.get'' blank_payload"

definition requestIntelCatalogAsync :: ui_effect where
  "requestIntelCatalogAsync = RunAction ''intel.catalog'' blank_payload"

definition buyInsiderAsync :: "ui \<Rightarrow> ui \<times> ui_effect list" where
  "buyInsiderAsync u =
     (case ui_offer u of
        None \<Rightarrow> (u\<lparr>ui_status := StLoadingCatalog\<rparr>, [requestIntelCatalogAsync])
      | Some item \<Rightarrow>
          (u\<lparr>ui_status := StBuyingInsider (moneyValue (ci_price item))\<rparr>,
           [RunAction ''intel.buy'' (blank_payload\<lparr>pd_intel_id := Some (ci_id item)\<rparr>)]))"

text \<open>
  Running an action: up to three attempts, each a new request with an identifier made from the clock. What becomes
  of an attempt is up to the network: a failed call may have been executed by the server.
\<close>

datatype rpc_code = DeadlineExceeded | Unavailable | Canceled | OtherCode

datatype attempt = DialFailed rpc_code | CallFailed rpc_code | Answered action_response

definition shouldRetryAction :: "rpc_code \<Rightarrow> bool" where
  "shouldRetryAction e \<longleftrightarrow> e = DeadlineExceeded \<or> e = Unavailable \<or> e = Canceled"

definition action_request_of :: "string \<Rightarrow> string \<Rightarrow> payload \<Rightarrow> time \<Rightarrow> action_request" where
  "action_request_of pid action pl now =
     \<lparr>rq_request_id = ''ui-'' @ show_int now, rq_player_id = pid, rq_action_id = action, rq_payload = pl\<rparr>"

datatype action_outcome = Reply action_response | Refused action_response | NoAnswer rpc_code

fun run_attempts ::
  "nat \<Rightarrow> string \<Rightarrow> string \<Rightarrow> payload \<Rightarrow> (nat \<Rightarrow> time) \<Rightarrow> (nat \<Rightarrow> attempt) \<Rightarrow> nat \<Rightarrow> rpc_code \<Rightarrow> action_outcome \<times> action_request list" where
  "run_attempts 0 pid action pl clk net i e = (NoAnswer e, [])"
| "run_attempts (Suc n) pid action pl clk net i e =
     (let rq = action_request_of pid action pl (clk i) in
      case net i of
        Answered r \<Rightarrow> (if ar_status r \<noteq> ''ok'' then Refused r else Reply r, [rq])
      | CallFailed e' \<Rightarrow>
          (if shouldRetryAction e'
           then (case run_attempts n pid action pl clk net (Suc i) e' of (out, rqs) \<Rightarrow> (out, rq # rqs))
           else (NoAnswer e', [rq]))
      | DialFailed e' \<Rightarrow> (if shouldRetryAction e' then run_attempts n pid action pl clk net (Suc i) e' else (NoAnswer e', [])))"

definition executeActionJSON ::
  "string \<Rightarrow> string \<Rightarrow> payload \<Rightarrow> (nat \<Rightarrow> time) \<Rightarrow> (nat \<Rightarrow> attempt) \<Rightarrow> action_outcome \<times> action_request list" where
  "executeActionJSON pid action pl clk net = run_attempts 3 pid action pl clk net 0 OtherCode"

text \<open>Replies; the server modelled here has no \<^verbatim>\<open>market.rules\<close> action, so that reply is a constructor of its own.\<close>

datatype ui_reply = RulesReply trade_rules | ServerReply reply

definition take_portfolio :: "portfolio_snapshot \<Rightarrow> ui \<Rightarrow> ui" where
  "take_portfolio p u = u\<lparr>ui_portfolio := Some p, ui_rules := po_rules p\<rparr>"

definition applyActionResponse :: "string \<Rightarrow> ui_reply \<Rightarrow> ui \<Rightarrow> ui" where
  "applyActionResponse action r u =
     (if action = ''market.rules''
      then (case r of RulesReply rules \<Rightarrow> u\<lparr>ui_rules := rules, ui_status := StRulesLoaded\<rparr> | _ \<Rightarrow> u\<lparr>ui_status := StActionCompleted\<rparr>)
      else if action = ''portfolio.get''
      then (case r of
              ServerReply (PortfolioReply p) \<Rightarrow> (take_portfolio p u)\<lparr>ui_status := StPortfolioRefreshed (moneyValue (po_available_cash p))\<rparr>
            | _ \<Rightarrow> u\<lparr>ui_status := StActionCompleted\<rparr>)
      else if action = ''intel.catalog''
      then (let items = (case r of ServerReply (IntelCatalogReply l) \<Rightarrow> l | _ \<Rightarrow> []) in
            case find (\<lambda>i. ci_kind i = KindInsider) items of
              Some i \<Rightarrow> u\<lparr>ui_offer := Some i, ui_status := StInsiderReady (moneyValue (ci_price i))\<rparr>
            | None \<Rightarrow> u\<lparr>ui_offer := None, ui_status := StCatalogLoaded\<rparr>)
      else if action = ''place_order''
      then (case r of
              ServerReply (PlaceOrderReply _ p) \<Rightarrow> (take_portfolio p u)\<lparr>ui_status := StOrderAccepted\<rparr>
            | _ \<Rightarrow> u\<lparr>ui_status := StOrderAccepted\<rparr>)
      else if action = ''intel.buy''
      then (case r of
              ServerReply (IntelBuyReply _ cost p pl) \<Rightarrow>
                (take_portfolio p u)\<lparr>ui_status :=
                   (case pl of
                      ArmedForFuture _ _ \<Rightarrow> StInsiderArmedNext (moneyValue cost)
                    | ArmedForScheduled _ ev _ _ \<Rightarrow>
                        (if pl_scheduled_at ev \<noteq> zero_time then StInsiderArmedBefore (pl_scheduled_at ev)
                         else StInsiderArmedNext (moneyValue cost))
                    | InsiderPreview _ \<Rightarrow> StPreviewDelivered
                    | AnalyticsReport _ \<Rightarrow> StIntelPurchased (moneyValue cost))\<rparr>
            | _ \<Rightarrow> u\<lparr>ui_status := StIntelPurchased (moneyValue 0)\<rparr>)
      else u\<lparr>ui_status := StActionCompleted\<rparr>)"

section \<open>Chat\<close>

definition scrollChat :: "int \<Rightarrow> ui \<Rightarrow> ui" where
  "scrollChat delta u = u\<lparr>ui_chat_scroll := (if ui_chat_scroll u + delta < 0 then 0 else ui_chat_scroll u + delta)\<rparr>"

definition appendChatEntry :: "chat_entry \<Rightarrow> ui \<Rightarrow> ui" where
  "appendChatEntry e u =
     u\<lparr>ui_chat_lines := keep_last 500 (ui_chat_lines u @ [e]),
       ui_chat_scroll := (if ui_chat_scroll u > 0 then ui_chat_scroll u + 1 else ui_chat_scroll u)\<rparr>"

text \<open>\<^verbatim>\<open>strings.Fields\<close>.\<close>

fun split_fields :: "string \<Rightarrow> string \<Rightarrow> string list" where
  "split_fields part [] = (if part = [] then [] else [part])"
| "split_fields part (c # s) =
     (if is_space c then (if part = [] then split_fields [] s else part # split_fields [] s)
      else split_fields (part @ [c]) s)"

definition join_spaces :: "string list \<Rightarrow> string" where
  "join_spaces ps = (case ps of [] \<Rightarrow> [] | p # qs \<Rightarrow> p @ concat (map (\<lambda>q. CHR '' '' # q) qs))"

definition buildChatPayload :: "string \<Rightarrow> ui_error + ((string \<times> string) \<times> ui_status)" where
  "buildChatPayload input =
     (let text = trim_space input; parts = split_fields [] text in
      if text = [] then Inl MessageEmpty
      else if length parts \<ge> 3 \<and> parts ! 0 \<in> {''/w'', ''/dm'', ''/msg''}
      then (let body = trim_space (join_spaces (drop 2 parts)) in
            if body = [] then Inl DirectBodyEmpty else Inr ((body, parts ! 1), StSendingDirect (parts ! 1)))
      else Inr ((text, []), StSendingChat))"

definition submitChatAsync :: "ui \<Rightarrow> ui \<times> ui_effect list" where
  "submitChatAsync u =
     (case buildChatPayload (ui_chat_input u) of
        Inl e \<Rightarrow> (u, [PostError e])
      | Inr (pl, label) \<Rightarrow>
          (u\<lparr>ui_chat_input := [], ui_status := label\<rparr>, [RunAction ''chat.send'' (blank_payload\<lparr>pd_chat := Some pl\<rparr>)]))"

definition copyPlayerIDIntoChat :: "bool \<Rightarrow> chat_name_rect \<Rightarrow> ui \<Rightarrow> ui" where
  "copyPlayerIDIntoChat clipboard_ok rect u =
     u\<lparr>ui_chat_input := ''/dm '' @ nr_player_id rect @ '' '', ui_chat_focus := True,
       ui_status := (if nr_player_id rect = [] then StFocusFor (nr_username rect)
                     else if \<not> clipboard_ok then StPreparedDirect (nr_username rect) (nr_player_id rect)
                     else StCopiedDirect (nr_username rect))\<rparr>"

text \<open>\<open>clock_text\<close> is a time of day in the local time zone.\<close>

definition choosePreviewTime :: "time \<Rightarrow> insider_preview \<Rightarrow> time" where
  "choosePreviewTime now p = (if ip_previewed_at p \<noteq> zero_time then ip_previewed_at p else now)"

definition insider_entry :: "(time \<Rightarrow> string) \<Rightarrow> time \<Rightarrow> string \<Rightarrow> insider_preview \<Rightarrow> chat_entry" where
  "insider_entry clock_text now topic p =
     \<lparr>cm_type = ''intel.insider.preview'', cm_channel = ''direct'', cm_player_id = ''system'', cm_username = ''insider-feed'',
      cm_role = ''Intel'',
      cm_body = (if pl_scheduled_at (ip_event p) \<noteq> zero_time
                 then ip_message p @ '' | event at '' @ clock_text (pl_scheduled_at (ip_event p)) else ip_message p),
      cm_recipient_id = [], cm_recipient_username = [], cm_sent_at = choosePreviewTime now p, ln_topic = topic\<rparr>"

definition decodeChatEntry :: "(time \<Rightarrow> string) \<Rightarrow> time \<Rightarrow> string \<Rightarrow> body \<Rightarrow> chat_entry option" where
  "decodeChatEntry clock_text now topic b =
     (let as_chat = (\<lambda>m. if trim_space (cm_body m) \<noteq> [] then Some (chat_message.extend m \<lparr>ln_topic = topic\<rparr>) else None) in
      case b of
        ChatBody m \<Rightarrow> as_chat m
      | PrivateBody (PrivateChat m) \<Rightarrow> as_chat m
      | PrivateBody (PrivateIntel (InsiderPreview p)) \<Rightarrow>
          (if topic \<noteq> ''private'' \<or> trim_space (ip_message p) = [] then None else Some (insider_entry clock_text now topic p))
      | _ \<Rightarrow> None)"

section \<open>Market events\<close>

definition decodeMarketEvent :: "market_msg \<Rightarrow> event_payload option" where
  "decodeMarketEvent m =
     (case m of
        MarketEvent e \<Rightarrow> (if trim_space (ev_message e) = [] \<and> trim_space (ev_name e) = [] then None else Some e)
      | _ \<Rightarrow> None)"

definition activateMarketEvent :: "time \<Rightarrow> event_payload \<Rightarrow> ui \<Rightarrow> ui" where
  "activateMarketEvent now e u =
     (let t1 = trim_space (ev_message e); text = (if t1 = [] then trim_space (ev_name e) else t1) in
      if text = [] then u
      else u\<lparr>ui_banner := Some \<lparr>bn_text = text, bn_started_at = now, bn_expires_at = now + 10 * second\<rparr>,
             ui_status := StMarketEvent text\<rparr>)"

definition bannerActive :: "time \<Rightarrow> ui \<Rightarrow> bool \<times> ui" where
  "bannerActive now u =
     (case ui_banner u of
        None \<Rightarrow> (False, u)
      | Some b \<Rightarrow> (if \<not> now < bn_expires_at b then (False, u\<lparr>ui_banner := None\<rparr>) else (True, u)))"

definition bannerOffset :: "time \<Rightarrow> ui \<Rightarrow> int \<times> ui" where
  "bannerOffset now u = (case bannerActive now u of (b, u') \<Rightarrow> (if b then 1 else 0, u'))"

definition marqueeText :: "string \<Rightarrow> int \<Rightarrow> duration \<Rightarrow> string" where
  "marqueeText text width elapsed =
     (let base0 = trim_space text; base = (if base0 = [] then ''market event'' else base0);
          content = ''  MARKET EVENT  '' @ base @ ''   ''; n = length content;
          shift = quot64 elapsed (120 * 1000000); start = nat (rem64 shift (int n));
          need = nat (max (width * 3) (int n * 4));
          repeated = concat (replicate ((need + n - 1) div n) content);
          stop = min (start + nat (max 1 (width - 2))) (length repeated)
      in take (stop - start) (drop start repeated))"

section \<open>Keys\<close>

datatype key =
    KeyCtrlC | KeyEscape | KeyLeft | KeyRight | KeyUp | KeyDown | KeyHome | KeyEnd | KeyPgUp | KeyPgDn | KeyTab | KeyEnter
  | KeyBackspace | KeyRune char | KeyOther

definition handleChatKeyEvent :: "key \<Rightarrow> ui \<Rightarrow> ui \<times> ui_effect list" where
  "handleChatKeyEvent k u =
     (case k of
        KeyEscape \<Rightarrow> (u\<lparr>ui_chat_focus := False, ui_status := StChatClosed\<rparr>, [])
      | KeyEnter \<Rightarrow> submitChatAsync u
      | KeyBackspace \<Rightarrow> (u\<lparr>ui_chat_input := butlast (ui_chat_input u)\<rparr>, [])
      | KeyTab \<Rightarrow> (u\<lparr>ui_chat_focus := False, ui_status := StChatClosed\<rparr>, [])
      | KeyPgUp \<Rightarrow> (scrollChat 5 u, [])
      | KeyPgDn \<Rightarrow> (scrollChat (- 5) u, [])
      | KeyUp \<Rightarrow> (scrollChat 1 u, [])
      | KeyDown \<Rightarrow> (scrollChat (- 1) u, [])
      | KeyHome \<Rightarrow> (u\<lparr>ui_chat_scroll := 999999\<rparr>, [])
      | KeyEnd \<Rightarrow> (u\<lparr>ui_chat_scroll := 0\<rparr>, [])
      | KeyRune r \<Rightarrow> (if of_char r \<ge> (32 :: nat) then u\<lparr>ui_chat_input := ui_chat_input u @ [r]\<rparr> else u, [])
      | _ \<Rightarrow> (u, []))"

definition ticket_rune :: "char \<Rightarrow> order_ticket \<Rightarrow> order_ticket" where
  "ticket_rune r k =
     (if ot_field k = 0 \<and> r \<in> {CHR ''m'', CHR ''M''} then k\<lparr>ot_order_type := ''market''\<rparr>
      else if ot_field k = 0 \<and> r \<in> {CHR ''l'', CHR ''L''} then k\<lparr>ot_order_type := ''limit''\<rparr>
      else if ot_field k = 1 \<and> (is_digit r \<or> r = CHR ''.'') then k\<lparr>ot_price := ot_price k @ [r]\<rparr>
      else if ot_field k = 2 \<and> is_digit r then k\<lparr>ot_quantity := ot_quantity k @ [r]\<rparr>
      else k)"

definition handleTicketKeyEvent :: "key \<Rightarrow> ui \<Rightarrow> ui \<times> ui_effect list" where
  "handleTicketKeyEvent key u =
     (let k = ui_ticket u in
      case key of
        KeyEscape \<Rightarrow> (u\<lparr>ui_ticket := no_ticket, ui_status := StTicketClosed\<rparr>, [])
      | KeyTab \<Rightarrow> (u\<lparr>ui_ticket := k\<lparr>ot_field := rem64 (ot_field k + 1) 3\<rparr>\<rparr>, [])
      | KeyBackspace \<Rightarrow>
          (if ot_field k = 1 then u\<lparr>ui_ticket := k\<lparr>ot_price := butlast (ot_price k)\<rparr>\<rparr>
           else if ot_field k = 2 then u\<lparr>ui_ticket := k\<lparr>ot_quantity := butlast (ot_quantity k)\<rparr>\<rparr>
           else u, [])
      | KeyEnter \<Rightarrow> submitOrderAsync u
      | KeyRune r \<Rightarrow>
          (if r \<in> {CHR ''q'', CHR ''Q''} then u\<lparr>ui_ticket := no_ticket, ui_status := StTicketClosed\<rparr>
           else u\<lparr>ui_ticket := ticket_rune r k\<rparr>, [])
      | _ \<Rightarrow> (u, []))"

definition select_number :: "nat \<Rightarrow> ui \<Rightarrow> ui" where
  "select_number i u =
     (if i < length (ui_symbols u)
      then (let u1 = clampViewport (u\<lparr>ui_selected := int i, ui_offset := 0\<rparr>) in u1\<lparr>ui_status := StSelected (current u1)\<rparr>)
      else u)"

definition rune_command :: "char \<Rightarrow> ui \<Rightarrow> bool \<times> ui \<times> ui_effect list" where
  "rune_command r u =
     (if r \<in> {CHR ''q'', CHR ''Q''} then (False, u, [])
      else (True,
        (if r \<in> {CHR ''h'', CHR ''H''} then (moveSelection (- 1) u, [])
         else if r \<in> {CHR ''l'', CHR ''L''} then (moveSelection 1 u, [])
         else if of_char r \<ge> (49 :: nat) \<and> of_char r \<le> (56 :: nat) then (select_number (of_char r - 49) u, [])
         else if r \<in> {CHR ''+'', CHR ''=''} then (zoomChart 1 u, [])
         else if r \<in> {CHR ''-'', CHR ''_''} then (zoomChart (- 1) u, [])
         else if r \<in> {CHR ''a'', CHR ''A''} then (panChart (panStep u) u, [])
         else if r \<in> {CHR ''d'', CHR ''D''} then (panChart (- panStep u) u, [])
         else if r = CHR ''0'' then (resetViewport u, [])
         else if r \<in> {CHR ''['', CHR ''{'', CHR ''w'', CHR ''W''} then (shiftTimeframe (- 1) u, [])
         else if r \<in> {CHR '']'', CHR ''}'', CHR ''t'', CHR ''T''} then (shiftTimeframe 1 u, [])
         else if r \<in> {CHR ''b'', CHR ''B''} then (openTicket ''buy'' u, [])
         else if r \<in> {CHR ''s'', CHR ''S''} then (openTicket ''sell'' u, [])
         else if r \<in> {CHR ''r'', CHR ''R''} then (u, [requestPortfolioAsync])
         else if r \<in> {CHR ''i'', CHR ''I''} then buyInsiderAsync u
         else (u, []))))"

definition handleKeyEvent :: "key \<Rightarrow> ui \<Rightarrow> bool \<times> ui \<times> ui_effect list" where
  "handleKeyEvent k u =
     (if ot_active (ui_ticket u) then (True, handleTicketKeyEvent k u)
      else if ui_chat_focus u then (True, handleChatKeyEvent k u)
      else (case k of
              KeyCtrlC \<Rightarrow> (False, u, [])
            | KeyEscape \<Rightarrow> (False, u, [])
            | KeyLeft \<Rightarrow> (True, moveSelection (- 1) u, [])
            | KeyRight \<Rightarrow> (True, moveSelection 1 u, [])
            | KeyUp \<Rightarrow> (True, zoomChart 1 u, [])
            | KeyDown \<Rightarrow> (True, zoomChart (- 1) u, [])
            | KeyHome \<Rightarrow> (True, resetViewport u, [])
            | KeyPgUp \<Rightarrow> (True, panChart (panStep u) u, [])
            | KeyPgDn \<Rightarrow> (True, panChart (- panStep u) u, [])
            | KeyRune r \<Rightarrow> rune_command r u
            | _ \<Rightarrow> (True, u, [])))"

section \<open>The mouse\<close>

datatype mouse_button = WheelUp | WheelDown | Button1 | NoButton

definition in_rect :: "int \<Rightarrow> int \<Rightarrow> int \<Rightarrow> int \<Rightarrow> int \<Rightarrow> int \<Rightarrow> bool" where
  "in_rect x y x1 y1 x2 y2 \<longleftrightarrow> x \<ge> x1 \<and> x \<le> x2 \<and> y \<ge> y1 \<and> y \<le> y2"

definition in_ticker :: "int \<Rightarrow> int \<Rightarrow> ticker_rect \<Rightarrow> bool" where
  "in_ticker x y r = in_rect x y (tr_x1 r) (tr_y1 r) (tr_x2 r) (tr_y2 r)"

definition in_level :: "int \<Rightarrow> int \<Rightarrow> orderbook_rect \<Rightarrow> bool" where
  "in_level x y r = in_rect x y (or_x1 r) (or_y1 r) (or_x2 r) (or_y2 r)"

definition in_name :: "int \<Rightarrow> int \<Rightarrow> chat_name_rect \<Rightarrow> bool" where
  "in_name x y r = in_rect x y (nr_x1 r) (nr_y1 r) (nr_x2 r) (nr_y2 r)"

fun hit_ticker :: "int \<Rightarrow> int \<Rightarrow> int \<Rightarrow> ticker_rect list \<Rightarrow> (int \<times> ticker_rect) option" where
  "hit_ticker x y i [] = None"
| "hit_ticker x y i (r # rs) = (if in_ticker x y r then Some (i, r) else hit_ticker x y (i + 1) rs)"

definition handleMouseEvent :: "bool \<Rightarrow> int \<Rightarrow> int \<Rightarrow> mouse_button \<Rightarrow> ui \<Rightarrow> ui \<times> ui_effect list" where
  "handleMouseEvent clipboard_ok x y button u =
     (let insideChat = in_ticker x y (ui_chat_rect u) in
      case button of
        WheelUp \<Rightarrow> (if insideChat then scrollChat 3 u else zoomChart 1 u, [])
      | WheelDown \<Rightarrow> (if insideChat then scrollChat (- 3) u else zoomChart (- 1) u, [])
      | NoButton \<Rightarrow> (u, [])
      | Button1 \<Rightarrow>
          (if insideChat
           then (case find (in_name x y) (ui_chat_name_rects u) of
                   Some r \<Rightarrow> (copyPlayerIDIntoChat clipboard_ok r u, [])
                 | None \<Rightarrow> (u\<lparr>ui_chat_focus := True, ui_status := StChatFocused\<rparr>, []))
           else if tr_x2 (ui_insider_rect u) > tr_x1 (ui_insider_rect u) \<and> in_ticker x y (ui_insider_rect u) then buyInsiderAsync u
           else (case find (in_level x y) (ui_orderbook_rects u) of
                   Some r \<Rightarrow> (openBookTicket (if or_side r = ''ask'' then ''buy'' else ''sell'') (or_price r) (or_quantity r) u, [])
                 | None \<Rightarrow>
                     (case hit_ticker x y 0 (ui_ticker_rects u) of
                        Some (i, r) \<Rightarrow>
                          ((clampViewport (u\<lparr>ui_selected := i, ui_offset := 0\<rparr>))\<lparr>ui_status := StSelectedByMouse (tr_symbol r)\<rparr>, [])
                      | None \<Rightarrow> (u, [])))))"

end
