(* ===== verification/Session.thy ===== *)
theory Session
  imports Client
begin

text \<open>
  How a player gets from an SSH login to a running client: the lines the SSH gateway prints
  (\<^verbatim>\<open>cmd/ssh-server\<close>), what the client reads from them (\<^verbatim>\<open>internal/client/bootstrap.go\<close>), the profile it
  keeps (\<^verbatim>\<open>internal/client/profile.go\<close>) and how \<^verbatim>\<open>resolveConfig\<close> chooses player, server and tickers.

  A line of the gateway is text or the JSON text of one of its messages, kept as the message. Text that happens to
  be JSON itself is not modelled, nor is the limit of 64 KB of a scanned line. The network is in the outcomes of a
  launch: an SSH session, and for each address the outcome of an action call.
\<close>

section \<open>The SSH gateway\<close>

record install_message =
  im_player_id :: string
  im_ssh_endpoint :: string
  im_grpc_endpoint :: string
  im_token :: string
  im_powershell_binary :: string
  im_powershell_script :: string
  im_shell :: string
  im_launch_args :: string

datatype gateway_line = TextLine string | BootstrapLine ensured_player | BadBootstrapLine | InstallLine install_message | OtherJSON string

definition passwordHandler :: "string \<Rightarrow> bool" where
  "passwordHandler password \<longleftrightarrow> length password \<ge> 12"

datatype credential = Password string | PublicKey

definition authenticated :: "credential \<Rightarrow> bool" where
  "authenticated cr = (case cr of Password w \<Rightarrow> passwordHandler w | PublicKey \<Rightarrow> True)"

definition envOr :: "string option \<Rightarrow> string \<Rightarrow> string" where
  "envOr value fallback = (case value of Some v \<Rightarrow> (if trim_space v \<noteq> [] then v else fallback) | None \<Rightarrow> fallback)"

text \<open>The commands that download and start the client. \<open>quoted\<close> puts a text between apostrophes, as it is.\<close>

record install_urls =
  iu_ps1 :: string
  iu_sh :: string
  iu_exe :: string

definition quoted :: "string \<Rightarrow> string" where
  "quoted s = CHR 0x27 # s @ [CHR 0x27]"

definition launch_args :: "(string \<Rightarrow> string) \<Rightarrow> string \<Rightarrow> string \<Rightarrow> string \<Rightarrow> string \<Rightarrow> string" where
  "launch_args q ssh grpc user token =
     ''--ssh '' @ q ssh @ '' --grpc '' @ q grpc @ '' --user '' @ q user @ '' --bootstrap-token '' @ q token"

definition powershell_binary :: "install_urls \<Rightarrow> string \<Rightarrow> string" where
  "powershell_binary urls args =
     ''$dir=Join-Path $HOME '' @ quoted (''.ssh-arena'' @ CHR 0x5C # ''bin'') @
     ''; New-Item -ItemType Directory -Force -Path $dir | Out-Null; $exe=Join-Path $dir '' @ quoted ''game-client.exe'' @
     ''; irm '' @ quoted (iu_exe urls) @ '' -OutFile $exe; & $exe '' @ args"

definition powershell_script :: "install_urls \<Rightarrow> string \<Rightarrow> string \<Rightarrow> string \<Rightarrow> string \<Rightarrow> string" where
  "powershell_script urls ssh grpc user token =
     ''$tmp=Join-Path $env:TEMP '' @ quoted ''ssh-arena-install.ps1'' @ ''; irm '' @ quoted (iu_ps1 urls) @
     '' -OutFile $tmp; & $tmp -ClientArgs @('' @ quoted ''--ssh'' @ '','' @ quoted ssh @ '','' @ quoted ''--grpc'' @ '','' @ quoted grpc @
     '','' @ quoted ''--user'' @ '','' @ quoted user @ '','' @ quoted ''--bootstrap-token'' @ '','' @ quoted token @ '')''"

definition shell_command :: "install_urls \<Rightarrow> string \<Rightarrow> string" where
  "shell_command urls args =
     ''tmp='' @ CHR 0x22 # ''$(mktemp)'' @ CHR 0x22 # ''; curl -fsSL '' @ quoted (iu_sh urls) @ '' -o '' @ CHR 0x22 # ''$tmp'' @ CHR 0x22 #
     ''; sh '' @ CHR 0x22 # ''$tmp'' @ CHR 0x22 # '' '' @ args"

text \<open>\<open>describe\<close> is the text of an error of the call.\<close>

definition sessionHandler ::
  "install_urls \<Rightarrow> (game_error \<Rightarrow> string) \<Rightarrow> string \<Rightarrow> string \<Rightarrow> string \<Rightarrow> game_error + ensured_player \<Rightarrow> gateway_line list" where
  "sessionHandler urls describe grpcPublicAddr sshPublicAddr user resp =
     (case resp of
        Inl e \<Rightarrow> [TextLine (''bootstrap failed: '' @ describe e)]
      | Inr en \<Rightarrow>
          (let args = launch_args quoted sshPublicAddr grpcPublicAddr user (en_token en) in
          [TextLine (''welcome, '' @ user), TextLine (''ssh_endpoint='' @ sshPublicAddr), TextLine (''grpc_endpoint='' @ grpcPublicAddr),
           BootstrapLine en,
           InstallLine \<lparr>im_player_id = p_id (en_player en), im_ssh_endpoint = sshPublicAddr, im_grpc_endpoint = grpcPublicAddr,
                        im_token = en_token en, im_powershell_binary = powershell_binary urls args,
                        im_powershell_script = powershell_script urls sshPublicAddr grpcPublicAddr user (en_token en),
                        im_shell = shell_command urls args,
                        im_launch_args = launch_args (\<lambda>s. s) sshPublicAddr grpcPublicAddr user (en_token en)\<rparr>,
           OtherJSON ''ssh.bootstrap.complete'', TextLine ''disconnecting from SSH bootstrap gateway'']))"

text \<open>A login: the handshake, then the session, which makes sure the player exists. \<open>None\<close> is a refused
  password; any public key will do.\<close>

definition gateway_session ::
  "install_urls \<Rightarrow> (game_error \<Rightarrow> string) \<Rightarrow> string \<Rightarrow> string \<Rightarrow> call \<Rightarrow> string \<Rightarrow> credential \<Rightarrow> service \<Rightarrow> gateway_line list option \<times> service" where
  "gateway_session urls describe grpcPublicAddr sshPublicAddr c user cr s =
     (if \<not> authenticated cr then (None, s)
      else (case rpc_EnsurePlayer c user s of
              (resp, s') \<Rightarrow> (Some (sessionHandler urls describe grpcPublicAddr sshPublicAddr user resp), s')))"

section \<open>Reading the gateway\<close>

record bootstrap_info =
  bi_grpc_endpoint :: string
  bi_player_id :: string
  bi_username :: string
  bi_role :: string
  bi_cash :: int
  bi_portfolio :: "string \<rightharpoonup> int"

definition no_bootstrap :: bootstrap_info where
  "no_bootstrap = \<lparr>bi_grpc_endpoint = [], bi_player_id = [], bi_username = [], bi_role = [], bi_cash = 0, bi_portfolio = Map.empty\<rparr>"

datatype bootstrap_error =
    SSHAddressRequired | SSHUsernameRequired | SSHPasswordRequired | SSHDialFailed | SSHSessionFailed | SSHReadFailed
  | SSHCancelled | DecodeBootstrapFailed | NoPlayerID

definition read_text :: "string \<Rightarrow> bootstrap_info \<Rightarrow> bootstrap_info" where
  "read_text text info =
     (let line = trim_space text in
      if line = [] then info
      else (case strip ''grpc_endpoint='' line of Some rest \<Rightarrow> info\<lparr>bi_grpc_endpoint := trim_space rest\<rparr> | None \<Rightarrow> info))"

text \<open>Decoding into \<open>info\<close>: a map of a JSON object is added to the one that is there.\<close>

definition read_bootstrap :: "ensured_player \<Rightarrow> bootstrap_info \<Rightarrow> bootstrap_info" where
  "read_bootstrap en info =
     (let p = en_player en
      in info\<lparr>bi_player_id := p_id p, bi_username := p_username p, bi_role := p_role p, bi_cash := p_cash p,
              bi_portfolio := bi_portfolio info ++ p_portfolio p\<rparr>)"

text \<open>A text is cut into lines by the scanner.\<close>

fun split_lines :: "string \<Rightarrow> string \<Rightarrow> string list" where
  "split_lines part [] = [part]"
| "split_lines part (c # s) = (if c = newline then part # split_lines [] s else split_lines (part @ [c]) s)"

definition read_block :: "string \<Rightarrow> bootstrap_info \<Rightarrow> bootstrap_info" where
  "read_block text info = foldl (\<lambda>i line. read_text line i) info (split_lines [] text)"

fun read_lines :: "gateway_line list \<Rightarrow> bootstrap_info \<Rightarrow> bootstrap_error + bootstrap_info" where
  "read_lines [] info = Inr info"
| "read_lines (TextLine t # ls) info = read_lines ls (read_block t info)"
| "read_lines (BootstrapLine en # ls) info = read_lines ls (read_bootstrap en info)"
| "read_lines (BadBootstrapLine # ls) info = Inl DecodeBootstrapFailed"
| "read_lines (InstallLine m # ls) info = read_lines ls info"
| "read_lines (OtherJSON t # ls) info = read_lines ls info"

definition parseBootstrapOutput :: "gateway_line list \<Rightarrow> bootstrap_error + bootstrap_info" where
  "parseBootstrapOutput raw =
     (case read_lines raw no_bootstrap of
        Inl e \<Rightarrow> Inl e
      | Inr info \<Rightarrow> (if bi_player_id info = [] then Inl NoPlayerID else Inr info))"

datatype ssh_outcome = DialFails | SessionFails | ReadFails | ContextDone | Printed "gateway_line list"

definition BootstrapViaSSH ::
  "(string \<Rightarrow> string \<Rightarrow> string \<Rightarrow> ssh_outcome) \<Rightarrow> string \<Rightarrow> string \<Rightarrow> string \<Rightarrow> bootstrap_error + bootstrap_info" where
  "BootstrapViaSSH ssh addr username password =
     (if trim_space addr = [] then Inl SSHAddressRequired
      else if trim_space username = [] then Inl SSHUsernameRequired
      else if password = [] then Inl SSHPasswordRequired
      else (case ssh addr username password of
              DialFails \<Rightarrow> Inl SSHDialFailed
            | SessionFails \<Rightarrow> Inl SSHSessionFailed
            | ReadFails \<Rightarrow> Inl SSHReadFailed
            | ContextDone \<Rightarrow> Inl SSHCancelled
            | Printed raw \<Rightarrow> parseBootstrapOutput raw))"

section \<open>The profile\<close>

record client_profile =
  pf_version :: int
  pf_ssh_addr :: string
  pf_grpc_addr :: string
  pf_username :: string
  pf_player_id :: string
  pf_symbols :: "string list"
  pf_last_ticker :: string
  pf_updated_at :: time

definition no_profile :: client_profile where
  "no_profile = \<lparr>pf_version = 0, pf_ssh_addr = [], pf_grpc_addr = [], pf_username = [], pf_player_id = [], pf_symbols = [],
     pf_last_ticker = [], pf_updated_at = zero_time\<rparr>"

definition normalizeProfileSymbols :: "string list \<Rightarrow> string list" where
  "normalizeProfileSymbols symbols =
     sort (foldl (\<lambda>out s. if s = [] \<or> s \<in> set out then out else out @ [s]) [] symbols)"

definition LoadProfile :: "client_profile disk \<Rightarrow> store_error + client_profile option" where
  "LoadProfile d =
     (case main_file d of
        NoFile \<Rightarrow> Inr None
      | UnreadableFile \<Rightarrow> Inl ReadError
      | EmptyFile \<Rightarrow> Inl DecodeError
      | UndecodableFile \<Rightarrow> Inl DecodeError
      | Content p \<Rightarrow> Inr (Some (p\<lparr>pf_symbols := normalizeProfileSymbols (pf_symbols p)\<rparr>)))"

definition SaveProfile :: "io_fault option \<Rightarrow> time \<Rightarrow> client_profile \<Rightarrow> client_profile disk \<Rightarrow> store_error option \<times> client_profile disk" where
  "SaveProfile io now p d =
     persist io (p\<lparr>pf_version := 1, pf_symbols := normalizeProfileSymbols (pf_symbols p), pf_updated_at := now\<rparr>) d"

section \<open>Starting the client\<close>

record config =
  cf_ssh_addr :: string
  cf_username :: string
  cf_password :: string
  cf_token :: string
  cf_grpc_addr :: string
  cf_player_id :: string
  cf_reset_profile :: bool
  cf_symbols :: "string list"
  cf_initial :: string

definition default_flags :: config where
  "default_flags = \<lparr>cf_ssh_addr = ''localhost:2222'', cf_username = [], cf_password = [], cf_token = [], cf_grpc_addr = [],
     cf_player_id = [], cf_reset_profile = False, cf_symbols = [], cf_initial = []\<rparr>"

text \<open>What the terminal answers; \<open>None\<close> is a failed read.\<close>

record prompt =
  pt_terminal :: bool
  pt_ssh_addr :: "string option"
  pt_username :: "string option"
  pt_password :: "string option"

text \<open>What a launch finds outside: the terminal, an SSH session per address, user and password, and the outcomes of
  the two action calls, the exchange of a token and the catalogue.\<close>

record launch =
  la_prompt :: prompt
  la_ssh :: "string \<Rightarrow> string \<Rightarrow> string \<Rightarrow> ssh_outcome"
  la_exchange :: "string \<Rightarrow> string \<Rightarrow> action_outcome"
  la_catalog :: "string \<Rightarrow> string \<Rightarrow> action_outcome"
  la_portfolio_range :: "(string \<rightharpoonup> int) \<Rightarrow> string list"
  la_path_ok :: bool
  la_remove_ok :: bool
  la_io :: "io_fault option"
  la_now :: time

datatype resolve_error =
    NoProfilePath | ProfileBroken store_error | NotATerminal | PromptFailed | CredentialsRequired
  | SSHFailed bootstrap_error | ExchangeFailed | NoSymbols

definition promptBootstrapCredentials :: "prompt \<Rightarrow> config \<Rightarrow> resolve_error + config" where
  "promptBootstrapCredentials pt cf =
     (if \<not> pt_terminal pt then Inl NotATerminal
      else (case pt_ssh_addr pt of
              None \<Rightarrow> Inl PromptFailed
            | Some raw \<Rightarrow>
                (let dflt = (if trim_space (cf_ssh_addr cf) = [] then ''localhost:2222'' else trim_space (cf_ssh_addr cf));
                     cf1 = cf\<lparr>cf_ssh_addr := (if trim_space raw = [] then dflt else trim_space raw)\<rparr>;
                     named = (if trim_space (cf_username cf1) = []
                              then map_option (\<lambda>u. cf1\<lparr>cf_username := trim_space u\<rparr>) (pt_username pt) else Some cf1)
                 in (case named of
                       None \<Rightarrow> Inl PromptFailed
                     | Some cf2 \<Rightarrow>
                         (case (if cf_password cf2 = []
                                then map_option (\<lambda>w. cf2\<lparr>cf_password := trim_space w\<rparr>) (pt_password pt) else Some cf2) of
                            None \<Rightarrow> Inl PromptFailed
                          | Some cf3 \<Rightarrow>
                              (if cf_username cf3 = [] \<or> cf_password cf3 = [] then Inl CredentialsRequired else Inr cf3))))))"

text \<open>The exchange of a token gives player, user name and role.\<close>

definition exchangeBootstrapToken :: "action_outcome \<Rightarrow> (string \<times> string \<times> string) option" where
  "exchangeBootstrapToken out =
     (case out of
        Reply r \<Rightarrow> (case ar_response r of
                     Inr (TokenReply pid username role) \<Rightarrow> (if pid = [] then None else Some (pid, username, role))
                   | _ \<Rightarrow> None)
      | _ \<Rightarrow> None)"

definition fetchMarketSymbols :: "action_outcome \<Rightarrow> string list option" where
  "fetchMarketSymbols out =
     (case out of
        Reply r \<Rightarrow> (case ar_response r of Inr (CatalogReply symbols _) \<Rightarrow> Some symbols | _ \<Rightarrow> None)
      | _ \<Rightarrow> None)"

definition server_symbols :: "launch \<Rightarrow> config \<Rightarrow> string list" where
  "server_symbols la cf = (case fetchMarketSymbols (la_catalog la (cf_grpc_addr cf) (cf_player_id cf)) of Some l \<Rightarrow> l | None \<Rightarrow> [])"

definition local_grpc :: string where "local_grpc = ''localhost:9090''"

definition or_else :: "string \<Rightarrow> string \<Rightarrow> string" where
  "or_else s fallback = (if s = [] then fallback else s)"

text \<open>Flags that were not given are taken from the profile.\<close>

definition merge_profile :: "client_profile option \<Rightarrow> config \<Rightarrow> config" where
  "merge_profile pr cf =
     (case pr of
        None \<Rightarrow> cf
      | Some p \<Rightarrow> cf\<lparr>cf_player_id := or_else (cf_player_id cf) (pf_player_id p), cf_grpc_addr := or_else (cf_grpc_addr cf) (pf_grpc_addr p),
                    cf_username := or_else (cf_username cf) (pf_username p),
                    cf_ssh_addr := (if cf_ssh_addr cf = ''localhost:2222'' \<and> pf_ssh_addr p \<noteq> [] then pf_ssh_addr p else cf_ssh_addr cf),
                    cf_initial := or_else (cf_initial cf) (pf_last_ticker p)\<rparr>)"

text \<open>The three ways to a player: a token, an SSH session, a known identifier. The result is the configuration and the
  label of the player.\<close>

definition by_token :: "launch \<Rightarrow> string \<Rightarrow> string list \<Rightarrow> config \<Rightarrow> resolve_error + config \<times> string" where
  "by_token la raw saved cf0 =
     (let cf = cf0\<lparr>cf_grpc_addr := or_else (cf_grpc_addr cf0) local_grpc\<rparr> in
      case exchangeBootstrapToken (la_exchange la (cf_grpc_addr cf) (cf_token cf)) of
        None \<Rightarrow> Inl ExchangeFailed
      | Some (pid, username, role) \<Rightarrow>
          (let cf1 = cf\<lparr>cf_player_id := pid, cf_username := or_else (cf_username cf) username\<rparr>
           in Inr (cf1\<lparr>cf_symbols := normalizeSymbols raw (mergeFallback saved (server_symbols la cf1))\<rparr>,
                   username @ '' ('' @ role @ '') '' @ pid)))"

definition by_ssh :: "launch \<Rightarrow> string \<Rightarrow> string list \<Rightarrow> config \<Rightarrow> resolve_error + config \<times> string" where
  "by_ssh la raw saved cf0 =
     (case (if cf_username cf0 = [] \<or> cf_password cf0 = [] then promptBootstrapCredentials (la_prompt la) cf0 else Inr cf0) of
        Inl e \<Rightarrow> Inl e
      | Inr cf \<Rightarrow>
          (case BootstrapViaSSH (la_ssh la) (cf_ssh_addr cf) (cf_username cf) (cf_password cf) of
             Inl e \<Rightarrow> Inl (SSHFailed e)
           | Inr info \<Rightarrow>
               (let cf1 = cf\<lparr>cf_player_id := bi_player_id info, cf_grpc_addr := or_else (cf_grpc_addr cf) (bi_grpc_endpoint info),
                             cf_username := or_else (cf_username cf) (bi_username info)\<rparr>
                in Inr (cf1\<lparr>cf_symbols := normalizeSymbols raw
                              (mergeFallback (mergeFallback saved (la_portfolio_range la (bi_portfolio info))) (server_symbols la cf1))\<rparr>,
                        bi_username info @ '' ('' @ bi_role info @ '') '' @ bi_player_id info))))"

definition by_player_id :: "launch \<Rightarrow> string \<Rightarrow> string list \<Rightarrow> config \<Rightarrow> resolve_error + config \<times> string" where
  "by_player_id la raw saved cf0 =
     (let cf = cf0\<lparr>cf_grpc_addr := or_else (cf_grpc_addr cf0) local_grpc\<rparr>
      in Inr (cf\<lparr>cf_symbols := normalizeSymbols raw (mergeFallback saved (server_symbols la cf))\<rparr>,
              if cf_username cf \<noteq> [] then cf_username cf @ '' '' @ cf_player_id cf else cf_player_id cf))"

definition find_player :: "launch \<Rightarrow> string \<Rightarrow> string list \<Rightarrow> config \<Rightarrow> resolve_error + config \<times> string" where
  "find_player la raw saved cf =
     (if cf_player_id cf = [] then (if cf_token cf \<noteq> [] then by_token la raw saved cf else by_ssh la raw saved cf)
      else by_player_id la raw saved cf)"

definition profile_of :: "config \<Rightarrow> string \<Rightarrow> client_profile" where
  "profile_of cf last_ticker = no_profile\<lparr>pf_ssh_addr := cf_ssh_addr cf, pf_grpc_addr := cf_grpc_addr cf, pf_username := cf_username cf,
     pf_player_id := cf_player_id cf, pf_symbols := cf_symbols cf, pf_last_ticker := last_ticker\<rparr>"

definition settle_config :: "config \<Rightarrow> config" where
  "settle_config cf =
     cf\<lparr>cf_grpc_addr := or_else (cf_grpc_addr cf) local_grpc,
        cf_initial := (if cf_initial cf = [] \<or> indexOfSymbol (cf_symbols cf) (cf_initial cf) < 0 then hd (cf_symbols cf) else cf_initial cf)\<rparr>"

definition resolveConfig :: "launch \<Rightarrow> config \<Rightarrow> string \<Rightarrow> client_profile disk \<Rightarrow> (resolve_error + config \<times> string) \<times> client_profile disk" where
  "resolveConfig la flags raw d0 =
     (if \<not> la_path_ok la then (Inl NoProfilePath, d0)
      else (let d = (if cf_reset_profile flags \<and> la_remove_ok la then d0\<lparr>main_file := NoFile\<rparr> else d0) in
            case LoadProfile d of
              Inl e \<Rightarrow> (Inl (ProfileBroken e), d)
            | Inr pr \<Rightarrow>
                (case find_player la raw (case pr of Some p \<Rightarrow> pf_symbols p | None \<Rightarrow> []) (merge_profile pr flags) of
                   Inl e \<Rightarrow> (Inl e, d)
                 | Inr (cf, label) \<Rightarrow>
                     (if cf_symbols cf = [] then (Inl NoSymbols, d)
                      else (let cf1 = settle_config cf
                            in (Inr (cf1, label), snd (SaveProfile (la_io la) (la_now la) (profile_of cf1 (cf_initial cf1)) d)))))))"

text \<open>Leaving the client saves the ticker that is selected.\<close>

definition shutdown :: "io_fault option \<Rightarrow> time \<Rightarrow> config \<Rightarrow> ui \<Rightarrow> client_profile disk \<Rightarrow> client_profile disk" where
  "shutdown io now cf u d = snd (SaveProfile io now (profile_of cf (currentSymbol (cf_symbols cf) (ui_selected u))) d)"

section \<open>Profile files\<close>

text \<open>The profile a launch uses is a file: the one of the flag \<^verbatim>\<open>-profile\<close>, or else the default one in the user's configuration
  directory, which is \<open>None\<close> when there is none; \<^verbatim>\<open>filepath.Join\<close> of a clean directory puts a slash between the parts.
  \<open>fs\<close> gives the state of the disk at every path.\<close>

definition ResolveProfilePath :: "string option \<Rightarrow> string \<Rightarrow> string option" where
  "ResolveProfilePath config_dir path =
     (if path \<noteq> [] then Some path else map_option (\<lambda>dir. dir @ ''/ssh-arena/client.json'') config_dir)"

definition resolveConfig_at ::
  "string option \<Rightarrow> launch \<Rightarrow> config \<Rightarrow> string \<Rightarrow> string \<Rightarrow> (string \<Rightarrow> client_profile disk) \<Rightarrow>
     (resolve_error + config \<times> string) \<times> (string \<Rightarrow> client_profile disk)" where
  "resolveConfig_at config_dir la flags raw profile fs =
     (case ResolveProfilePath config_dir profile of
        None \<Rightarrow> (fst (resolveConfig (la\<lparr>la_path_ok := False\<rparr>) flags raw (fs profile)), fs)
      | Some path \<Rightarrow>
          (case resolveConfig (la\<lparr>la_path_ok := True\<rparr>) flags raw (fs path) of (r, d) \<Rightarrow> (r, fs(path := d))))"

definition shutdown_at ::
  "string option \<Rightarrow> io_fault option \<Rightarrow> time \<Rightarrow> config \<Rightarrow> ui \<Rightarrow> string \<Rightarrow> (string \<Rightarrow> client_profile disk) \<Rightarrow> (string \<Rightarrow> client_profile disk)" where
  "shutdown_at config_dir io now cf u profile fs =
     (case ResolveProfilePath config_dir profile of
        None \<Rightarrow> fs
      | Some path \<Rightarrow> fs(path := shutdown io now cf u (fs path)))"

end
