(* ===== verification/ClientLoop.thy ===== *)
theory ClientLoop
  imports Client
begin

text \<open>
  What \<^verbatim>\<open>render\<close> leaves in the state of the client, the rectangles the mouse can hit, the width of the chart and
  the clamped scroll position, with the layout it is computed from; and the loop of \<^verbatim>\<open>main\<close> as steps. What
  is drawn is in \<open>ClientDraw\<close>.
\<close>

section \<open>The ticker tiles\<close>

fun tile_rects :: "int \<Rightarrow> int \<Rightarrow> int \<Rightarrow> int \<Rightarrow> int \<Rightarrow> string list \<Rightarrow> ticker_rect list" where
  "tile_rects w h cols tileY i [] = []"
| "tile_rects w h cols tileY i (symbol # rest) =
     (let x = 1 + rem64 i cols * (22 + 1); y = tileY + quot64 i cols * (5 + 1) in
      if x + 22 \<ge> w \<or> y + 5 \<ge> h - 3 then tile_rects w h cols tileY (i + 1) rest
      else \<lparr>tr_symbol = symbol, tr_x1 = x, tr_y1 = y, tr_x2 = x + 22 - 1, tr_y2 = y + 5 - 1\<rparr>
             # tile_rects w h cols tileY (i + 1) rest)"

definition render_tiles :: "int \<Rightarrow> int \<Rightarrow> int \<Rightarrow> ui \<Rightarrow> ui" where
  "render_tiles w h tileY u =
     u\<lparr>ui_ticker_rects := tile_rects w h (max 1 (quot64 w (22 + 1))) tileY 0 (ui_symbols u)\<rparr>"

section \<open>The chart panel\<close>

definition render_chart_panel :: "ticker_rect \<Rightarrow> ui \<Rightarrow> ui" where
  "render_chart_panel rect u =
     (let innerX1 = tr_x1 rect + 2; innerY1 = tr_y1 rect + 2; innerX2 = tr_x2 rect - 2; innerY2 = tr_y2 rect - 2 in
      if innerX2 \<le> innerX1 \<or> innerY2 \<le> innerY1 then u
      else if current_history u = [] then u
      else u\<lparr>ui_plot_width := max 1 (innerX2 - innerX1 + 1)\<rparr>)"

section \<open>The sidebar\<close>

text \<open>The row after up to \<open>n\<close> lines that stop before \<open>edge\<close>.\<close>

definition rows_drawn :: "nat \<Rightarrow> int \<Rightarrow> int \<Rightarrow> int" where
  "rows_drawn n edge y = (if y \<ge> edge then y else min (y + int n) edge)"

definition ticket_rows :: "ui \<Rightarrow> string \<Rightarrow> f64 \<Rightarrow> int" where
  "ticket_rows u symbol price_now =
     (if ot_active (ui_ticket u)
      then (let est = estimateTicketCost u symbol price_now in
            1 + 1 + (if ot_order_type (ui_ticket u) = ''limit'' then 1 else 0) + 1 + 1
            + (if est_market_order_surcharge est > 0 then 1 else 0) + (if est_rapid_flip_tax est > 0 then 1 else 0) + 1 + 1)
      else 1)"

text \<open>The levels of one side: at most three, above the row \<open>edge\<close>.\<close>

fun level_rects :: "string \<Rightarrow> int \<Rightarrow> int \<Rightarrow> int \<Rightarrow> nat \<Rightarrow> int \<Rightarrow> chart_level list \<Rightarrow> orderbook_rect list \<times> int" where
  "level_rects side x1 x2 edge i y [] = ([], y)"
| "level_rects side x1 x2 edge i y (l # ls) =
     (if i \<ge> 3 \<or> y \<ge> edge then ([], y)
      else (case level_rects side x1 x2 edge (Suc i) (y + 1) ls of
              (rs, y') \<Rightarrow>
                (\<lparr>or_side = side, or_price = cl_price l, or_quantity = cl_qty l, or_x1 = x1, or_y1 = y, or_x2 = x2, or_y2 = y\<rparr> # rs, y')))"

text \<open>The rows of the titles of the wallet, of the offer and of the ticket, of the title of the book and of its bids.\<close>

definition sidebar_rows :: "ticker_rect \<Rightarrow> ui \<Rightarrow> chart_tick \<Rightarrow> int \<times> int \<times> int \<times> int \<times> int" where
  "sidebar_rows rect u tick =
     (let wallet = rows_drawn 8 (tr_y2 rect - 2) (tr_y1 rect + 2) + 1;
          offer = wallet + 1 + (if ui_portfolio u \<noteq> None then 3 else 1) + 1 + 1;
          ticket = offer + (if ui_offer u \<noteq> None then 2 else 1) + 1;
          book = ticket + 1 + ticket_rows u (current u) (ct_current_price tick) + 1
      in (wallet, offer, ticket, book, if book < tr_y2 rect - 2 then book + 2 else book))"

definition bids_row :: "ticker_rect \<Rightarrow> int \<Rightarrow> int" where
  "bids_row rect y = (if y < tr_y2 rect - 2 then y + 1 else y)"

definition asks_row :: "ticker_rect \<Rightarrow> int \<Rightarrow> int" where
  "asks_row rect y = (if y < tr_y2 rect - 2 then y + 1 + 1 else y)"

definition render_sidebar :: "ticker_rect \<Rightarrow> ui \<Rightarrow> ui" where
  "render_sidebar rect u =
     (case ui_ticks u (current u) of
        None \<Rightarrow> u
      | Some tick \<Rightarrow>
          (if ct_history tick = [] then u
           else (case sidebar_rows rect u tick of
                   (wallet, offer, ticket, book, title) \<Rightarrow>
                     (let x1 = tr_x1 rect + 2; x2 = tr_x2 rect - 2;
                          offer_width = (case ui_offer u of None \<Rightarrow> 0
                                         | Some i \<Rightarrow> int (length (''i buy preview '' @ show_fixed2 (moneyValue (ci_price i)))));
                          u1 = (if ui_offer u \<noteq> None
                                then u\<lparr>ui_insider_rect := \<lparr>tr_symbol = [], tr_x1 = x1, tr_y1 = offer, tr_x2 = min x2 (x1 + offer_width - 1), tr_y2 = offer\<rparr>\<rparr>
                                else u)
                      in case level_rects ''bid'' x1 x2 (tr_y2 rect - 3) 0 (bids_row rect title) (ct_bids tick) of
                           (bs, y) \<Rightarrow>
                             (case level_rects ''ask'' x1 x2 (tr_y2 rect - 1) 0 (asks_row rect y) (ct_asks tick) of
                                (as, _) \<Rightarrow> u1\<lparr>ui_orderbook_rects := ui_orderbook_rects u @ bs @ as\<rparr>)))))"

section \<open>The chat panel\<close>

text \<open>Tag, name and identifier of a line.\<close>

definition chatDisplayParts :: "chat_entry \<Rightarrow> string \<Rightarrow> string \<times> string \<times> string" where
  "chatDisplayParts e selfID =
     (if cm_type e = ''intel.insider.preview'' then (''[intel]'', ''insider-feed'', [])
      else if cm_type e = ''chat.direct'' \<and> cm_player_id e = selfID
      then (''[dm]'', (if cm_recipient_username e = [] then cm_recipient_id e else cm_recipient_username e), cm_recipient_id e)
      else if cm_type e = ''chat.direct''
      then (''[dm]'', (if cm_username e = [] then cm_player_id e else cm_username e), cm_player_id e)
      else if cm_type e = ''system.event'' then ([], ''system'', [])
      else ([], (if cm_username e = [] then cm_player_id e else cm_username e), cm_player_id e))"

fun name_rects :: "string \<Rightarrow> int \<Rightarrow> int \<Rightarrow> int \<Rightarrow> chat_entry list \<Rightarrow> chat_name_rect list" where
  "name_rects selfID x0 inputY y [] = []"
| "name_rects selfID x0 inputY y (e # es) =
     (if y \<ge> inputY then []
      else (case chatDisplayParts e selfID of
              (tag, name, nameID) \<Rightarrow>
                (let x = (if tag = [] then x0 else x0 + int (length tag) + 1) in
                 (if name = [] then []
                  else [\<lparr>nr_player_id = nameID, nr_username = name, nr_x1 = x, nr_y1 = y, nr_x2 = x + int (length name) - 1, nr_y2 = y\<rparr>])
                 @ name_rects selfID x0 inputY (y + 1) es)))"

definition renderChatPanel :: "ticker_rect \<Rightarrow> ui \<Rightarrow> ui" where
  "renderChatPanel rect u =
     (let inputY = tr_y2 rect - 1; availableLines = max 1 (inputY - tr_y1 rect - 2);
          n = int (length (ui_chat_lines u));
          maxStart = max 0 (n - availableLines);
          scroll = (if ui_chat_scroll u > maxStart then maxStart else ui_chat_scroll u);
          start = max 0 (n - availableLines - scroll)
      in u\<lparr>ui_chat_rect := rect, ui_chat_scroll := scroll,
           ui_chat_name_rects := name_rects (ui_player_id u) (tr_x1 rect + 2) inputY (tr_y1 rect + 2) (drop (nat start) (ui_chat_lines u))\<rparr>)"

section \<open>The screen\<close>

definition chat_area :: "int \<Rightarrow> int \<Rightarrow> int \<Rightarrow> ticker_rect" where
  "chat_area w h mainY =
     (let chatHeight = min 11 (max 8 (quot64 h 4))
      in \<lparr>tr_symbol = [], tr_x1 = 1, tr_y1 = max (mainY + 8) (h - chatHeight - 2), tr_x2 = w - 2, tr_y2 = h - 2\<rparr>)"

definition chart_area :: "int \<Rightarrow> int \<Rightarrow> ticker_rect \<Rightarrow> ticker_rect" where
  "chart_area w mainY chat =
     (let mainHeight = max 10 (tr_y1 chat - mainY - 2);
          w1 = min (to_i64 (fmul (of_i64 w) (rnd (68 / 100)))) (w - 2);
          w2 = (if w1 < 46 then w - 2 else w1)
      in \<lparr>tr_symbol = [], tr_x1 = 1, tr_y1 = mainY, tr_x2 = min (w - 2) w2, tr_y2 = min (tr_y1 chat - 1) (mainY + mainHeight)\<rparr>)"

definition sidebar_area :: "int \<Rightarrow> int \<Rightarrow> ticker_rect \<Rightarrow> ticker_rect" where
  "sidebar_area w mainY chart =
     \<lparr>tr_symbol = [], tr_x1 = tr_x2 chart + 1, tr_y1 = mainY, tr_x2 = w - 2, tr_y2 = tr_y2 chart\<rparr>"

definition render :: "int \<Rightarrow> int \<Rightarrow> time \<Rightarrow> ui \<Rightarrow> ui" where
  "render w h now u =
     (case bannerOffset now (u\<lparr>ui_ticker_rects := [], ui_orderbook_rects := [], ui_insider_rect := no_rect\<rparr>) of
        (offset, u0) \<Rightarrow>
          (let tileY = 4 + offset;
               u1 = render_tiles w h tileY u0;
               tilesBottom = (if ui_ticker_rects u1 = [] then tileY else tr_y2 (last (ui_ticker_rects u1)));
               mainY = tilesBottom + 2;
               chat = chat_area w h mainY;
               chart = chart_area w mainY chat;
               sidebar = sidebar_area w mainY chart;
               u2 = render_chart_panel chart u1;
               u3 = (if tr_x2 sidebar - tr_x1 sidebar \<ge> 22 then render_sidebar sidebar u2 else u2)
           in renderChatPanel chat u3))"

section \<open>The loop\<close>

datatype ui_msg =
    ActionResponse string ui_reply | ChartTick chart_tick | StatusMsg string | MarketEventMsg event_payload
  | ChatEntryMsg chat_entry | StreamPortfolio portfolio_snapshot | ErrMsg ui_error

definition handle_message :: "time \<Rightarrow> ui_msg \<Rightarrow> ui \<Rightarrow> ui" where
  "handle_message now msg u =
     (case msg of
        ActionResponse action r \<Rightarrow> applyActionResponse action r u
      | ChartTick t \<Rightarrow>
          (let u1 = clampViewport (u\<lparr>ui_ticks := (ui_ticks u)(ct_ticker t \<mapsto> t)\<rparr>)
           in if ct_ticker t = current u1 then u1\<lparr>ui_status := StLiveTick (ct_ticker t) (ct_timestamp t)\<rparr> else u1)
      | StatusMsg s \<Rightarrow> u\<lparr>ui_status := StText s\<rparr>
      | MarketEventMsg e \<Rightarrow> activateMarketEvent now e u
      | ChatEntryMsg e \<Rightarrow>
          (let u1 = appendChatEntry e u
           in if cm_type e = ''intel.insider.preview'' then u1\<lparr>ui_status := StPreviewReceived\<rparr> else u1)
      | StreamPortfolio p \<Rightarrow> u\<lparr>ui_portfolio := Some p\<rparr>
      | ErrMsg e \<Rightarrow> u\<lparr>ui_status := StError e\<rparr>)"

text \<open>
  The loop owns the state and is the only reader of the channel \<^verbatim>\<open>events\<close>, of 256 places. A message it posts
  itself, while handling a key, needs a free place: without one it waits for itself, the result \<open>None\<close>.
\<close>

record client =
  cl_ui :: ui
  cl_events :: "ui_msg list"
  cl_actions :: "(string \<times> payload) list"
  cl_running :: bool

definition events_capacity :: nat where "events_capacity = 256"

fun perform :: "ui_effect list \<Rightarrow> client \<Rightarrow> client option" where
  "perform [] c = Some c"
| "perform (RunAction a p # es) c = perform es (c\<lparr>cl_actions := cl_actions c @ [(a, p)]\<rparr>)"
| "perform (PostError e # es) c =
     (if length (cl_events c) < events_capacity then perform es (c\<lparr>cl_events := cl_events c @ [ErrMsg e]\<rparr>) else None)"

datatype client_event =
    MessageReady | KeyPressed key | MouseMoved bool int int mouse_button | Resized
  | PortfolioTimer | UITimer | Interrupted | Produced ui_msg

text \<open>\<open>w\<close> and \<open>h\<close> are the size of the screen. \<open>Produced\<close> is a background task whose message found room.\<close>

definition client_step :: "int \<Rightarrow> int \<Rightarrow> time \<Rightarrow> client_event \<Rightarrow> client \<Rightarrow> client option" where
  "client_step w h now ev c =
     (case ev of
        MessageReady \<Rightarrow>
          (case cl_events c of
             [] \<Rightarrow> Some c
           | m # ms \<Rightarrow> Some (c\<lparr>cl_events := ms, cl_ui := render w h now (handle_message now m (cl_ui c))\<rparr>))
      | KeyPressed k \<Rightarrow>
          (case handleKeyEvent k (cl_ui c) of
             (go_on, u, fx) \<Rightarrow>
               map_option (\<lambda>c. c\<lparr>cl_ui := render w h now (cl_ui c), cl_running := go_on\<rparr>) (perform fx (c\<lparr>cl_ui := u\<rparr>)))
      | MouseMoved clipboard_ok x y b \<Rightarrow>
          (case handleMouseEvent clipboard_ok x y b (cl_ui c) of
             (u, fx) \<Rightarrow> map_option (\<lambda>c. c\<lparr>cl_ui := render w h now (cl_ui c)\<rparr>) (perform fx (c\<lparr>cl_ui := u\<rparr>)))
      | Resized \<Rightarrow> Some (c\<lparr>cl_ui := render w h now (cl_ui c)\<rparr>)
      | PortfolioTimer \<Rightarrow> perform [requestPortfolioAsync] c
      | UITimer \<Rightarrow>
          (case bannerActive now (cl_ui c) of
             (on, u) \<Rightarrow> Some (c\<lparr>cl_ui := (if on then render w h now u else u)\<rparr>))
      | Interrupted \<Rightarrow> Some (c\<lparr>cl_running := False\<rparr>)
      | Produced m \<Rightarrow> Some (if length (cl_events c) < events_capacity then c\<lparr>cl_events := cl_events c @ [m]\<rparr> else c))"

definition initial_ui :: "string list \<Rightarrow> string \<Rightarrow> string \<Rightarrow> string \<Rightarrow> ui" where
  "initial_ui symbols initial pid username =
     (let selected = indexOfSymbol symbols initial
      in \<lparr>ui_symbols = symbols, ui_player_id = pid, ui_username = username, ui_selected = (if selected < 0 then 0 else selected),
          ui_status = StConnecting, ui_ticks = Map.empty, ui_ticker_rects = [], ui_orderbook_rects = [], ui_portfolio = None,
          ui_rules = \<lparr>ru_exchange_fee_bps = 0, ru_market_order_surcharge_bps = 0, ru_rapid_flip_tax_bps = 0, ru_rapid_flip_window_seconds = 0\<rparr>,
          ui_ticket = no_ticket, ui_zoom = 0, ui_offset = 0, ui_plot_width = 0, ui_timeframe = 0, ui_chat_rect = no_rect,
          ui_chat_name_rects = [], ui_chat_lines = [], ui_chat_input = [], ui_chat_scroll = 0, ui_chat_focus = False,
          ui_offer = None, ui_insider_rect = no_rect, ui_banner = None\<rparr>)"

definition start_client :: "int \<Rightarrow> int \<Rightarrow> time \<Rightarrow> ui \<Rightarrow> client" where
  "start_client w h now u =
     \<lparr>cl_ui = render w h now u, cl_events = [],
      cl_actions = [(''portfolio.get'', blank_payload), (''intel.catalog'', blank_payload)], cl_running = True\<rparr>"

end
