(* ===== verification/ClientText.thy ===== *)
theory ClientText
  imports ClientState ScanProps
begin

text \<open>
  Prices as the client shows and reads them: the relative error of rounding, the price of a level in cents,
  and the text of a price read back.
\<close>

section \<open>Rounding errors\<close>

lemma abs_scale: "0 < (u :: rat) \<Longrightarrow> \<bar>x\<bar> * u = \<bar>x * u\<bar>"
  by (simp add: abs_mult)

lemma rnd_error:
  assumes "1 / 1024 \<le> q"
  shows "\<bar>rnd q - q\<bar> \<le> q / 2 ^ 53"
proof -
  have pos: "0 < q" using assms by linarith
  have "log2_floor (2 powi (- 10)) \<le> log2_floor q" using assms by (intro log2_floor_mono) (simp_all add: power_int_def power_divide)
  moreover have "- 11 < log2_floor (2 powi (- 10))"
  proof (rule ccontr)
    assume "\<not> - 11 < log2_floor (2 powi (- 10))"
    then have "(2::rat) powi (log2_floor (2 powi (- 10)) + 1) \<le> 2 powi (- 10)" by (intro power_int_increasing) auto
    with log2_floor(2) [of "2 powi (- 10)"] show False by simp
  qed
  ultimately have k: "quantum q = log2_floor q - 52" by (simp add: quantum_def)
  let ?u = "2 powi quantum q :: rat"
  have u: "0 < ?u" by simp
  have "\<bar>of_int (round_even (q / ?u)) - q / ?u\<bar> \<le> 1 / 2" using round_even_bounds [of "q / ?u"] by linarith
  then have "\<bar>of_int (round_even (q / ?u)) - q / ?u\<bar> * ?u \<le> 1 / 2 * ?u" by (rule mult_right_mono) simp
  moreover have "\<bar>of_int (round_even (q / ?u)) - q / ?u\<bar> * ?u = \<bar>rnd q - q\<bar>"
    using u pos by (simp add: rnd_def rnd_pos_def abs_scale left_diff_distrib)
  moreover have "1 / 2 * ?u = 2 powi log2_floor q / 2 ^ 53" unfolding k by (simp add: power_int_diff)
  moreover have "2 powi log2_floor q / 2 ^ 53 \<le> q / 2 ^ 53" by (intro divide_right_mono log2_floor(1) pos) simp
  ultimately show ?thesis by linarith
qed

lemma half_away_near: "\<bar>x - of_int i\<bar> < 1 / 2 \<Longrightarrow> 0 < i \<Longrightarrow> half_away x = i"
proof -
  assume x: "\<bar>x - of_int i\<bar> < 1 / 2" and i: "0 < i"
  have "(1 :: rat) \<le> of_int i" using i by simp
  then have "0 \<le> x" using x by linarith
  moreover have "\<lfloor>x + 1 / 2\<rfloor> = i" using x by (intro floor_unique) linarith+
  ultimately show ?thesis by (simp add: half_away_def)
qed

lemma round_even_near: "\<bar>x - of_int i\<bar> < 1 / 2 \<Longrightarrow> round_even x = i"
proof -
  assume x: "\<bar>x - of_int i\<bar> < 1 / 2"
  then have "\<bar>of_int (round_even x) - (of_int i :: rat)\<bar> < 1" using round_even_bounds [of x] by linarith
  then show ?thesis by linarith
qed

lemma near_integer:
  assumes "\<bar>y - n\<bar> \<le> n / 2 ^ 53" "1 \<le> n" "n \<le> 2 ^ 44 * 100"
  shows "1 / 1024 \<le> (y :: rat)" "\<bar>z - y\<bar> \<le> y / 2 ^ 53 \<Longrightarrow> \<bar>z - n\<bar> < 1 / 2"
proof -
  have p: "(2::rat) ^ 53 = 9007199254740992" "(2::rat) ^ 44 = 17592186044416" by simp_all
  note a = assms [unfolded abs_le_iff p]
  show "1 / 1024 \<le> y" using a by linarith
  show "\<bar>z - y\<bar> \<le> y / 2 ^ 53 \<Longrightarrow> \<bar>z - n\<bar> < 1 / 2" unfolding abs_le_iff abs_less_iff p using a by linarith
qed

section \<open>Cents\<close>

definition price_of_cents :: "int \<Rightarrow> f64" where
  "price_of_cents raw = rnd (of_int raw / 100)"

lemma price_of_cents_near:
  assumes "0 < raw" "raw \<le> 2 ^ 44"
  shows "\<bar>price_of_cents raw * 100 - of_int raw\<bar> \<le> of_int raw / 2 ^ 53" "0 < price_of_cents raw"
proof -
  have r: "(1::rat) \<le> of_int raw" using assms(1) by simp
  then have e: "\<bar>price_of_cents raw - of_int raw / 100\<bar> \<le> of_int raw / 100 / 2 ^ 53"
    unfolding price_of_cents_def by (intro rnd_error) simp
  then show "\<bar>price_of_cents raw * 100 - of_int raw\<bar> \<le> of_int raw / 2 ^ 53" by (simp add: field_simps abs_le_iff)
  have "of_int raw / 100 / 2 ^ 53 < (of_int raw / 100 :: rat)" using r by (simp add: field_simps)
  with e show "0 < price_of_cents raw" by linarith
qed

lemma cents_rounded:
  assumes "0 < raw" "raw \<le> 2 ^ 44" "0 < m" "m \<le> 100"
  shows "half_away (fmul (price_of_cents raw) (of_int (100 * m))) = raw * m"
proof -
  let ?p = "price_of_cents raw" and ?n = "(of_int (raw * m) :: rat)"
  have r: "(1::rat) \<le> of_int raw" "(of_int raw :: rat) \<le> 2 ^ 44" "(1::rat) \<le> of_int m" "(of_int m :: rat) \<le> 100"
    using assms of_int_le_iff [of raw "2 ^ 44"] by simp_all
  have n: "1 \<le> ?n" "?n \<le> 2 ^ 44 * 100" using r mult_mono [of 1 "of_int raw" 1 "of_int m :: rat"] mult_mono [of "of_int raw" "2 ^ 44" "of_int m" "100 :: rat"] by simp_all
  have "\<bar>?p * 100 - of_int raw\<bar> * of_int m \<le> of_int raw / 2 ^ 53 * of_int m"
    using price_of_cents_near(1) [OF assms(1,2)] r(3) by (intro mult_right_mono) simp_all
  moreover have "\<bar>?p * 100 - of_int raw\<bar> * of_int m = \<bar>?p * of_int (100 * m) - ?n\<bar>"
    using r(3) by (simp add: abs_scale left_diff_distrib mult.assoc mult.commute [of 100])
  ultimately have e1: "\<bar>?p * of_int (100 * m) - ?n\<bar> \<le> ?n / 2 ^ 53" by simp
  then have y: "1 / 1024 \<le> ?p * of_int (100 * m)" by (rule near_integer(1) [OF _ n])
  have "\<bar>fmul ?p (of_int (100 * m)) - ?n\<bar> < 1 / 2"
    unfolding fmul_def by (rule near_integer(2) [OF e1 n rnd_error [OF y]])
  then show ?thesis using assms by (intro half_away_near) simp_all
qed

text \<open>A level of the book shows its price in cents, rounded to a float once.\<close>

lemma priceToFloat_cents:
  assumes "0 < raw" "raw \<le> 2 ^ 44"
  shows "priceToFloat raw = price_of_cents raw"
proof -
  have i: "of_i64 raw = of_int raw" using assms by simp
  have "half_away (fmul (price_of_cents raw) (of_int (100 * 100))) = raw * 100" by (rule cents_rounded [OF assms]) simp_all
  then have "go_round (fmul (price_of_cents raw) (10 ^ 4)) = of_int (raw * 100)" by (simp add: go_round_def)
  then show ?thesis
    by (simp add: priceToFloat_def round_to_def fdiv_def i price_of_cents_def [symmetric])
qed

lemma show_fixed2_cents:
  assumes "0 < raw" "raw \<le> 2 ^ 44"
  shows "show_fixed2 (price_of_cents raw) = show_cents (nat raw)"
proof -
  have "(of_int raw :: rat) \<le> 2 ^ 44" using assms(2) of_int_le_iff [of raw "2 ^ 44", where 'a = rat] by simp
  then have "round_even (price_of_cents raw * 100) = raw"
    using price_of_cents_near(1) [OF assms] by (intro round_even_near) simp
  then show ?thesis using price_of_cents_near(2) [OF assms] by (simp add: show_fixed2_def)
qed

section \<open>Reading a price\<close>

lemma dropWhile_none: "\<forall>c \<in> set s. \<not> P c \<Longrightarrow> dropWhile P s = s"
  by (cases s) simp_all

lemma trim_space_none: "\<forall>c \<in> set s. \<not> is_space c \<Longrightarrow> trim_space s = s"
  by (simp add: trim_space_def dropWhile_none)

lemma digit_chars: "d < 10 \<Longrightarrow> is_digit (char_of (48 + d :: nat))" "d < 10 \<Longrightarrow> digit_val (char_of (48 + d)) = d"
  by (simp_all add: is_digit_def digit_val_def)

lemma read_nat_append2: "read_nat (s @ [a, b]) = 10 * (10 * read_nat s + digit_val a) + digit_val b"
  by (simp add: read_nat_def)

lemma scan_show_cents: "scan_float (show_cents c) = Some (rnd (of_nat c / 100))"
proof -
  let ?a = "char_of (48 + c div 10 mod 10) :: char" and ?b = "char_of (48 + c mod 10) :: char"
  obtain h t where ht: "show_nat (c div 100) = h # t" "is_digit h" using show_nat_Cons by blast
  have dot: "\<not> is_digit CHR ''.''" by (simp add: is_digit_def)
  have ab: "is_digit ?a" "is_digit ?b" "digit_val ?a = c div 10 mod 10" "digit_val ?b = c mod 10"
    by (rule digit_chars, simp)+
  have tw: "takeWhile is_digit (show_cents c) = show_nat (c div 100)" "dropWhile is_digit (show_cents c) = CHR ''.'' # [?a, ?b]"
    using takeWhile_digits [OF show_nat_digits, of "CHR ''.'' # [?a, ?b]" "c div 100"] dot by (simp_all add: show_cents_def)
  have "c = 10 * (10 * (c div 100) + c div 10 mod 10) + c mod 10"
    using mult_div_mod_eq [of 10 c] mult_div_mod_eq [of 10 "c div 10"] by (simp add: div_mult2_eq [symmetric])
  then have "read_nat (show_nat (c div 100) @ [?a, ?b]) = c" by (simp add: read_nat_append2 ab(3,4))
  then have "scan_unsigned_float 1 (show_cents c) = Some (rnd (of_nat c / 100))"
    using ab(1,2) by (simp add: scan_unsigned_float_def tw Let_def)
  moreover have "\<exists>t'. show_cents c = h # t'" by (simp add: show_cents_def ht)
  ultimately show ?thesis
    using digit_not_space [OF ht(2)] by (auto simp: scan_float_def skip_space_def)
qed

lemma parse_show_cents:
  assumes "0 < raw" "raw \<le> 2 ^ 44"
  shows "parseMoneyToCents (show_cents (nat raw)) = Some raw"
proof -
  let ?s = "show_cents (nat raw)"
  have chars: "\<forall>x \<in> set ?s. is_digit x \<or> x = CHR ''.''"
    using show_nat_digits [of "nat raw div 100"] digit_chars(1) by (auto simp: show_cents_def)
  moreover have "\<not> is_digit CHR '',''" "\<not> is_space CHR ''.''" by (simp_all add: is_digit_def is_space_def)
  ultimately have free: "\<forall>x \<in> set ?s. x \<noteq> CHR '','' \<and> \<not> is_space x" using digit_not_space by fastforce
  then have "map (\<lambda>x. if x = CHR '','' then CHR ''.'' else x) ?s = ?s" by (intro map_idI) simp
  moreover have "trim_space ?s = ?s" using free by (intro trim_space_none) simp
  moreover have "?s \<noteq> []" by (simp add: show_cents_def)
  moreover have "scan_float ?s = Some (price_of_cents raw)" using scan_show_cents [of "nat raw"] assms by (simp add: price_of_cents_def)
  moreover have "half_away (fmul (price_of_cents raw) 100) = raw" using cents_rounded [OF assms, of 1] by simp
  moreover have "in64 raw" using assms by (simp add: in64_def)
  ultimately show ?thesis by (simp add: parseMoneyToCents_def Let_def)
qed

lemma parse_show_units: "in64 n \<Longrightarrow> parseWholeUnits (show_int n) = Some n"
proof -
  assume n: "in64 n"
  have "\<forall>c \<in> set (show_int n). \<not> is_space c"
    using show_nat_digits digit_not_space minus_char(1) by (auto simp: show_int_def split: if_splits)
  then have "trim_space (show_int n) = show_int n" by (rule trim_space_none)
  moreover have "show_int n \<noteq> []" by (simp add: show_int_def)
  moreover have "scan_int (show_int n) = Some (n, [])" using scan_int_show [of "[]" n] n by simp
  ultimately show ?thesis by (simp add: parseWholeUnits_def Let_def)
qed

end
