(* ===== verification/ClientProps.thy ===== *)
theory ClientProps
  imports ClientLoop ClientText GameProps
begin

text \<open>
  Facts about the terminal client: what a click on a level orders, the cost a ticket shows, and the slice of the
  history the chart shows.
\<close>

section \<open>Ordering a level of the book\<close>

lemma level_rects_source:
  "r \<in> set (fst (level_rects side x1 x2 edge i y ls)) \<Longrightarrow> or_side r = side \<and> (\<exists>l \<in> set ls. or_price r = cl_price l \<and> or_quantity r = cl_qty l)"
  by (induction side x1 x2 edge i y ls rule: level_rects.induct) (auto split: if_splits prod.splits)

lemma book_ticket_payload:
  assumes "0 < raw" "raw \<le> 2 ^ 44" "0 < qty" "in64 qty"
  shows "buildOrderPayload (openBookTicket side (priceToFloat raw) qty u) = Inr (raw, qty)"
  using parse_show_units [OF assms(4)] parse_show_cents [OF assms(1,2)] show_fixed2_cents [OF assms(1,2)] priceToFloat_cents [OF assms(1,2)] assms
  by (simp add: buildOrderPayload_def openBookTicket_def Let_def)

text \<open>C30: clicking a level of the book and pressing enter sends a limit order for exactly the price in cents the
  order book keeps for that level and for its whole quantity, on the other side, although the price went
  through floating point and text.\<close>

theorem level_click_orders_level:
  assumes "find (in_level x y) (ui_orderbook_rects u) = Some r"
    and "r \<in> set (fst (level_rects side x1 x2 edge 0 y0 (projectLevels lvs depth)))"
    and "\<forall>l \<in> set lvs. 0 < lv_price l \<and> lv_price l \<le> 2 ^ 44 \<and> 0 < lv_quantity l \<and> in64 (lv_quantity l)"
    and "\<not> in_ticker x y (ui_chat_rect u)" and "\<not> in_ticker x y (ui_insider_rect u)"
  shows "\<exists>l \<in> set lvs. \<exists>u'. handleKeyEvent KeyEnter (fst (handleMouseEvent ok x y Button1 u)) =
    (True, u', [RunAction ''place_order'' (blank_payload\<lparr>pd_place := Some
       \<lparr>pp_order_symbol = current u, pp_order_side = (if side = ''ask'' then ''buy'' else ''sell''), pp_order_type = ''limit'',
        pp_order_price = lv_price l, pp_order_quantity = lv_quantity l\<rparr>\<rparr>)])"
proof -
  let ?side = "if side = ''ask'' then ''buy'' else ''sell''"
  obtain l where l: "l \<in> set lvs" "or_price r = priceToFloat (lv_price l)" "or_quantity r = lv_quantity l" "or_side r = side"
    using level_rects_source [OF assms(2)] by (auto simp: projectLevels_def dest: in_set_takeD)
  define v where "v = openBookTicket ?side (priceToFloat (lv_price l)) (lv_quantity l) u"
  have "fst (handleMouseEvent ok x y Button1 u) = v"
    using assms(1,4,5) l(2-4) by (simp add: handleMouseEvent_def Let_def v_def)
  moreover have "buildOrderPayload v = Inr (lv_price l, lv_quantity l)"
    unfolding v_def using assms(3) l(1) by (intro book_ticket_payload) auto
  moreover have "ot_active (ui_ticket v)" "ot_side (ui_ticket v) = ?side" "ot_order_type (ui_ticket v) = ''limit''" "current v = current u"
    by (simp_all add: v_def openBookTicket_def Let_def current_def)
  ultimately show ?thesis
    using l(1) by (intro bexI [of _ l]) (simp_all add: handleKeyEvent_def handleTicketKeyEvent_def submitOrderAsync_def Let_def)
qed

definition demo_ui :: ui where
  "demo_ui = initial_ui [''ACME'', ''BYTE'', ''CORE''] ''BYTE'' ''id-ann'' ''ann''"

definition demo_level :: level where
  "demo_level = \<lparr>lv_price = 12345, lv_quantity = 7, lv_order_count = 1\<rparr>"

definition demo_book_ui :: ui where
  "demo_book_ui = demo_ui\<lparr>ui_orderbook_rects := fst (level_rects ''ask'' 10 20 9 0 5 (projectLevels [demo_level] 5))\<rparr>"

theorem level_click_orders_level_witness:
  "snd (snd (handleKeyEvent KeyEnter (fst (handleMouseEvent True 12 5 Button1 demo_book_ui)))) =
    [RunAction ''place_order'' (blank_payload\<lparr>pd_place := Some \<lparr>pp_order_symbol = ''BYTE'', pp_order_side = ''buy'',
       pp_order_type = ''limit'', pp_order_price = 12345, pp_order_quantity = 7\<rparr>\<rparr>)]"
proof -
  define q where "q = priceToFloat 12345"
  have rs: "level_rects ''ask'' 10 20 9 0 5 (projectLevels [demo_level] 5) =
      ([\<lparr>or_side = ''ask'', or_price = q, or_quantity = 7, or_x1 = 10, or_y1 = 5, or_x2 = 20, or_y2 = 5\<rparr>], 6)"
    by (simp add: projectLevels_def demo_level_def q_def)
  have "find (in_level 12 5) (ui_orderbook_rects demo_book_ui) =
      Some \<lparr>or_side = ''ask'', or_price = q, or_quantity = 7, or_x1 = 10, or_y1 = 5, or_x2 = 20, or_y2 = 5\<rparr>"
    by (simp add: demo_book_ui_def rs in_level_def in_rect_def)
  moreover have "\<not> in_ticker 12 5 (ui_chat_rect demo_book_ui)" "\<not> in_ticker 12 5 (ui_insider_rect demo_book_ui)" "current demo_book_ui = ''BYTE''"
    by (simp_all add: demo_book_ui_def demo_ui_def initial_ui_def no_rect_def in_ticker_def in_rect_def current_def currentSymbol_def indexOfSymbol_def Let_def)
  ultimately show ?thesis
    using level_click_orders_level [of 12 5 demo_book_ui _ "''ask''" 10 20 9 5 "[demo_level]" 5 True]
    by (simp add: rs) (auto simp: demo_level_def in64_def)
qed

section \<open>The cost a ticket shows\<close>

text \<open>C31: for a limit buy, under the rules the server announces, the total debit the ticket shows is exactly the cash
  the server reserves for the order the ticket sends.\<close>

theorem estimate_is_reservation:
  assumes "buildOrderPayload u = Inr (price, qty)" and "ot_order_type (ui_ticket u) = ''limit''" and "ot_side (ui_ticket u) = ''buy''"
    and "ui_rules u = tradingRulesSnapshot"
  shows "est_total (estimateTicketCost u symbol price_now) = reserve_amount OrderTypeLimit price qty \<and>
    est_exchange_fee (estimateTicketCost u symbol price_now) = estimateExchangeFee (mul64 price qty)"
proof -
  have q: "parseWholeUnits (ot_quantity (ui_ticket u)) = Some qty" "0 < qty"
    and p: "parseMoneyToCents (ot_price (ui_ticket u)) = Some price" "0 < price"
    using assms(1,2) by (auto simp: buildOrderPayload_def split: option.splits if_splits)
  have "estimate_price (ui_ticket u) price_now = price" using p assms(2) by (simp add: estimate_price_def Let_def)
  then show ?thesis
    using q p assms(2-4)
    by (simp add: estimateTicketCost_def Let_def reserve_amount_def reserve_price_def tradingRulesSnapshot_def
        estimateExchangeFee_def bpsCharge_def chargeBps_def add64_def)
qed

definition demo_ticket_ui :: ui where
  "demo_ticket_ui = (openBookTicket ''buy'' (priceToFloat 12345) 7 demo_ui)\<lparr>ui_rules := tradingRulesSnapshot\<rparr>"

theorem estimate_is_reservation_witness:
  "est_total (estimateTicketCost demo_ticket_ui ''BYTE'' 3) = reserve_amount OrderTypeLimit 12345 7"
proof -
  have "buildOrderPayload (u\<lparr>ui_rules := ru\<rparr>) = buildOrderPayload u" for u :: ui and ru
    by (simp add: buildOrderPayload_def split: option.split)
  then have "buildOrderPayload demo_ticket_ui = Inr (12345, 7)"
    using book_ticket_payload [of 12345 7 "''buy''" demo_ui] by (simp add: demo_ticket_ui_def in64_def)
  then show ?thesis
    using estimate_is_reservation [of demo_ticket_ui 12345 7 "''BYTE''" 3] by (simp add: demo_ticket_ui_def openBookTicket_def Let_def)
qed

section \<open>The slice of the history\<close>

lemma visible_bounds: "0 < n \<Longrightarrow> 1 \<le> computeVisiblePoints n w z \<and> computeVisiblePoints n w z \<le> n \<and> min 8 n \<le> computeVisiblePoints n w z"
  by (auto simp: computeVisiblePoints_def Let_def)

lemma first_from_bounds: "ps \<noteq> [] \<Longrightarrow> P (last ps) \<Longrightarrow> first_from i P ps < i + length ps"
  by (induction i P ps rule: first_from.induct) (auto split: if_splits)

lemma timeframe_start:
  assumes "history \<noteq> []"
  shows "\<exists>k < length history. timeframeHistoryWithStart history d = (drop k history, k)"
proof (cases "d \<le> 0")
  case True
  then show ?thesis using assms by (auto simp: timeframeHistoryWithStart_def intro!: exI [of _ 0])
next
  case False
  have "first_from 0 (\<lambda>p. \<not> hp_ts p * 1000000 < hp_ts (last history) * 1000000 - d) history < 0 + length history"
    using False by (intro first_from_bounds assms) simp
  then show ?thesis using assms False by (auto simp: timeframeHistoryWithStart_def Let_def)
qed

lemma viewport_slice:
  assumes "n = int (length base)" "1 \<le> v" "v \<le> n"
    and "o1 = (if offset0 < 0 then 0 else offset0)" "o2 = (if o1 > max 0 (n - v) then max 0 (n - v) else o1)"
    and "stop = n - o2" "start = max 0 (stop - v)"
  shows "slice base start stop = Some (take (nat v) (drop (nat start) base))" "0 \<le> start" "start + v = stop" "stop \<le> n"
  using assms by (auto simp: slice_def max_def)

text \<open>Whatever the zoom, the offset, the width and the timeframe are, cutting the history for the chart never goes
  out of bounds: it gives a contiguous part of the history, the place of which is reported right, with at
  least eight points as far as the timeframe has that many.\<close>

theorem chartViewport_in_bounds:
  assumes "history \<noteq> []"
  shows "\<exists>xs s e. chartViewport history w zoom offset0 d = Some (xs, s, e) \<and> 0 \<le> s \<and> s < e \<and> e \<le> int (length history) \<and>
    xs = take (nat (e - s)) (drop (nat s) history) \<and>
    min 8 (length (timeframeHistory history d)) \<le> length xs"
proof -
  obtain k where k: "k < length history" "timeframeHistoryWithStart history d = (drop k history, k)"
    using timeframe_start [OF assms] by blast
  define n v where "n = int (length (drop k history))" and "v = computeVisiblePoints n (w + 1) zoom"
  define o1 where "o1 = (if offset0 < 0 then 0 else offset0)"
  define o2 where "o2 = (if o1 > max 0 (n - v) then max 0 (n - v) else o1)"
  define stop where "stop = n - o2"
  define start where "start = max 0 (stop - v)"
  note defs = n_def v_def o1_def o2_def stop_def start_def
  have n: "0 < n" using k(1) by (simp add: n_def)
  note v = visible_bounds [OF n, of "w + 1" zoom, folded v_def]
  have sl: "slice (drop k history) start stop = Some (take (nat v) (drop (nat start) (drop k history)))"
    "0 \<le> start" "start + v = stop" "stop \<le> n"
    using viewport_slice [OF n_def _ _ o1_def o2_def stop_def start_def] v by auto
  have "chartViewport history w zoom offset0 d =
      map_option (\<lambda>xs. (xs, int k + start, int k + stop)) (slice (drop k history) start stop)"
    using assms k by (simp add: chartViewport_def Let_def defs)
  moreover have "nat (int k + start) = nat start + k" "timeframeHistory history d = drop k history"
    using sl(2) k(2) by (simp_all add: timeframeHistory_def nat_add_distrib)
  moreover have "length (take (nat v) (drop (nat start) (drop k history))) = nat v"
    using sl(2-4) by (simp add: n_def)
  moreover have "nat (int k + stop - (int k + start)) = nat v" "0 \<le> int k + start" "int k + start < int k + stop"
    "int k + stop \<le> int (length history)"
    using sl(2-4) v k(1) by (simp_all add: n_def)
  moreover have "min 8 (length (drop k history)) \<le> nat v" using v by (auto simp: n_def min_def split: if_splits)
  ultimately show ?thesis unfolding sl(1) by (metis drop_drop option.map(2))
qed

definition demo_points :: "history_point list" where
  "demo_points = map (\<lambda>i. \<lparr>hp_ts = int i * 1000, hp_price = 1, hp_volume = 0\<rparr>) [0..<40]"

theorem chartViewport_in_bounds_witness:
  "\<exists>xs s e. chartViewport demo_points 20 (- 3) 1000 minute = Some (xs, s, e) \<and> 0 \<le> s \<and> s < e \<and> e \<le> 40"
  using chartViewport_in_bounds [of demo_points 20 "- 3" 1000 minute] by (auto simp: demo_points_def)

end
