(* ===== verification/ClientTiles.thy ===== *)
theory ClientTiles
  imports ClientProps
begin

text \<open>
  Which ticker a click on the tiles of the client selects: the one the tile shows, unless the width of the screen is
  a multiple of 23, when the last column is left out and the clicks behind it select another ticker.
\<close>

section \<open>Clicking a ticker tile\<close>

definition tile :: "int \<Rightarrow> int \<Rightarrow> int \<Rightarrow> string \<Rightarrow> ticker_rect" where
  "tile cols tileY i symbol =
     \<lparr>tr_symbol = symbol, tr_x1 = 1 + (i mod cols) * 23, tr_y1 = tileY + (i div cols) * 6,
      tr_x2 = 1 + (i mod cols) * 23 + 21, tr_y2 = tileY + (i div cols) * 6 + 4\<rparr>"

lemma quot64_nonneg: "0 \<le> a \<Longrightarrow> in64 a \<Longrightarrow> 0 < b \<Longrightarrow> quot64 a b = a div b"
  by (rule quot64_exact)

lemma rem64_nonneg: "0 \<le> a \<Longrightarrow> 0 < b \<Longrightarrow> rem64 a b = a mod b"
  by (cases "a = 0") (simp_all add: rem64_def minus_mult_div_eq_mod)

text \<open>With a width that is no multiple of 23 no column is left out, and tiles are only left out at the bottom.\<close>

lemma column_fits: "0 < w \<Longrightarrow> w mod 23 \<noteq> 0 \<Longrightarrow> 0 \<le> i \<Longrightarrow> 23 \<le> w \<Longrightarrow> 1 + (i mod (w div 23)) * 23 + 22 < (w :: int)"
proof -
  assume w: "0 < w" "w mod 23 \<noteq> 0" "0 \<le> i" "23 \<le> w"
  then have "0 < w div 23" by simp
  then have "i mod (w div 23) \<le> w div 23 - 1" using pos_mod_bound [of "w div 23" i] by linarith
  moreover have "w = 23 * (w div 23) + w mod 23" "0 < w mod 23" using w by (simp_all add: order_less_le)
  ultimately show ?thesis by linarith
qed

declare tile_rects.simps(2) [simp del]

lemma tile_rects_Cons:
  assumes "0 \<le> i" "in64 i" "0 < cols" "1 + (i mod cols) * 23 + 22 < w"
  shows "tile_rects w h cols tileY i (s # ss) =
    (if tileY + (i div cols) * 6 + 5 \<ge> h - 3 then tile_rects w h cols tileY (i + 1) ss
     else tile cols tileY i s # tile_rects w h cols tileY (i + 1) ss)"
  using assms by (simp add: tile_rects.simps(2) tile_def Let_def quot64_nonneg rem64_nonneg)

lemma tile_rects_below:
  assumes "0 \<le> i" "in64 (i + int (length ss))" "0 < cols" "\<And>j. 0 \<le> j \<Longrightarrow> 1 + (j mod cols) * 23 + 22 < w"
    and "tileY + (i div cols) * 6 + 5 \<ge> h - 3"
  shows "tile_rects w h cols tileY i ss = []"
  using assms
proof (induction ss arbitrary: i)
  case (Cons s ss)
  have "i div cols \<le> (i + 1) div cols" using Cons.prems(3) by (intro zdiv_mono1) simp_all
  then have "tile_rects w h cols tileY (i + 1) ss = []"
    using Cons.prems by (intro Cons.IH) (auto simp: algebra_simps)
  moreover have "in64 i" using Cons.prems(1,2) by (intro in64_mono [of "i + int (length (s # ss))" i]) auto
  ultimately show ?case using Cons.prems by (simp add: tile_rects_Cons)
qed simp

lemma nth_later: "i + 1 \<le> j \<Longrightarrow> (s # ss) ! nat (j - i) = ss ! nat (j - (i + 1))"
proof -
  assume "i + 1 \<le> j"
  then have "nat (j - i) = Suc (nat (j - (i + 1)))" by linarith
  then show ?thesis by simp
qed

text \<open>The place of a hit tile is the place of its symbol.\<close>

lemma hit_ticker_place:
  assumes "0 \<le> i" "in64 (i + int (length ss))" "0 < cols" "\<And>j. 0 \<le> j \<Longrightarrow> 1 + (j mod cols) * 23 + 22 < w"
    and "hit_ticker x y i (tile_rects w h cols tileY i ss) = Some (j, r)"
  shows "i \<le> j \<and> j < i + int (length ss) \<and> r = tile cols tileY j (ss ! nat (j - i)) \<and> in_ticker x y r"
  using assms
proof (induction ss arbitrary: i)
  case (Cons s ss)
  have i: "in64 i" using Cons.prems(1,2) by (intro in64_mono [of "i + int (length (s # ss))" i]) auto
  have next': "in64 (i + 1 + int (length ss))" using Cons.prems(2) by (simp add: algebra_simps)
  show ?case
  proof (cases "tileY + (i div cols) * 6 + 5 \<ge> h - 3")
    case True
    then show ?thesis using tile_rects_below [OF Cons.prems(1-4) True] Cons.prems(5) by simp
  next
    case False
    then have eq: "tile_rects w h cols tileY i (s # ss) = tile cols tileY i s # tile_rects w h cols tileY (i + 1) ss"
      using tile_rects_Cons [OF Cons.prems(1) i Cons.prems(3,4)] Cons.prems(1) by simp
    show ?thesis
    proof (cases "in_ticker x y (tile cols tileY i s)")
      case True
      then show ?thesis using Cons.prems(5) by (auto simp: eq)
    next
      case False
      then have "hit_ticker x y (i + 1) (tile_rects w h cols tileY (i + 1) ss) = Some (j, r)" using Cons.prems(5) by (simp add: eq)
      from Cons.IH [OF _ next' Cons.prems(3,4) this] Cons.prems(1)
      have j: "i + 1 \<le> j" "j < i + 1 + int (length ss)" "r = tile cols tileY j (ss ! nat (j - (i + 1)))" "in_ticker x y r" by auto
      then show ?thesis using nth_later [of i j s ss] by simp
    qed
  qed
qed simp

lemma hit_some: "r \<in> set rs \<Longrightarrow> in_ticker x y r \<Longrightarrow> hit_ticker x y i rs \<noteq> None"
  by (induction rs arbitrary: i) auto

lemma hit_ticker_in: "hit_ticker x y i rs = Some (j, r) \<Longrightarrow> r \<in> set rs \<and> in_ticker x y r"
  by (induction rs arbitrary: i) (auto split: if_splits)

text \<open>Tiles do not overlap.\<close>

lemma tile_unique:
  assumes "0 < cols" "0 \<le> j" "in_ticker x y (tile cols tileY j s)"
  shows "j = (y - tileY) div 6 * cols + (x - 1) div 23"
proof -
  have "(x - 1) div 23 = j mod cols" using assms(3) by (auto simp: in_ticker_def in_rect_def tile_def intro!: int_div_pos_eq [of _ _ "j mod cols" "x - 1 - 23 * (j mod cols)"])
  moreover have "(y - tileY) div 6 = j div cols" using assms(3)
    by (auto simp: in_ticker_def in_rect_def tile_def intro!: int_div_pos_eq [of _ _ "j div cols" "y - tileY - 6 * (j div cols)"])
  ultimately show ?thesis by simp
qed

lemma tile_rects_set:
  assumes "0 \<le> i" "in64 (i + int (length ss))" "0 < cols" "\<And>j. 0 \<le> j \<Longrightarrow> 1 + (j mod cols) * 23 + 22 < w"
    and "r \<in> set (tile_rects w h cols tileY i ss)"
  shows "\<exists>j. i \<le> j \<and> j < i + int (length ss) \<and> r = tile cols tileY j (ss ! nat (j - i))"
  using assms
proof (induction ss arbitrary: i)
  case (Cons s ss)
  have i: "in64 i" using Cons.prems(1,2) by (intro in64_mono [of "i + int (length (s # ss))" i]) auto
  have next': "in64 (i + 1 + int (length ss))" using Cons.prems(2) by (simp add: algebra_simps)
  have "r = tile cols tileY i s \<or> r \<in> set (tile_rects w h cols tileY (i + 1) ss)"
    using Cons.prems(5) tile_rects_Cons [OF Cons.prems(1) i Cons.prems(3,4)] Cons.prems(1) by (auto split: if_splits)
  then show ?case
  proof
    assume "r = tile cols tileY i s"
    then show ?thesis by (auto intro!: exI [of _ i])
  next
    assume "r \<in> set (tile_rects w h cols tileY (i + 1) ss)"
    from Cons.IH [OF _ next' Cons.prems(3,4) this] Cons.prems(1) obtain j
      where j: "i + 1 \<le> j" "j < i + 1 + int (length ss)" "r = tile cols tileY j (ss ! nat (j - (i + 1)))" by auto
    then show ?thesis using nth_later [of i j s ss] by (intro exI [of _ j]) simp
  qed
qed simp

lemma narrow_tiles: "w < 23 \<Longrightarrow> tile_rects w h 1 tileY i ss = []"
  by (induction ss arbitrary: i) (simp_all add: tile_rects.simps(2) Let_def rem64_def sgn_mult_abs)

lemma currentSymbol_nth: "0 \<le> j \<Longrightarrow> j < int (length ss) \<Longrightarrow> currentSymbol ss j = ss ! nat j"
  by (auto simp: currentSymbol_def)

lemma mouse_on_tile:
  assumes "\<not> in_ticker x y (ui_chat_rect v)" and "\<not> in_ticker x y (ui_insider_rect v)"
    and "find (in_level x y) (ui_orderbook_rects v) = None" and "hit_ticker x y 0 (ui_ticker_rects v) = Some (j, r)"
  shows "current (fst (handleMouseEvent ok x y Button1 v)) = currentSymbol (ui_symbols v) j"
  using assms by (simp add: handleMouseEvent_def Let_def current_def clampViewport_def)

text \<open>On a screen whose width is no multiple of 23, a click on a ticker tile selects the ticker that tile shows.\<close>

theorem tile_click_selects:
  assumes "0 < w" and "in64 w" and "w mod 23 \<noteq> 0" and "in64 (int (length (ui_symbols u)))"
    and "v = render_tiles w h tileY u" and "r \<in> set (ui_ticker_rects v)" and "in_ticker x y r"
    and "\<not> in_ticker x y (ui_chat_rect v)" and "\<not> in_ticker x y (ui_insider_rect v)"
    and "find (in_level x y) (ui_orderbook_rects v) = None"
  shows "current (fst (handleMouseEvent ok x y Button1 v)) = tr_symbol r"
proof -
  define cols where "cols = max 1 (quot64 w 23)"
  have rects: "ui_ticker_rects v = tile_rects w h cols tileY 0 (ui_symbols u)" and sy: "ui_symbols v = ui_symbols u"
    by (simp_all add: assms(5) render_tiles_def cols_def)
  have q: "quot64 w 23 = w div 23" using assms(1,2) by (simp add: quot64_nonneg)
  have w: "23 \<le> w"
  proof (rule ccontr)
    assume "\<not> 23 \<le> w"
    then have "cols = 1" using q assms(1) by (simp add: cols_def)
    then show False using narrow_tiles [of w h tileY 0 "ui_symbols u"] \<open>\<not> 23 \<le> w\<close> assms(6) rects by simp
  qed
  then have cols: "cols = w div 23" "0 < cols" using q by (simp_all add: cols_def max_def)
  have fits: "1 + (j mod cols) * 23 + 22 < w" if "0 \<le> j" for j using column_fits [OF assms(1,3) that w] cols(1) by simp
  note place = hit_ticker_place [where i = 0 and w = w and h = h and cols = cols and tileY = tileY and ss = "ui_symbols u", simplified, OF assms(4) cols(2)]
  obtain k where k: "0 \<le> k" "k < int (length (ui_symbols u))" "r = tile cols tileY k (ui_symbols u ! nat k)"
    using tile_rects_set [of 0 "ui_symbols u" cols w r h tileY] assms(4,6) cols(2) fits rects by auto
  have "hit_ticker x y 0 (ui_ticker_rects v) \<noteq> None"
    by (rule hit_some [OF assms(6,7)])
  then obtain j r' where j: "hit_ticker x y 0 (ui_ticker_rects v) = Some (j, r')" by auto
  then have p: "0 \<le> j \<and> j < int (length (ui_symbols u)) \<and> r' = tile cols tileY j (ui_symbols u ! nat j) \<and> in_ticker x y r'"
    using place [of x y j r'] fits rects by auto
  then have "j = k" using tile_unique [OF cols(2)] k assms(7) by metis
  then have "current (fst (handleMouseEvent ok x y Button1 v)) = ui_symbols u ! nat k"
    using p by (simp add: mouse_on_tile [OF assms(8-10) j] sy currentSymbol_nth)
  then show ?thesis by (simp add: k(3) tile_def)
qed

definition demo_tiles_ui :: ui where
  "demo_tiles_ui = render_tiles 60 24 4 demo_ui"

lemma demo_tiles_rects:
  "ui_ticker_rects demo_tiles_ui = [tile 2 4 0 ''ACME'', tile 2 4 1 ''BYTE'', tile 2 4 2 ''CORE'']"
  by (simp add: demo_tiles_ui_def render_tiles_def demo_ui_def initial_ui_def tile_rects.simps(2) Let_def rem64_def quot64_def i64_def
      tile_def)

theorem tile_click_selects_witness:
  "current (fst (handleMouseEvent True 30 6 Button1 demo_tiles_ui)) = ''BYTE''"
proof -
  have "demo_tiles_ui = render_tiles 60 24 4 demo_ui" by (simp add: demo_tiles_ui_def)
  moreover have "tile 2 4 1 ''BYTE'' \<in> set (ui_ticker_rects demo_tiles_ui)" by (simp add: demo_tiles_rects)
  moreover have "in_ticker 30 6 (tile 2 4 1 ''BYTE'')" by (simp add: in_ticker_def in_rect_def tile_def)
  moreover have "\<not> in_ticker 30 6 (ui_chat_rect demo_tiles_ui)" "\<not> in_ticker 30 6 (ui_insider_rect demo_tiles_ui)"
    "find (in_level 30 6) (ui_orderbook_rects demo_tiles_ui) = None" "in64 (int (length (ui_symbols demo_ui)))"
    by (simp_all add: demo_tiles_ui_def render_tiles_def demo_ui_def initial_ui_def no_rect_def in_ticker_def in_rect_def Let_def in64_def)
  ultimately show ?thesis
    using tile_click_selects [of 60 demo_ui demo_tiles_ui 24 4 "tile 2 4 1 ''BYTE''" 30 6 True] by (simp add: in64_def tile_def)
qed

section \<open>The column left out\<close>

text \<open>At a width of \<open>cols\<close> times 23 the last column does not fit, although the columns are counted with it.\<close>

lemma skipped_column:
  assumes "1 < cols" "0 \<le> i" "i < cols" "cols < i + int (length ss)" "in64 cols" "tileY + 6 + 5 < h - 3"
    and "in_ticker x y (tile cols tileY cols s)"
  shows "\<exists>r. hit_ticker x y k (tile_rects (23 * cols) h cols tileY i ss) = Some (k + (cols - 1 - i), r) \<and> tr_symbol r = ss ! nat (cols - i)"
  using assms
proof (induction ss arbitrary: i k)
  case (Cons a ss)
  have row: "i mod cols = i" "i div cols = 0" using Cons.prems(2,3) by simp_all
  have i64: "in64 i" using Cons.prems(2,3,5) by (intro in64_mono [of cols i]) auto
  show ?case
  proof (cases "i = cols - 1")
    case True
    obtain b ss' where ss: "ss = b # ss'" using Cons.prems(4) True by (cases ss) auto
    have "tile_rects (23 * cols) h cols tileY i (a # ss) = tile_rects (23 * cols) h cols tileY cols ss"
      using Cons.prems(1,2) i64 True row by (simp add: tile_rects.simps(2) Let_def rem64_nonneg)
    also have "\<dots> = tile cols tileY cols b # tile_rects (23 * cols) h cols tileY (cols + 1) ss'"
      unfolding ss using Cons.prems(1,5,6) by (subst tile_rects_Cons) simp_all
    finally have "hit_ticker x y k (tile_rects (23 * cols) h cols tileY i (a # ss)) = Some (k, tile cols tileY cols b)"
      using Cons.prems(7) by (simp add: in_ticker_def tile_def)
    then show ?thesis using True by (simp add: tile_def ss)
  next
    case False
    have eq: "tile_rects (23 * cols) h cols tileY i (a # ss) = tile cols tileY i a # tile_rects (23 * cols) h cols tileY (i + 1) ss"
      using Cons.prems(1-3,6) i64 row False by (subst tile_rects_Cons) simp_all
    have miss: "\<not> in_ticker x y (tile cols tileY i a)"
    proof
      assume "in_ticker x y (tile cols tileY i a)"
      then have "i = cols"
        using tile_unique [of cols i x y tileY a] tile_unique [of cols cols x y tileY s] Cons.prems(1,2,7) by simp
      then show False using Cons.prems(3) by simp
    qed
    obtain r where r: "hit_ticker x y (k + 1) (tile_rects (23 * cols) h cols tileY (i + 1) ss) = Some (k + 1 + (cols - 1 - (i + 1)), r)"
      "tr_symbol r = ss ! nat (cols - (i + 1))"
      using Cons.IH [of "i + 1" "k + 1"] Cons.prems False by auto
    moreover have "(a # ss) ! nat (cols - i) = ss ! nat (cols - (i + 1))" using nth_later [of i cols a ss] Cons.prems(3) by simp
    ultimately show ?thesis using miss by (intro exI [of _ r]) (simp add: eq)
  qed
qed simp

text \<open>On a screen whose width is a multiple of 23, 46 at least, the tile of the last column of the first row is left
  out; a click on the tile that follows, the first of the second row, does not select the ticker that tile
  shows but the one before it in the list.\<close>

theorem tile_click_wrong_ticker:
  assumes "1 < cols" and "in64 (23 * cols)" and "cols < int (length (ui_symbols u))" and "distinct (ui_symbols u)"
    and "tileY + 6 + 5 < h - 3" and "v = render_tiles (23 * cols) h tileY u"
    and "x = 1" and "y = tileY + 6"
    and "\<not> in_ticker x y (ui_chat_rect v)" and "\<not> in_ticker x y (ui_insider_rect v)"
    and "find (in_level x y) (ui_orderbook_rects v) = None"
  shows "\<exists>r \<in> set (ui_ticker_rects v). in_ticker x y r \<and> tr_symbol r = ui_symbols u ! nat cols \<and>
    current (fst (handleMouseEvent ok x y Button1 v)) = ui_symbols u ! nat (cols - 1) \<and>
    current (fst (handleMouseEvent ok x y Button1 v)) \<noteq> tr_symbol r"
proof -
  have i64: "in64 cols" using assms(1,2) by (intro in64_mono [of "23 * cols" cols]) auto
  have "quot64 (23 * cols) 23 = cols" using assms(1,2) by (simp add: quot64_nonneg)
  then have rects: "ui_ticker_rects v = tile_rects (23 * cols) h cols tileY 0 (ui_symbols u)" and sy: "ui_symbols v = ui_symbols u"
    using assms(1) by (simp_all add: assms(6) render_tiles_def)
  have "in_ticker x y (tile cols tileY cols [])" using assms(1,7,8) by (simp add: in_ticker_def in_rect_def tile_def)
  then obtain r where r: "hit_ticker x y 0 (ui_ticker_rects v) = Some (cols - 1, r)" "tr_symbol r = ui_symbols u ! nat cols"
    using skipped_column [OF assms(1) _ _ _ i64 assms(5), of 0 "ui_symbols u" x y "[]" 0] assms(1,3) unfolding rects by auto
  have hit: "r \<in> set (ui_ticker_rects v)" "in_ticker x y r" using hit_ticker_in [OF r(1)] by blast+
  have "current (fst (handleMouseEvent ok x y Button1 v)) = ui_symbols u ! nat (cols - 1)"
    using assms(1,3) by (simp add: mouse_on_tile [OF assms(9-11) r(1)] sy currentSymbol_nth)
  moreover have "ui_symbols u ! nat (cols - 1) \<noteq> ui_symbols u ! nat cols"
    using assms(1,3,4) by (simp add: nth_eq_iff_index_eq)
  ultimately show ?thesis using hit r(2) by auto
qed

definition demo_narrow_ui :: ui where
  "demo_narrow_ui = render_tiles 46 24 4 demo_ui"

theorem tile_click_wrong_ticker_witness:
  "current (fst (handleMouseEvent True 1 10 Button1 demo_narrow_ui)) = ''BYTE''"
proof -
  have rects: "\<not> in_ticker 1 10 (ui_chat_rect demo_narrow_ui)" "\<not> in_ticker 1 10 (ui_insider_rect demo_narrow_ui)"
    "find (in_level 1 10) (ui_orderbook_rects demo_narrow_ui) = None"
    by (simp_all add: demo_narrow_ui_def render_tiles_def demo_ui_def initial_ui_def no_rect_def in_ticker_def in_rect_def Let_def)
  have sy: "ui_symbols demo_ui = [''ACME'', ''BYTE'', ''CORE'']" by (simp add: demo_ui_def initial_ui_def Let_def)
  have v: "demo_narrow_ui = render_tiles (23 * 2) 24 4 demo_ui" by (simp add: demo_narrow_ui_def)
  have "\<exists>r \<in> set (ui_ticker_rects demo_narrow_ui). in_ticker 1 10 r \<and> tr_symbol r = ui_symbols demo_ui ! nat 2 \<and>
      current (fst (handleMouseEvent True 1 10 Button1 demo_narrow_ui)) = ui_symbols demo_ui ! nat (2 - 1) \<and>
      current (fst (handleMouseEvent True 1 10 Button1 demo_narrow_ui)) \<noteq> tr_symbol r"
    by (rule tile_click_wrong_ticker [where cols = 2 and tileY = 4 and h = 24, OF _ _ _ _ _ v _ _ rects]) (simp_all add: sy in64_def)
  then show ?thesis by (auto simp: sy)
qed

end
