(* ===== verification/SessionProps.thy ===== *)
theory SessionProps
  imports Session GameProps ClientTiles
begin

text \<open>
  Facts about starting the client: the configuration it runs with, what the saved profile brings back, and
  what it hides.
\<close>

section \<open>Tickers\<close>

definition norm_symbol :: "string \<Rightarrow> string" where
  "norm_symbol s = to_upper (trim_space s)"

lemma upper_space [simp]: "is_space (upper_char c) = is_space c"
  by (auto simp: upper_char_def is_space_def Let_def)

lemma upper_upper [simp]: "upper_char (upper_char c) = upper_char c"
  by (auto simp: upper_char_def Let_def)

lemma to_upper_idem [simp]: "to_upper (to_upper s) = to_upper s"
  by (simp add: to_upper_def)

lemma trim_to_upper: "trim_space (to_upper s) = to_upper (trim_space s)"
  by (simp add: trim_space_def to_upper_def rev_map dropWhile_map comp_def)

lemma rev_dropWhile_hd: "s = [] \<or> \<not> P (hd s) \<Longrightarrow> dropWhile P (rev (dropWhile P (rev s))) = rev (dropWhile P (rev s))"
proof -
  assume s: "s = [] \<or> \<not> P (hd s)"
  let ?r = "rev (dropWhile P (rev s))"
  have "s = ?r @ rev (takeWhile P (rev s))" by (metis rev_append rev_rev_ident takeWhile_dropWhile_id)
  then have "?r = [] \<or> hd ?r = hd s" by (metis hd_append2)
  then show ?thesis using s by (cases ?r) (auto simp: dropWhile_eq_self_iff)
qed

lemma trim_idem [simp]: "trim_space (trim_space s) = trim_space s"
proof -
  define t where "t = dropWhile is_space s"
  have "t = [] \<or> \<not> is_space (hd t)" using hd_dropWhile [of is_space s] by (auto simp: t_def)
  then show ?thesis unfolding trim_space_def t_def [symmetric] by (simp add: rev_dropWhile_hd)
qed

lemma norm_symbol_idem [simp]: "norm_symbol (norm_symbol s) = norm_symbol s"
  by (simp add: norm_symbol_def trim_to_upper)

text \<open>The loop that keeps the first of equal, non-blank tickers.\<close>

lemma foldl_collect:
  fixes f :: "'a \<Rightarrow> 'b list"
  shows "set (foldl (\<lambda>out p. if f p = [] \<or> f p \<in> set out then out else out @ [f p]) acc ps) = set acc \<union> (f ` set ps - {[]})"
    "distinct acc \<Longrightarrow> distinct (foldl (\<lambda>out p. if f p = [] \<or> f p \<in> set out then out else out @ [f p]) acc ps)"
  by (induction ps arbitrary: acc) auto

lemma normalize_all_fold:
  "normalize_all ps = foldl (\<lambda>out p. if norm_symbol p = [] \<or> norm_symbol p \<in> set out then out else out @ [norm_symbol p]) [] ps"
  unfolding normalize_all_def norm_symbol_def Let_def by (rule refl)

lemma normalize_all_set: "set (normalize_all ps) = norm_symbol ` set ps - {[]}" "distinct (normalize_all ps)"
  using foldl_collect [where f = norm_symbol and acc = "[]" and ps = ps] by (simp_all add: normalize_all_fold)

lemma normalizeProfileSymbols_set:
  "set (normalizeProfileSymbols ss) = set ss - {[]}" "distinct (normalizeProfileSymbols ss)"
  using foldl_collect [where f = "\<lambda>s. s" and acc = "[]" and ps = ss] by (simp_all add: normalizeProfileSymbols_def)

text \<open>What every list of subscribed tickers is: distinct, not blank, in upper case without spaces around.\<close>

definition symbols_ok :: "string list \<Rightarrow> bool" where
  "symbols_ok ss \<longleftrightarrow> distinct ss \<and> (\<forall>s \<in> set ss. s \<noteq> [] \<and> norm_symbol s = s)"

lemma normalize_all_ok: "symbols_ok (normalize_all ps)"
  using normalize_all_set [of ps] by (auto simp: symbols_ok_def)

lemma normalizeSymbols_ok: "symbols_ok (normalizeSymbols raw fb)"
  using normalize_all_ok [of fb] normalize_all_ok [of "split_commas [] raw"]
  by (simp add: normalizeSymbols_def Let_def symbols_ok_def)

lemma normalizeSymbols_blank: "normalizeSymbols [] fb = sort (normalize_all fb)"
  by (simp add: normalizeSymbols_def normalize_all_def trim_space_def to_upper_def Let_def)

lemma index_from_missing: "t \<notin> set ss \<Longrightarrow> index_from i ss t = - 1"
  by (induction i ss t rule: index_from.induct) auto

lemma index_from_at: "t \<in> set ss \<Longrightarrow> i \<le> index_from i ss t \<and> index_from i ss t < i + int (length ss) \<and> ss ! nat (index_from i ss t - i) = t"
proof (induction i ss t rule: index_from.induct)
  case (2 i s ss t)
  show ?case
  proof (cases "s = t")
    case False
    then have "i + 1 \<le> index_from (i + 1) ss t \<and> index_from (i + 1) ss t < i + 1 + int (length ss) \<and> ss ! nat (index_from (i + 1) ss t - (i + 1)) = t"
      using 2 by simp
    then show ?thesis using False nth_later [of i "index_from (i + 1) ss t" s ss] by simp
  qed simp
qed simp

lemma starts_on:
  assumes "t \<in> set ss"
  shows "current (initial_ui ss t pid name) = t"
  using index_from_at [OF assms, of 0] currentSymbol_nth [of "index_from 0 ss t" ss]
  by (simp add: current_def initial_ui_def indexOfSymbol_def Let_def)

lemma currentSymbol_in: "ss \<noteq> [] \<Longrightarrow> currentSymbol ss i \<in> set ss"
  by (auto simp: currentSymbol_def not_less)

section \<open>The configuration of a launch\<close>

text \<open>Every way to a player ends with a player and normal tickers.\<close>

lemma by_token_ok: "by_token la raw saved cf = Inr (cf', label) \<Longrightarrow> cf_player_id cf' \<noteq> [] \<and> symbols_ok (cf_symbols cf')"
  by (auto simp: by_token_def Let_def exchangeBootstrapToken_def normalizeSymbols_ok
      split: option.splits action_outcome.splits sum.splits reply.splits if_splits)

lemma BootstrapViaSSH_ok: "BootstrapViaSSH ssh addr u w = Inr info \<Longrightarrow> bi_player_id info \<noteq> []"
  by (auto simp: BootstrapViaSSH_def parseBootstrapOutput_def split: if_splits ssh_outcome.splits sum.splits)

lemma by_ssh_ok: "by_ssh la raw saved cf = Inr (cf', label) \<Longrightarrow> cf_player_id cf' \<noteq> [] \<and> symbols_ok (cf_symbols cf')"
  by (auto simp: by_ssh_def Let_def normalizeSymbols_ok dest: BootstrapViaSSH_ok split: sum.splits)

lemma by_player_id_ok: "by_player_id la raw saved cf = Inr (cf', label) \<Longrightarrow> cf_player_id cf' = cf_player_id cf \<and> symbols_ok (cf_symbols cf')"
  by (auto simp: by_player_id_def Let_def normalizeSymbols_ok)

lemma find_player_ok: "find_player la raw saved cf = Inr (cf', label) \<Longrightarrow> cf_player_id cf' \<noteq> [] \<and> symbols_ok (cf_symbols cf')"
  using by_token_ok by_ssh_ok by_player_id_ok by (fastforce simp: find_player_def split: if_splits)

lemma settle_config_ok:
  assumes "cf_symbols cf \<noteq> []"
  shows "cf_initial (settle_config cf) \<in> set (cf_symbols cf)" "cf_symbols (settle_config cf) = cf_symbols cf"
    "cf_player_id (settle_config cf) = cf_player_id cf" "cf_grpc_addr (settle_config cf) \<noteq> []"
proof -
  show "cf_initial (settle_config cf) \<in> set (cf_symbols cf)"
    using assms index_from_missing [of "cf_initial cf" "cf_symbols cf" 0]
    by (cases "cf_initial cf \<in> set (cf_symbols cf)") (simp_all add: settle_config_def indexOfSymbol_def)
qed (simp_all add: settle_config_def or_else_def local_grpc_def)

lemma resolveConfig_Inr:
  assumes "resolveConfig la flags raw d = (Inr (cf, label), d')"
  obtains pr cf0 saved where "LoadProfile (if cf_reset_profile flags \<and> la_remove_ok la then d\<lparr>main_file := NoFile\<rparr> else d) = Inr pr"
    and "find_player la raw saved (merge_profile pr flags) = Inr (cf0, label)" and "cf_symbols cf0 \<noteq> []" and "cf = settle_config cf0"
  using assms by (auto simp: resolveConfig_def Let_def split: if_splits sum.splits prod.splits option.splits)

text \<open>Whenever the client starts, by token, by password, by flag or by its saved profile, it knows a player and a
  server, its tickers are distinct, in upper case and not empty, and the screen opens on the configured ticker,
  which is one of them.\<close>

theorem resolved_config_usable:
  assumes "resolveConfig la flags raw d = (Inr (cf, label), d')"
  shows "cf_player_id cf \<noteq> [] \<and> cf_grpc_addr cf \<noteq> [] \<and> cf_symbols cf \<noteq> [] \<and> symbols_ok (cf_symbols cf) \<and>
    cf_initial cf \<in> set (cf_symbols cf) \<and>
    current (initial_ui (cf_symbols cf) (cf_initial cf) (cf_player_id cf) username) = cf_initial cf"
proof -
  from assms obtain pr cf0 saved where "find_player la raw saved (merge_profile pr flags) = Inr (cf0, label)"
    and ne: "cf_symbols cf0 \<noteq> []" and cf: "cf = settle_config cf0" by (rule resolveConfig_Inr)
  then have "cf_player_id cf0 \<noteq> []" "symbols_ok (cf_symbols cf0)" using find_player_ok by blast+
  then show ?thesis using settle_config_ok [OF ne] ne by (simp add: cf starts_on)
qed

definition offline :: launch where
  "offline = \<lparr>la_prompt = \<lparr>pt_terminal = False, pt_ssh_addr = None, pt_username = None, pt_password = None\<rparr>,
     la_ssh = (\<lambda>addr user pw. DialFails), la_exchange = (\<lambda>addr token. NoAnswer Unavailable),
     la_catalog = (\<lambda>addr pid. NoAnswer Unavailable), la_portfolio_range = (\<lambda>m. []), la_path_ok = True, la_remove_ok = True,
     la_io = None, la_now = 0\<rparr>"

definition no_disk :: "client_profile disk" where
  "no_disk = \<lparr>main_file = NoFile, tmp_file = NoFile\<rparr>"

definition demo_flags :: config where
  "demo_flags = default_flags\<lparr>cf_player_id := ''id-ann'', cf_username := ''ann''\<rparr>"

lemma demo_symbols: "normalizeSymbols ''ACME, BYTE'' fb = [''ACME'', ''BYTE'']"
  by (simp add: normalizeSymbols_def normalize_all_def trim_space_def is_space_def to_upper_def upper_char_def Let_def)

lemma demo_resolves:
  "\<exists>label d'. resolveConfig offline demo_flags ''ACME, BYTE'' no_disk =
     (Inr (demo_flags\<lparr>cf_grpc_addr := local_grpc, cf_symbols := [''ACME'', ''BYTE''], cf_initial := ''ACME''\<rparr>, label), d')"
  by (simp add: resolveConfig_def offline_def no_disk_def LoadProfile_def demo_flags_def default_flags_def merge_profile_def
      find_player_def by_player_id_def demo_symbols settle_config_def or_else_def local_grpc_def Let_def)

theorem resolved_config_usable_witness:
  "symbols_ok [''ACME'', ''BYTE''] \<and> current (initial_ui [''ACME'', ''BYTE''] ''ACME'' ''id-ann'' ''ann'') = ''ACME''"
proof -
  obtain label d' where r: "resolveConfig offline demo_flags ''ACME, BYTE'' no_disk =
     (Inr (demo_flags\<lparr>cf_grpc_addr := local_grpc, cf_symbols := [''ACME'', ''BYTE''], cf_initial := ''ACME''\<rparr>, label), d')"
    using demo_resolves by blast
  show ?thesis using resolved_config_usable [OF r] by (simp add: demo_flags_def)
qed

section \<open>The saved profile\<close>

lemma normalizeProfileSymbols_idem: "symbols_ok (normalizeProfileSymbols ss) \<Longrightarrow> set (normalizeProfileSymbols (normalizeProfileSymbols ss)) = set (normalizeProfileSymbols ss)"
  by (auto simp: normalizeProfileSymbols_set)

lemma LoadProfile_saved:
  "LoadProfile (snd (SaveProfile None now p d)) = Inr (Some (p\<lparr>pf_version := 1,
     pf_symbols := normalizeProfileSymbols (normalizeProfileSymbols (pf_symbols p)), pf_updated_at := now\<rparr>))"
  by (simp add: LoadProfile_def SaveProfile_def persist_main)

text \<open>A launch with a known player, in one step.\<close>

lemma resolve_by_player_id:
  assumes "la_path_ok la" and "\<not> cf_reset_profile flags" and "LoadProfile d = Inr pr"
    and "cf_player_id (merge_profile pr flags) \<noteq> []"
    and "cf = (fst (projr (by_player_id la raw (case pr of Some p \<Rightarrow> pf_symbols p | None \<Rightarrow> []) (merge_profile pr flags))))"
    and "cf_symbols cf \<noteq> []"
  shows "\<exists>label d'. resolveConfig la flags raw d = (Inr (settle_config cf, label), d')"
  using assms by (auto simp: resolveConfig_def find_player_def by_player_id_def Let_def)

lemma symbols_kept:
  assumes "symbols_ok xs" "set ss = set xs"
  shows "set xs \<subseteq> set (normalize_all (ss @ extra))"
proof
  fix s
  assume "s \<in> set xs"
  then have "s \<in> set ss" "s = norm_symbol s" "s \<noteq> []" using assms by (simp_all add: symbols_ok_def)
  then have "s \<in> norm_symbol ` set (ss @ extra) - {[]}" by auto
  then show "s \<in> set (normalize_all (ss @ extra))" by (simp add: normalize_all_set)
qed

text \<open>C24: a launch without any flags resumes: after the client was started in any way and left, the next launch, with the
  network down or any server reachable, is the same player under the same name at the same servers, has at least the
  tickers it had, and opens on the ticker that was selected when the client was left.\<close>

theorem next_launch_resumes:
  assumes first: "resolveConfig la flags raw d = (Inr (cf, label), d1)" and "cf_ssh_addr cf \<noteq> []" and "la_path_ok la'"
  shows "\<exists>cf' label' d2. resolveConfig la' default_flags [] (shutdown None now cf u d1) = (Inr (cf', label'), d2) \<and>
    cf_player_id cf' = cf_player_id cf \<and> cf_username cf' = cf_username cf \<and> cf_grpc_addr cf' = cf_grpc_addr cf \<and>
    cf_ssh_addr cf' = cf_ssh_addr cf \<and> set (cf_symbols cf) \<subseteq> set (cf_symbols cf') \<and>
    cf_initial cf' = currentSymbol (cf_symbols cf) (ui_selected u)"
proof -
  from first obtain pr cf0 saved where f: "find_player la raw saved (merge_profile pr flags) = Inr (cf0, label)"
    and ne: "cf_symbols cf0 \<noteq> []" and cf: "cf = settle_config cf0" by (rule resolveConfig_Inr)
  note st = settle_config_ok [OF ne, folded cf]
  have known: "cf_player_id cf \<noteq> []" "cf_grpc_addr cf \<noteq> []" "symbols_ok (cf_symbols cf)" "cf_symbols cf \<noteq> []"
    using find_player_ok [OF f] st ne by simp_all
  define last where "last = currentSymbol (cf_symbols cf) (ui_selected u)"
  have last: "last \<in> set (cf_symbols cf)" unfolding last_def using known(4) by (rule currentSymbol_in)
  then have "last \<noteq> []" using known(3) by (auto simp: symbols_ok_def)
  define ss where "ss = normalizeProfileSymbols (normalizeProfileSymbols (cf_symbols cf))"
  have ss: "set ss = set (cf_symbols cf)"
    using known(3) by (auto simp: ss_def normalizeProfileSymbols_set symbols_ok_def)
  define p where "p = (profile_of cf last)\<lparr>pf_version := 1, pf_symbols := ss, pf_updated_at := now\<rparr>"
  have p: "LoadProfile (shutdown None now cf u d1) = Inr (Some p)"
    by (simp add: shutdown_def LoadProfile_saved p_def ss_def last_def profile_of_def)
  define m where "m = merge_profile (Some p) default_flags"
  have m: "cf_player_id m = cf_player_id cf" "cf_username m = cf_username cf" "cf_grpc_addr m = cf_grpc_addr cf"
    "cf_ssh_addr m = cf_ssh_addr cf" "cf_initial m = last"
    using assms(2) by (simp_all add: m_def merge_profile_def default_flags_def p_def profile_of_def or_else_def)
  define c where "c = fst (projr (by_player_id la' [] ss m))"
  have c: "c = m\<lparr>cf_symbols := sort (normalize_all (ss @ server_symbols la' m))\<rparr>"
  proof -
    have "or_else (cf_grpc_addr m) local_grpc = cf_grpc_addr m" using known(2) m(3) by (simp add: or_else_def)
    then show ?thesis by (simp add: c_def by_player_id_def Let_def normalizeSymbols_blank mergeFallback_def)
  qed
  have sub: "set (cf_symbols cf) \<subseteq> set (cf_symbols c)" using symbols_kept [OF known(3) ss] by (simp add: c)
  then have "cf_symbols c \<noteq> []" using known(4) by auto
  have "\<not> cf_reset_profile default_flags" by (simp add: default_flags_def)
  moreover have "cf_player_id (merge_profile (Some p) default_flags) \<noteq> []" using known(1) m(1) by (simp add: m_def)
  moreover have "pf_symbols p = ss" by (simp add: p_def)
  then have "c = fst (projr (by_player_id la' [] (case Some p of Some p \<Rightarrow> pf_symbols p | None \<Rightarrow> []) (merge_profile (Some p) default_flags)))"
    by (simp only: c_def m_def option.case)
  ultimately obtain label' d2 where "resolveConfig la' default_flags [] (shutdown None now cf u d1) = (Inr (settle_config c, label'), d2)"
    using resolve_by_player_id [OF assms(3) _ p] \<open>cf_symbols c \<noteq> []\<close> by blast
  moreover have "settle_config c = c"
    using known(2) m(3,5) \<open>last \<noteq> []\<close> last sub index_from_at [of last "cf_symbols c" 0]
    by (auto simp: settle_config_def or_else_def indexOfSymbol_def c subset_iff)
  ultimately show ?thesis using m sub by (auto simp: c last_def)
qed

theorem next_launch_resumes_witness:
  "\<exists>d1 cf' label' d2. resolveConfig offline default_flags [] (shutdown None 7 (demo_flags\<lparr>cf_grpc_addr := local_grpc, cf_symbols := [''ACME'', ''BYTE''],
      cf_initial := ''ACME''\<rparr>) (demo_ui\<lparr>ui_selected := 1\<rparr>) d1) = (Inr (cf', label'), d2) \<and>
    cf_player_id cf' = ''id-ann'' \<and> cf_initial cf' = ''BYTE''"
proof -
  let ?cf = "demo_flags\<lparr>cf_grpc_addr := local_grpc, cf_symbols := [''ACME'', ''BYTE''], cf_initial := ''ACME''\<rparr>"
  obtain label d1 where r: "resolveConfig offline demo_flags ''ACME, BYTE'' no_disk = (Inr (?cf, label), d1)"
    using demo_resolves by blast
  have "cf_ssh_addr ?cf \<noteq> []" "la_path_ok offline" by (simp_all add: demo_flags_def default_flags_def offline_def)
  from next_launch_resumes [OF r this, of 7 "demo_ui\<lparr>ui_selected := 1\<rparr>"] obtain cf' label' d2 where
    "resolveConfig offline default_flags [] (shutdown None 7 ?cf (demo_ui\<lparr>ui_selected := 1\<rparr>) d1) = (Inr (cf', label'), d2)"
    "cf_player_id cf' = cf_player_id ?cf" "cf_initial cf' = currentSymbol (cf_symbols ?cf) (ui_selected (demo_ui\<lparr>ui_selected := 1\<rparr>))"
    by blast
  moreover from this have "cf_player_id cf' = ''id-ann''" "cf_initial cf' = ''BYTE''" by (simp_all add: demo_flags_def currentSymbol_def)
  ultimately show ?thesis by blast
qed

lemma resolveConfig_saves:
  "resolveConfig la flags raw d = (Inr (cf, label), d') \<Longrightarrow>
     \<exists>d1. d' = snd (SaveProfile (la_io la) (la_now la) (profile_of cf (cf_initial cf)) d1)"
  by (auto simp: resolveConfig_def Let_def split: if_splits sum.splits prod.splits option.splits)

text \<open>With a player on the command line or in the profile no token is exchanged and nobody logs in.\<close>

lemma known_player_offline:
  assumes "cf_player_id flags \<noteq> [] \<or>
      (\<exists>p. LoadProfile (if cf_reset_profile flags \<and> la_remove_ok la then d\<lparr>main_file := NoFile\<rparr> else d) = Inr (Some p) \<and> pf_player_id p \<noteq> [])"
  shows "resolveConfig (la\<lparr>la_exchange := exchange, la_ssh := ssh, la_prompt := pt\<rparr>) flags raw d = resolveConfig la flags raw d"
proof -
  let ?d = "if cf_reset_profile flags \<and> la_remove_ok la then d\<lparr>main_file := NoFile\<rparr> else d"
  define la' where "la' = la\<lparr>la_exchange := exchange, la_ssh := ssh, la_prompt := pt\<rparr>"
  have la': "la_path_ok la' = la_path_ok la" "la_remove_ok la' = la_remove_ok la" "la_io la' = la_io la" "la_now la' = la_now la"
    by (simp_all add: la'_def)
  have same: "find_player la' raw saved m = find_player la raw saved m" if "cf_player_id m \<noteq> []" for saved m
    using that by (simp add: la'_def find_player_def by_player_id_def server_symbols_def Let_def)
  have "find_player la' raw saved (merge_profile pr flags) = find_player la raw saved (merge_profile pr flags)" if "LoadProfile ?d = Inr pr" for pr saved
  proof (rule same)
    show "cf_player_id (merge_profile pr flags) \<noteq> []"
      using assms that by (cases pr) (auto simp: merge_profile_def or_else_def split: if_splits)
  qed
  then show ?thesis unfolding la'_def [symmetric] resolveConfig_def la' Let_def by (cases "LoadProfile ?d") simp_all
qed

text \<open>Which of the ways to a player gives the player and the name.\<close>

lemma by_token_player: "by_token la raw saved cf = Inr (cf', label) \<Longrightarrow>
    \<exists>user role. exchangeBootstrapToken (la_exchange la (or_else (cf_grpc_addr cf) local_grpc) (cf_token cf)) = Some (cf_player_id cf', user, role) \<and>
      cf_username cf' = or_else (cf_username cf) user"
  by (auto simp: by_token_def Let_def split: option.splits)

lemma prompt_name: "promptBootstrapCredentials pt cf = Inr cf' \<Longrightarrow> cf_username cf' \<noteq> []"
  by (auto simp: promptBootstrapCredentials_def Let_def split: if_splits option.splits)

lemma by_ssh_player: "by_ssh la raw saved cf = Inr (cf', label) \<Longrightarrow>
    \<exists>addr password info. BootstrapViaSSH (la_ssh la) addr (cf_username cf') password = Inr info \<and> cf_player_id cf' = bi_player_id info"
  using prompt_name [of "la_prompt la" cf]
  by (fastforce simp: by_ssh_def Let_def or_else_def split: sum.splits if_splits)

text \<open>C25: Who plays after a launch: the player of the flag, else the player of the saved profile, else
  the one the bootstrap token is exchanged for, else the one the SSH login gives; in the first two cases neither the
  token nor the login is used, whatever they would answer. The user name is that of the flag, else
  the profile's, else the server's (after a login it is the name logged in with). The profile is the
  file of the flag \<open>-profile\<close> or the default file, \<open>-reset-profile\<close> makes it absent, no other file changes, and it
  records the player afterwards if it can be written. So step 5 of Flow B in the README, in which the
  client started with a token exchanges it, holds only where no profile with a player has been saved.\<close>
theorem player_precedence:
  assumes "resolveConfig_at config_dir la flags raw profile fs = (Inr (cf, label), fs')"
  shows "\<exists>path pr d. ResolveProfilePath config_dir profile = Some path \<and> fs' = fs(path := fs' path) \<and>
    d = (if cf_reset_profile flags \<and> la_remove_ok la then (fs path)\<lparr>main_file := NoFile\<rparr> else fs path) \<and> LoadProfile d = Inr pr \<and>
    (let pid = (case pr of None \<Rightarrow> [] | Some p \<Rightarrow> pf_player_id p);
         name = or_else (cf_username flags) (case pr of None \<Rightarrow> [] | Some p \<Rightarrow> pf_username p);
         grpc = or_else (cf_grpc_addr flags) (case pr of None \<Rightarrow> [] | Some p \<Rightarrow> pf_grpc_addr p)
     in if cf_player_id flags \<noteq> [] \<or> pid \<noteq> []
        then cf_player_id cf = or_else (cf_player_id flags) pid \<and> cf_username cf = name \<and>
          (\<forall>exchange ssh pt. resolveConfig_at config_dir (la\<lparr>la_exchange := exchange, la_ssh := ssh, la_prompt := pt\<rparr>) flags raw profile fs =
             (Inr (cf, label), fs'))
        else if cf_token flags \<noteq> []
        then \<exists>user role. exchangeBootstrapToken (la_exchange la (or_else grpc local_grpc) (cf_token flags)) = Some (cf_player_id cf, user, role) \<and>
          cf_username cf = or_else name user
        else \<exists>addr password info. BootstrapViaSSH (la_ssh la) addr (cf_username cf) password = Inr info \<and> cf_player_id cf = bi_player_id info) \<and>
    (la_io la = None \<longrightarrow> (\<exists>p. LoadProfile (fs' path) = Inr (Some p) \<and> pf_player_id p = cf_player_id cf \<and> pf_username p = cf_username cf))"
proof -
  obtain path d' where path: "ResolveProfilePath config_dir profile = Some path"
    and run: "resolveConfig (la\<lparr>la_path_ok := True\<rparr>) flags raw (fs path) = (Inr (cf, label), d')" and fs': "fs' = fs(path := d')"
    using assms by (auto simp: resolveConfig_at_def resolveConfig_def split: option.splits prod.splits)
  define d where "d = (if cf_reset_profile flags \<and> la_remove_ok la then (fs path)\<lparr>main_file := NoFile\<rparr> else fs path)"
  obtain pr cf0 saved where pr: "LoadProfile d = Inr pr"
    and find: "find_player (la\<lparr>la_path_ok := True\<rparr>) raw saved (merge_profile pr flags) = Inr (cf0, label)" and cf: "cf = settle_config cf0"
    using run by (rule resolveConfig_Inr) (simp add: d_def split: if_splits)
  define m where "m = merge_profile pr flags"
  define pid name grpc where "pid = (case pr of None \<Rightarrow> [] | Some p \<Rightarrow> pf_player_id p)"
    and "name = or_else (cf_username flags) (case pr of None \<Rightarrow> [] | Some p \<Rightarrow> pf_username p)"
    and "grpc = or_else (cf_grpc_addr flags) (case pr of None \<Rightarrow> [] | Some p \<Rightarrow> pf_grpc_addr p)"
  have m: "cf_player_id m = or_else (cf_player_id flags) pid" "cf_username m = name" "cf_grpc_addr m = grpc" "cf_token m = cf_token flags"
    by (simp_all add: m_def pid_def name_def grpc_def merge_profile_def or_else_def split: option.split)
  have same: "cf_player_id cf = cf_player_id cf0" "cf_username cf = cf_username cf0" by (simp_all add: cf settle_config_def)
  have known: "cf_player_id cf = or_else (cf_player_id flags) pid \<and> cf_username cf = name \<and>
      (\<forall>exchange ssh pt. resolveConfig_at config_dir (la\<lparr>la_exchange := exchange, la_ssh := ssh, la_prompt := pt\<rparr>) flags raw profile fs =
         (Inr (cf, label), fs'))" if k: "cf_player_id flags \<noteq> [] \<or> pid \<noteq> []"
  proof -
    have "cf_player_id m \<noteq> []" using k m(1) by (auto simp: or_else_def)
    then have "cf_player_id cf = cf_player_id m \<and> cf_username cf = cf_username m"
      using find same by (auto simp: m_def [symmetric] find_player_def by_player_id_def Let_def)
    moreover have "cf_player_id flags \<noteq> [] \<or> (\<exists>p. LoadProfile (if cf_reset_profile flags \<and> la_remove_ok (la\<lparr>la_path_ok := True\<rparr>)
        then (fs path)\<lparr>main_file := NoFile\<rparr> else fs path) = Inr (Some p) \<and> pf_player_id p \<noteq> [])"
      using k pr by (cases pr) (simp_all add: d_def pid_def)
    note off = known_player_offline [OF this, where raw = raw]
    have "resolveConfig (la\<lparr>la_exchange := exchange, la_ssh := ssh, la_prompt := pt, la_path_ok := True\<rparr>) flags raw (fs path) =
        (Inr (cf, label), d')" for exchange ssh pt
    proof -
      have c: "la\<lparr>la_exchange := exchange, la_ssh := ssh, la_prompt := pt, la_path_ok := True\<rparr> =
        la\<lparr>la_path_ok := True, la_exchange := exchange, la_ssh := ssh, la_prompt := pt\<rparr>" by (cases la) simp
      show ?thesis unfolding c off run ..
    qed
    ultimately show ?thesis using m(1,2) by (simp add: resolveConfig_at_def path fs')
  qed
  have token: "\<exists>user role. exchangeBootstrapToken (la_exchange la (or_else grpc local_grpc) (cf_token flags)) = Some (cf_player_id cf, user, role) \<and>
      cf_username cf = or_else name user" if "cf_player_id flags = []" "pid = []" "cf_token flags \<noteq> []"
  proof -
    have "by_token (la\<lparr>la_path_ok := True\<rparr>) raw saved m = Inr (cf0, label)"
      using find that m by (simp add: m_def [symmetric] find_player_def or_else_def split: if_splits)
    from by_token_player [OF this] show ?thesis using m by (simp add: same)
  qed
  have login: "\<exists>addr password info. BootstrapViaSSH (la_ssh la) addr (cf_username cf) password = Inr info \<and> cf_player_id cf = bi_player_id info"
    if "cf_player_id flags = []" "pid = []" "cf_token flags = []"
  proof -
    have "by_ssh (la\<lparr>la_path_ok := True\<rparr>) raw saved m = Inr (cf0, label)"
      using find that m by (simp add: m_def [symmetric] find_player_def or_else_def split: if_splits)
    from by_ssh_player [OF this] show ?thesis by (simp add: same)
  qed
  have "\<exists>p. LoadProfile (fs' path) = Inr (Some p) \<and> pf_player_id p = cf_player_id cf \<and> pf_username p = cf_username cf" if "la_io la = None"
    using resolveConfig_saves [OF run] that by (auto simp: fs' LoadProfile_saved profile_of_def)
  moreover have "fs' = fs(path := fs' path)" by (simp add: fs')
  ultimately show ?thesis
    using path pr known token login unfolding d_def [symmetric] Let_def
    by (intro exI [of _ path] exI [of _ pr] exI [of _ d]) (auto simp: pid_def [symmetric] name_def [symmetric] grpc_def [symmetric] d_def)
qed

definition demo_profile :: client_profile where
  "demo_profile = no_profile\<lparr>pf_player_id := ''id-ann'', pf_username := ''ann'', pf_symbols := [''ACME'', ''BYTE'']\<rparr>"

theorem player_precedence_witness:
  "\<exists>cf label fs'. resolveConfig_at (Some ''/home/bob'') offline (default_flags\<lparr>cf_username := ''bob'', cf_token := ''token-of-bob''\<rparr>)
      ''ACME, BYTE'' [] (\<lambda>_. \<lparr>main_file = Content demo_profile, tmp_file = NoFile\<rparr>) = (Inr (cf, label), fs') \<and>
    cf_player_id cf = ''id-ann'' \<and> cf_username cf = ''bob''"
proof -
  let ?flags = "default_flags\<lparr>cf_username := ''bob'', cf_token := ''token-of-bob''\<rparr>" and ?la = "offline\<lparr>la_path_ok := True\<rparr>"
  let ?d = "\<lparr>main_file = Content demo_profile, tmp_file = NoFile\<rparr>"
  let ?p = "demo_profile\<lparr>pf_symbols := normalizeProfileSymbols [''ACME'', ''BYTE'']\<rparr>"
  have p: "LoadProfile ?d = Inr (Some ?p)" by (simp add: LoadProfile_def demo_profile_def)
  have base: "la_path_ok ?la" "\<not> cf_reset_profile ?flags" "pf_player_id ?p \<noteq> []" "cf_player_id ?flags = []"
    by (simp_all add: offline_def default_flags_def demo_profile_def no_profile_def)
  then have "cf_player_id (merge_profile (Some ?p) ?flags) \<noteq> []" by (simp add: merge_profile_def or_else_def)
  then obtain label d' cf where "resolveConfig ?la ?flags ''ACME, BYTE'' ?d = (Inr (cf, label), d')"
    using resolve_by_player_id [OF base(1,2) p _ refl, of "''ACME, BYTE''"]
    by (auto simp: by_player_id_def demo_symbols Let_def)
  then obtain fs' where r: "resolveConfig_at (Some ''/home/bob'') offline ?flags ''ACME, BYTE'' [] (\<lambda>_. ?d) = (Inr (cf, label), fs')"
    by (simp add: resolveConfig_at_def ResolveProfilePath_def)
  from player_precedence [OF r] have "cf_player_id cf = ''id-ann''" "cf_username cf = ''bob''"
    using p base by (auto simp: Let_def default_flags_def demo_profile_def no_profile_def or_else_def split: if_splits)
  then show ?thesis using r by blast
qed

text \<open>Two profiles do not meet: a client started and left with one \<open>-profile\<close> leaves every other profile as it was, and
  the next start with the same one is what C24 says of a single profile.\<close>
theorem profiles_apart:
  assumes "profile \<noteq> []"
  shows "snd (resolveConfig_at config_dir la flags raw profile fs) = fs(profile := snd (resolveConfig (la\<lparr>la_path_ok := True\<rparr>) flags raw (fs profile)))"
    "shutdown_at config_dir io now cf u profile fs = fs(profile := shutdown io now cf u (fs profile))"
  using assms by (simp_all add: resolveConfig_at_def shutdown_at_def ResolveProfilePath_def split: prod.split)

theorem profiles_apart_witness:
  "shutdown_at None None 7 demo_flags demo_ui ''a.json'' (\<lambda>_. no_disk) ''b.json'' = no_disk"
  using profiles_apart(2) [of "''a.json''" None None 7 demo_flags demo_ui "\<lambda>_. no_disk"] by simp

end
