(* ===== verification/ClientRun.thy ===== *)
theory ClientRun
  imports SessionProps
begin

text \<open>
  The loop of the client: the well-formedness of its state in every run, and the one way it waits for itself.
\<close>

section \<open>Well-formed states\<close>

definition ticket_ok :: "order_ticket \<Rightarrow> bool" where
  "ticket_ok k \<longleftrightarrow> 0 \<le> ot_field k \<and> ot_field k < 3 \<and>
     (\<forall>x \<in> set (ot_price k). is_digit x \<or> x \<in> {CHR ''.'', CHR ''-''}) \<and> (\<forall>x \<in> set (ot_quantity k). is_digit x)"

definition ui_shape :: "ui \<Rightarrow> bool" where
  "ui_shape u \<longleftrightarrow> - 6 \<le> ui_zoom u \<and> ui_zoom u \<le> 12 \<and> 0 \<le> ui_timeframe u \<and> ui_timeframe u < int (length timeframePresets) \<and>
     0 \<le> ui_selected u \<and> (ui_symbols u \<noteq> [] \<longrightarrow> ui_selected u < int (length (ui_symbols u))) \<and>
     length (ui_ticker_rects u) \<le> length (ui_symbols u) \<and> 0 \<le> ui_plot_width u \<and>
     0 \<le> ui_chat_scroll u \<and> length (ui_chat_lines u) \<le> 500 \<and> ticket_ok (ui_ticket u)"

definition ui_ok :: "ui \<Rightarrow> bool" where
  "ui_ok u \<longleftrightarrow> ui_shape u \<and> 0 \<le> ui_offset u"

lemma no_ticket_ok [simp]: "ticket_ok no_ticket"
  by (simp add: ticket_ok_def no_ticket_def)

lemma fixed2_chars: "x \<in> set (show_fixed2 p) \<Longrightarrow> is_digit x \<or> x \<in> {CHR ''.'', CHR ''-''}"
  using show_nat_digits digit_chars(1) by (auto simp: show_fixed2_def show_cents_def split: if_splits)

lemma units_chars: "0 < n \<Longrightarrow> x \<in> set (show_int n) \<Longrightarrow> is_digit x"
  using show_nat_digits by (auto simp: show_int_def)

text \<open>Clamping only sets the offset, to something that is not negative.\<close>

lemma clamp_offset: "\<exists>i \<ge> 0. clampViewport u = u\<lparr>ui_offset := i\<rparr>"
proof (cases "current_history u = []")
  case False
  define p where "p = (if ui_offset u < 0 then 0 else ui_offset u)"
  have "\<exists>m. clampViewport u = u\<lparr>ui_offset := (if p > max 0 m then max 0 m else p)\<rparr>"
    unfolding clampViewport_def Let_def p_def [symmetric] if_not_P [OF False] by (rule exI, rule refl)
  then obtain m where "clampViewport u = u\<lparr>ui_offset := (if p > max 0 m then max 0 m else p)\<rparr>" ..
  moreover have "0 \<le> (if p > max 0 m then max 0 m else p)" by (simp add: p_def)
  ultimately show ?thesis by blast
qed (auto simp: clampViewport_def)

lemma clamp_ok: "ui_shape u \<Longrightarrow> ui_ok (clampViewport u)"
  using clamp_offset [of u] by (auto simp: ui_ok_def ui_shape_def)

lemma status_ok [simp]: "ui_ok (u\<lparr>ui_status := st\<rparr>) = ui_ok u"
  by (simp add: ui_ok_def ui_shape_def)

lemma shape_updates:
  "ui_shape (u\<lparr>ui_offset := i\<rparr>) = ui_shape u" "ui_shape (u\<lparr>ui_ticks := t\<rparr>) = ui_shape u"
  "ui_shape (u\<lparr>ui_status := st\<rparr>) = ui_shape u"
  by (simp_all add: ui_shape_def)

lemma ui_shape_of: "ui_ok u \<Longrightarrow> ui_shape u"
  by (simp add: ui_ok_def)

lemma moveSelection_ok: "ui_ok u \<Longrightarrow> delta \<in> {- 1, 1} \<Longrightarrow> ui_ok (moveSelection delta u)"
proof -
  assume ok: "ui_ok u" and d: "delta \<in> {- 1, 1}"
  show ?thesis
  proof (cases "ui_symbols u = []")
    case False
    let ?n = "int (length (ui_symbols u))"
    have n: "0 < ?n" using False by simp
    have "0 \<le> ui_selected u + delta + ?n" using ok d n by (auto simp: ui_ok_def ui_shape_def)
    then have "rem64 (ui_selected u + delta + ?n) ?n = (ui_selected u + delta + ?n) mod ?n" using n by (rule rem64_nonneg)
    then have "0 \<le> rem64 (ui_selected u + delta + ?n) ?n" "rem64 (ui_selected u + delta + ?n) ?n < ?n" using n by simp_all
    then have "ui_shape (u\<lparr>ui_selected := rem64 (ui_selected u + delta + ?n) ?n, ui_offset := 0\<rparr>)"
      using ok by (simp add: ui_ok_def ui_shape_def)
    then show ?thesis using False by (simp add: moveSelection_def Let_def clamp_ok)
  qed (use ok in \<open>simp add: moveSelection_def\<close>)
qed

lemma shiftTimeframe_ok: "ui_ok u \<Longrightarrow> delta \<in> {- 1, 1} \<Longrightarrow> ui_ok (shiftTimeframe delta u)"
proof -
  assume ok: "ui_ok u" and d: "delta \<in> {- 1, 1}"
  let ?n = "int (length timeframePresets)"
  have n: "0 < ?n" by (simp add: timeframePresets_def)
  have "0 \<le> ui_timeframe u + delta + ?n" using ok d n by (auto simp: ui_ok_def ui_shape_def)
  then have "rem64 (ui_timeframe u + delta + ?n) ?n = (ui_timeframe u + delta + ?n) mod ?n" using n by (rule rem64_nonneg)
  then have "0 \<le> rem64 (ui_timeframe u + delta + ?n) ?n" "rem64 (ui_timeframe u + delta + ?n) ?n < ?n" using n by simp_all
  then have "ui_shape (u\<lparr>ui_timeframe := rem64 (ui_timeframe u + delta + ?n) ?n, ui_offset := 0\<rparr>)"
    using ok by (simp add: ui_ok_def ui_shape_def)
  then show ?thesis by (simp add: shiftTimeframe_def Let_def clamp_ok)
qed

lemma zoomChart_ok: "ui_ok u \<Longrightarrow> ui_ok (zoomChart delta u)"
proof -
  assume ok: "ui_ok u"
  have z: "ui_ok (clampViewport (u\<lparr>ui_zoom := z, ui_offset := i\<rparr>))" if "- 6 \<le> z" "z \<le> 12" for z i
    using that ok by (intro clamp_ok) (simp add: ui_ok_def ui_shape_def)
  have "ui_ok (u\<lparr>ui_zoom := 0, ui_offset := 0\<rparr>)" using ok by (simp add: ui_ok_def ui_shape_def)
  then show ?thesis unfolding zoomChart_def Let_def by (simp add: z)
qed

lemma panChart_ok: "ui_ok u \<Longrightarrow> ui_ok (panChart delta u)"
  by (simp add: panChart_def clamp_ok ui_shape_of shape_updates)

lemma resetViewport_ok: "ui_ok u \<Longrightarrow> ui_ok (resetViewport u)"
  by (simp add: resetViewport_def ui_ok_def ui_shape_def)

lemma openTicket_ok: "ui_ok u \<Longrightarrow> ui_ok (openTicket side u)"
proof -
  have "\<forall>x \<in> set ''0.00''. is_digit x \<or> x \<in> {CHR ''.'', CHR ''-''}" "is_digit CHR ''1''" by (simp_all add: is_digit_def)
  then show "ui_ok u \<Longrightarrow> ui_ok (openTicket side u)"
    using fixed2_chars by (auto simp: openTicket_def Let_def ui_ok_def ui_shape_def ticket_ok_def split: option.split)
qed

lemma openBookTicket_ok: "ui_ok u \<Longrightarrow> ui_ok (openBookTicket side price qty u)"
  using fixed2_chars units_chars [of "if qty \<le> 0 then 1 else qty"]
  by (simp add: openBookTicket_def Let_def ui_ok_def ui_shape_def ticket_ok_def split: if_splits)

lemma select_number_ok:
  assumes "ui_ok u"
  shows "ui_ok (select_number i u)"
proof (cases "i < length (ui_symbols u)")
  case True
  then have "ui_shape (u\<lparr>ui_selected := int i, ui_offset := 0\<rparr>)" using assms by (simp add: ui_ok_def ui_shape_def)
  then show ?thesis using True by (simp add: select_number_def Let_def clamp_ok)
qed (use assms in \<open>simp add: select_number_def\<close>)

section \<open>Keys and the mouse\<close>

text \<open>Fields the shape does not read.\<close>

lemma ok_updates [simp]:
  "ui_ok (u\<lparr>ui_portfolio := p\<rparr>) = ui_ok u" "ui_ok (u\<lparr>ui_rules := ru\<rparr>) = ui_ok u" "ui_ok (u\<lparr>ui_chat_focus := b\<rparr>) = ui_ok u"
  "ui_ok (u\<lparr>ui_chat_input := cs\<rparr>) = ui_ok u" "ui_ok (u\<lparr>ui_offer := offer\<rparr>) = ui_ok u" "ui_ok (u\<lparr>ui_insider_rect := r\<rparr>) = ui_ok u"
  "ui_ok (u\<lparr>ui_orderbook_rects := rs\<rparr>) = ui_ok u" "ui_ok (u\<lparr>ui_chat_rect := r\<rparr>) = ui_ok u"
  "ui_ok (u\<lparr>ui_chat_name_rects := ns\<rparr>) = ui_ok u" "ui_ok (u\<lparr>ui_banner := bn\<rparr>) = ui_ok u" "ui_ok (u\<lparr>ui_ticks := t\<rparr>) = ui_ok u"
  by (simp_all add: ui_ok_def ui_shape_def)

lemma ok_ticket: "ui_ok u \<Longrightarrow> ticket_ok k \<Longrightarrow> ui_ok (u\<lparr>ui_ticket := k\<rparr>)"
  by (simp add: ui_ok_def ui_shape_def)

lemma ok_scroll: "ui_ok u \<Longrightarrow> 0 \<le> n \<Longrightarrow> ui_ok (u\<lparr>ui_chat_scroll := n\<rparr>)"
  by (simp add: ui_ok_def ui_shape_def)

lemma ok_has_ticket: "ui_ok u \<Longrightarrow> ticket_ok (ui_ticket u)"
  by (simp add: ui_ok_def ui_shape_def)

lemma submitOrderAsync_ok: "ui_ok u \<Longrightarrow> ui_ok (fst (submitOrderAsync u))"
  by (auto simp: submitOrderAsync_def Let_def ok_ticket split: sum.split)

lemma buyInsiderAsync_ok: "ui_ok u \<Longrightarrow> ui_ok (fst (buyInsiderAsync u))"
  by (simp add: buyInsiderAsync_def split: option.split)

lemma ticket_rune_ok: "ticket_ok k \<Longrightarrow> ticket_ok (ticket_rune r k)"
  by (auto simp: ticket_rune_def ticket_ok_def)

lemma next_field: "0 \<le> f \<Longrightarrow> f < 3 \<Longrightarrow> 0 \<le> rem64 (f + 1) 3 \<and> rem64 (f + 1) 3 < 3"
  by (simp add: rem64_nonneg)

lemma handleTicketKeyEvent_ok:
  assumes "ui_ok u"
  shows "ui_ok (fst (handleTicketKeyEvent k u))"
proof -
  define t where "t = ui_ticket u"
  have t: "ticket_ok t" unfolding t_def using assms by (rule ok_has_ticket)
  have "ui_ok (u\<lparr>ui_ticket := t\<lparr>ot_field := rem64 (ot_field t + 1) 3\<rparr>\<rparr>)"
    using t next_field by (intro ok_ticket [OF assms]) (simp add: ticket_ok_def)
  moreover have "ui_ok (u\<lparr>ui_ticket := t\<lparr>ot_price := butlast (ot_price t)\<rparr>\<rparr>)"
    "ui_ok (u\<lparr>ui_ticket := t\<lparr>ot_quantity := butlast (ot_quantity t)\<rparr>\<rparr>)"
    using t in_set_butlastD by (intro ok_ticket [OF assms]; force simp: ticket_ok_def)+
  moreover have "ui_ok (u\<lparr>ui_ticket := no_ticket\<rparr>)" "ui_ok (u\<lparr>ui_ticket := ticket_rune r t\<rparr>)" for r
    using ticket_rune_ok [OF t] by (simp_all add: ok_ticket [OF assms])
  ultimately show ?thesis
    using assms submitOrderAsync_ok [OF assms] unfolding handleTicketKeyEvent_def t_def [symmetric] Let_def by (cases k) simp_all
qed

lemma submitChatAsync_ok: "ui_ok u \<Longrightarrow> ui_ok (fst (submitChatAsync u))"
  by (auto simp: submitChatAsync_def split: sum.split)

lemma scrollChat_ok: "ui_ok u \<Longrightarrow> ui_ok (scrollChat d u)"
  by (simp add: scrollChat_def ok_scroll)

lemma handleChatKeyEvent_ok: "ui_ok u \<Longrightarrow> ui_ok (fst (handleChatKeyEvent k u))"
  by (simp add: handleChatKeyEvent_def submitChatAsync_ok scrollChat_ok ok_scroll split: key.split)

lemmas ui_operations_ok =
  moveSelection_ok zoomChart_ok panChart_ok resetViewport_ok shiftTimeframe_ok select_number_ok openTicket_ok openBookTicket_ok
  scrollChat_ok buyInsiderAsync_ok

lemma rune_command_ok: "ui_ok u \<Longrightarrow> ui_ok (fst (snd (rune_command r u)))"
  by (simp add: rune_command_def ui_operations_ok)

lemma handleKeyEvent_ok: "ui_ok u \<Longrightarrow> ui_ok (fst (snd (handleKeyEvent k u)))"
  by (simp add: handleKeyEvent_def handleTicketKeyEvent_ok handleChatKeyEvent_ok rune_command_ok ui_operations_ok split: key.split)

lemma hit_ticker_bound: "hit_ticker x y i rs = Some (j, r) \<Longrightarrow> i \<le> j \<and> j < i + int (length rs)"
proof (induction rs arbitrary: i)
  case (Cons a rs)
  then show ?case by (cases "in_ticker x y a") (auto dest: Cons.IH)
qed simp

lemma copyPlayerID_ok: "ui_ok u \<Longrightarrow> ui_ok (copyPlayerIDIntoChat b r u)"
  by (simp add: copyPlayerIDIntoChat_def)

lemma select_tile_ok:
  assumes "ui_ok u" "hit_ticker x y 0 (ui_ticker_rects u) = Some (j, r)"
  shows "ui_ok ((clampViewport (u\<lparr>ui_selected := j, ui_offset := 0\<rparr>))\<lparr>ui_status := st\<rparr>)"
proof -
  have "0 \<le> j" "j < int (length (ui_ticker_rects u))" using hit_ticker_bound [OF assms(2)] by simp_all
  moreover have "length (ui_ticker_rects u) \<le> length (ui_symbols u)" using assms(1) by (simp add: ui_ok_def ui_shape_def)
  ultimately have "ui_shape (u\<lparr>ui_selected := j, ui_offset := 0\<rparr>)" using assms(1) by (simp add: ui_ok_def ui_shape_def)
  then show ?thesis by (simp add: clamp_ok)
qed

lemma handleMouseEvent_ok:
  assumes "ui_ok u"
  shows "ui_ok (fst (handleMouseEvent cb x y b u))"
proof -
  have tiles: "ui_ok (fst (case hit_ticker x y 0 (ui_ticker_rects u) of None \<Rightarrow> (u, [])
      | Some (i, r) \<Rightarrow> ((clampViewport (u\<lparr>ui_selected := i, ui_offset := 0\<rparr>))\<lparr>ui_status := StSelectedByMouse (tr_symbol r)\<rparr>, [])))"
    using assms select_tile_ok [OF assms] by (simp del: status_ok split: option.split)
  show ?thesis unfolding handleMouseEvent_def Let_def
    by (cases b) (simp_all add: assms ui_operations_ok copyPlayerID_ok tiles split: option.split)
qed

section \<open>Messages and rendering\<close>

lemma applyActionResponse_ok: "ui_ok u \<Longrightarrow> ui_ok (applyActionResponse a r u)"
  by (simp add: applyActionResponse_def take_portfolio_def Let_def split: ui_reply.split reply.split option.split intel_payload.split)

lemma appendChatEntry_ok: "ui_ok u \<Longrightarrow> ui_ok (appendChatEntry e u)"
  by (simp add: appendChatEntry_def ui_ok_def ui_shape_def keep_last_def)

lemma handle_message_ok: "ui_ok u \<Longrightarrow> ui_ok (handle_message now m u)"
proof (cases m)
  case (ChartTick t)
  assume ok: "ui_ok u"
  have "ui_shape (u\<lparr>ui_ticks := (ui_ticks u)(ct_ticker t \<mapsto> t)\<rparr>)" using ok by (simp add: shape_updates) (simp add: ui_ok_def)
  then show ?thesis by (simp add: handle_message_def ChartTick Let_def clamp_ok)
qed (simp_all add: handle_message_def Let_def applyActionResponse_ok appendChatEntry_ok activateMarketEvent_def)

lemma tile_rects_length: "length (tile_rects w h cols tileY i ss) \<le> length ss"
  by (induction ss arbitrary: i) (auto simp: tile_rects.simps(2) Let_def intro: le_SucI)

lemma bannerActive_ok: "ui_ok u \<Longrightarrow> bannerActive now u = (b, v) \<Longrightarrow> ui_ok v"
  by (auto simp: bannerActive_def split: option.splits if_splits)

lemma render_chart_panel_ok: "ui_ok u \<Longrightarrow> ui_ok (render_chart_panel r u)"
  by (simp add: render_chart_panel_def Let_def ui_ok_def ui_shape_def)

text \<open>Goals with many nested \<open>let\<close>s are taken apart one by one.\<close>

lemma let_rule: "(\<And>x. x = a \<Longrightarrow> P (f x)) \<Longrightarrow> P (let x = a in f x)"
  by simp

lemma pair_rule: "(\<And>x y. p = (x, y) \<Longrightarrow> P (f x y)) \<Longrightarrow> P (case p of (x, y) \<Rightarrow> f x y)"
  by (cases p) simp

lemma render_sidebar_ok:
  assumes "ui_ok u"
  shows "ui_ok (render_sidebar r u)"
proof (cases "ui_ticks u (current u)")
  case (Some tick)
  show ?thesis
  proof (cases "ct_history tick = []")
    case False
    show ?thesis
      unfolding render_sidebar_def Some option.case if_not_P [OF False]
      by (intro let_rule [of _ ui_ok] pair_rule [of _ ui_ok]) (simp add: assms)
  qed (simp add: render_sidebar_def Some assms)
qed (simp add: render_sidebar_def assms)

lemma renderChatPanel_ok: "ui_ok u \<Longrightarrow> ui_ok (renderChatPanel r u)"
  by (simp add: renderChatPanel_def Let_def ui_ok_def ui_shape_def)

lemma render_ok:
  assumes "ui_ok u"
  shows "ui_ok (render w h now u)"
proof -
  obtain b v where v: "bannerActive now (u\<lparr>ui_ticker_rects := [], ui_orderbook_rects := [], ui_insider_rect := no_rect\<rparr>) = (b, v)"
    by (cases "bannerActive now (u\<lparr>ui_ticker_rects := [], ui_orderbook_rects := [], ui_insider_rect := no_rect\<rparr>)") auto
  have "ui_ok (u\<lparr>ui_ticker_rects := [], ui_orderbook_rects := [], ui_insider_rect := no_rect\<rparr>)"
    using assms by (simp add: ui_ok_def ui_shape_def)
  then have "ui_ok v" using v by (rule bannerActive_ok)
  then have "ui_ok (render_tiles w h y v)" for y
    using tile_rects_length by (simp add: render_tiles_def ui_ok_def ui_shape_def)
  then show ?thesis
    unfolding render_def bannerOffset_def v Let_def prod.case
    by (intro renderChatPanel_ok) (simp add: render_chart_panel_ok render_sidebar_ok)
qed

section \<open>The loop\<close>

inductive client_run :: "ui \<Rightarrow> client \<Rightarrow> bool" for u0 where
  run_start: "client_run u0 (start_client w h now u0)"
| run_step: "client_run u0 c \<Longrightarrow> cl_running c \<Longrightarrow> client_step w h now ev c = Some c' \<Longrightarrow> client_run u0 c'"

definition client_ok :: "client \<Rightarrow> bool" where
  "client_ok c \<longleftrightarrow> ui_ok (cl_ui c) \<and> length (cl_events c) \<le> events_capacity"

lemma perform_keeps:
  "perform fx c = Some c' \<Longrightarrow> length (cl_events c) \<le> events_capacity \<Longrightarrow>
     cl_ui c' = cl_ui c \<and> length (cl_events c') \<le> events_capacity"
  by (induction fx c rule: perform.induct) (auto split: if_splits)

lemma client_step_ok:
  assumes "client_ok c" "client_step w h now ev c = Some c'"
  shows "client_ok c'"
proof -
  have ok: "ui_ok (cl_ui c)" "length (cl_events c) \<le> events_capacity" using assms(1) by (simp_all add: client_ok_def)
  show ?thesis
  proof (cases ev)
    case MessageReady
    then show ?thesis using assms(2) ok
      by (auto simp: client_step_def client_ok_def render_ok handle_message_ok split: list.splits)
  next
    case (KeyPressed k)
    obtain go_on u fx where e: "handleKeyEvent k (cl_ui c) = (go_on, u, fx)" by (cases "handleKeyEvent k (cl_ui c)") auto
    then obtain d where d: "perform fx (c\<lparr>cl_ui := u\<rparr>) = Some d" "c' = d\<lparr>cl_ui := render w h now (cl_ui d), cl_running := go_on\<rparr>"
      using assms(2) by (auto simp: client_step_def KeyPressed)
    have "ui_ok u" using handleKeyEvent_ok [OF ok(1), of k] e by simp
    then show ?thesis using perform_keeps [OF d(1)] ok(2) d(2) by (simp add: client_ok_def render_ok)
  next
    case (MouseMoved cb x y b)
    obtain u fx where e: "handleMouseEvent cb x y b (cl_ui c) = (u, fx)" by (cases "handleMouseEvent cb x y b (cl_ui c)") auto
    then obtain d where d: "perform fx (c\<lparr>cl_ui := u\<rparr>) = Some d" "c' = d\<lparr>cl_ui := render w h now (cl_ui d)\<rparr>"
      using assms(2) by (auto simp: client_step_def MouseMoved)
    have "ui_ok u" using handleMouseEvent_ok [OF ok(1), of cb x y b] e by simp
    then show ?thesis using perform_keeps [OF d(1)] ok(2) d(2) by (simp add: client_ok_def render_ok)
  next
    case PortfolioTimer
    then show ?thesis using assms(2) ok perform_keeps [of "[requestPortfolioAsync]" c c'] by (simp add: client_step_def client_ok_def)
  next
    case UITimer
    then show ?thesis using assms(2) ok bannerActive_ok [OF ok(1), of now]
      by (cases "bannerActive now (cl_ui c)") (auto simp: client_step_def client_ok_def render_ok)
  qed (use assms ok in \<open>auto simp: client_step_def client_ok_def render_ok split: if_splits\<close>)
qed

lemma initial_ui_ok: "ui_ok (initial_ui symbols initial pid username)"
proof -
  have "index_from 0 symbols initial < int (length symbols)"
    using index_from_at [of initial symbols 0] index_from_missing [of initial symbols 0] by (cases "initial \<in> set symbols") simp_all
  then show ?thesis
    by (auto simp: ui_ok_def ui_shape_def initial_ui_def indexOfSymbol_def timeframePresets_def Let_def)
qed

text \<open>C26: in every run of the client, whatever keys, clicks, messages and timers it is fed, the selected ticker is one of
  its tickers, zoom and timeframe are in their tables, offset and scroll are not negative, a mouse click can only
  select a ticker that exists, the ticket holds digits, and chat and channel keep their bounds.\<close>

theorem client_state_well_formed:
  assumes "client_run (initial_ui symbols initial pid username) c"
  shows "ui_ok (cl_ui c) \<and> length (cl_events c) \<le> events_capacity"
proof -
  have "client_ok c"
    using assms
  proof (induction rule: client_run.induct)
    case (run_start w h now)
    show ?case by (simp add: client_ok_def start_client_def render_ok initial_ui_ok)
  qed (rule client_step_ok)
  then show ?thesis by (simp add: client_ok_def)
qed

theorem client_state_well_formed_witness:
  "ui_ok (cl_ui (start_client 100 40 0 demo_ui))"
  using client_state_well_formed [OF client_run.run_start] by (simp add: demo_ui_def)

section \<open>Where the loop waits for itself\<close>

text \<open>The effects of a handler that never block: at most one background action.\<close>

definition background :: "ui_effect list \<Rightarrow> bool" where
  "background fx \<longleftrightarrow> fx = [] \<or> (\<exists>a p. fx = [RunAction a p])"

lemma background_perform: "background fx \<Longrightarrow> perform fx c \<noteq> None"
  by (auto simp: background_def)

lemma background_simps [simp]: "background []" "background [RunAction a p]" "background [requestPortfolioAsync]"
  by (simp_all add: background_def requestPortfolioAsync_def)

lemma background_buy [simp]: "background (snd (buyInsiderAsync u))"
  by (simp add: buyInsiderAsync_def requestIntelCatalogAsync_def split: option.split)

lemma posted:
  "isl (buildOrderPayload u) \<Longrightarrow> \<exists>e. snd (submitOrderAsync u) = [PostError e]"
  "\<not> isl (buildOrderPayload u) \<Longrightarrow> background (snd (submitOrderAsync u))"
  "isl (buildChatPayload (ui_chat_input u)) \<Longrightarrow> \<exists>e. snd (submitChatAsync u) = [PostError e]"
  "\<not> isl (buildChatPayload (ui_chat_input u)) \<Longrightarrow> background (snd (submitChatAsync u))"
  by (auto simp: submitOrderAsync_def submitChatAsync_def Let_def split: sum.splits)

lemma background_ticket: "k \<noteq> KeyEnter \<Longrightarrow> background (snd (handleTicketKeyEvent k u))"
  by (simp add: handleTicketKeyEvent_def Let_def split: key.split)

lemma background_chat: "k \<noteq> KeyEnter \<Longrightarrow> background (snd (handleChatKeyEvent k u))"
  by (simp add: handleChatKeyEvent_def split: key.split)

lemma background_rune: "background (snd (snd (rune_command r u)))"
  by (simp add: rune_command_def)

lemma background_mouse: "background (snd (handleMouseEvent cb x y b u))"
  by (simp add: handleMouseEvent_def Let_def split: mouse_button.split option.split)

definition refused_input :: "ui \<Rightarrow> bool" where
  "refused_input u \<longleftrightarrow> (if ot_active (ui_ticket u) then isl (buildOrderPayload u)
     else ui_chat_focus u \<and> isl (buildChatPayload (ui_chat_input u)))"

lemma key_effects:
  "k = KeyEnter \<and> refused_input u \<Longrightarrow> \<exists>e. snd (snd (handleKeyEvent k u)) = [PostError e]"
  "\<not> (k = KeyEnter \<and> refused_input u) \<Longrightarrow> background (snd (snd (handleKeyEvent k u)))"
proof -
  have enter: "snd (handleTicketKeyEvent KeyEnter u) = snd (submitOrderAsync u)" "snd (handleChatKeyEvent KeyEnter u) = snd (submitChatAsync u)"
    by (simp_all add: handleTicketKeyEvent_def handleChatKeyEvent_def Let_def)
  show "k = KeyEnter \<and> refused_input u \<Longrightarrow> \<exists>e. snd (snd (handleKeyEvent k u)) = [PostError e]"
    using enter posted(1,3) [of u] by (auto simp: handleKeyEvent_def refused_input_def split: if_splits)
  show "background (snd (snd (handleKeyEvent k u)))" if n: "\<not> (k = KeyEnter \<and> refused_input u)"
  proof (cases "k = KeyEnter")
    case True
    then show ?thesis using n enter posted(2,4) [of u] by (auto simp: handleKeyEvent_def refused_input_def)
  next
    case False
    then show ?thesis
      by (simp add: handleKeyEvent_def background_ticket background_chat background_rune split: key.split)
  qed
qed

text \<open>C27: the loop of the client waits for itself for ever in exactly one case: enter is pressed on a ticket or a chat
  line that is refused while the channel of its own events is full, because it posts the error to that channel
  itself. Every other key, click, message and timer is handled.\<close>

theorem client_hangs_iff:
  "client_step w h now ev c = None \<longleftrightarrow>
     ev = KeyPressed KeyEnter \<and> events_capacity \<le> length (cl_events c) \<and>
     (if ot_active (ui_ticket (cl_ui c)) then isl (buildOrderPayload (cl_ui c))
      else ui_chat_focus (cl_ui c) \<and> isl (buildChatPayload (ui_chat_input (cl_ui c))))"
proof (cases ev)
  case (KeyPressed k)
  obtain go_on u fx where e: "handleKeyEvent k (cl_ui c) = (go_on, u, fx)" by (cases "handleKeyEvent k (cl_ui c)") auto
  then have n: "client_step w h now (KeyPressed k) c = None \<longleftrightarrow> perform fx (c\<lparr>cl_ui := u\<rparr>) = None"
    by (simp add: client_step_def)
  show ?thesis
  proof (cases "k = KeyEnter \<and> refused_input (cl_ui c)")
    case True
    then obtain er where "fx = [PostError er]" using key_effects(1) [of k "cl_ui c"] e by auto
    then show ?thesis using True n by (auto simp: KeyPressed refused_input_def not_less)
  next
    case False
    then have "background fx" using key_effects(2) [of k "cl_ui c"] e by simp
    then show ?thesis using False n background_perform by (auto simp: KeyPressed refused_input_def)
  qed
next
  case (MouseMoved cb x y b)
  then show ?thesis
    using background_perform background_mouse [of cb x y b "cl_ui c"]
    by (cases "handleMouseEvent cb x y b (cl_ui c)") (simp add: client_step_def)
qed (auto simp: client_step_def requestPortfolioAsync_def split: list.split prod.split)

end
