(* ===== verification/LoginProps.thy ===== *)
theory LoginProps
  imports SessionProps ActionProps
begin

text \<open>
  From a login at the SSH gateway to a running client, through the gameplay engine: the password door and the token
  door of the gateway lead to the same player.
\<close>

section \<open>What a login leaves in the engine\<close>

lemma record_snapshots_frame:
  "record_snapshots env now io ps g = (e, g') \<Longrightarrow> g_players g' = g_players g \<and> g_tokens g' = g_tokens g"
  by (auto simp: record_snapshots_def buildPerformanceSnapshots_def split: option.splits prod.splits sum.splits)

lemma admit_frame:
  assumes "admit c p created g = (Inr en, g')"
  shows "en_player en = p" "en_token en = c_uuid c 1"
    "players_of g' = AList.update (p_username p) p (players_of g)"
    "map_of (g_tokens g') (c_uuid c 1) =
       Some \<lparr>bg_player_id = p_id p, bg_username = p_username p, bg_expires_at = c_now c 2 + bootstrapTokenTTL\<rparr>"
  using assms upsert_frame(1)
  by (auto simp: admit_def issueBootstrapToken_def recordPlayerSnapshot_def Let_def players_of_def update_conv'
      split: prod.splits option.splits dest!: record_snapshots_frame)

lemma EnsurePlayer_leaves:
  assumes "EnsurePlayer c user g = (Inr en, g')"
  shows "en_token en = c_uuid c 1"
    "map_of (g_tokens g') (en_token en) =
       Some \<lparr>bg_player_id = p_id (en_player en), bg_username = p_username (en_player en), bg_expires_at = c_now c 2 + bootstrapTokenTTL\<rparr>"
    "\<exists>q. requirePlayer (p_id (en_player en)) g' = Inr q \<and> p_id q = p_id (en_player en)"
proof -
  obtain p created g0 where "admit c p created g0 = (Inr en, g')"
    using assms by (auto simp: EnsurePlayer_def split: option.splits prod.splits)
  note f = admit_frame [OF this]
  show "en_token en = c_uuid c 1" "map_of (g_tokens g') (en_token en) =
      Some \<lparr>bg_player_id = p_id (en_player en), bg_username = p_username (en_player en), bg_expires_at = c_now c 2 + bootstrapTokenTTL\<rparr>"
    using f by simp_all
  have "map_of (players_of g') (p_username p) = Some p" by (simp add: f(3) update_conv')
  then have "(p_username p, p) \<in> set (players_of g')" by (rule map_of_SomeD)
  then obtain x where x: "find_by_id (p_id p) (players_of g') = Some x"
    using find_by_id_None [of "p_id p" "players_of g'"] by fastforce
  then have "p_id (snd x) = p_id p" using find_by_id_Some [of "p_id p" "players_of g'" "fst x" "snd x"] by simp
  then show "\<exists>q. requirePlayer (p_id (en_player en)) g' = Inr q \<and> p_id q = p_id (en_player en)"
    using x f(1) by (auto simp: requirePlayer_def PlayerStore_GetByPlayerID_def players_of_def clonePlayer_def split: prod.splits)
qed

section \<open>The token door\<close>

definition token_payload :: "string \<Rightarrow> payload" where
  "token_payload token = blank_payload\<lparr>pd_token := Some token\<rparr>"

lemma exchange_answer:
  assumes "EnsurePlayer c user g = (Inr en, g1)" and "trim_space (en_token en) = en_token en" "en_token en \<noteq> []"
    and "c_now c' 0 < c_now c 2 + bootstrapTokenTTL" and "sv_game s = g1"
    and "rpc_ExecuteAction c' now (action_request_of [] ''bootstrap.exchange_token'' (token_payload (en_token en)) sent) s = Some (resp, s')"
  shows "ar_status resp = ''ok'' \<and> (\<exists>name role. ar_response resp = Inr (TokenReply (p_id (en_player en)) name role))"
proof -
  note l = EnsurePlayer_leaves [OF assms(1)]
  let ?rq = "action_request_of [] ''bootstrap.exchange_token'' (token_payload (en_token en)) sent"
  obtain q where q: "requirePlayer (p_id (en_player en)) (g1\<lparr>g_tokens := AList.delete (en_token en) (g_tokens g1)\<rparr>) = Inr q"
    "p_id q = p_id (en_player en)"
    using l(3) by (auto simp: requirePlayer_def)
  have "handleBootstrapExchange c' (?rq\<lparr>rq_request_id := rid\<rparr>) g1 =
      (Inr (TokenReply (p_id q) (p_username q) (p_role q)), g1\<lparr>g_tokens := AList.delete (en_token en) (g_tokens g1)\<rparr>)" for rid
    using assms(2-4) l(2) q(1) by (simp add: handleBootstrapExchange_def action_request_of_def token_payload_def trim_idle)
  then show ?thesis
    using assms(5,6) q(2)
    by (auto simp: rpc_ExecuteAction_def ExecuteAction_def action_of_def action_request_of_def Let_def split: option.splits)
qed

text \<open>An action whose first attempt is answered returns that answer.\<close>

lemma executeAction_first:
  "net 0 = Answered resp \<Longrightarrow> ar_status resp = ''ok'' \<Longrightarrow> fst (executeActionJSON pid action pl clk net) = Reply resp"
  by (simp add: executeActionJSON_def numeral_3_eq_3 Let_def)

section \<open>The password door\<close>

lemma read_block_keeps [simp]:
  "bi_player_id (read_block t info) = bi_player_id info" "bi_username (read_block t info) = bi_username info"
proof -
  have "bi_player_id (foldl (\<lambda>i s. read_text s i) info ls) = bi_player_id info \<and>
      bi_username (foldl (\<lambda>i s. read_text s i) info ls) = bi_username info" for ls
    by (induction ls arbitrary: info) (simp_all add: read_text_def Let_def split: option.split)
  then show "bi_player_id (read_block t info) = bi_player_id info" "bi_username (read_block t info) = bi_username info"
    by (simp_all add: read_block_def)
qed

lemma gateway_parses:
  assumes "p_id (en_player en) \<noteq> []"
  shows "\<exists>info. parseBootstrapOutput (sessionHandler urls describe grpc sshaddr user (Inr en)) = Inr info \<and>
    bi_player_id info = p_id (en_player en) \<and> bi_username info = p_username (en_player en)"
  using assms by (simp add: parseBootstrapOutput_def sessionHandler_def read_bootstrap_def Let_def)

text \<open>C23: both doors of the gateway lead to the same player: a client started with the password, which reads the player
  from the lines of the session, and a client started with the one-time token of the install command within its two
  minutes, which exchanges it at the game server, run as the player the login made sure exists.\<close>

theorem both_doors_same_player:
  assumes login: "gateway_session urls describe grpc sshaddr c user (Password password) s = (Some lines, s1)" "InstallLine im \<in> set lines"
    and token: "trim_space (im_token im) = im_token im" "im_token im \<noteq> []" "im_player_id im \<noteq> []"
    and in_time: "c_now c' 0 < c_now c 2 + 2 * minute"
    and server: "rpc_ExecuteAction c' now (action_request_of [] ''bootstrap.exchange_token'' (token_payload (im_token im)) (clk 0)) s1 = Some (resp, s2)"
    and net: "net 0 = Answered resp"
    and token_flags: "cf_player_id cf1 = []" "cf_token cf1 = im_token im"
      "la_exchange la (or_else (cf_grpc_addr cf1) local_grpc) (im_token im) =
         fst (executeActionJSON [] ''bootstrap.exchange_token'' (token_payload (im_token im)) clk net)"
    and password_flags: "cf_player_id cf2 = []" "cf_token cf2 = []" "cf_username cf2 = user" "cf_password cf2 = password"
      "trim_space user \<noteq> []" "trim_space (cf_ssh_addr cf2) \<noteq> []" "la_ssh la (cf_ssh_addr cf2) user password = Printed lines"
  shows "\<exists>a b la1 la2. find_player la raw saved cf1 = Inr (a, la1) \<and> find_player la raw saved cf2 = Inr (b, la2) \<and>
    cf_player_id a = im_player_id im \<and> cf_player_id b = im_player_id im"
proof -
  obtain en where en: "rpc_EnsurePlayer c user s = (Inr en, s1)" "lines = sessionHandler urls describe grpc sshaddr user (Inr en)" and pw: "passwordHandler password"
    using login by (auto simp: gateway_session_def authenticated_def sessionHandler_def Let_def split: if_splits prod.splits sum.splits)
  have im: "im_token im = en_token en" "im_player_id im = p_id (en_player en)" using login(2) by (auto simp: en(2) sessionHandler_def Let_def)
  have ens: "EnsurePlayer c user (sv_game s) = (Inr en, sv_game s1)" using en(1) by (auto simp: rpc_EnsurePlayer_def split: prod.splits)
  have "ar_status resp = ''ok'' \<and> (\<exists>name role. ar_response resp = Inr (TokenReply (p_id (en_player en)) name role))"
    by (rule exchange_answer [OF ens _ _ _ refl]) (use token in_time server im in \<open>simp_all add: bootstrapTokenTTL_def\<close>)
  then obtain name role where r: "ar_status resp = ''ok''" "ar_response resp = Inr (TokenReply (im_player_id im) name role)"
    using im by auto
  have "exchangeBootstrapToken (la_exchange la (or_else (cf_grpc_addr cf1) local_grpc) (im_token im)) = Some (im_player_id im, name, role)"
    using token(3) executeAction_first [where net = net and resp = resp, OF net r(1)] r(2) by (simp add: token_flags(3) exchangeBootstrapToken_def)
  then have one: "\<exists>a la1. find_player la raw saved cf1 = Inr (a, la1) \<and> cf_player_id a = im_player_id im"
    using token_flags(1,2) token(2) by (simp add: find_player_def by_token_def Let_def)
  obtain info where info: "parseBootstrapOutput lines = Inr info" "bi_player_id info = im_player_id im"
    using gateway_parses [of en urls describe grpc sshaddr user] token(3) im(2) en(2) by auto
  have "password \<noteq> []" "user \<noteq> []" using pw password_flags(5) by (auto simp: passwordHandler_def trim_space_def)
  then have "\<exists>b la2. find_player la raw saved cf2 = Inr (b, la2) \<and> cf_player_id b = im_player_id im"
    using password_flags info by (simp add: find_player_def by_ssh_def BootstrapViaSSH_def Let_def)
  with one show ?thesis by blast
qed

definition demo_sv :: service where
  "demo_sv = \<lparr>sv_game = demo_game (NewExchange [] 0), sv_charts = None, sv_sequence = 0\<rparr>"

definition demo_urls :: install_urls where
  "demo_urls = \<lparr>iu_ps1 = ''ps1'', iu_sh = ''sh'', iu_exe = ''exe''\<rparr>"

lemma demo_login:
  "\<exists>en s1. rpc_EnsurePlayer demo_call ''ann'' demo_sv = (Inr en, s1) \<and> p_id (en_player en) = ''id-ann'' \<and> en_token en = ''u''"
  by (simp add: rpc_EnsurePlayer_def demo_sv_def EnsurePlayer_def PlayerStore_Get_def demo_game_def NewGame_def admit_def upsert_def
      PlayerStore_Upsert_def player_persist_def persist_def issueBootstrapToken_def recordPlayerSnapshot_def record_snapshots_def
      demo_call_def clonePlayer_def demo_player_def Let_def)

theorem both_doors_same_player_witness:
  "\<exists>la a b la1 la2. find_player la [] [] (default_flags\<lparr>cf_token := ''u''\<rparr>) = Inr (a, la1) \<and>
    find_player la [] [] (default_flags\<lparr>cf_username := ''ann'', cf_password := ''correct-horse''\<rparr>) = Inr (b, la2) \<and>
    cf_player_id a = ''id-ann'' \<and> cf_player_id b = ''id-ann''"
proof -
  obtain en s1 where en: "rpc_EnsurePlayer demo_call ''ann'' demo_sv = (Inr en, s1)" "p_id (en_player en) = ''id-ann''" "en_token en = ''u''"
    using demo_login by blast
  define lines where "lines = sessionHandler demo_urls (\<lambda>e. []) ''g:1'' ''s:1'' ''ann'' (Inr en)"
  obtain im where im: "InstallLine im \<in> set lines" "im_token im = ''u''" "im_player_id im = ''id-ann''"
    using en by (auto simp: lines_def sessionHandler_def Let_def)
  have login: "gateway_session demo_urls (\<lambda>e. []) ''g:1'' ''s:1'' demo_call ''ann'' (Password ''correct-horse'') demo_sv = (Some lines, s1)" "InstallLine im \<in> set lines"
    using en im(1) by (simp_all add: gateway_session_def authenticated_def passwordHandler_def lines_def)
  have "rpc_ExecuteAction demo_call 5 (action_request_of [] ''bootstrap.exchange_token'' (token_payload ''u'') 5) s1 \<noteq> None"
    by (simp add: rpc_ExecuteAction_def ExecuteAction_def action_request_of_def action_of_def Let_def split: prod.split)
  then obtain resp s2 where server: "rpc_ExecuteAction demo_call 5 (action_request_of [] ''bootstrap.exchange_token'' (token_payload ''u'') 5) s1 = Some (resp, s2)"
    by auto
  define la where "la = offline\<lparr>la_ssh := (\<lambda>addr user pw. Printed lines),
    la_exchange := (\<lambda>addr t. fst (executeActionJSON [] ''bootstrap.exchange_token'' (token_payload ''u'') (\<lambda>_. 5) (\<lambda>_. Answered resp)))\<rparr>"
  have "\<exists>a b la1 la2. find_player la [] [] (default_flags\<lparr>cf_token := ''u''\<rparr>) = Inr (a, la1) \<and>
      find_player la [] [] (default_flags\<lparr>cf_username := ''ann'', cf_password := ''correct-horse''\<rparr>) = Inr (b, la2) \<and>
      cf_player_id a = im_player_id im \<and> cf_player_id b = im_player_id im"
    by (rule both_doors_same_player [OF login, where c' = demo_call and now = 5 and clk = "\<lambda>_. 5" and net = "\<lambda>_. Answered resp" and resp = resp])
      (use im(2,3) server in \<open>simp_all add: demo_call_def minute_def second_def default_flags_def la_def trim_space_def is_space_def\<close>)
  then show ?thesis unfolding im(3) by (rule exI [of _ la])
qed

end
