(* ===== verification/ClientFeeds.thy ===== *)
theory ClientFeeds
  imports ClientLoop
begin

text \<open>
  The background tasks of the terminal client: the two streams it reads (\<^verbatim>\<open>startMarketStream\<close>,
  \<^verbatim>\<open>startChartStream\<close>), as the messages they post to the loop, and the connection the action calls share
  (\<^verbatim>\<open>actionClientCache\<close>).
\<close>

section \<open>A connection\<close>

text \<open>How a stream goes: it fails on the way, with the text of the error, or it receives until it ends, because the
  server is done, because the client is leaving, or with an error.\<close>

datatype stream_end = EndOfStream | ClientLeaving | ReceiveError string

datatype 'm connection =
    NoCodec | DialError string | SubscribeError string | SendError nat string | Streaming "'m list" stream_end

definition stream_error :: "string \<Rightarrow> string \<Rightarrow> ui_msg" where
  "stream_error context text = ErrMsg (StreamFailed (context @ text))"

section \<open>The market stream\<close>

text \<open>An envelope as the message it becomes, if it becomes one. A payload that does not fit its topic is dropped.\<close>

definition market_message :: "(time \<Rightarrow> string) \<Rightarrow> time \<Rightarrow> envelope \<Rightarrow> ui_msg option" where
  "market_message clock_text now e =
     (if el_topic e = ''portfolio''
      then (case el_body e of PortfolioBody p \<Rightarrow> Some (StreamPortfolio p) | _ \<Rightarrow> None)
      else if el_topic e = ''market''
      then (case el_body e of MarketBody m \<Rightarrow> map_option MarketEventMsg (decodeMarketEvent m) | _ \<Rightarrow> None)
      else if el_topic e \<in> {''chat'', ''private''}
      then map_option ChatEntryMsg (decodeChatEntry clock_text now (el_topic e) (el_body e))
      else None)"

text \<open>\<open>clk i\<close> is the time at which the \<open>i\<close>-th envelope is read.\<close>

definition market_messages :: "(time \<Rightarrow> string) \<Rightarrow> (nat \<Rightarrow> time) \<Rightarrow> envelope list \<Rightarrow> ui_msg list" where
  "market_messages clock_text clk es = List.map_filter (\<lambda>(i, e). market_message clock_text (clk i) e) (enumerate 0 es)"

definition market_request :: "string \<Rightarrow> string list \<Rightarrow> market_stream_request" where
  "market_request pid symbols =
     \<lparr>mr_player_id = pid, mr_symbols = symbols, mr_include_portfolio = True, mr_include_chat = True\<rparr>"

definition startMarketStream :: "(time \<Rightarrow> string) \<Rightarrow> (nat \<Rightarrow> time) \<Rightarrow> envelope connection \<Rightarrow> ui_msg list" where
  "startMarketStream clock_text clk con =
     (case con of
        NoCodec \<Rightarrow> [stream_error [] ''json gRPC codec is not registered'']
      | DialError e \<Rightarrow> [stream_error ''grpc dial market stream: '' e]
      | SubscribeError e \<Rightarrow> [stream_error ''subscribe market stream: '' e]
      | SendError _ e \<Rightarrow> [stream_error ''send market stream subscription: '' e]
      | Streaming es stop \<Rightarrow>
          market_messages clock_text clk es @
          (case stop of ReceiveError e \<Rightarrow> [stream_error ''recv market stream: '' e] | _ \<Rightarrow> []))"

section \<open>The chart stream\<close>

datatype chart_item = ReadTick chart_tick | BadTick string

definition chart_item_message :: "chart_item \<Rightarrow> ui_msg" where
  "chart_item_message i = (case i of ReadTick t \<Rightarrow> ChartTick t | BadTick e \<Rightarrow> stream_error ''decode chart tick: '' e)"

text \<open>One request per ticker; the numbers are converted to \<^verbatim>\<open>uint32\<close>.\<close>

definition chart_requests :: "string \<Rightarrow> string list \<Rightarrow> int \<Rightarrow> int \<Rightarrow> (string \<times> string \<times> int \<times> int) list" where
  "chart_requests pid symbols limit depth = map (\<lambda>s. (pid, s, limit mod 2 ^ 32, depth mod 2 ^ 32)) symbols"

text \<open>\<open>SendError k e\<close>: the request for the \<open>k\<close>-th ticker could not be sent.\<close>

definition startChartStream :: "string list \<Rightarrow> chart_item connection \<Rightarrow> ui_msg list" where
  "startChartStream symbols con =
     (case con of
        NoCodec \<Rightarrow> [stream_error [] ''json gRPC codec is not registered'']
      | DialError e \<Rightarrow> [stream_error ''grpc dial: '' e]
      | SubscribeError e \<Rightarrow> [stream_error ''subscribe chart: '' e]
      | SendError k e \<Rightarrow> [stream_error (''subscribe '' @ (if k < length symbols then symbols ! k else []) @ '': '') e]
      | Streaming items stop \<Rightarrow>
          StatusMsg (''subscribed to '' @ show_nat (length symbols) @ '' tickers'') # map chart_item_message items @
          (case stop of
             ClientLeaving \<Rightarrow> []
           | EndOfStream \<Rightarrow> [stream_error ''chart recv: '' ''EOF'']
           | ReceiveError e \<Rightarrow> [stream_error ''chart recv: '' e]))"

section \<open>The connection of the action calls\<close>

text \<open>A connection is a number; the closed ones are kept to say that none of them is used again.\<close>

record action_client =
  kc_conn :: "nat option"
  kc_addr :: string
  kc_closed :: "nat list"

definition close_conn :: "action_client \<Rightarrow> action_client" where
  "close_conn k =
     \<lparr>kc_conn = None, kc_addr = [], kc_closed = (case kc_conn k of None \<Rightarrow> [] | Some i \<Rightarrow> [i]) @ kc_closed k\<rparr>"

text \<open>\<open>dial\<close> is the outcome of dialling: a new connection or an error.\<close>

definition cache_client :: "nat option \<Rightarrow> string \<Rightarrow> action_client \<Rightarrow> nat option \<times> action_client" where
  "cache_client dial addr k =
     (if kc_conn k \<noteq> None \<and> kc_addr k = addr then (kc_conn k, k)
      else (let k1 = (if kc_conn k \<noteq> None then close_conn k else k) in
            case dial of None \<Rightarrow> (None, k1) | Some i \<Rightarrow> (Some i, k1\<lparr>kc_conn := Some i, kc_addr := addr\<rparr>)))"

definition cache_reset :: "string \<Rightarrow> action_client \<Rightarrow> action_client" where
  "cache_reset addr k = (if addr \<noteq> [] \<and> kc_addr k \<noteq> [] \<and> kc_addr k \<noteq> addr then k else close_conn k)"

text \<open>No call is made over a closed connection, and after a reset the next call dials.\<close>

definition cache_ok :: "action_client \<Rightarrow> bool" where
  "cache_ok k \<longleftrightarrow> (\<forall>i. kc_conn k = Some i \<longrightarrow> i \<notin> set (kc_closed k))"

lemma cache_client_ok:
  "cache_ok k \<Longrightarrow> \<forall>i. dial = Some i \<longrightarrow> i \<notin> set (kc_closed k) \<and> kc_conn k \<noteq> Some i \<Longrightarrow> cache_client dial addr k = (r, k') \<Longrightarrow>
     cache_ok k' \<and> (r = None \<or> r = kc_conn k')"
  by (auto simp: cache_client_def close_conn_def cache_ok_def Let_def split: if_splits option.splits)

lemma cache_reset_ok: "cache_ok k \<Longrightarrow> cache_ok (cache_reset addr k)"
  by (auto simp: cache_reset_def close_conn_def cache_ok_def)

lemma cache_reset_dials: "kc_addr k = addr \<Longrightarrow> fst (cache_client dial addr (cache_reset addr k)) = dial"
  by (simp add: cache_reset_def cache_client_def close_conn_def Let_def split: option.split)

end
