(* ===== verification/DirectMessages.thy ===== *)
theory DirectMessages
  imports ClientFeeds ActionProps
begin

text \<open>
  A direct message from one terminal to another: the line that is typed, the action it becomes, the engine, the
  private feed, the stream and the chat panel of the player it is for. And the line that was meant to be direct but
  is not, and the requests a repeated action sends.
\<close>

section \<open>Words\<close>

definition word :: "string \<Rightarrow> bool" where
  "word w \<longleftrightarrow> w \<noteq> [] \<and> (\<forall>c \<in> set w. \<not> is_space c)"

lemma space_is_space [simp]: "is_space CHR '' ''"
  by (simp add: is_space_def)

lemma split_fields_word: "\<forall>c \<in> set w. \<not> is_space c \<Longrightarrow> split_fields part (w @ s) = split_fields (part @ w) s"
  by (induction w arbitrary: part) simp_all

lemma split_fields_join:
  assumes "\<forall>w \<in> set ws. word w" "word v"
  shows "split_fields [] (v @ concat (map (\<lambda>q. CHR '' '' # q) ws)) = v # ws"
  using assms
proof (induction ws arbitrary: v)
  case Nil
  then show ?case using split_fields_word [of v "[]" "[]"] by (simp add: word_def)
next
  case (Cons w ws)
  have "split_fields [] (v @ CHR '' '' # (w @ concat (map (\<lambda>q. CHR '' '' # q) ws))) =
      v # split_fields [] (w @ concat (map (\<lambda>q. CHR '' '' # q) ws))"
    using split_fields_word [of v "[]" "CHR '' '' # (w @ concat (map (\<lambda>q. CHR '' '' # q) ws))"] Cons.prems(2) by (simp add: word_def)
  then show ?case using Cons.IH [of w] Cons.prems by simp
qed

lemma fields_of_join: "ws \<noteq> [] \<Longrightarrow> \<forall>w \<in> set ws. word w \<Longrightarrow> split_fields [] (join_spaces ws) = ws"
  by (cases ws) (simp_all add: join_spaces_def split_fields_join)

lemma trim_ends: "s = [] \<or> \<not> is_space (hd s) \<and> \<not> is_space (last s) \<Longrightarrow> trim_space s = s"
proof -
  assume s: "s = [] \<or> \<not> is_space (hd s) \<and> \<not> is_space (last s)"
  then have "dropWhile is_space s = s" "dropWhile is_space (rev s) = rev s"
    by (auto simp: dropWhile_eq_self_iff hd_rev)
  then show ?thesis by (simp add: trim_space_def)
qed

lemma join_ends: "ws \<noteq> [] \<Longrightarrow> \<forall>w \<in> set ws. word w \<Longrightarrow>
    join_spaces ws \<noteq> [] \<and> \<not> is_space (hd (join_spaces ws)) \<and> \<not> is_space (last (join_spaces ws))"
proof (induction ws rule: rev_induct)
  case (snoc w ws)
  then have w: "word w" by simp
  show ?case
  proof (cases ws)
    case Nil
    then show ?thesis using w by (simp add: join_spaces_def word_def)
  next
    case (Cons v vs)
    then have "word v" using snoc.prems by simp
    then show ?thesis using w Cons by (auto simp: join_spaces_def word_def)
  qed
qed simp

lemma trim_join: "\<forall>w \<in> set ws. word w \<Longrightarrow> trim_space (join_spaces ws) = join_spaces ws"
  by (rule trim_ends) (use join_ends [of ws] in \<open>cases "ws = []"; auto simp: join_spaces_def\<close>)

text \<open>The line of a direct message is read as one.\<close>

lemma direct_line:
  assumes "ws \<noteq> []" "\<forall>w \<in> set ws. word w" "word rcpt"
  shows "buildChatPayload (join_spaces (''/dm'' # rcpt # ws)) = Inr ((join_spaces ws, rcpt), StSendingDirect rcpt)"
proof -
  have "word ''/dm''" by (simp add: word_def is_space_def)
  then have all: "\<forall>w \<in> set (''/dm'' # rcpt # ws). word w" using assms by simp
  have "Suc 0 \<le> length ws" using assms(1) by (cases ws) simp_all
  then show ?thesis
    using trim_join [OF all] fields_of_join [OF _ all] join_ends [OF _ all] trim_join [OF assms(2)] join_ends [OF assms(1,2)]
    by (simp add: buildChatPayload_def Let_def)
qed

section \<open>Through the engine\<close>

lemma SendChat_direct_queue:
  assumes "SendChat c pid body rcpt g = (Inr m, g')" and "word rcpt" "trim_space body = body" and "requirePlayer rcpt g = Inr r"
    and "map_of (private_queues rcpt g) i = Some []"
  shows "map_of (private_queues rcpt g') i = Some [PrivateChat m] \<and> cm_body m = body \<and> cm_type m = ''chat.direct'' \<and>
    (\<exists>p. requirePlayer pid g = Inr p \<and> cm_player_id m = p_id p)"
proof -
  have rc: "trim_space rcpt = rcpt" "rcpt \<noteq> []" using assms(2) by (auto simp: word_def intro: trim_ends)
  have ref: "resolvePlayerRef rcpt g = Inr r" and rid: "p_id r = rcpt"
    using assms(4) rc(2) find_by_id_Some [of rcpt "st_players (g_players g)"]
    by (auto simp: requirePlayer_def resolvePlayerRef_def PlayerStore_GetByPlayerID_def clonePlayer_def split: option.splits prod.splits)
  obtain p where p: "requirePlayer pid g = Inr p" using assms(1) by (auto simp: SendChat_def split: sum.splits)
  let ?m = "chat_from ''chat.direct'' ''direct'' p body (p_id r) (p_username r) (c_now c 0)"
  obtain e g1 where st: "store_chat (c_io c 0) (c_now c 1) ?m g = (e, g1)" by fastforce
  have "e = None" "m = ?m" and out: "g' = notifyPlayerLocked (p_id p) (PrivateChat ?m)
      (if p_id r \<noteq> p_id p then notifyPlayerLocked (p_id r) (PrivateChat ?m) g1 else g1)"
    using assms(1,3) p ref rc st by (auto simp: SendChat_def Let_def split: if_splits option.splits)
  moreover have "map_of (private_queues rcpt g1) i = Some []"
    using store_chat_private [OF st] assms(5) by simp
  then have "map_of (private_queues rcpt g') i = Some [PrivateChat ?m]"
    using rid by (auto simp: out notify_queues_if map_of_map try_send_def)
  ultimately show ?thesis using p by (simp add: chat_from_def)
qed

section \<open>To the screen\<close>

text \<open>C21: a direct message arrives: when a player types one into the chat line of the terminal and presses enter, and
  the server accepts the action that this sends, then the market stream of the recipient, once it takes the private
  feed, sends an envelope that puts the words as they were typed, with the identifier of their author, on the last
  line of the recipient's chat panel.\<close>

theorem direct_message_arrives:
  assumes words: "ws \<noteq> []" "\<forall>w \<in> set ws. word w" "word rcpt"
    and typed: "ui_chat_input u = join_spaces (''/dm'' # rcpt # ws)" "ui_chat_focus u" "\<not> ot_active (ui_ticket u)"
    and accepted: "rpc_ExecuteAction c now (action_request_of pid action pl sent_at) s = Some (resp, s')" "ar_status resp = ''ok''"
      "handleKeyEvent KeyEnter u = (True, u', [RunAction action pl])"
    and recipient: "requirePlayer rcpt (sv_game s) = Inr r" "ms_private m = Some (rcpt, i)" "ms_result m = None"
      "map_of (private_queues rcpt (sv_game s)) i = Some []" "\<forall>e. ok e"
  shows "\<exists>e ms entry. fst (stream_step ok c' rg PrivateReady (m, s')) = m\<lparr>ms_sent := ms_sent m @ [e]\<rparr> \<and>
    market_message clock_text read_at e = Some (ChatEntryMsg entry) \<and>
    last (ui_chat_lines (handle_message shown_at (ChatEntryMsg entry) v)) = entry \<and>
    cm_body entry = join_spaces ws \<and> (\<exists>p. requirePlayer pid (sv_game s) = Inr p \<and> cm_player_id entry = p_id p)"
proof -
  have "action = ''chat.send'' \<and> pl = blank_payload\<lparr>pd_chat := Some (join_spaces ws, rcpt)\<rparr>"
    using accepted(3) typed direct_line [OF words] by (auto simp: handleKeyEvent_def handleChatKeyEvent_def submitChatAsync_def)
  then obtain msg g' where sent: "SendChat c pid (join_spaces ws) rcpt (sv_game s) = (Inr msg, g')" "sv_game s' = g'"
    using accepted(1,2)
    by (auto simp: rpc_ExecuteAction_def ExecuteAction_def action_of_def action_request_of_def handleSendChat_def Let_def
        split: prod.splits sum.splits)
  note q = SendChat_direct_queue [OF sent(1) words(3) trim_join [OF words(2)] recipient(1,4)]
  obtain g2 where "private_receive rcpt i g' = (Some (PrivateChat msg), g2)"
    using q by (simp add: private_receive_def)
  moreover obtain n s2 where "nextSequence (s'\<lparr>sv_game := g2\<rparr>) = (n, s2)" by fastforce
  ultimately obtain e where e: "fst (stream_step ok c' rg PrivateReady (m, s')) = m\<lparr>ms_sent := ms_sent m @ [e]\<rparr>"
    "el_topic e = ''private''" "el_body e = PrivateBody (PrivateChat msg)"
    using recipient(2,3,5) sent(2) by (auto simp: stream_send_def make_envelope_def)
  define entry where "entry = chat_message.extend msg \<lparr>ln_topic = ''private''\<rparr>"
  have "trim_space (cm_body msg) \<noteq> []" using q trim_join [OF words(2)] join_ends [OF words(1,2)] by simp
  then have "market_message clock_text read_at e = Some (ChatEntryMsg entry)"
    by (simp add: market_message_def e(2,3) decodeChatEntry_def entry_def Let_def)
  moreover have "last (ui_chat_lines (handle_message shown_at (ChatEntryMsg entry) v)) = entry"
    by (simp add: handle_message_def appendChatEntry_def keep_last_def Let_def)
  moreover have "cm_body entry = cm_body msg" "cm_player_id entry = cm_player_id msg"
    by (simp_all add: entry_def chat_message.defs)
  ultimately show ?thesis using e(1) q by metis
qed

definition demo_dm_sv :: service where
  "demo_dm_sv = \<lparr>sv_game = snd (SubscribePrivate ''id-ann'' (demo_game (NewExchange [] 0))), sv_charts = None, sv_sequence = 0\<rparr>"

definition demo_stream :: market_stream where
  "demo_stream = \<lparr>ms_player_id = ''id-ann'', ms_private = Some (''id-ann'', 0), ms_symbols = [], ms_portfolio = True, ms_chat = True,
     ms_market_feed = 0, ms_chat_feed = 0, ms_sent = [], ms_result = None\<rparr>"

definition demo_chat_ui :: ui where
  "demo_chat_ui = (initial_ui [''ACME''] ''ACME'' ''id-ann'' ''ann'')\<lparr>ui_chat_focus := True,
     ui_chat_input := join_spaces [''/dm'', ''id-ann'', ''hello'', ''you'']\<rparr>"

lemma demo_dm_player: "requirePlayer ''id-ann'' (sv_game demo_dm_sv) = Inr (demo_player ''ann'' 1000)"
  by (simp add: demo_dm_sv_def SubscribePrivate_def Let_def demo_game_def NewGame_def requirePlayer_def PlayerStore_GetByPlayerID_def
      clonePlayer_def demo_player_def)

lemma demo_dm_queue: "private_queues ''id-ann'' (sv_game demo_dm_sv) = [(0, [])]"
  by (simp add: demo_dm_sv_def SubscribePrivate_def Let_def demo_game_def NewGame_def private_queues_def)

lemma demo_dm_accepted:
  "\<exists>resp s'. rpc_ExecuteAction demo_call 5 (action_request_of ''id-ann'' ''chat.send'' (blank_payload\<lparr>pd_chat := Some (''hello you'', ''id-ann'')\<rparr>) 5)
     demo_dm_sv = Some (resp, s') \<and> ar_status resp = ''ok''"
proof -
  have "resolvePlayerRef ''id-ann'' (sv_game demo_dm_sv) = Inr (demo_player ''ann'' 1000)"
    using demo_dm_player by (auto simp: resolvePlayerRef_def requirePlayer_def split: option.splits)
  moreover have "ch_store (g_chat (sv_game demo_dm_sv)) = None"
    by (simp add: demo_dm_sv_def SubscribePrivate_def Let_def demo_game_def NewGame_def NewChatService_def)
  moreover have "trim_space ''hello you'' = ''hello you''" "trim_space ''id-ann'' = ''id-ann''" by (simp_all add: trim_space_def is_space_def)
  ultimately have "\<exists>m g'. SendChat demo_call ''id-ann'' ''hello you'' ''id-ann'' (sv_game demo_dm_sv) = (Inr m, g')"
    by (simp add: SendChat_def demo_dm_player store_chat_def Let_def)
  then obtain m g' where "SendChat demo_call ''id-ann'' ''hello you'' ''id-ann'' (sv_game demo_dm_sv) = (Inr m, g')" by blast
  then show ?thesis
    by (simp add: rpc_ExecuteAction_def ExecuteAction_def action_of_def action_request_of_def handleSendChat_def Let_def)
qed

theorem direct_message_arrives_witness:
  "\<exists>s' e ms entry. fst (stream_step (\<lambda>_. True) demo_call id PrivateReady (demo_stream, s')) = demo_stream\<lparr>ms_sent := [e]\<rparr> \<and>
    market_message (\<lambda>_. []) 9 e = Some (ChatEntryMsg entry) \<and> cm_body entry = ''hello you'' \<and> cm_player_id entry = ''id-ann''"
proof -
  obtain resp s' where a: "rpc_ExecuteAction demo_call 5 (action_request_of ''id-ann'' ''chat.send'' (blank_payload\<lparr>pd_chat := Some (''hello you'', ''id-ann'')\<rparr>) 5)
     demo_dm_sv = Some (resp, s')" "ar_status resp = ''ok''"
    using demo_dm_accepted by blast
  have words: "[''hello'', ''you''] \<noteq> []" "\<forall>w \<in> set [''hello'', ''you'']. word w" "word ''id-ann''"
    by (simp_all add: word_def is_space_def)
  have body: "join_spaces [''hello'', ''you''] = ''hello you''" by (simp add: join_spaces_def)
  obtain u' where key: "handleKeyEvent KeyEnter demo_chat_ui = (True, u', [RunAction ''chat.send'' (blank_payload\<lparr>pd_chat := Some (''hello you'', ''id-ann'')\<rparr>)])"
    using direct_line [OF words] unfolding body
    by (simp add: demo_chat_ui_def initial_ui_def no_ticket_def handleKeyEvent_def handleChatKeyEvent_def submitChatAsync_def Let_def)
  have ui: "ui_chat_input demo_chat_ui = join_spaces (''/dm'' # ''id-ann'' # [''hello'', ''you''])" "ui_chat_focus demo_chat_ui"
    "\<not> ot_active (ui_ticket demo_chat_ui)"
    by (simp_all add: demo_chat_ui_def initial_ui_def no_ticket_def Let_def)
  have "ms_private demo_stream = Some (''id-ann'', 0)" "ms_result demo_stream = None" "ms_sent demo_stream = []"
    "map_of (private_queues ''id-ann'' (sv_game demo_dm_sv)) 0 = Some []"
    by (simp_all add: demo_stream_def demo_dm_queue)
  with direct_message_arrives [OF words ui a key demo_dm_player, where m = demo_stream and i = 0 and ok = "\<lambda>_. True" and c' = demo_call
      and rg = id and clock_text = "\<lambda>_. []" and read_at = 9 and shown_at = 9 and v = demo_chat_ui]
  show ?thesis by (auto simp: body demo_dm_player demo_player_def)
qed

text \<open>A line that names a recipient and nothing else is not refused: it goes to everybody.\<close>

lemma trim_after: "s \<noteq> [] \<and> \<not> is_space (hd s) \<and> \<not> is_space (last s) \<Longrightarrow> trim_space (s @ '' '') = s"
proof -
  assume s: "s \<noteq> [] \<and> \<not> is_space (hd s) \<and> \<not> is_space (last s)"
  then have "dropWhile is_space (s @ '' '') = s @ '' ''" "dropWhile is_space (rev s) = rev s"
    by (auto simp: dropWhile_eq_self_iff hd_rev)
  then show ?thesis by (simp add: trim_space_def)
qed

lemma named_only_is_public:
  assumes "word rcpt"
  shows "buildChatPayload (''/dm '' @ rcpt @ '' '') = Inr ((''/dm '' @ rcpt, []), StSendingChat)"
proof -
  have all: "\<forall>w \<in> set [''/dm'', rcpt]. word w" using assms by (simp add: word_def is_space_def)
  have "trim_space (''/dm '' @ rcpt @ '' '') = ''/dm '' @ rcpt"
    using trim_after [OF join_ends [OF _ all]] by (simp add: join_spaces_def)
  moreover have "split_fields [] (''/dm '' @ rcpt) = [''/dm'', rcpt]"
    using fields_of_join [OF _ all] by (simp add: join_spaces_def)
  ultimately show ?thesis by (simp add: buildChatPayload_def Let_def)
qed

section \<open>Repeated actions\<close>

lemma run_attempts_requests:
  "run_attempts n pid action pl clk net i e = (out, rqs) \<Longrightarrow>
     \<exists>js. rqs = map (\<lambda>j. action_request_of pid action pl (clk j)) js \<and> sorted_wrt (<) js \<and> (\<forall>j \<in> set js. i \<le> j \<and> j < i + n) \<and>
       (\<forall>j \<in> set (butlast js). \<exists>er. net j = CallFailed er \<and> shouldRetryAction er)"
proof (induction n arbitrary: i e out rqs)
  case (Suc n)
  have weaken: "\<forall>j \<in> set js. Suc i \<le> j \<and> j < Suc i + n \<Longrightarrow> \<forall>j \<in> set js. i \<le> j \<and> j < i + Suc n" for js by force
  show ?case
  proof (cases "net i")
    case (DialFailed er)
    show ?thesis
    proof (cases "shouldRetryAction er")
      case True
      then have "run_attempts n pid action pl clk net (Suc i) er = (out, rqs)" using Suc.prems DialFailed by simp
      from Suc.IH [OF this] show ?thesis using weaken by blast
    qed (use Suc.prems DialFailed in \<open>auto intro!: exI [of _ "[]"]\<close>)
  next
    case (CallFailed er)
    show ?thesis
    proof (cases "shouldRetryAction er")
      case True
      obtain out' rqs' where r: "run_attempts n pid action pl clk net (Suc i) er = (out', rqs')" by fastforce
      then have rqs: "rqs = action_request_of pid action pl (clk i) # rqs'" using Suc.prems CallFailed True by simp
      from Suc.IH [OF r] obtain js where js: "rqs' = map (\<lambda>j. action_request_of pid action pl (clk j)) js" "sorted_wrt (<) js"
        "\<forall>j \<in> set js. Suc i \<le> j \<and> j < Suc i + n" "\<forall>j \<in> set (butlast js). \<exists>er. net j = CallFailed er \<and> shouldRetryAction er" by blast
      then show ?thesis using rqs weaken [OF js(3)] CallFailed True by (intro exI [of _ "i # js"]) auto
    qed (use Suc.prems CallFailed in \<open>auto intro!: exI [of _ "[i]"]\<close>)
  next
    case (Answered r)
    then show ?thesis using Suc.prems by (auto intro!: exI [of _ "[i]"])
  qed
qed simp

text \<open>C28: an action the client repeats is a new request each time: one key press sends at most three requests for the
  same player, action and payload, each but the last after a call that failed but may have been carried out, and
  whenever the clock moves between them no two have the same identifier, so the server cannot tell that they are the
  same order or message.\<close>

theorem repeated_actions_are_new_requests:
  assumes "executeActionJSON pid action pl clk net = (out, rqs)"
  shows "length rqs \<le> 3 \<and> (\<forall>rq \<in> set rqs. rq_player_id rq = pid \<and> rq_action_id rq = action \<and> rq_payload rq = pl) \<and>
    (\<exists>js. rqs = map (\<lambda>j. action_request_of pid action pl (clk j)) js \<and>
      (\<forall>j \<in> set (butlast js). \<exists>er. net j = CallFailed er \<and> shouldRetryAction er)) \<and>
    (inj_on clk {..<3} \<longrightarrow> distinct (map rq_request_id rqs))"
proof -
  obtain js where js: "rqs = map (\<lambda>j. action_request_of pid action pl (clk j)) js" "sorted_wrt (<) js" "\<forall>j \<in> set js. j < 3"
    "\<forall>j \<in> set (butlast js). \<exists>er. net j = CallFailed er \<and> shouldRetryAction er"
    using run_attempts_requests [of 3 pid action pl clk net 0 OtherCode out rqs] assms by (auto simp: executeActionJSON_def)
  have d: "distinct js" using js(2) strict_sorted_iff by blast
  have "card (set js) \<le> card {..<3 :: nat}" using js(3) by (intro card_mono) auto
  then have "length rqs \<le> 3" using d js(1) distinct_card [of js] by simp
  moreover have "distinct (map rq_request_id rqs)" if "inj_on clk {..<3}"
  proof -
    have "inj_on (\<lambda>j. ''ui-'' @ show_int (clk j)) (set js)"
      using that js(3) by (auto simp: inj_on_def)
    then show ?thesis using d by (simp add: js(1) comp_def action_request_of_def distinct_map)
  qed
  ultimately show ?thesis using js(1,4) by (auto simp: action_request_of_def)
qed

theorem repeated_actions_are_new_requests_witness:
  "map rq_request_id (snd (executeActionJSON ''id-ann'' ''place_order'' blank_payload int
     (\<lambda>i. if i = 0 then CallFailed DeadlineExceeded else CallFailed OtherCode))) =
     [''ui-'' @ show_int 0, ''ui-'' @ show_int 1] \<and> show_int 0 \<noteq> show_int 1"
proof -
  let ?net = "\<lambda>i :: nat. if i = 0 then CallFailed DeadlineExceeded else CallFailed OtherCode"
  have r: "executeActionJSON ''id-ann'' ''place_order'' blank_payload int ?net =
      (NoAnswer OtherCode, map (\<lambda>j. action_request_of ''id-ann'' ''place_order'' blank_payload (int j)) [0, 1])"
    by (simp add: executeActionJSON_def numeral_3_eq_3 shouldRetryAction_def Let_def)
  show ?thesis using repeated_actions_are_new_requests [OF r] by (simp add: r inj_on_def action_request_of_def)
qed

end
