(* ===== verification/Extensions.thy ===== *)
theory Extensions
  imports Stores "HOL-Library.Char_ord" "HOL-Library.List_Lexorder"
begin

text \<open>
  Registries, configuration and extensions: the maps from names to handlers (\<^verbatim>\<open>internal/actions\<close>,
  \<^verbatim>\<open>internal/events\<close>), the files they and the server are configured from (\<^verbatim>\<open>internal/config\<close>), transactions
  (\<^verbatim>\<open>internal/platform/tx\<close>) and the two extensions, which transfer money and crash a market.

  The tables are those of \<^verbatim>\<open>migrations/001_initial.sql\<close>, with the columns the statements touch, and a statement
  does what SQL says: an update of no row succeeds, a foreign key or a \<^verbatim>\<open>BIGINT\<close> out of range is an error. The
  database may also fail at any statement. The parsing of a UUID is a parameter.
\<close>

section \<open>Registries\<close>

record ('d, 'h) registry =
  re_definitions :: "string \<rightharpoonup> 'd"
  re_handlers :: "string \<rightharpoonup> 'h"

definition new_registry :: "('d, 'h) registry" where
  "new_registry = \<lparr>re_definitions = Map.empty, re_handlers = Map.empty\<rparr>"

definition RegisterDefinition :: "string \<Rightarrow> 'd \<Rightarrow> ('d, 'h) registry \<Rightarrow> ('d, 'h) registry" where
  "RegisterDefinition i def r = r\<lparr>re_definitions := (re_definitions r)(i \<mapsto> def)\<rparr>"

definition RegisterHandler :: "string \<Rightarrow> 'h \<Rightarrow> ('d, 'h) registry \<Rightarrow> ('d, 'h) registry" where
  "RegisterHandler i h r = r\<lparr>re_handlers := (re_handlers r)(i \<mapsto> h)\<rparr>"

datatype 'e dispatch_error = NotRegistered string | HandlerFailed 'e

definition registry_Dispatch :: "string \<Rightarrow> 'q \<Rightarrow> ('d, 'q \<Rightarrow> 's \<Rightarrow> ('e + 'a) \<times> 's) registry \<Rightarrow> 's \<Rightarrow> ('e dispatch_error + 'a) \<times> 's" where
  "registry_Dispatch i q r s =
     (case re_handlers r i of
        None \<Rightarrow> (Inl (NotRegistered i), s)
      | Some h \<Rightarrow> (case h q s of (Inl e, s') \<Rightarrow> (Inl (HandlerFailed e), s') | (Inr a, s') \<Rightarrow> (Inr a, s')))"

text \<open>Walking a directory of definitions; a file holds a definition and its identifier.\<close>

datatype 'd walk_entry = WalkError | Directory | FileEntry string "(string \<times> 'd) stored"

datatype load_error = WalkFailed | ReadFileFailed string | DecodeFileFailed string

definition json_name :: "string \<Rightarrow> bool" where
  "json_name path \<longleftrightarrow> length path \<ge> 5 \<and> drop (length path - 5) path = ''.json''"

fun LoadDefinitions :: "'d walk_entry list \<Rightarrow> ('d, 'h) registry \<Rightarrow> load_error option \<times> ('d, 'h) registry" where
  "LoadDefinitions [] r = (None, r)"
| "LoadDefinitions (WalkError # es) r = (Some WalkFailed, r)"
| "LoadDefinitions (Directory # es) r = LoadDefinitions es r"
| "LoadDefinitions (FileEntry path f # es) r =
     (if \<not> json_name path then LoadDefinitions es r
      else (case f of
              Content (i, def) \<Rightarrow> LoadDefinitions es (RegisterDefinition i def r)
            | NoFile \<Rightarrow> (Some (ReadFileFailed path), r)
            | UnreadableFile \<Rightarrow> (Some (ReadFileFailed path), r)
            | _ \<Rightarrow> (Some (DecodeFileFailed path), r)))"

section \<open>The configuration of the server\<close>

record runtime_config =
  rc_tick_interval :: int
  rc_history_points :: int
  rc_orderbook_depth :: int
  rc_player_path :: string
  rc_trade_path :: string
  rc_performance_path :: string
  rc_chat_path :: string
  rc_random_interval :: int
  rc_random_path :: string
  rc_intel_interval :: int
  rc_intel_path :: string

definition DefaultRuntimeConfig :: runtime_config where
  "DefaultRuntimeConfig = \<lparr>rc_tick_interval = 3, rc_history_points = 2400, rc_orderbook_depth = 10,
     rc_player_path = ''data/players.json'', rc_trade_path = ''data/trades.json'', rc_performance_path = ''data/performance.json'',
     rc_chat_path = ''data/chat.json'', rc_random_interval = 90, rc_random_path = ''events/random_events.json'',
     rc_intel_interval = 12, rc_intel_path = ''events/intel_feeds.json''\<rparr>"

definition at_least_one :: "int \<Rightarrow> int \<Rightarrow> int" where
  "at_least_one v dflt = (if v \<le> 0 then dflt else v)"

definition or_default :: "string \<Rightarrow> string \<Rightarrow> string" where
  "or_default s dflt = (if s = [] then dflt else s)"

definition fill_config :: "runtime_config \<Rightarrow> runtime_config" where
  "fill_config c = \<lparr>rc_tick_interval = at_least_one (rc_tick_interval c) 3, rc_history_points = at_least_one (rc_history_points c) 2400,
     rc_orderbook_depth = at_least_one (rc_orderbook_depth c) 10, rc_player_path = or_default (rc_player_path c) ''data/players.json'',
     rc_trade_path = or_default (rc_trade_path c) ''data/trades.json'',
     rc_performance_path = or_default (rc_performance_path c) ''data/performance.json'',
     rc_chat_path = or_default (rc_chat_path c) ''data/chat.json'', rc_random_interval = at_least_one (rc_random_interval c) 90,
     rc_random_path = or_default (rc_random_path c) ''events/random_events.json'',
     rc_intel_interval = at_least_one (rc_intel_interval c) 12, rc_intel_path = or_default (rc_intel_path c) ''events/intel_feeds.json''\<rparr>"

text \<open>The content of the file is what decoding it does to a configuration: it sets the fields it names.\<close>

definition LoadRuntimeConfig :: "(runtime_config \<Rightarrow> runtime_config) stored \<Rightarrow> store_error + runtime_config" where
  "LoadRuntimeConfig f =
     (case f of
        NoFile \<Rightarrow> Inr DefaultRuntimeConfig
      | UnreadableFile \<Rightarrow> Inl ReadError
      | UndecodableFile \<Rightarrow> Inl DecodeError
      | EmptyFile \<Rightarrow> Inr (fill_config DefaultRuntimeConfig)
      | Content decode \<Rightarrow> Inr (fill_config (decode DefaultRuntimeConfig)))"

text \<open>Whatever the file says, the intervals and sizes are positive and the paths are not blank.\<close>

definition config_usable :: "runtime_config \<Rightarrow> bool" where
  "config_usable c \<longleftrightarrow> 0 < rc_tick_interval c \<and> 0 < rc_history_points c \<and> 0 < rc_orderbook_depth c \<and>
     0 < rc_random_interval c \<and> 0 < rc_intel_interval c \<and> rc_player_path c \<noteq> [] \<and> rc_trade_path c \<noteq> [] \<and>
     rc_performance_path c \<noteq> [] \<and> rc_chat_path c \<noteq> [] \<and> rc_random_path c \<noteq> [] \<and> rc_intel_path c \<noteq> []"

lemma fill_usable: "config_usable (fill_config c)"
proof -
  have "0 < n \<Longrightarrow> 0 < at_least_one v n" "t \<noteq> [] \<Longrightarrow> or_default q t \<noteq> []" for v n q t by (simp_all add: at_least_one_def or_default_def)
  then show ?thesis by (simp add: config_usable_def fill_config_def)
qed

lemma LoadRuntimeConfig_usable: "LoadRuntimeConfig f = Inr c \<Longrightarrow> config_usable c"
proof -
  have "config_usable DefaultRuntimeConfig" by (simp add: config_usable_def DefaultRuntimeConfig_def)
  then show "LoadRuntimeConfig f = Inr c \<Longrightarrow> config_usable c" using fill_usable by (auto simp: LoadRuntimeConfig_def split: stored.splits)
qed

section \<open>Tables and transactions\<close>

record wallet =
  w_balance :: int
  w_version :: int

record journal_row =
  j_player_id :: string
  j_action_id :: string
  j_committed :: bool
  j_response :: "(string \<times> string \<times> int) option"

record ledger_entry =
  le_request_id :: string
  le_player_id :: string
  le_type :: string
  le_amount :: int

record asset_market =
  am_last_price :: int
  am_version :: int

record db =
  db_players :: "string list"
  db_wallets :: "string \<rightharpoonup> wallet"
  db_journal :: "string \<rightharpoonup> journal_row"
  db_ledger :: "ledger_entry list"
  db_markets :: "string \<rightharpoonup> asset_market"
  db_events :: "(string \<times> string) list"

datatype 'e tx_error = BeginFailed | LockTimeoutFailed | StatementTimeoutFailed | CommitFailed | Aborted 'e

text \<open>\<open>fails k\<close>: the database fails at the \<open>k\<close>-th statement of the transaction. An error of the body or of the commit
  rolls everything back. The statements of the body are numbered from 3.\<close>

definition WithinSerializable :: "(nat \<Rightarrow> bool) \<Rightarrow> nat \<Rightarrow> (db \<Rightarrow> 'e + db) \<Rightarrow> db \<Rightarrow> 'e tx_error option \<times> db" where
  "WithinSerializable fails final body d =
     (if fails 0 then (Some BeginFailed, d)
      else if fails 1 then (Some LockTimeoutFailed, d)
      else if fails 2 then (Some StatementTimeoutFailed, d)
      else (case body d of
              Inl e \<Rightarrow> (Some (Aborted e), d)
            | Inr d' \<Rightarrow> (if fails final then (Some CommitFailed, d) else (None, d'))))"

text \<open>A statement that can fail, then the rest.\<close>

definition statement :: "bool \<Rightarrow> 'e \<Rightarrow> 'a option \<Rightarrow> ('a \<Rightarrow> 'e + 'b) \<Rightarrow> 'e + 'b" where
  "statement failing e r rest = (if failing then Inl e else (case r of None \<Rightarrow> Inl e | Some a \<Rightarrow> rest a))"

definition insert_journal :: "string \<Rightarrow> string \<Rightarrow> string \<Rightarrow> db \<Rightarrow> (bool \<times> db) option" where
  "insert_journal u pid action d =
     (if db_journal d u \<noteq> None then Some (False, d)
      else if pid \<notin> set (db_players d) then None
      else Some (True, d\<lparr>db_journal := (db_journal d)(u \<mapsto> \<lparr>j_player_id = pid, j_action_id = action, j_committed = False, j_response = None\<rparr>)\<rparr>))"

definition add_balance :: "string \<Rightarrow> int \<Rightarrow> db \<Rightarrow> db option" where
  "add_balance pid delta d =
     (case db_wallets d pid of
        None \<Rightarrow> Some d
      | Some w \<Rightarrow>
          (if in64 (w_balance w + delta) \<and> in64 (w_version w + 1)
           then Some (d\<lparr>db_wallets := (db_wallets d)(pid \<mapsto> \<lparr>w_balance = w_balance w + delta, w_version = w_version w + 1\<rparr>)\<rparr>)
           else None))"

definition insert_ledger :: "ledger_entry list \<Rightarrow> db \<Rightarrow> db option" where
  "insert_ledger es d =
     (if list_all (\<lambda>e. le_player_id e \<in> set (db_players d)) es then Some (d\<lparr>db_ledger := db_ledger d @ es\<rparr>) else None)"

definition finalize_journal :: "string \<Rightarrow> string \<times> string \<times> int \<Rightarrow> db \<Rightarrow> db option" where
  "finalize_journal u resp d = Some (d\<lparr>db_journal := (db_journal d)(u := map_option (\<lambda>j. j\<lparr>j_committed := True, j_response := Some resp\<rparr>) (db_journal d u))\<rparr>)"

section \<open>Transferring money\<close>

record transfer_input =
  ti_to_player_id :: string
  ti_amount :: int

record transfer_request =
  tq_request_id :: string
  tq_player_id :: string
  tq_action_id :: string
  tq_payload :: "transfer_input option"

datatype transfer_error =
    RequestIdNotUUID | JournalFailed | DuplicateRequest | FirstLockFailed | SecondLockFailed | BalanceFailed | InsufficientFunds
  | DebitFailed | CreditFailed | LedgerFailed | FinalizeFailed

datatype extension_error =
    DecodePayloadFailed | AmountNotPositive | InvalidRecipient | TransferFailed "transfer_error tx_error"
  | BpsOutOfRange | CrashFailed "unit tx_error"

definition lockOrder :: "string \<Rightarrow> string \<Rightarrow> string \<times> string" where
  "lockOrder a b = (if a < b then (a, b) else (b, a))"

text \<open>A player identifier is a text in the code and a \<^verbatim>\<open>UUID\<close> in the tables. \<open>col\<close> is the conversion of the database, which takes
  several spellings of one \<^verbatim>\<open>UUID\<close>, in other letter case or in braces, to the same value; a statement with a text it refuses fails.
  The locks themselves leave no trace in the tables; their order is \<open>lockOrder\<close> of the texts.\<close>

definition transfer_body ::
  "(string \<Rightarrow> string option) \<Rightarrow> (string \<Rightarrow> string option) \<Rightarrow> (nat \<Rightarrow> bool) \<Rightarrow> transfer_request \<Rightarrow> transfer_input \<Rightarrow> db \<Rightarrow> transfer_error + db" where
  "transfer_body parse_uuid col fails rq p d =
     (case parse_uuid (tq_request_id rq) of
        None \<Rightarrow> Inl RequestIdNotUUID
      | Some u \<Rightarrow>
          (let sender = col (tq_player_id rq); recipient = col (ti_to_player_id p);
               (first, second) = lockOrder (tq_player_id rq) (ti_to_player_id p) in
          statement (fails 3) JournalFailed (Option.bind sender (\<lambda>a. insert_journal u a (tq_action_id rq) d)) (\<lambda>(fresh, d1).
            if \<not> fresh then Inl DuplicateRequest
            else statement (fails 4) FirstLockFailed (col first) (\<lambda>_.
                 statement (fails 5) SecondLockFailed (col second) (\<lambda>_.
                 statement (fails 6) BalanceFailed (Option.bind sender (\<lambda>a. map_option w_balance (db_wallets d1 a))) (\<lambda>balance.
                   if balance < ti_amount p then Inl InsufficientFunds
                   else statement (fails 7) DebitFailed (Option.bind sender (\<lambda>a. add_balance a (- ti_amount p) d1)) (\<lambda>d2.
                        statement (fails 8) CreditFailed (Option.bind recipient (\<lambda>b. add_balance b (ti_amount p) d2)) (\<lambda>d3.
                        statement (fails 9) LedgerFailed (Option.bind sender (\<lambda>a. Option.bind recipient (\<lambda>b. insert_ledger
                            [\<lparr>le_request_id = u, le_player_id = a, le_type = ''transfer_out'', le_amount = - ti_amount p\<rparr>,
                             \<lparr>le_request_id = u, le_player_id = b, le_type = ''transfer_in'', le_amount = ti_amount p\<rparr>] d3))) (\<lambda>d4.
                        statement (fails 10) FinalizeFailed (finalize_journal u (tq_player_id rq, ti_to_player_id p, ti_amount p) d4) Inr)))))))))"

definition transfer_Execute ::
  "(string \<Rightarrow> string option) \<Rightarrow> (string \<Rightarrow> string option) \<Rightarrow> (nat \<Rightarrow> bool) \<Rightarrow> transfer_request \<Rightarrow> db \<Rightarrow>
     (extension_error + string \<times> string \<times> int) \<times> db" where
  "transfer_Execute parse_uuid col fails rq d =
     (case tq_payload rq of
        None \<Rightarrow> (Inl DecodePayloadFailed, d)
      | Some p \<Rightarrow>
          (if ti_amount p \<le> 0 then (Inl AmountNotPositive, d)
           else if ti_to_player_id p = [] \<or> ti_to_player_id p = tq_player_id rq then (Inl InvalidRecipient, d)
           else (case WithinSerializable fails 11 (transfer_body parse_uuid col fails rq p) d of
                   (Some e, d') \<Rightarrow> (Inl (TransferFailed e), d')
                 | (None, d') \<Rightarrow> (Inr (tq_player_id rq, ti_to_player_id p, ti_amount p), d'))))"

section \<open>Crashing a market\<close>

record crash_payload =
  cr_symbol :: string
  cr_bps :: int
  cr_raw :: string

definition crash_market :: "string \<Rightarrow> int \<Rightarrow> db \<Rightarrow> db option" where
  "crash_market sy bps d =
     (case db_markets d sy of
        None \<Rightarrow> Some d
      | Some m \<Rightarrow>
          (if in64 (am_last_price m * (10000 - bps)) \<and> in64 (am_version m + 1)
           then Some (d\<lparr>db_markets := (db_markets d)(sy \<mapsto>
                  \<lparr>am_last_price = max 1 (quot64 (am_last_price m * (10000 - bps)) 10000), am_version = am_version m + 1\<rparr>)\<rparr>)
           else None))"

definition crash_body :: "(nat \<Rightarrow> bool) \<Rightarrow> crash_payload \<Rightarrow> db \<Rightarrow> unit + db" where
  "crash_body fails p d =
     statement (fails 3) () (crash_market (cr_symbol p) (cr_bps p) d) (\<lambda>d1.
       statement (fails 4) () (Some (d1\<lparr>db_events := db_events d1 @ [(cr_symbol p, cr_raw p)]\<rparr>)) Inr)"

definition crash_Handle :: "(nat \<Rightarrow> bool) \<Rightarrow> crash_payload option \<Rightarrow> db \<Rightarrow> (extension_error + unit) \<times> db" where
  "crash_Handle fails payload d =
     (case payload of
        None \<Rightarrow> (Inl DecodePayloadFailed, d)
      | Some p \<Rightarrow>
          (if cr_bps p \<le> 0 \<or> cr_bps p \<ge> 10000 then (Inl BpsOutOfRange, d)
           else (case WithinSerializable fails 5 (crash_body fails p) d of
                   (Some e, d') \<Rightarrow> (Inl (CrashFailed e), d')
                 | (None, d') \<Rightarrow> (Inr (), d'))))"

section \<open>Facts\<close>

lemma lockOrder_sym: "lockOrder a b = lockOrder b a"
  by (auto simp: lockOrder_def)

lemma statement_Inr: "statement b e r rest = Inr d \<longleftrightarrow> \<not> b \<and> (\<exists>a. r = Some a \<and> rest a = Inr d)"
  by (auto simp: statement_def split: option.splits)

lemma WithinSerializable_cases:
  "WithinSerializable fails k body d = (e, d') \<Longrightarrow> (\<exists>x. e = Some x \<and> d' = d) \<or> (e = None \<and> body d = Inr d')"
  by (auto simp: WithinSerializable_def split: if_splits sum.splits)

lemma add_balance_frame:
  assumes "add_balance pid delta d = Some d'"
  shows "db_players d' = db_players d" "db_journal d' = db_journal d" "db_ledger d' = db_ledger d"
    "db_markets d' = db_markets d" "db_events d' = db_events d"
    "db_wallets d' = (case db_wallets d pid of None \<Rightarrow> db_wallets d
       | Some w \<Rightarrow> (db_wallets d)(pid \<mapsto> \<lparr>w_balance = w_balance w + delta, w_version = w_version w + 1\<rparr>))"
  using assms by (auto simp: add_balance_def split: option.splits if_splits)

definition balance :: "string \<Rightarrow> db \<Rightarrow> int" where
  "balance pid d = (case db_wallets d pid of None \<Rightarrow> 0 | Some w \<Rightarrow> w_balance w)"

text \<open>What a body that succeeds did.\<close>

lemma transfer_body_done:
  assumes "transfer_body parse_uuid col fails rq p d = Inr d'"
  obtains u a b w where "parse_uuid (tq_request_id rq) = Some u" "col (tq_player_id rq) = Some a" "col (ti_to_player_id p) = Some b"
    "db_journal d u = None" "a \<in> set (db_players d)" "b \<in> set (db_players d)" "db_wallets d a = Some w" "ti_amount p \<le> w_balance w"
    "db_journal d' u \<noteq> None"
    "db_ledger d' = db_ledger d @
       [\<lparr>le_request_id = u, le_player_id = a, le_type = ''transfer_out'', le_amount = - ti_amount p\<rparr>,
        \<lparr>le_request_id = u, le_player_id = b, le_type = ''transfer_in'', le_amount = ti_amount p\<rparr>]"
    "\<And>q. balance q d' = balance q d - (if q = a then ti_amount p else 0) +
       (if q = b \<and> db_wallets d b \<noteq> None then ti_amount p else 0)"
proof -
  from assms obtain u where u: "parse_uuid (tq_request_id rq) = Some u" by (auto simp: transfer_body_def split: option.splits)
  from assms obtain d1 a b c d2 d3 d4 where ab: "col (tq_player_id rq) = Some a" "col (ti_to_player_id p) = Some b"
    and j: "insert_journal u a (tq_action_id rq) d = Some (True, d1)"
    and c: "map_option w_balance (db_wallets d1 a) = Some c" "ti_amount p \<le> c"
    and m: "add_balance a (- ti_amount p) d1 = Some d2" "add_balance b (ti_amount p) d2 = Some d3"
    and l: "insert_ledger [\<lparr>le_request_id = u, le_player_id = a, le_type = ''transfer_out'', le_amount = - ti_amount p\<rparr>,
        \<lparr>le_request_id = u, le_player_id = b, le_type = ''transfer_in'', le_amount = ti_amount p\<rparr>] d3 = Some d4"
    and f: "finalize_journal u (tq_player_id rq, ti_to_player_id p, ti_amount p) d4 = Some d'"
    by (auto simp: transfer_body_def u Let_def statement_Inr bind_eq_Some_conv split: if_splits prod.splits)
  note fr = add_balance_frame [OF m(1)] add_balance_frame [OF m(2)]
  have jd: "db_journal d u = None" "a \<in> set (db_players d)" "db_players d1 = db_players d" "db_wallets d1 = db_wallets d"
    "db_ledger d1 = db_ledger d" "db_journal d1 u \<noteq> None"
    using j by (auto simp: insert_journal_def split: if_splits)
  have ld: "b \<in> set (db_players d)" "db_wallets d4 = db_wallets d3" "db_journal d4 = db_journal d3"
    "db_ledger d4 = db_ledger d @ [\<lparr>le_request_id = u, le_player_id = a, le_type = ''transfer_out'', le_amount = - ti_amount p\<rparr>,
        \<lparr>le_request_id = u, le_player_id = b, le_type = ''transfer_in'', le_amount = ti_amount p\<rparr>]"
    using l fr jd by (auto simp: insert_ledger_def split: if_splits)
  have fd: "db_wallets d' = db_wallets d4" "db_ledger d' = db_ledger d4" "db_journal d' u = None \<longleftrightarrow> db_journal d4 u = None"
    using f by (auto simp: finalize_journal_def)
  obtain w where w: "db_wallets d a = Some w" "w_balance w = c" using c(1) jd(4) by auto
  have "db_wallets d' = (case db_wallets d2 b of None \<Rightarrow> db_wallets d2
       | Some v \<Rightarrow> (db_wallets d2)(b \<mapsto> \<lparr>w_balance = w_balance v + ti_amount p, w_version = w_version v + 1\<rparr>))"
    "db_wallets d2 = (db_wallets d)(a \<mapsto> \<lparr>w_balance = w_balance w - ti_amount p, w_version = w_version w + 1\<rparr>)"
    using fr fd(1) ld(2) jd(4) w(1) by simp_all
  then have "balance q d' = balance q d - (if q = a then ti_amount p else 0) +
       (if q = b \<and> db_wallets d b \<noteq> None then ti_amount p else 0)" for q
    using w(1) by (auto simp: balance_def split: option.splits)
  moreover have "db_journal d' u \<noteq> None" using fd(3) ld(3) fr jd(6) by simp
  moreover have "ti_amount p \<le> w_balance w" using c(2) w(2) by simp
  ultimately show ?thesis using that u ab jd(1,2) ld(1,4) fd(2) w(1) by simp
qed

text \<open>C39: A transfer is all or nothing and happens once. When it is refused or anything fails, at any statement or at the
  commit, no table changes. When it succeeds, the sender had the money and loses exactly the amount, a recipient
  with a wallet gets exactly the amount, one without gets nothing and the money is gone, no other balance
  changes, the ledger has the two entries, and the same request sent again is refused without a change. Sender and recipient are
  the wallets the database converts the two texts to: the refusal of a transfer to oneself compares the texts,
  so another spelling of the sender's own identifier passes it, and then no balance changes while the ledger
  records a transfer.\<close>
theorem transfer_all_or_nothing:
  assumes "transfer_Execute parse_uuid col fails rq d = (r, d')" and "tq_payload rq = Some p"
  shows "case r of
      Inl e \<Rightarrow> d' = d
    | Inr out \<Rightarrow> \<exists>a b. col (tq_player_id rq) = Some a \<and> col (ti_to_player_id p) = Some b \<and>
        out = (tq_player_id rq, ti_to_player_id p, ti_amount p) \<and> 0 < ti_amount p \<and> ti_amount p \<le> balance a d \<and>
        (if a = b then balance a d' = balance a d
         else balance a d' = balance a d - ti_amount p \<and>
           balance b d' = (if db_wallets d b = None then 0 else balance b d + ti_amount p)) \<and>
        (\<forall>q. q \<noteq> a \<and> q \<noteq> b \<longrightarrow> balance q d' = balance q d) \<and>
        map (\<lambda>e. (le_player_id e, le_amount e)) (db_ledger d') =
          map (\<lambda>e. (le_player_id e, le_amount e)) (db_ledger d) @ [(a, - ti_amount p), (b, ti_amount p)] \<and>
        (\<forall>fails'. \<exists>e. transfer_Execute parse_uuid col fails' rq d' = (Inl e, d'))"
proof (cases r)
  case (Inl e)
  then have "d' = d" using assms
    by (auto simp: transfer_Execute_def split: if_splits prod.splits option.splits dest!: WithinSerializable_cases)
  then show ?thesis using Inl by simp
next
  case (Inr out)
  then have out: "out = (tq_player_id rq, ti_to_player_id p, ti_amount p)" and pos: "0 < ti_amount p"
    and body: "transfer_body parse_uuid col fails rq p d = Inr d'"
    using assms by (auto simp: transfer_Execute_def split: if_splits prod.splits option.splits dest!: WithinSerializable_cases)
  obtain u a b w where t: "parse_uuid (tq_request_id rq) = Some u" "col (tq_player_id rq) = Some a" "col (ti_to_player_id p) = Some b"
    "db_wallets d a = Some w" "ti_amount p \<le> w_balance w" and j: "db_journal d' u \<noteq> None"
    and l: "db_ledger d' = db_ledger d @
       [\<lparr>le_request_id = u, le_player_id = a, le_type = ''transfer_out'', le_amount = - ti_amount p\<rparr>,
        \<lparr>le_request_id = u, le_player_id = b, le_type = ''transfer_in'', le_amount = ti_amount p\<rparr>]"
    and bal: "\<And>q. balance q d' = balance q d - (if q = a then ti_amount p else 0) + (if q = b \<and> db_wallets d b \<noteq> None then ti_amount p else 0)"
    by (rule transfer_body_done [OF body]) (rule that; assumption)
  have "\<exists>e. transfer_body parse_uuid col fails' rq p d' = Inl e" for fails'
    using t(1,2) j by (auto simp: transfer_body_def statement_def insert_journal_def Let_def split: prod.split)
  then have "\<exists>e. transfer_Execute parse_uuid col fails' rq d' = (Inl e, d')" for fails'
    using assms(2) by (auto simp: transfer_Execute_def WithinSerializable_def split: sum.splits) (metis sum.simps(4))
  moreover have "balance a d = w_balance w" using t(4) by (simp add: balance_def)
  moreover have "db_wallets d b = None \<Longrightarrow> balance b d = 0" by (simp add: balance_def)
  ultimately show ?thesis unfolding Inr sum.case using out pos t bal
    by (intro exI [of _ a] exI [of _ b]) (auto simp: l)
qed

definition demo_db :: db where
  "demo_db = \<lparr>db_players = [''a'', ''b'', ''c''], db_wallets = [''a'' \<mapsto> \<lparr>w_balance = 100, w_version = 0\<rparr>, ''b'' \<mapsto> \<lparr>w_balance = 5, w_version = 0\<rparr>],
     db_journal = Map.empty, db_ledger = [], db_markets = Map.empty, db_events = []\<rparr>"

definition demo_transfer :: "string \<Rightarrow> transfer_request" where
  "demo_transfer to_player = \<lparr>tq_request_id = ''r1'', tq_player_id = ''a'', tq_action_id = ''player.transfer_money'',
     tq_payload = Some \<lparr>ti_to_player_id = to_player, ti_amount = 30\<rparr>\<rparr>"

text \<open>A conversion that takes the two spellings of a player to the same value.\<close>

definition demo_col :: "string \<Rightarrow> string option" where
  "demo_col s = Some (if s = ''A'' then ''a'' else s)"

lemma demo_transfer_runs:
  "to_player \<in> {''b'', ''c'', ''A''} \<Longrightarrow>
     \<exists>d'. transfer_Execute Some demo_col (\<lambda>_. False) (demo_transfer to_player) demo_db = (Inr (''a'', to_player, 30), d')"
  by (auto simp: transfer_Execute_def demo_transfer_def demo_db_def WithinSerializable_def transfer_body_def statement_def insert_journal_def
      add_balance_def insert_ledger_def finalize_journal_def in64_def demo_col_def split: prod.split)

theorem transfer_all_or_nothing_witness:
  "(\<exists>d'. transfer_Execute Some demo_col (\<lambda>_. False) (demo_transfer ''b'') demo_db = (Inr (''a'', ''b'', 30), d') \<and>
      balance ''a'' d' = 70 \<and> balance ''b'' d' = 35) \<and>
   (\<exists>d'. transfer_Execute Some demo_col (\<lambda>_. False) (demo_transfer ''c'') demo_db = (Inr (''a'', ''c'', 30), d') \<and>
      balance ''a'' d' = 70 \<and> balance ''b'' d' = 5 \<and> balance ''c'' d' = 0) \<and>
   (\<exists>d'. transfer_Execute Some demo_col (\<lambda>_. False) (demo_transfer ''A'') demo_db = (Inr (''a'', ''A'', 30), d') \<and>
      balance ''a'' d' = 100)"
proof -
  have p: "tq_payload (demo_transfer t) = Some \<lparr>ti_to_player_id = t, ti_amount = 30\<rparr>" for t by (simp add: demo_transfer_def)
  obtain d1 where d1: "transfer_Execute Some demo_col (\<lambda>_. False) (demo_transfer ''b'') demo_db = (Inr (''a'', ''b'', 30), d1)"
    using demo_transfer_runs [of "''b''"] by auto
  obtain d2 where d2: "transfer_Execute Some demo_col (\<lambda>_. False) (demo_transfer ''c'') demo_db = (Inr (''a'', ''c'', 30), d2)"
    using demo_transfer_runs [of "''c''"] by auto
  obtain d3 where d3: "transfer_Execute Some demo_col (\<lambda>_. False) (demo_transfer ''A'') demo_db = (Inr (''a'', ''A'', 30), d3)"
    using demo_transfer_runs [of "''A''"] by auto
  have bal: "balance ''a'' demo_db = 100" "balance ''b'' demo_db = 5" "db_wallets demo_db ''b'' \<noteq> None" "db_wallets demo_db ''c'' = None"
    by (simp_all add: demo_db_def balance_def)
  have col: "demo_col ''a'' = Some ''a''" "demo_col ''b'' = Some ''b''" "demo_col ''c'' = Some ''c''" "demo_col ''A'' = Some ''a''"
    by (simp_all add: demo_col_def)
  have "tq_player_id (demo_transfer t) = ''a''" for t by (simp add: demo_transfer_def)
  then show ?thesis
    using transfer_all_or_nothing [OF d1 p] transfer_all_or_nothing [OF d2 p] transfer_all_or_nothing [OF d3 p] d1 d2 d3 bal
    by (auto simp: col)
qed

text \<open>A crash takes at most the announced share, rounded down, and leaves a price of at least one.\<close>

lemma crash_market_bounds:
  assumes "crash_market sy bps d = Some d'" "db_markets d sy = Some m" "0 < bps" "bps < 10000" "1 \<le> am_last_price m"
  shows "\<exists>m'. db_markets d' sy = Some m' \<and> 1 \<le> am_last_price m' \<and> am_last_price m' \<le> am_last_price m"
proof -
  have r: "in64 (am_last_price m * (10000 - bps))" using assms(1,2) by (auto simp: crash_market_def split: if_splits)
  have "0 \<le> am_last_price m * (10000 - bps)" using assms(4,5) by simp
  then have q: "quot64 (am_last_price m * (10000 - bps)) 10000 = am_last_price m * (10000 - bps) div 10000" using r by (intro quot64_exact) simp_all
  have "am_last_price m * (10000 - bps) \<le> am_last_price m * 10000" using assms(3,5) by (intro mult_left_mono) simp_all
  then have "am_last_price m * (10000 - bps) div 10000 \<le> am_last_price m" using zdiv_mono1 [of _ "am_last_price m * 10000" 10000] by fastforce
  then show ?thesis using assms(1,2,5) q by (auto simp: crash_market_def split: if_splits)
qed

end
