(* ===== verification/ClientDraw.thy ===== *)
theory ClientDraw
  imports ClientLoop
begin

text \<open>
  What the terminal client draws: the calls of \<^verbatim>\<open>SetContent\<close> in their order, without the styles. The terminal
  ignores a cell outside of the screen.
\<close>

section \<open>Cells\<close>

datatype glyph =
    Ch char | Bullet | Dots | HBar | VBar | Rise | Fall | TopLeft | TopRight | BottomLeft | BottomRight

type_synonym cell = "(int \<times> int) \<times> glyph"

fun drawText :: "int \<Rightarrow> int \<Rightarrow> string \<Rightarrow> cell list" where
  "drawText x y [] = []"
| "drawText x y (r # rs) = ((x, y), Ch r) # drawText (x + 1) y rs"

definition fillRect :: "int \<Rightarrow> int \<Rightarrow> int \<Rightarrow> int \<Rightarrow> cell list" where
  "fillRect x1 y1 x2 y2 = concat (map (\<lambda>y. map (\<lambda>x. ((x, y), Ch CHR '' '')) [x1..x2]) [y1..y2])"

definition drawRoundedBox :: "int \<Rightarrow> int \<Rightarrow> int \<Rightarrow> int \<Rightarrow> cell list" where
  "drawRoundedBox x1 y1 x2 y2 =
     (if x2 \<le> x1 \<or> y2 \<le> y1 then []
      else fillRect x1 y1 x2 y2 @ [((x1, y1), TopLeft), ((x2, y1), TopRight), ((x1, y2), BottomLeft), ((x2, y2), BottomRight)] @
           concat (map (\<lambda>x. [((x, y1), HBar), ((x, y2), HBar)]) [x1 + 1..x2 - 1]) @
           concat (map (\<lambda>y. [((x1, y), VBar), ((x2, y), VBar)]) [y1 + 1..y2 - 1]))"

definition draw_box :: "ticker_rect \<Rightarrow> cell list" where
  "draw_box r = drawRoundedBox (tr_x1 r) (tr_y1 r) (tr_x2 r) (tr_y2 r)"

definition truncate_text :: "string \<Rightarrow> int \<Rightarrow> string" where
  "truncate_text text width =
     (if width \<le> 0 then []
      else if int (length text) \<le> width then text
      else if width \<le> 3 then take (nat width) text
      else take (nat (width - 3)) text @ ''...'')"

text \<open>The verb \<^verbatim>\<open>%+.2f\<close>.\<close>

definition show_signed2 :: "f64 \<Rightarrow> string" where
  "show_signed2 x = (if x < 0 then show_fixed2 x else CHR ''+'' # show_fixed2 x)"

section \<open>The chart\<close>

definition drawSegment :: "int \<times> int \<Rightarrow> int \<times> int \<Rightarrow> cell list" where
  "drawSegment a b =
     (let dx = fst b - fst a; dy = snd b - snd a; steps = max \<bar>dx\<bar> \<bar>dy\<bar> in
      if steps = 0 then [(a, Bullet)]
      else map (\<lambda>i. ((fst a + quot64 (dx * i) steps, snd a + quot64 (dy * i) steps),
                     if dy = 0 then HBar else if dx = 0 then VBar
                     else if (dx > 0 \<and> dy < 0) \<or> (dx < 0 \<and> dy > 0) then Rise else Fall)) [0..steps])"

definition price_range :: "history_point list \<Rightarrow> f64 \<times> f64" where
  "price_range history =
     (let lo = foldl (\<lambda>m p. if hp_price p < m then hp_price p else m) (hp_price (hd history)) history;
          hi = foldl (\<lambda>m p. if hp_price p > m then hp_price p else m) (hp_price (hd history)) history
      in (lo, if \<bar>fsub hi lo\<bar> < rnd (1 / 10000) then fadd lo 1 else hi))"

definition plot_point :: "int \<Rightarrow> int \<Rightarrow> int \<Rightarrow> int \<Rightarrow> f64 \<Rightarrow> f64 \<Rightarrow> nat \<Rightarrow> nat \<Rightarrow> history_point \<Rightarrow> int \<times> int" where
  "plot_point x1 y1 x2 y2 lo hi n idx p =
     (let drawWidth = max 1 (x2 - (x1 + 1));
          x = (if n > 1
               then x1 + 1 + to_i64 (go_round (fdiv (fmul (of_i64 (int idx)) (of_i64 drawWidth)) (of_i64 (int n - 1))))
               else x1 + 1)
      in (if x > x2 then x2 else x, mapValueToRow (hp_price p) lo hi y1 y2))"

definition plot_points :: "int \<Rightarrow> int \<Rightarrow> int \<Rightarrow> int \<Rightarrow> history_point list \<Rightarrow> (int \<times> int) list" where
  "plot_points x1 y1 x2 y2 history =
     (case price_range history of
        (lo, hi) \<Rightarrow> map (\<lambda>(i, p). plot_point x1 y1 x2 y2 lo hi (length history) i p) (enumerate 0 history))"

definition grid_row :: "int \<Rightarrow> int \<Rightarrow> int \<Rightarrow> int" where
  "grid_row y1 y2 step = y1 + quot64 (step * (y2 - y1 + 1 - 1)) 3"

definition grid_lines :: "int \<Rightarrow> int \<Rightarrow> int \<Rightarrow> int \<Rightarrow> f64 \<times> f64 \<Rightarrow> cell list" where
  "grid_lines x1 y1 x2 y2 r =
     (case r of (lo, hi) \<Rightarrow>
       concat (map (\<lambda>step. map (\<lambda>x. ((x, grid_row y1 y2 step), Dots)) [x1..x2] @
         drawText (x1 + 1) (grid_row y1 y2 step) (show_fixed2 (fsub hi (fmul (fdiv (of_i64 step) 3) (fsub hi lo))))) [0..3]))"

fun segments :: "(int \<times> int) list \<Rightarrow> cell list" where
  "segments (a # b # ps) = drawSegment a b @ segments (b # ps)"
| "segments _ = []"

definition plot_line :: "int \<Rightarrow> int \<Rightarrow> int \<Rightarrow> int \<Rightarrow> history_point list \<Rightarrow> cell list" where
  "plot_line x1 y1 x2 y2 history =
     (let ps = plot_points x1 y1 x2 y2 history in segments ps @ map (\<lambda>p. (p, Bullet)) ps)"

definition renderChartPlot :: "int \<Rightarrow> int \<Rightarrow> int \<Rightarrow> int \<Rightarrow> history_point list \<Rightarrow> cell list" where
  "renderChartPlot x1 y1 x2 y2 history =
     (if x2 \<le> x1 \<or> y2 \<le> y1 \<or> history = [] then []
      else grid_lines x1 y1 x2 y2 (price_range history) @ plot_line x1 y1 x2 y2 history)"

text \<open>\<open>None\<close> is the panic of a slice out of bounds.\<close>

definition chart_panel_cells :: "ticker_rect \<Rightarrow> ui \<Rightarrow> cell list option" where
  "chart_panel_cells rect u =
     (let innerX1 = tr_x1 rect + 2; innerY1 = tr_y1 rect + 2; innerX2 = tr_x2 rect - 2; innerY2 = tr_y2 rect - 2;
          frame = draw_box rect @ drawText (tr_x1 rect + 2) (tr_y1 rect) ''chart'' @ drawText (tr_x1 rect + 9) (tr_y1 rect) (current u) in
      if innerX2 \<le> innerX1 \<or> innerY2 \<le> innerY1 then Some frame
      else (case ui_ticks u (current u) of
              None \<Rightarrow> Some (frame @ drawText innerX1 innerY1 ''waiting for chart data from server...'')
            | Some t \<Rightarrow>
                (if ct_history t = [] then Some (frame @ drawText innerX1 innerY1 ''waiting for chart data from server...'')
                 else (case chartViewport (ct_history t) (innerX2 - innerX1) (ui_zoom u) (ui_offset u) (preset_duration u) of
                         None \<Rightarrow> None
                       | Some (visible, start, stop) \<Rightarrow>
                           (let plotY1 = (if innerY2 - (innerY1 + 2) < 6 then innerY1 + 1 else innerY1 + 2);
                                label = ''tf '' @ fst (timeframePresets ! nat (ui_timeframe u)) @ ''  view '' @ show_int (start + 1) @ '':'' @
                                        show_int stop @ ''  zoom x'' @ show_fixed2 (chartZoomFactor (ui_zoom u))
                            in Some (frame @ drawText innerX1 innerY1 (''price '' @ show_fixed2 (ct_current_price t)) @
                                 drawText (innerX1 + 18) innerY1 (''1m '' @ show_signed2 (ct_change_1m_pct t) @ ''%'') @
                                 drawText (innerX1 + 32) innerY1 (''5m '' @ show_signed2 (ct_change_5m_pct t) @ ''%'') @
                                 drawText (innerX1 + 47) innerY1 (''15m '' @ show_signed2 (ct_change_15m_pct t) @ ''%'') @
                                 drawText (max innerX1 (innerX2 - int (length label))) innerY1 label @
                                 renderChartPlot innerX1 plotY1 innerX2 innerY2 visible))))))"

section \<open>Tiles, banner and chat\<close>

definition renderTickerTile :: "ticker_rect \<Rightarrow> chart_tick option \<Rightarrow> cell list" where
  "renderTickerTile r tick =
     draw_box r @ drawText (tr_x1 r + 2) (tr_y1 r + 1) (tr_symbol r) @
     (case tick of
        None \<Rightarrow> drawText (tr_x1 r + 2) (tr_y1 r + 2) ''waiting...''
      | Some t \<Rightarrow>
          (if ct_history t = [] then drawText (tr_x1 r + 2) (tr_y1 r + 2) ''waiting...''
           else drawText (tr_x1 r + 2) (tr_y1 r + 2) (show_fixed2 (ct_current_price t)) @
                drawText (tr_x1 r + 2) (tr_y1 r + 3) (''5m '' @ show_signed2 (ct_change_5m_pct t) @ ''%'')))"

definition renderEventBanner :: "int \<Rightarrow> time \<Rightarrow> ui \<Rightarrow> cell list" where
  "renderEventBanner width now u =
     (case ui_banner u of
        None \<Rightarrow> []
      | Some b \<Rightarrow>
          (if \<not> now < bn_expires_at b then []
           else fillRect 0 0 (max 0 (width - 1)) 0 @
                drawText 1 0 (truncate_text (marqueeText (bn_text b) width (now - bn_started_at b)) (max 1 (width - 2)))))"

definition chat_line :: "string \<Rightarrow> int \<Rightarrow> int \<Rightarrow> int \<Rightarrow> chat_entry \<Rightarrow> cell list" where
  "chat_line selfID x0 innerX2 y e =
     (case chatDisplayParts e selfID of
        (tag, name, _) \<Rightarrow>
          (let x1 = (if tag = [] then x0 else x0 + int (length tag) + 1);
               x2 = (if name = [] then x1 else x1 + int (length name));
               prefix = (if name = [] then [] else '': '')
           in (if tag = [] then [] else drawText x0 y (tag @ '' '')) @ (if name = [] then [] else drawText x1 y name) @
              drawText x2 y (truncate_text (prefix @ cm_body e) (max 0 (innerX2 - x2 + 1)))))"

fun chat_lines_cells :: "string \<Rightarrow> int \<Rightarrow> int \<Rightarrow> int \<Rightarrow> int \<Rightarrow> chat_entry list \<Rightarrow> cell list" where
  "chat_lines_cells selfID x0 innerX2 inputY y [] = []"
| "chat_lines_cells selfID x0 innerX2 inputY y (e # es) =
     (if y \<ge> inputY then [] else chat_line selfID x0 innerX2 y e @ chat_lines_cells selfID x0 innerX2 inputY (y + 1) es)"

definition chat_panel_cells :: "ticker_rect \<Rightarrow> ui \<Rightarrow> cell list" where
  "chat_panel_cells rect u =
     (let inputY = tr_y2 rect - 1; innerX1 = tr_x1 rect + 2; innerX2 = tr_x2 rect - 2;
          availableLines = max 1 (inputY - tr_y1 rect - 2); n = int (length (ui_chat_lines u));
          maxStart = max 0 (n - availableLines);
          scroll = (if ui_chat_scroll u > maxStart then maxStart else ui_chat_scroll u);
          start = max 0 (n - availableLines - scroll)
      in draw_box rect @ drawText (tr_x1 rect + 2) (tr_y1 rect) ''chat'' @
         drawText (tr_x1 rect + 8) (tr_y1 rect) ''click name -> copy id | /dm <id> text'' @
         chat_lines_cells (ui_player_id u) innerX1 innerX2 inputY (tr_y1 rect + 2) (drop (nat start) (ui_chat_lines u)) @
         drawText innerX1 inputY (truncate_text (''> '' @ ui_chat_input u) (max 1 (innerX2 - innerX1 + 1))))"

section \<open>The sidebar\<close>

text \<open>A label and its value twelve columns to the right.\<close>

definition labelled :: "int \<Rightarrow> int \<Rightarrow> string \<times> string \<Rightarrow> cell list" where
  "labelled x y lv = drawText x y (fst lv) @ drawText (x + 12) y (snd lv)"

fun draw_rows :: "int \<Rightarrow> int \<Rightarrow> (string \<times> string) list \<Rightarrow> cell list" where
  "draw_rows x y [] = []"
| "draw_rows x y (r # rs) = labelled x y r @ draw_rows x (y + 1) rs"

definition percent_text :: "f64 \<Rightarrow> string" where
  "percent_text x = show_signed2 x @ ''%''"

definition bps_text :: "int \<Rightarrow> string" where
  "bps_text bps = show_fixed2 (fdiv (of_i64 bps) 100) @ ''bp''"

definition market_rows :: "ui \<Rightarrow> chart_tick \<Rightarrow> (string \<times> string) list" where
  "market_rows u t =
     [(''current'', show_fixed2 (ct_current_price t)), (''1m'', percent_text (ct_change_1m_pct t)),
      (''5m'', percent_text (ct_change_5m_pct t)), (''15m'', percent_text (ct_change_15m_pct t)),
      (''timeframe'', fst (timeframePresets ! nat (ui_timeframe u))),
      (''zoom'', ''x'' @ show_fixed2 (chartZoomFactor (ui_zoom u))),
      (''fee'', bps_text (ru_exchange_fee_bps (ui_rules u))), (''mkt+'', bps_text (ru_market_order_surcharge_bps (ui_rules u)))]"

definition wallet_rows :: "ui \<Rightarrow> (string \<times> string) list" where
  "wallet_rows u =
     (case ui_portfolio u of
        Some p \<Rightarrow> [(''cash'', show_fixed2 (moneyValue (po_available_cash p))), (''reserved'', show_fixed2 (moneyValue (po_reserved_cash p))),
                   (''shares'', show_int (case po_available_stock p (current u) of None \<Rightarrow> 0 | Some n \<Rightarrow> n))]
      | None \<Rightarrow> [(''loading portfolio...'', [])])"

definition offer_label :: "catalog_item \<Rightarrow> string" where
  "offer_label i = ''i buy preview '' @ show_fixed2 (moneyValue (ci_price i))"

definition intel_cells :: "ticker_rect \<Rightarrow> int \<Rightarrow> ui \<Rightarrow> cell list" where
  "intel_cells rect y u =
     (case ui_offer u of
        Some i \<Rightarrow> drawText (tr_x1 rect + 2) y (truncate_text (offer_label i) (max 1 (tr_x2 rect - tr_x1 rect - 4))) @
                  drawText (tr_x1 rect + 2) (y + 1) ''next random event 30s early''
      | None \<Rightarrow> drawText (tr_x1 rect + 2) y ''loading insider catalog...'')"

text \<open>\<open>drawTicketField\<close> puts the value ten columns to the right.\<close>

definition drawTicketField :: "int \<Rightarrow> int \<Rightarrow> string \<Rightarrow> string \<Rightarrow> cell list" where
  "drawTicketField x y label value = drawText x y label @ drawText (x + 10) y value"

fun draw_fields :: "int \<Rightarrow> int \<Rightarrow> (string \<times> string) list \<Rightarrow> cell list" where
  "draw_fields x y [] = []"
| "draw_fields x y (f # fs) = drawTicketField x y (fst f) (snd f) @ draw_fields x (y + 1) fs"

fun draw_texts :: "int \<Rightarrow> int \<Rightarrow> string list \<Rightarrow> cell list" where
  "draw_texts x y [] = []"
| "draw_texts x y (t # ts) = drawText x y t @ draw_texts x (y + 1) ts"

definition ticket_fields :: "order_ticket \<Rightarrow> (string \<times> string) list" where
  "ticket_fields t =
     [(''side'', to_upper (ot_side t)), (''type'', to_upper (ot_order_type t))] @
     (if ot_order_type t = ''limit'' then [(''price'', ot_price t)] else []) @ [(''qty'', ot_quantity t)]"

definition estimate_texts :: "order_ticket \<Rightarrow> cost_estimate \<Rightarrow> string list" where
  "estimate_texts t est =
     [''fee '' @ show_fixed2 (moneyValue (est_exchange_fee est))] @
     (if est_market_order_surcharge est > 0 then [''impact '' @ show_fixed2 (moneyValue (est_market_order_surcharge est))] else []) @
     (if est_rapid_flip_tax est > 0 then [''flip tax '' @ show_fixed2 (moneyValue (est_rapid_flip_tax est))] else []) @
     [(if ot_side t = ''sell'' then ''net credit'' else ''total debit'') @ '' '' @ show_fixed2 (moneyValue (est_total est)),
      ''Tab switch | Enter send | Esc close | click book level'']"

definition ticket_cells :: "int \<Rightarrow> int \<Rightarrow> ui \<Rightarrow> f64 \<Rightarrow> cell list" where
  "ticket_cells x y u price_now =
     (if ot_active (ui_ticket u)
      then (let fs = ticket_fields (ui_ticket u)
            in draw_fields x y fs @
               draw_texts x (y + int (length fs)) (estimate_texts (ui_ticket u) (estimateTicketCost u (current u) price_now)))
      else drawText x y ''b buy | s sell | i insider | r refresh'')"

fun level_cells :: "int \<Rightarrow> int \<Rightarrow> nat \<Rightarrow> int \<Rightarrow> chart_level list \<Rightarrow> cell list" where
  "level_cells x edge i y [] = []"
| "level_cells x edge i y (l # ls) =
     (if i \<ge> 3 \<or> y \<ge> edge then []
      else labelled x y (show_fixed2 (cl_price l), show_int (cl_qty l)) @ level_cells x edge (Suc i) (y + 1) ls)"

text \<open>The part above the levels, then the whole; the rows are those of \<open>render_sidebar\<close>.\<close>

definition sidebar_upper :: "ticker_rect \<Rightarrow> ui \<Rightarrow> chart_tick \<Rightarrow> cell list" where
  "sidebar_upper rect u tick =
     (case sidebar_rows rect u tick of
        (wallet, offer, ticket, book, title) \<Rightarrow>
          (let x1 = tr_x1 rect + 2; y0 = tr_y1 rect + 2 in
           draw_rows x1 y0 (take (nat (wallet - 1 - y0)) (market_rows u tick)) @
           drawText x1 wallet ''wallet'' @ draw_rows x1 (wallet + 1) (wallet_rows u) @
           drawText x1 (offer - 1) ''intel'' @ intel_cells rect offer u @
           drawText x1 ticket ''ticket'' @ ticket_cells x1 (ticket + 1) u (ct_current_price tick) @
           (if book < tr_y2 rect - 2 then drawText x1 book ''order book'' else []) @
           (if title < tr_y2 rect - 2 then drawText x1 title ''bids'' else [])))"

definition sidebar_levels :: "ticker_rect \<Rightarrow> int \<Rightarrow> chart_tick \<Rightarrow> cell list" where
  "sidebar_levels rect title tick =
     (let x1 = tr_x1 rect + 2; y = snd (level_rects ''bid'' x1 (tr_x2 rect - 2) (tr_y2 rect - 3) 0 (bids_row rect title) (ct_bids tick)) in
      level_cells x1 (tr_y2 rect - 3) 0 (bids_row rect title) (ct_bids tick) @
      (if y < tr_y2 rect - 2 then drawText x1 (y + 1) ''asks'' else []) @
      level_cells x1 (tr_y2 rect - 1) 0 (asks_row rect y) (ct_asks tick))"

definition sidebar_cells :: "ticker_rect \<Rightarrow> ui \<Rightarrow> cell list" where
  "sidebar_cells rect u =
     draw_box rect @ drawText (tr_x1 rect + 2) (tr_y1 rect) ''market'' @ drawText (tr_x1 rect + 10) (tr_y1 rect) (current u) @
     (case ui_ticks u (current u) of
        None \<Rightarrow> drawText (tr_x1 rect + 2) (tr_y1 rect + 2) ''awaiting tick...''
      | Some tick \<Rightarrow>
          (if ct_history tick = [] then drawText (tr_x1 rect + 2) (tr_y1 rect + 2) ''awaiting tick...''
           else sidebar_upper rect u tick @
                (case sidebar_rows rect u tick of (_, _, _, _, title) \<Rightarrow> sidebar_levels rect title tick)))"

section \<open>The status line\<close>

definition error_text :: "ui_error \<Rightarrow> string" where
  "error_text e =
     (case e of
        QuantityInvalid \<Rightarrow> ''quantity must be a positive integer''
      | PriceInvalid \<Rightarrow> ''price must be a positive number''
      | MessageEmpty \<Rightarrow> ''message is empty''
      | DirectBodyEmpty \<Rightarrow> ''direct message body is empty''
      | ActionFailed t \<Rightarrow> t
      | StreamFailed t \<Rightarrow> t)"

text \<open>\<open>hms\<close> writes the time of day of an instant, \<open>local_hms\<close> that of the local time zone.\<close>

definition status_text :: "(time \<Rightarrow> string) \<Rightarrow> (time \<Rightarrow> string) \<Rightarrow> ui_status \<Rightarrow> string" where
  "status_text hms local_hms st =
     (case st of
        StConnecting \<Rightarrow> ''connecting to chart stream...''
      | StText t \<Rightarrow> t
      | StSelected s \<Rightarrow> ''selected '' @ s
      | StSelectedByMouse s \<Rightarrow> ''selected '' @ s @ '' via mouse''
      | StTimeframe l \<Rightarrow> ''timeframe '' @ l
      | StViewportReset \<Rightarrow> ''chart viewport reset''
      | StTicketClosed \<Rightarrow> ''ticket closed''
      | StTicketReady side \<Rightarrow> to_upper side @ '' ticket ready''
      | StBookTicketReady side qty price \<Rightarrow> to_upper side @ '' '' @ show_int qty @ '' @ '' @ show_fixed2 price @ '' ready''
      | StSubmitting side \<Rightarrow> ''submitting '' @ side @ '' order...''
      | StLoadingCatalog \<Rightarrow> ''loading insider catalog...''
      | StBuyingInsider x \<Rightarrow> ''buying insider preview for '' @ show_fixed2 x @ ''...''
      | StRulesLoaded \<Rightarrow> ''market rules loaded''
      | StPortfolioRefreshed x \<Rightarrow> ''portfolio refreshed: cash '' @ show_fixed2 x
      | StInsiderReady x \<Rightarrow> ''insider preview ready: '' @ show_fixed2 x
      | StCatalogLoaded \<Rightarrow> ''intel catalog loaded''
      | StOrderAccepted \<Rightarrow> ''order accepted''
      | StInsiderArmedBefore t \<Rightarrow> ''insider armed: preview before '' @ local_hms t
      | StInsiderArmedNext x \<Rightarrow> ''insider armed for next event ('' @ show_fixed2 x @ '')''
      | StPreviewDelivered \<Rightarrow> ''insider preview delivered''
      | StIntelPurchased x \<Rightarrow> ''intel purchased for '' @ show_fixed2 x
      | StActionCompleted \<Rightarrow> ''action completed''
      | StLiveTick s t \<Rightarrow> ''live tick '' @ s @ '' at '' @ hms t
      | StMarketEvent t \<Rightarrow> ''market event: '' @ t
      | StPreviewReceived \<Rightarrow> ''insider preview received''
      | StError e \<Rightarrow> ''error: '' @ error_text e
      | StChatClosed \<Rightarrow> ''chat input closed''
      | StChatFocused \<Rightarrow> ''chat input focused''
      | StSendingDirect to \<Rightarrow> ''sending DM to '' @ to @ ''...''
      | StSendingChat \<Rightarrow> ''sending chat message...''
      | StFocusFor name \<Rightarrow> ''prepared chat focus for '' @ name
      | StPreparedDirect name i \<Rightarrow> ''prepared DM to '' @ name @ '' ('' @ i @ '')''
      | StCopiedDirect name \<Rightarrow> ''copied '' @ name @ '' id and prepared DM'')"

section \<open>The screen\<close>

text \<open>The text above the panels, and the calls of a frame in their order; the states between are those of \<open>render\<close>.\<close>

definition header_cells :: "int \<Rightarrow> int \<Rightarrow> string \<Rightarrow> string \<Rightarrow> cell list" where
  "header_cells w offset playerLabel endpointLabel =
     drawText 2 offset ''SSH ARENA'' @ drawText 13 offset ''market terminal'' @
     drawText 2 (1 + offset) (truncate_text playerLabel (max 1 (w - 4))) @
     drawText (max 2 (w - 7 - int (length endpointLabel))) (1 + offset) (''grpc '' @ endpointLabel) @
     drawText 2 (2 + offset) (truncate_text (''click ticker/level | enter chat | b buy | s sell | r refresh | '' @
       ''wheel zoom | a/d pan | [/] timeframe | q quit'') (max 1 (w - 4)))"

definition status_cells :: "int \<Rightarrow> int \<Rightarrow> string \<Rightarrow> cell list" where
  "status_cells w h status =
     fillRect 0 (h - 1) (w - 1) (h - 1) @ drawText 1 (h - 1) (truncate_text (''status: '' @ status) (max 1 (w - 2)))"

definition render_cells :: "int \<Rightarrow> int \<Rightarrow> time \<Rightarrow> string \<Rightarrow> string \<Rightarrow> string \<Rightarrow> ui \<Rightarrow> cell list option" where
  "render_cells w h now playerLabel endpointLabel status u =
     (case bannerOffset now (u\<lparr>ui_ticker_rects := [], ui_orderbook_rects := [], ui_insider_rect := no_rect\<rparr>) of
        (offset, u0) \<Rightarrow>
          (let tileY = 4 + offset;
               u1 = render_tiles w h tileY u0;
               tilesBottom = (if ui_ticker_rects u1 = [] then tileY else tr_y2 (last (ui_ticker_rects u1)));
               mainY = tilesBottom + 2;
               chat = chat_area w h mainY;
               chart = chart_area w mainY chat;
               sidebar = sidebar_area w mainY chart;
               u2 = render_chart_panel chart u1;
               upper = (if offset > 0 then renderEventBanner w now u0 else []) @ header_cells w offset playerLabel endpointLabel @
                 concat (map (\<lambda>r. renderTickerTile r (ui_ticks u1 (tr_symbol r))) (ui_ticker_rects u1))
           in case chart_panel_cells chart u1 of
                None \<Rightarrow> None
              | Some panel \<Rightarrow>
                  Some (upper @ panel @ (if tr_x2 sidebar - tr_x1 sidebar \<ge> 22 then sidebar_cells sidebar u2 else []) @
                        chat_panel_cells chat u2 @ status_cells w h status)))"

end
