(* ===== verification/ScreenProps.thy ===== *)
theory ScreenProps
  imports ClientDraw ClientProps
begin

text \<open>
  What the terminal shows after the calls of a frame, the last write to a cell winning: the levels of the order
  book stand where a click finds them, and the line of the chart stays inside of its panel.
\<close>

section \<open>The cells shown\<close>

definition shown :: "cell list \<Rightarrow> int \<times> int \<Rightarrow> glyph option" where
  "shown cells = map_of (rev cells)"

lemma shown_simps [simp]:
  "shown [] p = None"
  "shown (c # cs) p = (case shown cs p of None \<Rightarrow> if p = fst c then Some (snd c) else None | Some g \<Rightarrow> Some g)"
  "shown (as @ bs) p = (case shown bs p of None \<Rightarrow> shown as p | Some g \<Rightarrow> Some g)"
  by (cases c; simp add: shown_def map_add_def split: option.split)
    (simp_all add: shown_def map_add_def split: option.split)

lemma shown_elsewhere: "\<forall>c \<in> set cells. fst c \<noteq> p \<Longrightarrow> shown cells p = None"
  by (auto simp: shown_def map_of_eq_None_iff)

definition below :: "int \<Rightarrow> cell list \<Rightarrow> bool" where
  "below y cells \<longleftrightarrow> (\<forall>c \<in> set cells. y \<le> snd (fst c))"

lemma below_simps [simp]:
  "below y []" "below y (c # cs) \<longleftrightarrow> y \<le> snd (fst c) \<and> below y cs" "below y (as @ bs) \<longleftrightarrow> below y as \<and> below y bs"
  by (auto simp: below_def)

lemma below_mono: "below z cells \<Longrightarrow> y \<le> z \<Longrightarrow> below y cells"
  by (fastforce simp: below_def)

lemma below_hides_nothing: "below z cells \<Longrightarrow> y < z \<Longrightarrow> shown cells (x, y) = None"
  by (rule shown_elsewhere) (fastforce simp: below_def)

lemma below_drawText: "y \<le> z \<Longrightarrow> below y (drawText x z t)"
  by (induction t arbitrary: x) simp_all

lemma below_fillRect: "y \<le> y1 \<Longrightarrow> below y (fillRect x1 y1 x2 y2)"
  by (auto simp: below_def fillRect_def)

lemma below_box: "y \<le> tr_y1 r \<Longrightarrow> below y (draw_box r)"
  using below_fillRect [of y "tr_y1 r" "tr_x1 r" "tr_x2 r" "tr_y2 r"]
  by (auto simp: draw_box_def drawRoundedBox_def below_def)

lemma below_labelled: "y \<le> z \<Longrightarrow> below y (labelled x z lv)"
  by (simp add: labelled_def below_drawText)

lemma drawText_columns: "c \<in> set (drawText x y t) \<Longrightarrow> x \<le> fst (fst c) \<and> snd (fst c) = y"
  by (induction t arbitrary: x) fastforce+

lemma right_of_text: "z < x \<Longrightarrow> shown (drawText x y t) (z, y') = None"
  by (rule shown_elsewhere) (auto dest: drawText_columns)

lemma shown_drawText: "k < length t \<Longrightarrow> shown (drawText x y t) (x + int k, y) = Some (Ch (t ! k))"
proof (induction t arbitrary: x k)
  case (Cons c cs)
  have left: "shown (drawText (x + 1) y cs) (x, y) = None" by (simp add: right_of_text)
  show ?case
  proof (cases k)
    case 0
    then show ?thesis using left by simp
  next
    case (Suc j)
    then show ?thesis using Cons.IH [of j "x + 1"] Cons.prems by (simp add: algebra_simps)
  qed
qed simp

section \<open>The levels of the book\<close>

lemma level_rects_grows: "y \<le> snd (level_rects side x1 x2 edge i y ls)"
proof (induction ls arbitrary: i y)
  case (Cons l ls)
  have "y + 1 \<le> snd (level_rects side x1 x2 edge (Suc i) (y + 1) ls)" by (rule Cons.IH)
  then show ?case by (simp add: case_prod_beta)
qed simp

lemma level_rects_rows:
  "r \<in> set (fst (level_rects side x1 x2 edge i y ls)) \<Longrightarrow>
     or_x1 r = x1 \<and> y \<le> or_y1 r \<and> or_y1 r < edge \<and> or_y1 r < snd (level_rects side x1 x2 edge i y ls)"
proof (induction ls arbitrary: i y)
  case (Cons l ls)
  show ?case
  proof (cases "i \<ge> 3 \<or> y \<ge> edge")
    case False
    obtain rs y' where next_row: "level_rects side x1 x2 edge (Suc i) (y + 1) ls = (rs, y')" by fastforce
    have "y < y'" using level_rects_grows [of "y + 1" side x1 x2 edge "Suc i" ls] by (simp add: next_row)
    then show ?thesis using Cons.IH [of "Suc i" "y + 1"] Cons.prems False by (auto simp: next_row)
  qed (use Cons.prems in simp)
qed simp

lemma below_level_cells: "z \<le> y \<Longrightarrow> below z (level_cells x edge i y ls)"
  by (induction ls arbitrary: i y) (simp_all add: below_labelled)

lemma shown_labelled: "int (length t) \<le> 12 \<Longrightarrow> k < length t \<Longrightarrow> shown (labelled x y (t, v)) (x + int k, y) = Some (Ch (t ! k))"
  by (simp add: labelled_def right_of_text shown_drawText)

lemma level_shown:
  "r \<in> set (fst (level_rects side x1 x2 edge i y ls)) \<Longrightarrow> int (length (show_fixed2 (or_price r))) \<le> 12 \<Longrightarrow>
     k < length (show_fixed2 (or_price r)) \<Longrightarrow>
     shown (level_cells x1 edge i y ls) (x1 + int k, or_y1 r) = Some (Ch (show_fixed2 (or_price r) ! k))"
proof (induction ls arbitrary: i y)
  case (Cons l ls)
  show ?case
  proof (cases "i \<ge> 3 \<or> y \<ge> edge")
    case False
    obtain rs y' where next_row: "level_rects side x1 x2 edge (Suc i) (y + 1) ls = (rs, y')" by fastforce
    consider "r \<in> set rs" | "or_price r = cl_price l" "or_y1 r = y" using Cons.prems(1) False by (auto simp: next_row)
    then show ?thesis
    proof cases
      case 1
      then show ?thesis using Cons.IH [of "Suc i" "y + 1"] Cons.prems False by (simp add: next_row)
    next
      case 2
      have "shown (level_cells x1 edge (Suc i) (y + 1) ls) (x1 + int k, y) = None"
        by (rule below_hides_nothing [of "y + 1"]) (simp_all add: below_level_cells)
      then show ?thesis using Cons.prems 2 False by (simp add: shown_labelled)
    qed
  qed (use Cons.prems in simp)
qed simp

lemma sidebar_level_shown:
  assumes r: "r \<in> set (ui_orderbook_rects (render_sidebar rect u))" and start: "ui_orderbook_rects u = []"
    and fits: "int (length (show_fixed2 (or_price r))) \<le> 12" and k: "k < length (show_fixed2 (or_price r))"
  shows "shown (sidebar_cells rect u) (or_x1 r + int k, or_y1 r) = Some (Ch (show_fixed2 (or_price r) ! k)) \<and> or_y1 r < tr_y2 rect - 1"
proof -
  obtain t where t: "ui_ticks u (current u) = Some t" "ct_history t \<noteq> []"
    using r start by (cases "ui_ticks u (current u)") (auto simp: render_sidebar_def split: if_splits)
  obtain wallet offer ticket book title where rows: "sidebar_rows rect u t = (wallet, offer, ticket, book, title)" by (metis prod.exhaust)
  obtain bs y where bids: "level_rects ''bid'' (tr_x1 rect + 2) (tr_x2 rect - 2) (tr_y2 rect - 3) 0 (bids_row rect title) (ct_bids t) = (bs, y)"
    by (metis prod.exhaust)
  obtain as y' where asks: "level_rects ''ask'' (tr_x1 rect + 2) (tr_x2 rect - 2) (tr_y2 rect - 1) 0 (asks_row rect y) (ct_asks t) = (as, y')"
    by (metis prod.exhaust)
  have "set (ui_orderbook_rects (render_sidebar rect u)) = set bs \<union> set as"
    using bids asks by (simp add: render_sidebar_def t rows Let_def start)
  then consider "r \<in> set bs" | "r \<in> set as" using r by auto
  then have "shown (sidebar_levels rect title t) (or_x1 r + int k, or_y1 r) = Some (Ch (show_fixed2 (or_price r) ! k)) \<and> or_y1 r < tr_y2 rect - 1"
  proof cases
    case 1
    then have "r \<in> set (fst (level_rects ''bid'' (tr_x1 rect + 2) (tr_x2 rect - 2) (tr_y2 rect - 3) 0 (bids_row rect title) (ct_bids t)))"
      by (simp add: bids)
    note level = level_rects_rows [OF this] level_shown [OF this fits k]
    have "below y (level_cells (tr_x1 rect + 2) (tr_y2 rect - 1) 0 (asks_row rect y) (ct_asks t))"
      by (rule below_level_cells) (simp add: asks_row_def)
    moreover have "below y (drawText (tr_x1 rect + 2) (y + 1) ''asks'')" by (rule below_drawText) simp
    ultimately show ?thesis using level by (simp add: sidebar_levels_def Let_def below_hides_nothing bids)
  next
    case 2
    then have "r \<in> set (fst (level_rects ''ask'' (tr_x1 rect + 2) (tr_x2 rect - 2) (tr_y2 rect - 1) 0 (asks_row rect y) (ct_asks t)))"
      by (simp add: asks)
    then show ?thesis using level_rects_rows level_shown [OF _ fits k] by (fastforce simp: sidebar_levels_def Let_def bids)
  qed
  then show ?thesis by (simp add: sidebar_cells_def t rows)
qed

section \<open>The whole screen\<close>

lemma below_chat_lines: "z \<le> y \<Longrightarrow> below z (chat_lines_cells i x0 x2 inputY y es)"
  by (induction es arbitrary: y)
    (simp_all add: chat_line_def below_drawText case_prod_beta Let_def)

lemma below_chat_panel: "tr_y1 rect < tr_y2 rect \<Longrightarrow> below (tr_y1 rect) (chat_panel_cells rect u)"
  by (simp add: chat_panel_cells_def Let_def below_box below_drawText below_chat_lines)

lemma below_status: "y \<le> h - 1 \<Longrightarrow> below y (status_cells w h st)"
  by (simp add: status_cells_def below_drawText below_fillRect)

lemma renderChatPanel_rects [simp]:
  "ui_orderbook_rects (renderChatPanel r u) = ui_orderbook_rects u" "ui_chat_rect (renderChatPanel r u) = r"
  by (simp_all add: renderChatPanel_def Let_def)

lemma render_chart_panel_levels [simp]: "ui_orderbook_rects (render_chart_panel r u) = ui_orderbook_rects u"
  by (simp add: render_chart_panel_def Let_def)

lemma render_tiles_levels [simp]: "ui_orderbook_rects (render_tiles w h y u) = ui_orderbook_rects u"
  by (simp add: render_tiles_def)

lemma render_cells_total: "\<exists>cells. render_cells w h now playerLabel endpointLabel status u = Some cells"
proof -
  define f where "f r v = the (chart_panel_cells r v)" for r v
  have "chart_panel_cells r v \<noteq> None" for r v
  proof (cases "ui_ticks v (current v)")
    case (Some t)
    show ?thesis
    proof (cases "ct_history t = []")
      case False
      then obtain xs s e where "chartViewport (ct_history t) (tr_x2 r - 2 - (tr_x1 r + 2)) (ui_zoom v) (ui_offset v) (preset_duration v) = Some (xs, s, e)"
        using chartViewport_in_bounds [OF False] by blast
      then show ?thesis by (simp add: chart_panel_cells_def Some Let_def)
    qed (simp add: chart_panel_cells_def Some Let_def)
  qed (simp add: chart_panel_cells_def Let_def)
  then have "chart_panel_cells r v = Some (f r v)" for r v by (simp add: f_def)
  then show ?thesis by (simp add: render_cells_def Let_def case_prod_beta)
qed

text \<open>C29: What can be clicked is what is seen. A frame is always drawn, and when the chat panel has room for its box,
  a level of the order book that a click would take up stands on the screen with its price, the characters of the
  price being the last written to the cells from the left end of the clickable row on, for a price of at most
  twelve characters.\<close>
theorem clickable_levels_shown:
  assumes r: "r \<in> set (ui_orderbook_rects (render w h now u))"
    and box: "tr_y1 (ui_chat_rect (render w h now u)) < tr_y2 (ui_chat_rect (render w h now u))"
    and fits: "length (show_fixed2 (or_price r)) \<le> 12"
  shows "\<exists>cells. render_cells w h now playerLabel endpointLabel status u = Some cells \<and>
    (\<forall>k < length (show_fixed2 (or_price r)). shown cells (or_x1 r + int k, or_y1 r) = Some (Ch (show_fixed2 (or_price r) ! k)))"
proof -
  obtain cells where cells: "render_cells w h now playerLabel endpointLabel status u = Some cells" using render_cells_total by blast
  define uc where "uc = u\<lparr>ui_ticker_rects := [], ui_orderbook_rects := [], ui_insider_rect := no_rect\<rparr>"
  obtain offset u0 where b: "bannerOffset now uc = (offset, u0)" by (metis prod.exhaust)
  have clear: "ui_orderbook_rects u0 = []" using b by (auto simp: bannerOffset_def bannerActive_def uc_def split: option.splits if_splits)
  define u1 where "u1 = render_tiles w h (4 + offset) u0"
  define mainY where "mainY = (if ui_ticker_rects u1 = [] then 4 + offset else tr_y2 (last (ui_ticker_rects u1))) + 2"
  define chat where "chat = chat_area w h mainY"
  define sidebar where "sidebar = sidebar_area w mainY (chart_area w mainY chat)"
  define u2 where "u2 = render_chart_panel (chart_area w mainY chat) u1"
  have u2: "ui_orderbook_rects u2 = []" by (simp add: u2_def u1_def clear)
  have screen: "render w h now u = renderChatPanel chat (if tr_x2 sidebar - tr_x1 sidebar \<ge> 22 then render_sidebar sidebar u2 else u2)"
    unfolding render_def uc_def [symmetric] b by (simp add: Let_def u1_def u2_def mainY_def chat_def sidebar_def)
  have wide: "tr_x2 sidebar - tr_x1 sidebar \<ge> 22" and r: "r \<in> set (ui_orderbook_rects (render_sidebar sidebar u2))"
    using r u2 by (auto simp: screen split: if_splits)
  have last_rows: "tr_y2 sidebar < tr_y1 chat" "tr_y1 chat \<le> h - 1"
    using box by (simp_all add: screen sidebar_def sidebar_area_def chart_area_def chat_def chat_area_def Let_def min_less_iff_disj)
  have below: "below (tr_y1 chat) (chat_panel_cells chat u2 @ status_cells w h status)"
    using box last_rows by (simp add: below_chat_panel below_status screen)
  obtain pre panel where order: "cells = pre @ panel @ sidebar_cells sidebar u2 @ chat_panel_cells chat u2 @ status_cells w h status"
    using cells wide unfolding render_cells_def uc_def [symmetric] b prod.case Let_def u1_def [symmetric] mainY_def [symmetric]
      chat_def [symmetric] sidebar_def [symmetric] u2_def [symmetric] by (fastforce split: option.splits)
  have "shown cells (or_x1 r + int k, or_y1 r) = Some (Ch (show_fixed2 (or_price r) ! k))" if "k < length (show_fixed2 (or_price r))" for k
  proof -
    have level: "shown (sidebar_cells sidebar u2) (or_x1 r + int k, or_y1 r) = Some (Ch (show_fixed2 (or_price r) ! k))"
      "or_y1 r < tr_y2 sidebar - 1"
      using sidebar_level_shown [OF r u2 _ that] fits by simp_all
    have "or_y1 r < tr_y1 chat" using level(2) last_rows(1) by simp
    from below_hides_nothing [OF below this] show ?thesis using level(1) by (simp add: order)
  qed
  then show ?thesis using cells by blast
qed

definition demo_tick :: chart_tick where
  "demo_tick = \<lparr>ct_ticker = ''BYTE'', ct_timestamp = 0, ct_current_price = 123, ct_volume_1m = 0, ct_change_1m_pct = 0, ct_change_5m_pct = 0,
     ct_change_15m_pct = 0, ct_volatility_5m = 0, ct_vwap_5m = 0, ct_bids = [\<lparr>cl_price = 122, cl_qty = 5\<rparr>], ct_asks = [\<lparr>cl_price = 124, cl_qty = 3\<rparr>],
     ct_history = [\<lparr>hp_ts = 0, hp_price = 123, hp_volume = 1\<rparr>]\<rparr>"

definition demo_screen_ui :: ui where
  "demo_screen_ui = demo_ui\<lparr>ui_ticks := [''BYTE'' \<mapsto> demo_tick]\<rparr>"

lemma digit_texts: "char_of (48 :: nat) = CHR ''0''" "char_of (49 :: nat) = CHR ''1''" "char_of (50 :: nat) = CHR ''2''"
  by code_simp+

lemma demo_price_text: "show_fixed2 122 = ''122.00''"
  by (simp add: show_fixed2_def show_cents_def show_nat.simps round_even_def digit_texts)

definition demo_cleared_ui :: ui where
  "demo_cleared_ui = demo_screen_ui\<lparr>ui_ticker_rects := [], ui_orderbook_rects := [], ui_insider_rect := no_rect\<rparr>"

lemma demo_banner: "bannerOffset 0 demo_cleared_ui = (0, demo_cleared_ui)"
  by (simp add: bannerOffset_def bannerActive_def demo_cleared_ui_def demo_screen_ui_def demo_ui_def initial_ui_def Let_def)

lemma demo_tiles: "map tr_y2 (ui_ticker_rects (render_tiles 100 60 4 demo_cleared_ui)) = [8, 8, 8]"
  by code_simp

lemma demo_chat: "chat_area 100 60 10 = \<lparr>tr_symbol = [], tr_x1 = 1, tr_y1 = 47, tr_x2 = 98, tr_y2 = 58\<rparr>"
  by code_simp

lemma demo_chart: "chart_area 100 10 \<lparr>tr_symbol = [], tr_x1 = 1, tr_y1 = 47, tr_x2 = 98, tr_y2 = 58\<rparr> =
    \<lparr>tr_symbol = [], tr_x1 = 1, tr_y1 = 10, tr_x2 = 68, tr_y2 = 45\<rparr>"
  by code_simp

lemma demo_current: "current demo_cleared_ui = ''BYTE''" "ui_ticks demo_cleared_ui ''BYTE'' = Some demo_tick"
  by (simp_all add: current_def demo_cleared_ui_def demo_screen_ui_def demo_ui_def initial_ui_def currentSymbol_def indexOfSymbol_def Let_def)

lemma demo_render:
  "render 100 60 0 demo_screen_ui = renderChatPanel (chat_area 100 60 10)
     (render_sidebar \<lparr>tr_symbol = [], tr_x1 = 69, tr_y1 = 10, tr_x2 = 98, tr_y2 = 45\<rparr>
        (render_chart_panel \<lparr>tr_symbol = [], tr_x1 = 1, tr_y1 = 10, tr_x2 = 68, tr_y2 = 45\<rparr> (render_tiles 100 60 4 demo_cleared_ui)))"
proof -
  have "ui_ticker_rects (render_tiles 100 60 4 demo_cleared_ui) \<noteq> []" using demo_tiles by auto
  moreover from this have "tr_y2 (last (ui_ticker_rects (render_tiles 100 60 4 demo_cleared_ui))) = 8"
    using demo_tiles by (metis last.simps last_map list.discI)
  ultimately show ?thesis
    unfolding render_def demo_cleared_ui_def [symmetric] demo_banner by (simp add: Let_def demo_chat demo_chart sidebar_area_def)
qed

lemma demo_sidebar:
  "map (\<lambda>r. (or_price r, or_x1 r, or_y1 r)) (ui_orderbook_rects (render_sidebar \<lparr>tr_symbol = [], tr_x1 = 69, tr_y1 = 10, tr_x2 = 98, tr_y2 = 45\<rparr>
     (render_chart_panel \<lparr>tr_symbol = [], tr_x1 = 1, tr_y1 = 10, tr_x2 = 68, tr_y2 = 45\<rparr> (render_tiles 100 60 4 demo_cleared_ui)))) =
   [(122, 71, 33), (124, 71, 36)]"
  by code_simp

theorem clickable_levels_shown_witness:
  "\<exists>cells. render_cells 100 60 0 ''ann'' ''host'' ''ready'' demo_screen_ui = Some cells \<and> shown cells (73, 33) = Some (Ch CHR ''2'')"
proof -
  have "(122, 71, 33) \<in> set (map (\<lambda>r. (or_price r, or_x1 r, or_y1 r)) (ui_orderbook_rects (render 100 60 0 demo_screen_ui)))"
    by (simp only: demo_render renderChatPanel_rects demo_sidebar) simp
  then obtain r where r: "r \<in> set (ui_orderbook_rects (render 100 60 0 demo_screen_ui))" "or_price r = 122" "or_x1 r = 71" "or_y1 r = 33"
    by auto
  moreover have "tr_y1 (ui_chat_rect (render 100 60 0 demo_screen_ui)) < tr_y2 (ui_chat_rect (render 100 60 0 demo_screen_ui))"
    by (simp add: demo_render demo_chat)
  ultimately obtain cells where cells: "render_cells 100 60 0 ''ann'' ''host'' ''ready'' demo_screen_ui = Some cells"
    "\<forall>k < length ''122.00''. shown cells (71 + int k, 33) = Some (Ch (''122.00'' ! k))"
    using clickable_levels_shown [of r 100 60 0 demo_screen_ui "''ann''" "''host''" "''ready''"] by (auto simp: demo_price_text)
  then show ?thesis using cells(2) [rule_format, of 2] by simp
qed

section \<open>The line of the chart\<close>

definition inside :: "int \<Rightarrow> int \<Rightarrow> int \<Rightarrow> int \<Rightarrow> int \<times> int \<Rightarrow> bool" where
  "inside x1 y1 x2 y2 p \<longleftrightarrow> x1 \<le> fst p \<and> fst p \<le> x2 \<and> y1 \<le> snd p \<and> snd p \<le> y2"

definition screen_range :: "int \<Rightarrow> bool" where
  "screen_range x \<longleftrightarrow> \<bar>x\<bar> < 2 ^ 20"

lemma div_at_most: "0 \<le> i \<Longrightarrow> i \<le> n \<Longrightarrow> 0 < n \<Longrightarrow> 0 \<le> (d :: int) \<Longrightarrow> 0 \<le> d * i div n \<and> d * i div n \<le> d"
  using zdiv_mono1 [of "d * i" "d * n" n] mult_left_mono [of i n d] by (simp add: pos_imp_zdiv_nonneg_iff)

text \<open>A step along one axis stays between the ends.\<close>

lemma step_between:
  assumes "0 \<le> i" "i \<le> n" "0 < n" "n < 2 ^ 30" "\<bar>b - a\<bar> < 2 ^ 30" "lo \<le> a" "lo \<le> b" "a \<le> hi" "b \<le> hi"
  shows "lo \<le> a + quot64 ((b - a) * i) n \<and> a + quot64 ((b - a) * i) n \<le> hi"
proof -
  let ?q = "\<bar>b - a\<bar> * i div n"
  have q: "0 \<le> ?q" "?q \<le> \<bar>b - a\<bar>" using div_at_most [of i n "\<bar>b - a\<bar>"] assms(1-3) by simp_all
  have "quot64 ((b - a) * i) n = (if b < a then - ?q else ?q)"
  proof (cases "i = 0 \<or> b = a")
    case False
    then have "sgn ((b - a) * i) = (if b < a then - 1 else 1)" "\<bar>(b - a) * i\<bar> = \<bar>b - a\<bar> * i" using assms(1) by (auto simp: sgn_mult abs_mult)
    moreover have "i64 ?q = ?q" "i64 (- ?q) = - ?q" using q assms(5) by (simp_all add: in64_def)
    ultimately show ?thesis using assms(3) by (cases "b < a") (simp_all add: quot64_def)
  qed (auto simp: quot64_def i64_def)
  then show ?thesis using q assms(6-9) by auto
qed

lemma drawSegment_inside:
  assumes "inside x1 y1 x2 y2 a" "inside x1 y1 x2 y2 b" "\<forall>z \<in> {x1, y1, x2, y2}. screen_range z" "c \<in> set (drawSegment a b)"
  shows "inside x1 y1 x2 y2 (fst c)"
proof (cases "max \<bar>fst b - fst a\<bar> \<bar>snd b - snd a\<bar> = 0")
  case True
  then have "fst b = fst a" "snd b = snd a" by (auto simp: max_def split: if_splits)
  then show ?thesis using assms(1,4) by (simp add: drawSegment_def)
next
  case False
  define n where "n = max \<bar>fst b - fst a\<bar> \<bar>snd b - snd a\<bar>"
  have n: "0 < n" "n < 2 ^ 30" "\<bar>fst b - fst a\<bar> < 2 ^ 30" "\<bar>snd b - snd a\<bar> < 2 ^ 30"
    using False assms(1-3) by (auto simp: n_def inside_def screen_range_def)
  obtain i where i: "0 \<le> i" "i \<le> n" "fst c = (fst a + quot64 ((fst b - fst a) * i) n, snd a + quot64 ((snd b - snd a) * i) n)"
    using assms(4) False by (auto simp: drawSegment_def Let_def n_def [symmetric])
  show ?thesis
    using step_between [OF i(1,2) n(1,2,3), of x1 x2] step_between [OF i(1,2) n(1,2,4), of y1 y2] assms(1,2)
    by (simp add: inside_def i(3))
qed

lemma segments_inside:
  "\<forall>p \<in> set ps. inside x1 y1 x2 y2 p \<Longrightarrow> \<forall>z \<in> {x1, y1, x2, y2}. screen_range z \<Longrightarrow> c \<in> set (segments ps) \<Longrightarrow> inside x1 y1 x2 y2 (fst c)"
  by (induction ps rule: segments.induct) (auto dest: drawSegment_inside [rotated 3, where ?x1.0 = x1 and ?y1.0 = y1 and ?x2.0 = x2 and ?y2.0 = y2])

lemma mapValueToRow_inside:
  assumes "y1 < y2" "screen_range y1" "screen_range y2"
  shows "y1 \<le> mapValueToRow v lo hi y1 y2 \<and> mapValueToRow v lo hi y1 y2 \<le> y2"
proof -
  have "in64 (sgn (y1 + y2) * (\<bar>y1 + y2\<bar> div 2))" using assms by (auto simp: in64_def screen_range_def sgn_if)
  then have "quot64 (y1 + y2) 2 = sgn (y1 + y2) * (\<bar>y1 + y2\<bar> div 2)" by (simp add: quot64_def)
  moreover have "y1 \<le> sgn (y1 + y2) * (\<bar>y1 + y2\<bar> div 2) \<and> sgn (y1 + y2) * (\<bar>y1 + y2\<bar> div 2) \<le> y2"
    using assms(1) by (simp add: sgn_if) presburger
  ultimately have "y1 \<le> quot64 (y1 + y2) 2 \<and> quot64 (y1 + y2) 2 \<le> y2" by simp
  then show ?thesis using assms(1) by (simp add: mapValueToRow_def Let_def)
qed

lemma plot_point_inside:
  assumes "x1 < x2" "y1 < y2" "\<forall>z \<in> {x1, y1, x2, y2}. screen_range z" "idx < n" "n < 2 ^ 20"
  shows "inside (x1 + 1) y1 x2 y2 (plot_point x1 y1 x2 y2 lo hi n idx p)"
proof -
  define d where "d = max 1 (x2 - (x1 + 1))"
  have d: "1 \<le> d" "d < 2 ^ 21" using assms(3) by (auto simp: d_def screen_range_def)
  define v where "v = fdiv (fmul (of_i64 (int idx)) (of_i64 d)) (of_i64 (int n - 1))"
  have "0 \<le> to_i64 (go_round v)" if "1 < n"
  proof -
    have prod: "0 \<le> int idx * d" "int idx * d < 2 ^ 20 * 2 ^ 21"
      using d assms(4,5) mult_strict_mono [of "int idx" "2 ^ 20" d "2 ^ 21"] by simp_all
    then have exact: "rnd (of_int (int idx * d)) = of_int (int idx * d)" by (intro rnd_of_int) simp
    have le: "int idx * d \<le> d * (int n - 1)" using d(1) assms(4) by (simp add: mult.commute mult_left_mono)
    have "v = rnd (of_int (int idx * d) / of_int (int n - 1))"
      using exact d assms(4,5) that by (simp add: v_def fdiv_def fmul_def)
    moreover have pos: "0 < (of_int (int n - 1) :: rat)" using that by simp
    moreover have "of_int 0 \<le> (of_int (int idx * d) / of_int (int n - 1) :: rat)" using d(1) that by simp
    moreover have "of_int (int idx * d) / of_int (int n - 1) \<le> (of_int d :: rat)"
      by (subst pos_divide_le_eq [OF pos]) (use le in \<open>simp only: of_int_mult [symmetric] of_int_le_iff\<close>)
    ultimately have "of_int 0 \<le> v \<and> v \<le> of_int d" using d by (simp only:) (intro rnd_between; simp)
    then have "half_away (of_int 0) \<le> half_away v" "half_away v \<le> half_away (of_int d)" by (simp_all only: half_away_mono)
    then have "0 \<le> half_away v" "half_away v \<le> d" by (simp_all only: half_away_of_int)
    then show ?thesis using d by (simp add: in64_def)
  qed
  then show ?thesis using assms(1) mapValueToRow_inside [OF assms(2)] assms(3) by (auto simp: plot_point_def inside_def Let_def d_def v_def)
qed

text \<open>C38: The line of the chart stays in its plot: with any history of less than a million points, whatever the prices,
  no segment and no point is written left of the plot's second column, right of its last one, above it or below it.\<close>
theorem chart_line_inside:
  assumes "x1 < x2" "y1 < y2" "\<forall>z \<in> {x1, y1, x2, y2}. screen_range z" "length history < 2 ^ 20"
    and "c \<in> set (plot_line x1 y1 x2 y2 history)"
  shows "inside (x1 + 1) y1 x2 y2 (fst c)"
proof -
  have points: "\<forall>p \<in> set (plot_points x1 y1 x2 y2 history). inside (x1 + 1) y1 x2 y2 p"
    using assms(1-4) by (auto simp: plot_points_def case_prod_beta in_set_enumerate_eq intro!: plot_point_inside)
  moreover have "\<forall>z \<in> {x1 + 1, y1, x2, y2}. screen_range z" using assms(1,3) by (auto simp: screen_range_def)
  ultimately have "\<forall>c \<in> set (segments (plot_points x1 y1 x2 y2 history)). inside (x1 + 1) y1 x2 y2 (fst c)"
    by (metis segments_inside)
  then show ?thesis using assms(5) points by (auto simp: plot_line_def Let_def)
qed

theorem chart_line_inside_witness:
  "list_all (\<lambda>c. inside 3 3 40 12 (fst c)) (plot_line 2 3 40 12 [\<lparr>hp_ts = 0, hp_price = 5, hp_volume = 1\<rparr>, \<lparr>hp_ts = 1, hp_price = 7, hp_volume = 1\<rparr>])"
  unfolding list_all_iff by (intro ballI chart_line_inside [where ?x1.0 = 2, simplified]) (simp_all add: screen_range_def)

end
