(* ===== verification/Server.thy ===== *)
theory Server
  imports Extensions Streams
begin

text \<open>
  The start of the game server (\<^verbatim>\<open>cmd/grpc-game/main.go\<close>): it reads the configuration, the tickers, the
  roles, the random events and the intel feeds, loads the four stores, and puts the engines together. The files are
  a parameter, a file being its decoded content; so are the fault of the one write the start may make, the clock and
  the seeds. Serving the three services over gRPC is a parameter of the streams (theory \<open>Streams\<close>).
\<close>

section \<open>Files that must exist\<close>

definition read_required :: "'a stored \<Rightarrow> store_error + 'a" where
  "read_required f =
     (case f of Content a \<Rightarrow> Inr a | NoFile \<Rightarrow> Inl ReadError | UnreadableFile \<Rightarrow> Inl ReadError
      | EmptyFile \<Rightarrow> Inl DecodeError | UndecodableFile \<Rightarrow> Inl DecodeError)"

text \<open>The tickers are an object with a list in it or a list; the second reading refuses an object.\<close>

datatype tickers_json = TickerCatalog "ticker list" | TickerList "ticker list"

definition LoadTickers :: "tickers_json stored \<Rightarrow> store_error + ticker list" where
  "LoadTickers f =
     (case read_required f of
        Inl e \<Rightarrow> Inl e
      | Inr (TickerCatalog ts) \<Rightarrow> (if ts \<noteq> [] then Inr ts else Inl DecodeError)
      | Inr (TickerList ts) \<Rightarrow> Inr ts)"

definition LoadRoleConfig :: "role_config stored \<Rightarrow> store_error + role_config" where
  "LoadRoleConfig f = read_required f"

definition LoadEvents :: "event_definition list stored \<Rightarrow> store_error + event_definition list" where
  "LoadEvents f = read_required f"

definition LoadFeeds :: "intel_definition list stored \<Rightarrow> store_error + intel_definition list" where
  "LoadFeeds f = read_required f"

definition NewAllocator :: "role_config \<Rightarrow> rng \<Rightarrow> allocator" where
  "NewAllocator c r = \<lparr>al_config = c, al_rng = r\<rparr>"

section \<open>The start\<close>

record server_files =
  sf_config :: "(runtime_config \<Rightarrow> runtime_config) stored"
  sf_tickers :: "tickers_json stored"
  sf_roles :: "role_config stored"
  sf_events :: "string \<Rightarrow> event_definition list stored"
  sf_feeds :: "string \<Rightarrow> intel_definition list stored"
  sf_players :: "string \<Rightarrow> players disk"
  sf_trades :: "string \<Rightarrow> trade_record list disk"
  sf_performance :: "string \<Rightarrow> equity_snapshot list disk"
  sf_chat :: "string \<Rightarrow> chat_message list disk"

datatype start_error =
    ConfigFailed store_error | TickersFailed store_error | RolesFailed store_error | EventsFailed store_error
  | FeedsFailed store_error | PlayersFailed store_error | TradesFailed store_error | PerformanceFailed store_error
  | ChatLoadFailed store_error | IntelRefused intel_error | EventsRefused events_error

definition orElse :: "('e + 'a) \<Rightarrow> ('e \<Rightarrow> 'f) \<Rightarrow> ('a \<Rightarrow> 'f + 'b) \<Rightarrow> 'f + 'b" where
  "orElse r failed k = (case r of Inl e \<Rightarrow> Inl (failed e) | Inr a \<Rightarrow> k a)"

text \<open>The engines from what was loaded.\<close>

record loaded =
  ld_config :: runtime_config
  ld_tickers :: "ticker list"
  ld_roles :: role_config
  ld_events :: "event_definition list"
  ld_feeds :: "intel_definition list"
  ld_players :: player_store
  ld_trades :: trade_store
  ld_performance :: performance_store
  ld_chat :: chat_store

definition load_all :: "server_files \<Rightarrow> io_fault option \<Rightarrow> start_error + loaded" where
  "load_all f io =
     orElse (LoadRuntimeConfig (sf_config f)) ConfigFailed (\<lambda>c.
     orElse (LoadTickers (sf_tickers f)) TickersFailed (\<lambda>tickers.
     orElse (LoadRoleConfig (sf_roles f)) RolesFailed (\<lambda>roles.
     orElse (LoadEvents (sf_events f (rc_random_path c))) EventsFailed (\<lambda>events.
     orElse (LoadFeeds (sf_feeds f (rc_intel_path c))) FeedsFailed (\<lambda>feeds.
     orElse (LoadPlayerStore (sf_players f (rc_player_path c))) PlayersFailed (\<lambda>players.
     orElse (LoadTradeStore (sf_trades f (rc_trade_path c)) 100000) TradesFailed (\<lambda>trades.
     orElse (LoadPerformanceStore (sf_performance f (rc_performance_path c)) 200000) PerformanceFailed (\<lambda>performance.
     orElse (LoadChatStore io (sf_chat f (rc_chat_path c)) 20000) ChatLoadFailed (\<lambda>chat.
       Inr \<lparr>ld_config = c, ld_tickers = tickers, ld_roles = roles, ld_events = events, ld_feeds = feeds, ld_players = players,
            ld_trades = trades, ld_performance = performance, ld_chat = chat\<rparr>)))))))))"

definition seconds_of :: "int \<Rightarrow> duration" where
  "seconds_of n = mul64 n second"

definition assemble :: "loaded \<Rightarrow> time \<Rightarrow> rng \<Rightarrow> rng \<Rightarrow> rng \<Rightarrow> start_error + service \<times> events_engine" where
  "assemble l now roles_rng intel_rng events_rng =
     (let c = ld_config l; chat = NewChatService 128 (Some (ld_chat l)); market = NewExchange (ld_tickers l) now;
          charts = NewChartEngine (seconds_of (rc_tick_interval c)) (rc_history_points c) (rc_orderbook_depth c) market;
          g = NewGame (ld_players l) (Some (ld_trades l)) (Some (ld_performance l)) (NewAllocator (ld_roles l) roles_rng) market chat
      in orElse (NewIntelEngine (seconds_of (rc_intel_interval c)) (ld_feeds l) intel_rng) IntelRefused (\<lambda>intel.
         orElse (NewEventsEngine (seconds_of (rc_random_interval c)) (ld_events l) events_rng) EventsRefused (\<lambda>events.
           Inr (\<lparr>sv_game = SetIntelEngine intel g, sv_charts = Some charts, sv_sequence = 0\<rparr>, events))))"

definition start_server ::
  "server_files \<Rightarrow> io_fault option \<Rightarrow> time \<Rightarrow> rng \<Rightarrow> rng \<Rightarrow> rng \<Rightarrow> start_error + service \<times> events_engine" where
  "start_server f io now roles_rng intel_rng events_rng =
     (case load_all f io of Inl e \<Rightarrow> Inl e | Inr l \<Rightarrow> assemble l now roles_rng intel_rng events_rng)"

end
