(* ===== verification/ServerProps.thy ===== *)
theory ServerProps
  imports Server GameProps StreamProps
begin

text \<open>
  What a restart of the game server keeps: the players with their cash, their stocks and what of them is reserved,
  but not the orders the reservations were made for.
\<close>

section \<open>Loading what was saved\<close>

lemma update_fresh: "k \<notin> fst ` set m \<Longrightarrow> AList.update k v m = m @ [(k, v)]"
  by (induction m) auto

lemma update_all_distinct:
  "distinct (map fst (m @ ps)) \<Longrightarrow> foldl (\<lambda>m (u, p). AList.update u p m) m ps = m @ ps"
proof (induction ps arbitrary: m)
  case (Cons a ps)
  obtain u p where a: "a = (u, p)" by fastforce
  have "AList.update u p m = m @ [(u, p)]" using Cons.prems by (intro update_fresh) (auto simp: a)
  then show ?case using Cons.IH [of "m @ [(u, p)]"] Cons.prems by (simp add: a)
qed simp

lemma saved_players_reload:
  assumes "upsert None p g0 = (None, g)" "distinct (map fst (st_players (g_players g0)))"
  shows "LoadPlayerStore (st_disk (g_players g)) = Inr (g_players g)"
proof -
  let ?ps = "AList.update (p_username p) (clonePlayer p) (st_players (g_players g0))"
  have "distinct (map fst ?ps)" using assms(2) by (rule distinct_update)
  then have "foldl (\<lambda>m (u, p). AList.update u p m) [] ?ps = ?ps" using update_all_distinct [of "[]" ?ps] by simp
  then show ?thesis
    using assms(1) by (auto simp: upsert_def PlayerStore_Upsert_def player_persist_def persist_def LoadPlayerStore_def)
qed

section \<open>Putting the server together\<close>

lemma orElse_Inr: "orElse r failed k = Inr b \<longleftrightarrow> (\<exists>a. r = Inr a \<and> k a = Inr b)"
  by (simp add: orElse_def split: sum.split)

lemma load_all_players:
  "load_all f io = Inr l \<Longrightarrow> \<exists>c. LoadRuntimeConfig (sf_config f) = Inr c \<and> LoadPlayerStore (sf_players f (rc_player_path c)) = Inr (ld_players l)"
  by (auto simp: load_all_def orElse_Inr)

lemma assemble_game:
  "assemble l now r1 r2 r3 = Inr (s, ev) \<Longrightarrow>
     g_players (sv_game s) = ld_players l \<and> g_open (sv_game s) = Map.empty \<and> g_market (sv_game s) = NewExchange (ld_tickers l) now"
  by (auto simp: assemble_def Let_def orElse_Inr SetIntelEngine_def NewGame_def)

lemma new_books_empty:
  "ex_books (NewExchange ts t0) symbol = Some b \<Longrightarrow> bid_prices b = [] \<and> ask_prices b = []"
proof -
  have "foldl (\<lambda>m t. m(tk_symbol t \<mapsto> new_book (tk_symbol t) (initial_price t))) m0 ts symbol = Some b \<Longrightarrow>
      m0 symbol = Some b \<or> (\<exists>s p. b = new_book s p)" for m0
    by (induction ts arbitrary: m0) (auto split: if_splits, metis (no_types) fun_upd_apply option.inject)
  then show "ex_books (NewExchange ts t0) symbol = Some b \<Longrightarrow> ?thesis" by (fastforce simp: NewExchange_def new_book_def)
qed

lemma no_order_no_cancel: "g_open g = Map.empty \<Longrightarrow> \<exists>e. handleCancelOrder c rq g = (Inl e, g)"
  by (simp add: handleCancelOrder_def split: sum.split option.split prod.split)

text \<open>C16: A restart strands reservations. A server started on the files another one has left, whose last write of the
  players succeeded, knows the same players with the same cash and stocks, of which the same part is reserved; but
  no order is open, every book is empty, and every cancellation, the only call that gives a reservation back without
  a trade, fails: what was reserved for the orders that were open stays reserved.\<close>
theorem restart_strands_reservations:
  assumes "upsert None p g0 = (None, g)" and "distinct (map fst (st_players (g_players g0)))"
    and "LoadRuntimeConfig (sf_config f) = Inr cfg" and "sf_players f (rc_player_path cfg) = st_disk (g_players g)"
    and "start_server f io now r1 r2 r3 = Inr (s, ev)"
  shows "(\<forall>pid. requirePlayer pid (sv_game s) = requirePlayer pid g) \<and>
    (\<forall>username. PlayerStore_Get username (g_players (sv_game s)) = PlayerStore_Get username (g_players g)) \<and>
    g_open (sv_game s) = Map.empty \<and>
    (\<forall>symbol b. ex_books (g_market (sv_game s)) symbol = Some b \<longrightarrow> bid_prices b = [] \<and> ask_prices b = []) \<and>
    (\<forall>c rq. \<exists>e. handleCancelOrder c rq (sv_game s) = (Inl e, sv_game s))"
proof -
  obtain l where l: "load_all f io = Inr l" "assemble l now r1 r2 r3 = Inr (s, ev)"
    using assms(5) by (auto simp: start_server_def split: sum.splits)
  have "LoadPlayerStore (st_disk (g_players g)) = Inr (ld_players l)" using load_all_players [OF l(1)] assms(3,4) by auto
  then have "ld_players l = g_players g" using saved_players_reload [OF assms(1,2)] by simp
  then show ?thesis
    using assemble_game [OF l(2)] new_books_empty no_order_no_cancel by (auto simp: requirePlayer_def)
qed

definition demo_files :: "players disk \<Rightarrow> server_files" where
  "demo_files d =
     \<lparr>sf_config = NoFile, sf_tickers = Content (TickerList [demo_ticker]), sf_roles = Content (al_config demo_allocator),
      sf_events = (\<lambda>_. Content []), sf_feeds = (\<lambda>_. Content []), sf_players = (\<lambda>_. d),
      sf_trades = (\<lambda>_. \<lparr>main_file = NoFile, tmp_file = NoFile\<rparr>), sf_performance = (\<lambda>_. \<lparr>main_file = NoFile, tmp_file = NoFile\<rparr>),
      sf_chat = (\<lambda>_. \<lparr>main_file = NoFile, tmp_file = NoFile\<rparr>)\<rparr>"

definition demo_reserved :: player where
  "demo_reserved = (demo_player ''ann'' 1000)\<lparr>p_reserved_cash := 300\<rparr>"

definition demo_saved :: game where
  "demo_saved = snd (upsert None demo_reserved (demo_game (NewExchange [demo_ticker] 3)))"

lemma demo_start: "\<exists>s ev. start_server (demo_files (st_disk (g_players demo_saved))) None 9 r1 r2 r3 = Inr (s, ev)"
  by (simp add: start_server_def load_all_def orElse_def demo_files_def LoadTickers_def LoadRoleConfig_def LoadEvents_def LoadFeeds_def
      read_required_def LoadRuntimeConfig_def LoadTradeStore_def LoadPerformanceStore_def LoadChatStore_def jsonfile_read_def
      LoadPlayerStore_def demo_saved_def upsert_def PlayerStore_Upsert_def player_persist_def persist_def assemble_def
      NewIntelEngine_def NewEventsEngine_def Let_def)

theorem restart_strands_reservations_witness:
  "\<exists>s ev q. start_server (demo_files (st_disk (g_players demo_saved))) None 9 (al_rng demo_allocator) (al_rng demo_allocator) (al_rng demo_allocator) = Inr (s, ev) \<and>
     requirePlayer ''id-ann'' (sv_game s) = Inr q \<and> p_cash q = 1000 \<and> p_reserved_cash q = 300 \<and> g_open (sv_game s) = Map.empty"
proof -
  let ?f = "demo_files (st_disk (g_players demo_saved))"
  obtain s ev where s: "start_server ?f None 9 (al_rng demo_allocator) (al_rng demo_allocator) (al_rng demo_allocator) = Inr (s, ev)" using demo_start by blast
  have "upsert None demo_reserved (demo_game (NewExchange [demo_ticker] 3)) = (None, demo_saved)"
    by (simp add: demo_saved_def upsert_def PlayerStore_Upsert_def player_persist_def persist_def)
  moreover have "distinct (map fst (st_players (g_players (demo_game (NewExchange [demo_ticker] 3)))))"
    by (simp add: demo_game_def NewGame_def)
  moreover have "LoadRuntimeConfig (sf_config ?f) = Inr DefaultRuntimeConfig" by (simp add: demo_files_def LoadRuntimeConfig_def)
  moreover have "sf_players ?f (rc_player_path DefaultRuntimeConfig) = st_disk (g_players demo_saved)" by (simp add: demo_files_def)
  ultimately have "requirePlayer ''id-ann'' (sv_game s) = requirePlayer ''id-ann'' demo_saved" "g_open (sv_game s) = Map.empty"
    using restart_strands_reservations [OF _ _ _ _ s] by blast+
  moreover have "requirePlayer ''id-ann'' demo_saved = Inr demo_reserved"
    by (simp add: demo_saved_def upsert_def PlayerStore_Upsert_def player_persist_def persist_def requirePlayer_def demo_game_def NewGame_def
        PlayerStore_GetByPlayerID_def demo_reserved_def demo_player_def clonePlayer_def)
  ultimately show ?thesis using s by (auto simp: demo_reserved_def demo_player_def)
qed

end
