(* ===== verification/Settlement.thy ===== *)
theory Settlement
  imports GameProps
begin

text \<open>
  The settlement of an accepted order as double-entry bookkeeping: the cash and the shares of all players, and what the
  house takes, as an abstract ledger; every trade of the order posts one balanced entry to it.
\<close>

section \<open>The ledger\<close>

record ledger =
  lg_cash :: "string \<Rightarrow> int"
  lg_shares :: "string \<Rightarrow> string \<Rightarrow> int"
  lg_house :: int

text \<open>A trade with what it charges the buyer and the seller.\<close>

definition post :: "ledger \<Rightarrow> trade \<times> int \<times> int \<Rightarrow> ledger" where
  "post L e =
     (case e of (t, buyer_charge, seller_charge) \<Rightarrow>
       (let cost = t_price t * t_quantity t; b = t_buyer_id t; s = t_seller_id t;
            cash = (lg_cash L)(b := lg_cash L b - cost - buyer_charge);
            shares = (lg_shares L)(b := (lg_shares L b)(t_symbol t := lg_shares L b (t_symbol t) + t_quantity t))
        in \<lparr>lg_cash = cash(s := cash s + cost - seller_charge),
            lg_shares = shares(s := (shares s)(t_symbol t := shares s (t_symbol t) - t_quantity t)),
            lg_house = lg_house L + buyer_charge + seller_charge\<rparr>))"

definition charge_ok :: "order_type \<Rightarrow> string \<Rightarrow> trade \<Rightarrow> int \<times> int \<Rightarrow> bool" where
  "charge_ok kind incoming_id t c =
     (let cost = t_price t * t_quantity t; fee = estimateExchangeFee cost;
          surcharge = (\<lambda>oid. if oid = incoming_id \<and> kind = OrderTypeMarket then estimateMarketSurcharge cost else 0)
      in fst c = fee + surcharge (t_buy_order_id t) \<and>
         (\<exists>tax. 0 \<le> tax \<and> tax \<le> estimateRapidFlipTax cost \<and> snd c = fee + surcharge (t_sell_order_id t) + tax))"

type_synonym positions = "string \<rightharpoonup> player"

definition cash_in :: "positions \<Rightarrow> string \<Rightarrow> int" where
  "cash_in v pid = (case v pid of None \<Rightarrow> 0 | Some p \<Rightarrow> p_cash p)"

definition shares_in :: "positions \<Rightarrow> string \<Rightarrow> string \<Rightarrow> int" where
  "shares_in v pid sy = (case v pid of None \<Rightarrow> 0 | Some p \<Rightarrow> stock p sy)"

definition ledger_of :: "int \<Rightarrow> positions \<Rightarrow> ledger" where
  "ledger_of house v = \<lparr>lg_cash = cash_in v, lg_shares = shares_in v, lg_house = house\<rparr>"

section \<open>Operations that only change reservations\<close>

definition same_key :: "player \<Rightarrow> player \<Rightarrow> bool" where
  "same_key p q \<longleftrightarrow> p_id q = p_id p \<and> p_username q = p_username p"

definition same_holdings :: "player \<Rightarrow> player \<Rightarrow> bool" where
  "same_holdings p q \<longleftrightarrow> same_key p q \<and> p_cash q = p_cash p \<and> (\<forall>sy. stock q sy = stock p sy)"

abbreviation same_keys :: "positions \<Rightarrow> positions \<Rightarrow> bool" where
  "same_keys v w \<equiv> \<forall>pid. rel_option same_key (v pid) (w pid)"

abbreviation holdings_kept :: "positions \<Rightarrow> positions \<Rightarrow> bool" where
  "holdings_kept v w \<equiv> \<forall>pid. rel_option same_holdings (v pid) (w pid)"

lemma same_refl [simp]: "same_key p p" "same_holdings p p"
  by (simp_all add: same_key_def same_holdings_def)

lemma same_trans: "same_key p q \<Longrightarrow> same_key q r \<Longrightarrow> same_key p r"
  "same_holdings p q \<Longrightarrow> same_holdings q r \<Longrightarrow> same_holdings p r"
  by (simp_all add: same_key_def same_holdings_def)

lemma same_keys_refl [simp]: "same_keys v v" and holdings_kept_refl [simp]: "holdings_kept v v"
  by (simp_all add: option.rel_refl)

lemma same_keys_trans: "same_keys u v \<Longrightarrow> same_keys v w \<Longrightarrow> same_keys u w"
proof (intro allI)
  fix pid assume "same_keys u v" "same_keys v w"
  then have "rel_option same_key (u pid) (v pid)" "rel_option same_key (v pid) (w pid)" by blast+
  then show "rel_option same_key (u pid) (w pid)" by (cases "u pid"; cases "v pid"; cases "w pid") (auto intro: same_trans)
qed

lemma holdings_kept_trans: "holdings_kept u v \<Longrightarrow> holdings_kept v w \<Longrightarrow> holdings_kept u w"
proof (intro allI)
  fix pid assume "holdings_kept u v" "holdings_kept v w"
  then have "rel_option same_holdings (u pid) (v pid)" "rel_option same_holdings (v pid) (w pid)" by blast+
  then show "rel_option same_holdings (u pid) (w pid)" by (cases "u pid"; cases "v pid"; cases "w pid") (auto intro: same_trans)
qed

lemma holdings_kept_keys: "holdings_kept v w \<Longrightarrow> same_keys v w"
proof (intro allI)
  fix pid assume "holdings_kept v w"
  then have "rel_option same_holdings (v pid) (w pid)" by blast
  then show "rel_option same_key (v pid) (w pid)" by (rule option.rel_mono_strong) (simp add: same_holdings_def)
qed

lemma holdings_kept_ledger: "holdings_kept v w \<Longrightarrow> ledger_of h w = ledger_of h v"
proof -
  assume k: "holdings_kept v w"
  have "cash_in w pid = cash_in v pid \<and> shares_in w pid = shares_in v pid" for pid
    using spec [OF k, of pid] by (cases "v pid"; cases "w pid") (auto simp: cash_in_def shares_in_def same_holdings_def)
  then show ?thesis by (simp add: ledger_of_def fun_eq_iff)
qed

lemma release_same [simp]: "same_holdings p (release_cash x p)" "same_holdings p (release_stock sy q p)"
  "same_holdings p (releaseIncomingReservation sy sd cash q p)"
  by (auto simp: same_holdings_def same_key_def releaseIncomingReservation_def release_cash_def release_stock_def set_reserved_stock_def
      stock_def split: side.split)

section \<open>Room for the trades of an order\<close>

definition turnover :: "trade list \<Rightarrow> int" where
  "turnover ts = (\<Sum>t\<leftarrow>ts. t_price t * t_quantity t)"

definition volume :: "trade list \<Rightarrow> int" where
  "volume ts = (\<Sum>t\<leftarrow>ts. t_quantity t)"

definition sold_by :: "string \<Rightarrow> string \<Rightarrow> trade list \<Rightarrow> int" where
  "sold_by pid sy ts = (\<Sum>t\<leftarrow>ts. if t_seller_id t = pid \<and> t_symbol t = sy then t_quantity t else 0)"

lemma trade_sums [simp]:
  "turnover [] = 0" "turnover (t # ts) = t_price t * t_quantity t + turnover ts"
  "volume [] = 0" "volume (t # ts) = t_quantity t + volume ts"
  "sold_by pid sy [] = 0"
  "sold_by pid sy (t # ts) = (if t_seller_id t = pid \<and> t_symbol t = sy then t_quantity t else 0) + sold_by pid sy ts"
  by (simp_all add: turnover_def volume_def sold_by_def)

definition trades_ok :: "trade list \<Rightarrow> bool" where
  "trades_ok ts \<longleftrightarrow> (\<forall>t \<in> set ts. 0 < t_price t \<and> 0 < t_quantity t) \<and> turnover ts < 2 ^ 48"

lemma trades_nonneg: "\<forall>t \<in> set ts. 0 < t_price t \<and> 0 < t_quantity t \<Longrightarrow> 0 \<le> turnover ts \<and> 0 \<le> volume ts \<and> 0 \<le> sold_by pid sy ts"
  by (induction ts) auto

lemma trades_ok_Cons:
  assumes "trades_ok (t # ts)"
  shows "0 < t_price t" "0 < t_quantity t" "t_price t * t_quantity t < 2 ^ 48" "trades_ok ts" "0 \<le> turnover ts" "0 \<le> volume ts"
    "0 \<le> sold_by pid sy ts"
proof -
  show t: "0 < t_price t" "0 < t_quantity t" using assms by (simp_all add: trades_ok_def)
  have ts: "\<forall>t \<in> set ts. 0 < t_price t \<and> 0 < t_quantity t" using assms by (simp add: trades_ok_def)
  show n: "0 \<le> turnover ts" "0 \<le> volume ts" "0 \<le> sold_by pid sy ts" using trades_nonneg [OF ts] by simp_all
  have "t_price t * t_quantity t + turnover ts < 2 ^ 48" using assms by (simp add: trades_ok_def)
  moreover have "0 < t_price t * t_quantity t" using t by simp
  ultimately show "t_price t * t_quantity t < 2 ^ 48" "trades_ok ts" using n ts unfolding trades_ok_def by linarith+
qed

definition lots_room :: "int \<Rightarrow> player \<Rightarrow> string \<Rightarrow> bool" where
  "lots_room n p sy \<longleftrightarrow> (\<forall>l \<in> set (lots_of p sy). 0 < lot_quantity l) \<and> sum_list (map lot_quantity (lots_of p sy)) + n < 2 ^ 63"

text \<open>Everybody holds what he is about to sell, and no sum leaves 64 bits.\<close>

definition room :: "trade list \<Rightarrow> positions \<Rightarrow> bool" where
  "room ts v \<longleftrightarrow> (\<forall>pid p. v pid = Some p \<longrightarrow> \<bar>p_cash p\<bar> + 8 * turnover ts < 2 ^ 62 \<and>
     (\<forall>sy. sold_by pid sy ts \<le> stock p sy \<and> 0 \<le> stock p sy \<and> stock p sy + volume ts < 2 ^ 62 \<and> lots_room (volume ts) p sy))"

section \<open>One trade\<close>

lemma lots_sum_units: "\<forall>l \<in> set ls. 0 < lot_quantity l \<Longrightarrow> sum_list (map lot_quantity ls) = int (length (units ls))"
  by (induction ls) (auto simp: units_def)

lemma lots_room_less: "lots_room (q + n) p sy \<Longrightarrow> 0 \<le> q \<Longrightarrow> lots_room n p sy"
  by (auto simp: lots_room_def)

lemma consumed_lots_room:
  assumes "lots_room n p sy" "\<forall>sy. lots_room n p sy" "0 \<le> n" "0 \<le> qty" "qty < 2 ^ 63"
    and "consumeLotsForSale symbol qty now p = (taxable, p')"
  shows "lots_room n p' sy"
proof -
  have ok: "lots_ok (lots_of p symbol)" using assms(2,3) by (fastforce simp: lots_ok_def lots_room_def)
  note c = consumeLots_fifo [OF ok assms(4-6)]
  show ?thesis
  proof (cases "sy = symbol")
    case True
    have "sum_list (map lot_quantity (lots_of p' symbol)) \<le> sum_list (map lot_quantity (lots_of p symbol))"
      using c ok lots_sum_units [of "lots_of p symbol"] lots_sum_units [of "lots_of p' symbol"] by (simp add: lots_ok_def)
    then show ?thesis using c assms(2) [rule_format, of symbol] True by (simp add: lots_room_def lots_ok_def)
  qed (use c assms(1) in \<open>simp add: lots_room_def\<close>)
qed

lemma key_updates [simp]:
  "same_key p (released_cash a oid inc x p)" "same_key p (released_stock a oid inc sy q p)" "same_key p (buyer_pays t d p)"
  "same_key p (seller_gets t x p)"
  by (simp_all add: same_key_def released_cash_def released_stock_def release_cash_def release_stock_def set_reserved_stock_def
      buyer_pays_def addAcquiredLot_def set_stock_def seller_gets_def)

lemma consumeLots_key: "consumeLotsForSale sy q now p = (x, p') \<Longrightarrow> same_key p p'"
  by (auto simp: consumeLotsForSale_def same_key_def split: if_splits prod.splits)

lemma lots_updates [simp]:
  "lots_of (released_cash a oid inc x p) sy = lots_of p sy" "lots_of (released_stock a oid inc s q p) sy = lots_of p sy"
  "lots_of (seller_gets t x p) sy = lots_of p sy"
  by (simp_all add: lots_of_def released_cash_def released_stock_def release_cash_def release_stock_def set_reserved_stock_def
      seller_gets_def set_stock_def)

lemma lots_buyer_pays: "0 < t_quantity t \<Longrightarrow> lots_of (buyer_pays t d p) sy =
    (if sy = t_symbol t then lots_of p sy @ [\<lparr>lot_quantity = t_quantity t, lot_price = t_price t, lot_acquired_at = t_executed_at t\<rparr>]
     else lots_of p sy)"
  by (simp add: lots_of_def buyer_pays_def addAcquiredLot_def set_stock_def)

lemma getTouchedPlayer_rest: "ac_store (snd (getTouchedPlayer pid a)) = ac_store a \<and> view_player (snd (getTouchedPlayer pid a)) = view_player a"
  by (auto simp: getTouchedPlayer_def view_player_def fun_eq_iff update_conv' split: option.splits)

lemma store_kept [simp]:
  "ac_store (on_player pid f a) = ac_store a" "ac_store (on_order oid g a) = ac_store a" "ac_store (touch_order oid a) = ac_store a"
  "ac_store (settle_buyer t inc d a) = ac_store a" "ac_store (settle_seller t inc x a) = ac_store a"
  by (simp_all add: on_player_def on_order_def touch_order_def settle_buyer_def settle_seller_def Let_def split: option.splits)

lemma incoming_order_kept [simp]:
  "oo_order (ac_incoming (settle_buyer t inc d a)) = oo_order (ac_incoming a)"
  "oo_order (ac_incoming (settle_seller t inc x a)) = oo_order (ac_incoming a)"
  by (simp_all add: settle_buyer_def settle_seller_def Let_def spend_order_cash_def spend_order_stock_def touch_order_def on_order_def
      split: option.splits)

definition touched_once :: "accounts \<Rightarrow> bool" where
  "touched_once a \<longleftrightarrow> distinct (map fst (ac_touched a))"

lemma touched_once_orders [simp]: "touched_once (a\<lparr>ac_orders := m\<rparr>) = touched_once a" "touched_once (a\<lparr>ac_incoming := oo\<rparr>) = touched_once a"
  "touched_once (on_order oid g a) = touched_once a" "touched_once (touch_order oid a) = touched_once a"
  by (simp_all add: touched_once_def on_order_def touch_order_def split: option.split)

lemma touched_once_updates:
  "touched_once a \<Longrightarrow> touched_once (snd (getTouchedPlayer pid a))" "touched_once a \<Longrightarrow> touched_once (on_player pid f a)"
  by (auto simp: touched_once_def getTouchedPlayer_def on_player_def distinct_update split: option.splits)

lemma touched_once_settled:
  "touched_once a \<Longrightarrow> touched_once (settle_buyer t inc d a)" "touched_once a \<Longrightarrow> touched_once (settle_seller t inc x a)"
  by (auto simp: settle_buyer_def settle_seller_def Let_def intro!: touched_once_updates)

text \<open>What a trade does to the players, as two updates, also when a player trades with themself.\<close>

lemma applyTrade_run:
  assumes b: "view_player a (t_buyer_id t) = Some pb" and s: "view_player a (t_seller_id t) = Some ps"
    and cost: "cost = mul64 (t_price t) (t_quantity t)"
    and d: "d = add64 (add64 cost (estimateExchangeFee cost)) (surcharge_for (t_buy_order_id t) inc (ac_incoming a) cost)"
    and x: "x = sub64 (sub64 (sub64 cost (estimateExchangeFee cost)) (surcharge_for (t_sell_order_id t) inc (ac_incoming a) cost)) (flip_tax t ps)"
  obtains a' ps1 flip r1 r2 where "applyTrade t inc a = (None, a')" "ac_store a' = ac_store a" "touched_once a \<Longrightarrow> touched_once a'"
    "oo_order (ac_incoming a') = oo_order (ac_incoming a)"
    "consumeLotsForSale (t_symbol t) (t_quantity t) (t_executed_at t) ps = (flip, ps1)"
    "r1 \<in> {released_cash c (t_buy_order_id t) inc d | c. True}" "r2 \<in> {released_stock c (t_sell_order_id t) inc (t_symbol t) (t_quantity t) | c. True}"
    "view_player a' = (let v1 = (view_player a)(t_seller_id t \<mapsto> ps1);
        v2 = v1(t_buyer_id t := map_option (r1 \<circ> buyer_pays t d) (v1 (t_buyer_id t)))
      in v2(t_seller_id t := map_option (r2 \<circ> seller_gets t x) (v2 (t_seller_id t))))"
proof -
  obtain a1 where a1: "getTouchedPlayer (t_buyer_id t) a = (Inr pb, a1)" "view_player a1 = view_player a"
      "is_touched a1 (t_buyer_id t)" "ac_incoming a1 = ac_incoming a"
    using getTouchedPlayer_view [OF b] by blast
  have s1: "view_player a1 (t_seller_id t) = Some ps" using s a1 by simp
  obtain a2 where a2: "getTouchedPlayer (t_seller_id t) a1 = (Inr ps, a2)" "view_player a2 = view_player a1"
      "is_touched a2 (t_seller_id t)" "is_touched a2 (t_buyer_id t)" "ac_incoming a2 = ac_incoming a1"
    using getTouchedPlayer_view [OF s1] a1(3) by blast
  have st: "ac_store a2 = ac_store a"
    using getTouchedPlayer_rest [of "t_buyer_id t" a] getTouchedPlayer_rest [of "t_seller_id t" a1] a1(1) a2(1) by simp
  obtain flip ps1 where c: "consumeLotsForSale (t_symbol t) (t_quantity t) (t_executed_at t) ps = (flip, ps1)" by fastforce
  have tax: "estimateRapidFlipTax (mul64 (t_price t) flip) = flip_tax t ps" by (simp add: flip_tax_def c)
  let ?a3 = "on_player (t_seller_id t) (\<lambda>_. ps1) a2"
  let ?a4 = "settle_buyer t inc d ?a3"
  have run: "applyTrade t inc a = (None, settle_seller t inc x ?a4)"
    by (simp add: applyTrade_def a1 a2 c Let_def cost [symmetric] tax d x)
  have v3: "view_player ?a3 = (view_player a)(t_seller_id t \<mapsto> ps1)" using a1 a2 s by (simp add: view_on_player)
  have once: "touched_once (settle_seller t inc x ?a4)" if "touched_once a"
    using touched_once_updates(1) [OF that, of "t_buyer_id t"] touched_once_updates(1) [of a1 "t_seller_id t"] a1(1) a2(1)
    by (auto intro!: touched_once_settled touched_once_updates)
  show ?thesis
    by (rule that [OF run _ once _ c, of "released_cash ?a3 (t_buy_order_id t) inc d"
          "released_stock ?a4 (t_sell_order_id t) inc (t_symbol t) (t_quantity t)"])
      (use a1 a2 st in \<open>auto simp: view_settle_buyer view_settle_seller v3 Let_def\<close>)
qed

lemma flip_tax_le:
  assumes "lots_ok (lots_of ps (t_symbol t))" "0 < t_price t" "0 < t_quantity t" "t_price t * t_quantity t < 2 ^ 48"
  shows "0 \<le> flip_tax t ps \<and> flip_tax t ps \<le> estimateRapidFlipTax (t_price t * t_quantity t)"
proof -
  obtain flip ps1 where c: "consumeLotsForSale (t_symbol t) (t_quantity t) (t_executed_at t) ps = (flip, ps1)" by fastforce
  have "t_quantity t * 1 \<le> t_quantity t * t_price t" using assms by (intro mult_left_mono) auto
  then have q: "t_quantity t < 2 ^ 63" using assms(4) by (simp add: mult.commute)
  define us where "us = take (nat (t_quantity t)) (units (lots_of ps (t_symbol t)))"
  have f: "flip = int (length (filter (fresh (t_executed_at t)) us))"
    using consumeLots_fifo [OF assms(1) _ q c] assms(3) by (simp add: us_def)
  have "length (filter (fresh (t_executed_at t)) us) \<le> length us" by (rule length_filter_le)
  also have "\<dots> \<le> nat (t_quantity t)" by (simp add: us_def)
  finally have "0 \<le> flip" "flip \<le> t_quantity t" using f assms(3) by linarith+
  then have m: "0 \<le> t_price t * flip" "t_price t * flip \<le> t_price t * t_quantity t"
    using assms(2) by (auto intro: mult_left_mono)
  then have "flip_tax t ps = estimateRapidFlipTax (t_price t * flip)"
    using assms(4) by (simp add: flip_tax_def c int64_simps in64_def)
  then show ?thesis
    using charges_bounds(5) [of "t_price t * flip"] bpsCharge_mono [OF m assms(4), of rapidFlipTaxBps] m assms(4)
    by (simp add: estimateRapidFlipTax_def rapidFlipTaxBps_def)
qed

lemma positions_upd [simp]:
  "cash_in (v(pid \<mapsto> p)) = (cash_in v)(pid := p_cash p)" "shares_in (v(pid \<mapsto> p)) = (shares_in v)(pid := stock p)"
  by (auto simp: cash_in_def shares_in_def fun_eq_iff)

lemma same_keys_upd: "v pid = Some p \<Longrightarrow> same_key p q \<Longrightarrow> same_keys v (v(pid \<mapsto> q))"
  by (simp add: option.rel_refl)

lemma roomD:
  assumes "room ts v" "v pid = Some p"
  shows "\<bar>p_cash p\<bar> + 8 * turnover ts < 2 ^ 62" "sold_by pid sy ts \<le> stock p sy" "0 \<le> stock p sy"
    "stock p sy + volume ts < 2 ^ 62" "lots_room (volume ts) p sy"
  using assms unfolding room_def by blast+

lemma trade_charges:
  assumes "0 < t_price t" "0 < t_quantity t" "t_price t * t_quantity t < 2 ^ 48" "lots_ok (lots_of ps (t_symbol t))"
    and cost: "cost = mul64 (t_price t) (t_quantity t)"
    and cb: "cb = estimateExchangeFee cost + surcharge_for (t_buy_order_id t) inc oo cost"
    and cs: "cs = estimateExchangeFee cost + surcharge_for (t_sell_order_id t) inc oo cost + flip_tax t ps"
  shows "cost = t_price t * t_quantity t" "0 < cost" "0 \<le> cb" "cb \<le> 2 * cost" "0 \<le> cs" "cs \<le> 3 * cost"
    "add64 (add64 cost (estimateExchangeFee cost)) (surcharge_for (t_buy_order_id t) inc oo cost) = cost + cb"
    "sub64 (sub64 (sub64 cost (estimateExchangeFee cost)) (surcharge_for (t_sell_order_id t) inc oo cost)) (flip_tax t ps) = cost - cs"
    "charge_ok (o_type (oo_order oo)) inc t (cb, cs)"
proof -
  have pos: "0 < t_price t * t_quantity t" using assms(1,2) by simp
  then show c: "cost = t_price t * t_quantity t" "0 < cost" using assms(3) by (simp_all add: cost int64_simps in64_def)
  note ch = charges_bounds [of cost, OF less_imp_le [OF c(2)]]
  have lt: "cost < 2 ^ 48" using assms(3) c by simp
  have tax: "0 \<le> flip_tax t ps" "flip_tax t ps \<le> estimateRapidFlipTax cost" "estimateRapidFlipTax cost \<le> cost"
    using flip_tax_le [OF assms(4,1,2,3)] ch(6) lt by (simp_all add: c)
  note b = ch(1,2) [OF lt] ch(3,4) [OF lt, of "t_buy_order_id t" inc oo] ch(3,4) [OF lt, of "t_sell_order_id t" inc oo] tax
  show "0 \<le> cb" "cb \<le> 2 * cost" "0 \<le> cs" "cs \<le> 3 * cost" using b by (simp_all add: cb cs)
  have "in64 (cost + estimateExchangeFee cost)" "in64 (cost + cb)" "in64 (cost - estimateExchangeFee cost)"
    "in64 (cost - estimateExchangeFee cost - surcharge_for (t_sell_order_id t) inc oo cost)" "in64 (cost - cs)"
    using b lt c(2) unfolding in64_def cb cs by simp_all
  then show "add64 (add64 cost (estimateExchangeFee cost)) (surcharge_for (t_buy_order_id t) inc oo cost) = cost + cb"
    "sub64 (sub64 (sub64 cost (estimateExchangeFee cost)) (surcharge_for (t_sell_order_id t) inc oo cost)) (flip_tax t ps) = cost - cs"
    by (simp_all add: cb cs add64_exact sub64_exact algebra_simps)
  show "charge_ok (o_type (oo_order oo)) inc t (cb, cs)"
    using tax(1,2) by (auto simp: charge_ok_def Let_def cb cs surcharge_for_def c(1) [symmetric] intro!: exI [of _ "flip_tax t ps"])
qed

text \<open>The buyer after paying and the seller after delivering.\<close>

lemma buyer_after:
  assumes "\<bar>p_cash p\<bar> + 8 * (cost + n) < 2 ^ 62" "0 < cost" "0 \<le> n" "0 \<le> cb" "cb \<le> 2 * cost"
    and "0 \<le> stock p (t_symbol t)" "stock p (t_symbol t) + (t_quantity t + m) < 2 ^ 62" "0 < t_quantity t" "0 \<le> m"
    and lots: "\<forall>sy. lots_room (t_quantity t + m) p sy" and r1: "r1 = released_cash c (t_buy_order_id t) inc (cost + cb)"
  defines "q \<equiv> (r1 \<circ> buyer_pays t (cost + cb)) p"
  shows "p_cash q = p_cash p - cost - cb"
    "stock q = (stock p)(t_symbol t := stock p (t_symbol t) + t_quantity t)" "same_key p q" "\<forall>sy. lots_room m q sy"
proof -
  have "in64 (p_cash p - (cost + cb))" using assms(1-5) by (auto simp: in64_def)
  then show "p_cash q = p_cash p - cost - cb" by (simp add: q_def r1 sub64_exact)
  have "in64 (stock p (t_symbol t) + t_quantity t)" using assms(6-9) by (simp add: in64_def)
  then show "stock q = (stock p)(t_symbol t := stock p (t_symbol t) + t_quantity t)" by (auto simp: q_def r1 fun_eq_iff add64_exact)
  show "same_key p q" by (simp add: q_def r1 same_key_def released_cash_def release_cash_def buyer_pays_def addAcquiredLot_def set_stock_def)
  show "\<forall>sy. lots_room m q sy"
  proof
    fix sy
    show "lots_room m q sy" using lots [rule_format, of sy] assms(8,9) by (auto simp: q_def r1 lots_room_def lots_buyer_pays)
  qed
qed

lemma seller_after:
  assumes "\<bar>p_cash p\<bar> < 2 ^ 62" "0 < cost" "cost < 2 ^ 48" "0 \<le> cs" "cs \<le> 3 * cost"
    and "t_quantity t \<le> stock p (t_symbol t)" "stock p (t_symbol t) < 2 ^ 62" "0 < t_quantity t"
    and r2: "r2 = released_stock c (t_sell_order_id t) inc (t_symbol t) (t_quantity t)"
  defines "q \<equiv> (r2 \<circ> seller_gets t (cost - cs)) p"
  shows "p_cash q = p_cash p + cost - cs"
    "stock q = (stock p)(t_symbol t := stock p (t_symbol t) - t_quantity t)" "same_key p q" "lots_room m q sy = lots_room m p sy"
proof -
  have "in64 (p_cash p + (cost - cs))" using assms(1-5) by (auto simp: in64_def)
  then show "p_cash q = p_cash p + cost - cs" by (simp add: q_def r2 add64_exact)
  have "in64 (stock p (t_symbol t) - t_quantity t)" using assms(6-8) by (simp add: in64_def)
  then show "stock q = (stock p)(t_symbol t := stock p (t_symbol t) - t_quantity t)"
    using assms(6) by (auto simp: q_def r2 fun_eq_iff sub64_exact clamp0_def)
  show "same_key p q" by (simp add: q_def r2 same_key_def released_stock_def release_stock_def set_reserved_stock_def seller_gets_def set_stock_def)
  show "lots_room m q sy = lots_room m p sy" by (simp add: q_def r2 lots_room_def)
qed

text \<open>What a trade moves, for one account.\<close>

definition moved :: "trade \<Rightarrow> int \<Rightarrow> int \<Rightarrow> int \<Rightarrow> string \<Rightarrow> player \<Rightarrow> player \<Rightarrow> bool" where
  "moved t cost cb cs pid p q \<longleftrightarrow>
     same_key p q \<and>
     p_cash q = p_cash p - (if pid = t_buyer_id t then cost + cb else 0) + (if pid = t_seller_id t then cost - cs else 0) \<and>
     (\<forall>sy. stock q sy = stock p sy +
        (if sy = t_symbol t then (if pid = t_buyer_id t then t_quantity t else 0) - (if pid = t_seller_id t then t_quantity t else 0) else 0))"

definition moves :: "trade \<Rightarrow> int \<Rightarrow> int \<Rightarrow> int \<Rightarrow> int \<Rightarrow> positions \<Rightarrow> positions \<Rightarrow> bool" where
  "moves t cost cb cs n v v' \<longleftrightarrow>
     (\<forall>pid. rel_option (\<lambda>p q. moved t cost cb cs pid p q \<and> (\<forall>sy. lots_room n q sy)) (v pid) (v' pid))"

lemma movesD:
  assumes "moves t cost cb cs n v v'" "v' pid = Some q"
  obtains p where "v pid = Some p" "moved t cost cb cs pid p q" "\<forall>sy. lots_room n q sy"
proof -
  have "rel_option (\<lambda>p q. moved t cost cb cs pid p q \<and> (\<forall>sy. lots_room n q sy)) (v pid) (Some q)"
    using assms(1) unfolding moves_def assms(2) [symmetric] by blast
  then obtain p where "v pid = Some p" "moved t cost cb cs pid p q \<and> (\<forall>sy. lots_room n q sy)" unfolding option_rel_Some2 by blast
  with that show ?thesis by blast
qed

lemma moves_same_keys:
  assumes "moves t cost cb cs n v v'"
  shows "same_keys v v'"
proof -
  have "rel_option same_key (v pid) (v' pid)" for pid
    using assms [unfolded moves_def, rule_format, of pid] by (rule option.rel_mono_strong) (simp add: moved_def)
  then show ?thesis by simp
qed

lemma moves_posts:
  assumes m: "moves t (t_price t * t_quantity t) cb cs n v v'" and b: "v (t_buyer_id t) \<noteq> None" and s: "v (t_seller_id t) \<noteq> None"
  shows "ledger_of (h + cb + cs) v' = post (ledger_of h v) (t, (cb, cs))"
proof -
  have q: "cash_in v' pid = cash_in v pid - (if pid = t_buyer_id t then t_price t * t_quantity t + cb else 0)
      + (if pid = t_seller_id t then t_price t * t_quantity t - cs else 0) \<and>
    (\<forall>sy. shares_in v' pid sy = shares_in v pid sy +
        (if sy = t_symbol t then (if pid = t_buyer_id t then t_quantity t else 0) - (if pid = t_seller_id t then t_quantity t else 0) else 0))" for pid
  proof (cases "v' pid")
    case None
    then have "v pid = None" using m [unfolded moves_def, rule_format, of pid] by simp
    moreover from this b s have "pid \<noteq> t_buyer_id t" "pid \<noteq> t_seller_id t" by auto
    ultimately show ?thesis using None by (simp add: cash_in_def shares_in_def)
  next
    case (Some q)
    from m this obtain p where "v pid = Some p" "moved t (t_price t * t_quantity t) cb cs pid p q" by (rule movesD)
    then show ?thesis using Some by (simp add: cash_in_def shares_in_def moved_def)
  qed
  note c = conjunct1 [OF q] and sh = conjunct2 [OF q, rule_format]
  show ?thesis
  proof (rule ledger.equality)
    show "lg_cash (ledger_of (h + cb + cs) v') = lg_cash (post (ledger_of h v) (t, (cb, cs)))"
    proof
      fix pid
      show "lg_cash (ledger_of (h + cb + cs) v') pid = lg_cash (post (ledger_of h v) (t, (cb, cs))) pid"
        by (cases "pid = t_buyer_id t"; cases "pid = t_seller_id t") (simp_all add: ledger_of_def post_def Let_def c)
    qed
    show "lg_shares (ledger_of (h + cb + cs) v') = lg_shares (post (ledger_of h v) (t, (cb, cs)))"
    proof (intro ext)
      fix pid sy
      show "lg_shares (ledger_of (h + cb + cs) v') pid sy = lg_shares (post (ledger_of h v) (t, (cb, cs))) pid sy"
        by (cases "pid = t_buyer_id t"; cases "pid = t_seller_id t"; cases "sy = t_symbol t")
          (simp_all add: ledger_of_def post_def Let_def sh)
    qed
  qed (simp_all add: ledger_of_def post_def Let_def)
qed

lemma moves_room:
  assumes m: "moves t cost cb cs (volume ts) v v'" and room: "room (t # ts) v" and ok: "trades_ok (t # ts)"
    and c: "cost = t_price t * t_quantity t" "0 \<le> cb" "cb \<le> 2 * cost" "0 \<le> cs" "cs \<le> 3 * cost"
  shows "room ts v'"
  unfolding room_def
proof (intro allI impI)
  fix pid p assume "v' pid = Some p"
  with m obtain p0 where p0: "v pid = Some p0" "moved t cost cb cs pid p0 p" "\<forall>sy. lots_room (volume ts) p sy" by (rule movesD)
  note tc = trades_ok_Cons [OF ok] and r = roomD [OF room p0(1)]
  have "0 < cost" "turnover (t # ts) = cost + turnover ts" using c(1) tc(1,2) by simp_all
  moreover have "\<bar>p_cash p - p_cash p0\<bar> \<le> 7 * cost"
    using p0(2) c(2-5) \<open>0 < cost\<close> unfolding moved_def by (cases "pid = t_buyer_id t"; cases "pid = t_seller_id t") simp_all
  ultimately have "\<bar>p_cash p\<bar> + 8 * turnover ts < 2 ^ 62" using r(1) by linarith
  moreover have "sold_by pid sy ts \<le> stock p sy \<and> 0 \<le> stock p sy \<and> stock p sy + volume ts < 2 ^ 62" for sy
    using r(2) [of sy] r(3) [of sy] r(4) [of sy] p0(2) tc(2) tc(7) [of pid sy] unfolding moved_def
    by (cases "pid = t_buyer_id t"; cases "pid = t_seller_id t"; cases "sy = t_symbol t") simp_all
  ultimately show "\<bar>p_cash p\<bar> + 8 * turnover ts < 2 ^ 62 \<and> (\<forall>sy. sold_by pid sy ts \<le> stock p sy \<and> 0 \<le> stock p sy \<and>
      stock p sy + volume ts < 2 ^ 62 \<and> lots_room (volume ts) p sy)" using p0(3) by blast
qed

lemma applyTrade_posts:
  assumes ok: "trades_ok (t # ts)" and room: "room (t # ts) (view_player a)"
    and b: "view_player a (t_buyer_id t) = Some pb" and s: "view_player a (t_seller_id t) = Some ps"
  obtains a' c where "applyTrade t inc a = (None, a')" "charge_ok (o_type (oo_order (ac_incoming a))) inc t c"
    "ledger_of (h + fst c + snd c) (view_player a') = post (ledger_of h (view_player a)) (t, c)"
    "same_keys (view_player a) (view_player a')" "room ts (view_player a')" "ac_store a' = ac_store a"
    "touched_once a \<Longrightarrow> touched_once a'" "oo_order (ac_incoming a') = oo_order (ac_incoming a)"
proof -
  let ?b = "t_buyer_id t" and ?s = "t_seller_id t" and ?sy = "t_symbol t" and ?q = "t_quantity t"
  define cost where "cost = mul64 (t_price t) (t_quantity t)"
  define cb where "cb = estimateExchangeFee cost + surcharge_for (t_buy_order_id t) inc (ac_incoming a) cost"
  define cs where "cs = estimateExchangeFee cost + surcharge_for (t_sell_order_id t) inc (ac_incoming a) cost + flip_tax t ps"
  note tc = trades_ok_Cons [OF ok]
  note t = tc(1,2,5,6) and le = tc(3)
  have lots: "lots_room (?q + volume ts) p sy" if "view_player a pid = Some p" for pid p sy
    using roomD(5) [OF room that] by simp
  have "lots_ok (lots_of ps ?sy)" using lots [OF s, of ?sy] t by (simp add: lots_room_def lots_ok_def)
  note ch = trade_charges [OF t(1,2) le this cost_def cb_def cs_def]
  have cash: "\<bar>p_cash p\<bar> + 8 * (cost + turnover ts) < 2 ^ 62" if "view_player a pid = Some p" for pid p
    using roomD(1) [OF room that] by (simp add: ch(1))
  obtain a' ps1 flip r1 r2 c1 c2 where run: "applyTrade t inc a = (None, a')" "ac_store a' = ac_store a"
      "touched_once a \<Longrightarrow> touched_once a'" "oo_order (ac_incoming a') = oo_order (ac_incoming a)"
      and c: "consumeLotsForSale ?sy ?q (t_executed_at t) ps = (flip, ps1)"
      and r1: "r1 = released_cash c1 (t_buy_order_id t) inc (cost + cb)"
      and r2: "r2 = released_stock c2 (t_sell_order_id t) inc ?sy ?q"
      and v: "view_player a' = (let v1 = (view_player a)(?s \<mapsto> ps1);
        v2 = v1(?b := map_option (r1 \<circ> buyer_pays t (cost + cb)) (v1 ?b))
      in v2(?s := map_option (r2 \<circ> seller_gets t (cost - cs)) (v2 ?s)))"
    by (rule applyTrade_run [OF b s cost_def ch(7) [symmetric] ch(8) [symmetric], of thesis]) (auto intro: that)
  have ps1: "p_cash ps1 = p_cash ps" "stock ps1 = stock ps" "same_key ps ps1"
    using consumeLots_cash [OF c] consumeLots_key [OF c] by auto
  have q63: "?q < 2 ^ 63" using roomD(3,4) [OF room b, of ?sy] t by simp
  have lots1: "\<forall>sy. lots_room (?q + volume ts) ps1 sy"
    using consumed_lots_room [OF _ _ _ _ q63 c, of "?q + volume ts"] lots [OF s] t by simp
  define pb1 where "pb1 = (if ?b = ?s then ps1 else pb)"
  have pb1: "p_cash pb1 = p_cash pb" "stock pb1 = stock pb" "same_key pb pb1" "\<forall>sy. lots_room (?q + volume ts) pb1 sy"
    using ps1 lots1 lots [OF b] b s by (auto simp: pb1_def)
  define pb2 where "pb2 = (r1 \<circ> buyer_pays t (cost + cb)) pb1"
  note buyer = buyer_after [where p = pb1 and n = "turnover ts" and m = "volume ts", OF _ ch(2) t(3) ch(3,4) _ _ t(2,4) pb1(4) r1, folded pb2_def]
  have pb2: "p_cash pb2 = p_cash pb - cost - cb" "stock pb2 = (stock pb)(?sy := stock pb ?sy + ?q)" "same_key pb pb2"
    "\<forall>sy. lots_room (volume ts) pb2 sy"
    using buyer cash [OF b] roomD(3,4) [OF room b, of ?sy] pb1 same_trans(1) [OF pb1(3)] by (simp_all add: algebra_simps)
  define ps2 where "ps2 = (if ?b = ?s then pb2 else ps1)"
  define ps3 where "ps3 = (r2 \<circ> seller_gets t (cost - cs)) ps2"
  have v': "view_player a' = (view_player a)(?s \<mapsto> ps1, ?b \<mapsto> pb2, ?s \<mapsto> ps3)"
    using b s by (simp add: v Let_def pb2_def ps2_def ps3_def pb1_def)
  have ps2: "\<bar>p_cash ps2\<bar> < 2 ^ 62 \<and> ?q \<le> stock ps2 ?sy \<and> stock ps2 ?sy < 2 ^ 62"
    using cash [OF b] cash [OF s] roomD(2-4) [OF room s, of ?sy] roomD(3,4) [OF room b, of ?sy] ch(2-4) t(1-4) tc(7) [of ?s ?sy] b s pb2 ps1
    by (cases "?b = ?s") (auto simp: ps2_def)
  have key2: "same_key ps ps2" "\<forall>sy. lots_room (volume ts) ps2 sy"
    using pb2(3,4) ps1(3) lots_room_less [of ?q] lots1 t(2) b s by (auto simp: ps2_def)
  note seller = seller_after [where p = ps2, OF conjunct1 [OF ps2] ch(2) _ ch(5,6) _ _ t(2) r2, folded ps3_def]
  have ps3: "p_cash ps3 = p_cash ps2 + cost - cs" "stock ps3 = (stock ps2)(?sy := stock ps2 ?sy - ?q)" "same_key ps ps3"
    "\<forall>sy. lots_room (volume ts) ps3 sy"
    using seller ps2 key2 le same_trans(1) [OF key2(1)] by (simp_all add: ch(1))
  have moves: "moves t cost cb cs (volume ts) (view_player a) (view_player a')"
    unfolding moves_def
  proof
    fix pid
    show "rel_option (\<lambda>p q. moved t cost cb cs pid p q \<and> (\<forall>sy. lots_room (volume ts) q sy)) (view_player a pid) (view_player a' pid)"
      using b s pb2 ps1 ps3 lots_room_less [of ?q, OF lots] t(2)
      by (cases "pid = ?b"; cases "pid = ?s"; cases "view_player a pid") (auto simp: v' moved_def ps2_def)
  qed
  show ?thesis
    using that [OF run(1) ch(9) _ moves_same_keys [OF moves] moves_room [OF moves room ok ch(1,3-6)] run(2,3,4)]
      moves_posts [OF moves [unfolded ch(1)]] b s by simp
qed

section \<open>All trades of an order\<close>

definition traders_known :: "trade list \<Rightarrow> positions \<Rightarrow> bool" where
  "traders_known ts v \<longleftrightarrow> (\<forall>t \<in> set ts. v (t_buyer_id t) \<noteq> None \<and> v (t_seller_id t) \<noteq> None)"

lemma same_keys_None: "same_keys v w \<Longrightarrow> w pid = None \<longleftrightarrow> v pid = None"
  by (metis option.rel_distinct(1) option.rel_distinct(2) option.exhaust)

lemma traders_known_kept: "traders_known ts v \<Longrightarrow> same_keys v w \<Longrightarrow> traders_known ts w"
  using same_keys_None [of v w] unfolding traders_known_def by metis

definition charges_total :: "(int \<times> int) list \<Rightarrow> int" where
  "charges_total cs = (\<Sum>c\<leftarrow>cs. fst c + snd c)"

lemma apply_trades_posts:
  assumes "trades_ok ts" "room ts (view_player a)" "traders_known ts (view_player a)"
  shows "\<exists>a' cs. apply_trades ts inc a = (None, a') \<and> list_all2 (charge_ok (o_type (oo_order (ac_incoming a))) inc) ts cs \<and>
    ledger_of (h + charges_total cs) (view_player a') = foldl post (ledger_of h (view_player a)) (zip ts cs) \<and>
    same_keys (view_player a) (view_player a') \<and> ac_store a' = ac_store a \<and> (touched_once a \<longrightarrow> touched_once a')"
  using assms
proof (induction ts arbitrary: a h)
  case (Cons t ts)
  obtain pb ps where t: "view_player a (t_buyer_id t) = Some pb" "view_player a (t_seller_id t) = Some ps"
    using Cons.prems(3) by (auto simp: traders_known_def)
  obtain a1 c where one: "applyTrade t inc a = (None, a1)" "charge_ok (o_type (oo_order (ac_incoming a))) inc t c"
    "ledger_of (h + fst c + snd c) (view_player a1) = post (ledger_of h (view_player a)) (t, c)"
    "same_keys (view_player a) (view_player a1)" "room ts (view_player a1)" "ac_store a1 = ac_store a"
    "touched_once a \<Longrightarrow> touched_once a1" "oo_order (ac_incoming a1) = oo_order (ac_incoming a)"
    using applyTrade_posts [OF Cons.prems(1,2) t, where inc = inc and h = h] by metis
  have "trades_ok ts" by (rule trades_ok_Cons(4) [OF Cons.prems(1)])
  moreover have "traders_known ts (view_player a1)"
    using traders_known_kept [OF _ one(4), of ts] Cons.prems(3) by (simp add: traders_known_def)
  ultimately obtain a' cs where more: "apply_trades ts inc a1 = (None, a')"
    "list_all2 (charge_ok (o_type (oo_order (ac_incoming a))) inc) ts cs"
    "ledger_of (h + fst c + snd c + charges_total cs) (view_player a') =
       foldl post (ledger_of (h + fst c + snd c) (view_player a1)) (zip ts cs)"
    "same_keys (view_player a1) (view_player a')" "ac_store a' = ac_store a" "touched_once a1 \<longrightarrow> touched_once a'"
    using Cons.IH [of a1 "h + fst c + snd c"] one(5,6,8) by auto
  have "same_keys (view_player a) (view_player a')" using one(4) more(4) by (rule same_keys_trans)
  then show ?case
    using one(1-3,7) more by (intro exI [of _ a'] exI [of _ "c # cs"]) (simp add: charges_total_def add.assoc)
qed (auto simp: charges_total_def)

section \<open>What follows the trades\<close>

lemma view_orders [simp]: "view_player (x\<lparr>ac_orders := m\<rparr>) = view_player x" "ac_store (x\<lparr>ac_orders := m\<rparr>) = ac_store x"
  by (simp_all add: view_player_def fun_eq_iff split: option.split)

definition bookkeeping :: "accounts \<Rightarrow> accounts \<Rightarrow> bool" where
  "bookkeeping a b \<longleftrightarrow> holdings_kept (view_player a) (view_player b) \<and> ac_store b = ac_store a \<and> (touched_once a \<longrightarrow> touched_once b)"

lemma bookkeeping_trans: "bookkeeping a b \<Longrightarrow> bookkeeping b c \<Longrightarrow> bookkeeping a c"
  unfolding bookkeeping_def using holdings_kept_trans by metis

lemma bookkeeping_refl [simp]: "bookkeeping a a"
  by (simp add: bookkeeping_def)

lemma bookkeeping_on_player:
  assumes "\<And>p. same_holdings p (f p)"
  shows "bookkeeping a (on_player pid f a)"
proof (cases "is_touched a pid")
  case True
  then show ?thesis using assms by (auto simp: bookkeeping_def view_on_player option.rel_map option.rel_refl touched_once_updates)
next
  case False
  then have "on_player pid f a = a" by (simp add: on_player_def is_touched_def)
  then show ?thesis by simp
qed

lemma bookkeeping_touch: "getTouchedPlayer pid a = (r, a1) \<Longrightarrow> bookkeeping a a1"
  using getTouchedPlayer_rest [of pid a] touched_once_updates(1) [of a pid] by (simp add: bookkeeping_def)

lemma bookkeeping_cleanup: "bookkeeping a (cleanupOpenOrder oid a)"
proof (cases "ac_orders a oid")
  case (Some oo)
  obtain r a1 where t: "getTouchedPlayer (o_player_id (oo_order oo)) a = (r, a1)" by fastforce
  note b = bookkeeping_touch [OF t]
  let ?b = "if oo_reserved_cash oo > 0 then on_player (o_player_id (oo_order oo)) (release_cash (oo_reserved_cash oo)) a1 else a1"
  let ?c = "if oo_reserved_quantity oo > 0
    then on_player (o_player_id (oo_order oo)) (release_stock (o_symbol (oo_order oo)) (oo_reserved_quantity oo)) ?b else ?b"
  have "bookkeeping a ?b" using bookkeeping_trans [OF b bookkeeping_on_player] b by simp
  then have "bookkeeping a ?c" using bookkeeping_trans [OF _ bookkeeping_on_player] by simp
  then have "bookkeeping a (case r of Inl _ \<Rightarrow> a1 | Inr _ \<Rightarrow> ?c)" using b by (cases r) simp_all
  then show ?thesis by (simp add: cleanupOpenOrder_def Some t Let_def bookkeeping_def cong: sum.case_cong)
qed (simp add: cleanupOpenOrder_def)

lemma bookkeeping_normalize: "bookkeeping a (normalizeOpenOrder oid a)"
proof (cases "ac_orders a oid")
  case (Some oo)
  obtain r a1 where t: "getTouchedPlayer (o_player_id (oo_order oo)) a = (r, a1)" by fastforce
  note b = bookkeeping_touch [OF t]
  have on: "bookkeeping a (on_order oid f (on_player pid g a1))" if "\<And>p. same_holdings p (g p)" for f g pid
    using bookkeeping_trans [OF b bookkeeping_on_player [OF that]] by (simp add: bookkeeping_def)
  have "bookkeeping a (cleanupOpenOrder oid a1)" using b bookkeeping_cleanup by (rule bookkeeping_trans)
  then show ?thesis using b on by (cases r) (simp_all add: normalizeOpenOrder_def Some t Let_def)
qed (simp add: normalizeOpenOrder_def)

lemma bookkeeping_fold: "(\<And>a x. bookkeeping a (f a x)) \<Longrightarrow> bookkeeping a (foldl f a xs)"
  by (induction xs arbitrary: a) (auto intro: bookkeeping_trans)

lemma bookkeeping_tidy: "bookkeeping a (tidy_orders rg removed a)"
  unfolding tidy_orders_def Let_def
  by (rule bookkeeping_trans [OF bookkeeping_fold [OF bookkeeping_cleanup] bookkeeping_fold [OF bookkeeping_normalize]])

lemma bookkeeping_finalize:
  "bookkeeping a (finalizeRestingReservation sy sd pid a)"
  using bookkeeping_on_player [of "release_cash x" a pid for x] bookkeeping_on_player [of "release_stock sy x" a pid for x]
  by (auto simp: finalizeRestingReservation_def Let_def bookkeeping_def split: side.split)

lemma bookkeeping_settle: "bookkeeping a (settle_incoming out sy sd pid a)"
proof (cases "po_resting out")
  case None
  then show ?thesis using bookkeeping_on_player by (simp add: settle_incoming_def)
next
  case (Some r)
  have "bookkeeping (a\<lparr>ac_incoming := (ac_incoming a)\<lparr>oo_order := r\<rparr>\<rparr>)
      (finalizeRestingReservation sy sd pid (a\<lparr>ac_incoming := (ac_incoming a)\<lparr>oo_order := r\<rparr>\<rparr>))"
    by (rule bookkeeping_finalize)
  then show ?thesis by (simp add: settle_incoming_def Some Let_def bookkeeping_def)
qed

section \<open>Writing the players back\<close>

lemma touched_view: "map_of (ac_touched a) pid = Some p \<Longrightarrow> view_player a pid = Some p"
  by (simp add: view_player_def)

definition accounts_of :: "game \<Rightarrow> positions" where
  "accounts_of g pid = PlayerStore_GetByPlayerID pid (g_players g)"

lemma accounts_of_require: "accounts_of g pid = Some p \<longleftrightarrow> requirePlayer pid g = Inr p"
  by (simp add: accounts_of_def requirePlayer_def split: option.split)

lemma upsert_accounts:
  assumes ok: "players_ok (players_of g)" and p0: "accounts_of g (p_id p) = Some p0" "same_key p0 p"
    and up: "upsert io p g = (e, g1)"
  shows "players_ok (players_of g1)" "accounts_of g1 = (accounts_of g)(p_id p \<mapsto> p)"
proof -
  have req: "requirePlayer (p_id p) g = Inr p0" and key: "p_id p = p_id p0" "p_username p = p_username p0"
    using p0 by (simp_all add: accounts_of_require same_key_def)
  note s = upsert_same_player [OF ok req up key]
  show ok1: "players_ok (players_of g1)" by (rule s(1))
  have mem0: "(p_username p, p0) \<in> set (players_of g)" using requirePlayer_Inr [OF ok] req key by simp
  have "accounts_of g1 pid = accounts_of g pid" if ne: "pid \<noteq> p_id p" for pid
  proof -
    have "accounts_of g1 pid = Some q \<longleftrightarrow> accounts_of g pid = Some q" for q
    proof -
      have "p_username q \<noteq> p_username p" if "(p_username q, q) \<in> set (players_of g)" "p_id q = pid"
      proof
        assume "p_username q = p_username p"
        then have "q = p0" using that(1) mem0 ok unfolding players_ok_def by (metis eq_key_imp_eq_value)
        then show False using that(2) ne key by simp
      qed
      moreover have "(p_username q, q) \<in> set (players_of g1) \<longleftrightarrow> (p_username q, q) \<in> set (players_of g)" if "p_username q \<noteq> p_username p"
        using that ok by (auto simp: upsert_frame(1) [OF up] set_update_alist players_ok_def)
      moreover have "p_username q \<noteq> p_username p" if "(p_username q, q) \<in> set (players_of g1)" "p_id q = pid"
      proof
        assume "p_username q = p_username p"
        moreover have "(p_username p, p) \<in> set (players_of g1)" using requirePlayer_Inr [OF ok1] s(2) by simp
        ultimately have "q = p" using that(1) ok1 unfolding players_ok_def by (metis eq_key_imp_eq_value)
        then show False using that(2) ne by simp
      qed
      ultimately show ?thesis unfolding accounts_of_require requirePlayer_Inr [OF ok] requirePlayer_Inr [OF ok1] by blast
    qed
    then show ?thesis by (metis option.exhaust)
  qed
  moreover have "accounts_of g1 (p_id p) = Some p" using s(2) by (simp add: accounts_of_require)
  ultimately show "accounts_of g1 = (accounts_of g)(p_id p \<mapsto> p)" by (auto simp: fun_eq_iff)
qed

lemma upsert_all_accounts:
  assumes "players_ok (players_of g)" "\<forall>p \<in> set ps. \<exists>p0. accounts_of g (p_id p) = Some p0 \<and> same_key p0 p" "distinct (map p_id ps)"
    and "upsert_all io k ps g = (None, g')"
  shows "players_ok (players_of g') \<and> accounts_of g' = (\<lambda>pid. case find (\<lambda>p. p_id p = pid) ps of Some p \<Rightarrow> Some p | None \<Rightarrow> accounts_of g pid)"
  using assms
proof (induction ps arbitrary: g k)
  case (Cons p ps)
  obtain p0 where p0: "accounts_of g (p_id p) = Some p0" "same_key p0 p" using Cons.prems(2) by auto
  obtain g1 where up: "upsert (io k) p g = (None, g1)" and rest: "upsert_all io (Suc k) ps g1 = (None, g')"
    using Cons.prems(4) by (auto split: prod.splits option.splits)
  note one = upsert_accounts [OF Cons.prems(1) p0 up]
  have "\<forall>q \<in> set ps. \<exists>q0. accounts_of g1 (p_id q) = Some q0 \<and> same_key q0 q"
  proof
    fix q assume q: "q \<in> set ps"
    then have "p_id q \<noteq> p_id p" using Cons.prems(3) by (auto simp: image_iff)
    then show "\<exists>q0. accounts_of g1 (p_id q) = Some q0 \<and> same_key q0 q" using Cons.prems(2) q by (simp add: one(2))
  qed
  then have "players_ok (players_of g') \<and> accounts_of g' = (\<lambda>pid. case find (\<lambda>p. p_id p = pid) ps of Some p \<Rightarrow> Some p | None \<Rightarrow> accounts_of g1 pid)"
    using Cons.IH [OF one(1) _ _ rest] Cons.prems(3) by simp
  moreover have "find (\<lambda>q. p_id q = p_id p) ps = None" using Cons.prems(3) by (auto simp: find_None_iff image_iff dest: sym)
  ultimately show ?case by (auto simp: one(2) fun_eq_iff split: option.splits)
qed simp

text \<open>Ranging over a map visits every key once, in some order.\<close>

definition ranges_keys :: "(string list \<Rightarrow> string list) \<Rightarrow> bool" where
  "ranges_keys rg \<longleftrightarrow> (\<forall>ks. distinct ks \<longrightarrow> distinct (rg ks) \<and> set (rg ks) = set ks)"

lemma find_keyed: "\<forall>k \<in> set ks. p_id (h k) = k \<Longrightarrow> find (\<lambda>p. p_id p = pid) (map h ks) = (if pid \<in> set ks then Some (h pid) else None)"
  by (induction ks) auto

lemma ranged_players:
  assumes "ranges_keys rg" "distinct (map fst T)" "\<forall>k q. map_of T k = Some q \<longrightarrow> p_id q = k"
  shows "distinct (map p_id (ranged rg T))" "find (\<lambda>p. p_id p = pid) (ranged rg T) = map_of T pid"
    "q \<in> set (ranged rg T) \<Longrightarrow> map_of T (p_id q) = Some q"
proof -
  let ?ks = "rg (map fst T)"
  have ks: "set ?ks = fst ` set T" "distinct ?ks"
    using assms(1,2) by (simp_all add: ranges_keys_def)
  define h where "h = (\<lambda>k. the (map_of T k))"
  have r: "ranged rg T = map h ?ks" by (simp add: ranged_def h_def)
  have val: "map_of T k = Some (h k)" "p_id (h k) = k" if key: "k \<in> set ?ks" for k
  proof -
    obtain q where "map_of T k = Some q" using key unfolding ks(1) by (cases "map_of T k") (auto simp: map_of_eq_None_iff)
    then show "map_of T k = Some (h k)" "p_id (h k) = k" using spec [OF assms(3), of k] by (simp_all add: h_def)
  qed
  have out: "map_of T k = None" if "k \<notin> set ?ks" for k using that ks(1) by (simp add: map_of_eq_None_iff)
  have "map (p_id \<circ> h) ?ks = ?ks" by (rule map_idI) (simp add: val)
  then show "distinct (map p_id (ranged rg T))" using ks(2) by (simp add: r)
  show "find (\<lambda>p. p_id p = pid) (ranged rg T) = map_of T pid"
    by (cases "pid \<in> set ?ks") (simp_all add: r find_keyed val out)
  show "map_of T (p_id q) = Some q" if "q \<in> set (ranged rg T)"
    using that val by (auto simp: r)
qed

lemma persist_keeps_players: "persistTradeEffects env now io1 io2 ps ts g = (e, g') \<Longrightarrow> g_players g' = g_players g"
  by (auto simp: persistTradeEffects_def recordPerformanceSnapshots_def record_snapshots_def buildPerformanceSnapshots_def PriceMap_def
      split: if_splits prod.splits option.splits sum.splits)

lemma accounts_of_id: "accounts_of g pid = Some p \<Longrightarrow> p_id p = pid"
proof -
  have "find_by_id pid ps = Some (u, q) \<Longrightarrow> p_id q = pid" for ps u q
    by (induction ps) (auto split: if_splits)
  then show "accounts_of g pid = Some p \<Longrightarrow> p_id p = pid"
    by (auto simp: accounts_of_def PlayerStore_GetByPlayerID_def clonePlayer_def)
qed

lemma accounts_of_players: "g_players g' = g_players g \<Longrightarrow> accounts_of g' = accounts_of g"
  by (simp add: accounts_of_def fun_eq_iff)

section \<open>A whole order\<close>

lemma view_accounts: "ac_store a = g_players g \<Longrightarrow> view_player a pid = (case map_of (ac_touched a) pid of Some q \<Rightarrow> Some q | None \<Rightarrow> accounts_of g pid)"
  by (simp add: view_player_def accounts_of_def split: option.split)

lemma write_back:
  assumes ok: "players_ok (players_of g)" and store: "ac_store a = g_players g" and once: "touched_once a"
    and keys: "same_keys (accounts_of g) (view_player a)" and rg: "ranges_keys rg"
    and up: "upsert_all io k (ranged rg (ac_touched a)) g = (None, g')"
  shows "players_ok (players_of g')" "accounts_of g' = view_player a"
proof -
  have touched: "\<exists>q0. accounts_of g k = Some q0 \<and> same_key q0 q" "p_id q = k" if "map_of (ac_touched a) k = Some q" for k q
  proof -
    have "rel_option same_key (accounts_of g k) (Some q)" using spec [OF keys, of k] touched_view [OF that] by simp
    then obtain q0 where "accounts_of g k = Some q0" "same_key q0 q" by (auto simp: option_rel_Some2)
    then show "\<exists>q0. accounts_of g k = Some q0 \<and> same_key q0 q" "p_id q = k"
      using accounts_of_id by (auto simp: same_key_def)
  qed
  note rp = ranged_players [OF rg _ , of "ac_touched a"]
  have d: "distinct (map fst (ac_touched a))" using once by (simp add: touched_once_def)
  have id: "\<forall>k q. map_of (ac_touched a) k = Some q \<longrightarrow> p_id q = k" using touched(2) by blast
  have "\<forall>q \<in> set (ranged rg (ac_touched a)). \<exists>q0. accounts_of g (p_id q) = Some q0 \<and> same_key q0 q"
    using rp(3) [OF d id] touched(1) by blast
  note all = upsert_all_accounts [OF ok this rp(1) [OF d id] up]
  show "players_ok (players_of g')" using all by simp
  show "accounts_of g' = view_player a" using all rp(2) [OF d id] by (simp add: view_accounts [OF store] fun_eq_iff)
qed

lemma settle_order_accounts:
  assumes ok: "players_ok (players_of g)" and own: "accounts_of g (p_id p) = Some p"
    and run: "settle_order c out symbol sd p cash qty g = (Inr reply, g')" and rg: "ranges_keys (c_player_range c)"
    and ts: "trades_ok (po_trades out)" "room (po_trades out) (accounts_of g)" "traders_known (po_trades out) (accounts_of g)"
  obtains cs where "list_all2 (charge_ok (o_type (po_order out)) (o_id (po_order out))) (po_trades out) cs"
    "ledger_of (h + charges_total cs) (accounts_of g') = foldl post (ledger_of h (accounts_of g)) (zip (po_trades out) cs)"
    "same_keys (accounts_of g) (accounts_of g')" "players_ok (players_of g')"
proof -
  define a0 where "a0 = \<lparr>ac_store = g_players g, ac_touched = [(p_id p, p)], ac_orders = g_open g,
     ac_incoming = \<lparr>oo_order = po_order out, oo_reserved_cash = cash, oo_reserved_quantity = qty\<rparr>, ac_touched_orders = []\<rparr>"
  have v0: "view_player a0 = accounts_of g" using own by (auto simp: a0_def view_player_def accounts_of_def fun_eq_iff)
  have a0: "touched_once a0" "ac_store a0 = g_players g" "oo_order (ac_incoming a0) = po_order out"
    by (simp_all add: a0_def touched_once_def)
  obtain a1 cs where p: "apply_trades (po_trades out) (o_id (po_order out)) a0 = (None, a1)"
    "list_all2 (charge_ok (o_type (po_order out)) (o_id (po_order out))) (po_trades out) cs"
    "ledger_of (h + charges_total cs) (view_player a1) = foldl post (ledger_of h (accounts_of g)) (zip (po_trades out) cs)"
    "same_keys (accounts_of g) (view_player a1)" "ac_store a1 = g_players g" "touched_once a1"
    using apply_trades_posts [OF ts(1), of a0 "o_id (po_order out)" h] ts(2,3) a0 unfolding v0 by auto
  define a2 where "a2 = tidy_orders (c_order_range c) (po_removed out) (settle_incoming out symbol sd (p_id p) a1)"
  have b: "bookkeeping a1 a2" unfolding a2_def by (rule bookkeeping_trans [OF bookkeeping_settle bookkeeping_tidy])
  have a2: "holdings_kept (view_player a1) (view_player a2)" "ac_store a2 = g_players g" "touched_once a2"
    using b p(5,6) by (simp_all add: bookkeeping_def)
  have keys: "same_keys (accounts_of g) (view_player a2)" using same_keys_trans [OF p(4) holdings_kept_keys [OF a2(1)]] .
  obtain e g2 where up: "upsert_all (c_io c) 1 (ranged (c_player_range c) (ac_touched a2)) (g\<lparr>g_open := ac_orders a2\<rparr>) = (e, g2)"
    by fastforce
  let ?n = "Suc (length (ac_touched a2))"
  obtain e3 g3 where per: "persistTradeEffects (c_env c 2) (c_now c 0) (c_io c ?n) (c_io c (Suc ?n)) (ac_touched a2) (po_trades out) g2 = (e3, g3)"
    by fastforce
  have res: "e = None" "g' = g3"
    using run unfolding settle_order_def a0_def [symmetric] Let_def p(1) prod.case option.case a2_def [symmetric] up per
    by (simp_all split: option.splits)
  note up = up [unfolded res(1)]
  have last: "accounts_of g' = accounts_of g2" "players_of g' = players_of g2"
    using accounts_of_players [OF persist_keeps_players [OF per]] persist_keeps_players [OF per] by (simp_all add: res players_of_def)
  have g1: "accounts_of (g\<lparr>g_open := ac_orders a2\<rparr>) = accounts_of g" by (rule accounts_of_players) simp
  have w: "players_ok (players_of g2)" "accounts_of g2 = view_player a2"
    using write_back [OF _ _ a2(3) _ rg up] ok a2(2) keys by (simp_all add: g1)
  show ?thesis
  proof (rule that [OF p(2)])
    show "ledger_of (h + charges_total cs) (accounts_of g') = foldl post (ledger_of h (accounts_of g)) (zip (po_trades out) cs)"
      using p(3) holdings_kept_ledger [OF a2(1)] by (simp add: last w)
  qed (use keys w last in simp_all)
qed

lemma reserve_holdings:
  "reserveForIncoming mp p sy sd kind price qty = Inr (cash, held, p') \<Longrightarrow> same_holdings p p' \<and> p_lots p' = p_lots p"
  by (auto simp: reserveForIncoming_def set_reserved_stock_def same_holdings_def same_key_def stock_def Let_def
      split: side.splits sum.splits if_splits)

lemma room_upd:
  assumes "room ts v" "v pid = Some p" "same_holdings p q" "p_lots q = p_lots p"
  shows "room ts (v(pid \<mapsto> q))"
  unfolding room_def
proof (intro allI impI)
  fix k r assume r: "(v(pid \<mapsto> q)) k = Some r"
  obtain r0 where "v k = Some r0" "p_cash r = p_cash r0" "\<And>sy. stock r sy = stock r0 sy" "\<And>sy. lots_of r sy = lots_of r0 sy"
    using r assms(2-4) by (cases "k = pid") (auto simp: same_holdings_def lots_of_def)
  then show "\<bar>p_cash r\<bar> + 8 * turnover ts < 2 ^ 62 \<and>
      (\<forall>sy. sold_by k sy ts \<le> stock r sy \<and> 0 \<le> stock r sy \<and> stock r sy + volume ts < 2 ^ 62 \<and> lots_room (volume ts) r sy)"
    using assms(1) by (simp add: room_def lots_room_def)
qed

lemma place_order_run:
  fixes pl :: place_payload
  defines "sy \<equiv> to_upper (trim_space (pp_order_symbol pl))"
  assumes ok: "players_ok (players_of g)" and own: "requirePlayer (rq_player_id rq) g = Inr p" and pl: "pd_place (rq_payload rq) = Some pl"
    and res: "reserve (c_env c 0) p sy (parse_side (pp_order_side pl)) (parse_type (pp_order_type pl)) (pp_order_price pl)
           (pp_order_quantity pl) g = (Inr (cash, held, p1), g1)"
    and place: "PlaceOrder (c_env c 1) (place_request rq p1 sy pl) (g_market g1) = (Inr out, x)"
    and up: "upsert (c_io c 0) p1 g1 = (e, g2)"
  shows "handlePlaceOrder c rq g =
      (if sy = [] \<or> pp_order_quantity pl \<le> 0 then (Inl SymbolAndQuantityRequired, g)
       else case e of Some e \<Rightarrow> (Inl (StoreFailed e), g2)
          | None \<Rightarrow> settle_order c out sy (parse_side (pp_order_side pl)) p1 cash held (g2\<lparr>g_market := x\<rparr>))"
    "players_ok (players_of (g2\<lparr>g_market := x\<rparr>))" "accounts_of (g2\<lparr>g_market := x\<rparr>) (p_id p1) = Some p1"
    "holdings_kept (accounts_of g) (accounts_of (g2\<lparr>g_market := x\<rparr>))"
    "room ts (accounts_of g) \<Longrightarrow> room ts (accounts_of (g2\<lparr>g_market := x\<rparr>))"
proof -
  obtain mp where r: "reserveForIncoming mp p sy (parse_side (pp_order_side pl)) (parse_type (pp_order_type pl)) (pp_order_price pl)
        (pp_order_quantity pl) = Inr (cash, held, p1)" and fr: "players_of g1 = players_of g"
    using reserve_frame [OF res] by auto
  have p: "accounts_of g (p_id p) = Some p" using own accounts_of_require accounts_of_id by metis
  have g1: "accounts_of g1 = accounts_of g" "players_ok (players_of g1)"
    using fr ok by (simp_all add: accounts_of_def players_of_def PlayerStore_GetByPlayerID_def fun_eq_iff)
  note rh = reserve_holdings [OF r]
  have key: "same_key p p1" "p_id p1 = p_id p" using rh by (simp_all add: same_holdings_def same_key_def)
  have p1: "accounts_of g1 (p_id p1) = Some p" using p g1 key by simp
  show "handlePlaceOrder c rq g =
      (if sy = [] \<or> pp_order_quantity pl \<le> 0 then (Inl SymbolAndQuantityRequired, g)
       else case e of Some e \<Rightarrow> (Inl (StoreFailed e), g2)
          | None \<Rightarrow> settle_order c out sy (parse_side (pp_order_side pl)) p1 cash held (g2\<lparr>g_market := x\<rparr>))"
    using own pl res place up upsert_frame(3) [OF up]
    by (simp add: handlePlaceOrder_def sy_def [symmetric] Let_def split: option.split)
  note u = upsert_accounts [OF g1(2) p1 key(1) up]
  have a3: "accounts_of (g2\<lparr>g_market := x\<rparr>) = (accounts_of g)(p_id p \<mapsto> p1)"
    using u accounts_of_players [of "g2\<lparr>g_market := x\<rparr>" g2] by (simp add: g1 key)
  show "players_ok (players_of (g2\<lparr>g_market := x\<rparr>))" using u by simp
  show "accounts_of (g2\<lparr>g_market := x\<rparr>) (p_id p1) = Some p1" by (simp add: a3 key)
  show "holdings_kept (accounts_of g) (accounts_of (g2\<lparr>g_market := x\<rparr>))" using p rh by (auto simp: a3 option.rel_refl)
  show "room ts (accounts_of g) \<Longrightarrow> room ts (accounts_of (g2\<lparr>g_market := x\<rparr>))" unfolding a3 using room_upd [of ts "accounts_of g" "p_id p" p p1] p rh by blast
qed

lemma place_order_accounts:
  fixes pl :: place_payload
  defines "sy \<equiv> to_upper (trim_space (pp_order_symbol pl))"
  assumes ok: "players_ok (players_of g)" and own: "requirePlayer (rq_player_id rq) g = Inr p" and pl: "pd_place (rq_payload rq) = Some pl"
    and res: "reserve (c_env c 0) p sy (parse_side (pp_order_side pl)) (parse_type (pp_order_type pl)) (pp_order_price pl)
           (pp_order_quantity pl) g = (Inr (cash, held, p1), g1)"
    and place: "PlaceOrder (c_env c 1) (place_request rq p1 sy pl) (g_market g1) = (Inr out, x)"
    and run: "handlePlaceOrder c rq g = (Inr reply, g')" and rg: "ranges_keys (c_player_range c)"
    and ts: "trades_ok (po_trades out)" "room (po_trades out) (accounts_of g)" "traders_known (po_trades out) (accounts_of g)"
  obtains cs where "list_all2 (charge_ok (o_type (po_order out)) (o_id (po_order out))) (po_trades out) cs"
    "ledger_of (h + charges_total cs) (accounts_of g') = foldl post (ledger_of h (accounts_of g)) (zip (po_trades out) cs)"
    "same_keys (accounts_of g) (accounts_of g')" "players_ok (players_of g')"
proof -
  obtain e g2 where up: "upsert (c_io c 0) p1 g1 = (e, g2)" by fastforce
  let ?g3 = "g2\<lparr>g_market := x\<rparr>"
  note c = place_order_run [OF ok own pl res [unfolded sy_def] place [unfolded sy_def] up, folded sy_def]
  have st: "settle_order c out sy (parse_side (pp_order_side pl)) p1 cash held ?g3 = (Inr reply, g')"
    using run unfolding c(1) by (simp split: if_splits option.splits)
  note kept = holdings_kept_keys [OF c(4)]
  show ?thesis
    using settle_order_accounts [OF c(2,3) st rg ts(1) c(5) [OF ts(2)] traders_known_kept [OF ts(3) kept], of h thesis]
      that same_keys_trans [OF kept] unfolding holdings_kept_ledger [OF c(4)] by blast
qed

text \<open>Without a store fault an accepted order always settles.\<close>

lemma upsert_all_returns:
  assumes "\<forall>k. io k = None"
  shows "\<exists>g'. upsert_all io k ps g = (None, g') \<and> g_trades g' = g_trades g \<and> g_performance g' = g_performance g"
proof (induction ps arbitrary: k g)
  case (Cons p ps)
  have "fst (upsert None p g) = None" "g_trades (snd (upsert None p g)) = g_trades g" "g_performance (snd (upsert None p g)) = g_performance g"
    by (simp_all add: upsert_def PlayerStore_Upsert_def player_persist_def persist_def split: prod.split)
  then show ?case using Cons.IH [of "Suc k" "snd (upsert None p g)"] assms by (auto split: prod.split)
qed simp

lemma settle_order_returns:
  assumes own: "accounts_of g (p_id p) = Some p" and ok: "\<forall>k. c_io c k = None" "g_trades g = None" "g_performance g = None"
    and ts: "trades_ok (po_trades out)" "room (po_trades out) (accounts_of g)" "traders_known (po_trades out) (accounts_of g)"
  shows "\<exists>reply g'. settle_order c out symbol sd p cash qty g = (Inr reply, g')"
proof -
  define a0 where "a0 = \<lparr>ac_store = g_players g, ac_touched = [(p_id p, p)], ac_orders = g_open g,
     ac_incoming = \<lparr>oo_order = po_order out, oo_reserved_cash = cash, oo_reserved_quantity = qty\<rparr>, ac_touched_orders = []\<rparr>"
  have v0: "view_player a0 = accounts_of g" using own by (auto simp: a0_def view_player_def accounts_of_def fun_eq_iff)
  obtain a1 where p: "apply_trades (po_trades out) (o_id (po_order out)) a0 = (None, a1)"
    using apply_trades_posts [OF ts(1), of a0 "o_id (po_order out)"] ts(2,3) unfolding v0 by auto
  define a2 where "a2 = tidy_orders (c_order_range c) (po_removed out) (settle_incoming out symbol sd (p_id p) a1)"
  obtain g2 where up: "upsert_all (c_io c) 1 (ranged (c_player_range c) (ac_touched a2)) (g\<lparr>g_open := ac_orders a2\<rparr>) = (None, g2)"
    "g_trades g2 = None" "g_performance g2 = None"
    using upsert_all_returns [OF ok(1), of 1 "ranged (c_player_range c) (ac_touched a2)" "g\<lparr>g_open := ac_orders a2\<rparr>"] ok(2,3) by auto
  have "persistTradeEffects e now io1 io2 ps ts' g2 = (None, g2)" for e now io1 io2 ps ts'
    using up(2,3) by (simp add: persistTradeEffects_def recordPerformanceSnapshots_def record_snapshots_def)
  then show ?thesis
    unfolding settle_order_def a0_def [symmetric] Let_def p(1) prod.case option.case a2_def [symmetric] up(1) by simp
qed

section \<open>The money and the shares of everybody\<close>

definition total_cash :: "game \<Rightarrow> int" where
  "total_cash g = (\<Sum>(u, p) \<leftarrow> players_of g. p_cash p)"

definition total_shares :: "game \<Rightarrow> string \<Rightarrow> int" where
  "total_shares g sy = (\<Sum>(u, p) \<leftarrow> players_of g. stock p sy)"

lemma sum_over_players:
  assumes "players_ok (players_of g)"
  shows "(\<Sum>(u, p) \<leftarrow> players_of g. f p) = (\<Sum>pid \<in> dom (accounts_of g). f (the (accounts_of g pid)))"
proof -
  let ?S = "set (players_of g)"
  have d: "distinct (players_of g)" and id: "inj_on (p_id \<circ> snd) ?S" and name: "\<forall>(u, p) \<in> ?S. p_username p = u"
    using assms by (auto simp: players_ok_def distinct_map inj_on_def split: prod.splits)
  have acc: "accounts_of g pid = Some p \<longleftrightarrow> (p_username p, p) \<in> ?S \<and> p_id p = pid" for pid p
    by (simp add: accounts_of_require requirePlayer_Inr [OF assms])
  have img: "(p_id \<circ> snd) ` ?S = dom (accounts_of g)" using name by (force simp: dom_def acc)
  have "(\<Sum>(u, p) \<leftarrow> players_of g. f p) = (\<Sum>x \<in> ?S. f (snd x))"
    unfolding sum.distinct_set_conv_list [OF d] by (simp add: case_prod_unfold)
  also have "\<dots> = (\<Sum>x \<in> ?S. f (the (accounts_of g ((p_id \<circ> snd) x))))"
  proof (rule sum.cong)
    fix x assume x: "x \<in> ?S"
    then have "(p_username (snd x), snd x) \<in> ?S" using name by (cases x) auto
    then have "accounts_of g (p_id (snd x)) = Some (snd x)" by (simp add: acc)
    then show "f (snd x) = f (the (accounts_of g ((p_id \<circ> snd) x)))" by simp
  qed simp
  also have "\<dots> = (\<Sum>pid \<in> dom (accounts_of g). f (the (accounts_of g pid)))"
    unfolding img [symmetric] sum.reindex [OF id] by simp
  finally show ?thesis .
qed

lemma totals_ledger:
  assumes "players_ok (players_of g)"
  shows "total_cash g = sum (lg_cash (ledger_of h (accounts_of g))) (dom (accounts_of g))"
    "total_shares g sy = (\<Sum>pid \<in> dom (accounts_of g). lg_shares (ledger_of h (accounts_of g)) pid sy)"
  unfolding total_cash_def total_shares_def sum_over_players [OF assms]
  by (auto simp: ledger_of_def cash_in_def shares_in_def intro!: sum.cong)

lemma sum_upd: "finite I \<Longrightarrow> b \<in> I \<Longrightarrow> sum (f(b := v)) I = sum f I - f b + (v::int)"
  by (simp add: sum.remove [of I b])

lemma sum_shares_upd:
  fixes f :: "'a \<Rightarrow> 'b \<Rightarrow> int"
  assumes "finite I" "b \<in> I"
  shows "(\<Sum>x \<in> I. (f(b := g)) x sy) = (\<Sum>x \<in> I. f x sy) - f b sy + g sy"
proof -
  have "(\<lambda>x. (f(b := g)) x sy) = (\<lambda>x. f x sy)(b := g sy)" by auto
  then show ?thesis by (simp only: sum_upd [OF assms])
qed

text \<open>An entry is balanced: what the buyer and the seller pay together, the house receives.\<close>

lemma post_balanced:
  assumes "finite I" "t_buyer_id t \<in> I" "t_seller_id t \<in> I"
  shows "sum (lg_cash (post L (t, c))) I + lg_house (post L (t, c)) = sum (lg_cash L) I + lg_house L"
    "(\<Sum>pid \<in> I. lg_shares (post L (t, c)) pid sy) = (\<Sum>pid \<in> I. lg_shares L pid sy)"
  unfolding post_def Let_def prod.case case_prod_beta fst_conv snd_conv ledger.simps sum_upd [OF assms(1,2)] sum_upd [OF assms(1,3)]
    sum_shares_upd [OF assms(1,2)] sum_shares_upd [OF assms(1,3)]
  by simp_all

lemma posts_balanced:
  assumes "finite I" "\<forall>t \<in> set ts. t_buyer_id t \<in> I \<and> t_seller_id t \<in> I"
  shows "sum (lg_cash (foldl post L (zip ts cs))) I + lg_house (foldl post L (zip ts cs)) = sum (lg_cash L) I + lg_house L \<and>
    (\<Sum>pid \<in> I. lg_shares (foldl post L (zip ts cs)) pid sy) = (\<Sum>pid \<in> I. lg_shares L pid sy)"
  using assms(2)
proof (induction ts arbitrary: L cs)
  case (Cons t ts)
  then show ?case using post_balanced [OF assms(1), of t] by (cases cs) simp_all
qed simp

lemma charge_bounds:
  assumes "charge_ok kind inc t c" "0 < t_price t" "0 < t_quantity t" "t_price t * t_quantity t < 2 ^ 48"
  shows "0 \<le> fst c" "0 \<le> snd c" "fst c + snd c \<le> 5 * (t_price t * t_quantity t)"
proof -
  have cost: "0 \<le> t_price t * t_quantity t" using assms(2,3) by simp
  note b = charges_bounds [OF cost assms(4)]
    bpsCharge_bounds [OF cost assms(4), of marketOrderSurchargeBps, folded estimateMarketSurcharge_def]
  show "0 \<le> fst c" "0 \<le> snd c" "fst c + snd c \<le> 5 * (t_price t * t_quantity t)"
    using assms(1) b unfolding charge_ok_def Let_def by (auto simp: marketOrderSurchargeBps_def split: if_splits)
qed

lemma charges_total_bounds:
  assumes "list_all2 (charge_ok kind inc) ts cs" "trades_ok ts"
  shows "0 \<le> charges_total cs \<and> charges_total cs \<le> 5 * turnover ts"
  using assms
proof (induction ts cs rule: list_all2_induct)
  case (Cons t ts c cs)
  note t = trades_ok_Cons [OF Cons.prems]
  show ?case using charge_bounds [OF Cons.hyps(1) t(1,2,3)] Cons.IH [OF t(4)] by (simp add: charges_total_def)
qed (simp add: charges_total_def)

section \<open>An order filled in parts\<close>

definition fee_sum :: "trade list \<Rightarrow> int" where
  "fee_sum ts = (\<Sum>t\<leftarrow>ts. (t_price t * t_quantity t * 10 + 9999) div 10000)"

lemma posts_of_buyer:
  assumes "list_all2 (charge_ok OrderTypeLimit inc) ts cs" "trades_ok ts"
    and "\<forall>t \<in> set ts. t_buyer_id t = pid \<and> t_seller_id t \<noteq> pid"
  shows "lg_cash (foldl post L (zip ts cs)) pid = lg_cash L pid - turnover ts - fee_sum ts"
  using assms
proof (induction ts cs arbitrary: L rule: list_all2_induct)
  case (Cons t ts c cs)
  note t = trades_ok_Cons [OF Cons.prems(1)]
  have "0 \<le> t_price t * t_quantity t" using t(1,2) by simp
  then have "fst c = (t_price t * t_quantity t * 10 + 9999) div 10000"
    using Cons.hyps(1) t(3) by (simp add: charge_ok_def Let_def charges_exact)
  then have "lg_cash (post L (t, c)) pid = lg_cash L pid - t_price t * t_quantity t - (t_price t * t_quantity t * 10 + 9999) div 10000"
    using Cons.prems(2) by (cases c) (auto simp: post_def Let_def)
  then show ?case using Cons.IH [OF t(4), of "post L (t, c)"] Cons.prems(2) by (simp add: fee_sum_def)
qed (simp add: fee_sum_def)

text \<open>Rounding up part by part: the parts cost at least what the whole costs and less than one unit more each.\<close>

lemma ceil_add:
  fixes x y :: int
  shows "(x + y + 9999) div 10000 \<le> (x + 9999) div 10000 + (y + 9999) div 10000"
    "(x + 9999) div 10000 + (y + 9999) div 10000 \<le> (x + y + 9999) div 10000 + 1"
  by linarith+

lemma fee_sum_bounds:
  "(turnover ts * 10 + 9999) div 10000 \<le> fee_sum ts"
  "fee_sum ts \<le> (turnover ts * 10 + 9999) div 10000 + int (length ts - 1)"
proof -
  have "(turnover ts * 10 + 9999) div 10000 \<le> fee_sum ts \<and> fee_sum ts \<le> (turnover ts * 10 + 9999) div 10000 + int (length ts - 1)"
  proof (induction ts)
    case (Cons t ts)
    let ?c = "t_price t * t_quantity t * 10" and ?n = "turnover ts * 10"
    have e: "fee_sum (t # ts) = (?c + 9999) div 10000 + fee_sum ts" "turnover (t # ts) * 10 = ?c + ?n" by (simp_all add: fee_sum_def)
    show ?case
    proof (cases "ts = []")
      case False
      then have "int (length (t # ts) - 1) = int (length ts - 1) + 1" by (cases ts) simp_all
      then show ?thesis unfolding e using Cons.IH ceil_add [of ?c ?n] by linarith
    qed (simp add: fee_sum_def)
  qed (simp add: fee_sum_def)
  then show "(turnover ts * 10 + 9999) div 10000 \<le> fee_sum ts"
    "fee_sum ts \<le> (turnover ts * 10 + 9999) div 10000 + int (length ts - 1)" by simp_all
qed

lemma turnover_at: "\<forall>t \<in> set ts. t_price t = price \<Longrightarrow> turnover ts = price * volume ts"
  by (induction ts) (simp_all add: algebra_simps)

text \<open>C11: An order filled in several trades costs more than its reservation. When a limit buy is filled at its
  limit from the orders of others, the buyer pays the reserved amount and on top of it what
  rounding up the fee of every fill adds to rounding it up once; this excess is never negative, is below the
  number of fills, and leaves a buyer who reserved all of his cash with exactly that much less than nothing.
  As in C7 the sellers hold what they sell and no sum wraps.\<close>
theorem split_fills_overdraw:
  assumes "trades_ok ts" and "room ts (view_player a)" and "traders_known ts (view_player a)"
    and "o_type (oo_order (ac_incoming a)) = OrderTypeLimit" and "view_player a pid = Some p"
    and "\<forall>t \<in> set ts. t_buyer_id t = pid \<and> t_seller_id t \<noteq> pid \<and> t_price t = price"
    and "excess = (\<Sum>t\<leftarrow>ts. (t_price t * t_quantity t * 10 + 9999) div 10000) - (price * volume ts * 10 + 9999) div 10000"
  shows "\<exists>a' p'. apply_trades ts inc a = (None, a') \<and> view_player a' pid = Some p' \<and>
     p_cash p' = p_cash p - reserve_amount OrderTypeLimit price (volume ts) - excess \<and>
     0 \<le> excess \<and> excess \<le> int (length ts - 1) \<and>
     (p_cash p = reserve_amount OrderTypeLimit price (volume ts) \<longrightarrow> p_cash p' = - excess)"
proof -
  obtain a' cs where run: "apply_trades ts inc a = (None, a')" "list_all2 (charge_ok OrderTypeLimit inc) ts cs"
    "ledger_of (0 + charges_total cs) (view_player a') = foldl post (ledger_of 0 (view_player a)) (zip ts cs)"
    "same_keys (view_player a) (view_player a')"
    using apply_trades_posts [OF assms(1-3), of inc 0] unfolding assms(4) by blast
  obtain p' where p': "view_player a' pid = Some p'" using same_keys_None [OF run(4), of pid] assms(5) by auto
  have n: "price * volume ts = turnover ts" "0 \<le> turnover ts" "turnover ts < 2 ^ 48"
    using turnover_at [of ts price] assms(1,6) trades_nonneg [of ts] by (auto simp: trades_ok_def)
  have "p_cash p' = lg_cash (ledger_of (0 + charges_total cs) (view_player a')) pid" by (simp add: ledger_of_def cash_in_def p')
  also have "\<dots> = p_cash p - turnover ts - fee_sum ts"
    using posts_of_buyer [OF run(2) assms(1), of pid] assms(5,6) unfolding run(3) by (simp add: ledger_of_def cash_in_def)
  also have "reserve_amount OrderTypeLimit price (volume ts) = turnover ts + (turnover ts * 10 + 9999) div 10000"
    using reserve_amount_exact [of "turnover ts" OrderTypeLimit price "volume ts"] n by (simp add: reserve_price_def)
  then have "p_cash p - turnover ts - fee_sum ts = p_cash p - reserve_amount OrderTypeLimit price (volume ts) - excess"
    unfolding assms(7) n(1) by (simp add: fee_sum_def)
  finally have c: "p_cash p' = p_cash p - reserve_amount OrderTypeLimit price (volume ts) - excess" .
  have "0 \<le> excess \<and> excess \<le> int (length ts - 1)"
    using fee_sum_bounds [of ts] unfolding assms(7) n(1) by (simp add: fee_sum_def)
  then show ?thesis using run(1) p' c by simp
qed

theorem split_fills_overdraw_witness:
  "let t = demo_trade\<lparr>t_price := 1, t_quantity := 1\<rparr>
   in reserve_amount OrderTypeLimit 1 2 = 3 \<and>
      (\<exists>a' p'. apply_trades [t, t] ''b'' (demo_accounts 3) = (None, a') \<and> view_player a' ''id-ann'' = Some p' \<and> p_cash p' = - 1)"
proof -
  let ?t = "demo_trade\<lparr>t_price := 1, t_quantity := 1\<rparr>" and ?p = "(demo_player ''ann'' 3)\<lparr>p_reserved_cash := 3\<rparr>"
  have v: "view_player (demo_accounts 3) = [''id-ann'' \<mapsto> ?p, ''id-bob'' \<mapsto> set_stock ''ACME'' 7 demo_holder]"
    by (auto simp: view_player_def demo_accounts_def PlayerStore_GetByPlayerID_def clonePlayer_def demo_player_def
        demo_holder_def set_stock_def fun_eq_iff)
  have r: "reserve_amount OrderTypeLimit 1 2 = 3" by code_simp
  have "\<exists>a' p'. apply_trades [?t, ?t] ''b'' (demo_accounts 3) = (None, a') \<and> view_player a' ''id-ann'' = Some p' \<and>
     p_cash p' = p_cash ?p - reserve_amount OrderTypeLimit 1 (volume [?t, ?t]) - 1 \<and>
     0 \<le> (1::int) \<and> 1 \<le> int (length [?t, ?t] - 1) \<and>
     (p_cash ?p = reserve_amount OrderTypeLimit 1 (volume [?t, ?t]) \<longrightarrow> p_cash p' = - 1)"
  proof (rule split_fills_overdraw)
    show "trades_ok [?t, ?t]" by (simp add: trades_ok_def demo_trade_def)
    show "room [?t, ?t] (view_player (demo_accounts 3))"
      unfolding v by (auto simp: room_def demo_trade_def demo_player_def demo_holder_def stock_def set_stock_def getz_def lots_room_def lots_of_def)
    show "traders_known [?t, ?t] (view_player (demo_accounts 3))" unfolding v by (simp add: traders_known_def demo_trade_def)
    show "view_player (demo_accounts 3) ''id-ann'' = Some ?p" unfolding v by simp
  qed (simp_all add: demo_trade_def demo_accounts_def demo_open_def)
  then show ?thesis using r by (auto simp: demo_player_def)
qed

text \<open>A sale between two players, for the witnesses.\<close>

definition settle_sell :: place_input where
  "settle_sell = \<lparr>pi_request_id = ''s'', pi_player_id = ''id-bob'', pi_player_role = ''Holder'', pi_symbol = ''ACME'',
     pi_side = SideSell, pi_type = OrderTypeLimit, pi_price = 100, pi_quantity = 2\<rparr>"

definition settle_buy :: place_payload where
  "settle_buy = demo_place\<lparr>pp_order_symbol := ''ACME''\<rparr>"

abbreviation settle_request :: action_request where
  "settle_request \<equiv> demo_request ''place_order'' (demo_payload\<lparr>pd_place := Some settle_buy\<rparr>)"

abbreviation settle_payer :: player where
  "settle_payer \<equiv> (demo_player ''ann'' 1000)\<lparr>p_reserved_cash := 201\<rparr>"

definition settle_market :: exchange where
  "settle_market = snd (PlaceOrder demo_env settle_sell (NewExchange [demo_ticker] 3))"

definition settle_game :: game where
  "settle_game = (demo_game settle_market)\<lparr>g_players := \<lparr>st_players = [(''ann'', demo_player ''ann'' 1000),
     (''bob'', set_stock ''ACME'' 7 demo_holder)], st_disk = \<lparr>main_file = NoFile, tmp_file = NoFile\<rparr>\<rparr>\<rparr>"

definition settle_fill :: trade where
  "settle_fill = \<lparr>t_id = ''r-1'', t_symbol = ''ACME'', t_price = 100, t_quantity = 2, t_aggressor_side = SideBuy,
     t_buy_order_id = ''r'', t_sell_order_id = ''s'', t_buyer_id = ''id-ann'', t_seller_id = ''id-bob'',
     t_buyer_role = ''Buyer'', t_seller_role = ''Holder'', t_executed_at = 1\<rparr>"

definition settle_book :: book where
  "settle_book = snd (the (Place int (input_order demo_env settle_sell) (new_book ''ACME'' 1000)))"

lemma settle_sell_places: "\<exists>p. Place int (input_order demo_env settle_sell) (new_book ''ACME'' 1000) = Some (Inr p, settle_book)"
proof -
  have "(case Place int (input_order demo_env settle_sell) (new_book ''ACME'' 1000) of Some (Inr p, b) \<Rightarrow> True | _ \<Rightarrow> False)"
    by code_simp
  then show ?thesis by (auto simp: settle_book_def split: option.splits prod.splits sum.splits)
qed

lemma settle_market_ok: "exchange_inv settle_market" "ex_books settle_market ''ACME'' = Some settle_book"
proof -
  let ?s = "NewExchange [demo_ticker] 3"
  have q: "in64 (pi_quantity settle_sell)" "pi_symbol settle_sell = ''ACME''" "validate (input_order demo_env settle_sell) = None"
    "clock demo_env = int" "\<not> cache_on demo_env"
    by (simp_all add: settle_sell_def in64_def validate_def input_order_def demo_env_def)
  show "exchange_inv settle_market" unfolding settle_market_def by (rule PlaceOrder_inv [OF NewExchange_inv q(1)])
  show "ex_books settle_market ''ACME'' = Some settle_book"
    using PlaceOrder_result [OF NewExchange_inv q(1), of "[demo_ticker]" 3 demo_env] settle_sell_places q(2-5) demo_exchange_book
    by (auto simp: settle_market_def split: prod.splits sum.splits)
qed

lemma settle_buy_places:
  obtains out x where "PlaceOrder demo_env (place_request settle_request settle_payer ''ACME'' settle_buy) settle_market = (Inr out, x)"
    "po_trades out = [settle_fill]" "o_id (po_order out) = ''r''" "o_type (po_order out) = OrderTypeLimit"
proof -
  let ?i = "place_request settle_request settle_payer ''ACME'' settle_buy"
  have q: "in64 (pi_quantity ?i)" "pi_symbol ?i = ''ACME''" "validate (input_order demo_env ?i) = None" "\<not> cache_on demo_env"
    by code_simp+
  have c: "clock demo_env = int" by (simp add: demo_env_def)
  have "map_option (\<lambda>(r, b). map_sum id (\<lambda>p. (pr_trades p, o_id (pr_order p), o_type (pr_order p))) r)
      (Place int (input_order demo_env ?i) settle_book) = Some (Inr ([settle_fill], ''r'', OrderTypeLimit))"
    by code_simp
  then obtain r b where "Place int (input_order demo_env ?i) settle_book = Some (r, b)"
      "map_sum id (\<lambda>p. (pr_trades p, o_id (pr_order p), o_type (pr_order p))) r = Inr ([settle_fill], ''r'', OrderTypeLimit)"
    by auto
  then obtain p b where "Place int (input_order demo_env ?i) settle_book = Some (Inr p, b)" "pr_trades p = [settle_fill]"
      "o_id (pr_order p) = ''r''" "o_type (pr_order p) = OrderTypeLimit"
    by (cases r) auto
  then show thesis
    using that PlaceOrder_result [OF settle_market_ok(1) q(1), of demo_env] q(2-4) c settle_market_ok(2)
    by (auto split: prod.splits sum.splits)
qed

lemma settle_game_facts:
  "players_ok (players_of settle_game)" "requirePlayer ''id-ann'' settle_game = Inr (demo_player ''ann'' 1000)"
  "g_market settle_game = settle_market" "g_trades settle_game = None" "g_performance settle_game = None"
  "accounts_of settle_game = [''id-ann'' \<mapsto> demo_player ''ann'' 1000, ''id-bob'' \<mapsto> set_stock ''ACME'' 7 demo_holder]"
  by (auto simp: settle_game_def demo_game_def NewGame_def players_ok_def players_of_def requirePlayer_def accounts_of_def fun_eq_iff
      PlayerStore_GetByPlayerID_def clonePlayer_def demo_player_def demo_holder_def set_stock_def)

lemma settle_room: "trades_ok [settle_fill]" "room [settle_fill] (accounts_of settle_game)" "traders_known [settle_fill] (accounts_of settle_game)"
  "ranges_keys (c_player_range demo_call)"
proof -
  have "[settle_fill] \<noteq> []" by simp
  show "trades_ok [settle_fill]" "traders_known [settle_fill] (accounts_of settle_game)" "ranges_keys (c_player_range demo_call)"
    by (simp_all add: trades_ok_def traders_known_def settle_fill_def settle_game_facts ranges_keys_def demo_call_def)
  show "room [settle_fill] (accounts_of settle_game)"
    unfolding settle_game_facts
    by (auto simp: room_def settle_fill_def demo_player_def demo_holder_def stock_def set_stock_def getz_def lots_room_def lots_of_def)
qed

lemma settle_reserves: "reserve (c_env demo_call 0) (demo_player ''ann'' 1000) (to_upper (trim_space (pp_order_symbol settle_buy)))
    (parse_side (pp_order_side settle_buy)) (parse_type (pp_order_type settle_buy)) (pp_order_price settle_buy)
    (pp_order_quantity settle_buy) settle_game = (Inr (201, 0, settle_payer), settle_game)"
proof -
  have sy: "to_upper (trim_space (pp_order_symbol settle_buy)) = ''ACME''" "parse_side (pp_order_side settle_buy) = SideBuy"
    "parse_type (pp_order_type settle_buy) = OrderTypeLimit"
    by code_simp+
  show ?thesis unfolding sy
    by (simp add: reserve_def reserveForIncoming_def reserve_amount_def reserve_price_def estimateExchangeFee_def bpsCharge_def
        exchangeFeeBps_def demo_player_def demo_place_def settle_buy_def int64_simps in64_def)
qed
lemma settle_runs:
  obtains out x reply g' where
    "PlaceOrder (c_env demo_call 1) (place_request settle_request settle_payer (to_upper (trim_space (pp_order_symbol settle_buy))) settle_buy)
       (g_market settle_game) = (Inr out, x)"
    "po_trades out = [settle_fill]" "o_id (po_order out) = ''r''" "o_type (po_order out) = OrderTypeLimit"
    "handlePlaceOrder demo_call settle_request settle_game = (Inr reply, g')"
proof -
  have sy: "to_upper (trim_space (pp_order_symbol settle_buy)) = ''ACME''" "pp_order_quantity settle_buy = 2" by code_simp+
  obtain out x where o: "PlaceOrder demo_env (place_request settle_request settle_payer ''ACME'' settle_buy) settle_market = (Inr out, x)"
    "po_trades out = [settle_fill]" "o_id (po_order out) = ''r''" "o_type (po_order out) = OrderTypeLimit"
    by (rule settle_buy_places)
  have place: "PlaceOrder (c_env demo_call 1) (place_request settle_request settle_payer (to_upper (trim_space (pp_order_symbol settle_buy))) settle_buy)
       (g_market settle_game) = (Inr out, x)" using o(1) by (simp add: sy settle_game_facts demo_call_def)
  have rq: "rq_player_id settle_request = ''id-ann''" "pd_place (rq_payload settle_request) = Some settle_buy"
    by (simp_all add: demo_request_def)
  obtain g2 where up: "upsert None settle_payer settle_game = (None, g2)" "g_trades g2 = None" "g_performance g2 = None"
    using upsert_all_returns [of "\<lambda>_. None" 0 "[settle_payer]" settle_game] settle_game_facts(4,5) by (auto split: prod.splits option.splits)
  have "upsert (c_io demo_call 0) settle_payer settle_game = (None, g2)" using up by (simp add: demo_call_def)
  note c = place_order_run [OF settle_game_facts(1) settle_game_facts(2) [folded rq(1)] rq(2) settle_reserves place this]
  have "\<exists>reply g'. settle_order demo_call out ''ACME'' (parse_side (pp_order_side settle_buy)) settle_payer 201 0 (g2\<lparr>g_market := x\<rparr>) = (Inr reply, g')"
    using settle_order_returns [OF c(3)] settle_room(1) c(5) [OF settle_room(2)] traders_known_kept [OF settle_room(3) holdings_kept_keys [OF c(4)]]
    by (simp add: o up demo_call_def)
  then show thesis using that [OF place o(2-4)] c(1) by (auto simp: sy)
qed

text \<open>C7: An order that is accepted settles as double-entry bookkeeping. Reserving, the trades, the clean-up
  of finished orders and writing the players back together do to the stored accounts exactly what posting the
  order's trades one after the other does to the ledger: each takes price times quantity and the charges from
  the buyer, pays price times quantity less charges to the seller, moves the shares and books the charges for
  the house. Everybody must hold what he sells; the other bounds exclude wrap-around only.\<close>
theorem handlePlaceOrder_posts_trades:
  fixes rq :: action_request and pl :: place_payload
  defines "sy \<equiv> to_upper (trim_space (pp_order_symbol pl))"
  assumes "players_ok (players_of g)" and "requirePlayer (rq_player_id rq) g = Inr p" and "pd_place (rq_payload rq) = Some pl"
    and "reserve (c_env c 0) p sy (parse_side (pp_order_side pl)) (parse_type (pp_order_type pl)) (pp_order_price pl)
           (pp_order_quantity pl) g = (Inr (cash, held, p1), g1)"
    and "PlaceOrder (c_env c 1) (place_request rq p1 sy pl) (g_market g1) = (Inr out, x)"
    and "handlePlaceOrder c rq g = (Inr reply, g')" and "ranges_keys (c_player_range c)"
    and "trades_ok (po_trades out)" and "room (po_trades out) (accounts_of g)" and "traders_known (po_trades out) (accounts_of g)"
  shows "\<exists>cs. list_all2 (charge_ok (o_type (po_order out)) (o_id (po_order out))) (po_trades out) cs \<and>
    ledger_of (h + charges_total cs) (accounts_of g') = foldl post (ledger_of h (accounts_of g)) (zip (po_trades out) cs)"
  by (rule place_order_accounts [OF assms(2-7) [unfolded sy_def] assms(8-11), where h = h]) blast

theorem handlePlaceOrder_posts_trades_witness:
  "\<exists>reply g'. handlePlaceOrder demo_call settle_request settle_game = (Inr reply, g') \<and>
     cash_in (accounts_of g') ''id-ann'' = 799 \<and> shares_in (accounts_of g') ''id-ann'' ''ACME'' = 2 \<and>
     shares_in (accounts_of g') ''id-bob'' ''ACME'' = 5"
proof -
  obtain out x reply g' where o: "PlaceOrder (c_env demo_call 1)
       (place_request settle_request settle_payer (to_upper (trim_space (pp_order_symbol settle_buy))) settle_buy)
       (g_market settle_game) = (Inr out, x)"
    "po_trades out = [settle_fill]" "o_id (po_order out) = ''r''" "o_type (po_order out) = OrderTypeLimit"
    and run: "handlePlaceOrder demo_call settle_request settle_game = (Inr reply, g')"
    by (rule settle_runs)
  have "requirePlayer (rq_player_id settle_request) settle_game = Inr (demo_player ''ann'' 1000)"
    using settle_game_facts(2) by (simp add: demo_request_def)
  from handlePlaceOrder_posts_trades [OF settle_game_facts(1) this _ settle_reserves o(1) run settle_room(4), of 0]
  obtain cs where cs: "list_all2 (charge_ok OrderTypeLimit ''r'') [settle_fill] cs"
    "ledger_of (0 + charges_total cs) (accounts_of g') = foldl post (ledger_of 0 (accounts_of settle_game)) (zip [settle_fill] cs)"
    using settle_room(1-3) by (auto simp: o demo_request_def)
  from cs(1) obtain b s where c: "cs = [(b, s)]" "b = 1"
    by (auto simp: list_all2_Cons1 charge_ok_def settle_fill_def estimateExchangeFee_def bpsCharge_def exchangeFeeBps_def int64_simps in64_def Let_def)
  have "cash_in (accounts_of g') = lg_cash (ledger_of (0 + charges_total cs) (accounts_of g'))"
    "shares_in (accounts_of g') = lg_shares (ledger_of (0 + charges_total cs) (accounts_of g'))" by (simp_all add: ledger_of_def)
  then have "cash_in (accounts_of g') ''id-ann'' = 799" "shares_in (accounts_of g') ''id-ann'' ''ACME'' = 2"
    "shares_in (accounts_of g') ''id-bob'' ''ACME'' = 5"
    unfolding cs(2)
    by (simp_all add: c post_def Let_def settle_fill_def ledger_of_def settle_game_facts(6) demo_player_def demo_holder_def
        set_stock_def stock_def getz_def cash_in_def shares_in_def)
  then show ?thesis using run by blast
qed

text \<open>A seller who holds fewer shares than the trade sells ends with none and the buyer gets the full quantity: the
  shares that were missing have come into being.\<close>
theorem oversold_shares_appear:
  assumes "view_player a (t_buyer_id t) = Some pb" and "view_player a (t_seller_id t) = Some ps"
    and "t_buyer_id t \<noteq> t_seller_id t" and "0 \<le> stock ps (t_symbol t)" and "stock ps (t_symbol t) < t_quantity t"
    and "0 \<le> stock pb (t_symbol t)" and "stock pb (t_symbol t) + t_quantity t < 2 ^ 63"
  shows "\<exists>a' pb' ps'. applyTrade t inc a = (None, a') \<and> view_player a' (t_buyer_id t) = Some pb' \<and>
     view_player a' (t_seller_id t) = Some ps' \<and> stock ps' (t_symbol t) = 0 \<and>
     stock pb' (t_symbol t) + stock ps' (t_symbol t) =
       stock pb (t_symbol t) + stock ps (t_symbol t) + (t_quantity t - stock ps (t_symbol t))"
proof -
  let ?sy = "t_symbol t" and ?q = "t_quantity t"
  obtain a' ps1 flip d x c1 c2 where run: "applyTrade t inc a = (None, a')" and c: "consumeLotsForSale ?sy ?q (t_executed_at t) ps = (flip, ps1)"
    and v: "view_player a' = (let v1 = (view_player a)(t_seller_id t \<mapsto> ps1);
        v2 = v1(t_buyer_id t := map_option (released_cash c1 (t_buy_order_id t) inc d \<circ> buyer_pays t d) (v1 (t_buyer_id t)))
      in v2(t_seller_id t := map_option (released_stock c2 (t_sell_order_id t) inc ?sy ?q \<circ> seller_gets t x) (v2 (t_seller_id t))))"
    by (rule applyTrade_run [OF assms(1,2) refl refl refl, where thesis = thesis]) (auto intro: that)
  have "stock ps1 ?sy = stock ps ?sy" using consumeLots_cash [OF c] by simp
  moreover have "in64 (stock ps ?sy - ?q)" "in64 (stock pb ?sy + ?q)" using assms(4-7) by (simp_all add: in64_def)
  ultimately show ?thesis using run assms by (simp add: v Let_def clamp0_def int64_simps)
qed

theorem oversold_shares_appear_witness:
  "\<exists>a' pb' ps'. applyTrade (demo_trade\<lparr>t_quantity := 9\<rparr>) ''b'' (demo_accounts 1000) = (None, a') \<and>
     view_player a' ''id-ann'' = Some pb' \<and> view_player a' ''id-bob'' = Some ps' \<and> stock ps' ''ACME'' = 0 \<and> stock pb' ''ACME'' + stock ps' ''ACME'' = 9"
proof -
  have "view_player (demo_accounts 1000) ''id-ann'' = Some ((demo_player ''ann'' 1000)\<lparr>p_reserved_cash := 203\<rparr>)"
    "view_player (demo_accounts 1000) ''id-bob'' = Some (set_stock ''ACME'' 7 demo_holder)"
    by (simp_all add: view_player_def demo_accounts_def PlayerStore_GetByPlayerID_def clonePlayer_def demo_player_def
        demo_holder_def set_stock_def)
  with oversold_shares_appear [of "demo_accounts 1000" "demo_trade\<lparr>t_quantity := 9\<rparr>"
      "(demo_player ''ann'' 1000)\<lparr>p_reserved_cash := 203\<rparr>" "set_stock ''ACME'' 7 demo_holder" "''b''"]
  show ?thesis by (simp add: demo_trade_def demo_player_def demo_holder_def set_stock_def stock_def getz_def)
qed

text \<open>C8: Accepting an order makes no money and no shares as long as every seller holds what he sells:
  all players together lose exactly what the order's trades are charged, which is never negative
  and at most five times their value, and the number of shares of every ticker in the players' hands stays the same.
  The condition on the sellers is the one of C7 and is needed, since the code sets the stock of a seller who does
  not hold enough to zero, which \<open>oversold_shares_appear\<close> shows; the other bounds exclude wrap-around only.\<close>
theorem handlePlaceOrder_conserves:
  fixes rq :: action_request and pl :: place_payload
  defines "sy \<equiv> to_upper (trim_space (pp_order_symbol pl))"
  assumes "players_ok (players_of g)" and "requirePlayer (rq_player_id rq) g = Inr p" and "pd_place (rq_payload rq) = Some pl"
    and "reserve (c_env c 0) p sy (parse_side (pp_order_side pl)) (parse_type (pp_order_type pl)) (pp_order_price pl)
           (pp_order_quantity pl) g = (Inr (cash, held, p1), g1)"
    and "PlaceOrder (c_env c 1) (place_request rq p1 sy pl) (g_market g1) = (Inr out, x)"
    and "handlePlaceOrder c rq g = (Inr reply, g')" and "ranges_keys (c_player_range c)"
    and "trades_ok (po_trades out)" and "room (po_trades out) (accounts_of g)" and "traders_known (po_trades out) (accounts_of g)"
  shows "\<exists>cs. list_all2 (charge_ok (o_type (po_order out)) (o_id (po_order out))) (po_trades out) cs \<and>
    total_cash g' = total_cash g - charges_total cs \<and> 0 \<le> charges_total cs \<and> charges_total cs \<le> 5 * turnover (po_trades out) \<and>
    total_shares g' ticker = total_shares g ticker"
proof -
  obtain cs where cs: "list_all2 (charge_ok (o_type (po_order out)) (o_id (po_order out))) (po_trades out) cs"
    "ledger_of (0 + charges_total cs) (accounts_of g') = foldl post (ledger_of 0 (accounts_of g)) (zip (po_trades out) cs)"
    "same_keys (accounts_of g) (accounts_of g')" "players_ok (players_of g')"
    by (rule place_order_accounts [OF assms(2-7) [unfolded sy_def] assms(8-11), where h = 0])
  let ?I = "dom (accounts_of g)"
  have I: "dom (accounts_of g') = ?I" by (simp add: dom_def same_keys_None [OF cs(3)])
  have fin: "finite ?I"
    using finite_subset [of ?I "(p_id \<circ> snd) ` set (players_of g)"] by (force simp: accounts_of_require requirePlayer_Inr [OF assms(2)])
  have "\<forall>t \<in> set (po_trades out). t_buyer_id t \<in> ?I \<and> t_seller_id t \<in> ?I" using assms(11) by (auto simp: traders_known_def)
  note b = posts_balanced [OF fin this, of "ledger_of 0 (accounts_of g)" cs, folded cs(2)]
  have "total_cash g' + charges_total cs = total_cash g" "total_shares g' ticker = total_shares g ticker"
    using b [of ticker] totals_ledger [OF assms(2), where h = 0] totals_ledger [OF cs(4), where h = "0 + charges_total cs"]
    by (simp_all add: I) (simp_all add: ledger_of_def)
  then show ?thesis using cs(1) charges_total_bounds [OF cs(1) assms(9)] by (intro exI [of _ cs]) simp
qed

theorem handlePlaceOrder_conserves_witness:
  "\<exists>reply g'. handlePlaceOrder demo_call settle_request settle_game = (Inr reply, g') \<and>
     total_cash g' \<le> 1050 \<and> 50 \<le> total_cash g' \<and> total_shares g' ''ACME'' = 7"
proof -
  obtain out x reply g' where o: "PlaceOrder (c_env demo_call 1)
       (place_request settle_request settle_payer (to_upper (trim_space (pp_order_symbol settle_buy))) settle_buy)
       (g_market settle_game) = (Inr out, x)"
    "po_trades out = [settle_fill]" "o_id (po_order out) = ''r''" "o_type (po_order out) = OrderTypeLimit"
    and run: "handlePlaceOrder demo_call settle_request settle_game = (Inr reply, g')"
    by (rule settle_runs)
  have "requirePlayer (rq_player_id settle_request) settle_game = Inr (demo_player ''ann'' 1000)"
    using settle_game_facts(2) by (simp add: demo_request_def)
  from handlePlaceOrder_conserves [OF settle_game_facts(1) this _ settle_reserves o(1) run settle_room(4), of "''ACME''"]
  obtain cs where "total_cash g' = total_cash settle_game - charges_total cs" "0 \<le> charges_total cs" "charges_total cs \<le> 5 * turnover [settle_fill]"
    "total_shares g' ''ACME'' = total_shares settle_game ''ACME''"
    using settle_room(1-3) by (auto simp: o demo_request_def)
  then show ?thesis using run
    by (simp add: total_cash_def total_shares_def players_of_def settle_game_def demo_player_def demo_holder_def set_stock_def stock_def
        getz_def settle_fill_def)
qed

end
