(* ===== verification/Gateway.thy ===== *)
theory Gateway
  imports LoginProps
begin

text \<open>
  The start of the SSH gateway (\<^verbatim>\<open>cmd/ssh-server/main.go\<close>): the addresses it listens on and announces, which it takes
  from the environment, and what a login on the running gateway prints. \<open>SplitHostPort\<close> and \<open>JoinHostPort\<close> are the
  functions of \<^verbatim>\<open>net\<close>; an environment gives every variable a text, the empty one when it is not set.
\<close>

section \<open>Hosts and ports\<close>

fun split_last :: "char \<Rightarrow> string \<Rightarrow> (string \<times> string) option" where
  "split_last c [] = None"
| "split_last c (x # xs) =
     (case split_last c xs of Some (a, b) \<Rightarrow> Some (x # a, b) | None \<Rightarrow> (if x = c then Some ([], xs) else None))"

abbreviation colon :: char where "colon \<equiv> CHR '':''"

definition SplitHostPort :: "string \<Rightarrow> (string \<times> string) option" where
  "SplitHostPort s =
     (case split_last colon s of
        None \<Rightarrow> None
      | Some (before, port) \<Rightarrow>
          if prefix ''['' s
          then (let inner = tl s; host = takeWhile (\<lambda>c. c \<noteq> CHR '']'') inner; rest = dropWhile (\<lambda>c. c \<noteq> CHR '']'') inner
                in if rest = CHR '']'' # colon # port \<and> CHR ''['' \<notin> set inner \<and> CHR '']'' \<notin> set port then Some (host, port) else None)
          else if colon \<in> set before \<or> CHR ''['' \<in> set s \<or> CHR '']'' \<in> set s then None
          else Some (before, port))"

definition JoinHostPort :: "string \<Rightarrow> string \<Rightarrow> string" where
  "JoinHostPort host port = (if colon \<in> set host then CHR ''['' # host @ CHR '']'' # colon # port else host @ colon # port)"

definition remoteIP :: "string \<Rightarrow> string" where
  "remoteIP addr = (case SplitHostPort addr of None \<Rightarrow> addr | Some (host, _) \<Rightarrow> host)"

section \<open>What the gateway announces\<close>

definition publicListenAddr :: "string \<Rightarrow> string \<Rightarrow> string" where
  "publicListenAddr addr fallback =
     (let trimmed = trim_space addr in
      if trimmed = [] then fallback @ '':2222''
      else if prefix '':'' trimmed then fallback @ trimmed
      else (case SplitHostPort trimmed of
              None \<Rightarrow> trimmed
            | Some (host, port) \<Rightarrow>
                JoinHostPort (if host = [] \<or> host = ''0.0.0.0'' \<or> host = ''::'' then fallback else host) port))"

type_synonym environment = "string \<Rightarrow> string"

definition env_or :: "environment \<Rightarrow> string \<Rightarrow> string \<Rightarrow> string" where
  "env_or env key fallback = envOr (Some (env key)) fallback"

datatype host_key = KeyFile string | InMemoryKey

record gateway =
  gw_listen :: string
  gw_host_key :: host_key
  gw_grpc_target :: string
  gw_grpc_public :: string
  gw_ssh_public :: string
  gw_idle_timeout :: duration
  gw_max_timeout :: duration

text \<open>\<open>exists\<close> tells which files are there. \<open>None\<close>: the client of the game server could not be created.\<close>

definition gateway_start :: "environment \<Rightarrow> (string \<Rightarrow> bool) \<Rightarrow> bool \<Rightarrow> gateway option" where
  "gateway_start env exists dialled =
     (let addr = env_or env ''SSH_LISTEN_ADDR'' '':2222'';
          key = env_or env ''SSH_HOST_KEY_PATH'' ''./config/dev/ssh_host_ed25519'';
          target = env_or env ''GRPC_GAME_ADDR'' (env_or env ''GRPC_LISTEN_ADDR'' ''127.0.0.1:9090'')
      in if \<not> dialled then None
         else Some \<lparr>gw_listen = addr, gw_host_key = (if exists key then KeyFile key else InMemoryKey), gw_grpc_target = target,
                gw_grpc_public = env_or env ''GRPC_PUBLIC_ADDR'' target,
                gw_ssh_public = env_or env ''SSH_PUBLIC_ADDR'' (publicListenAddr addr ''localhost''),
                gw_idle_timeout = 2 * minute, gw_max_timeout = 10 * minute\<rparr>)"

definition raw_client :: "string \<Rightarrow> string" where
  "raw_client path = ''https://raw.githubusercontent.com/Cricko7/ssh-arena/main/'' @ path"

definition urls_of :: "environment \<Rightarrow> install_urls" where
  "urls_of env =
     \<lparr>iu_ps1 = env_or env ''CLIENT_INSTALL_PS1_URL'' (raw_client ''scripts/install-client.ps1''),
      iu_sh = env_or env ''CLIENT_INSTALL_SH_URL'' (raw_client ''scripts/install-client.sh''),
      iu_exe = env_or env ''CLIENT_BINARY_EXE_URL'' (raw_client ''bin/game-client.exe'')\<rparr>"

definition gateway_login ::
  "environment \<Rightarrow> gateway \<Rightarrow> (game_error \<Rightarrow> string) \<Rightarrow> call \<Rightarrow> string \<Rightarrow> credential \<Rightarrow> service \<Rightarrow> gateway_line list option \<times> service" where
  "gateway_login env gw describe c user cr s =
     gateway_session (urls_of env) describe (gw_grpc_public gw) (gw_ssh_public gw) c user cr s"

section \<open>Splitting what was joined\<close>

lemma split_last_None: "split_last c xs = None \<longleftrightarrow> c \<notin> set xs"
  by (induction xs) (auto split: option.split)

lemma split_last_append: "c \<notin> set b \<Longrightarrow> split_last c (a @ c # b) = Some (a, b)"
proof (induction a)
  case Nil
  then have "split_last c b = None" by (simp add: split_last_None)
  then show ?case by simp
qed simp

definition plain_host :: "string \<Rightarrow> bool" where
  "plain_host h \<longleftrightarrow> CHR ''['' \<notin> set h \<and> CHR '']'' \<notin> set h"

definition plain_port :: "string \<Rightarrow> bool" where
  "plain_port p \<longleftrightarrow> plain_host p \<and> colon \<notin> set p"

lemma SplitHostPort_JoinHostPort:
  assumes "plain_host h" "plain_port p"
  shows "SplitHostPort (JoinHostPort h p) = Some (h, p)"
proof (cases "colon \<in> set h")
  case True
  have "split_last colon (CHR ''['' # (h @ [CHR '']'']) @ colon # p) = Some (CHR ''['' # h @ [CHR '']''], p)"
    using split_last_append [of colon p "CHR ''['' # h @ [CHR '']'']"] assms(2) by (simp add: plain_port_def)
  moreover have "takeWhile (\<lambda>c. c \<noteq> CHR '']'') (h @ CHR '']'' # colon # p) = h"
    "dropWhile (\<lambda>c. c \<noteq> CHR '']'') (h @ CHR '']'' # colon # p) = CHR '']'' # colon # p"
    using assms(1) by (auto simp: plain_host_def takeWhile_append dropWhile_append)
  ultimately show ?thesis using True assms by (simp add: SplitHostPort_def JoinHostPort_def Let_def plain_port_def plain_host_def)
next
  case False
  have "split_last colon (h @ colon # p) = Some (h, p)" using assms(2) by (simp add: split_last_append plain_port_def)
  moreover have "\<not> prefix ''['' (h @ colon # p)" using assms(1) by (cases h) (auto simp: plain_host_def)
  ultimately show ?thesis
    using False assms by (auto simp: SplitHostPort_def JoinHostPort_def plain_host_def plain_port_def)
qed

lemma publicListenAddr_joined:
  assumes "plain_host h" "plain_port p" and t: "trim_space (JoinHostPort h p) = JoinHostPort h p"
    and fb: "colon \<notin> set fallback"
  shows "publicListenAddr (JoinHostPort h p) fallback =
    JoinHostPort (if h = [] \<or> h = ''0.0.0.0'' \<or> h = ''::'' then fallback else h) p"
proof (cases "h = []")
  case True
  then show ?thesis using t fb by (simp add: publicListenAddr_def JoinHostPort_def)
next
  case False
  have "JoinHostPort h p \<noteq> []" by (simp add: JoinHostPort_def)
  moreover have "\<not> prefix '':'' (JoinHostPort h p)"
    using False by (cases h) (auto simp: JoinHostPort_def)
  ultimately show ?thesis using t SplitHostPort_JoinHostPort [OF assms(1,2)] False by (simp add: publicListenAddr_def)
qed

text \<open>Without an own public address the gateway announces its listener: the host it listens on, or
  \<^verbatim>\<open>localhost\<close> when that host is empty or means every interface, with the same port; a login that succeeds prints
  this address. The address of the game server is announced as it was configured: a bare
  \<^verbatim>\<open>:9090\<close> stays one.\<close>
theorem gateway_announces_listener:
  assumes "gateway_start env exists True = Some gw" and "trim_space (env ''SSH_PUBLIC_ADDR'') = []"
    and "env ''SSH_LISTEN_ADDR'' = JoinHostPort h p" and "plain_host h" and "plain_port p"
    and "trim_space (JoinHostPort h p) = JoinHostPort h p"
    and "trim_space (env ''GRPC_PUBLIC_ADDR'') = []" and "trim_space (env ''GRPC_GAME_ADDR'') \<noteq> []"
    and "gateway_login env gw describe c user cr s = (Some lines, s')"
  shows "let ssh = JoinHostPort (if h = [] \<or> h = ''0.0.0.0'' \<or> h = ''::'' then ''localhost'' else h) p in
    gw_listen gw = JoinHostPort h p \<and> gw_ssh_public gw = ssh \<and> gw_grpc_public gw = env ''GRPC_GAME_ADDR'' \<and>
    SplitHostPort ssh = Some (if h = [] \<or> h = ''0.0.0.0'' \<or> h = ''::'' then ''localhost'' else h, p) \<and>
    (BootstrapLine en \<in> set lines \<longleftrightarrow> fst (rpc_EnsurePlayer c user s) = Inr en) \<and>
    (isl (fst (rpc_EnsurePlayer c user s)) \<or>
      TextLine (''ssh_endpoint='' @ ssh) \<in> set lines \<and> TextLine (''grpc_endpoint='' @ env ''GRPC_GAME_ADDR'') \<in> set lines)"
proof -
  let ?h = "if h = [] \<or> h = ''0.0.0.0'' \<or> h = ''::'' then ''localhost'' else h"
  have j: "JoinHostPort h p \<noteq> []" by (simp add: JoinHostPort_def)
  have gw: "gw_listen gw = JoinHostPort h p" "gw_ssh_public gw = JoinHostPort ?h p" "gw_grpc_public gw = env ''GRPC_GAME_ADDR''"
    using assms(1-3,6-8) j publicListenAddr_joined [OF assms(4-6), of "''localhost''"]
    by (auto simp: gateway_start_def env_or_def envOr_def Let_def)
  have "plain_host ?h" using assms(4) by (simp add: plain_host_def)
  then have split: "SplitHostPort (JoinHostPort ?h p) = Some (?h, p)" by (rule SplitHostPort_JoinHostPort [OF _ assms(5)])
  have lines: "lines = sessionHandler (urls_of env) describe (gw_grpc_public gw) (gw_ssh_public gw) user (fst (rpc_EnsurePlayer c user s))"
    using assms(9) by (auto simp: gateway_login_def gateway_session_def split: if_splits prod.splits)
  show ?thesis
    unfolding Let_def using gw split by (cases "fst (rpc_EnsurePlayer c user s)") (auto simp: lines sessionHandler_def Let_def)
qed

definition demo_environment :: environment where
  "demo_environment = (\<lambda>_. [])(''SSH_LISTEN_ADDR'' := ''[::]:2222'', ''GRPC_GAME_ADDR'' := '':9090'')"

theorem gateway_announces_listener_witness:
  "\<exists>gw lines s'. gateway_start demo_environment (\<lambda>_. False) True = Some gw \<and>
     gateway_login demo_environment gw (\<lambda>_. []) demo_call ''ann'' (Password ''correct-horse'') demo_sv = (Some lines, s') \<and>
     TextLine ''ssh_endpoint=localhost:2222'' \<in> set lines \<and> TextLine ''grpc_endpoint=:9090'' \<in> set lines"
proof -
  obtain gw where gw: "gateway_start demo_environment (\<lambda>_. False) True = Some gw" by (simp add: gateway_start_def Let_def)
  obtain en s1 where en: "rpc_EnsurePlayer demo_call ''ann'' demo_sv = (Inr en, s1)" using demo_login by blast
  obtain lines s' where run: "gateway_login demo_environment gw (\<lambda>_. []) demo_call ''ann'' (Password ''correct-horse'') demo_sv = (Some lines, s')"
    by (simp add: gateway_login_def gateway_session_def authenticated_def passwordHandler_def en)
  have "trim_space (JoinHostPort ''::'' ''2222'') = JoinHostPort ''::'' ''2222''" "JoinHostPort ''::'' ''2222'' = ''[::]:2222''"
    "trim_space (demo_environment ''GRPC_GAME_ADDR'') \<noteq> []" "trim_space [] = []"
    by (simp_all add: JoinHostPort_def trim_space_def is_space_def demo_environment_def)
  then have "TextLine (''ssh_endpoint='' @ JoinHostPort ''localhost'' ''2222'') \<in> set lines \<and> TextLine (''grpc_endpoint='' @ '':9090'') \<in> set lines"
    using gateway_announces_listener [OF gw _ _ _ _ _ _ _ run, of "''::''" "''2222''"] en
    by (simp add: demo_environment_def plain_host_def plain_port_def Let_def)
  then show ?thesis using gw run by (auto simp: JoinHostPort_def)
qed

end
