(* ===== verification/Json.thy ===== *)
theory Json
  imports ScanProps "HOL-Library.List_Lexorder" "HOL-Library.Char_ord"
begin

text \<open>
  The codec of the transport (\<^verbatim>\<open>internal/grpcjson\<close>): \<^verbatim>\<open>json.Marshal\<close> and \<^verbatim>\<open>json.Unmarshal\<close> on the messages of the
  services, structs of texts, 64 and 32 bit integers, flags, lists of texts and maps of texts, all of their fields
  marked \<^verbatim>\<open>omitempty\<close>. The writer is compact and escapes what Go escapes; the reader accepts any JSON text, skips
  unknown fields and white space, matches names up to case, and reports a value of the wrong type as an error.
  Text is ASCII, \<^verbatim>\<open>\u\<close> escapes excepted; the nesting limit of 10000 is left out.
\<close>

datatype json = JNull | JBool bool | JNumber string | JString string | JArray "json list" | JObject "(string \<times> json) list"

section \<open>Writing\<close>

abbreviation quote :: char where "quote \<equiv> CHR 0x22"
abbreviation backslash :: char where "backslash \<equiv> CHR 0x5C"

definition hex_digit :: "nat \<Rightarrow> char" where
  "hex_digit n = ''0123456789abcdef'' ! n"

definition escape_char :: "char \<Rightarrow> string" where
  "escape_char c =
     (let n = of_char c :: nat in
      if c = quote \<or> c = backslash then [backslash, c]
      else if n = 8 then [backslash, CHR ''b'']
      else if n = 9 then [backslash, CHR ''t'']
      else if n = 10 then [backslash, CHR ''n'']
      else if n = 12 then [backslash, CHR ''f'']
      else if n = 13 then [backslash, CHR ''r'']
      else if n < 32 \<or> c = CHR ''<'' \<or> c = CHR ''>'' \<or> c = CHR ''&''
        then backslash # ''u00'' @ [hex_digit (n div 16), hex_digit (n mod 16)]
      else [c])"

definition string_text :: "string \<Rightarrow> string" where
  "string_text s = quote # concat (map escape_char s) @ [quote]"

fun comma_join :: "string list \<Rightarrow> string" where
  "comma_join [] = []"
| "comma_join [s] = s"
| "comma_join (s # t # ss) = s @ CHR '','' # comma_join (t # ss)"

fun json_text :: "json \<Rightarrow> string" where
  "json_text JNull = ''null''"
| "json_text (JBool b) = (if b then ''true'' else ''false'')"
| "json_text (JNumber t) = t"
| "json_text (JString s) = string_text s"
| "json_text (JArray vs) = CHR ''['' # comma_join (map json_text vs) @ '']''"
| "json_text (JObject kvs) = CHR ''{'' # comma_join (map (\<lambda>(k, v). string_text k @ CHR '':'' # json_text v) kvs) @ ''}''"

section \<open>Reading\<close>

definition json_space :: "char \<Rightarrow> bool" where
  "json_space c \<longleftrightarrow> c \<in> {CHR '' '', CHR 0x09, CHR 0x0A, CHR 0x0D}"

abbreviation skip_ws :: "string \<Rightarrow> string" where
  "skip_ws \<equiv> dropWhile json_space"

definition hex_value :: "char \<Rightarrow> nat option" where
  "hex_value c =
     (let n = of_char c :: nat in
      if 48 \<le> n \<and> n \<le> 57 then Some (n - 48)
      else if 97 \<le> n \<and> n \<le> 102 then Some (n - 87)
      else if 65 \<le> n \<and> n \<le> 70 then Some (n - 55)
      else None)"

definition hex4 :: "string \<Rightarrow> nat option" where
  "hex4 s =
     (case map hex_value s of
        [Some a, Some b, Some c, Some d] \<Rightarrow> Some (((a * 16 + b) * 16 + c) * 16 + d)
      | _ \<Rightarrow> None)"

definition utf8 :: "nat \<Rightarrow> string" where
  "utf8 n =
     map char_of
       (if n < 0x80 then [n]
        else if n < 0x800 then [0xC0 + n div 64, 0x80 + n mod 64]
        else if n < 0x10000 then [0xE0 + n div 4096, 0x80 + n div 64 mod 64, 0x80 + n mod 64]
        else [0xF0 + n div 262144, 0x80 + n div 4096 mod 64, 0x80 + n div 64 mod 64, 0x80 + n mod 64])"

text \<open>Behind \<^verbatim>\<open>\u\<close>: the text of the code point and the input left. Two surrogates are one code point, a lone one is
  the replacement character.\<close>

definition unicode_escape :: "string \<Rightarrow> (string \<times> string) option" where
  "unicode_escape s =
     (case hex4 (take 4 s) of
        None \<Rightarrow> None
      | Some n \<Rightarrow>
          (let rest = drop 4 s in
           if 0xD800 \<le> n \<and> n < 0xE000
           then (case (if prefix (backslash # ''u'') rest then hex4 (take 4 (drop 2 rest)) else None) of
                   Some m \<Rightarrow>
                     (if n < 0xDC00 \<and> 0xDC00 \<le> m \<and> m < 0xE000
                      then Some (utf8 ((n - 0xD800) * 1024 + (m - 0xDC00) + 0x10000), drop 6 rest)
                      else Some (utf8 0xFFFD, rest))
                 | None \<Rightarrow> Some (utf8 0xFFFD, rest))
           else Some (utf8 n, rest)))"

definition simple_escape :: "char \<Rightarrow> char option" where
  "simple_escape e =
     (if e = quote \<or> e = backslash \<or> e = CHR ''/'' then Some e
      else map_of [(CHR ''b'', CHR 0x08), (CHR ''f'', CHR 0x0C), (CHR ''n'', CHR 0x0A), (CHR ''r'', CHR 0x0D), (CHR ''t'', CHR 0x09)] e)"

text \<open>One element of a string: its text and the input left.\<close>

definition string_element :: "char \<Rightarrow> string \<Rightarrow> (string \<times> string) option" where
  "string_element c cs =
     (if c = backslash
      then (case cs of
              [] \<Rightarrow> None
            | e # es \<Rightarrow> if e = CHR ''u'' then unicode_escape es else map_option (\<lambda>x. ([x], es)) (simple_escape e))
      else if (of_char c :: nat) < 32 then None
      else Some ([c], cs))"

lemma unicode_escape_shorter: "unicode_escape s = Some (t, r) \<Longrightarrow> length r \<le> length s"
  by (auto simp: unicode_escape_def Let_def split: option.splits if_splits)

lemma string_element_shorter: "string_element c cs = Some (t, r) \<Longrightarrow> length r \<le> length cs"
  by (auto simp: string_element_def split: if_splits list.splits dest: unicode_escape_shorter)

text \<open>The rest of a string, behind its opening quote.\<close>

function string_body :: "string \<Rightarrow> (string \<times> string) option" where
  "string_body [] = None"
| "string_body (c # cs) =
     (if c = quote then Some ([], cs)
      else (case string_element c cs of
              None \<Rightarrow> None
            | Some (t, r) \<Rightarrow> map_option (\<lambda>(u, r'). (t @ u, r')) (string_body r)))"
  by pat_completeness auto
termination
  by (relation "measure length") (auto dest: string_element_shorter)

definition digits_of :: "string \<Rightarrow> string" where
  "digits_of s = takeWhile is_digit s"

text \<open>A number token: an optional sign, an integer without a leading zero, an optional fraction and exponent. Each
  part is read with the input left behind it.\<close>

definition sign_part :: "string \<Rightarrow> string \<times> string" where
  "sign_part s = (if prefix ''-'' s then (''-'', tl s) else ([], s))"

definition whole_part :: "string \<Rightarrow> string \<times> string" where
  "whole_part s = (if prefix ''0'' s then (''0'', tl s) else (takeWhile is_digit s, dropWhile is_digit s))"

definition frac_part :: "string \<Rightarrow> string \<times> string" where
  "frac_part s = (if prefix ''.'' s then (CHR ''.'' # takeWhile is_digit (tl s), dropWhile is_digit (tl s)) else ([], s))"

definition exp_part :: "string \<Rightarrow> string \<times> string" where
  "exp_part s =
     (if prefix ''e'' s \<or> prefix ''E'' s
      then (let n = (if prefix ''+'' (tl s) \<or> prefix ''-'' (tl s) then 2 else 1)
            in (take n s @ takeWhile is_digit (drop n s), dropWhile is_digit (drop n s)))
      else ([], s))"

definition number_token :: "string \<Rightarrow> (string \<times> string) option" where
  "number_token s =
     (case sign_part s of (sign, s1) \<Rightarrow> case whole_part s1 of (whole, s2) \<Rightarrow>
      case frac_part s2 of (fraction, s3) \<Rightarrow> case exp_part s3 of (expo, s4) \<Rightarrow>
        if whole = [] \<or> length fraction = 1 \<or> (expo \<noteq> [] \<and> \<not> is_digit (last expo)) then None
        else Some (sign @ whole @ fraction @ expo, s4))"

definition literal_value :: "string \<Rightarrow> (json \<times> string) option" where
  "literal_value s =
     (if prefix ''true'' s then Some (JBool True, drop 4 s)
      else if prefix ''false'' s then Some (JBool False, drop 5 s)
      else if prefix ''null'' s then Some (JNull, drop 4 s)
      else map_option (\<lambda>(t, r). (JNumber t, r)) (number_token s))"

text \<open>Behind an element of a list or an object: another one follows, or the closing bracket.\<close>

definition after_element :: "char \<Rightarrow> string \<Rightarrow> (bool \<times> string) option" where
  "after_element close s =
     (case skip_ws s of
        [] \<Rightarrow> None
      | c # cs \<Rightarrow> if c = CHR '','' then Some (True, cs) else if c = close then Some (False, cs) else None)"

definition member_key :: "string \<Rightarrow> (string \<times> string) option" where
  "member_key s =
     (case skip_ws s of
        [] \<Rightarrow> None
      | c # cs \<Rightarrow>
          (if c \<noteq> quote then None
           else (case string_body cs of
                   None \<Rightarrow> None
                 | Some (k, r) \<Rightarrow>
                     (case skip_ws r of [] \<Rightarrow> None | d # ds \<Rightarrow> if d = CHR '':'' then Some (k, ds) else None))))"

fun parse_value :: "nat \<Rightarrow> string \<Rightarrow> (json \<times> string) option"
  and parse_elements :: "nat \<Rightarrow> string \<Rightarrow> (json list \<times> string) option"
  and parse_members :: "nat \<Rightarrow> string \<Rightarrow> ((string \<times> json) list \<times> string) option" where
  "parse_value 0 s = None"
| "parse_value (Suc n) s =
     (case skip_ws s of
        [] \<Rightarrow> None
      | c # cs \<Rightarrow>
          (if c = quote then map_option (\<lambda>(t, r). (JString t, r)) (string_body cs)
           else if c = CHR ''['' then
             (if prefix '']'' (skip_ws cs) then Some (JArray [], tl (skip_ws cs))
              else map_option (\<lambda>(vs, r). (JArray vs, r)) (parse_elements n cs))
           else if c = CHR ''{'' then
             (if prefix ''}'' (skip_ws cs) then Some (JObject [], tl (skip_ws cs))
              else map_option (\<lambda>(kvs, r). (JObject kvs, r)) (parse_members n cs))
           else literal_value (c # cs)))"
| "parse_elements 0 s = None"
| "parse_elements (Suc n) s =
     (case parse_value n s of
        None \<Rightarrow> None
      | Some (v, r) \<Rightarrow>
          (case after_element (CHR '']'') r of
             None \<Rightarrow> None
           | Some (again, r') \<Rightarrow> if again then map_option (\<lambda>(vs, q). (v # vs, q)) (parse_elements n r') else Some ([v], r')))"
| "parse_members 0 s = None"
| "parse_members (Suc n) s =
     (case member_key s of
        None \<Rightarrow> None
      | Some (k, r0) \<Rightarrow>
          (case parse_value n r0 of
             None \<Rightarrow> None
           | Some (v, r) \<Rightarrow>
               (case after_element (CHR ''}'') r of
                  None \<Rightarrow> None
                | Some (again, r') \<Rightarrow>
                    if again then map_option (\<lambda>(kvs, q). ((k, v) # kvs, q)) (parse_members n r') else Some ([(k, v)], r'))))"

definition parse_json :: "string \<Rightarrow> json option" where
  "parse_json s =
     (case parse_value (2 * length s + 1) s of
        None \<Rightarrow> None
      | Some (v, r) \<Rightarrow> if skip_ws r = [] then Some v else None)"

section \<open>Structs\<close>

datatype field = FText string | FInt64 int | FUint32 int | FFlag bool | FTexts "string list" | FMap "(string \<times> string) list"

type_synonym struct = "(string \<times> field) list"

fun zero_field :: "field \<Rightarrow> field" where
  "zero_field (FText _) = FText []"
| "zero_field (FInt64 _) = FInt64 0"
| "zero_field (FUint32 _) = FUint32 0"
| "zero_field (FFlag _) = FFlag False"
| "zero_field (FTexts _) = FTexts []"
| "zero_field (FMap _) = FMap []"

definition zero_struct :: "struct \<Rightarrow> struct" where
  "zero_struct st = map (\<lambda>(n, f). (n, zero_field f)) st"

fun field_json :: "field \<Rightarrow> json" where
  "field_json (FText s) = JString s"
| "field_json (FInt64 i) = JNumber (show_int i)"
| "field_json (FUint32 i) = JNumber (show_int i)"
| "field_json (FFlag b) = JBool b"
| "field_json (FTexts xs) = JArray (map JString xs)"
| "field_json (FMap m) = JObject (map (\<lambda>(k, v). (k, JString v)) (sort_key fst m))"

definition Marshal :: "struct \<Rightarrow> string" where
  "Marshal st = json_text (JObject (map (\<lambda>(n, f). (n, field_json f)) (filter (\<lambda>(n, f). f \<noteq> zero_field f) st)))"

text \<open>An integer token of a bounded type; a fraction or an exponent is refused.\<close>

definition int_token :: "int \<Rightarrow> int \<Rightarrow> string \<Rightarrow> int option" where
  "int_token low high t =
     (let ds = (if prefix ''-'' t then tl t else t); v = (if prefix ''-'' t then - int (read_nat ds) else int (read_nat ds)) in
      if ds \<noteq> [] \<and> list_all is_digit ds \<and> low \<le> v \<and> v < high then Some v else None)"

text \<open>A \<open>null\<close> leaves an element that is there as it is.\<close>

fun set_texts :: "string list \<Rightarrow> json list \<Rightarrow> string list option" where
  "set_texts old [] = Some []"
| "set_texts old (v # vs) =
     (case (case v of JString s \<Rightarrow> Some s | JNull \<Rightarrow> Some (case old of [] \<Rightarrow> [] | x # _ \<Rightarrow> x) | _ \<Rightarrow> None) of
        None \<Rightarrow> None
      | Some s \<Rightarrow> map_option (\<lambda>ss. s # ss) (set_texts (tl old) vs))"

fun set_map :: "(string \<times> string) list \<Rightarrow> (string \<times> json) list \<Rightarrow> (string \<times> string) list option" where
  "set_map m [] = Some m"
| "set_map m ((k, v) # kvs) =
     (case v of JString s \<Rightarrow> set_map (AList.update k s m) kvs | JNull \<Rightarrow> set_map (AList.update k [] m) kvs | _ \<Rightarrow> None)"

definition set_field :: "json \<Rightarrow> field \<Rightarrow> field option" where
  "set_field v f =
     (case f of
        FText _ \<Rightarrow> (case v of JString s \<Rightarrow> Some (FText s) | JNull \<Rightarrow> Some f | _ \<Rightarrow> None)
      | FInt64 _ \<Rightarrow> (case v of JNumber t \<Rightarrow> map_option FInt64 (int_token (- (2 ^ 63)) (2 ^ 63) t) | JNull \<Rightarrow> Some f | _ \<Rightarrow> None)
      | FUint32 _ \<Rightarrow> (case v of JNumber t \<Rightarrow> map_option FUint32 (if prefix ''-'' t then None else int_token 0 (2 ^ 32) t)
                             | JNull \<Rightarrow> Some f | _ \<Rightarrow> None)
      | FFlag _ \<Rightarrow> (case v of JBool b \<Rightarrow> Some (FFlag b) | JNull \<Rightarrow> Some f | _ \<Rightarrow> None)
      | FTexts old \<Rightarrow> (case v of JArray vs \<Rightarrow> map_option FTexts (set_texts old vs) | JNull \<Rightarrow> Some (FTexts []) | _ \<Rightarrow> None)
      | FMap m \<Rightarrow> (case v of JObject kvs \<Rightarrow> map_option FMap (set_map m kvs) | JNull \<Rightarrow> Some (FMap []) | _ \<Rightarrow> None))"

text \<open>The field of a name: the one of exactly this name, else the first that is equal up to case.\<close>

definition field_name :: "struct \<Rightarrow> string \<Rightarrow> string option" where
  "field_name st k =
     (if k \<in> fst ` set st then Some k else find (\<lambda>n. to_upper n = to_upper k) (map fst st))"

fun set_fields :: "(string \<times> json) list \<Rightarrow> struct \<Rightarrow> struct option" where
  "set_fields [] st = Some st"
| "set_fields ((k, v) # kvs) st =
     (case field_name st k of
        None \<Rightarrow> set_fields kvs st
      | Some n \<Rightarrow>
          (case set_field v (the (map_of st n)) of
             None \<Rightarrow> None
           | Some f \<Rightarrow> set_fields kvs (AList.update n f st)))"

text \<open>Decoding into a struct that is there. \<open>None\<close> is an error, of the syntax or of a type.\<close>

definition Unmarshal :: "string \<Rightarrow> struct \<Rightarrow> struct option" where
  "Unmarshal data st =
     (case parse_json data of Some (JObject kvs) \<Rightarrow> set_fields kvs st | Some JNull \<Rightarrow> Some st | _ \<Rightarrow> None)"

end
