(* ===== verification/JsonProps.thy ===== *)
theory JsonProps
  imports Json
begin

text \<open>What the reader makes of a text of the writer: the value it was written from.\<close>

section \<open>Strings\<close>

lemma hex_value_digit: "n < 16 \<Longrightarrow> hex_value (hex_digit n) = Some n"
proof -
  have "list_all (\<lambda>n. hex_value (hex_digit n) = Some n) [0..<16]" by code_simp
  then show "n < 16 \<Longrightarrow> hex_value (hex_digit n) = Some n" by (simp add: list_all_iff)
qed

lemma unicode_escape_small:
  assumes "n < 128"
  shows "unicode_escape (CHR ''0'' # CHR ''0'' # hex_digit (n div 16) # hex_digit (n mod 16) # t) = Some ([char_of n], t)"
proof -
  have "hex_value (CHR ''0'') = Some 0" by code_simp
  moreover have "hex_value (hex_digit (n div 16)) = Some (n div 16)" "hex_value (hex_digit (n mod 16)) = Some (n mod 16)"
    using assms by (simp_all add: hex_value_digit less_mult_imp_div_less)
  ultimately have "hex4 (take 4 (CHR ''0'' # CHR ''0'' # hex_digit (n div 16) # hex_digit (n mod 16) # t)) = Some n"
    by (simp add: hex4_def)
  then show ?thesis using assms by (simp add: unicode_escape_def utf8_def)
qed

lemma string_body_escaped: "string_body (escape_char c @ t) = map_option (\<lambda>(u, r). (c # u, r)) (string_body t)"
proof -
  let ?n = "of_char c :: nat"
  have ck: "c = char_of k" if "?n = k" for k using that by auto
  have codes: "char_of (8::nat) = CHR 0x08" "char_of (9::nat) = CHR 0x09" "char_of (10::nat) = CHR 0x0A" "char_of (12::nat) = CHR 0x0C"
    "char_of (13::nat) = CHR 0x0D"
    by code_simp+
  show ?thesis
  proof (cases "?n < 32 \<and> ?n \<notin> {8, 9, 10, 12, 13} \<or> c \<in> {CHR ''<'', CHR ''>'', CHR ''&''}")
    case True
    then have "?n < 128" by auto
    note u = unicode_escape_small [OF this, of t]
    have "escape_char c = backslash # ''u00'' @ [hex_digit (?n div 16), hex_digit (?n mod 16)]"
      using True by (auto simp: escape_char_def Let_def)
    then show ?thesis using u by (simp add: string_element_def)
  next
    case False
    then consider "c \<in> {quote, backslash}" | "c \<in> {CHR 0x08, CHR 0x09, CHR 0x0A, CHR 0x0C, CHR 0x0D}"
      | "?n \<ge> 32" "c \<notin> {quote, backslash, CHR ''<'', CHR ''>'', CHR ''&''}"
    proof (cases "?n < 32")
      case True
      then have "?n \<in> {8, 9, 10, 12, 13}" using False by blast
      then have "c \<in> {CHR 0x08, CHR 0x09, CHR 0x0A, CHR 0x0C, CHR 0x0D}"
        using ck [of 8] ck [of 9] ck [of 10] ck [of 12] ck [of 13] unfolding codes by blast
      then show thesis using that(2) by blast
    next
      case big: False
      show thesis
      proof (cases "c \<in> {quote, backslash}")
        case False
        then show thesis using that(3) big \<open>\<not> (_ \<or> _)\<close> by auto
      qed (rule that(1))
    qed
    then show ?thesis
      by cases (auto simp: escape_char_def string_element_def simple_escape_def Let_def)
  qed
qed

lemma string_body_text: "string_body (concat (map escape_char s) @ quote # r) = Some (s, r)"
  by (induction s) (simp_all add: string_body_escaped)

section \<open>Numbers\<close>

text \<open>What may stand behind a value.\<close>

definition stops :: "string \<Rightarrow> bool" where
  "stops r \<longleftrightarrow> (case r of [] \<Rightarrow> True | c # _ \<Rightarrow> c \<in> {CHR '','', CHR '']'', CHR ''}''})"

lemma stops_simps [simp]: "stops []" "stops (CHR '','' # r)" "stops (CHR '']'' # r)" "stops (CHR ''}'' # r)"
  by (simp_all add: stops_def)

lemma show_nat_zero: "prefix ''0'' (show_nat n) \<Longrightarrow> show_nat n = ''0''"
proof (induction n rule: show_nat.induct)
  case (1 n)
  show ?case
  proof (cases "n < 10")
    case True
    then show ?thesis using 1 by (subst (asm) show_nat.simps, subst show_nat.simps) (cases n; simp)
  next
    case False
    obtain c t where c: "show_nat (n div 10) = c # t" using show_nat_Cons by blast
    have "prefix ''0'' (show_nat (n div 10))" using 1(2) False c by (subst (asm) show_nat.simps) simp
    then have "show_nat (n div 10) = ''0''" using 1(1) False by blast
    moreover have "show_nat 0 = ''0''" by code_simp
    ultimately have "n div 10 = 0" by (metis show_nat_inject)
    then show ?thesis using False by simp
  qed
qed

lemma number_token_nat:
  assumes "stops r"
  shows "number_token (show_nat n @ r) = Some (show_nat n, r)" "number_token (CHR ''-'' # show_nat n @ r) = Some (CHR ''-'' # show_nat n, r)"
proof -
  obtain c t where c: "show_nat n = c # t" "is_digit c" using show_nat_Cons by blast
  have "case r of [] \<Rightarrow> True | c # _ \<Rightarrow> \<not> is_digit c" using assms by (auto simp: stops_def is_digit_def split: list.splits)
  note tw = takeWhile_digits [OF show_nat_digits this, of n]
  have whole: "whole_part (show_nat n @ r) = (show_nat n, r)" using show_nat_zero [of n] c tw by (auto simp: whole_part_def)
  have stop: "frac_part r = ([], r)" "exp_part r = ([], r)"
    using assms by (auto simp: stops_def frac_part_def exp_part_def split: list.splits)
  have "\<not> prefix ''-'' (show_nat n @ r)" using digit_not_space [OF c(2)] by (auto simp: c(1))
  then have "sign_part (show_nat n @ r) = ([], show_nat n @ r)" "sign_part (CHR ''-'' # show_nat n @ r) = (''-'', show_nat n @ r)"
    by (simp_all add: sign_part_def)
  then show "number_token (show_nat n @ r) = Some (show_nat n, r)"
    "number_token (CHR ''-'' # show_nat n @ r) = Some (CHR ''-'' # show_nat n, r)"
    by (simp_all add: number_token_def whole stop)
qed

lemma number_token_int: "stops r \<Longrightarrow> number_token (show_int i @ r) = Some (show_int i, r)"
  by (simp add: show_int_def number_token_nat)

lemma int_token_show:
  assumes "low \<le> i" "i < high"
  shows "int_token low high (show_int i) = Some i"
proof -
  have m: "\<not> prefix ''-'' (show_nat n)" for n
    using show_nat_Cons [of n] minus_char(3) by auto
  have d: "list_all is_digit (show_nat n)" for n using show_nat_digits [of n] by (simp add: list_all_iff)
  show ?thesis using assms m d by (simp add: int_token_def show_int_def)
qed

section \<open>Values\<close>

fun written :: "json \<Rightarrow> bool" where
  "written (JNumber t) \<longleftrightarrow> (\<exists>i. t = show_int i)"
| "written (JArray vs) \<longleftrightarrow> (\<forall>v \<in> set vs. written v)"
| "written (JObject kvs) \<longleftrightarrow> (\<forall>kv \<in> set kvs. written (snd kv))"
| "written _ \<longleftrightarrow> True"

definition value_head :: "char \<Rightarrow> bool" where
  "value_head c \<longleftrightarrow> \<not> json_space c \<and> c \<noteq> CHR '']'' \<and> c \<noteq> CHR ''}''"

lemma value_heads [simp]: "value_head quote" "value_head (CHR ''['')" "value_head (CHR ''{'')" "value_head (CHR ''t'')"
  "value_head (CHR ''f'')" "value_head (CHR ''n'')" "value_head (CHR ''-'')"
  by (simp_all add: value_head_def json_space_def)

lemma digit_head: "is_digit c \<Longrightarrow> value_head c \<and> c \<noteq> quote \<and> c \<noteq> CHR ''['' \<and> c \<noteq> CHR ''{'' \<and> c \<noteq> CHR ''t'' \<and> c \<noteq> CHR ''f'' \<and> c \<noteq> CHR ''n''"
  by (auto simp: value_head_def json_space_def is_digit_def)

lemma show_int_head: "\<exists>c t. show_int i = c # t \<and> (c = CHR ''-'' \<or> is_digit c)"
  using show_nat_Cons [of "nat i"] by (auto simp: show_int_def)

lemma json_text_head:
  assumes "written v"
  shows "\<exists>c t. json_text v = c # t \<and> value_head c"
proof (cases v)
  case (JNumber t)
  then show ?thesis using assms show_int_head digit_head by fastforce
qed (simp_all add: string_text_def)

lemma skip_head [simp]: "value_head c \<Longrightarrow> skip_ws (c # t) = c # t"
  by (simp add: value_head_def)

lemma no_spaces [simp]: "\<not> json_space (CHR '','')" "\<not> json_space (CHR '']'')" "\<not> json_space (CHR ''}'')" "\<not> json_space (CHR '':'')"
  "\<not> json_space quote" "\<not> json_space (CHR ''['')" "\<not> json_space (CHR ''{'')" "\<not> json_space (CHR ''t'')"
  "\<not> json_space (CHR ''f'')" "\<not> json_space (CHR ''n'')"
  by (simp_all add: json_space_def)

lemma after_element_simps [simp]: "after_element c (CHR '','' # r) = Some (True, r)"
  "c \<noteq> CHR '','' \<Longrightarrow> \<not> json_space c \<Longrightarrow> after_element c (c # r) = Some (False, r)"
  by (simp_all add: after_element_def)

lemma member_key_text [simp]: "member_key (string_text k @ CHR '':'' # t) = Some (k, t)"
  by (simp add: member_key_def string_text_def string_body_text)

text \<open>The reader with enough fuel.\<close>

definition reads_back :: "json \<Rightarrow> bool" where
  "reads_back v \<longleftrightarrow> (\<forall>n r. stops r \<longrightarrow> 2 * length (json_text v) \<le> n \<longrightarrow> parse_value n (json_text v @ r) = Some (v, r))"

lemma parse_elements_text:
  assumes "vs \<noteq> []" "\<forall>v \<in> set vs. reads_back v" "2 * length (comma_join (map json_text vs)) + 1 \<le> n"
  shows "parse_elements n (comma_join (map json_text vs) @ CHR '']'' # r) = Some (vs, r)"
  using assms
proof (induction vs arbitrary: n)
  case (Cons v vs)
  obtain m where n: "n = Suc m" using Cons.prems(3) by (cases n) auto
  show ?case
  proof (cases vs)
    case Nil
    then show ?thesis using Cons.prems by (simp add: n reads_back_def)
  next
    case (Cons w ws)
    have "parse_value m (json_text v @ CHR '','' # comma_join (map json_text vs) @ CHR '']'' # r) =
        Some (v, CHR '','' # comma_join (map json_text vs) @ CHR '']'' # r)"
      using Cons.prems(2,3) Cons by (simp add: n reads_back_def)
    moreover have "parse_elements m (comma_join (map json_text vs) @ CHR '']'' # r) = Some (vs, r)"
      using Cons.IH [of m] Cons.prems(2,3) Cons by (simp add: n)
    ultimately show ?thesis using Cons by (simp add: n)
  qed
qed simp

definition member_text :: "string \<times> json \<Rightarrow> string" where
  "member_text kv = string_text (fst kv) @ CHR '':'' # json_text (snd kv)"

lemma object_text: "json_text (JObject kvs) = CHR ''{'' # comma_join (map member_text kvs) @ ''}''"
  by (simp add: member_text_def [abs_def] case_prod_unfold)

lemma parse_members_text:
  assumes "kvs \<noteq> []" "\<forall>kv \<in> set kvs. reads_back (snd kv)" "2 * length (comma_join (map member_text kvs)) + 1 \<le> n"
  shows "parse_members n (comma_join (map member_text kvs) @ CHR ''}'' # r) = Some (kvs, r)"
  using assms
proof (induction kvs arbitrary: n)
  case (Cons kv kvs)
  obtain m k v where n: "n = Suc m" "kv = (k, v)" using Cons.prems(3) by (cases n; cases kv) auto
  have kv: "member_text (k, v) = string_text k @ CHR '':'' # json_text v" by (simp add: member_text_def)
  show ?case
  proof (cases kvs)
    case Nil
    then show ?thesis using Cons.prems by (simp add: n reads_back_def kv)
  next
    case (Cons w ws)
    have "parse_value m (json_text v @ CHR '','' # comma_join (map member_text kvs) @ CHR ''}'' # r) =
        Some (v, CHR '','' # comma_join (map member_text kvs) @ CHR ''}'' # r)"
      using Cons.prems(2,3) Cons by (simp add: n reads_back_def kv)
    moreover have "parse_members m (comma_join (map member_text kvs) @ CHR ''}'' # r) = Some (kvs, r)"
      using Cons.IH [of m] Cons.prems(2,3) Cons by (simp add: n)
    ultimately show ?thesis using Cons by (simp add: n kv)
  qed
qed simp

lemma comma_join_head: "vs \<noteq> [] \<Longrightarrow> \<forall>s \<in> set vs. \<exists>c t. s = c # t \<and> value_head c \<Longrightarrow> \<exists>c t. comma_join vs = c # t \<and> value_head c"
  by (cases vs rule: comma_join.cases) auto

lemma reads_backI:
  assumes "written v" "\<And>m r. stops r \<Longrightarrow> 2 * length (json_text v) \<le> Suc m \<Longrightarrow> parse_value (Suc m) (json_text v @ r) = Some (v, r)"
  shows "reads_back v"
  unfolding reads_back_def
proof (intro allI impI)
  fix n r assume r: "stops r" and n: "2 * length (json_text v) \<le> n"
  obtain m where "n = Suc m" using n json_text_head [OF assms(1)] by (cases n) auto
  then show "parse_value n (json_text v @ r) = Some (v, r)" using assms(2) [OF r] n by simp
qed

lemma written_reads_back: "written v \<Longrightarrow> reads_back v"
proof (induction v)
  case (JNumber t)
  then obtain i where t: "t = show_int i" by auto
  obtain c u where c: "show_int i = c # u" "c = CHR ''-'' \<or> is_digit c" using show_int_head by blast
  have h: "value_head c" "c \<noteq> quote" "c \<noteq> CHR ''[''" "c \<noteq> CHR ''{''" "c \<noteq> CHR ''t''" "c \<noteq> CHR ''f''" "c \<noteq> CHR ''n''"
    using c(2) digit_head [of c] by auto
  then have "\<not> prefix ''true'' (show_int i @ r)" "\<not> prefix ''false'' (show_int i @ r)" "\<not> prefix ''null'' (show_int i @ r)" for r
    by (auto simp: c(1))
  then have l: "literal_value (show_int i @ r) = Some (JNumber t, r)" if "stops r" for r
    by (simp add: literal_value_def number_token_int that t)
  show ?case by (rule reads_backI) (use l h in \<open>simp_all add: t c(1) value_head_def, metis c(1)\<close>)
next
  case (JArray vs)
  have vs: "\<forall>v \<in> set vs. reads_back v" and heads: "\<forall>s \<in> set (map json_text vs). \<exists>c t. s = c # t \<and> value_head c"
    using JArray json_text_head by auto
  show ?case
  proof (rule reads_backI [OF JArray.prems])
    fix m r assume n: "2 * length (json_text (JArray vs)) \<le> Suc m"
    show "parse_value (Suc m) (json_text (JArray vs) @ r) = Some (JArray vs, r)"
    proof (cases "vs = []")
      case False
      obtain c t where ct: "comma_join (map json_text vs) = c # t" "value_head c"
        using comma_join_head [OF _ heads] False by auto
      have "\<not> prefix '']'' (skip_ws (comma_join (map json_text vs) @ CHR '']'' # r))" using ct(2) by (auto simp: ct(1) value_head_def)
      then show ?thesis using parse_elements_text [OF False vs, of m r] n by simp
    qed simp
  qed
next
  case (JObject kvs)
  have kvs: "\<forall>kv \<in> set kvs. reads_back (snd kv)" using JObject by (auto simp: snds.simps)
  have heads: "\<forall>s \<in> set (map member_text kvs). \<exists>c t. s = c # t \<and> value_head c" by (simp add: member_text_def string_text_def)
  show ?case
  proof (rule reads_backI [OF JObject.prems])
    fix m r assume n: "2 * length (json_text (JObject kvs)) \<le> Suc m"
    show "parse_value (Suc m) (json_text (JObject kvs) @ r) = Some (JObject kvs, r)"
    proof (cases "kvs = []")
      case False
      obtain c t where ct: "comma_join (map member_text kvs) = c # t" "value_head c"
        using comma_join_head [OF _ heads] False by auto
      have "\<not> prefix ''}'' (skip_ws (comma_join (map member_text kvs) @ CHR ''}'' # r))" using ct(2) by (auto simp: ct(1) value_head_def)
      then show ?thesis using parse_members_text [OF False kvs, of m r] n unfolding object_text by simp
    qed (simp add: object_text)
  qed
next
  case (JString s)
  show ?case by (rule reads_backI) (simp_all add: string_text_def string_body_text)
qed (rule reads_backI; simp add: literal_value_def)+

theorem parse_json_text:
  assumes "written v"
  shows "parse_json (json_text v) = Some v"
proof -
  have "parse_value (2 * length (json_text v) + 1) (json_text v @ []) = Some (v, [])"
    using written_reads_back [OF assms] unfolding reads_back_def by (metis le_add1 stops_simps(1))
  then show ?thesis unfolding parse_json_def append_Nil2 by simp
qed

section \<open>Fuel\<close>

lemma string_body_shorter: "string_body s = Some (t, r) \<Longrightarrow> length r < length s"
proof (induction s arbitrary: t rule: string_body.induct)
  case (2 c cs)
  then show ?case
    by (auto split: if_splits option.splits prod.splits dest!: string_element_shorter) (metis less_SucI order_less_le_trans)
qed simp

lemma skip_ws_shorter: "length (skip_ws s) \<le> length s"
  by (rule length_dropWhile_le)

lemma skip_ws_Cons: "skip_ws s = c # cs \<Longrightarrow> length cs < length s"
  using skip_ws_shorter [of s] by simp

lemma number_token_shorter: "number_token s = Some (t, r) \<Longrightarrow> length r < length s"
proof -
  have d: "length (dropWhile is_digit x) \<le> length x" for x by (rule length_dropWhile_le)
  have tw: "takeWhile is_digit x \<noteq> [] \<Longrightarrow> length (dropWhile is_digit x) < length x" for x
    by (metis length_append length_greater_0_conv less_add_same_cancel2 takeWhile_dropWhile_id)
  have w: "whole_part x = (a, b) \<Longrightarrow> a \<noteq> [] \<Longrightarrow> length b < length x" for x a b
    using tw [of x] by (cases x) (auto simp: whole_part_def split: if_splits)
  have s: "sign_part x = (a, b) \<Longrightarrow> length b \<le> length x" for x a b by (auto simp: sign_part_def split: if_splits)
  have f: "frac_part x = (a, b) \<Longrightarrow> length b \<le> length x" for x a b
    using d [of "tl x"] by (auto simp: frac_part_def split: if_splits)
  have e: "exp_part x = (a, b) \<Longrightarrow> length b \<le> length x" for x a b
    using d [of "drop 2 x"] d [of "drop 1 x"] by (auto simp: exp_part_def Let_def split: if_splits)
  show "number_token s = Some (t, r) \<Longrightarrow> length r < length s"
    by (fastforce simp: number_token_def split: prod.splits if_splits dest: s w f e)
qed

lemma literal_value_shorter: "literal_value s = Some (v, r) \<Longrightarrow> length r < length s"
  by (cases s) (auto simp: literal_value_def split: if_splits dest: number_token_shorter)

lemma after_element_shorter: "after_element c s = Some (b, r) \<Longrightarrow> length r < length s"
  by (auto simp: after_element_def split: list.splits if_splits dest: skip_ws_Cons)

lemma member_key_shorter: "member_key s = Some (k, r) \<Longrightarrow> length r < length s"
  by (auto simp: member_key_def split: list.splits if_splits option.splits dest!: skip_ws_Cons string_body_shorter)

lemma tl_ws_shorter: "length (tl (skip_ws cs)) \<le> length cs"
  using skip_ws_shorter [of cs] by simp

lemma parse_shorter:
  "parse_value n s = Some (v, r) \<Longrightarrow> length r < length s"
  "parse_elements n s = Some (vs, r) \<Longrightarrow> length r < length s"
  "parse_members n s = Some (kvs, r) \<Longrightarrow> length r < length s"
proof (induction n s and n s and n s arbitrary: v r and vs r and kvs r rule: parse_value_parse_elements_parse_members.induct)
  case (2 n s)
  show ?case
  proof (cases "skip_ws s")
    case Nil
    then show ?thesis using 2(3) by (simp del: dropWhile_eq_Nil_conv)
  next
    case (Cons c cs)
    note l = skip_ws_Cons [OF Cons] tl_ws_shorter [of cs]
    show ?thesis
      using 2(3) l 2(1) [OF Cons] 2(2) [OF Cons] literal_value_shorter [of "c # cs" v r] string_body_shorter [of cs] skip_ws_shorter [of s]
      by (fastforce simp: Cons split: if_splits)
  qed
next
  case (4 n s)
  then show ?case by (fastforce split: option.splits if_splits prod.splits dest: after_element_shorter)
next
  case (6 n s)
  then show ?case by (fastforce split: option.splits if_splits prod.splits dest: after_element_shorter member_key_shorter)
qed simp_all

text \<open>Twice the length of the input is enough fuel: more of it changes nothing, so a refusal is a refusal of the text.\<close>

lemma parse_fuel:
  "2 * length s + 1 \<le> n \<Longrightarrow> parse_value (Suc n) s = parse_value n s"
  "2 * length s + 2 \<le> n \<Longrightarrow> parse_elements (Suc n) s = parse_elements n s"
  "2 * length s + 2 \<le> n \<Longrightarrow> parse_members (Suc n) s = parse_members n s"
proof (induction n s and n s and n s rule: parse_value_parse_elements_parse_members.induct)
  case (2 n s)
  show ?case
  proof (cases "skip_ws s")
    case Nil
    then show ?thesis by (simp del: dropWhile_eq_Nil_conv)
  next
    case (Cons c cs)
    have "2 * length cs + 2 \<le> n" using skip_ws_Cons [OF Cons] 2(3) by simp
    then show ?thesis using 2(1) [OF Cons] 2(2) [OF Cons] unfolding parse_value.simps(2) Cons list.case by (auto simp del: parse_value.simps)
  qed
next
  case (4 n s)
  have v: "parse_value (Suc n) s = parse_value n s" using 4(1,3) by simp
  have r: "parse_elements (Suc n) r' = parse_elements n r'" if "parse_value n s = Some (x, r)" "after_element (CHR '']'') r = Some (True, r')" for x r r'
    using 4(2) [OF that(1) refl that(2) refl TrueI] parse_shorter(1) [OF that(1)] after_element_shorter [OF that(2)] 4(3) by simp
  show ?case
    unfolding parse_elements.simps(2) [of "Suc n" s] parse_elements.simps(2) [of n s] v
    using r by (auto simp del: parse_elements.simps parse_value.simps split: option.split prod.split)
next
  case (6 n s)
  have v: "parse_value (Suc n) r0 = parse_value n r0" if "member_key s = Some (k, r0)" for k r0
    using 6(1) [OF that refl] member_key_shorter [OF that] 6(3) by simp
  have r: "parse_members (Suc n) r' = parse_members n r'"
    if "member_key s = Some (k, r0)" "parse_value n r0 = Some (x, r)" "after_element (CHR ''}'') r = Some (True, r')" for k r0 x r r'
    using 6(2) [OF that(1) refl that(2) refl that(3) refl TrueI] member_key_shorter [OF that(1)] parse_shorter(1) [OF that(2)]
      after_element_shorter [OF that(3)] 6(3) by simp
  show ?case
    unfolding parse_members.simps(2) [of "Suc n" s] parse_members.simps(2) [of n s]
    using v r by (auto simp del: parse_members.simps parse_value.simps split: option.split prod.split)
qed simp_all
corollary parse_fuel_enough: "2 * length s + 1 \<le> n \<Longrightarrow> parse_value n s = parse_value (2 * length s + 1) s"
  by (induction n rule: dec_induct) (simp_all del: parse_value.simps add: parse_fuel)

section \<open>Structs\<close>

fun field_ok :: "field \<Rightarrow> bool" where
  "field_ok (FInt64 i) \<longleftrightarrow> in64 i"
| "field_ok (FUint32 i) \<longleftrightarrow> 0 \<le> i \<and> i < 2 ^ 32"
| "field_ok (FMap m) \<longleftrightarrow> sorted (map fst m) \<and> distinct (map fst m)"
| "field_ok _ \<longleftrightarrow> True"

definition struct_ok :: "struct \<Rightarrow> bool" where
  "struct_ok st \<longleftrightarrow> distinct (map fst st) \<and> (\<forall>(n, f) \<in> set st. field_ok f)"

lemma set_texts_strings: "set_texts old (map JString xs) = Some xs"
  by (induction xs arbitrary: old) simp_all

lemma set_map_strings: "distinct (map fst (m @ m')) \<Longrightarrow> set_map m (map (\<lambda>(k, v). (k, JString v)) m') = Some (m @ m')"
proof (induction m' arbitrary: m)
  case (Cons kv m')
  obtain k v where kv: "kv = (k, v)" by fastforce
  have "AList.update k v m = m @ [(k, v)]" using Cons.prems by (induction m) (auto simp: kv)
  then show ?case using Cons.IH [of "m @ [(k, v)]"] Cons.prems by (simp add: kv)
qed simp

lemma set_field_json: "field_ok f \<Longrightarrow> set_field (field_json f) (zero_field f) = Some f"
proof (cases f)
  case (FUint32 i)
  moreover have "0 \<le> i \<Longrightarrow> \<not> prefix ''-'' (show_int i)" for i
    using show_nat_Cons [of "nat i"] minus_char(3) by (auto simp: show_int_def)
  moreover assume "field_ok f"
  ultimately show ?thesis by (simp add: set_field_def int_token_show)
next
  case (FMap m)
  moreover assume "field_ok f"
  ultimately have "sorted (map fst m)" "distinct (map fst m)" by simp_all
  then show ?thesis using set_map_strings [of "[]" m] FMap by (simp add: set_field_def sort_key_id_if_sorted)
qed (simp_all add: set_field_def set_texts_strings int_token_show in64_def)

lemma written_field: "written (field_json f)"
  by (cases f) auto

lemma set_fields_nonzero:
  assumes "distinct (map fst (st @ st'))" "\<forall>(n, f) \<in> set st'. field_ok f"
  shows "set_fields (map (\<lambda>(n, f). (n, field_json f)) (filter (\<lambda>(n, f). f \<noteq> zero_field f) st')) (st @ zero_struct st') = Some (st @ st')"
  using assms
proof (induction st' arbitrary: st)
  case (Cons nf st')
  obtain n f where nf: "nf = (n, f)" by fastforce
  have z: "zero_struct ((n, f) # st') = (n, zero_field f) # zero_struct st'" by (simp add: zero_struct_def)
  have ih: "set_fields (map (\<lambda>(n, f). (n, field_json f)) (filter (\<lambda>(n, f). f \<noteq> zero_field f) st')) (st @ (n, f) # zero_struct st') =
      Some (st @ nf # st')"
    using Cons.IH [of "st @ [(n, f)]"] Cons.prems by (simp add: nf)
  show ?case
  proof (cases "f = zero_field f")
    case True
    then show ?thesis using ih by (simp add: nf z [folded True])
  next
    case False
    have "n \<notin> fst ` set st" using Cons.prems(1) by (auto simp: nf)
    then have up: "AList.update n f (st @ (n, zero_field f) # zero_struct st') = st @ (n, f) # zero_struct st'"
      and look: "map_of (st @ (n, zero_field f) # zero_struct st') n = Some (zero_field f)"
      by (induction st) (auto simp: map_of_eq_None_iff)
    have "field_ok f" using Cons.prems(2) by (simp add: nf)
    then show ?thesis using False ih up look by (simp add: z nf field_name_def set_field_json)
  qed
qed (simp add: zero_struct_def)

text \<open>A message that is written and read into a new one is the message.\<close>

theorem Unmarshal_Marshal:
  assumes "struct_ok st"
  shows "Unmarshal (Marshal st) (zero_struct st) = Some st"
proof -
  have "written (JObject (map (\<lambda>(n, f). (n, field_json f)) (filter (\<lambda>(n, f). f \<noteq> zero_field f) st)))"
    by (auto simp: written_field)
  then show ?thesis
    using set_fields_nonzero [of "[]" st] assms unfolding Unmarshal_def Marshal_def
    by (simp add: parse_json_text struct_ok_def del: json_text.simps)
qed

end
