(* ===== verification/Wire.thy ===== *)
theory Wire
  imports JsonProps
begin

text \<open>
  The messages and services of the wire (\<^verbatim>\<open>gen/game/v1\<close>): the structs, the stubs a client calls, the handlers a server
  registers, and the tables that bring them together. gRPC itself is a parameter: a connection invokes a method by
  its full name and opens streams, a server calls the handlers of the tables. A message is handed to gRPC as the
  struct the codec sees (theory \<open>Json\<close>); \<open>'s\<close> is the state of the server.
\<close>

section \<open>Messages\<close>

record json_envelope =
  je_topic :: string
  je_json :: string
  je_sequence :: int

record bootstrap_req =
  br_ssh_username :: string
  br_public_key_fingerprint :: string
  br_remote_addr :: string

record bootstrap_resp =
  bp_player_id :: string
  bp_role :: string
  bp_created :: bool
  bp_bootstrap_json :: string

record action_req =
  ax_request_id :: string
  ax_player_id :: string
  ax_action_id :: string
  ax_payload_json :: string
  ax_metadata :: "(string \<times> string) list"

record action_resp =
  ay_request_id :: string
  ay_action_id :: string
  ay_status :: string
  ay_response_json :: string

record stream_req =
  sq_player_id :: string
  sq_symbols :: "string list"
  sq_orderbook :: bool
  sq_trades :: bool
  sq_portfolio :: bool
  sq_chat :: bool

record chat_req =
  cq_player_id :: string
  cq_json :: string

record chart_req =
  hq_player_id :: string
  hq_ticker :: string
  hq_history_limit :: int
  hq_orderbook_depth :: int

record chart_tick_msg =
  ht_ticker :: string
  ht_json :: string
  ht_sequence :: int

definition envelope_struct :: "json_envelope \<Rightarrow> struct" where
  "envelope_struct m = [(''topic'', FText (je_topic m)), (''json'', FText (je_json m)), (''sequence'', FInt64 (je_sequence m))]"

definition bootstrap_req_struct :: "bootstrap_req \<Rightarrow> struct" where
  "bootstrap_req_struct m = [(''ssh_username'', FText (br_ssh_username m)),
     (''public_key_fingerprint'', FText (br_public_key_fingerprint m)), (''remote_addr'', FText (br_remote_addr m))]"

definition bootstrap_resp_struct :: "bootstrap_resp \<Rightarrow> struct" where
  "bootstrap_resp_struct m = [(''player_id'', FText (bp_player_id m)), (''role'', FText (bp_role m)), (''created'', FFlag (bp_created m)),
     (''bootstrap_json'', FText (bp_bootstrap_json m))]"

definition action_req_struct :: "action_req \<Rightarrow> struct" where
  "action_req_struct m = [(''request_id'', FText (ax_request_id m)), (''player_id'', FText (ax_player_id m)),
     (''action_id'', FText (ax_action_id m)), (''payload_json'', FText (ax_payload_json m)), (''metadata'', FMap (ax_metadata m))]"

definition action_resp_struct :: "action_resp \<Rightarrow> struct" where
  "action_resp_struct m = [(''request_id'', FText (ay_request_id m)), (''action_id'', FText (ay_action_id m)),
     (''status'', FText (ay_status m)), (''response_json'', FText (ay_response_json m))]"

definition stream_req_struct :: "stream_req \<Rightarrow> struct" where
  "stream_req_struct m = [(''player_id'', FText (sq_player_id m)), (''symbols'', FTexts (sq_symbols m)),
     (''include_orderbook'', FFlag (sq_orderbook m)), (''include_trades'', FFlag (sq_trades m)),
     (''include_portfolio'', FFlag (sq_portfolio m)), (''include_chat'', FFlag (sq_chat m))]"

definition chat_req_struct :: "chat_req \<Rightarrow> struct" where
  "chat_req_struct m = [(''player_id'', FText (cq_player_id m)), (''json'', FText (cq_json m))]"

definition chart_req_struct :: "chart_req \<Rightarrow> struct" where
  "chart_req_struct m = [(''player_id'', FText (hq_player_id m)), (''ticker'', FText (hq_ticker m)),
     (''history_limit'', FUint32 (hq_history_limit m)), (''orderbook_depth'', FUint32 (hq_orderbook_depth m))]"

definition chart_tick_struct :: "chart_tick_msg \<Rightarrow> struct" where
  "chart_tick_struct m = [(''ticker'', FText (ht_ticker m)), (''json'', FText (ht_json m)), (''sequence'', FInt64 (ht_sequence m))]"

text \<open>The fields of a struct by name, and the messages read from them.\<close>

definition text_at :: "struct \<Rightarrow> string \<Rightarrow> string" where
  "text_at st n = (case map_of st n of Some (FText s) \<Rightarrow> s | _ \<Rightarrow> [])"

definition number_at :: "struct \<Rightarrow> string \<Rightarrow> int" where
  "number_at st n = (case map_of st n of Some (FInt64 i) \<Rightarrow> i | Some (FUint32 i) \<Rightarrow> i | _ \<Rightarrow> 0)"

definition flag_at :: "struct \<Rightarrow> string \<Rightarrow> bool" where
  "flag_at st n = (map_of st n = Some (FFlag True))"

definition texts_at :: "struct \<Rightarrow> string \<Rightarrow> string list" where
  "texts_at st n = (case map_of st n of Some (FTexts xs) \<Rightarrow> xs | _ \<Rightarrow> [])"

definition map_at :: "struct \<Rightarrow> string \<Rightarrow> (string \<times> string) list" where
  "map_at st n = (case map_of st n of Some (FMap m) \<Rightarrow> m | _ \<Rightarrow> [])"

definition struct_envelope :: "struct \<Rightarrow> json_envelope" where
  "struct_envelope st = \<lparr>je_topic = text_at st ''topic'', je_json = text_at st ''json'', je_sequence = number_at st ''sequence''\<rparr>"

definition struct_bootstrap_req :: "struct \<Rightarrow> bootstrap_req" where
  "struct_bootstrap_req st = \<lparr>br_ssh_username = text_at st ''ssh_username'',
     br_public_key_fingerprint = text_at st ''public_key_fingerprint'', br_remote_addr = text_at st ''remote_addr''\<rparr>"

definition struct_bootstrap_resp :: "struct \<Rightarrow> bootstrap_resp" where
  "struct_bootstrap_resp st = \<lparr>bp_player_id = text_at st ''player_id'', bp_role = text_at st ''role'', bp_created = flag_at st ''created'',
     bp_bootstrap_json = text_at st ''bootstrap_json''\<rparr>"

definition struct_action_req :: "struct \<Rightarrow> action_req" where
  "struct_action_req st = \<lparr>ax_request_id = text_at st ''request_id'', ax_player_id = text_at st ''player_id'',
     ax_action_id = text_at st ''action_id'', ax_payload_json = text_at st ''payload_json'', ax_metadata = map_at st ''metadata''\<rparr>"

definition struct_action_resp :: "struct \<Rightarrow> action_resp" where
  "struct_action_resp st = \<lparr>ay_request_id = text_at st ''request_id'', ay_action_id = text_at st ''action_id'',
     ay_status = text_at st ''status'', ay_response_json = text_at st ''response_json''\<rparr>"

definition struct_stream_req :: "struct \<Rightarrow> stream_req" where
  "struct_stream_req st = \<lparr>sq_player_id = text_at st ''player_id'', sq_symbols = texts_at st ''symbols'',
     sq_orderbook = flag_at st ''include_orderbook'', sq_trades = flag_at st ''include_trades'',
     sq_portfolio = flag_at st ''include_portfolio'', sq_chat = flag_at st ''include_chat''\<rparr>"

definition struct_chat_req :: "struct \<Rightarrow> chat_req" where
  "struct_chat_req st = \<lparr>cq_player_id = text_at st ''player_id'', cq_json = text_at st ''json''\<rparr>"

definition struct_chart_req :: "struct \<Rightarrow> chart_req" where
  "struct_chart_req st = \<lparr>hq_player_id = text_at st ''player_id'', hq_ticker = text_at st ''ticker'',
     hq_history_limit = number_at st ''history_limit'', hq_orderbook_depth = number_at st ''orderbook_depth''\<rparr>"

definition struct_chart_tick :: "struct \<Rightarrow> chart_tick_msg" where
  "struct_chart_tick st = \<lparr>ht_ticker = text_at st ''ticker'', ht_json = text_at st ''json'', ht_sequence = number_at st ''sequence''\<rparr>"

text \<open>A new message.\<close>

definition new_envelope :: json_envelope where
  "new_envelope = \<lparr>je_topic = [], je_json = [], je_sequence = 0\<rparr>"

definition new_bootstrap_req :: bootstrap_req where
  "new_bootstrap_req = \<lparr>br_ssh_username = [], br_public_key_fingerprint = [], br_remote_addr = []\<rparr>"

definition new_bootstrap_resp :: bootstrap_resp where
  "new_bootstrap_resp = \<lparr>bp_player_id = [], bp_role = [], bp_created = False, bp_bootstrap_json = []\<rparr>"

definition new_action_req :: action_req where
  "new_action_req = \<lparr>ax_request_id = [], ax_player_id = [], ax_action_id = [], ax_payload_json = [], ax_metadata = []\<rparr>"

definition new_action_resp :: action_resp where
  "new_action_resp = \<lparr>ay_request_id = [], ay_action_id = [], ay_status = [], ay_response_json = []\<rparr>"

definition new_stream_req :: stream_req where
  "new_stream_req = \<lparr>sq_player_id = [], sq_symbols = [], sq_orderbook = False, sq_trades = False, sq_portfolio = False, sq_chat = False\<rparr>"

definition new_chat_req :: chat_req where
  "new_chat_req = \<lparr>cq_player_id = [], cq_json = []\<rparr>"

definition new_chart_req :: chart_req where
  "new_chart_req = \<lparr>hq_player_id = [], hq_ticker = [], hq_history_limit = 0, hq_orderbook_depth = 0\<rparr>"

definition new_chart_tick :: chart_tick_msg where
  "new_chart_tick = \<lparr>ht_ticker = [], ht_json = [], ht_sequence = 0\<rparr>"

section \<open>gRPC, as the stubs use it\<close>

datatype rpc_error = Unimplemented string | DecodeFailed | OtherStatus string

type_synonym ('r, 's) outcome = "(rpc_error + 'r) \<times> 's"

text \<open>A stream of gRPC sends and receives structs: what is received is decoded into the struct that is given.\<close>

record 's raw_stream =
  rs_send_msg :: "struct \<Rightarrow> 's \<Rightarrow> (unit, 's) outcome"
  rs_recv_msg :: "struct \<Rightarrow> 's \<Rightarrow> (struct, 's) outcome"
  rs_close_send :: "'s \<Rightarrow> (unit, 's) outcome"

text \<open>A connection invokes a method by its full name, decoding the answer into the struct that is given, and opens a
  stream by its name, its direction and its full name.\<close>

record 's grpc_conn =
  cc_invoke :: "string \<Rightarrow> struct \<Rightarrow> struct \<Rightarrow> 's \<Rightarrow> (struct, 's) outcome"
  cc_new_stream :: "string \<times> bool \<times> bool \<Rightarrow> string \<Rightarrow> 's \<Rightarrow> ('s raw_stream, 's) outcome"

type_synonym 's interceptor = "string \<Rightarrow> struct \<Rightarrow> (struct \<Rightarrow> 's \<Rightarrow> (struct, 's) outcome) \<Rightarrow> 's \<Rightarrow> (struct, 's) outcome"

record 's method_desc =
  md_name :: string
  md_handler :: "(struct \<Rightarrow> struct option) \<Rightarrow> 's interceptor option \<Rightarrow> 's \<Rightarrow> (struct, 's) outcome"

record 's stream_desc =
  sd_name :: string
  sd_handler :: "'s raw_stream \<Rightarrow> 's \<Rightarrow> (unit, 's) outcome"
  sd_server_streams :: bool
  sd_client_streams :: bool

record 's service_desc =
  ds_service :: string
  ds_methods :: "'s method_desc list"
  ds_streams :: "'s stream_desc list"
  ds_metadata :: string

text \<open>The two ends of a stream with its messages.\<close>

record ('o, 'i, 's) typed_stream =
  ts_send :: "'o \<Rightarrow> 's \<Rightarrow> (unit, 's) outcome"
  ts_recv :: "'s \<Rightarrow> ('i, 's) outcome"

definition typed :: "('o \<Rightarrow> struct) \<Rightarrow> (struct \<Rightarrow> 'i) \<Rightarrow> struct \<Rightarrow> 's raw_stream \<Rightarrow> ('o, 'i, 's) typed_stream" where
  "typed to_struct of_struct blank x =
     \<lparr>ts_send = (\<lambda>m. rs_send_msg x (to_struct m)),
      ts_recv = (\<lambda>s. case rs_recv_msg x blank s of (Inl e, s') \<Rightarrow> (Inl e, s') | (Inr st, s') \<Rightarrow> (Inr (of_struct st), s'))\<rparr>"

definition gameServiceGetMarketStreamClient :: "'s raw_stream \<Rightarrow> (stream_req, json_envelope, 's) typed_stream" where
  "gameServiceGetMarketStreamClient = typed stream_req_struct struct_envelope (envelope_struct new_envelope)"

definition gameServiceGetMarketStreamServer :: "'s raw_stream \<Rightarrow> (json_envelope, stream_req, 's) typed_stream" where
  "gameServiceGetMarketStreamServer = typed envelope_struct struct_stream_req (stream_req_struct new_stream_req)"

definition gameServiceSubscribeToChartClient :: "'s raw_stream \<Rightarrow> (chart_req, chart_tick_msg, 's) typed_stream" where
  "gameServiceSubscribeToChartClient = typed chart_req_struct struct_chart_tick (chart_tick_struct new_chart_tick)"

definition gameServiceSubscribeToChartServer :: "'s raw_stream \<Rightarrow> (chart_tick_msg, chart_req, 's) typed_stream" where
  "gameServiceSubscribeToChartServer = typed chart_tick_struct struct_chart_req (chart_req_struct new_chart_req)"

text \<open>On a chat stream only the server sends.\<close>

definition chatServiceStreamChatClient :: "'s raw_stream \<Rightarrow> 's \<Rightarrow> (json_envelope, 's) outcome" where
  "chatServiceStreamChatClient x = ts_recv (typed envelope_struct struct_envelope (envelope_struct new_envelope) x)"

definition chatServiceStreamChatServer :: "'s raw_stream \<Rightarrow> json_envelope \<Rightarrow> 's \<Rightarrow> (unit, 's) outcome" where
  "chatServiceStreamChatServer x m = rs_send_msg x (envelope_struct m)"

section \<open>The services\<close>

record 's account_server =
  as_EnsurePlayer :: "bootstrap_req \<Rightarrow> 's \<Rightarrow> (bootstrap_resp, 's) outcome"

record 's game_server =
  gs_ExecuteAction :: "action_req \<Rightarrow> 's \<Rightarrow> (action_resp, 's) outcome"
  gs_GetMarketStream :: "(json_envelope, stream_req, 's) typed_stream \<Rightarrow> 's \<Rightarrow> (unit, 's) outcome"
  gs_SubscribeToChart :: "(chart_tick_msg, chart_req, 's) typed_stream \<Rightarrow> 's \<Rightarrow> (unit, 's) outcome"

record 's chat_server =
  cs_SendChat :: "chat_req \<Rightarrow> 's \<Rightarrow> (json_envelope, 's) outcome"
  cs_StreamChat :: "stream_req \<Rightarrow> (json_envelope \<Rightarrow> 's \<Rightarrow> (unit, 's) outcome) \<Rightarrow> 's \<Rightarrow> (unit, 's) outcome"

definition UnimplementedAccountServiceServer :: "'s account_server" where
  "UnimplementedAccountServiceServer = \<lparr>as_EnsurePlayer = (\<lambda>_ s. (Inl (Unimplemented ''method EnsurePlayer not implemented''), s))\<rparr>"

definition UnimplementedGameServiceServer :: "'s game_server" where
  "UnimplementedGameServiceServer =
     \<lparr>gs_ExecuteAction = (\<lambda>_ s. (Inl (Unimplemented ''method ExecuteAction not implemented''), s)),
      gs_GetMarketStream = (\<lambda>_ s. (Inl (Unimplemented ''method GetMarketStream not implemented''), s)),
      gs_SubscribeToChart = (\<lambda>_ s. (Inl (Unimplemented ''method SubscribeToChart not implemented''), s))\<rparr>"

definition UnimplementedChatServiceServer :: "'s chat_server" where
  "UnimplementedChatServiceServer =
     \<lparr>cs_SendChat = (\<lambda>_ s. (Inl (Unimplemented ''method SendChat not implemented''), s)),
      cs_StreamChat = (\<lambda>_ _ s. (Inl (Unimplemented ''method StreamChat not implemented''), s))\<rparr>"

section \<open>Handlers\<close>

text \<open>What the three handlers of calls do alike: decode the request, and call the method, through an interceptor if there
  is one.\<close>

definition unary ::
  "string \<Rightarrow> struct \<Rightarrow> (struct \<Rightarrow> 'q) \<Rightarrow> ('r \<Rightarrow> struct) \<Rightarrow> ('q \<Rightarrow> 's \<Rightarrow> ('r, 's) outcome) \<Rightarrow>
   (struct \<Rightarrow> struct option) \<Rightarrow> 's interceptor option \<Rightarrow> 's \<Rightarrow> (struct, 's) outcome" where
  "unary full_name blank of_struct to_struct method dec interceptor s =
     (case dec blank of
        None \<Rightarrow> (Inl DecodeFailed, s)
      | Some req \<Rightarrow>
          (let handler = (\<lambda>st s. case method (of_struct st) s of (Inl e, s') \<Rightarrow> (Inl e, s') | (Inr r, s') \<Rightarrow> (Inr (to_struct r), s'))
           in case interceptor of None \<Rightarrow> handler req s | Some ic \<Rightarrow> ic full_name req handler s))"

definition AccountService_EnsurePlayer_Handler ::
  "'s account_server \<Rightarrow> (struct \<Rightarrow> struct option) \<Rightarrow> 's interceptor option \<Rightarrow> 's \<Rightarrow> (struct, 's) outcome" where
  "AccountService_EnsurePlayer_Handler srv =
     unary ''/game.v1.AccountService/EnsurePlayer'' (bootstrap_req_struct new_bootstrap_req) struct_bootstrap_req bootstrap_resp_struct
       (as_EnsurePlayer srv)"

definition GameService_ExecuteAction_Handler ::
  "'s game_server \<Rightarrow> (struct \<Rightarrow> struct option) \<Rightarrow> 's interceptor option \<Rightarrow> 's \<Rightarrow> (struct, 's) outcome" where
  "GameService_ExecuteAction_Handler srv =
     unary ''/game.v1.GameService/ExecuteAction'' (action_req_struct new_action_req) struct_action_req action_resp_struct
       (gs_ExecuteAction srv)"

definition GameService_GetMarketStream_Handler :: "'s game_server \<Rightarrow> 's raw_stream \<Rightarrow> 's \<Rightarrow> (unit, 's) outcome" where
  "GameService_GetMarketStream_Handler srv x = gs_GetMarketStream srv (gameServiceGetMarketStreamServer x)"

definition GameService_SubscribeToChart_Handler :: "'s game_server \<Rightarrow> 's raw_stream \<Rightarrow> 's \<Rightarrow> (unit, 's) outcome" where
  "GameService_SubscribeToChart_Handler srv x = gs_SubscribeToChart srv (gameServiceSubscribeToChartServer x)"

definition ChatService_SendChat_Handler ::
  "'s chat_server \<Rightarrow> (struct \<Rightarrow> struct option) \<Rightarrow> 's interceptor option \<Rightarrow> 's \<Rightarrow> (struct, 's) outcome" where
  "ChatService_SendChat_Handler srv =
     unary ''/game.v1.ChatService/SendChat'' (chat_req_struct new_chat_req) struct_chat_req envelope_struct (cs_SendChat srv)"

definition ChatService_StreamChat_Handler :: "'s chat_server \<Rightarrow> 's raw_stream \<Rightarrow> 's \<Rightarrow> (unit, 's) outcome" where
  "ChatService_StreamChat_Handler srv x s =
     (case rs_recv_msg x (stream_req_struct new_stream_req) s of
        (Inl e, s') \<Rightarrow> (Inl e, s')
      | (Inr st, s') \<Rightarrow> cs_StreamChat srv (struct_stream_req st) (chatServiceStreamChatServer x) s')"

definition AccountService_ServiceDesc :: "'s account_server \<Rightarrow> 's service_desc" where
  "AccountService_ServiceDesc srv =
     \<lparr>ds_service = ''game.v1.AccountService'',
      ds_methods = [\<lparr>md_name = ''EnsurePlayer'', md_handler = AccountService_EnsurePlayer_Handler srv\<rparr>],
      ds_streams = [], ds_metadata = ''proto/game/v1/game.proto''\<rparr>"

definition GameService_ServiceDesc :: "'s game_server \<Rightarrow> 's service_desc" where
  "GameService_ServiceDesc srv =
     \<lparr>ds_service = ''game.v1.GameService'',
      ds_methods = [\<lparr>md_name = ''ExecuteAction'', md_handler = GameService_ExecuteAction_Handler srv\<rparr>],
      ds_streams = [
        \<lparr>sd_name = ''GetMarketStream'', sd_handler = GameService_GetMarketStream_Handler srv, sd_server_streams = True, sd_client_streams = True\<rparr>,
        \<lparr>sd_name = ''SubscribeToChart'', sd_handler = GameService_SubscribeToChart_Handler srv, sd_server_streams = True, sd_client_streams = True\<rparr>],
      ds_metadata = ''proto/game/v1/game.proto''\<rparr>"

definition ChatService_ServiceDesc :: "'s chat_server \<Rightarrow> 's service_desc" where
  "ChatService_ServiceDesc srv =
     \<lparr>ds_service = ''game.v1.ChatService'',
      ds_methods = [\<lparr>md_name = ''SendChat'', md_handler = ChatService_SendChat_Handler srv\<rparr>],
      ds_streams = [\<lparr>sd_name = ''StreamChat'', sd_handler = ChatService_StreamChat_Handler srv, sd_server_streams = True, sd_client_streams = False\<rparr>],
      ds_metadata = ''proto/game/v1/game.proto''\<rparr>"

text \<open>The game server registers its one service three times.\<close>

definition registered :: "'s account_server \<Rightarrow> 's game_server \<Rightarrow> 's chat_server \<Rightarrow> 's service_desc list" where
  "registered accounts game chat = [AccountService_ServiceDesc accounts, GameService_ServiceDesc game, ChatService_ServiceDesc chat]"

section \<open>The codec and its registration\<close>

record codec =
  co_marshal :: "struct \<Rightarrow> string"
  co_unmarshal :: "string \<Rightarrow> struct \<Rightarrow> struct option"
  co_name :: string

definition Codec :: codec where
  "Codec = \<lparr>co_marshal = Marshal, co_unmarshal = Unmarshal, co_name = ''json''\<rparr>"

definition Register :: "(string \<rightharpoonup> codec) \<Rightarrow> (string \<rightharpoonup> codec)" where
  "Register codecs = codecs(co_name Codec \<mapsto> Codec)"

text \<open>Every client registers the codec before it dials and makes it the codec of the connection. \<open>dial\<close> is gRPC's.\<close>

definition newBootstrapClient :: "(codec option \<Rightarrow> 'e + 's grpc_conn) \<Rightarrow> (string \<rightharpoonup> codec) \<Rightarrow> 'e + 's grpc_conn" where
  "newBootstrapClient dial codecs = dial (Register codecs ''json'')"

section \<open>The stubs of a client\<close>

definition call_unary :: "'s grpc_conn \<Rightarrow> string \<Rightarrow> struct \<Rightarrow> struct \<Rightarrow> (struct \<Rightarrow> 'r) \<Rightarrow> 's \<Rightarrow> ('r, 's) outcome" where
  "call_unary cc full_name req blank of_struct s =
     (case cc_invoke cc full_name req blank s of (Inl e, s') \<Rightarrow> (Inl e, s') | (Inr st, s') \<Rightarrow> (Inr (of_struct st), s'))"

definition accountServiceClient_EnsurePlayer :: "'s grpc_conn \<Rightarrow> bootstrap_req \<Rightarrow> 's \<Rightarrow> (bootstrap_resp, 's) outcome" where
  "accountServiceClient_EnsurePlayer cc req =
     call_unary cc ''/game.v1.AccountService/EnsurePlayer'' (bootstrap_req_struct req) (bootstrap_resp_struct new_bootstrap_resp)
       struct_bootstrap_resp"

definition gameServiceClient_ExecuteAction :: "'s grpc_conn \<Rightarrow> action_req \<Rightarrow> 's \<Rightarrow> (action_resp, 's) outcome" where
  "gameServiceClient_ExecuteAction cc req =
     call_unary cc ''/game.v1.GameService/ExecuteAction'' (action_req_struct req) (action_resp_struct new_action_resp) struct_action_resp"

definition chatServiceClient_SendChat :: "'s grpc_conn \<Rightarrow> chat_req \<Rightarrow> 's \<Rightarrow> (json_envelope, 's) outcome" where
  "chatServiceClient_SendChat cc req =
     call_unary cc ''/game.v1.ChatService/SendChat'' (chat_req_struct req) (envelope_struct new_envelope) struct_envelope"

definition stream_kind :: "'s stream_desc \<Rightarrow> string \<times> bool \<times> bool" where
  "stream_kind d = (sd_name d, sd_server_streams d, sd_client_streams d)"

text \<open>Two stubs open a stream of a table by its position: the table of the client is that of a server without code.\<close>

definition client_stream :: "'s grpc_conn \<Rightarrow> 's service_desc \<Rightarrow> nat \<Rightarrow> string \<Rightarrow> 's \<Rightarrow> ('s raw_stream, 's) outcome" where
  "client_stream cc d i full_name = cc_new_stream cc (stream_kind (ds_streams d ! i)) full_name"

definition opened :: "('s raw_stream \<Rightarrow> 'x) \<Rightarrow> ('s raw_stream, 's) outcome \<Rightarrow> ('x, 's) outcome" where
  "opened wrap r = (case r of (Inl e, s) \<Rightarrow> (Inl e, s) | (Inr x, s) \<Rightarrow> (Inr (wrap x), s))"

definition gameServiceClient_GetMarketStream ::
  "'s grpc_conn \<Rightarrow> 's \<Rightarrow> ((stream_req, json_envelope, 's) typed_stream, 's) outcome" where
  "gameServiceClient_GetMarketStream cc s =
     opened gameServiceGetMarketStreamClient
       (client_stream cc (GameService_ServiceDesc UnimplementedGameServiceServer) 0 ''/game.v1.GameService/GetMarketStream'' s)"

definition gameServiceClient_SubscribeToChart ::
  "'s grpc_conn \<Rightarrow> 's \<Rightarrow> ((chart_req, chart_tick_msg, 's) typed_stream, 's) outcome" where
  "gameServiceClient_SubscribeToChart cc s =
     opened gameServiceSubscribeToChartClient
       (client_stream cc (GameService_ServiceDesc UnimplementedGameServiceServer) 1 ''/game.v1.GameService/SubscribeToChart'' s)"

text \<open>The request of a chat stream is sent at once, and the sending side closed.\<close>

definition chatServiceClient_StreamChat :: "'s grpc_conn \<Rightarrow> stream_req \<Rightarrow> 's \<Rightarrow> ('s \<Rightarrow> (json_envelope, 's) outcome, 's) outcome" where
  "chatServiceClient_StreamChat cc req s =
     (case client_stream cc (ChatService_ServiceDesc UnimplementedChatServiceServer) 0 ''/game.v1.ChatService/StreamChat'' s of
        (Inl e, s1) \<Rightarrow> (Inl e, s1)
      | (Inr x, s1) \<Rightarrow>
          (case rs_send_msg x (stream_req_struct req) s1 of
             (Inl e, s2) \<Rightarrow> (Inl e, s2)
           | (Inr _, s2) \<Rightarrow>
               (case rs_close_send x s2 of (Inl e, s3) \<Rightarrow> (Inl e, s3) | (Inr _, s3) \<Rightarrow> (Inr (chatServiceStreamChatClient x), s3))))"

end
