(* ===== verification/WireProps.thy ===== *)
theory WireProps
  imports Wire
begin

text \<open>
  The wire is transparent: over a connection that does what gRPC documents, a stub of the client and the method of the
  server it is named after are the same function, and what is sent on a stream is received.
\<close>

section \<open>Messages\<close>

lemma Codec_simps [simp]: "co_marshal Codec = Marshal" "co_unmarshal Codec = Unmarshal"
  by (simp_all add: Codec_def)

text \<open>Two ends of a stream that is reliable and ordered, as gRPC documents: \<open>q\<close> are the messages under way. \<close>

definition pipe :: "'s raw_stream \<Rightarrow> 's raw_stream \<Rightarrow> ('s \<Rightarrow> string list) \<Rightarrow> bool" where
  "pipe x y q \<longleftrightarrow>
     (\<forall>m s. \<exists>s'. rs_send_msg x m s = (Inr (), s') \<and> q s' = q s @ [co_marshal Codec m]) \<and>
     (\<forall>s b bs blank. q s = b # bs \<longrightarrow>
       (\<exists>s'. rs_recv_msg y blank s = ((case co_unmarshal Codec b blank of None \<Rightarrow> Inl DecodeFailed | Some st \<Rightarrow> Inr st), s') \<and> q s' = bs))"

lemma pipe_send: "pipe x y q \<Longrightarrow> \<exists>s'. rs_send_msg x m s = (Inr (), s') \<and> q s' = q s @ [Marshal m]"
  by (simp add: pipe_def)

lemma pipe_recv: "pipe x y q \<Longrightarrow> q s = b # bs \<Longrightarrow>
    \<exists>s'. rs_recv_msg y blank s = ((case Unmarshal b blank of None \<Rightarrow> Inl DecodeFailed | Some st \<Rightarrow> Inr st), s') \<and> q s' = bs"
  by (simp add: pipe_def)

fun send_all :: "('m \<Rightarrow> 's \<Rightarrow> (unit, 's) outcome) \<Rightarrow> 'm list \<Rightarrow> 's \<Rightarrow> rpc_error option \<times> 's" where
  "send_all send [] s = (None, s)"
| "send_all send (m # ms) s = (case send m s of (Inl e, s') \<Rightarrow> (Some e, s') | (Inr _, s') \<Rightarrow> send_all send ms s')"

fun recv_many :: "('s \<Rightarrow> ('m, 's) outcome) \<Rightarrow> nat \<Rightarrow> 's \<Rightarrow> rpc_error option \<times> 'm list \<times> 's" where
  "recv_many recv 0 s = (None, [], s)"
| "recv_many recv (Suc n) s =
     (case recv s of
        (Inl e, s') \<Rightarrow> (Some e, [], s')
      | (Inr m, s') \<Rightarrow> (case recv_many recv n s' of (e, ms, s2) \<Rightarrow> (e, m # ms, s2)))"

text \<open>What a message type is to the transport: a struct and back, and a new one to receive into.\<close>

locale message =
  fixes to_struct :: "'m \<Rightarrow> struct" and of_struct :: "struct \<Rightarrow> 'm" and blank :: struct and ok :: "'m \<Rightarrow> bool"
  assumes of_to: "of_struct (to_struct m) = m"
    and blank: "zero_struct (to_struct m) = blank"
    and carried: "ok m \<Longrightarrow> struct_ok (to_struct m)"
begin

lemma received: "ok m \<Longrightarrow> Unmarshal (Marshal (to_struct m)) blank = Some (to_struct m)"
  using Unmarshal_Marshal [OF carried, of m] by (simp add: blank)

text \<open>What is sent on one end of a stream is received on the other, in order.\<close>

lemma sent_received:
  assumes "pipe x y q" and "q s = []" and "list_all ok ms"
  shows "\<exists>s1 s2. send_all (\<lambda>m. rs_send_msg x (to_struct m)) ms s = (None, s1) \<and>
    recv_many (ts_recv (typed any of_struct blank y)) (length ms) s1 = (None, ms, s2) \<and> q s2 = []"
proof -
  have send: "\<exists>s1. send_all (\<lambda>m. rs_send_msg x (to_struct m)) ms s = (None, s1) \<and> q s1 = q s @ map (\<lambda>m. Marshal (to_struct m)) ms" for s
  proof (induction ms arbitrary: s)
    case (Cons m ms)
    obtain s' where "rs_send_msg x (to_struct m) s = (Inr (), s')" "q s' = q s @ [Marshal (to_struct m)]"
      using pipe_send [OF assms(1)] by blast
    then show ?case using Cons.IH [of s'] by auto
  qed simp
  have recv: "\<exists>s2. recv_many (ts_recv (typed any of_struct blank y)) (length ms) s1 = (None, ms, s2) \<and> q s2 = []"
    if "q s1 = map (\<lambda>m. Marshal (to_struct m)) ms" for s1
    using that assms(3)
  proof (induction ms arbitrary: s1)
    case (Cons m ms)
    obtain s' where "rs_recv_msg y blank s1 = (Inr (to_struct m), s')" "q s' = map (\<lambda>m. Marshal (to_struct m)) ms"
      using pipe_recv [OF assms(1), of s1 "Marshal (to_struct m)" _ blank] Cons.prems received [of m] by auto
    then show ?case using Cons.IH [of s'] Cons.prems(2) by (auto simp: typed_def of_to)
  qed simp
  show ?thesis using send [of s] recv assms(2) by force
qed

end

definition envelope_ok :: "json_envelope \<Rightarrow> bool" where
  "envelope_ok m \<longleftrightarrow> in64 (je_sequence m)"

definition action_req_ok :: "action_req \<Rightarrow> bool" where
  "action_req_ok m \<longleftrightarrow> sorted (map fst (ax_metadata m)) \<and> distinct (map fst (ax_metadata m))"

definition chart_req_ok :: "chart_req \<Rightarrow> bool" where
  "chart_req_ok m \<longleftrightarrow> 0 \<le> hq_history_limit m \<and> hq_history_limit m < 2 ^ 32 \<and> 0 \<le> hq_orderbook_depth m \<and> hq_orderbook_depth m < 2 ^ 32"

definition chart_tick_ok :: "chart_tick_msg \<Rightarrow> bool" where
  "chart_tick_ok m \<longleftrightarrow> in64 (ht_sequence m)"

lemmas at_defs = text_at_def number_at_def flag_at_def texts_at_def map_at_def zero_struct_def struct_ok_def

interpretation envelope: message envelope_struct struct_envelope "envelope_struct new_envelope" envelope_ok
  by unfold_locales (simp_all add: envelope_struct_def struct_envelope_def new_envelope_def envelope_ok_def at_defs)

interpretation bootstrap_req: message bootstrap_req_struct struct_bootstrap_req "bootstrap_req_struct new_bootstrap_req" "\<lambda>_. True"
  by unfold_locales (simp_all add: bootstrap_req_struct_def struct_bootstrap_req_def new_bootstrap_req_def at_defs)

interpretation bootstrap_resp: message bootstrap_resp_struct struct_bootstrap_resp "bootstrap_resp_struct new_bootstrap_resp" "\<lambda>_. True"
  by unfold_locales (simp_all add: bootstrap_resp_struct_def struct_bootstrap_resp_def new_bootstrap_resp_def at_defs)

interpretation action_req: message action_req_struct struct_action_req "action_req_struct new_action_req" action_req_ok
  by unfold_locales (simp_all add: action_req_struct_def struct_action_req_def new_action_req_def action_req_ok_def at_defs)

interpretation action_resp: message action_resp_struct struct_action_resp "action_resp_struct new_action_resp" "\<lambda>_. True"
  by unfold_locales (simp_all add: action_resp_struct_def struct_action_resp_def new_action_resp_def at_defs)

interpretation stream_req: message stream_req_struct struct_stream_req "stream_req_struct new_stream_req" "\<lambda>_. True"
  by unfold_locales (simp_all add: stream_req_struct_def struct_stream_req_def new_stream_req_def at_defs)

interpretation chat_req: message chat_req_struct struct_chat_req "chat_req_struct new_chat_req" "\<lambda>_. True"
  by unfold_locales (simp_all add: chat_req_struct_def struct_chat_req_def new_chat_req_def at_defs)

interpretation chart_req: message chart_req_struct struct_chart_req "chart_req_struct new_chart_req" chart_req_ok
  by unfold_locales (simp_all add: chart_req_struct_def struct_chart_req_def new_chart_req_def chart_req_ok_def at_defs)

interpretation chart_tick: message chart_tick_struct struct_chart_tick "chart_tick_struct new_chart_tick" chart_tick_ok
  by unfold_locales (simp_all add: chart_tick_struct_def struct_chart_tick_def new_chart_tick_def chart_tick_ok_def at_defs)

section \<open>Calls\<close>

definition full_method :: "'s service_desc \<Rightarrow> string \<Rightarrow> string" where
  "full_method d name = CHR ''/'' # ds_service d @ CHR ''/'' # name"

text \<open>What gRPC documents of a call: the request is written by the codec of the connection; the method of the registered
  services with this full name is run by its handler, whose decoder is the codec of the server on what was written;
  its error is the error of the call, its answer is written and read back into the message of the caller.\<close>

definition carries :: "codec \<Rightarrow> codec \<Rightarrow> 's service_desc list \<Rightarrow> 's grpc_conn \<Rightarrow> bool" where
  "carries client server services cc \<longleftrightarrow>
     (\<forall>d \<in> set services. \<forall>m \<in> set (ds_methods d). \<forall>req blank s.
       cc_invoke cc (full_method d (md_name m)) req blank s =
         (case md_handler m (co_unmarshal server (co_marshal client req)) None s of
            (Inl e, s') \<Rightarrow> (Inl e, s')
          | (Inr resp, s') \<Rightarrow>
              (case co_unmarshal client (co_marshal server resp) blank of
                 None \<Rightarrow> (Inl DecodeFailed, s')
               | Some st \<Rightarrow> (Inr st, s'))))"

lemma carriesD:
  assumes "carries client server services cc" "d \<in> set services" "\<lparr>md_name = name, md_handler = h\<rparr> \<in> set (ds_methods d)"
  shows "cc_invoke cc (full_method d name) req blank s =
     (case h (co_unmarshal server (co_marshal client req)) None s of
        (Inl e, s') \<Rightarrow> (Inl e, s')
      | (Inr resp, s') \<Rightarrow> (case co_unmarshal client (co_marshal server resp) blank of None \<Rightarrow> (Inl DecodeFailed, s') | Some st \<Rightarrow> (Inr st, s')))"
  using assms unfolding carries_def by fastforce

text \<open>A request and an answer that arrive.\<close>

lemma unary_transparent:
  assumes "Unmarshal (Marshal (to_q req)) blank_q = Some (to_q req)" "of_q (to_q req) = req"
    and "\<forall>r s'. serve req s = (Inr r, s') \<longrightarrow> Unmarshal (Marshal (to_r r)) blank_r = Some (to_r r)" "\<forall>r. of_r (to_r r) = r"
    and "cc_invoke cc full_name (to_q req) blank_r s =
       (case unary full_name blank_q of_q to_r serve (Unmarshal (Marshal (to_q req))) None s of
          (Inl e, s') \<Rightarrow> (Inl e, s')
        | (Inr resp, s') \<Rightarrow> (case Unmarshal (Marshal resp) blank_r of None \<Rightarrow> (Inl DecodeFailed, s') | Some st \<Rightarrow> (Inr st, s')))"
  shows "call_unary cc full_name (to_q req) blank_r of_r s = serve req s"
proof -
  obtain r s' where m: "serve req s = (r, s')" by fastforce
  then show ?thesis using assms by (cases r) (simp_all add: call_unary_def unary_def)
qed

text \<open>C22: The wire is transparent. Over a connection that does what gRPC documents, with the codec every program
  here registers, calling a stub of the client is calling the method of the server it is named after: the same
  request arrives there, whatever its text, and the same answer or error comes back.\<close>
theorem wire_transparent:
  assumes "carries (the (Register codecs ''json'')) Codec (registered accounts game chat) cc"
    and "action_req_ok action" and "\<forall>r s'. cs_SendChat chat line s = (Inr r, s') \<longrightarrow> envelope_ok r"
  shows "accountServiceClient_EnsurePlayer cc login s = as_EnsurePlayer accounts login s \<and>
    gameServiceClient_ExecuteAction cc action s = gs_ExecuteAction game action s \<and>
    chatServiceClient_SendChat cc line s = cs_SendChat chat line s"
proof -
  have co: "the (Register codecs ''json'') = Codec" by (simp add: Register_def Codec_def)
  note c = carriesD [OF assms(1), unfolded co Codec_simps]
  have "accountServiceClient_EnsurePlayer cc login s = as_EnsurePlayer accounts login s"
    unfolding accountServiceClient_EnsurePlayer_def
  proof (rule unary_transparent [where to_q = bootstrap_req_struct and of_q = struct_bootstrap_req and blank_q = "bootstrap_req_struct new_bootstrap_req" and to_r = bootstrap_resp_struct
        and serve = "as_EnsurePlayer accounts"])
    show "\<forall>r s'. as_EnsurePlayer accounts login s = (Inr r, s') \<longrightarrow>
        Unmarshal (Marshal (bootstrap_resp_struct r)) (bootstrap_resp_struct new_bootstrap_resp) = Some (bootstrap_resp_struct r)"
      by (simp add: bootstrap_resp.received)
  qed (use c [of "AccountService_ServiceDesc accounts" "''EnsurePlayer''" "AccountService_EnsurePlayer_Handler accounts"]
      in \<open>simp_all add: bootstrap_req.received bootstrap_req.of_to bootstrap_resp.of_to registered_def AccountService_ServiceDesc_def AccountService_EnsurePlayer_Handler_def full_method_def\<close>)
  moreover have "gameServiceClient_ExecuteAction cc action s = gs_ExecuteAction game action s"
    unfolding gameServiceClient_ExecuteAction_def
  proof (rule unary_transparent [where to_q = action_req_struct and of_q = struct_action_req and blank_q = "action_req_struct new_action_req" and to_r = action_resp_struct
        and serve = "gs_ExecuteAction game"])
    show "\<forall>r s'. gs_ExecuteAction game action s = (Inr r, s') \<longrightarrow>
        Unmarshal (Marshal (action_resp_struct r)) (action_resp_struct new_action_resp) = Some (action_resp_struct r)"
      by (simp add: action_resp.received)
  qed (use c [of "GameService_ServiceDesc game" "''ExecuteAction''" "GameService_ExecuteAction_Handler game"]
      in \<open>simp_all add: action_req.received [OF assms(2)] action_req.of_to action_resp.of_to registered_def GameService_ServiceDesc_def GameService_ExecuteAction_Handler_def full_method_def\<close>)
  moreover have "chatServiceClient_SendChat cc line s = cs_SendChat chat line s"
    unfolding chatServiceClient_SendChat_def
  proof (rule unary_transparent [where to_q = chat_req_struct and of_q = struct_chat_req and blank_q = "chat_req_struct new_chat_req" and to_r = envelope_struct
        and serve = "cs_SendChat chat"])
    show "\<forall>r s'. cs_SendChat chat line s = (Inr r, s') \<longrightarrow>
        Unmarshal (Marshal (envelope_struct r)) (envelope_struct new_envelope) = Some (envelope_struct r)"
      using assms(3) by (simp add: envelope.received)
  qed (use c [of "ChatService_ServiceDesc chat" "''SendChat''" "ChatService_SendChat_Handler chat"]
      in \<open>simp_all add: chat_req.received chat_req.of_to envelope.of_to registered_def ChatService_ServiceDesc_def ChatService_SendChat_Handler_def full_method_def\<close>)
  ultimately show ?thesis by blast
qed

definition echo_accounts :: "nat account_server" where
  "echo_accounts = \<lparr>as_EnsurePlayer = (\<lambda>q s. (Inr (new_bootstrap_resp\<lparr>bp_player_id := br_ssh_username q\<rparr>), Suc s))\<rparr>"

definition echo_game :: "nat game_server" where
  "echo_game = UnimplementedGameServiceServer\<lparr>gs_ExecuteAction := (\<lambda>q s. (Inr (new_action_resp\<lparr>ay_response_json := ax_payload_json q\<rparr>), Suc s))\<rparr>"

definition echo_chat :: "nat chat_server" where
  "echo_chat = UnimplementedChatServiceServer"

text \<open>A connection that looks a method up in the tables and runs its handler on the bytes.\<close>

definition direct_connection :: "'s service_desc list \<Rightarrow> 's grpc_conn" where
  "direct_connection services =
     \<lparr>cc_invoke = (\<lambda>name req blank s.
        case map_of (concat (map (\<lambda>d. map (\<lambda>m. (full_method d (md_name m), md_handler m)) (ds_methods d)) services)) name of
          None \<Rightarrow> (Inl (Unimplemented name), s)
        | Some h \<Rightarrow>
            (case h (Unmarshal (Marshal req)) None s of
               (Inl e, s') \<Rightarrow> (Inl e, s')
             | (Inr resp, s') \<Rightarrow> (case Unmarshal (Marshal resp) blank of None \<Rightarrow> (Inl DecodeFailed, s') | Some st \<Rightarrow> (Inr st, s')))),
      cc_new_stream = (\<lambda>_ name s. (Inl (Unimplemented name), s))\<rparr>"

lemma direct_connection_carries: "carries Codec Codec (registered accounts game chat) (direct_connection (registered accounts game chat))"
  unfolding carries_def Codec_simps
  by (simp add: direct_connection_def registered_def AccountService_ServiceDesc_def GameService_ServiceDesc_def
      ChatService_ServiceDesc_def full_method_def)

theorem wire_transparent_witness:
  "fst (gameServiceClient_ExecuteAction (direct_connection (registered echo_accounts echo_game echo_chat))
     (new_action_req\<lparr>ax_payload_json := CHR 0x22 # ''<'' @ [CHR 0x0A, CHR 0x5C]\<rparr>) 3) =
   Inr (new_action_resp\<lparr>ay_response_json := CHR 0x22 # ''<'' @ [CHR 0x0A, CHR 0x5C]\<rparr>)"
proof -
  have "carries (the (Register Map.empty ''json'')) Codec (registered echo_accounts echo_game echo_chat)
      (direct_connection (registered echo_accounts echo_game echo_chat))"
    using direct_connection_carries by (simp add: Register_def Codec_def)
  from wire_transparent [OF this, of "new_action_req\<lparr>ax_payload_json := CHR 0x22 # ''<'' @ [CHR 0x0A, CHR 0x5C]\<rparr>" new_chat_req 3]
  show ?thesis
    by (simp add: echo_chat_def echo_game_def UnimplementedChatServiceServer_def action_req_ok_def new_action_req_def)
qed

section \<open>Streams\<close>

text \<open>A stub opens the stream of the tables that it is named after, with the directions registered there.\<close>

theorem stream_stubs_named:
  "full_method (GameService_ServiceDesc game) (sd_name (ds_streams (GameService_ServiceDesc game) ! 0)) = ''/game.v1.GameService/GetMarketStream''"
  "full_method (GameService_ServiceDesc game) (sd_name (ds_streams (GameService_ServiceDesc game) ! 1)) = ''/game.v1.GameService/SubscribeToChart''"
  "full_method (ChatService_ServiceDesc chat) (sd_name (ds_streams (ChatService_ServiceDesc chat) ! 0)) = ''/game.v1.ChatService/StreamChat''"
  "map stream_kind (ds_streams (GameService_ServiceDesc game)) = map stream_kind (ds_streams (GameService_ServiceDesc UnimplementedGameServiceServer))"
  by (simp_all add: GameService_ServiceDesc_def ChatService_ServiceDesc_def full_method_def stream_kind_def)

text \<open>Requests and envelopes of a market stream arrive as they were sent, in order.\<close>

theorem market_stream_in_order:
  assumes "pipe x y q" "q s = []"
  shows "\<exists>s1 s2. send_all (ts_send (gameServiceGetMarketStreamClient x)) reqs s = (None, s1) \<and>
      recv_many (ts_recv (gameServiceGetMarketStreamServer y)) (length reqs) s1 = (None, reqs, s2) \<and> q s2 = []"
    and "list_all envelope_ok ms \<Longrightarrow> \<exists>s1 s2. send_all (ts_send (gameServiceGetMarketStreamServer x)) ms s = (None, s1) \<and>
      recv_many (ts_recv (gameServiceGetMarketStreamClient y)) (length ms) s1 = (None, ms, s2) \<and> q s2 = []"
  using stream_req.sent_received [OF assms, of reqs] envelope.sent_received [OF assms, of ms]
  by (simp_all add: gameServiceGetMarketStreamClient_def gameServiceGetMarketStreamServer_def typed_def list_all_iff)

theorem chart_stream_in_order:
  assumes "pipe x y q" "q s = []"
  shows "list_all chart_req_ok reqs \<Longrightarrow> \<exists>s1 s2. send_all (ts_send (gameServiceSubscribeToChartClient x)) reqs s = (None, s1) \<and>
      recv_many (ts_recv (gameServiceSubscribeToChartServer y)) (length reqs) s1 = (None, reqs, s2) \<and> q s2 = []"
    and "list_all chart_tick_ok ms \<Longrightarrow> \<exists>s1 s2. send_all (ts_send (gameServiceSubscribeToChartServer x)) ms s = (None, s1) \<and>
      recv_many (ts_recv (gameServiceSubscribeToChartClient y)) (length ms) s1 = (None, ms, s2) \<and> q s2 = []"
  using chart_req.sent_received [OF assms, of reqs] chart_tick.sent_received [OF assms, of ms]
  by (simp_all add: gameServiceSubscribeToChartClient_def gameServiceSubscribeToChartServer_def typed_def)

end
