(* ===== verification/Launch.thy ===== *)
theory Launch
  imports ServerProps Gateway WireProps
begin

text \<open>
  The main function of the game server around its start (theory \<open>Server\<close>): the addresses from the environment, the
  registered services, the codec, the health service, and what ends the process. Listening is a parameter by its outcome.
\<close>

text \<open>Unlike the gateway's, this reading of the environment takes a blank text as it is.\<close>

definition game_envOr :: "environment \<Rightarrow> string \<Rightarrow> string \<Rightarrow> string" where
  "game_envOr env key fallback = (if env key \<noteq> [] then env key else fallback)"

datatype fatal = StartFailed start_error | ListenFailed string

record 's serving =
  se_address :: string
  se_codec :: codec
  se_cache :: "string option"
  se_health :: "string \<rightharpoonup> bool"
  se_services :: "'s service_desc list"
  se_service :: service
  se_events :: events_engine

text \<open>\<open>api\<close> is the service object as it is registered, \<open>listens\<close> tells at which addresses it can listen.\<close>

definition grpc_game_main ::
  "environment \<Rightarrow> (string \<Rightarrow> bool) \<Rightarrow> 's account_server \<times> 's game_server \<times> 's chat_server \<Rightarrow>
   server_files \<Rightarrow> io_fault option \<Rightarrow> time \<Rightarrow> rng \<Rightarrow> rng \<Rightarrow> rng \<Rightarrow> fatal + 's serving" where
  "grpc_game_main env listens api files io now roles_rng intel_rng events_rng =
     (let addr = game_envOr env ''GRPC_LISTEN_ADDR'' '':9090'' in
      case start_server files io now roles_rng intel_rng events_rng of
        Inl e \<Rightarrow> Inl (StartFailed e)
      | Inr (sv, events) \<Rightarrow>
          if \<not> listens addr then Inl (ListenFailed addr)
          else (case api of (accounts, game, chat) \<Rightarrow>
                  Inr \<lparr>se_address = addr, se_codec = Codec,
                       se_cache = (if env ''REDIS_ADDR'' \<noteq> [] then Some (env ''REDIS_ADDR'') else None), se_health = [[] \<mapsto> True], se_services = registered accounts game chat, se_service = sv, se_events = events\<rparr>))"

text \<open>The default addresses fit: with an environment that names none the gateway dials the port the game server
  listens on.\<close>

theorem default_ports_agree:
  assumes "env ''GRPC_LISTEN_ADDR'' = []" and "env ''GRPC_GAME_ADDR'' = []"
    and "grpc_game_main env listens api files io now r1 r2 r3 = Inr sv" and "gateway_start env exists True = Some gw"
  shows "SplitHostPort (se_address sv) = Some ([], ''9090'') \<and> SplitHostPort (gw_grpc_target gw) = Some (''127.0.0.1'', ''9090'')"
proof -
  have "se_address sv = '':9090''"
    using assms(1,3) by (auto simp: grpc_game_main_def game_envOr_def Let_def split: sum.splits prod.splits if_splits)
  moreover have "gw_grpc_target gw = ''127.0.0.1:9090''"
    using assms(1,2,4) by (auto simp: gateway_start_def env_or_def envOr_def Let_def trim_space_def)
  moreover have "SplitHostPort '':9090'' = Some ([], ''9090'')" "SplitHostPort ''127.0.0.1:9090'' = Some (''127.0.0.1'', ''9090'')"
    by code_simp+
  ultimately show ?thesis by simp
qed

end
