(* ===== verification/Logs.thy ===== *)
theory Logs
  imports Gateway
begin

text \<open>
  The loggers: how \<^verbatim>\<open>internal/logx\<close> and \<^verbatim>\<open>internal/clientlog\<close> choose level, format and file from the environment. What is
  logged is not modelled, nothing reads it. Parameters are the configuration and temporary directories, the
  joining of paths, and for which files the directory can be made and the file opened.
\<close>

datatype log_level = LevelDebug | LevelInfo | LevelWarn | LevelError

definition parse_level :: "string \<Rightarrow> log_level" where
  "parse_level value =
     (let v = trim_space (to_lower value) in
      if v = ''debug'' then LevelDebug
      else if v = ''warn'' \<or> v = ''warning'' then LevelWarn
      else if v = ''error'' then LevelError
      else LevelInfo)"

datatype log_output = Stdout | Discard | LogFile string

record logger =
  lg_level :: log_level
  lg_json :: bool
  lg_output :: log_output
  lg_component :: string

definition is_json :: "string \<Rightarrow> bool" where
  "is_json format \<longleftrightarrow> trim_space (to_lower format) = ''json''"

definition newBase :: "environment \<Rightarrow> logger" where
  "newBase env =
     \<lparr>lg_level = parse_level (env ''LOG_LEVEL''), lg_json = is_json (env ''LOG_FORMAT''), lg_output = Stdout, lg_component = []\<rparr>"

definition with_component :: "string \<Rightarrow> logger \<Rightarrow> logger" where
  "with_component name l = l\<lparr>lg_component := name\<rparr>"

section \<open>The log of the client\<close>

record log_system =
  ls_config_dir :: "string option"
  ls_temp_dir :: string
  ls_join :: "string \<Rightarrow> string list \<Rightarrow> string"
  ls_mkdir :: "string \<Rightarrow> bool"
  ls_open :: "string \<Rightarrow> bool"

definition log_candidates :: "environment \<Rightarrow> log_system \<Rightarrow> string list" where
  "log_candidates env sys =
     (let explicit = trim_space (env ''CLIENT_LOG_PATH'') in
      (if explicit \<noteq> [] then [explicit] else []) @
      (case ls_config_dir sys of None \<Rightarrow> [] | Some dir \<Rightarrow> [ls_join sys dir [''ssh-arena'', ''client.log'']]) @
      [ls_join sys (ls_temp_dir sys) [''ssh-arena-client.log'']])"

text \<open>The writer and the path it is shown as.\<close>

fun first_writer :: "log_system \<Rightarrow> string list \<Rightarrow> log_output \<times> string" where
  "first_writer sys [] = (Discard, [])"
| "first_writer sys (c # cs) =
     (if c = [] then first_writer sys cs
      else if \<not> ls_mkdir sys c then first_writer sys cs
      else if ls_open sys c then (LogFile c, c)
      else first_writer sys cs)"

definition openWriter :: "environment \<Rightarrow> log_system \<Rightarrow> log_output \<times> string" where
  "openWriter env sys = first_writer sys (log_candidates env sys)"

definition initLogger :: "environment \<Rightarrow> log_system \<Rightarrow> logger \<times> string" where
  "initLogger env sys =
     (case openWriter env sys of
        (w, path) \<Rightarrow>
          (\<lparr>lg_level = parse_level (env_or env ''CLIENT_LOG_LEVEL'' (env_or env ''LOG_LEVEL'' ''info'')),
            lg_json = is_json (env_or env ''CLIENT_LOG_FORMAT'' (env_or env ''LOG_FORMAT'' ''text'')), lg_output = w, lg_component = []\<rparr>,
           path))"

section \<open>Facts\<close>

lemma first_writer_find:
  "first_writer sys cs =
     (case find (\<lambda>c. c \<noteq> [] \<and> ls_mkdir sys c \<and> ls_open sys c) cs of None \<Rightarrow> (Discard, []) | Some c \<Rightarrow> (LogFile c, c))"
  by (induction cs) auto

text \<open>The client always gets a logger: it writes to the first file it may write, an explicit one before all others, and
  discards what it logs only when no file can be opened; the path it shows is the file it writes.\<close>

theorem initLogger_writes:
  assumes "initLogger env sys = (l, path)"
  shows "lg_output l = (if path = [] then Discard else LogFile path)"
    "path = [] \<longleftrightarrow> (\<forall>c \<in> set (log_candidates env sys). c = [] \<or> \<not> ls_mkdir sys c \<or> \<not> ls_open sys c)"
    "trim_space (env ''CLIENT_LOG_PATH'') \<noteq> [] \<Longrightarrow> ls_mkdir sys (trim_space (env ''CLIENT_LOG_PATH'')) \<Longrightarrow>
      ls_open sys (trim_space (env ''CLIENT_LOG_PATH'')) \<Longrightarrow> path = trim_space (env ''CLIENT_LOG_PATH'')"
proof -
  let ?P = "\<lambda>c. c \<noteq> [] \<and> ls_mkdir sys c \<and> ls_open sys c" and ?cs = "log_candidates env sys"
  have p: "path = (case find ?P ?cs of None \<Rightarrow> [] | Some c \<Rightarrow> c)"
    and o: "lg_output l = (case find ?P ?cs of None \<Rightarrow> Discard | Some c \<Rightarrow> LogFile c)"
    using assms by (auto simp: initLogger_def openWriter_def first_writer_find split: option.splits prod.splits)
  have some: "?P c" if "find ?P ?cs = Some c" for c using that by (metis (mono_tags, lifting) find_Some_iff)
  have "(path = [] \<longleftrightarrow> find ?P ?cs = None) \<and> lg_output l = (if path = [] then Discard else LogFile path)"
  proof (cases "find ?P ?cs")
    case (Some c)
    then show ?thesis using some [OF Some] unfolding p o Some by simp
  qed (simp add: p o)
  then show "lg_output l = (if path = [] then Discard else LogFile path)"
    "path = [] \<longleftrightarrow> (\<forall>c \<in> set ?cs. c = [] \<or> \<not> ls_mkdir sys c \<or> \<not> ls_open sys c)"
    by (auto simp: find_None_iff)
  show "path = trim_space (env ''CLIENT_LOG_PATH'')" if "trim_space (env ''CLIENT_LOG_PATH'') \<noteq> []"
    "ls_mkdir sys (trim_space (env ''CLIENT_LOG_PATH''))" "ls_open sys (trim_space (env ''CLIENT_LOG_PATH''))"
    using that p by (simp add: log_candidates_def Let_def)
qed

end
