(* ===== verification/Spec2Isabelle.thy ===== *)
theory Spec2Isabelle
  imports BookProps PriceEngine StoreProps LeaderboardProps Chat ExchangeProps AccountProps RoleProps ScanProps
    MarketEventProps IntelProps ActionProps GameProps ChartProps StreamProps ClientRun LoginProps DirectMessages Extensions
    ScreenProps ServerProps Settlement
    Launch Logs
begin

text \<open>
  Verification of ssh-arena, an exchange game: players trade tickers against each other, random events and bought
  information move the market, and every player plays from a terminal.

  \<^bold>\<open>The program.\<close> The SSH gateway (\<^verbatim>\<open>cmd/ssh-server\<close>) logs a player in and prints a session or an install command. The
  terminal client (\<^verbatim>\<open>cmd/game-client\<close>) turns that into a configuration, reads two gRPC streams and sends actions. The
  gRPC service (\<^verbatim>\<open>internal/grpcapi\<close>) hands them to the gameplay engine (\<^verbatim>\<open>internal/gameplay\<close>), which keeps the accounts
  and calls the exchange (\<^verbatim>\<open>internal/exchange\<close>: a book of \<^verbatim>\<open>internal/orderbook\<close> and a price per ticker), the stores
  (\<^verbatim>\<open>internal/state\<close>), the chat (\<^verbatim>\<open>internal/chat\<close>), the intel engine (\<^verbatim>\<open>internal/intel\<close>) and the role allocator
  (\<^verbatim>\<open>internal/roles\<close>). The planner of random events (\<^verbatim>\<open>internal/marketevents\<close>) and the chart engine
  (\<^verbatim>\<open>internal/charting\<close>) run beside it on their own clocks. The server (\<^verbatim>\<open>cmd/grpc-game\<close>) puts all of it together.

  \<^bold>\<open>The theories.\<close> A component has a theory of its own with its state as a record and one definition per operation,
  named as in the code, and a theory of facts.
  \<^item> \<open>Prelude\<close>, \<open>Float64\<close>, \<open>Rand\<close>, \<open>Scan\<close>, \<open>Fanout\<close>: integers of 64 bits, floating point, the random generator, the
    formatted readers and writers of \<^verbatim>\<open>fmt\<close>, and the hub of buffered channels that market, chat and private feeds share.
  \<^item> \<open>OrderBook\<close> with \<open>PriceLadder\<close>, \<open>Matching\<close>, \<open>BookProps\<close>: the book of a ticker. The two sides are one locale,
    \<open>price_ladder\<close>, interpreted for bids and asks; \<open>Place\<close> refines a matching engine on two priority queues.
  \<^item> \<open>PriceEngine\<close>: the price after orders and shocks, with its bounds.
  \<^item> \<open>Stores\<close>, \<open>StoreProps\<close>, \<open>LeaderboardProps\<close>: the four stores on a disk whose every write may fail at each of its four
    steps; the locale \<open>bounded_log\<close> is interpreted for the three logs.
  \<^item> \<open>Chat\<close>, \<open>Exchange\<close>, \<open>ExchangeProps\<close>: the chat and exchange services; both feeds and the private feeds interpret the
    locale \<open>fanout\<close>.
  \<^item> \<open>Roles\<close>, \<open>Accounts\<close>, \<open>Gameplay\<close>, \<open>Actions\<close>, with \<open>RoleProps\<close>, \<open>AccountProps\<close>, \<open>ActionProps\<close>, \<open>GameProps\<close>: roles, charges,
    reservations and settlement, the engine's state and its actions, over whole runs (\<open>reachable_game\<close>).
    \<open>Settlement\<close> abstracts the accounts to a double-entry ledger and shows that an accepted order refines the posting of
    its trades.
  \<^item> \<open>MarketEvents\<close>, \<open>Intel\<close>, with \<open>MarketEventProps\<close>, \<open>IntelProps\<close>: random events and what of them is sold beforehand, as
    step relations over planning, buying and the timers.
  \<^item> \<open>Charts\<close>, \<open>Streams\<close>, with \<open>ChartProps\<close>, \<open>StreamProps\<close>: the chart engine, whose emission is split where another
    goroutine can run, and the gRPC streams as state machines over the branches of their \<^verbatim>\<open>select\<close>.
  \<^item> \<open>Session\<close>, \<open>SessionProps\<close>, \<open>LoginProps\<close>: from the SSH login to the configuration of a client, and its saved profile.
  \<^item> \<open>ClientState\<close>, \<open>ClientText\<close>, \<open>Client\<close>, \<open>ClientLoop\<close>, \<open>ClientFeeds\<close>, \<open>ClientDraw\<close>: the client's state, the numbers it shows
    and reads, its keys and mouse, its loop, its streams and its frames; \<open>ClientProps\<close>, \<open>ClientTiles\<close>, \<open>ClientRun\<close>,
    \<open>ScreenProps\<close> have the facts, \<open>DirectMessages\<close> follows a message from one terminal to another.
  \<^item> \<open>Extensions\<close>: registries, the configuration files, transactions, and the two extensions over the tables.
  \<^item> \<open>Server\<close>, \<open>ServerProps\<close>, \<open>Launch\<close>: the start of the server, what a restart keeps, and its \<^verbatim>\<open>main\<close>.
  \<^item> \<open>Gateway\<close>: the addresses the gateway reads from its environment, listens on and prints.
  \<^item> \<open>Json\<close>, \<open>JsonProps\<close>, \<open>Wire\<close>, \<open>WireProps\<close>: the codec of the transport as text, the messages of \<^verbatim>\<open>gen/game/v1\<close> with
    their stubs, handlers and tables; the nine messages interpret the locale \<open>message\<close>.
  \<^item> \<open>Logs\<close>: the loggers of the server (\<^verbatim>\<open>internal/logx\<close>) and of the client (\<^verbatim>\<open>internal/clientlog\<close>).

  \<^bold>\<open>What is shown.\<close>
  \<^item> Trading: the book is price-time priority matching, conserves quantity, honours limits and is never crossed; an
    accepted order posts its trades to the ledger of all players, from which only the charges leave and no share is
    made or lost, as long as every seller holds what he sells; a reservation whose notional does not wrap promises
    nothing twice; an order the exchange answers with an error gets its reservation back; only the owner of an open order
    cancels it; an executed order reaches the streams; one order moves the price by at most 3.5 percent and a tick.
  \<^item> Whole runs: the invariants of every reachable book, exchange, game and client, and the numbers of the envelopes
    under any interleaving of streams and calls.
  \<^item> Return: the matching loop always stops; exactly which action hangs the engine and which key hangs the client.
  \<^item> The wire is transparent: what a message marshals to is parsed back to it, and a call of a stub over a connection that
    does what gRPC documents is the method of the registered service, on the same request and with the same answer.
  \<^item> Information: every random event is announced before it fires, and with one lead time every buyer of a preview
    is shown it by its time; a direct message goes once to the feeds of its two players.
  \<^item> Ends meet: what a level on the screen says is what a click on it orders, what the ticket shows is what the server
    reserves, a direct message arrives word for word, both doors of the gateway give the same player, the next launch
    resumes the last one.
  \<^item> Failures the code has, each a theorem: several fills overdraw an account, a notional that wraps
    promises cash twice, shares that are not held are sold, an order that was executed is answered with an error and
    loses its reservation, a cancellation can hit another player's order of the same identifier, a preview paid for is lost
    with mixed lead times, an emission panics when a subscriber leaves, a private feed keeps the first player named, the
    saved profile shadows a token, a repeated action is a new request, a restart strands the reservations, a transfer to
    oneself passes under another spelling.

  \<^bold>\<open>Bounds and fuel.\<close> \<open>int64\<close> is \<open>int\<close> with its wrap-around written out; theorems about money assume the sums they name fit.
  \<open>float64\<close> is a rational rounded to 53 bits; infinities, NaN and the sign of zero do not occur in what is modelled.
  The client reads back prices up to \<open>2 ^ 44\<close> cents. The loops of the code are recursion on their data; the matching loop
  is \<open>while_option\<close>, with the proof that it is never \<open>None\<close>. The JSON parser has fuel, twice the length of the text and
  one: \<open>parse_fuel_enough\<close> shows that with more of it no text is read differently. Go's \<^verbatim>\<open>int\<close> is unbounded where it
  counts keys, cells or list elements of the client.

  \<^bold>\<open>Parameters.\<close> What the code reads from outside is an argument: the clock, fresh identifiers, random draws, disk faults,
  the order of a range over a map, which sends of the transport succeed, how a gRPC call or an SSH session ends, the
  decoded content of a file, the directory of the user's configuration, the UUID a database column makes of a text, how an instant is written as a time of day, the gRPC connection, and how opening a file or a
  listener ends. The engines keep JSON as the value it encodes, \<open>Json\<close> writes it out; text is ASCII. Operations under a mutex are one step; a call that would lock a mutex its caller holds does not return.

  \<^bold>\<open>Not modelled.\<close> Colours and styles of the terminal; the lines that the program logs on its way, which no part reads
  back; the nesting limit of JSON and text beyond ASCII; the replies of the health service, the reflection
  service and the shutdown of the server on a signal; the clipboard, which succeeds or
  fails; the tables no Go code uses.
\<close>

end
